(* ===== verification/Prelude.thy ===== *)
theory Prelude
  imports Main "HOL-Library.Char_ord" "HOL-Library.List_Lexorder" "HOL-Library.Product_Lexorder"
begin

text \<open>
  The shared vocabulary of the development: Go's times and byte strings, the operation
  type of the code that talks to the database (a state transformer that returns either
  an error or a value, and always a state), its bind, and the fact collections the
  component theories extend.

  Times are nanoseconds since the Unix epoch (\<open>time.Time\<close> at its full resolution),
  durations are nanoseconds. The database stores milliseconds (\<open>UnixMilli\<close>), and the
  model keeps the two resolutions apart, because the code compares sometimes at one and
  sometimes at the other.
\<close>

named_theorems op_simps \<open>evaluation of operations in the error-and-state monad\<close>
named_theorems row_simps \<open>effect of single-row updates on the columns\<close>

section \<open>Times\<close>

type_synonym gotime = int
type_synonym duration = int
type_synonym millis = int

definition zero_time :: gotime where
  "zero_time = - 62135596800000000000"

definition is_zero :: "gotime \<Rightarrow> bool" where
  "is_zero t \<longleftrightarrow> t = zero_time"

definition unix_milli :: "gotime \<Rightarrow> millis" where
  "unix_milli t = t div 1000000"

abbreviation millisecond :: duration where "millisecond \<equiv> 1000000"
abbreviation second :: duration where "second \<equiv> 1000000000"
abbreviation minute :: duration where "minute \<equiv> 60 * second"
abbreviation hour :: duration where "hour \<equiv> 60 * minute"

text \<open>\<open>timeFromMillis\<close>: nonpositive database timestamps read back as the zero time.\<close>

definition timeFromMillis :: "millis \<Rightarrow> gotime" where
  "timeFromMillis ts = (if ts \<le> 0 then zero_time else ts * 1000000)"

lemma is_zero_timeFromMillis [simp]: "is_zero (timeFromMillis ts) \<longleftrightarrow> ts \<le> 0"
  by (auto simp: is_zero_def timeFromMillis_def zero_time_def)

lemma timeFromMillis_less:
  "0 < a \<Longrightarrow> timeFromMillis a < timeFromMillis b \<longleftrightarrow> a < b"
  by (auto simp: timeFromMillis_def zero_time_def)

lemma unix_milli_timeFromMillis [simp]: "0 < ts \<Longrightarrow> unix_milli (timeFromMillis ts) = ts"
  by (simp add: unix_milli_def timeFromMillis_def)

lemma timeFromMillis_unix_milli_le: "0 < unix_milli t \<Longrightarrow> timeFromMillis (unix_milli t) \<le> t"
  by (simp add: timeFromMillis_def unix_milli_def)

lemma unix_milli_mono: "a \<le> b \<Longrightarrow> unix_milli a \<le> unix_milli b"
  by (simp add: unix_milli_def zdiv_mono1)

lemma unix_milli_less_imp: "unix_milli a < unix_milli b \<Longrightarrow> a < b"
  using unix_milli_mono linorder_not_less by blast

lemma unix_milli_add_ms [simp]: "unix_milli (t + 1000000) = unix_milli t + 1"
  by (simp add: unix_milli_def)

section \<open>Byte strings\<close>

text \<open>
  Go strings are byte strings, as HOL's \<open>string\<close> is. \<open>strings.TrimSpace\<close> removes the
  UTF-8 encodings of the code points for which \<open>unicode.IsSpace\<close> holds; the list below
  is that set, so that the definition is exact on every byte string.
\<close>

definition byte_string :: "nat list \<Rightarrow> string" where
  "byte_string ns = map char_of ns"

definition space_encodings :: "string list" where
  "space_encodings =
     map byte_string
       ([[9], [10], [11], [12], [13], [32], [194, 133], [194, 160], [225, 154, 128]]
        @ map (\<lambda>n. [226, 128, n]) [128 ..< 139]
        @ [[226, 128, 168], [226, 128, 169], [226, 128, 175], [226, 129, 159], [227, 128, 128]])"

fun strip_prefix :: "string \<Rightarrow> string \<Rightarrow> string option" where
  "strip_prefix [] s = Some s"
| "strip_prefix (p # ps) [] = None"
| "strip_prefix (p # ps) (c # cs) = (if p = c then strip_prefix ps cs else None)"

fun strip_any :: "string list \<Rightarrow> string \<Rightarrow> string option" where
  "strip_any [] s = None"
| "strip_any (p # ps) s =
     (case strip_prefix p s of
        Some rest \<Rightarrow> if p = [] then strip_any ps s else Some rest
      | None \<Rightarrow> strip_any ps s)"

lemma strip_prefix_length: "strip_prefix p s = Some r \<Longrightarrow> length s = length p + length r"
  by (induction p s rule: strip_prefix.induct) (auto split: if_splits)

lemma strip_any_length: "strip_any ps s = Some r \<Longrightarrow> length r < length s"
  by (induction ps s rule: strip_any.induct)
     (auto split: option.splits if_splits dest: strip_prefix_length)

function trim_with :: "string list \<Rightarrow> string \<Rightarrow> string" where
  "trim_with ps s = (case strip_any ps s of None \<Rightarrow> s | Some r \<Rightarrow> trim_with ps r)"
  by pat_completeness auto
termination
  by (relation "measure (\<lambda>(ps, s). length s)") (auto dest: strip_any_length)

declare trim_with.simps [simp del]

definition trim_space :: "string \<Rightarrow> string" where
  "trim_space s =
     rev (trim_with (map rev space_encodings) (rev (trim_with space_encodings s)))"

definition blank :: "string \<Rightarrow> bool" where
  "blank s \<longleftrightarrow> trim_space s = []"

lemma strip_any_Nil: "strip_any ps [] = None"
proof (cases "strip_any ps []")
  case (Some r)
  then show ?thesis by (auto dest: strip_any_length)
qed

lemma trim_with_Nil [simp]: "trim_with ps [] = []"
  by (subst trim_with.simps) (simp add: strip_any_Nil)

lemma blank_Nil [simp]: "blank []"
  by (simp add: blank_def trim_space_def)

lemma strip_prefix_keeps:
  "strip_prefix p s = Some r \<Longrightarrow> c \<notin> set p \<Longrightarrow> c \<in> set s \<Longrightarrow> c \<in> set r"
  by (induction p s rule: strip_prefix.induct) (auto split: if_splits)

lemma strip_any_keeps:
  "strip_any ps s = Some r \<Longrightarrow> \<forall>p\<in>set ps. c \<notin> set p \<Longrightarrow> c \<in> set s \<Longrightarrow> c \<in> set r"
  by (induction ps s rule: strip_any.induct)
     (auto split: option.splits if_splits dest: strip_prefix_keeps)

lemma trim_with_keeps:
  "\<forall>p\<in>set ps. c \<notin> set p \<Longrightarrow> c \<in> set s \<Longrightarrow> c \<in> set (trim_with ps s)"
proof (induction ps s rule: trim_with.induct)
  case (1 ps s)
  then show ?case
    by (subst trim_with.simps) (auto split: option.splits dest: strip_any_keeps)
qed

lemma strip_prefix_subset: "strip_prefix p s = Some r \<Longrightarrow> set r \<subseteq> set s"
  by (induction p s rule: strip_prefix.induct) (auto split: if_splits)

lemma strip_any_subset: "strip_any ps s = Some r \<Longrightarrow> set r \<subseteq> set s"
  by (induction ps s rule: strip_any.induct)
     (auto split: option.splits if_splits dest: strip_prefix_subset)

lemma trim_with_subset: "set (trim_with ps s) \<subseteq> set s"
proof (induction ps s rule: trim_with.induct)
  case (1 ps s)
  then show ?case
    by (subst trim_with.simps) (auto split: option.splits dest: strip_any_subset)
qed

lemma trim_space_subset: "set (trim_space s) \<subseteq> set s"
  unfolding trim_space_def using trim_with_subset by (metis set_rev order_trans)

lemma space_encodings_spare:
  "\<forall>p\<in>set space_encodings. \<forall>c\<in>set p. \<not> (33 \<le> (of_char c :: nat) \<and> (of_char c :: nat) \<le> 126)"
  by (simp add: space_encodings_def byte_string_def upt_rec)

text \<open>A string with a visible ASCII character is not blank.\<close>

lemma not_blank_spare:
  assumes "c \<in> set s" and spare: "\<forall>p\<in>set space_encodings. c \<notin> set p"
  shows "\<not> blank s"
proof -
  have "c \<in> set (trim_with space_encodings s)"
    using spare assms(1) by (rule trim_with_keeps)
  with spare have "c \<in> set (trim_space s)"
    unfolding trim_space_def by (auto intro!: trim_with_keeps)
  then show ?thesis by (auto simp: blank_def)
qed

lemma not_blank_visible:
  assumes "c \<in> set s" and "33 \<le> (of_char c :: nat)" and "(of_char c :: nat) \<le> 126"
  shows "\<not> blank s"
  using not_blank_spare [OF assms(1)] space_encodings_spare assms(2,3) by blast

lemma strip_any_spare: "(\<forall>p \<in> set ps. p \<noteq> [] \<and> c \<notin> set p) \<Longrightarrow> strip_any ps (c # cs) = None"
proof (induction ps)
  case (Cons p ps)
  then show ?case by (cases p) auto
qed simp

lemma trim_with_spare: "(\<forall>p \<in> set ps. p \<noteq> [] \<and> c \<notin> set p) \<Longrightarrow> trim_with ps (c # cs) = c # cs"
  by (subst trim_with.simps) (simp add: strip_any_spare)

text \<open>A string between visible ASCII characters is not trimmed.\<close>

definition visible :: "char \<Rightarrow> bool" where
  "visible c \<longleftrightarrow> 33 \<le> (of_char c :: nat) \<and> (of_char c :: nat) \<le> 126"

lemma trim_space_visible:
  assumes "s \<noteq> []" and "visible (hd s)" and "visible (last s)"
  shows "trim_space s = s"
proof -
  have spare: "p \<noteq> [] \<and> c \<notin> set p" if "p \<in> set space_encodings" "visible c" for p c
  proof
    show "p \<noteq> []" using that by (auto simp: space_encodings_def byte_string_def)
    show "c \<notin> set p" using space_encodings_spare that by (auto simp: visible_def)
  qed
  obtain c cs where s: "s = c # cs" using assms(1) by (cases s) auto
  have "trim_with space_encodings s = s" using spare assms(2) s by (simp add: trim_with_spare)
  moreover obtain d ds where r: "rev s = d # ds" "d = last s" using assms(1) by (cases "rev s") (auto simp: last_rev [symmetric])
  moreover have "trim_with (map rev space_encodings) (rev s) = rev s"
    using trim_with_spare [of "map rev space_encodings" d ds] spare assms(3) r(2) unfolding r(1) by auto
  ultimately show ?thesis by (simp add: trim_space_def)
qed

lemma not_blank_Cons [simp]:
  "33 \<le> (of_char c :: nat) \<Longrightarrow> (of_char c :: nat) \<le> 126 \<Longrightarrow> \<not> blank (c # s)"
  by (rule not_blank_visible [of c]) auto

lemma not_blank_nonempty: "\<not> blank s \<Longrightarrow> s \<noteq> []"
  by auto

text \<open>ASCII case folding, and Go's \<open>strings.EqualFold\<close> with the two non-ASCII letters
  (U+017F, U+212A) whose simple folding is an ASCII letter. Beyond these two the model
  compares byte for byte.\<close>

definition lower_char :: "char \<Rightarrow> char" where
  "lower_char c = (let n = (of_char c :: nat) in if 65 \<le> n \<and> n \<le> 90 then char_of (n + 32) else c)"

text \<open>\<open>strings.ToLower\<close>: U+0130 and U+212A are the two code points outside ASCII whose lower case is an
  ASCII letter. The other letters outside ASCII keep their bytes here, which is exact wherever the result is
  compared with ASCII text: everywhere but in \<open>cleanBlogName\<close>, whose argument is a name of letters,
  digits and hyphens.\<close>

fun to_lower :: "string \<Rightarrow> string" where
  "to_lower [] = []"
| "to_lower (c # cs) =
     (let n = (of_char c :: nat) in
      if n = 196 then
        (case cs of
           d # ds \<Rightarrow> if (of_char d :: nat) = 176 then CHR ''i'' # to_lower ds else c # to_lower cs
         | [] \<Rightarrow> [c])
      else if n = 226 then
        (case cs of
           d # e # es \<Rightarrow> if (of_char d :: nat) = 132 \<and> (of_char e :: nat) = 170
                       then CHR ''k'' # to_lower es else c # to_lower cs
         | _ \<Rightarrow> c # to_lower cs)
      else lower_char c # to_lower cs)"

lemma to_lower_source: "set (to_lower s) \<subseteq> {CHR ''i'', CHR ''k''} \<union> (set s \<union> lower_char ` set s)"
proof (induction s rule: length_induct)
  case (1 s)
  let ?ok = "\<lambda>cs out. set out \<subseteq> {CHR ''i'', CHR ''k''} \<union> (set cs \<union> lower_char ` set cs)"
  show ?case
  proof (cases s)
    case (Cons c cs)
    have ih: "?ok ds (to_lower ds)" if "length ds \<le> length cs" for ds using 1 Cons that by simp
    have plain: "?ok s (c # to_lower cs)" "?ok s (lower_char c # to_lower cs)" "?ok s [c]"
      using ih [of cs] Cons by auto
    have two: "?ok s (CHR ''i'' # to_lower ds)" if "cs = d # ds" for d ds
      using ih [of ds] Cons that by auto
    have three: "?ok s (CHR ''k'' # to_lower es)" if "cs = d # e # es" for d e es
      using ih [of es] Cons that by auto
    show ?thesis
      unfolding Cons to_lower.simps Let_def
      using plain two three unfolding Cons by (simp only: split: if_split list.split) blast
  qed simp
qed

fun fold_key :: "string \<Rightarrow> string" where
  "fold_key [] = []"
| "fold_key (c # cs) =
     (let n = (of_char c :: nat) in
      if n = 197 then
        (case cs of
           d # ds \<Rightarrow> if (of_char d :: nat) = 191 then CHR ''s'' # fold_key ds else c # fold_key cs
         | [] \<Rightarrow> [c])
      else if n = 226 then
        (case cs of
           d # e # es \<Rightarrow> if (of_char d :: nat) = 132 \<and> (of_char e :: nat) = 170
                       then CHR ''k'' # fold_key es else c # fold_key cs
         | _ \<Rightarrow> c # fold_key cs)
      else lower_char c # fold_key cs)"

definition equal_fold :: "string \<Rightarrow> string \<Rightarrow> bool" where
  "equal_fold s t \<longleftrightarrow> fold_key s = fold_key t"

lemma equal_fold_refl [simp]: "equal_fold s s"
  by (simp add: equal_fold_def)

fun has_prefix :: "string \<Rightarrow> string \<Rightarrow> bool" where
  "has_prefix [] s = True"
| "has_prefix (p # ps) [] = False"
| "has_prefix (p # ps) (c # cs) = (p = c \<and> has_prefix ps cs)"

definition has_suffix :: "string \<Rightarrow> string \<Rightarrow> bool" where
  "has_suffix p s = has_prefix (rev p) (rev s)"

definition trim_prefix :: "string \<Rightarrow> string \<Rightarrow> string" where
  "trim_prefix p s = (if has_prefix p s then drop (length p) s else s)"

definition trim_suffix :: "string \<Rightarrow> string \<Rightarrow> string" where
  "trim_suffix p s = (if has_suffix p s then take (length s - length p) s else s)"

subsection \<open>Hexadecimal\<close>

definition hex_digits :: string where
  "hex_digits = ''0123456789abcdef''"

definition hex_digit :: "nat \<Rightarrow> char" where
  "hex_digit n = hex_digits ! (n mod 16)"

definition hex_value :: "char \<Rightarrow> nat option" where
  "hex_value c = (let n = (of_char c :: nat) in
     if 48 \<le> n \<and> n \<le> 57 then Some (n - 48)
     else if 97 \<le> n \<and> n \<le> 102 then Some (n - 87)
     else if 65 \<le> n \<and> n \<le> 70 then Some (n - 55)
     else None)"

fun hex_encode :: "string \<Rightarrow> string" where
  "hex_encode [] = []"
| "hex_encode (c # cs) =
     hex_digit ((of_char c :: nat) div 16) # hex_digit ((of_char c :: nat) mod 16) # hex_encode cs"

fun hex_decode :: "string \<Rightarrow> string option" where
  "hex_decode [] = Some []"
| "hex_decode [c] = None"
| "hex_decode (c # d # cs) =
     (case (hex_value c, hex_value d, hex_decode cs) of
        (Some a, Some b, Some bs) \<Rightarrow> Some (char_of (16 * a + b) # bs)
      | _ \<Rightarrow> None)"

lemma all_less_16: "(\<forall>n < (16::nat). P n) \<longleftrightarrow> list_all P [0 ..< 16]"
  by (auto simp: list_all_iff)

lemma hex_value_digit [simp]: "n < 16 \<Longrightarrow> hex_value (hex_digit n) = Some n"
proof -
  have "\<forall>n < 16. hex_value (hex_digit n) = Some n"
    unfolding all_less_16 by code_simp
  then show "n < 16 \<Longrightarrow> hex_value (hex_digit n) = Some n" by blast
qed

lemma of_char_bound: "(of_char c :: nat) < 256"
  using nat_of_char_less_256 [of c] by simp

lemma hex_decode_encode [simp]: "hex_decode (hex_encode s) = Some s"
proof (induction s)
  case Nil
  then show ?case by simp
next
  case (Cons c cs)
  have "(of_char c :: nat) div 16 < 16"
    using of_char_bound [of c] by (simp add: div_less_iff_less_mult)
  with Cons show ?case by (simp add: mult.commute)
qed

lemma length_hex_encode [simp]: "length (hex_encode s) = 2 * length s"
  by (induction s) auto

lemma hex_decode_length: "hex_decode s = Some bs \<Longrightarrow> length s = 2 * length bs"
  by (induction s arbitrary: bs rule: hex_decode.induct) (auto split: option.splits)

text \<open>\<open>isLowerHexDigest\<close> of the outbound store.\<close>

definition isLowerHexDigest :: "string \<Rightarrow> nat \<Rightarrow> bool" where
  "isLowerHexDigest v n =
     (if length v \<noteq> n \<or> v \<noteq> to_lower v then False
      else case hex_decode v of None \<Rightarrow> False | Some d \<Rightarrow> length d * 2 = n)"

section \<open>Operations: state transformers with errors as values\<close>

type_synonym ('e, 's, 'a) oper = "'s \<Rightarrow> ('e + 'a) \<times> 's"

definition ret :: "'a \<Rightarrow> ('e, 's, 'a) oper" where
  "ret x s = (Inr x, s)"

definition raise :: "'e \<Rightarrow> ('e, 's, 'a) oper" where
  "raise e s = (Inl e, s)"

definition andThen :: "('e, 's, 'a) oper \<Rightarrow> ('a \<Rightarrow> ('e, 's, 'b) oper) \<Rightarrow> ('e, 's, 'b) oper" where
  "andThen m f s = (case m s of (Inl e, t) \<Rightarrow> (Inl e, t) | (Inr x, t) \<Rightarrow> f x t)"

text \<open>\<open>attempt m\<close> hands the error to the continuation instead of propagating it, as
  \<open>x, err := m()\<close> does before \<open>err\<close> is looked at.\<close>

definition attempt :: "('e, 's, 'a) oper \<Rightarrow> ('e + 'a \<Rightarrow> ('e, 's, 'b) oper) \<Rightarrow> ('e, 's, 'b) oper" where
  "attempt m f s = (case m s of (r, t) \<Rightarrow> f r t)"

lemma ret_apply [op_simps]: "ret x s = (Inr x, s)" by (simp add: ret_def)
lemma raise_apply [op_simps]: "raise e s = (Inl e, s)" by (simp add: raise_def)

lemma andThen_Inl [op_simps]: "m s = (Inl e, t) \<Longrightarrow> andThen m f s = (Inl e, t)"
  by (simp add: andThen_def)

lemma andThen_Inr [op_simps]: "m s = (Inr x, t) \<Longrightarrow> andThen m f s = f x t"
  by (simp add: andThen_def)

lemma attempt_apply [op_simps]: "m s = (r, t) \<Longrightarrow> attempt m f s = f r t"
  by (simp add: attempt_def)

lemma andThen_InrD:
  "andThen m f s = (Inr y, s'') \<Longrightarrow> \<exists>x s'. m s = (Inr x, s') \<and> f x s' = (Inr y, s'')"
  by (auto simp: andThen_def split: prod.splits sum.splits)

text \<open>\<open>moves R m\<close>: the state after \<open>m\<close> is reached from the state before it by steps of
  \<open>R\<close>. It composes along binds, which is how the operations are shown to refine the step
  relation of the store, whatever their control flow.\<close>

definition moves :: "('s \<Rightarrow> 's \<Rightarrow> bool) \<Rightarrow> ('e, 's, 'a) oper \<Rightarrow> bool" where
  "moves R m \<longleftrightarrow> (\<forall>s. R\<^sup>*\<^sup>* s (snd (m s)))"

named_theorems moves_intros \<open>composition rules for refinement of a step relation\<close>

lemma movesD: "moves R m \<Longrightarrow> R\<^sup>*\<^sup>* s (snd (m s))"
  by (simp add: moves_def)

lemma moves_ret [moves_intros]: "moves R (ret x)"
  by (simp add: moves_def ret_def)

lemma moves_raise [moves_intros]: "moves R (raise e)"
  by (simp add: moves_def raise_def)

lemma moves_andThen [moves_intros]:
  assumes "moves R m" and "\<And>x. moves R (f x)"
  shows "moves R (andThen m f)"
  unfolding moves_def
proof
  fix s
  show "R\<^sup>*\<^sup>* s (snd (andThen m f s))"
  proof (cases "m s")
    case (Pair r t)
    with movesD [OF assms(1), of s] have st: "R\<^sup>*\<^sup>* s t" by simp
    show ?thesis
    proof (cases r)
      case (Inl e)
      with Pair st show ?thesis by (simp add: andThen_def)
    next
      case (Inr x)
      with Pair have "andThen m f s = f x t" by (simp add: andThen_def)
      with st movesD [OF assms(2), of t x] show ?thesis by (auto intro: rtranclp_trans)
    qed
  qed
qed

lemma moves_attempt [moves_intros]:
  assumes "moves R m" and "\<And>x. moves R (f x)"
  shows "moves R (attempt m f)"
  unfolding moves_def
proof
  fix s
  show "R\<^sup>*\<^sup>* s (snd (attempt m f s))"
    using movesD [OF assms(1), of s] movesD [OF assms(2), of "snd (m s)" "fst (m s)"]
    by (auto simp: attempt_def split_beta intro: rtranclp_trans)
qed

lemma moves_if [moves_intros]:
  "(c \<Longrightarrow> moves R m) \<Longrightarrow> (\<not> c \<Longrightarrow> moves R n) \<Longrightarrow> moves R (if c then m else n)"
  by simp

lemma moves_case_option [moves_intros]:
  "(x = None \<Longrightarrow> moves R m) \<Longrightarrow> (\<And>y. x = Some y \<Longrightarrow> moves R (f y)) \<Longrightarrow>
   moves R (case x of None \<Rightarrow> m | Some y \<Rightarrow> f y)"
  by (cases x) auto

lemma moves_case_sum [moves_intros]:
  "(\<And>y. x = Inl y \<Longrightarrow> moves R (g y)) \<Longrightarrow> (\<And>y. x = Inr y \<Longrightarrow> moves R (f y)) \<Longrightarrow>
   moves R (case x of Inl y \<Rightarrow> g y | Inr y \<Rightarrow> f y)"
  by (cases x) auto

lemma moves_case_prod [moves_intros]:
  "(\<And>a b. x = (a, b) \<Longrightarrow> moves R (f a b)) \<Longrightarrow> moves R (case x of (a, b) \<Rightarrow> f a b)"
  by (cases x) auto

lemma moves_Let [moves_intros]: "moves R (f x) \<Longrightarrow> moves R (Let x f)"
  by simp

text \<open>An invariant of the steps is an invariant of every operation that refines them.\<close>

lemma moves_invariant:
  assumes "moves R m" and "\<And>s t. R s t \<Longrightarrow> I s \<Longrightarrow> I t" and "I s"
  shows "I (snd (m s))"
  using movesD [OF assms(1), of s] assms(3)
  by (induction rule: rtranclp_induct) (auto intro: assms(2))

section \<open>Labelled runs, and events that happen at most once\<close>

inductive runs :: "('s \<Rightarrow> 'l option \<Rightarrow> 's \<Rightarrow> bool) \<Rightarrow> 's \<Rightarrow> 'l option list \<Rightarrow> 's \<Rightarrow> bool"
  for step where
  runs_Nil: "runs step s [] s"
| runs_Cons: "step s l u \<Longrightarrow> runs step u ls t \<Longrightarrow> runs step s (l # ls) t"

inductive_cases runs_NilE: "runs step s [] t"
inductive_cases runs_ConsE: "runs step s (l # ls) t"

text \<open>
  The interface of a store that must let an event happen at most once: some state of the
  store records that the event was spent, no step forgets it, and the event itself is
  possible only while it is not spent and spends it.
\<close>

locale once_guard =
  fixes step :: "'s \<Rightarrow> 'l option \<Rightarrow> 's \<Rightarrow> bool"
    and inv :: "'s \<Rightarrow> bool"
    and spent :: "'s \<Rightarrow> 'l \<Rightarrow> bool"
  assumes inv_step: "inv s \<Longrightarrow> step s l t \<Longrightarrow> inv t"
    and spent_step: "inv s \<Longrightarrow> step s l t \<Longrightarrow> spent s k \<Longrightarrow> spent t k"
    and spend: "inv s \<Longrightarrow> step s (Some k) t \<Longrightarrow> \<not> spent s k \<and> spent t k"
begin

lemma inv_runs: "runs step s ls t \<Longrightarrow> inv s \<Longrightarrow> inv t"
  by (induction rule: runs.induct) (auto intro: inv_step)

lemma spent_runs: "runs step s ls t \<Longrightarrow> inv s \<Longrightarrow> spent s k \<Longrightarrow> spent t k \<and> Some k \<notin> set ls"
proof (induction rule: runs.induct)
  case (runs_Nil s)
  then show ?case by simp
next
  case (runs_Cons s l u ls t)
  then have "inv u" and "spent u k" by (auto intro: inv_step spent_step)
  with runs_Cons.IH have "spent t k \<and> Some k \<notin> set ls" by simp
  moreover have "l \<noteq> Some k"
    using spend runs_Cons.hyps(1) runs_Cons.prems by blast
  ultimately show ?case by auto
qed

lemma at_most_once: "runs step s ls t \<Longrightarrow> inv s \<Longrightarrow> count_list ls (Some k) \<le> 1"
proof (induction rule: runs.induct)
  case (runs_Nil s)
  then show ?case by simp
next
  case (runs_Cons s l u ls t)
  have u: "inv u" using runs_Cons.hyps(1) runs_Cons.prems by (rule inv_step [rotated])
  show ?case
  proof (cases "l = Some k")
    case True
    then have "spent u k" using spend runs_Cons.hyps(1) runs_Cons.prems by blast
    then have "Some k \<notin> set ls" using spent_runs [OF runs_Cons.hyps(2) u] by blast
    then show ?thesis using True by (simp add: count_notin)
  next
    case False
    then show ?thesis using runs_Cons.IH u by simp
  qed
qed

end

section \<open>Tables as lists of rows\<close>

definition update_where :: "('r \<Rightarrow> bool) \<Rightarrow> ('r \<Rightarrow> 'r) \<Rightarrow> 'r list \<Rightarrow> 'r list" where
  "update_where p f rs = map (\<lambda>r. if p r then f r else r) rs"

lemma set_update_where: "set (update_where p f rs) = {r \<in> set rs. \<not> p r} \<union> f ` {r \<in> set rs. p r}"
  by (auto simp: update_where_def)

lemma update_where_none: "filter p rs = [] \<Longrightarrow> update_where p f rs = rs"
  by (induction rs) (auto simp: update_where_def split: if_splits)

lemma map_update_where:
  "(\<And>r. p r \<Longrightarrow> g (f r) = g r) \<Longrightarrow> map g (update_where p f rs) = map g rs"
  by (auto simp: update_where_def)

lemma distinct_map_inj:
  "distinct (map g rs) \<Longrightarrow> r \<in> set rs \<Longrightarrow> q \<in> set rs \<Longrightarrow> g r = g q \<Longrightarrow> r = q"
  by (auto simp: distinct_map inj_on_def)

lemma find_SomeD: "find P xs = Some x \<Longrightarrow> x \<in> set xs \<and> P x"
  by (induction xs) (auto split: if_splits)

text \<open>\<open>ORDER BY ... LIMIT 1\<close>: the first row among those with the least key.\<close>

fun min_row :: "('r \<Rightarrow> 'k::linorder) \<Rightarrow> 'r list \<Rightarrow> 'r option" where
  "min_row key [] = None"
| "min_row key (r # rs) =
     (case min_row key rs of
        None \<Rightarrow> Some r
      | Some q \<Rightarrow> if key q < key r then Some q else Some r)"

lemma min_row_None [simp]: "min_row key rs = None \<longleftrightarrow> rs = []"
  by (cases rs) (auto split: option.splits)

lemma min_row_Some:
  "min_row key rs = Some r \<Longrightarrow> r \<in> set rs \<and> (\<forall>q \<in> set rs. key r \<le> key q)"
proof (induction rs arbitrary: r)
  case (Cons a rs)
  then show ?case
    by (cases "min_row key rs") (auto split: if_splits intro: less_imp_le order_trans)
qed simp

end
