(* ===== verification/Runes.thy ===== *)
theory Runes
  imports Prelude
begin

text \<open>
  Go's reading of a byte string as code points, the character classes of the standard library's
  \<open>unicode\<close> package the code asks for, and the remote identifiers the connector accepts
  (pkg/connector/sync.go, pkg/connector/dbmeta.go).
\<close>

section \<open>Code points and remote identifiers\<close>

text \<open>The code points of a byte string as Go decodes it: an invalid byte is U+FFFD.\<close>

definition cont :: "nat \<Rightarrow> bool" where
  "cont b \<longleftrightarrow> 128 \<le> b \<and> b < 192"

fun runes :: "nat list \<Rightarrow> nat list" where
  "runes [] = []"
| "runes [b] = [if b < 128 then b else 65533]"
| "runes (b # c # cs) =
     (if b < 128 then b # runes (c # cs)
      else if 194 \<le> b \<and> b < 224 \<and> cont c then ((b - 192) * 64 + (c - 128)) # runes cs
      else case cs of
          d # ds \<Rightarrow>
            if 224 \<le> b \<and> b < 240 \<and> cont c \<and> cont d \<and> (b = 224 \<longrightarrow> 160 \<le> c) \<and> (b = 237 \<longrightarrow> c < 160)
            then ((b - 224) * 4096 + (c - 128) * 64 + (d - 128)) # runes ds
            else (case ds of
                f # fs \<Rightarrow>
                  if 240 \<le> b \<and> b < 245 \<and> cont c \<and> cont d \<and> cont f \<and> (b = 240 \<longrightarrow> 144 \<le> c) \<and> (b = 244 \<longrightarrow> c < 144)
                  then ((b - 240) * 262144 + (c - 128) * 4096 + (d - 128) * 64 + (f - 128)) # runes fs
                  else 65533 # runes (c # cs)
              | [] \<Rightarrow> 65533 # runes (c # cs))
        | [] \<Rightarrow> 65533 # runes (c # cs))"

definition rune_list :: "string \<Rightarrow> nat list" where
  "rune_list s = runes (map of_char s)"

text \<open>The code points with the bytes they were decoded from.\<close>

fun rune_pieces :: "nat list \<Rightarrow> (nat \<times> nat list) list" where
  "rune_pieces [] = []"
| "rune_pieces [b] = [(if b < 128 then b else 65533, [b])]"
| "rune_pieces (b # c # cs) =
     (if b < 128 then (b, [b]) # rune_pieces (c # cs)
      else if 194 \<le> b \<and> b < 224 \<and> cont c then ((b - 192) * 64 + (c - 128), [b, c]) # rune_pieces cs
      else case cs of
          d # ds \<Rightarrow>
            if 224 \<le> b \<and> b < 240 \<and> cont c \<and> cont d \<and> (b = 224 \<longrightarrow> 160 \<le> c) \<and> (b = 237 \<longrightarrow> c < 160)
            then ((b - 224) * 4096 + (c - 128) * 64 + (d - 128), [b, c, d]) # rune_pieces ds
            else (case ds of
                f # fs \<Rightarrow>
                  if 240 \<le> b \<and> b < 245 \<and> cont c \<and> cont d \<and> cont f \<and> (b = 240 \<longrightarrow> 144 \<le> c) \<and> (b = 244 \<longrightarrow> c < 144)
                  then ((b - 240) * 262144 + (c - 128) * 4096 + (d - 128) * 64 + (f - 128), [b, c, d, f]) # rune_pieces fs
                  else (65533, [b]) # rune_pieces (c # cs)
              | [] \<Rightarrow> (65533, [b]) # rune_pieces (c # cs))
        | [] \<Rightarrow> (65533, [b]) # rune_pieces (c # cs))"

text \<open>\<open>strings.FieldsFunc\<close>: the longest runs of bytes whose code points do not satisfy \<open>p\<close>.\<close>

fun fields_of :: "(nat \<Rightarrow> bool) \<Rightarrow> (nat \<times> nat list) list \<Rightarrow> nat list \<Rightarrow> nat list list" where
  "fields_of p [] cur = (if cur = [] then [] else [cur])"
| "fields_of p ((r, bs) # ps) cur =
     (if p r then (if cur = [] then fields_of p ps [] else cur # fields_of p ps [])
      else fields_of p ps (cur @ bs))"

definition FieldsFunc :: "(nat \<Rightarrow> bool) \<Rightarrow> string \<Rightarrow> string list" where
  "FieldsFunc p s = map (map char_of) (fields_of p (rune_pieces (map of_char s)) [])"

text \<open>\<open>strings.Join(xs, sep)\<close>.\<close>

fun join_with :: "string \<Rightarrow> string list \<Rightarrow> string" where
  "join_with sep [] = []"
| "join_with sep [x] = x"
| "join_with sep (x # y # ys) = x @ sep @ join_with sep (y # ys)"

text \<open>\<open>string([]rune)\<close>: the bytes of code points.\<close>

definition encode_rune :: "nat \<Rightarrow> nat list" where
  "encode_rune r =
     (if r < 128 then [r]
      else if r < 2048 then [192 + r div 64, 128 + r mod 64]
      else if r < 65536 then [224 + r div 4096, 128 + (r div 64) mod 64, 128 + r mod 64]
      else [240 + r div 262144, 128 + (r div 4096) mod 64, 128 + (r div 64) mod 64, 128 + r mod 64])"

definition rune_string :: "nat list \<Rightarrow> string" where
  "rune_string rs = map char_of (concat (map encode_rune rs))"

definition is_space_rune :: "nat \<Rightarrow> bool" where
  "is_space_rune r \<longleftrightarrow>
     (9 \<le> r \<and> r \<le> 13) \<or> r \<in> {32, 133, 160, 5760, 8232, 8233, 8239, 8287, 12288} \<or> (8192 \<le> r \<and> r \<le> 8202)"

definition is_control_rune :: "nat \<Rightarrow> bool" where
  "is_control_rune r \<longleftrightarrow> r < 32 \<or> (127 \<le> r \<and> r < 160)"

definition containsMetadataSpaceOrControl :: "string \<Rightarrow> bool" where
  "containsMetadataSpaceOrControl v \<longleftrightarrow> list_ex (\<lambda>r. is_space_rune r \<or> is_control_rune r) (rune_list v)"

definition maxRemoteIDRunes :: nat where "maxRemoteIDRunes = 512"

definition validRemoteID :: "string \<Rightarrow> bool" where
  "validRemoteID i \<longleftrightarrow>
     \<not> blank i \<and> length (rune_list i) \<le> maxRemoteIDRunes \<and> \<not> containsMetadataSpaceOrControl i"

end
