(* ===== verification/OutboundSend.thy ===== *)
theory OutboundSend
  imports Runes
begin

text \<open>
  The outbound send of pkg/connector/tumblrdb/outbound.go: the Go struct \<open>OutboundSend\<close>,
  the row of the table \<open>tumblr_outbound_send\<close> with the CHECK constraints of schema.sql,
  the validation functions, and \<open>Scan\<close>, which decodes a row into a struct and rejects
  rows that break the struct's invariants.

  State and message type are Go strings with named constants; a datatype lists the
  constants and keeps one constructor for any other text. The column
  \<open>baseline_ids_json\<close> is represented by what its JSON text decodes to. The framework's
  \<open>PortalKey.IsEmpty\<close> (mautrix) is the parameter \<open>pke\<close> wherever the code calls it.
\<close>

section \<open>Data\<close>

datatype send_state =
    Prepared | Submitting | AwaitingEcho | Uncertain | Resolved | Completed
  | NotSubmitted | Unconfirmed | StateText string

datatype message_type = TextType | ImageType | PostRefType | TypeText string

text \<open>A string after \<open>json.Marshal\<close> and \<open>json.Unmarshal\<close>: each byte that is not part of a code point is
  written as U+FFFD, everything else reads back as it was.\<close>

definition json_text :: "string \<Rightarrow> string" where
  "json_text s =
     map char_of (concat (map (\<lambda>(r, bs). if r = 65533 then [239, 191, 189] else bs) (rune_pieces (map of_char s))))"

lemma rune_pieces_bytes: "concat (map snd (rune_pieces bs)) = bs"
  by (induction bs rule: rune_pieces.induct) (auto split: list.splits)

lemma json_text_same:
  assumes "\<forall>p \<in> set (rune_pieces (map of_char s)). fst p \<noteq> 65533"
  shows "json_text s = s"
proof -
  have "map (\<lambda>(r, bs). if r = 65533 then [239, 191, 189] else bs) (rune_pieces (map of_char s)) =
      map snd (rune_pieces (map of_char s))"
    using assms by (intro map_cong) auto
  then show ?thesis unfolding json_text_def by (simp only: rune_pieces_bytes) (simp add: comp_def)
qed

text \<open>ASCII text is kept.\<close>

lemma rune_pieces_ascii: "\<forall>b \<in> set bs. b < 128 \<Longrightarrow> rune_pieces bs = map (\<lambda>b. (b, [b])) bs"
  by (induction bs rule: rune_pieces.induct) auto

lemma json_text_ascii: "\<forall>c \<in> set s. (of_char c :: nat) < 128 \<Longrightarrow> json_text s = s"
  by (rule json_text_same) (auto simp: rune_pieces_ascii)

text \<open>A string does not become blank.\<close>

lemma json_text_blankD:
  assumes "blank (json_text s)"
  shows "blank s"
proof (cases "\<forall>p \<in> set (rune_pieces (map of_char s)). fst p \<noteq> 65533")
  case True
  then show ?thesis using assms by (simp add: json_text_same)
next
  case False
  then obtain bs where "(65533, bs) \<in> set (rune_pieces (map of_char s))" by force
  then have "(239 :: nat) \<in> set (concat (map (\<lambda>(r, bs). if r = 65533 then [239, 191, 189] else bs) (rune_pieces (map of_char s))))"
    by force
  then have c: "char_of (239 :: nat) \<in> set (json_text s)" unfolding json_text_def set_map by (rule imageI)
  have "\<forall>p \<in> set space_encodings. char_of (239 :: nat) \<notin> set p"
    by (simp add: space_encodings_def byte_string_def upt_rec)
  from not_blank_spare [OF c this] assms show ?thesis by blast
qed

datatype baseline_json = JsonNull | JsonList "string list" | JsonBad

record portal_key =
  pk_id :: string
  pk_receiver :: string

record outbound_send =
  BridgeID :: string
  UserLoginID :: string
  TransactionID :: string
  PortalKey :: portal_key
  ConversationID :: string
  BindingConversationID :: string
  MatrixRoomID :: string
  MatrixEventID :: string
  MatrixSenderID :: string
  SenderID :: string
  InputTransactionID :: string
  MessageType :: message_type
  ContentHash :: string
  SourceMediaDigest :: string
  BaselineMessageIDs :: "string list"
  RemoteMessageID :: string
  SendState :: send_state
  TerminalAt :: gotime
  StatusNotifiedAt :: gotime
  StatusClaimToken :: string
  StatusClaimExpiresAt :: gotime
  AttemptCount :: int
  NextAttemptAt :: gotime
  SendStartedAt :: gotime
  CreatedAt :: gotime
  UpdatedAt :: gotime

record outbound_row =
  ob_bridge_id :: string
  ob_user_login_id :: string
  ob_transaction_id :: string
  ob_portal_id :: string
  ob_portal_receiver :: string
  ob_conversation_id :: string
  ob_binding_conversation_id :: string
  ob_matrix_room_id :: string
  ob_matrix_event_id :: string
  ob_matrix_sender_id :: string
  ob_sender_id :: string
  ob_input_transaction_id :: string
  ob_message_type :: message_type
  ob_content_hash :: string
  ob_source_media_digest :: string
  ob_baseline_ids_json :: baseline_json
  ob_remote_message_id :: string
  ob_state :: send_state
  ob_terminal_ts :: millis
  ob_status_notified_ts :: millis
  ob_status_claim_token :: string
  ob_status_claim_expires_ts :: millis
  ob_attempt_count :: int
  ob_next_attempt_ts :: millis
  ob_send_started_ts :: millis
  ob_created_ts :: millis
  ob_updated_ts :: millis

datatype store_error =
    ErrNotPending
  | ErrAlreadyCompleted
  | ErrAlreadyHandled
  | ErrIdentityChanged string
  | ErrBindingConflict
  | ErrRoomMismatch
  | ErrMsg string
  | ErrConstraint
  | ErrDatabase

definition outboundCompletedReceiptUnixMilli :: millis where
  "outboundCompletedReceiptUnixMilli = 2 ^ 63 - 1"

section \<open>The schema's CHECK constraints\<close>

definition known_states :: "send_state list" where
  "known_states =
     [Prepared, Submitting, AwaitingEcho, Uncertain, Resolved, Completed, NotSubmitted, Unconfirmed]"

definition failed_states :: "send_state list" where
  "failed_states = [NotSubmitted, Unconfirmed]"

lemma mem_failed_states [simp]: "s \<in> set failed_states \<longleftrightarrow> s = NotSubmitted \<or> s = Unconfirmed"
  by (simp add: failed_states_def)

definition outbound_row_checks :: "outbound_row \<Rightarrow> bool" where
  "outbound_row_checks r \<longleftrightarrow>
     ob_state r \<in> set known_states \<and>
     ob_message_type r \<in> {TextType, ImageType, PostRefType} \<and>
     length (ob_content_hash r) = 64 \<and>
     (ob_source_media_digest r = [] \<or> length (ob_source_media_digest r) = 32) \<and>
     ob_matrix_room_id r \<noteq> [] \<and>
     (ob_binding_conversation_id r = [] \<or> ob_conversation_id r = []) \<and>
     0 \<le> ob_attempt_count r \<and>
     0 \<le> ob_terminal_ts r \<and>
     0 \<le> ob_status_notified_ts r \<and>
     ((ob_status_claim_token r = [] \<and> ob_status_claim_expires_ts r = 0) \<or>
      (ob_status_claim_token r \<noteq> [] \<and> 0 < ob_status_claim_expires_ts r \<and>
       0 < ob_terminal_ts r \<and> ob_state r \<in> set failed_states)) \<and>
     (ob_status_notified_ts r = 0 \<or>
      (ob_status_claim_token r = [] \<and> 0 < ob_terminal_ts r \<and> ob_state r \<in> set failed_states)) \<and>
     (ob_terminal_ts r = 0 \<or>
      (ob_terminal_ts r < ob_next_attempt_ts r \<and>
       ((ob_state r \<in> set failed_states \<and> ob_remote_message_id r = []) \<or>
        (ob_state r = Completed \<and> ob_remote_message_id r \<noteq> [])))) \<and>
     ((ob_state r \<in> {Resolved, Completed} \<and> ob_remote_message_id r \<noteq> []) \<or>
      (ob_state r \<notin> {Resolved, Completed} \<and> ob_remote_message_id r = [])) \<and>
     (ob_state r \<notin> {AwaitingEcho, Resolved, Completed} \<or> ob_conversation_id r \<noteq> []) \<and>
     0 < ob_next_attempt_ts r \<and>
     0 < ob_send_started_ts r \<and> 0 < ob_created_ts r \<and> 0 < ob_updated_ts r"

text \<open>The constraints one by one, named after the schema's.\<close>

lemma row_checks:
  assumes "outbound_row_checks r"
  shows check_state: "ob_state r \<in> set known_states"
    and check_message_type: "ob_message_type r \<in> {TextType, ImageType, PostRefType}"
    and check_content_hash: "length (ob_content_hash r) = 64"
    and check_binding: "ob_binding_conversation_id r = [] \<or> ob_conversation_id r = []"
    and check_attempts: "0 \<le> ob_attempt_count r"
    and check_terminal_ts: "0 \<le> ob_terminal_ts r"
    and check_notified_ts: "0 \<le> ob_status_notified_ts r"
    and check_claim: "(ob_status_claim_token r = [] \<and> ob_status_claim_expires_ts r = 0) \<or>
      (ob_status_claim_token r \<noteq> [] \<and> 0 < ob_status_claim_expires_ts r \<and>
       0 < ob_terminal_ts r \<and> ob_state r \<in> set failed_states)"
    and check_finished: "ob_status_notified_ts r = 0 \<or>
      (ob_status_claim_token r = [] \<and> 0 < ob_terminal_ts r \<and> ob_state r \<in> set failed_states)"
    and check_terminal: "ob_terminal_ts r = 0 \<or>
      (ob_terminal_ts r < ob_next_attempt_ts r \<and>
       ((ob_state r \<in> set failed_states \<and> ob_remote_message_id r = []) \<or>
        (ob_state r = Completed \<and> ob_remote_message_id r \<noteq> [])))"
    and check_identity: "(ob_state r \<in> {Resolved, Completed}) = (ob_remote_message_id r \<noteq> [])"
    and check_bound: "ob_state r \<notin> {AwaitingEcho, Resolved, Completed} \<or> ob_conversation_id r \<noteq> []"
    and check_timestamps: "0 < ob_next_attempt_ts r" "0 < ob_send_started_ts r"
      "0 < ob_created_ts r" "0 < ob_updated_ts r"
  using assms unfolding outbound_row_checks_def by (elim conjE, assumption | blast)+

section \<open>Validation\<close>

definition validateOutboundSendState :: "send_state \<Rightarrow> store_error option" where
  "validateOutboundSendState st =
     (case st of StateText s \<Rightarrow> Some (ErrMsg ''invalid outbound send state'') | _ \<Rightarrow> None)"

definition validateOutboundMessageType :: "message_type \<Rightarrow> store_error option" where
  "validateOutboundMessageType t =
     (case t of TypeText s \<Rightarrow> Some (ErrMsg ''invalid outbound message type'') | _ \<Rightarrow> None)"

definition validateNextAttempt :: "gotime \<Rightarrow> gotime \<Rightarrow> store_error option" where
  "validateNextAttempt nextAttemptAt now =
     (if is_zero nextAttemptAt then Some (ErrMsg ''next attempt time is required'')
      else if unix_milli nextAttemptAt \<le> unix_milli now
        then Some (ErrMsg ''next attempt time must be in the future'')
      else None)"

definition validateOutboundSendIdentity ::
  "(portal_key \<Rightarrow> bool) \<Rightarrow> outbound_send \<Rightarrow> store_error option" where
  "validateOutboundSendIdentity pke s =
     (if blank (UserLoginID s) then Some (ErrMsg ''user login ID is required'')
      else if blank (TransactionID s) then Some (ErrMsg ''transaction ID is required'')
      else if pke (PortalKey s) then Some (ErrMsg ''portal key is required'')
      else if ConversationID s \<noteq> [] \<and> pk_id (PortalKey s) \<noteq> ConversationID s
        then Some (ErrMsg ''portal ID must match its conversation ID'')
      else if blank (MatrixRoomID s) then Some (ErrMsg ''Matrix room ID is required'')
      else if blank (MatrixEventID s) then Some (ErrMsg ''Matrix event ID is required'')
      else if blank (MatrixSenderID s) then Some (ErrMsg ''Matrix sender ID is required'')
      else if blank (SenderID s) then Some (ErrMsg ''remote sender ID is required'')
      else if SourceMediaDigest s \<noteq> [] \<and> \<not> isLowerHexDigest (SourceMediaDigest s) 32
        then Some (ErrMsg ''source media fingerprint is invalid'')
      else validateOutboundMessageType (MessageType s))"

definition outboundPortalReentryMatchesStagedBinding ::
  "outbound_send \<Rightarrow> outbound_send \<Rightarrow> bool" where
  "outboundPortalReentryMatchesStagedBinding existing candidate \<longleftrightarrow>
     ConversationID existing = [] \<and> ConversationID candidate = [] \<and>
     BindingConversationID existing \<noteq> [] \<and>
     pk_id (PortalKey candidate) = BindingConversationID existing \<and>
     pk_receiver (PortalKey candidate) = pk_receiver (PortalKey existing)"

definition validateOutboundSendReentry ::
  "outbound_send \<Rightarrow> outbound_send \<Rightarrow> store_error option" where
  "validateOutboundSendReentry existing candidate =
     (if BridgeID existing \<noteq> BridgeID candidate then Some (ErrIdentityChanged ''bridge ID'')
      else if UserLoginID existing \<noteq> UserLoginID candidate
        then Some (ErrIdentityChanged ''user login ID'')
      else if TransactionID existing \<noteq> TransactionID candidate
        then Some (ErrIdentityChanged ''transaction ID'')
      else if MatrixRoomID existing \<noteq> MatrixRoomID candidate
        then Some (ErrIdentityChanged ''Matrix room ID'')
      else if MatrixEventID existing \<noteq> MatrixEventID candidate
        then Some (ErrIdentityChanged ''Matrix event ID'')
      else if MatrixSenderID existing \<noteq> MatrixSenderID candidate
        then Some (ErrIdentityChanged ''Matrix sender ID'')
      else if SenderID existing \<noteq> SenderID candidate
        then Some (ErrIdentityChanged ''remote sender ID'')
      else if InputTransactionID existing \<noteq> InputTransactionID candidate
        then Some (ErrIdentityChanged ''Matrix input transaction ID'')
      else if MessageType existing \<noteq> MessageType candidate
        then Some (ErrIdentityChanged ''message type'')
      else if ContentHash existing \<noteq> ContentHash candidate
        then Some (ErrIdentityChanged ''content fingerprint'')
      else if SourceMediaDigest existing \<noteq> SourceMediaDigest candidate
        then Some (ErrIdentityChanged ''source media fingerprint'')
      else if ConversationID existing \<noteq> [] \<and> ConversationID candidate \<noteq> [] \<and>
              ConversationID existing \<noteq> ConversationID candidate
        then Some (ErrIdentityChanged ''conversation binding'')
      else if ConversationID existing = ConversationID candidate \<and>
              PortalKey existing \<noteq> PortalKey candidate \<and>
              \<not> outboundPortalReentryMatchesStagedBinding existing candidate
        then Some (ErrIdentityChanged ''portal binding'')
      else None)"

text \<open>\<open>unicode.IsControl\<close>: the code points U+0000..U+001F and U+007F..U+009F, the latter
  as a single byte (DEL) or as the two-byte encodings C2 80 .. C2 9F.\<close>

fun has_control :: "string \<Rightarrow> bool" where
  "has_control [] = False"
| "has_control [c] = (let n = (of_char c :: nat) in n < 32 \<or> n = 127)"
| "has_control (c # d # cs) =
     (let n = (of_char c :: nat); m = (of_char d :: nat) in
      n < 32 \<or> n = 127 \<or> (n = 194 \<and> 128 \<le> m \<and> m \<le> 159) \<or> has_control (d # cs))"

definition marshalBaselineMessageIDs :: "string list \<Rightarrow> store_error + baseline_json" where
  "marshalBaselineMessageIDs ids =
     (case find (\<lambda>m. blank m \<or> has_control m) ids of
        Some m \<Rightarrow> Inl (ErrMsg (if blank m then ''outbound baseline contains an empty message ID''
                              else ''outbound baseline contains an invalid message ID''))
      | None \<Rightarrow> Inr (JsonList (map json_text ids)))"

definition isTerminal :: "outbound_send \<Rightarrow> bool" where
  "isTerminal s \<longleftrightarrow> \<not> is_zero (TerminalAt s)"

section \<open>Scan\<close>

definition decoded_baseline :: "baseline_json \<Rightarrow> string list option" where
  "decoded_baseline j = (case j of JsonNull \<Rightarrow> Some [] | JsonList ids \<Rightarrow> Some ids | JsonBad \<Rightarrow> None)"

lemma marshalled_readable:
  assumes "marshalBaselineMessageIDs ids = Inr base"
  shows "base = JsonList (map json_text ids) \<and> (\<exists>js. decoded_baseline base = Some js \<and> \<not> list_ex blank js)"
proof -
  have none: "find (\<lambda>m. blank m \<or> has_control m) ids = None" and base: "base = JsonList (map json_text ids)"
    using assms by (auto simp: marshalBaselineMessageIDs_def split: option.splits)
  have "\<not> blank (json_text x)" if "x \<in> set ids" for x
    using none that json_text_blankD [of x] by (auto simp: find_None_iff)
  then show ?thesis using base by (simp add: decoded_baseline_def list_ex_iff)
qed

definition send_of_row :: "outbound_row \<Rightarrow> string \<Rightarrow> string list \<Rightarrow> outbound_send" where
  "send_of_row r h ids =
     \<lparr>BridgeID = ob_bridge_id r, UserLoginID = ob_user_login_id r,
      TransactionID = ob_transaction_id r,
      PortalKey = \<lparr>pk_id = ob_portal_id r, pk_receiver = ob_portal_receiver r\<rparr>,
      ConversationID = ob_conversation_id r,
      BindingConversationID = ob_binding_conversation_id r,
      MatrixRoomID = ob_matrix_room_id r, MatrixEventID = ob_matrix_event_id r,
      MatrixSenderID = ob_matrix_sender_id r, SenderID = ob_sender_id r,
      InputTransactionID = ob_input_transaction_id r, MessageType = ob_message_type r,
      ContentHash = h, SourceMediaDigest = ob_source_media_digest r,
      BaselineMessageIDs = ids, RemoteMessageID = ob_remote_message_id r,
      SendState = ob_state r, TerminalAt = timeFromMillis (ob_terminal_ts r),
      StatusNotifiedAt = timeFromMillis (ob_status_notified_ts r),
      StatusClaimToken = ob_status_claim_token r,
      StatusClaimExpiresAt = timeFromMillis (ob_status_claim_expires_ts r),
      AttemptCount = ob_attempt_count r,
      NextAttemptAt = timeFromMillis (ob_next_attempt_ts r),
      SendStartedAt = timeFromMillis (ob_send_started_ts r),
      CreatedAt = timeFromMillis (ob_created_ts r),
      UpdatedAt = timeFromMillis (ob_updated_ts r)\<rparr>"

text \<open>The checks of \<open>Scan\<close> after the columns are decoded, in the code's order.\<close>

definition scan_status_error :: "outbound_send \<Rightarrow> store_error option" where
  "scan_status_error s =
     (let eligible = \<not> is_zero (TerminalAt s) \<and> (SendState s = NotSubmitted \<or> SendState s = Unconfirmed) in
      if is_zero (NextAttemptAt s) \<or> is_zero (SendStartedAt s) \<or> is_zero (CreatedAt s) \<or> is_zero (UpdatedAt s)
        then Some (ErrMsg ''invalid outbound send timestamps in database'')
      else if (StatusClaimToken s = []) \<noteq> is_zero (StatusClaimExpiresAt s)
        then Some (ErrMsg ''invalid outbound status claim in database'')
      else if (\<not> is_zero (StatusNotifiedAt s) \<or> StatusClaimToken s \<noteq> []) \<and> \<not> eligible
        then Some (ErrMsg ''invalid outbound status state in database'')
      else if \<not> is_zero (StatusNotifiedAt s) \<and> StatusClaimToken s \<noteq> []
        then Some (ErrMsg ''invalid finished outbound status claim in database'')
      else None)"

definition scan_terminal_error :: "outbound_send \<Rightarrow> store_error option" where
  "scan_terminal_error s =
     (let validFailure = (SendState s = NotSubmitted \<or> SendState s = Unconfirmed) \<and> RemoteMessageID s = [];
          validCompletion = SendState s = Completed \<and> RemoteMessageID s \<noteq> [] \<and>
            ConversationID s \<noteq> [] \<and> BindingConversationID s = [] in
      if (\<not> validFailure \<and> \<not> validCompletion) \<or> \<not> TerminalAt s < NextAttemptAt s
        then Some (ErrMsg ''invalid terminal outbound send in database'') else None)"

definition scan_pending_error :: "outbound_send \<Rightarrow> store_error option" where
  "scan_pending_error s =
     (let perState =
        (case SendState s of
           Completed \<Rightarrow> Some (ErrMsg ''invalid nonterminal terminal-state outbound send in database'')
         | NotSubmitted \<Rightarrow> Some (ErrMsg ''invalid nonterminal terminal-state outbound send in database'')
         | Unconfirmed \<Rightarrow> Some (ErrMsg ''invalid nonterminal terminal-state outbound send in database'')
         | Resolved \<Rightarrow>
             if RemoteMessageID s = [] \<or> ConversationID s = [] \<or> BindingConversationID s \<noteq> []
             then Some (ErrMsg ''invalid unresolved identity for resolved outbound send in database'') else None
         | AwaitingEcho \<Rightarrow>
             if RemoteMessageID s \<noteq> [] \<or> ConversationID s = [] \<or> BindingConversationID s \<noteq> []
             then Some (ErrMsg ''invalid awaiting-echo outbound send in database'') else None
         | _ \<Rightarrow>
             if RemoteMessageID s \<noteq> []
             then Some (ErrMsg ''invalid remote message ID on pending outbound send in database'') else None) in
      case perState of
        Some e \<Rightarrow> Some e
      | None \<Rightarrow>
          if ConversationID s \<noteq> [] \<and> BindingConversationID s \<noteq> []
          then Some (ErrMsg ''invalid simultaneous final and staged outbound conversation bindings'') else None)"

definition scan :: "(portal_key \<Rightarrow> bool) \<Rightarrow> outbound_row \<Rightarrow> store_error + outbound_send" where
  "scan pke r =
     (case validateOutboundSendState (ob_state r) of Some e \<Rightarrow> Inl e | None \<Rightarrow>
      case validateOutboundMessageType (ob_message_type r) of Some e \<Rightarrow> Inl e | None \<Rightarrow>
      case hex_decode (ob_content_hash r) of None \<Rightarrow> Inl (ErrMsg ''invalid outbound content hash in database'')
      | Some h \<Rightarrow>
      if length h \<noteq> 32 then Inl (ErrMsg ''invalid outbound content hash in database'') else
      if ob_source_media_digest r \<noteq> [] \<and> \<not> isLowerHexDigest (ob_source_media_digest r) 32
        then Inl (ErrMsg ''invalid outbound source media digest in database'') else
      case decoded_baseline (ob_baseline_ids_json r) of None \<Rightarrow> Inl (ErrMsg ''decode outbound baseline message IDs'')
      | Some ids \<Rightarrow>
      if list_ex blank ids then Inl (ErrMsg ''outbound baseline contains an empty message ID'') else
      let s = send_of_row r h ids in
      case validateOutboundSendIdentity pke s of Some e \<Rightarrow> Inl e | None \<Rightarrow>
      if AttemptCount s < 0 then Inl (ErrMsg ''invalid negative outbound attempt count in database'') else
      case scan_status_error s of Some e \<Rightarrow> Inl e | None \<Rightarrow>
      if \<not> is_zero (TerminalAt s)
        then (case scan_terminal_error s of Some e \<Rightarrow> Inl e | None \<Rightarrow> Inr s)
        else (case scan_pending_error s of Some e \<Rightarrow> Inl e | None \<Rightarrow> Inr s))"

section \<open>Every row the schema and the identity checks accept is readable\<close>

text \<open>
  \<open>readable_row\<close>: what the operations establish beyond the schema's CHECK constraints when
  they write a row (identity, hexadecimal fingerprints, a decodable baseline, and a
  terminal timestamp in the terminal states, which the schema does not ask for).
\<close>

definition readable_row :: "(portal_key \<Rightarrow> bool) \<Rightarrow> outbound_row \<Rightarrow> bool" where
  "readable_row pke r \<longleftrightarrow>
     outbound_row_checks r \<and>
     hex_decode (ob_content_hash r) \<noteq> None \<and>
     (\<exists>ids. decoded_baseline (ob_baseline_ids_json r) = Some ids \<and> \<not> list_ex blank ids) \<and>
     validateOutboundSendIdentity pke (send_of_row r [] []) = None \<and>
     (ob_state r \<in> {Completed, NotSubmitted, Unconfirmed} \<longrightarrow> 0 < ob_terminal_ts r)"

lemma identity_ignores_hash:
  "validateOutboundSendIdentity pke (send_of_row r h ids) =
   validateOutboundSendIdentity pke (send_of_row r [] [])"
  by (simp add: validateOutboundSendIdentity_def send_of_row_def)

lemma identity_digest:
  "validateOutboundSendIdentity pke s = None \<Longrightarrow>
   SourceMediaDigest s = [] \<or> isLowerHexDigest (SourceMediaDigest s) 32"
  by (auto simp: validateOutboundSendIdentity_def split: if_splits)

lemma scan_readable:
  assumes "readable_row pke r"
  shows "\<exists>h ids. scan pke r = Inr (send_of_row r h ids)"
proof -
  from assms obtain h ids where h: "hex_decode (ob_content_hash r) = Some h"
    and ids: "decoded_baseline (ob_baseline_ids_json r) = Some ids" "\<not> list_ex blank ids"
    and ident: "validateOutboundSendIdentity pke (send_of_row r [] []) = None"
    and chk: "outbound_row_checks r"
    and trm: "ob_state r \<in> {Completed, NotSubmitted, Unconfirmed} \<longrightarrow> 0 < ob_terminal_ts r"
    by (auto simp: readable_row_def)
  have len: "length h = 32"
    using hex_decode_length [OF h] check_content_hash [OF chk] by simp
  have dig: "ob_source_media_digest r = [] \<or> isLowerHexDigest (ob_source_media_digest r) 32"
    using identity_digest [OF ident] by (simp add: send_of_row_def)
  have st: "validateOutboundSendState (ob_state r) = None"
    using check_state [OF chk] by (auto simp: known_states_def validateOutboundSendState_def)
  have ty: "validateOutboundMessageType (ob_message_type r) = None"
    using check_message_type [OF chk] by (auto simp: validateOutboundMessageType_def)
  have status: "scan_status_error (send_of_row r h ids) = None"
    using check_timestamps [OF chk] check_claim [OF chk] check_finished [OF chk]
      check_notified_ts [OF chk]
    by (auto simp: scan_status_error_def send_of_row_def Let_def)
  have final: "(if \<not> is_zero (TerminalAt (send_of_row r h ids))
      then scan_terminal_error (send_of_row r h ids)
      else scan_pending_error (send_of_row r h ids)) = None"
  proof (cases "ob_terminal_ts r = 0")
    case True
    then show ?thesis
      using trm check_state [OF chk] check_identity [OF chk] check_bound [OF chk] check_binding [OF chk]
      by (cases "ob_state r") (auto simp: scan_pending_error_def send_of_row_def known_states_def)
  next
    case False
    with check_terminal_ts [OF chk] have pos: "0 < ob_terminal_ts r" by simp
    then show ?thesis
      using check_terminal [OF chk] check_bound [OF chk] check_binding [OF chk]
      by (auto simp: scan_terminal_error_def send_of_row_def timeFromMillis_less)
  qed
  have att: "\<not> AttemptCount (send_of_row r h ids) < 0"
    using check_attempts [OF chk] by (simp add: send_of_row_def)
  have "scan pke r = Inr (send_of_row r h ids)"
    unfolding scan_def Let_def st ty h ids(1) option.case
    using len dig ids(2) identity_ignores_hash [of pke r h ids] ident status final att
    by (cases "is_zero (TerminalAt (send_of_row r h ids))") simp_all
  then show ?thesis by blast
qed

lemma scan_Inr_send: "scan pke r = Inr s \<Longrightarrow> \<exists>h ids. s = send_of_row r h ids"
  by (auto simp: scan_def Let_def split: option.splits if_splits)

lemma send_of_row_fields [simp]:
  "BridgeID (send_of_row r h ids) = ob_bridge_id r"
  "UserLoginID (send_of_row r h ids) = ob_user_login_id r"
  "TransactionID (send_of_row r h ids) = ob_transaction_id r"
  "ConversationID (send_of_row r h ids) = ob_conversation_id r"
  "BindingConversationID (send_of_row r h ids) = ob_binding_conversation_id r"
  "MatrixRoomID (send_of_row r h ids) = ob_matrix_room_id r"
  "MatrixEventID (send_of_row r h ids) = ob_matrix_event_id r"
  "RemoteMessageID (send_of_row r h ids) = ob_remote_message_id r"
  "SendState (send_of_row r h ids) = ob_state r"
  "TerminalAt (send_of_row r h ids) = timeFromMillis (ob_terminal_ts r)"
  "StatusNotifiedAt (send_of_row r h ids) = timeFromMillis (ob_status_notified_ts r)"
  "PortalKey (send_of_row r h ids) = \<lparr>pk_id = ob_portal_id r, pk_receiver = ob_portal_receiver r\<rparr>"
  by (simp_all add: send_of_row_def)

end
