(* ===== verification/Database.thy ===== *)
theory Database
  imports OutboundSend
begin

text \<open>
  The database behind pkg/connector/tumblrdb: the five tables of schema.sql, the two
  framework tables (\<open>message\<close>, \<open>portal\<close>) the queries read, the logins the foreign keys
  point at, and the execution of one statement or one transaction.

  The driver (database/sql, dbutil) is not part of the repository. What the code relies on
  is its documented contract, written out here: a statement either fails as a whole or is
  applied as a whole (\<open>exec\<close>), a transaction whose callback fails or whose commit fails is
  rolled back (\<open>doTxn\<close>), and any single statement or commit may fail for reasons of its
  own. The last point is the list \<open>faults\<close>: one entry is consumed by every statement and
  every commit, and \<open>True\<close> makes it fail without touching a table.
\<close>

section \<open>Rows\<close>

record receipt_row =
  rc_bridge_id :: string
  rc_matrix_event_id :: string
  rc_user_login_id :: string
  rc_transaction_id :: string
  rc_terminal_ts :: millis

record job_row =
  jb_bridge_id :: string
  jb_user_login_id :: string
  jb_conversation_id :: string
  jb_revision :: int
  jb_attempt_count :: int
  jb_next_attempt_ts :: millis
  jb_last_error_code :: string
  jb_delete_room_id :: string
  jb_created_ts :: millis
  jb_updated_ts :: millis

record sync_state_row =
  ss_bridge_id :: string
  ss_user_login_id :: string
  ss_last_remote_watermark_ts :: int
  ss_last_scan_success_ts :: millis

record conversation_sync_row =
  cs_bridge_id :: string
  cs_user_login_id :: string
  cs_conversation_id :: string
  cs_completed_head_message_id :: string
  cs_updated_ts :: millis

text \<open>The columns of the framework's tables that the code's own queries mention; a NULL
  Matrix room is \<open>None\<close>.\<close>

record message_row =
  ms_bridge_id :: string
  ms_id :: string
  ms_mxid :: string
  ms_room :: portal_key
  ms_sender_id :: string
  ms_sender_mxid :: string
  ms_timestamp :: gotime
  ms_send_txn_id :: string
  ms_message_type :: message_type

record portal_row =
  po_bridge_id :: string
  po_key :: portal_key
  po_mxid :: "string option"

record tables =
  outbound :: "outbound_row list"
  receipts :: "receipt_row list"
  jobs :: "job_row list"
  sync_states :: "sync_state_row list"
  conversation_syncs :: "conversation_sync_row list"
  messages :: "message_row list"
  portals :: "portal_row list"
  logins :: "(string \<times> string) list"

record db =
  tbl :: tables
  faults :: "bool list"

section \<open>Statements and transactions\<close>

type_synonym 'a stmt = "tables \<Rightarrow> (store_error + 'a) \<times> tables"

definition exec :: "'a stmt \<Rightarrow> (store_error, 'z db_scheme, 'a) oper" where
  "exec f s =
     (case faults s of
        True # fs \<Rightarrow> (Inl ErrDatabase, s\<lparr>faults := fs\<rparr>)
      | _ \<Rightarrow> (case f (tbl s) of (r, t) \<Rightarrow> (r, s\<lparr>tbl := t, faults := tl (faults s)\<rparr>)))"

definition query :: "(tables \<Rightarrow> store_error + 'a) \<Rightarrow> (store_error, 'z db_scheme, 'a) oper" where
  "query g = exec (\<lambda>t. (g t, t))"

definition doTxn :: "(store_error, 'z db_scheme, 'a) oper \<Rightarrow> (store_error, 'z db_scheme, 'a) oper" where
  "doTxn body s =
     (case body s of
        (Inl e, s') \<Rightarrow> (Inl e, s'\<lparr>tbl := tbl s\<rparr>)
      | (Inr x, s') \<Rightarrow>
          (case faults s' of
             True # fs \<Rightarrow> (Inl ErrDatabase, s'\<lparr>tbl := tbl s, faults := fs\<rparr>)
           | _ \<Rightarrow> (Inr x, s'\<lparr>faults := tl (faults s')\<rparr>)))"

text \<open>\<open>rowWasChanged\<close> (job.go).\<close>

definition rowWasChanged :: "nat \<Rightarrow> bool" where
  "rowWasChanged n \<longleftrightarrow> 0 < n"

text \<open>The next statement does not fail for a reason of its own.\<close>

definition healthy :: "'z db_scheme \<Rightarrow> bool" where
  "healthy s \<longleftrightarrow> True \<notin> set (faults s)"

lemma notin_tl: "x \<notin> set xs \<Longrightarrow> x \<notin> set (tl xs)"
  by (cases xs) auto

lemma exec_healthy [op_simps]:
  "healthy s \<Longrightarrow> exec f s = (case f (tbl s) of (r, t) \<Rightarrow> (r, s\<lparr>tbl := t, faults := tl (faults s)\<rparr>))"
  by (auto simp: exec_def healthy_def split: list.splits bool.splits)

lemma query_healthy [op_simps]:
  "healthy s \<Longrightarrow> query g s = (g (tbl s), s\<lparr>faults := tl (faults s)\<rparr>)"
  by (auto simp: query_def exec_healthy)

lemma healthy_tl [simp]: "healthy s \<Longrightarrow> healthy (s\<lparr>faults := tl (faults s)\<rparr>)"
  by (simp add: healthy_def notin_tl)

lemma healthy_tbl [simp]: "healthy (s\<lparr>tbl := t\<rparr>) = healthy s"
  by (simp add: healthy_def)

lemma healthy_tbl_tl [simp]: "healthy s \<Longrightarrow> healthy (s\<lparr>tbl := t, faults := tl (faults s)\<rparr>)"
  by (simp add: healthy_def notin_tl)

text \<open>What a statement, a query or a transaction can do to the tables, faults included.\<close>

lemma exec_tbl:
  "tbl (snd (exec f s)) = tbl s \<or> tbl (snd (exec f s)) = snd (f (tbl s))"
  by (auto simp: exec_def split: list.splits bool.splits prod.splits)

lemma exec_Inr:
  "exec f s = (Inr x, s') \<Longrightarrow> f (tbl s) = (Inr x, tbl s')"
  by (auto simp: exec_def split: list.splits bool.splits prod.splits)

lemma query_tbl [simp]: "tbl (snd (query g s)) = tbl s"
  using exec_tbl [of "\<lambda>t. (g t, t)" s] by (auto simp: query_def)

lemma query_Inr: "query g s = (Inr x, s') \<Longrightarrow> g (tbl s) = Inr x \<and> tbl s' = tbl s"
  by (auto simp: query_def dest: exec_Inr)

lemma doTxn_tbl:
  "tbl (snd (doTxn body s)) = tbl s \<or>
   (\<exists>x s'. body s = (Inr x, s') \<and> tbl (snd (doTxn body s)) = tbl s')"
  by (auto simp: doTxn_def split: sum.splits list.splits bool.splits prod.splits)

text \<open>Steps of the tables, lifted to the whole state.\<close>

definition on_tables :: "(tables \<Rightarrow> tables \<Rightarrow> bool) \<Rightarrow> 'z db_scheme \<Rightarrow> 'z db_scheme \<Rightarrow> bool" where
  "on_tables R s s' \<longleftrightarrow> R\<^sup>*\<^sup>* (tbl s) (tbl s')"

lemma on_tables_same: "tbl s = tbl s' \<Longrightarrow> on_tables R s s'"
  by (simp add: on_tables_def)

lemma on_tables_rtrancl: "(on_tables R)\<^sup>*\<^sup>* s s' \<Longrightarrow> R\<^sup>*\<^sup>* (tbl s) (tbl s')"
  by (induction rule: rtranclp_induct) (auto simp: on_tables_def)

lemma moves_query [moves_intros]: "moves (on_tables R) (query g)"
  by (auto simp: moves_def intro!: r_into_rtranclp on_tables_same)

lemma moves_exec:
  assumes "\<And>t. R\<^sup>*\<^sup>* t (snd (f t))"
  shows "moves (on_tables R) (exec f)"
  unfolding moves_def
proof (intro allI r_into_rtranclp)
  fix s
  show "on_tables R s (snd (exec f s))"
    using exec_tbl [of f s] assms [of "tbl s"] by (auto simp: on_tables_def)
qed

lemma moves_doTxn:
  assumes "\<And>s x s'. body s = (Inr x, s') \<Longrightarrow> R\<^sup>*\<^sup>* (tbl s) (tbl s')"
  shows "moves (on_tables R) (doTxn body)"
  unfolding moves_def
proof (intro allI r_into_rtranclp)
  fix s
  show "on_tables R s (snd (doTxn body s))"
    using doTxn_tbl [of body s] assms [of s] by (auto simp: on_tables_def)
qed

end
