(* ===== verification/OutboundTables.thy ===== *)
theory OutboundTables
  imports Database
begin

text \<open>
  The SQL statements of pkg/connector/tumblrdb/outbound.go, one definition per query
  constant, as functions on the tables. A write is refused as a whole when it would break
  a constraint of schema.sql (the CHECKs of a row, the primary key, the two unique
  indexes, the foreign key to the login).
\<close>

section \<open>Table constraints\<close>

definition ob_key :: "outbound_row \<Rightarrow> string \<times> string \<times> string" where
  "ob_key r = (ob_bridge_id r, ob_user_login_id r, ob_transaction_id r)"

definition ob_event_key :: "outbound_row \<Rightarrow> string \<times> string" where
  "ob_event_key r = (ob_bridge_id r, ob_matrix_event_id r)"

definition ob_remote_key :: "outbound_row \<Rightarrow> string \<times> string \<times> string \<times> string" where
  "ob_remote_key r =
     (ob_bridge_id r, ob_user_login_id r, ob_conversation_id r, ob_remote_message_id r)"

definition ob_login :: "outbound_row \<Rightarrow> string \<times> string" where
  "ob_login r = (ob_bridge_id r, ob_user_login_id r)"

definition outbound_constraints :: "(string \<times> string) list \<Rightarrow> outbound_row list \<Rightarrow> bool" where
  "outbound_constraints ls rs \<longleftrightarrow>
     list_all outbound_row_checks rs \<and>
     distinct (map ob_key rs) \<and>
     distinct (map ob_event_key rs) \<and>
     distinct (map ob_remote_key (filter (\<lambda>r. ob_remote_message_id r \<noteq> []) rs)) \<and>
     list_all (\<lambda>r. ob_login r \<in> set ls) rs"

definition at_key :: "string \<Rightarrow> string \<Rightarrow> string \<Rightarrow> outbound_row \<Rightarrow> bool" where
  "at_key b l x r \<longleftrightarrow>
     ob_bridge_id r = b \<and> ob_user_login_id r = l \<and> ob_transaction_id r = x"

definition update_outbound :: "(outbound_row \<Rightarrow> bool) \<Rightarrow> (outbound_row \<Rightarrow> outbound_row) \<Rightarrow> nat stmt" where
  "update_outbound p f t =
     (let rs = update_where p f (outbound t) in
      if outbound_constraints (logins t) rs
      then (Inr (length (filter p (outbound t))), t\<lparr>outbound := rs\<rparr>)
      else (Inl ErrConstraint, t))"

definition delete_outbound :: "(outbound_row \<Rightarrow> bool) \<Rightarrow> nat stmt" where
  "delete_outbound p t =
     (Inr (length (filter p (outbound t))), t\<lparr>outbound := filter (\<lambda>r. \<not> p r) (outbound t)\<rparr>)"

section \<open>Insertion and lookups\<close>

definition insertOutboundSend :: "outbound_row \<Rightarrow> nat stmt" where
  "insertOutboundSend r t =
     (if list_ex (\<lambda>m. ms_bridge_id m = ob_bridge_id r \<and> ms_mxid m = ob_matrix_event_id r) (messages t) \<or>
         list_ex (\<lambda>c. rc_bridge_id c = ob_bridge_id r \<and> rc_matrix_event_id c = ob_matrix_event_id r) (receipts t)
      then (Inr 0, t)
      else if \<not> outbound_row_checks r then (Inl ErrConstraint, t)
      else if ob_key r \<in> set (map ob_key (outbound t)) \<or>
              ob_event_key r \<in> set (map ob_event_key (outbound t)) \<or>
              (ob_remote_message_id r \<noteq> [] \<and>
               ob_remote_key r \<in> set (map ob_remote_key (filter (\<lambda>r. ob_remote_message_id r \<noteq> []) (outbound t))))
      then (Inr 0, t)
      else if ob_login r \<notin> set (logins t) then (Inl ErrConstraint, t)
      else (Inr 1, t\<lparr>outbound := outbound t @ [r]\<rparr>))"

definition getOutboundSend :: "string \<Rightarrow> string \<Rightarrow> string \<Rightarrow> tables \<Rightarrow> outbound_row option" where
  "getOutboundSend b l x t = find (at_key b l x) (outbound t)"

definition outboundMatrixEventMapped :: "string \<Rightarrow> string \<Rightarrow> tables \<Rightarrow> bool" where
  "outboundMatrixEventMapped b ev t =
     list_ex (\<lambda>m. ms_bridge_id m = b \<and> ms_mxid m = ev) (messages t)"

definition outboundMatrixEventClaimed :: "string \<Rightarrow> string \<Rightarrow> tables \<Rightarrow> bool" where
  "outboundMatrixEventClaimed b ev t =
     list_ex (\<lambda>r. ob_bridge_id r = b \<and> ob_matrix_event_id r = ev) (outbound t)"

definition outboundTerminalReceiptExists :: "string \<Rightarrow> string \<Rightarrow> tables \<Rightarrow> bool" where
  "outboundTerminalReceiptExists b ev t =
     list_ex (\<lambda>c. rc_bridge_id c = b \<and> rc_matrix_event_id c = ev) (receipts t)"

definition receipt_of :: "outbound_row \<Rightarrow> receipt_row" where
  "receipt_of r =
     \<lparr>rc_bridge_id = ob_bridge_id r, rc_matrix_event_id = ob_matrix_event_id r,
      rc_user_login_id = ob_user_login_id r, rc_transaction_id = ob_transaction_id r,
      rc_terminal_ts = ob_terminal_ts r\<rparr>"

definition receipt_conflict :: "receipt_row \<Rightarrow> receipt_row \<Rightarrow> bool" where
  "receipt_conflict c d \<longleftrightarrow>
     (rc_bridge_id c = rc_bridge_id d \<and> rc_matrix_event_id c = rc_matrix_event_id d) \<or>
     (rc_bridge_id c = rc_bridge_id d \<and> rc_user_login_id c = rc_user_login_id d \<and>
      rc_transaction_id c = rc_transaction_id d)"

definition insertOutboundTerminalReceipt :: "string \<Rightarrow> string \<Rightarrow> string \<Rightarrow> nat stmt" where
  "insertOutboundTerminalReceipt b l x t =
     (case find (\<lambda>r. at_key b l x r \<and> 0 < ob_terminal_ts r) (outbound t) of
        None \<Rightarrow> (Inr 0, t)
      | Some r \<Rightarrow>
          if list_ex (receipt_conflict (receipt_of r)) (receipts t) then (Inr 0, t)
          else if ob_login r \<notin> set (logins t) then (Inl ErrConstraint, t)
          else (Inr 1, t\<lparr>receipts := receipts t @ [receipt_of r]\<rparr>))"

definition getOutboundTerminalReceiptIdentity ::
  "string \<Rightarrow> string \<Rightarrow> string \<Rightarrow> tables \<Rightarrow> (string \<times> string) option" where
  "getOutboundTerminalReceiptIdentity b l x t =
     (case find (at_key b l x) (outbound t) of
        None \<Rightarrow> None
      | Some r \<Rightarrow>
          (case find (\<lambda>c. rc_bridge_id c = ob_bridge_id r \<and> rc_matrix_event_id c = ob_matrix_event_id r)
                     (receipts t) of
             None \<Rightarrow> None
           | Some c \<Rightarrow> Some (rc_user_login_id c, rc_transaction_id c)))"

definition getOutboundSendByRemoteID ::
  "string \<Rightarrow> string \<Rightarrow> string \<Rightarrow> string \<Rightarrow> tables \<Rightarrow> outbound_row option" where
  "getOutboundSendByRemoteID b l c m t =
     find (\<lambda>r. ob_bridge_id r = b \<and> ob_user_login_id r = l \<and> ob_conversation_id r = c \<and>
               ob_remote_message_id r = m \<and> ob_state r = Resolved) (outbound t)"

definition due_eligible :: "string \<Rightarrow> string \<Rightarrow> millis \<Rightarrow> outbound_row \<Rightarrow> bool" where
  "due_eligible b l now r \<longleftrightarrow>
     ob_bridge_id r = b \<and> ob_user_login_id r = l \<and> ob_state r \<noteq> Completed \<and>
     ob_next_attempt_ts r \<le> now \<and>
     (ob_status_claim_token r = [] \<or> ob_status_claim_expires_ts r \<le> now)"

definition due_order :: "outbound_row \<Rightarrow> int \<times> int \<times> int \<times> string" where
  "due_order r =
     (ob_next_attempt_ts r, ob_send_started_ts r, ob_created_ts r, ob_transaction_id r)"

definition getNextDueOutboundSend :: "string \<Rightarrow> string \<Rightarrow> millis \<Rightarrow> tables \<Rightarrow> outbound_row option" where
  "getNextDueOutboundSend b l now t = min_row due_order (filter (due_eligible b l now) (outbound t))"

definition list_order :: "outbound_row \<Rightarrow> int \<times> int \<times> string" where
  "list_order r = (ob_send_started_ts r, ob_created_ts r, ob_transaction_id r)"

definition listUnboundOutboundSends :: "string \<Rightarrow> string \<Rightarrow> tables \<Rightarrow> outbound_row list" where
  "listUnboundOutboundSends b l t =
     sort_key list_order
       (filter (\<lambda>r. ob_bridge_id r = b \<and> ob_user_login_id r = l \<and> ob_conversation_id r = [] \<and>
                    ob_remote_message_id r = [] \<and> ob_terminal_ts r = 0 \<and>
                    (ob_state r = Submitting \<or> ob_state r = Uncertain)) (outbound t))"

definition listMatchableOutboundSends :: "string \<Rightarrow> string \<Rightarrow> string \<Rightarrow> tables \<Rightarrow> outbound_row list" where
  "listMatchableOutboundSends b l c t =
     sort_key list_order
       (filter (\<lambda>r. ob_bridge_id r = b \<and> ob_user_login_id r = l \<and> ob_conversation_id r = c \<and>
                    ob_terminal_ts r = 0 \<and>
                    (ob_state r = Submitting \<or> ob_state r = AwaitingEcho \<or> ob_state r = Uncertain))
         (outbound t))"

section \<open>Updates\<close>

text \<open>\<open>state IN ('prepared', 'submitting', 'awaiting_echo', 'uncertain')\<close> and
  \<open>state IN ('submitting', 'awaiting_echo', 'uncertain')\<close>.\<close>

definition unresolved :: "send_state \<Rightarrow> bool" where
  "unresolved st \<longleftrightarrow> st = Prepared \<or> st = Submitting \<or> st = AwaitingEcho \<or> st = Uncertain"

definition submitted :: "send_state \<Rightarrow> bool" where
  "submitted st \<longleftrightarrow> st = Submitting \<or> st = AwaitingEcho \<or> st = Uncertain"

definition prepareOutboundSendConversation ::
  "string \<Rightarrow> string \<Rightarrow> string \<Rightarrow> string \<Rightarrow> millis \<Rightarrow> millis \<Rightarrow> nat stmt" where
  "prepareOutboundSendConversation b l x conv next upd =
     update_outbound
       (\<lambda>r. at_key b l x r \<and> ob_conversation_id r = [] \<and> ob_remote_message_id r = [] \<and>
            ob_terminal_ts r = 0 \<and> unresolved (ob_state r) \<and>
            (ob_binding_conversation_id r = [] \<or> ob_binding_conversation_id r = conv))
       (\<lambda>r. r\<lparr>ob_binding_conversation_id := conv, ob_next_attempt_ts := next, ob_updated_ts := upd\<rparr>)"

definition markOutboundSendSubmitting ::
  "string \<Rightarrow> string \<Rightarrow> string \<Rightarrow> baseline_json \<Rightarrow> millis \<Rightarrow> millis \<Rightarrow> millis \<Rightarrow> nat stmt" where
  "markOutboundSendSubmitting b l x base started next upd =
     update_outbound
       (\<lambda>r. at_key b l x r \<and> ob_state r = Prepared \<and> ob_status_notified_ts r = 0 \<and>
            ob_remote_message_id r = [] \<and> ob_terminal_ts r = 0)
       (\<lambda>r. r\<lparr>ob_state := Submitting, ob_baseline_ids_json := base, ob_send_started_ts := started,
              ob_next_attempt_ts := next, ob_updated_ts := upd\<rparr>)"

definition markPreparedOutboundNotSubmitted ::
  "string \<Rightarrow> string \<Rightarrow> string \<Rightarrow> millis \<Rightarrow> millis \<Rightarrow> nat stmt" where
  "markPreparedOutboundNotSubmitted b l x term next =
     update_outbound
       (\<lambda>r. at_key b l x r \<and> ob_state r = Prepared \<and> ob_status_notified_ts r = 0 \<and>
            ob_remote_message_id r = [] \<and> ob_terminal_ts r = 0)
       (\<lambda>r. r\<lparr>ob_state := NotSubmitted, ob_terminal_ts := term, ob_next_attempt_ts := next,
              ob_updated_ts := term\<rparr>)"

definition markSubmittingOutboundNotSubmitted ::
  "string \<Rightarrow> string \<Rightarrow> string \<Rightarrow> millis \<Rightarrow> millis \<Rightarrow> nat stmt" where
  "markSubmittingOutboundNotSubmitted b l x term next =
     update_outbound
       (\<lambda>r. at_key b l x r \<and> ob_state r = Submitting \<and> ob_status_notified_ts r = 0 \<and>
            ob_status_claim_token r = [] \<and> ob_remote_message_id r = [] \<and> ob_terminal_ts r = 0)
       (\<lambda>r. r\<lparr>ob_state := NotSubmitted, ob_terminal_ts := term, ob_next_attempt_ts := next,
              ob_updated_ts := term\<rparr>)"

definition claimOutboundStatusDelivery ::
  "string \<Rightarrow> string \<Rightarrow> string \<Rightarrow> string \<Rightarrow> millis \<Rightarrow> millis \<Rightarrow> nat stmt" where
  "claimOutboundStatusDelivery b l x token expires now =
     update_outbound
       (\<lambda>r. at_key b l x r \<and> ob_status_notified_ts r = 0 \<and> 0 < ob_terminal_ts r \<and>
            ob_state r \<in> set failed_states \<and>
            (ob_status_claim_token r = [] \<or> ob_status_claim_expires_ts r \<le> now))
       (\<lambda>r. r\<lparr>ob_status_claim_token := token, ob_status_claim_expires_ts := expires,
              ob_next_attempt_ts := (if expires < ob_next_attempt_ts r then expires else ob_next_attempt_ts r),
              ob_updated_ts := now\<rparr>)"

definition finishOutboundStatusDelivery ::
  "string \<Rightarrow> string \<Rightarrow> string \<Rightarrow> string \<Rightarrow> millis \<Rightarrow> millis \<Rightarrow> nat stmt" where
  "finishOutboundStatusDelivery b l x token notified next =
     update_outbound
       (\<lambda>r. at_key b l x r \<and> ob_status_claim_token r = token \<and> ob_status_notified_ts r = 0 \<and>
            0 < ob_terminal_ts r \<and> ob_state r \<in> set failed_states)
       (\<lambda>r. r\<lparr>ob_status_notified_ts := notified, ob_next_attempt_ts := next,
              ob_status_claim_token := [], ob_status_claim_expires_ts := 0, ob_updated_ts := notified\<rparr>)"

definition releaseOutboundStatusDelivery ::
  "string \<Rightarrow> string \<Rightarrow> string \<Rightarrow> string \<Rightarrow> millis \<Rightarrow> nat stmt" where
  "releaseOutboundStatusDelivery b l x token upd =
     update_outbound
       (\<lambda>r. at_key b l x r \<and> ob_status_claim_token r = token \<and> ob_status_notified_ts r = 0)
       (\<lambda>r. r\<lparr>ob_status_claim_token := [], ob_status_claim_expires_ts := 0, ob_updated_ts := upd\<rparr>)"

definition owns_room :: "tables \<Rightarrow> portal_key \<Rightarrow> outbound_row \<Rightarrow> bool" where
  "owns_room t key r \<longleftrightarrow>
     list_ex (\<lambda>p. po_bridge_id p = ob_bridge_id r \<and> po_key p = key \<and>
                  po_mxid p = Some (ob_matrix_room_id r)) (portals t)"

definition bindOutboundSendConversation ::
  "string \<Rightarrow> string \<Rightarrow> string \<Rightarrow> portal_key \<Rightarrow> string \<Rightarrow> millis \<Rightarrow> millis \<Rightarrow> nat stmt" where
  "bindOutboundSendConversation b l x key conv next upd t =
     update_outbound
       (\<lambda>r. at_key b l x r \<and> ob_remote_message_id r = [] \<and> ob_terminal_ts r = 0 \<and>
            unresolved (ob_state r) \<and>
            ((ob_conversation_id r = [] \<and> ob_binding_conversation_id r = conv) \<or>
             (ob_conversation_id r = conv \<and> ob_binding_conversation_id r = [] \<and>
              ob_portal_id r = pk_id key \<and> ob_portal_receiver r = pk_receiver key)) \<and>
            owns_room t key r)
       (\<lambda>r. r\<lparr>ob_portal_id := pk_id key, ob_portal_receiver := pk_receiver key,
              ob_conversation_id := conv, ob_binding_conversation_id := [],
              ob_next_attempt_ts := next, ob_updated_ts := upd\<rparr>) t"

definition markOutboundSendAwaitingEcho ::
  "string \<Rightarrow> string \<Rightarrow> string \<Rightarrow> millis \<Rightarrow> millis \<Rightarrow> nat stmt" where
  "markOutboundSendAwaitingEcho b l x next upd =
     update_outbound
       (\<lambda>r. at_key b l x r \<and> ob_conversation_id r \<noteq> [] \<and> ob_remote_message_id r = [] \<and>
            ob_terminal_ts r = 0 \<and> submitted (ob_state r))
       (\<lambda>r. r\<lparr>ob_state := AwaitingEcho, ob_next_attempt_ts := next, ob_updated_ts := upd\<rparr>)"

definition markOutboundSendUncertain ::
  "string \<Rightarrow> string \<Rightarrow> string \<Rightarrow> millis \<Rightarrow> millis \<Rightarrow> nat stmt" where
  "markOutboundSendUncertain b l x next upd =
     update_outbound
       (\<lambda>r. at_key b l x r \<and> ob_terminal_ts r = 0 \<and> submitted (ob_state r))
       (\<lambda>r. r\<lparr>ob_state := Uncertain, ob_attempt_count := ob_attempt_count r + 1,
              ob_next_attempt_ts := next, ob_updated_ts := upd\<rparr>)"

definition markOutboundSendUnconfirmed ::
  "string \<Rightarrow> string \<Rightarrow> string \<Rightarrow> millis \<Rightarrow> millis \<Rightarrow> millis \<Rightarrow> nat stmt" where
  "markOutboundSendUnconfirmed b l x term next upd =
     update_outbound
       (\<lambda>r. at_key b l x r \<and> ob_terminal_ts r = 0 \<and> ob_remote_message_id r = [] \<and>
            submitted (ob_state r))
       (\<lambda>r. r\<lparr>ob_state := Unconfirmed, ob_remote_message_id := [], ob_terminal_ts := term,
              ob_next_attempt_ts := next, ob_updated_ts := upd\<rparr>)"

definition markResolvedOutboundSendUnconfirmed ::
  "string \<Rightarrow> string \<Rightarrow> string \<Rightarrow> string \<Rightarrow> millis \<Rightarrow> millis \<Rightarrow> millis \<Rightarrow> nat stmt" where
  "markResolvedOutboundSendUnconfirmed b l x remote term next upd =
     update_outbound
       (\<lambda>r. at_key b l x r \<and> ob_state r = Resolved \<and> ob_remote_message_id r = remote \<and>
            ob_terminal_ts r = 0)
       (\<lambda>r. r\<lparr>ob_state := Unconfirmed, ob_remote_message_id := [], ob_terminal_ts := term,
              ob_next_attempt_ts := next, ob_updated_ts := upd\<rparr>)"

definition markOutboundSendCompleted ::
  "string \<Rightarrow> string \<Rightarrow> string \<Rightarrow> string \<Rightarrow> millis \<Rightarrow> millis \<Rightarrow> nat stmt" where
  "markOutboundSendCompleted b l x remote term next =
     update_outbound
       (\<lambda>r. at_key b l x r \<and> ob_state r = Resolved \<and> ob_remote_message_id r = remote \<and>
            ob_terminal_ts r = 0 \<and> ob_status_notified_ts r = 0 \<and> ob_status_claim_token r = [])
       (\<lambda>r. r\<lparr>ob_state := Completed, ob_terminal_ts := term, ob_next_attempt_ts := next,
              ob_updated_ts := term\<rparr>)"

definition terminalizable :: "string \<Rightarrow> string \<Rightarrow> string \<Rightarrow> outbound_row \<Rightarrow> bool" where
  "terminalizable b l conv r \<longleftrightarrow>
     ob_bridge_id r = b \<and> ob_user_login_id r = l \<and>
     (ob_conversation_id r = conv \<or> ob_binding_conversation_id r = conv) \<and>
     ob_remote_message_id r = [] \<and> ob_terminal_ts r = 0 \<and> unresolved (ob_state r)"

definition terminalizeOutboundConversation ::
  "string \<Rightarrow> string \<Rightarrow> string \<Rightarrow> millis \<Rightarrow> millis \<Rightarrow> string list stmt" where
  "terminalizeOutboundConversation b l conv term next t =
     (case update_outbound (terminalizable b l conv)
        (\<lambda>r. r\<lparr>ob_state := (if ob_state r = Prepared then NotSubmitted else Unconfirmed),
               ob_terminal_ts := term, ob_next_attempt_ts := next, ob_updated_ts := term\<rparr>) t of
        (Inl e, t') \<Rightarrow> (Inl e, t')
      | (Inr n, t') \<Rightarrow>
          (Inr (map ob_transaction_id (filter (terminalizable b l conv) (outbound t))), t'))"

definition scheduleOutboundSendRetry ::
  "string \<Rightarrow> string \<Rightarrow> string \<Rightarrow> millis \<Rightarrow> millis \<Rightarrow> nat stmt" where
  "scheduleOutboundSendRetry b l x next upd =
     update_outbound
       (\<lambda>r. at_key b l x r \<and> ob_state r \<in> set known_states)
       (\<lambda>r. r\<lparr>ob_attempt_count := ob_attempt_count r + 1, ob_next_attempt_ts := next,
              ob_updated_ts := upd\<rparr>)"

definition remote_taken :: "tables \<Rightarrow> string \<Rightarrow> string \<Rightarrow> string \<Rightarrow> outbound_row \<Rightarrow> bool" where
  "remote_taken t b l remote r \<longleftrightarrow>
     list_ex (\<lambda>q. ob_bridge_id q = b \<and> ob_user_login_id q = l \<and>
                  ob_conversation_id q = ob_conversation_id r \<and> ob_remote_message_id q = remote) (outbound t) \<or>
     list_ex (\<lambda>m. ms_bridge_id m = b \<and> ms_id m = remote \<and>
                  (pk_receiver (ms_room m) = ob_portal_receiver r \<or> pk_receiver (ms_room m) = [])) (messages t)"

definition claimOutboundRemoteMessage ::
  "string \<Rightarrow> string \<Rightarrow> string \<Rightarrow> string \<Rightarrow> string \<Rightarrow> millis \<Rightarrow> millis \<Rightarrow> nat stmt" where
  "claimOutboundRemoteMessage b l x remote conv next upd t =
     update_outbound
       (\<lambda>r. at_key b l x r \<and> ob_conversation_id r = conv \<and>
            ((submitted (ob_state r) \<and> ob_remote_message_id r = [] \<and> ob_terminal_ts r = 0 \<and>
              ob_status_claim_token r = [] \<and> \<not> remote_taken t b l remote r) \<or>
             (ob_state r = Resolved \<and> ob_remote_message_id r = remote)))
       (\<lambda>r. r\<lparr>ob_remote_message_id := remote, ob_state := Resolved, ob_next_attempt_ts := next,
              ob_updated_ts := upd\<rparr>) t"

section \<open>Deletions\<close>

definition deletePreparedOutboundSend :: "string \<Rightarrow> string \<Rightarrow> string \<Rightarrow> nat stmt" where
  "deletePreparedOutboundSend b l x =
     delete_outbound
       (\<lambda>r. at_key b l x r \<and> ob_state r = Prepared \<and> ob_remote_message_id r = [] \<and> ob_terminal_ts r = 0)"

definition has_receipt :: "tables \<Rightarrow> outbound_row \<Rightarrow> bool" where
  "has_receipt t r \<longleftrightarrow>
     list_ex (\<lambda>c. rc_bridge_id c = ob_bridge_id r \<and> rc_matrix_event_id c = ob_matrix_event_id r \<and>
                  rc_user_login_id c = ob_user_login_id r \<and> rc_transaction_id c = ob_transaction_id r)
       (receipts t)"

definition deletable_failed :: "tables \<Rightarrow> send_state \<Rightarrow> outbound_row \<Rightarrow> bool" where
  "deletable_failed t st r \<longleftrightarrow>
     ob_state r = st \<and> ob_remote_message_id r = [] \<and> 0 < ob_terminal_ts r \<and>
     0 < ob_status_notified_ts r \<and> ob_status_claim_token r = [] \<and> has_receipt t r"

definition deleteNotSubmittedOutboundSend :: "string \<Rightarrow> string \<Rightarrow> string \<Rightarrow> nat stmt" where
  "deleteNotSubmittedOutboundSend b l x t =
     delete_outbound (\<lambda>r. at_key b l x r \<and> deletable_failed t NotSubmitted r) t"

definition deleteUnconfirmedOutboundSend :: "string \<Rightarrow> string \<Rightarrow> string \<Rightarrow> nat stmt" where
  "deleteUnconfirmedOutboundSend b l x t =
     delete_outbound (\<lambda>r. at_key b l x r \<and> deletable_failed t Unconfirmed r) t"

end
