(* ===== verification/OutboundStore.thy ===== *)
theory OutboundStore
  imports OutboundTables
begin

text \<open>
  The methods of \<open>OutboundSendQuery\<close> (pkg/connector/tumblrdb/outbound.go), in the order of
  the file. \<open>bid\<close> is the query's bridge ID, \<open>pke\<close> the framework's \<open>PortalKey.IsEmpty\<close>, and
  the value of \<open>time.Now()\<close> is an argument \<open>now\<close>. A method returns its Go error as the left
  summand; a nil pointer result is \<open>None\<close>.
\<close>

abbreviation guard :: "store_error option \<Rightarrow> (store_error, 's, 'a) oper \<Rightarrow> (store_error, 's, 'a) oper" where
  "guard e m \<equiv> (case e of Some x \<Rightarrow> raise x | None \<Rightarrow> m)"

definition scan_option ::
  "(portal_key \<Rightarrow> bool) \<Rightarrow> outbound_row option \<Rightarrow> store_error + outbound_send option" where
  "scan_option pke r =
     (case r of None \<Rightarrow> Inr None
      | Some x \<Rightarrow> (case scan pke x of Inl e \<Rightarrow> Inl e | Inr s \<Rightarrow> Inr (Some s)))"

fun scan_list :: "(portal_key \<Rightarrow> bool) \<Rightarrow> outbound_row list \<Rightarrow> store_error + outbound_send list" where
  "scan_list pke [] = Inr []"
| "scan_list pke (r # rs) =
     (case scan pke r of Inl e \<Rightarrow> Inl e
      | Inr s \<Rightarrow> (case scan_list pke rs of Inl e \<Rightarrow> Inl e | Inr ss \<Rightarrow> Inr (s # ss)))"

section \<open>Lookups\<close>

definition Outbound_Get ::
  "(portal_key \<Rightarrow> bool) \<Rightarrow> string \<Rightarrow> string \<Rightarrow> string \<Rightarrow> (store_error, 'z db_scheme, outbound_send option) oper" where
  "Outbound_Get pke bid l x =
     (if blank l then raise (ErrMsg ''user login ID is required to get an outbound send'')
      else if blank x then raise (ErrMsg ''transaction ID is required to get an outbound send'')
      else query (\<lambda>t. scan_option pke (getOutboundSend bid l x t)))"

definition Outbound_GetByRemoteID ::
  "(portal_key \<Rightarrow> bool) \<Rightarrow> string \<Rightarrow> string \<Rightarrow> string \<Rightarrow> string \<Rightarrow> (store_error, 'z db_scheme, outbound_send option) oper" where
  "Outbound_GetByRemoteID pke bid l conv m =
     (if blank l then raise (ErrMsg ''user login ID is required to get an outbound send by remote ID'')
      else if blank conv then raise (ErrMsg ''conversation ID is required to get an outbound send by remote ID'')
      else if blank m then raise (ErrMsg ''remote message ID is required to get an outbound send'')
      else query (\<lambda>t. scan_option pke (getOutboundSendByRemoteID bid l conv m t)))"

definition isMatrixEventMapped :: "string \<Rightarrow> string \<Rightarrow> (store_error, 'z db_scheme, bool) oper" where
  "isMatrixEventMapped bid ev = query (\<lambda>t. Inr (outboundMatrixEventMapped bid ev t))"

definition isMatrixEventClaimed :: "string \<Rightarrow> string \<Rightarrow> (store_error, 'z db_scheme, bool) oper" where
  "isMatrixEventClaimed bid ev = query (\<lambda>t. Inr (outboundMatrixEventClaimed bid ev t))"

definition hasTerminalReceipt :: "string \<Rightarrow> string \<Rightarrow> (store_error, 'z db_scheme, bool) oper" where
  "hasTerminalReceipt bid ev = query (\<lambda>t. Inr (outboundTerminalReceiptExists bid ev t))"

definition Outbound_GetNextDue ::
  "(portal_key \<Rightarrow> bool) \<Rightarrow> string \<Rightarrow> string \<Rightarrow> gotime \<Rightarrow> (store_error, 'z db_scheme, outbound_send option) oper" where
  "Outbound_GetNextDue pke bid l now =
     (if blank l then raise (ErrMsg ''user login ID is required to get the next due outbound send'')
      else if is_zero now then raise (ErrMsg ''current time is required to get the next due outbound send'')
      else query (\<lambda>t. scan_option pke (getNextDueOutboundSend bid l (unix_milli now) t)))"

definition Outbound_ListUnbound ::
  "(portal_key \<Rightarrow> bool) \<Rightarrow> string \<Rightarrow> string \<Rightarrow> (store_error, 'z db_scheme, outbound_send list) oper" where
  "Outbound_ListUnbound pke bid l =
     (if blank l then raise (ErrMsg ''user login ID is required to list unbound outbound sends'')
      else query (\<lambda>t. scan_list pke (listUnboundOutboundSends bid l t)))"

definition Outbound_ListMatchable ::
  "(portal_key \<Rightarrow> bool) \<Rightarrow> string \<Rightarrow> string \<Rightarrow> string \<Rightarrow> (store_error, 'z db_scheme, outbound_send list) oper" where
  "Outbound_ListMatchable pke bid l conv =
     (if blank conv then raise (ErrMsg ''conversation ID is required to list matchable outbound sends'')
      else query (\<lambda>t. scan_list pke (listMatchableOutboundSends bid l conv t)))"

section \<open>Creation\<close>

definition new_row :: "string \<Rightarrow> outbound_send \<Rightarrow> baseline_json \<Rightarrow> gotime \<Rightarrow> outbound_row" where
  "new_row bid s base now =
     \<lparr>ob_bridge_id = bid, ob_user_login_id = UserLoginID s, ob_transaction_id = TransactionID s,
      ob_portal_id = pk_id (PortalKey s), ob_portal_receiver = pk_receiver (PortalKey s),
      ob_conversation_id = ConversationID s, ob_binding_conversation_id = [],
      ob_matrix_room_id = MatrixRoomID s, ob_matrix_event_id = MatrixEventID s,
      ob_matrix_sender_id = MatrixSenderID s, ob_sender_id = SenderID s,
      ob_input_transaction_id = InputTransactionID s, ob_message_type = MessageType s,
      ob_content_hash = hex_encode (ContentHash s), ob_source_media_digest = SourceMediaDigest s,
      ob_baseline_ids_json = base, ob_remote_message_id = [], ob_state = Prepared,
      ob_terminal_ts = 0, ob_status_notified_ts = 0, ob_status_claim_token = [],
      ob_status_claim_expires_ts = 0, ob_attempt_count = 0,
      ob_next_attempt_ts = unix_milli (NextAttemptAt s),
      ob_send_started_ts = unix_milli (SendStartedAt s),
      ob_created_ts = unix_milli now, ob_updated_ts = unix_milli now\<rparr>"

text \<open>The loop \<open>for range 2\<close>; the argument counts the remaining rounds.\<close>

fun insert_rounds ::
  "(portal_key \<Rightarrow> bool) \<Rightarrow> string \<Rightarrow> outbound_send \<Rightarrow> baseline_json \<Rightarrow> gotime \<Rightarrow> nat \<Rightarrow>
   (store_error, 'z db_scheme, outbound_send \<times> bool) oper" where
  "insert_rounds pke bid s base now 0 =
     raise (ErrMsg ''outbound send changed concurrently while loading or creating'')"
| "insert_rounds pke bid s base now (Suc n) =
     andThen (exec (insertOutboundSend (new_row bid s base now))) (\<lambda>k.
     if rowWasChanged k
     then ret (s\<lparr>SendState := Prepared, CreatedAt := now, UpdatedAt := now\<rparr>, True)
     else andThen (Outbound_Get pke bid (UserLoginID s) (TransactionID s)) (\<lambda>existing.
       case existing of
         Some e \<Rightarrow> guard (validateOutboundSendReentry e s) (ret (e, False))
       | None \<Rightarrow>
           andThen (isMatrixEventMapped bid (MatrixEventID s)) (\<lambda>mapped.
           if mapped then raise ErrAlreadyCompleted
           else andThen (isMatrixEventClaimed bid (MatrixEventID s)) (\<lambda>claimed.
                andThen (hasTerminalReceipt bid (MatrixEventID s)) (\<lambda>receipted.
                if claimed \<or> receipted then raise ErrAlreadyHandled
                else insert_rounds pke bid s base now n)))))"

definition fresh_send_error :: "outbound_send \<Rightarrow> gotime \<Rightarrow> store_error option" where
  "fresh_send_error s now =
     (if SendState s \<noteq> StateText [] \<and> SendState s \<noteq> Prepared
        then Some (ErrMsg ''new outbound send state must be prepared'')
      else if BindingConversationID s \<noteq> [] \<or> RemoteMessageID s \<noteq> [] \<or> AttemptCount s \<noteq> 0 \<or>
              \<not> is_zero (TerminalAt s) \<or> \<not> is_zero (StatusNotifiedAt s) \<or> StatusClaimToken s \<noteq> [] \<or>
              \<not> is_zero (StatusClaimExpiresAt s)
        then Some (ErrMsg ''new outbound send cannot already be resolved or attempted'')
      else if is_zero (SendStartedAt s) then Some (ErrMsg ''outbound send start time is required'')
      else if unix_milli now < unix_milli (SendStartedAt s)
        then Some (ErrMsg ''outbound send start time cannot be in the future'')
      else validateNextAttempt (NextAttemptAt s) now)"

definition Outbound_LoadOrCreate ::
  "(portal_key \<Rightarrow> bool) \<Rightarrow> string \<Rightarrow> outbound_send option \<Rightarrow> gotime \<Rightarrow>
   (store_error, 'z db_scheme, outbound_send \<times> bool) oper" where
  "Outbound_LoadOrCreate pke bid snd_opt now =
     (case snd_opt of
        None \<Rightarrow> raise (ErrMsg ''outbound send is required'')
      | Some s0 \<Rightarrow>
          if BridgeID s0 \<noteq> [] \<and> BridgeID s0 \<noteq> bid
          then raise (ErrMsg ''outbound send bridge ID does not match query bridge ID'')
          else let s = s0\<lparr>BridgeID := bid\<rparr> in
          guard (validateOutboundSendIdentity pke s)
          (andThen (Outbound_Get pke bid (UserLoginID s) (TransactionID s)) (\<lambda>existing.
           case existing of
             Some e \<Rightarrow> guard (validateOutboundSendReentry e s) (ret (e, False))
           | None \<Rightarrow>
               guard (fresh_send_error s now)
               (case marshalBaselineMessageIDs (BaselineMessageIDs s) of
                  Inl e \<Rightarrow> raise e
                | Inr base \<Rightarrow> insert_rounds pke bid s base now 2))))"

section \<open>Binding to a conversation\<close>

definition prepared_binding_result :: "outbound_send option \<Rightarrow> string \<Rightarrow> store_error option" where
  "prepared_binding_result existing conv =
     (case existing of
        None \<Rightarrow> Some ErrNotPending
      | Some e \<Rightarrow>
          if isTerminal e \<or> SendState e = Resolved then Some ErrNotPending
          else if ConversationID e = conv \<and> pk_id (PortalKey e) = conv then None
          else if ConversationID e \<noteq> [] \<or>
                  (BindingConversationID e \<noteq> [] \<and> BindingConversationID e \<noteq> conv)
            then Some ErrBindingConflict
          else if BindingConversationID e = conv then None
          else Some ErrNotPending)"

definition Outbound_PrepareConversationBinding ::
  "(portal_key \<Rightarrow> bool) \<Rightarrow> string \<Rightarrow> string \<Rightarrow> string \<Rightarrow> string \<Rightarrow> gotime \<Rightarrow> gotime \<Rightarrow>
   (store_error, 'z db_scheme, unit) oper" where
  "Outbound_PrepareConversationBinding pke bid l x conv nextAttemptAt now =
     (if blank conv then raise (ErrMsg ''conversation ID is required to prepare an outbound binding'')
      else guard (validateNextAttempt nextAttemptAt now)
       (andThen (exec (prepareOutboundSendConversation bid l x conv (unix_milli nextAttemptAt) (unix_milli now))) (\<lambda>n.
        if rowWasChanged n then ret ()
        else andThen (Outbound_Get pke bid l x) (\<lambda>existing.
             guard (prepared_binding_result existing conv) (ret ())))))"

definition bound_result :: "outbound_send option \<Rightarrow> string \<Rightarrow> portal_key \<Rightarrow> store_error option" where
  "bound_result existing conv key =
     (case existing of
        None \<Rightarrow> Some ErrNotPending
      | Some e \<Rightarrow>
          if ConversationID e \<noteq> [] \<and> (ConversationID e \<noteq> conv \<or> PortalKey e \<noteq> key)
            then Some ErrBindingConflict
          else if ConversationID e = conv \<and> PortalKey e = key \<and> BindingConversationID e = [] then None
          else if ConversationID e = [] \<and> BindingConversationID e = conv then Some ErrRoomMismatch
          else Some ErrNotPending)"

definition Outbound_BindConversation ::
  "(portal_key \<Rightarrow> bool) \<Rightarrow> string \<Rightarrow> string \<Rightarrow> string \<Rightarrow> string \<Rightarrow> portal_key \<Rightarrow> gotime \<Rightarrow> gotime \<Rightarrow>
   (store_error, 'z db_scheme, unit) oper" where
  "Outbound_BindConversation pke bid l x conv key nextAttemptAt now =
     (if blank conv then raise (ErrMsg ''conversation ID is required to bind an outbound send'')
      else if pke key then raise (ErrMsg ''portal key is required to bind an outbound send'')
      else if pk_id key \<noteq> conv then raise (ErrMsg ''outbound portal ID must match the conversation ID'')
      else guard (validateNextAttempt nextAttemptAt now)
       (andThen (exec (bindOutboundSendConversation bid l x key conv (unix_milli nextAttemptAt) (unix_milli now))) (\<lambda>n.
        if rowWasChanged n then ret ()
        else andThen (Outbound_Get pke bid l x) (\<lambda>existing.
             guard (bound_result existing conv key) (ret ())))))"

section \<open>State transitions\<close>

definition Outbound_MarkSubmitting ::
  "string \<Rightarrow> string \<Rightarrow> string \<Rightarrow> string list \<Rightarrow> gotime \<Rightarrow> gotime \<Rightarrow> gotime \<Rightarrow> (store_error, 'z db_scheme, bool) oper" where
  "Outbound_MarkSubmitting bid l x baseline sendStartedAt nextAttemptAt now =
     (if is_zero sendStartedAt \<or> now < sendStartedAt
      then raise (ErrMsg ''valid outbound submit start time is required'')
      else guard (validateNextAttempt nextAttemptAt now)
       (case marshalBaselineMessageIDs baseline of
          Inl e \<Rightarrow> raise e
        | Inr base \<Rightarrow>
            andThen (exec (markOutboundSendSubmitting bid l x base (unix_milli sendStartedAt)
                       (unix_milli nextAttemptAt) (unix_milli now))) (\<lambda>n. ret (rowWasChanged n))))"

definition ensureTerminalReceipt :: "string \<Rightarrow> string \<Rightarrow> string \<Rightarrow> (store_error, 'z db_scheme, unit) oper" where
  "ensureTerminalReceipt bid l x =
     andThen (exec (insertOutboundTerminalReceipt bid l x)) (\<lambda>_.
     andThen (query (\<lambda>t. Inr (getOutboundTerminalReceiptIdentity bid l x t))) (\<lambda>identity.
     case identity of
       None \<Rightarrow> raise (ErrMsg ''permanent outbound event receipt was not saved'')
     | Some (rl, rx) \<Rightarrow>
         if rl \<noteq> l \<or> rx \<noteq> x
         then raise (ErrIdentityChanged ''terminal event receipt belongs to another outbound send'')
         else ret ()))"

definition withTerminalReceipt ::
  "string \<Rightarrow> string \<Rightarrow> string \<Rightarrow> (store_error, 'z db_scheme, nat) oper \<Rightarrow> (store_error, 'z db_scheme, bool) oper" where
  "withTerminalReceipt bid l x transition =
     doTxn (andThen transition (\<lambda>n.
       if \<not> rowWasChanged n then ret False
       else andThen (ensureTerminalReceipt bid l x) (\<lambda>_. ret True)))"

definition markNotSubmitted ::
  "(string \<Rightarrow> string \<Rightarrow> string \<Rightarrow> millis \<Rightarrow> millis \<Rightarrow> nat stmt) \<Rightarrow> string \<Rightarrow> string \<Rightarrow> string \<Rightarrow>
   gotime \<Rightarrow> gotime \<Rightarrow> (store_error, 'z db_scheme, bool) oper" where
  "markNotSubmitted stm bid l x terminalAt nextAttemptAt =
     (if is_zero terminalAt then raise (ErrMsg ''outbound not-submitted terminal time is required'')
      else if \<not> terminalAt < nextAttemptAt
        then raise (ErrMsg ''outbound not-submitted retry must follow its terminal time'')
      else withTerminalReceipt bid l x
             (exec (stm bid l x (unix_milli terminalAt) (unix_milli nextAttemptAt))))"

definition Outbound_ClaimPreparedNotSubmitted ::
  "string \<Rightarrow> string \<Rightarrow> string \<Rightarrow> gotime \<Rightarrow> gotime \<Rightarrow> (store_error, 'z db_scheme, bool) oper" where
  "Outbound_ClaimPreparedNotSubmitted = markNotSubmitted markPreparedOutboundNotSubmitted"

definition Outbound_MarkSubmittingNotSubmitted ::
  "string \<Rightarrow> string \<Rightarrow> string \<Rightarrow> gotime \<Rightarrow> gotime \<Rightarrow> (store_error, 'z db_scheme, bool) oper" where
  "Outbound_MarkSubmittingNotSubmitted = markNotSubmitted markSubmittingOutboundNotSubmitted"

definition requirePendingOutboundSend :: "nat \<Rightarrow> (store_error, 's, unit) oper" where
  "requirePendingOutboundSend n = (if rowWasChanged n then ret () else raise ErrNotPending)"

definition Outbound_MarkAwaitingEcho ::
  "string \<Rightarrow> string \<Rightarrow> string \<Rightarrow> gotime \<Rightarrow> gotime \<Rightarrow> (store_error, 'z db_scheme, unit) oper" where
  "Outbound_MarkAwaitingEcho bid l x nextAttemptAt now =
     guard (validateNextAttempt nextAttemptAt now)
       (andThen (exec (markOutboundSendAwaitingEcho bid l x (unix_milli nextAttemptAt) (unix_milli now)))
         requirePendingOutboundSend)"

definition Outbound_MarkUncertain ::
  "string \<Rightarrow> string \<Rightarrow> string \<Rightarrow> gotime \<Rightarrow> gotime \<Rightarrow> (store_error, 'z db_scheme, unit) oper" where
  "Outbound_MarkUncertain bid l x nextAttemptAt now =
     guard (validateNextAttempt nextAttemptAt now)
       (andThen (exec (markOutboundSendUncertain bid l x (unix_milli nextAttemptAt) (unix_milli now)))
         requirePendingOutboundSend)"

definition require_changed :: "bool \<Rightarrow> (store_error, 's, unit) oper" where
  "require_changed c = (if c then ret () else raise ErrNotPending)"

definition Outbound_MarkUnconfirmed ::
  "string \<Rightarrow> string \<Rightarrow> string \<Rightarrow> gotime \<Rightarrow> gotime \<Rightarrow> (store_error, 'z db_scheme, unit) oper" where
  "Outbound_MarkUnconfirmed bid l x terminalAt nextAttemptAt =
     (if is_zero terminalAt then raise (ErrMsg ''unconfirmed-send terminal time is required'')
      else if unix_milli nextAttemptAt \<le> unix_milli terminalAt
        then raise (ErrMsg ''unconfirmed-send notification must be scheduled after the terminal time'')
      else andThen (withTerminalReceipt bid l x
             (exec (markOutboundSendUnconfirmed bid l x (unix_milli terminalAt)
                     (unix_milli nextAttemptAt) (unix_milli terminalAt)))) require_changed)"

definition Outbound_MarkResolvedUnconfirmed ::
  "string \<Rightarrow> string \<Rightarrow> string \<Rightarrow> string \<Rightarrow> gotime \<Rightarrow> gotime \<Rightarrow> (store_error, 'z db_scheme, unit) oper" where
  "Outbound_MarkResolvedUnconfirmed bid l x remote terminalAt nextAttemptAt =
     (if blank remote then raise (ErrMsg ''remote message ID is required to terminalize a resolved outbound send'')
      else if is_zero terminalAt then raise (ErrMsg ''resolved unconfirmed-send terminal time is required'')
      else if unix_milli nextAttemptAt \<le> unix_milli terminalAt
        then raise (ErrMsg ''resolved unconfirmed-send notification must be scheduled after the terminal time'')
      else andThen (withTerminalReceipt bid l x
             (exec (markResolvedOutboundSendUnconfirmed bid l x remote (unix_milli terminalAt)
                     (unix_milli nextAttemptAt) (unix_milli terminalAt)))) require_changed)"

definition Outbound_MarkCompleted ::
  "(portal_key \<Rightarrow> bool) \<Rightarrow> string \<Rightarrow> string \<Rightarrow> string \<Rightarrow> string \<Rightarrow> gotime \<Rightarrow> (store_error, 'z db_scheme, unit) oper" where
  "Outbound_MarkCompleted pke bid l x remote terminalAt =
     (if blank remote then raise (ErrMsg ''remote message ID is required to complete an outbound send'')
      else if is_zero terminalAt then raise (ErrMsg ''outbound completion time is required'')
      else doTxn
        (andThen (exec (markOutboundSendCompleted bid l x remote (unix_milli terminalAt)
                          outboundCompletedReceiptUnixMilli)) (\<lambda>n.
         if rowWasChanged n then ensureTerminalReceipt bid l x
         else andThen (Outbound_Get pke bid l x) (\<lambda>existing.
              case existing of
                None \<Rightarrow> raise ErrNotPending
              | Some e \<Rightarrow>
                  if SendState e \<noteq> Completed \<or> RemoteMessageID e \<noteq> remote then raise ErrNotPending
                  else ensureTerminalReceipt bid l x))))"

fun ensure_receipts :: "string \<Rightarrow> string \<Rightarrow> string list \<Rightarrow> (store_error, 'z db_scheme, unit) oper" where
  "ensure_receipts bid l [] = ret ()"
| "ensure_receipts bid l (x # xs) =
     andThen (ensureTerminalReceipt bid l x) (\<lambda>_. ensure_receipts bid l xs)"

definition Outbound_TerminalizeConversation ::
  "string \<Rightarrow> string \<Rightarrow> string \<Rightarrow> gotime \<Rightarrow> gotime \<Rightarrow> (store_error, 'z db_scheme, string list) oper" where
  "Outbound_TerminalizeConversation bid l conv terminalAt nextAttemptAt =
     (if blank l then raise (ErrMsg ''user login ID is required to terminalize outbound sends'')
      else if blank conv then raise (ErrMsg ''conversation ID is required to terminalize outbound sends'')
      else if is_zero terminalAt then raise (ErrMsg ''outbound terminal time is required'')
      else if \<not> terminalAt < nextAttemptAt
        then raise (ErrMsg ''outbound terminal notification must be scheduled after the terminal time'')
      else doTxn
        (andThen (exec (terminalizeOutboundConversation bid l conv (unix_milli terminalAt)
                          (unix_milli nextAttemptAt))) (\<lambda>ids.
         andThen (ensure_receipts bid l ids) (\<lambda>_. ret ids))))"

definition Outbound_ScheduleRetry ::
  "string \<Rightarrow> string \<Rightarrow> string \<Rightarrow> gotime \<Rightarrow> gotime \<Rightarrow> (store_error, 'z db_scheme, unit) oper" where
  "Outbound_ScheduleRetry bid l x nextAttemptAt now =
     guard (validateNextAttempt nextAttemptAt now)
       (andThen (exec (scheduleOutboundSendRetry bid l x (unix_milli nextAttemptAt) (unix_milli now)))
         requirePendingOutboundSend)"

definition Outbound_ClaimRemoteMessage ::
  "string \<Rightarrow> string \<Rightarrow> string \<Rightarrow> string \<Rightarrow> string \<Rightarrow> gotime \<Rightarrow> gotime \<Rightarrow> (store_error, 'z db_scheme, bool) oper" where
  "Outbound_ClaimRemoteMessage bid l x conv remote nextAttemptAt now =
     (if blank conv then raise (ErrMsg ''conversation ID is required to claim an outbound remote message'')
      else if blank remote then raise (ErrMsg ''remote message ID is required to claim an outbound send'')
      else guard (validateNextAttempt nextAttemptAt now)
       (andThen (exec (claimOutboundRemoteMessage bid l x remote conv (unix_milli nextAttemptAt) (unix_milli now)))
         (\<lambda>n. ret (rowWasChanged n))))"

section \<open>Delivery of the final status\<close>

definition Outbound_ClaimStatusDelivery ::
  "string \<Rightarrow> string \<Rightarrow> string \<Rightarrow> string \<Rightarrow> gotime \<Rightarrow> gotime \<Rightarrow> (store_error, 'z db_scheme, bool) oper" where
  "Outbound_ClaimStatusDelivery bid l x token expiresAt now =
     (if blank token then raise (ErrMsg ''outbound status claim token is required'')
      else if \<not> now < expiresAt then raise (ErrMsg ''outbound status claim expiry must be in the future'')
      else andThen (exec (claimOutboundStatusDelivery bid l x token (unix_milli expiresAt) (unix_milli now)))
             (\<lambda>n. ret (rowWasChanged n)))"

definition Outbound_FinishStatusDelivery ::
  "(portal_key \<Rightarrow> bool) \<Rightarrow> string \<Rightarrow> string \<Rightarrow> string \<Rightarrow> string \<Rightarrow> gotime \<Rightarrow> gotime \<Rightarrow> (store_error, 'z db_scheme, unit) oper" where
  "Outbound_FinishStatusDelivery pke bid l x token notifiedAt terminalExpiresAt =
     (if blank token then raise (ErrMsg ''outbound status claim token is required'')
      else if is_zero notifiedAt then raise (ErrMsg ''outbound status notification time is required'')
      else if \<not> notifiedAt < terminalExpiresAt
        then raise (ErrMsg ''outbound terminal expiry must follow its notification time'')
      else andThen (exec (finishOutboundStatusDelivery bid l x token (unix_milli notifiedAt)
                            (unix_milli terminalExpiresAt))) (\<lambda>n.
           if rowWasChanged n then ret ()
           else andThen (Outbound_Get pke bid l x) (\<lambda>existing.
                case existing of
                  Some e \<Rightarrow> if \<not> is_zero (StatusNotifiedAt e) then ret () else raise ErrNotPending
                | None \<Rightarrow> raise ErrNotPending)))"

definition Outbound_ReleaseStatusDelivery ::
  "string \<Rightarrow> string \<Rightarrow> string \<Rightarrow> string \<Rightarrow> gotime \<Rightarrow> (store_error, 'z db_scheme, unit) oper" where
  "Outbound_ReleaseStatusDelivery bid l x token now =
     (if blank token then raise (ErrMsg ''outbound status claim token is required'')
      else andThen (exec (releaseOutboundStatusDelivery bid l x token (unix_milli now))) (\<lambda>_. ret ()))"

section \<open>Deletion\<close>

definition Outbound_DeletePrepared :: "string \<Rightarrow> string \<Rightarrow> string \<Rightarrow> (store_error, 'z db_scheme, bool) oper" where
  "Outbound_DeletePrepared bid l x =
     andThen (exec (deletePreparedOutboundSend bid l x)) (\<lambda>n. ret (rowWasChanged n))"

definition Outbound_DeleteNotSubmitted :: "string \<Rightarrow> string \<Rightarrow> string \<Rightarrow> (store_error, 'z db_scheme, bool) oper" where
  "Outbound_DeleteNotSubmitted bid l x =
     andThen (exec (deleteNotSubmittedOutboundSend bid l x)) (\<lambda>n. ret (rowWasChanged n))"

definition Outbound_DeleteUnconfirmed :: "string \<Rightarrow> string \<Rightarrow> string \<Rightarrow> (store_error, 'z db_scheme, bool) oper" where
  "Outbound_DeleteUnconfirmed bid l x =
     andThen (exec (deleteUnconfirmedOutboundSend bid l x)) (\<lambda>n. ret (rowWasChanged n))"

end
