(* ===== verification/OutboundSteps.thy ===== *)
theory OutboundSteps
  imports OutboundStore
begin

text \<open>
  What the outbound store can do, as a step relation on the tables: one rule per write
  statement, one per terminal transaction (the transition together with its permanent
  receipt), and one for everything the rest of the program and the framework do to the
  other tables while the login exists. Every method of OutboundStore is shown to move the
  tables by these steps, for every argument and every pattern of database failures, so the
  invariants proved here hold under every interleaving of any number of workers.
\<close>

section \<open>The step relation\<close>

datatype store_event = Submitted string string | Notified string string

text \<open>A row as \<open>LoadOrCreate\<close> inserts it.\<close>

definition fresh_row :: "(portal_key \<Rightarrow> bool) \<Rightarrow> outbound_row \<Rightarrow> bool" where
  "fresh_row pke r \<longleftrightarrow>
     ob_state r = Prepared \<and> ob_terminal_ts r = 0 \<and> ob_status_notified_ts r = 0 \<and>
     hex_decode (ob_content_hash r) \<noteq> None \<and>
     (\<exists>ids. decoded_baseline (ob_baseline_ids_json r) = Some ids \<and> \<not> list_ex blank ids) \<and>
     validateOutboundSendIdentity pke (send_of_row r [] []) = None"

definition with_receipt :: "string \<Rightarrow> string \<Rightarrow> string \<Rightarrow> tables \<Rightarrow> tables \<Rightarrow> bool" where
  "with_receipt b l x t t' \<longleftrightarrow>
     (\<exists>n. insertOutboundTerminalReceipt b l x t = (Inr n, t')) \<and>
     getOutboundTerminalReceiptIdentity b l x t' = Some (l, x)"

fun with_receipts :: "string \<Rightarrow> string \<Rightarrow> string list \<Rightarrow> tables \<Rightarrow> tables \<Rightarrow> bool" where
  "with_receipts b l [] t t' = (t' = t)"
| "with_receipts b l (x # xs) t t' = (\<exists>u. with_receipt b l x t u \<and> with_receipts b l xs u t')"

inductive outbound_step :: "(portal_key \<Rightarrow> bool) \<Rightarrow> tables \<Rightarrow> store_event option \<Rightarrow> tables \<Rightarrow> bool"
  for pke where
  create: "fresh_row pke r \<Longrightarrow> outbound_step pke t None (snd (insertOutboundSend r t))"
| stage_binding: "outbound_step pke t None (snd (prepareOutboundSendConversation b l x conv nx up t))"
| bind: "\<not> pke key \<Longrightarrow> pk_id key = conv \<Longrightarrow>
     outbound_step pke t None (snd (bindOutboundSendConversation b l x key conv nx up t))"
| submit: "marshalBaselineMessageIDs ids = Inr base \<Longrightarrow> r \<in> set (outbound t) \<Longrightarrow> at_key b l x r \<Longrightarrow>
     markOutboundSendSubmitting b l x base st nx up t = (Inr n, t') \<Longrightarrow> 0 < n \<Longrightarrow>
     outbound_step pke t (Some (Submitted b (ob_matrix_event_id r))) t'"
| await_echo: "outbound_step pke t None (snd (markOutboundSendAwaitingEcho b l x nx up t))"
| uncertain: "outbound_step pke t None (snd (markOutboundSendUncertain b l x nx up t))"
| retry: "outbound_step pke t None (snd (scheduleOutboundSendRetry b l x nx up t))"
| claim_remote: "outbound_step pke t None (snd (claimOutboundRemoteMessage b l x remote conv nx up t))"
| claim_status: "outbound_step pke t None (snd (claimOutboundStatusDelivery b l x token ex now t))"
| finish_status: "r \<in> set (outbound t) \<Longrightarrow> at_key b l x r \<Longrightarrow> 0 < notified \<Longrightarrow>
     finishOutboundStatusDelivery b l x token notified nx t = (Inr n, t') \<Longrightarrow> 0 < n \<Longrightarrow>
     outbound_step pke t (Some (Notified b (ob_matrix_event_id r))) t'"
| finish_status_epoch: "notified \<le> 0 \<Longrightarrow>
     outbound_step pke t None (snd (finishOutboundStatusDelivery b l x token notified nx t))"
| release_status: "outbound_step pke t None (snd (releaseOutboundStatusDelivery b l x token up t))"
| not_submitted_prepared:
    "markPreparedOutboundNotSubmitted b l x trm nx t = (Inr n, u) \<Longrightarrow> 0 < n \<Longrightarrow>
     with_receipt b l x u t' \<Longrightarrow> outbound_step pke t None t'"
| not_submitted_submitting:
    "markSubmittingOutboundNotSubmitted b l x trm nx t = (Inr n, u) \<Longrightarrow> 0 < n \<Longrightarrow>
     with_receipt b l x u t' \<Longrightarrow> outbound_step pke t None t'"
| unconfirmed:
    "markOutboundSendUnconfirmed b l x trm nx up t = (Inr n, u) \<Longrightarrow> 0 < n \<Longrightarrow>
     with_receipt b l x u t' \<Longrightarrow> outbound_step pke t None t'"
| resolved_unconfirmed:
    "markResolvedOutboundSendUnconfirmed b l x remote trm nx up t = (Inr n, u) \<Longrightarrow> 0 < n \<Longrightarrow>
     with_receipt b l x u t' \<Longrightarrow> outbound_step pke t None t'"
| completed:
    "markOutboundSendCompleted b l x remote trm nx t = (Inr n, u) \<Longrightarrow> 0 < n \<Longrightarrow>
     with_receipt b l x u t' \<Longrightarrow> outbound_step pke t None t'"
| terminalize:
    "terminalizeOutboundConversation b l conv trm nx t = (Inr ids, u) \<Longrightarrow>
     with_receipts b l ids u t' \<Longrightarrow> outbound_step pke t None t'"
| re_receipt: "with_receipt b l x t t' \<Longrightarrow> outbound_step pke t None t'"
| delete_prepared: "outbound_step pke t None (snd (deletePreparedOutboundSend b l x t))"
| delete_not_submitted: "outbound_step pke t None (snd (deleteNotSubmittedOutboundSend b l x t))"
| delete_unconfirmed: "outbound_step pke t None (snd (deleteUnconfirmedOutboundSend b l x t))"
| environment: "outbound t' = outbound t \<Longrightarrow> receipts t' = receipts t \<Longrightarrow>
     set (logins t) \<subseteq> set (logins t') \<Longrightarrow> outbound_step pke t None t'"

definition outbound_move :: "(portal_key \<Rightarrow> bool) \<Rightarrow> tables \<Rightarrow> tables \<Rightarrow> bool" where
  "outbound_move pke t t' \<longleftrightarrow> (\<exists>e. outbound_step pke t e t')"

section \<open>The invariant\<close>

text \<open>
  \<open>settled E\<close>: the rows whose key is outside \<open>E\<close> are consistent with the receipts. \<open>E\<close> is
  empty between transactions; inside a terminal transaction it holds the rows already
  marked but not yet receipted.
\<close>

definition sound_row :: "(portal_key \<Rightarrow> bool) \<Rightarrow> outbound_row \<Rightarrow> bool" where
  "sound_row pke r \<longleftrightarrow>
     hex_decode (ob_content_hash r) \<noteq> None \<and>
     (\<exists>ids. decoded_baseline (ob_baseline_ids_json r) = Some ids \<and> \<not> list_ex blank ids) \<and>
     validateOutboundSendIdentity pke (send_of_row r [] []) = None"

definition final_state :: "send_state \<Rightarrow> bool" where
  "final_state st \<longleftrightarrow> st = Completed \<or> st = NotSubmitted \<or> st = Unconfirmed"

definition event_receipted :: "tables \<Rightarrow> string \<times> string \<Rightarrow> bool" where
  "event_receipted t k \<longleftrightarrow> (\<exists>c \<in> set (receipts t). (rc_bridge_id c, rc_matrix_event_id c) = k)"

definition settled_row :: "tables \<Rightarrow> outbound_row \<Rightarrow> bool" where
  "settled_row t r \<longleftrightarrow>
     (0 < ob_terminal_ts r \<longleftrightarrow> final_state (ob_state r)) \<and>
     (if 0 < ob_terminal_ts r then has_receipt t r else \<not> event_receipted t (ob_event_key r))"

definition receipts_distinct :: "tables \<Rightarrow> bool" where
  "receipts_distinct t \<longleftrightarrow>
     distinct (map (\<lambda>c. (rc_bridge_id c, rc_matrix_event_id c)) (receipts t)) \<and>
     distinct (map (\<lambda>c. (rc_bridge_id c, rc_user_login_id c, rc_transaction_id c)) (receipts t))"

definition settled :: "(portal_key \<Rightarrow> bool) \<Rightarrow> (string \<times> string \<times> string) set \<Rightarrow> tables \<Rightarrow> bool" where
  "settled pke E t \<longleftrightarrow>
     outbound_constraints (logins t) (outbound t) \<and>
     (\<forall>r \<in> set (outbound t). sound_row pke r) \<and>
     (\<forall>r \<in> set (outbound t). ob_key r \<notin> E \<longrightarrow> settled_row t r) \<and>
     (\<forall>r \<in> set (outbound t). ob_key r \<in> E \<longrightarrow>
        final_state (ob_state r) \<and> \<not> event_receipted t (ob_event_key r)) \<and>
     receipts_distinct t"

abbreviation store_inv :: "(portal_key \<Rightarrow> bool) \<Rightarrow> tables \<Rightarrow> bool" where
  "store_inv pke \<equiv> settled pke {}"

lemma settledD:
  assumes "settled pke E t"
  shows settled_constraints: "outbound_constraints (logins t) (outbound t)"
    and settled_sound: "r \<in> set (outbound t) \<Longrightarrow> sound_row pke r"
    and settled_rows: "r \<in> set (outbound t) \<Longrightarrow> ob_key r \<notin> E \<Longrightarrow> settled_row t r"
    and settled_final: "r \<in> set (outbound t) \<Longrightarrow> ob_key r \<in> E \<Longrightarrow> final_state (ob_state r)"
    and settled_open: "r \<in> set (outbound t) \<Longrightarrow> ob_key r \<in> E \<Longrightarrow> \<not> event_receipted t (ob_event_key r)"
    and settled_receipts: "receipts_distinct t"
  using assms by (auto simp: settled_def)

lemma constraintsD:
  assumes "outbound_constraints ls rs"
  shows "r \<in> set rs \<Longrightarrow> outbound_row_checks r"
    and "r \<in> set rs \<Longrightarrow> q \<in> set rs \<Longrightarrow> ob_key r = ob_key q \<Longrightarrow> r = q"
    and "r \<in> set rs \<Longrightarrow> q \<in> set rs \<Longrightarrow> ob_event_key r = ob_event_key q \<Longrightarrow> r = q"
    and "r \<in> set rs \<Longrightarrow> ob_login r \<in> set ls"
  using assms
  by (auto simp: outbound_constraints_def list_all_iff dest: distinct_map_inj)

lemma at_key_iff: "at_key b l x r \<longleftrightarrow> ob_key r = (b, l, x)"
  by (auto simp: at_key_def ob_key_def)

lemma has_receipt_iff:
  "has_receipt t r \<longleftrightarrow>
   (\<exists>c \<in> set (receipts t). (rc_bridge_id c, rc_matrix_event_id c) = ob_event_key r \<and>
      (rc_bridge_id c, rc_user_login_id c, rc_transaction_id c) = ob_key r)"
  by (auto simp: has_receipt_def list_ex_iff ob_event_key_def ob_key_def)

lemma has_receipt_event: "has_receipt t r \<Longrightarrow> event_receipted t (ob_event_key r)"
  by (auto simp: has_receipt_iff event_receipted_def)

lemma settled_row_cong:
  "receipts t = receipts u \<Longrightarrow> settled_row t r = settled_row u r"
  by (simp add: settled_row_def has_receipt_iff event_receipted_def)

lemma event_receipted_cong:
  "receipts t = receipts u \<Longrightarrow> event_receipted t k = event_receipted u k"
  by (simp add: event_receipted_def)

section \<open>Single-row updates\<close>

text \<open>A readable row reached by the store, for the decoder.\<close>

lemma settled_readable:
  assumes "store_inv pke t" and "r \<in> set (outbound t)"
  shows "readable_row pke r"
  using assms settled_rows [OF assms(1) assms(2)] settled_sound [OF assms] constraintsD(1) [OF settled_constraints [OF assms(1)] assms(2)]
  by (auto simp: readable_row_def sound_row_def settled_row_def final_state_def)

lemma update_outbound_cases:
  "(snd (update_outbound p f t) = t \<and> (fst (update_outbound p f t) = Inl ErrConstraint)) \<or>
   (update_outbound p f t =
      (Inr (length (filter p (outbound t))), t\<lparr>outbound := update_where p f (outbound t)\<rparr>) \<and>
    outbound_constraints (logins t) (update_where p f (outbound t)))"
  by (auto simp: update_outbound_def Let_def)

lemma update_outbound_InrD:
  "update_outbound p f t = (Inr n, t') \<Longrightarrow>
   n = length (filter p (outbound t)) \<and> t' = t\<lparr>outbound := update_where p f (outbound t)\<rparr> \<and>
   outbound_constraints (logins t) (update_where p f (outbound t))"
  by (auto simp: update_outbound_def Let_def split: if_splits)

text \<open>An update that keeps a row's identity, its terminal timestamp and whether its state is
  final keeps the invariant.\<close>

definition keeps :: "(outbound_row \<Rightarrow> bool) \<Rightarrow> (outbound_row \<Rightarrow> outbound_row) \<Rightarrow> bool" where
  "keeps p f \<longleftrightarrow>
     (\<forall>r. p r \<longrightarrow> ob_key (f r) = ob_key r \<and> ob_event_key (f r) = ob_event_key r \<and>
        ob_terminal_ts (f r) = ob_terminal_ts r \<and>
        final_state (ob_state (f r)) = final_state (ob_state r))"

lemma update_keeps_inv:
  assumes inv: "store_inv pke t"
    and keeps: "keeps p f"
    and sound: "\<And>r. r \<in> set (outbound t) \<Longrightarrow> p r \<Longrightarrow> sound_row pke r \<Longrightarrow> sound_row pke (f r)"
  shows "store_inv pke (snd (update_outbound p f t))"
proof -
  let ?rs = "update_where p f (outbound t)"
  let ?t = "t\<lparr>outbound := ?rs\<rparr>"
  have row: "sound_row pke q \<and> settled_row ?t q" if "q \<in> set ?rs" for q
  proof -
    from that obtain r where r: "r \<in> set (outbound t)" "q = (if p r then f r else r)"
      by (auto simp: update_where_def)
    have "settled_row t r" using settled_rows [OF inv r(1)] by simp
    then have "settled_row t q"
      using r(2) keeps by (auto simp: settled_row_def keeps_def has_receipt_iff)
    then have "settled_row ?t q" by (simp add: settled_row_cong [of ?t t])
    moreover have "sound_row pke q" using r sound [OF r(1)] settled_sound [OF inv r(1)] by auto
    ultimately show ?thesis by simp
  qed
  have rd: "receipts_distinct ?t" using settled_receipts [OF inv] by (simp add: receipts_distinct_def)
  from update_outbound_cases [of p f t] show ?thesis
  proof
    assume "snd (update_outbound p f t) = t \<and> fst (update_outbound p f t) = Inl ErrConstraint"
    then show ?thesis using inv by simp
  next
    assume "update_outbound p f t = (Inr (length (filter p (outbound t))), ?t) \<and>
      outbound_constraints (logins t) ?rs"
    then show ?thesis using row rd by (auto simp: settled_def)
  qed
qed

lemma sound_row_upd [row_simps]:
  "sound_row pke (r\<lparr>ob_state := st\<rparr>) = sound_row pke r"
  "sound_row pke (r\<lparr>ob_terminal_ts := n\<rparr>) = sound_row pke r"
  "sound_row pke (r\<lparr>ob_next_attempt_ts := n\<rparr>) = sound_row pke r"
  "sound_row pke (r\<lparr>ob_updated_ts := n\<rparr>) = sound_row pke r"
  "sound_row pke (r\<lparr>ob_send_started_ts := n\<rparr>) = sound_row pke r"
  "sound_row pke (r\<lparr>ob_attempt_count := i\<rparr>) = sound_row pke r"
  "sound_row pke (r\<lparr>ob_remote_message_id := s\<rparr>) = sound_row pke r"
  "sound_row pke (r\<lparr>ob_binding_conversation_id := s\<rparr>) = sound_row pke r"
  "sound_row pke (r\<lparr>ob_status_claim_token := s\<rparr>) = sound_row pke r"
  "sound_row pke (r\<lparr>ob_status_claim_expires_ts := n\<rparr>) = sound_row pke r"
  "sound_row pke (r\<lparr>ob_status_notified_ts := n\<rparr>) = sound_row pke r"
  by (simp_all add: sound_row_def validateOutboundSendIdentity_def send_of_row_def)

lemma sound_row_baseline:
  "sound_row pke r \<Longrightarrow> marshalBaselineMessageIDs ids = Inr base \<Longrightarrow>
   sound_row pke (r\<lparr>ob_baseline_ids_json := base\<rparr>)"
  using marshalled_readable [of ids base] by (auto simp: sound_row_def validateOutboundSendIdentity_def send_of_row_def)

lemma portal_key_eta [simp]: "\<lparr>pk_id = pk_id k, pk_receiver = pk_receiver k\<rparr> = k"
  by (cases k) simp

lemma sound_row_bind:
  "sound_row pke r \<Longrightarrow> \<not> pke key \<Longrightarrow> pk_id key = conv \<Longrightarrow>
   sound_row pke (r\<lparr>ob_portal_id := pk_id key, ob_portal_receiver := pk_receiver key,
     ob_conversation_id := conv\<rparr>)"
  by (auto simp: sound_row_def validateOutboundSendIdentity_def send_of_row_def split: if_splits)

lemmas key_simps = ob_key_def ob_event_key_def

lemma final_simps [simp]:
  "final_state Prepared = False" "final_state Submitting = False" "final_state AwaitingEcho = False"
  "final_state Uncertain = False" "final_state Resolved = False" "final_state Completed = True"
  "final_state NotSubmitted = True" "final_state Unconfirmed = True"
  by (simp_all add: final_state_def)

end
