(* ===== verification/OutboundInvariant.thy ===== *)
theory OutboundInvariant
  imports OutboundSteps
begin

text \<open>
  The store's invariant holds after every step, and events are spent at most once: the
  interface \<open>once_guard\<close> of the prelude, interpreted on the step relation.
\<close>

section \<open>Updates that do not end a send\<close>

lemmas nonterminal_defs =
  prepareOutboundSendConversation_def markOutboundSendAwaitingEcho_def markOutboundSendUncertain_def
  scheduleOutboundSendRetry_def claimOutboundRemoteMessage_def claimOutboundStatusDelivery_def
  finishOutboundStatusDelivery_def releaseOutboundStatusDelivery_def

lemma nonterminal_inv:
  assumes "store_inv pke t"
  shows "store_inv pke (snd (prepareOutboundSendConversation b l x conv nx up t))"
    and "store_inv pke (snd (markOutboundSendAwaitingEcho b l x nx up t))"
    and "store_inv pke (snd (markOutboundSendUncertain b l x nx up t))"
    and "store_inv pke (snd (scheduleOutboundSendRetry b l x nx up t))"
    and "store_inv pke (snd (claimOutboundRemoteMessage b l x remote conv nx up t))"
    and "store_inv pke (snd (claimOutboundStatusDelivery b l x token ex now t))"
    and "store_inv pke (snd (finishOutboundStatusDelivery b l x token notified nx t))"
    and "store_inv pke (snd (releaseOutboundStatusDelivery b l x token up t))"
  unfolding nonterminal_defs
  by (rule update_keeps_inv [OF assms],
      auto simp: keeps_def key_simps submitted_def row_simps)+

lemma bind_inv:
  "store_inv pke t \<Longrightarrow> \<not> pke key \<Longrightarrow> pk_id key = conv \<Longrightarrow>
   store_inv pke (snd (bindOutboundSendConversation b l x key conv nx up t))"
  unfolding bindOutboundSendConversation_def
  by (rule update_keeps_inv) (auto simp: keeps_def key_simps row_simps dest: sound_row_bind)

lemma submit_inv:
  "store_inv pke t \<Longrightarrow> marshalBaselineMessageIDs ids = Inr base \<Longrightarrow>
   store_inv pke (snd (markOutboundSendSubmitting b l x base st nx up t))"
  unfolding markOutboundSendSubmitting_def
proof (rule update_keeps_inv)
  fix r assume "marshalBaselineMessageIDs ids = Inr base" "sound_row pke r"
  then show "sound_row pke (r\<lparr>ob_state := Submitting, ob_baseline_ids_json := base,
      ob_send_started_ts := st, ob_next_attempt_ts := nx, ob_updated_ts := up\<rparr>)"
    using sound_row_baseline [of pke "r\<lparr>ob_state := Submitting\<rparr>" ids base] by (simp add: row_simps)
qed (auto simp: keeps_def key_simps)

section \<open>Insertion and deletion\<close>

lemma outbound_constraints_snoc:
  assumes "outbound_constraints ls rs" and "outbound_row_checks r"
    and "ob_key r \<notin> set (map ob_key rs)" and "ob_event_key r \<notin> set (map ob_event_key rs)"
    and "ob_remote_message_id r = []" and "ob_login r \<in> set ls"
  shows "outbound_constraints ls (rs @ [r])"
  using assms by (simp add: outbound_constraints_def)

lemma insert_cases:
  "snd (insertOutboundSend r t) = t \<or>
   (insertOutboundSend r t = (Inr 1, t\<lparr>outbound := outbound t @ [r]\<rparr>) \<and>
    \<not> event_receipted t (ob_event_key r) \<and>
    \<not> outboundMatrixEventMapped (ob_bridge_id r) (ob_matrix_event_id r) t \<and>
    outbound_row_checks r \<and> ob_key r \<notin> set (map ob_key (outbound t)) \<and>
    ob_event_key r \<notin> set (map ob_event_key (outbound t)) \<and> ob_login r \<in> set (logins t))"
  by (auto simp: insertOutboundSend_def event_receipted_def list_ex_iff ob_event_key_def
      outboundMatrixEventMapped_def)

lemma create_inv:
  assumes inv: "store_inv pke t" and fresh: "fresh_row pke r"
  shows "store_inv pke (snd (insertOutboundSend r t))"
proof (cases "snd (insertOutboundSend r t) = t")
  case True
  with inv show ?thesis by simp
next
  case False
  let ?t = "t\<lparr>outbound := outbound t @ [r]\<rparr>"
  from False insert_cases [of r t] have ins: "snd (insertOutboundSend r t) = ?t"
    "\<not> event_receipted t (ob_event_key r)" "outbound_row_checks r"
    "ob_key r \<notin> set (map ob_key (outbound t))" "ob_event_key r \<notin> set (map ob_event_key (outbound t))"
    "ob_login r \<in> set (logins t)" by auto
  have "ob_remote_message_id r = []"
    using check_identity [OF ins(3)] fresh by (simp add: fresh_row_def)
  then have "outbound_constraints (logins t) (outbound t @ [r])"
    using outbound_constraints_snoc [OF settled_constraints [OF inv] ins(3,4,5)] ins(6) by simp
  moreover have "sound_row pke r" "settled_row ?t r"
    using fresh ins(2) by (auto simp: fresh_row_def sound_row_def settled_row_def event_receipted_def)
  moreover have "settled_row ?t q" if "q \<in> set (outbound t)" for q
    using settled_rows [OF inv that] settled_row_cong [of ?t t] by simp
  ultimately show ?thesis
    using ins(1) settled_sound [OF inv] settled_receipts [OF inv]
    by (auto simp: settled_def receipts_distinct_def)
qed

lemma outbound_constraints_filter:
  "outbound_constraints ls rs \<Longrightarrow> outbound_constraints ls (filter p rs)"
proof -
  assume "outbound_constraints ls rs"
  moreover have "filter (\<lambda>r. ob_remote_message_id r \<noteq> []) (filter p rs) =
      filter p (filter (\<lambda>r. ob_remote_message_id r \<noteq> []) rs)"
    by (simp add: filter_filter conj_commute)
  ultimately show ?thesis
    by (auto simp: outbound_constraints_def list_all_iff distinct_map_filter simp del: filter_filter)
qed

lemma delete_inv:
  assumes inv: "store_inv pke t"
  shows "store_inv pke (snd (delete_outbound p t))"
proof -
  let ?t = "t\<lparr>outbound := filter (\<lambda>r. \<not> p r) (outbound t)\<rparr>"
  have "settled_row ?t r" if "r \<in> set (outbound t)" for r
    using settled_rows [OF inv that] settled_row_cong [of ?t t] by simp
  then show ?thesis
    using outbound_constraints_filter [OF settled_constraints [OF inv]] settled_sound [OF inv]
      settled_receipts [OF inv]
    by (auto simp: delete_outbound_def settled_def receipts_distinct_def)
qed

section \<open>Terminal transactions\<close>

text \<open>The update of a terminal transaction opens the rows it marks.\<close>

lemma terminal_update_opens:
  assumes inv: "store_inv pke t"
    and upd: "update_outbound p f t = (Inr n, u)"
    and pre: "\<And>r. p r \<Longrightarrow> ob_terminal_ts r = 0"
    and key: "\<And>r. p r \<Longrightarrow> ob_key (f r) = ob_key r \<and> ob_event_key (f r) = ob_event_key r"
    and fin: "\<And>r. p r \<Longrightarrow> final_state (ob_state (f r))"
    and sound: "\<And>r. p r \<Longrightarrow> sound_row pke r \<Longrightarrow> sound_row pke (f r)"
  shows "settled pke (ob_key ` {r \<in> set (outbound t). p r}) u"
proof -
  let ?E = "ob_key ` {r \<in> set (outbound t). p r}"
  have u: "u = t\<lparr>outbound := update_where p f (outbound t)\<rparr>"
    and con: "outbound_constraints (logins t) (outbound u)"
    using update_outbound_InrD [OF upd] by auto
  have old: "\<not> event_receipted u (ob_event_key r)" if "r \<in> set (outbound t)" "p r" for r
    using settled_rows [OF inv that(1)] pre [OF that(2)] u
    by (auto simp: settled_row_def event_receipted_def)
  have ops: "final_state (ob_state q) \<and> \<not> event_receipted u (ob_event_key q)"
    if "q \<in> set (outbound u)" "ob_key q \<in> ?E" for q
  proof -
    from that(2) obtain r where r: "r \<in> set (outbound t)" "p r" "ob_key r = ob_key q" by auto
    have "f r \<in> set (outbound u)" using r u by (auto simp: set_update_where)
    then have "q = f r" using constraintsD(2) [OF con that(1)] r key by auto
    then show ?thesis using fin [OF r(2)] old [OF r(1,2)] key [OF r(2)] by simp
  qed
  have oth: "settled_row u q" if "q \<in> set (outbound u)" "ob_key q \<notin> ?E" for q
  proof -
    have "q \<in> set (outbound t)" using that key u by (auto simp: set_update_where)
    then show ?thesis using settled_rows [OF inv] settled_row_cong [of u t] u by simp
  qed
  have "sound_row pke q" if "q \<in> set (outbound u)" for q
    using that u sound settled_sound [OF inv] by (auto simp: set_update_where)
  then show ?thesis
    using con ops oth settled_receipts [OF inv] u by (auto simp: settled_def receipts_distinct_def)
qed

lemma find_at_key:
  assumes "outbound_constraints ls rs" and "r \<in> set rs" and "at_key b l x r"
  shows "find (\<lambda>q. at_key b l x q \<and> P q) rs = (if P r then Some r else None)"
proof (cases "find (\<lambda>q. at_key b l x q \<and> P q) rs")
  case None
  then show ?thesis using assms(2,3) by (auto simp: find_None_iff)
next
  case (Some q)
  then have "q \<in> set rs" "at_key b l x q" "P q" by (auto dest: find_SomeD)
  moreover then have "q = r" using constraintsD(2) [OF assms(1)] assms(2,3) by (simp add: at_key_iff)
  ultimately show ?thesis using Some by simp
qed

lemma find_at_key': 
  "outbound_constraints ls rs \<Longrightarrow> r \<in> set rs \<Longrightarrow> at_key b l x r \<Longrightarrow> find (at_key b l x) rs = Some r"
  using find_at_key [of ls rs r b l x "\<lambda>_. True"] by simp

text \<open>Receipting an open row: the receipt is new, it is this row's, and the terminal
  timestamp is positive (no receipt is written for a row without one).\<close>

lemma with_receipt_open:
  assumes inv: "settled pke E t" and r: "r \<in> set (outbound t)" "at_key b l x r" "ob_key r \<in> E"
    and wr: "with_receipt b l x t t'"
  shows "t' = t\<lparr>receipts := receipts t @ [receipt_of r]\<rparr> \<and> 0 < ob_terminal_ts r \<and>
         \<not> list_ex (receipt_conflict (receipt_of r)) (receipts t)"
proof -
  note con = settled_constraints [OF inv]
  have no: "\<not> event_receipted t (ob_event_key r)" by (rule settled_open [OF inv r(1,3)])
  then have "find (\<lambda>c. rc_bridge_id c = ob_bridge_id r \<and> rc_matrix_event_id c = ob_matrix_event_id r)
      (receipts t) = None"
    by (auto simp: find_None_iff event_receipted_def ob_event_key_def)
  then have "t' \<noteq> t"
    using wr find_at_key' [OF con r(1,2)]
    by (auto simp: with_receipt_def getOutboundTerminalReceiptIdentity_def)
  then show ?thesis
    using wr find_at_key [OF con r(1,2), of "\<lambda>r. 0 < ob_terminal_ts r"]
    by (auto simp: with_receipt_def insertOutboundTerminalReceipt_def split: if_splits)
qed

lemma with_receipt_closes:
  assumes inv: "settled pke E t" and r: "r \<in> set (outbound t)" "at_key b l x r" "ob_key r \<in> E"
    and wr: "with_receipt b l x t t'"
  shows "settled pke (E - {ob_key r}) t'"
proof -
  from with_receipt_open [OF assms] have t': "t' = t\<lparr>receipts := receipts t @ [receipt_of r]\<rparr>"
    and pos: "0 < ob_terminal_ts r" and nc: "\<not> list_ex (receipt_conflict (receipt_of r)) (receipts t)"
    by auto
  note con = settled_constraints [OF inv]
  have rec: "event_receipted t' k \<longleftrightarrow> event_receipted t k \<or> k = ob_event_key r" for k
    using t' by (auto simp: event_receipted_def receipt_of_def ob_event_key_def)
  have has: "has_receipt t' q" if "has_receipt t q" for q
    using that t' by (auto simp: has_receipt_iff)
  have settledrow: "settled_row t' q" if q: "q \<in> set (outbound t)" "ob_key q \<notin> E - {ob_key r}" for q
  proof (cases "q = r")
    case True
    then show ?thesis using pos settled_final [OF inv r(1,3)] t'
      by (auto simp: settled_row_def has_receipt_iff receipt_of_def key_simps)
  next
    case False
    then have k: "ob_key q \<notin> E" "ob_event_key q \<noteq> ob_event_key r"
      using q constraintsD(2,3) [OF con q(1) r(1)] by auto
    then show ?thesis using settled_rows [OF inv q(1)] rec has by (auto simp: settled_row_def)
  qed
  have open_rows: "final_state (ob_state q) \<and> \<not> event_receipted t' (ob_event_key q)"
    if q: "q \<in> set (outbound t)" "ob_key q \<in> E - {ob_key r}" for q
  proof -
    have "ob_event_key q \<noteq> ob_event_key r" using q constraintsD(3) [OF con q(1) r(1)] by auto
    then show ?thesis using settled_final [OF inv q(1)] settled_open [OF inv q(1)] q(2) rec by auto
  qed
  have "receipts_distinct t'"
    using settled_receipts [OF inv] nc t'
    by (auto simp: receipts_distinct_def list_ex_iff receipt_conflict_def receipt_of_def)
  then show ?thesis
    using con t' settledrow open_rows settled_sound [OF inv] by (auto simp: settled_def)
qed

lemma with_receipt_outbound: "with_receipt b l x t t' \<Longrightarrow> outbound t' = outbound t"
  by (auto simp: with_receipt_def insertOutboundTerminalReceipt_def split: option.splits if_splits)

lemma with_receipts_closes:
  assumes "settled pke E t" and "with_receipts b l xs t t'" and "distinct xs"
    and "(\<lambda>x. (b, l, x)) ` set xs \<subseteq> E"
    and "\<And>x. x \<in> set xs \<Longrightarrow> \<exists>r \<in> set (outbound t). at_key b l x r"
  shows "settled pke (E - (\<lambda>x. (b, l, x)) ` set xs) t'"
  using assms
proof (induction xs arbitrary: E t)
  case Nil
  then show ?case by simp
next
  case (Cons x xs)
  from Cons.prems(2) obtain u where u: "with_receipt b l x t u" "with_receipts b l xs u t'" by auto
  from Cons.prems(5) [of x] obtain r where r: "r \<in> set (outbound t)" "at_key b l x r" by auto
  have key: "ob_key r = (b, l, x)" using r(2) by (simp add: at_key_iff)
  have "settled pke (E - {(b, l, x)}) u"
    using with_receipt_closes [OF Cons.prems(1) r _ u(1)] Cons.prems(4) key by auto
  then have "settled pke (E - {(b, l, x)} - (\<lambda>x. (b, l, x)) ` set xs) t'"
    by (rule Cons.IH [OF _ u(2)]) (use Cons.prems with_receipt_outbound [OF u(1)] in auto)
  moreover have "E - (\<lambda>x. (b, l, x)) ` set (x # xs) = E - {(b, l, x)} - (\<lambda>x. (b, l, x)) ` set xs"
    by auto
  ultimately show ?case by (simp only:)
qed

lemma single_terminal_inv:
  assumes inv: "store_inv pke t"
    and upd: "update_outbound p f t = (Inr n, u)" and n: "0 < n"
    and at: "\<And>r. p r \<Longrightarrow> at_key b l x r" and pre: "\<And>r. p r \<Longrightarrow> ob_terminal_ts r = 0"
    and key: "\<And>r. p r \<Longrightarrow> ob_key (f r) = ob_key r \<and> ob_event_key (f r) = ob_event_key r"
    and fin: "\<And>r. p r \<Longrightarrow> final_state (ob_state (f r))"
    and sound: "\<And>r. p r \<Longrightarrow> sound_row pke r \<Longrightarrow> sound_row pke (f r)"
    and wr: "with_receipt b l x u t'"
  shows "store_inv pke t'"
proof -
  from update_outbound_InrD [OF upd] n obtain r where r: "r \<in> set (outbound t)" "p r"
    by (auto simp: filter_empty_conv)
  have keyr: "ob_key r = (b, l, x)" using at [OF r(2)] by (simp add: at_key_iff)
  have "ob_key ` {r \<in> set (outbound t). p r} = {(b, l, x)}"
  proof (intro equalityI subsetI)
    fix k assume "k \<in> ob_key ` {r \<in> set (outbound t). p r}"
    then obtain q where "p q" "k = ob_key q" by auto
    with at [of q] show "k \<in> {(b, l, x)}" by (simp add: at_key_iff)
  qed (use r keyr in force)
  with terminal_update_opens [OF inv upd pre key fin sound]
  have open': "settled pke {(b, l, x)} u" by simp
  have "f r \<in> set (outbound u)" using update_outbound_InrD [OF upd] r by (auto simp: set_update_where)
  moreover have "at_key b l x (f r)" using key [OF r(2)] keyr by (simp add: at_key_iff)
  ultimately show ?thesis
    using with_receipt_closes [OF open' _ _ _ wr, of "f r"] key [OF r(2)] keyr by simp
qed

lemmas terminal_defs =
  markPreparedOutboundNotSubmitted_def markSubmittingOutboundNotSubmitted_def
  markOutboundSendUnconfirmed_def markResolvedOutboundSendUnconfirmed_def markOutboundSendCompleted_def

lemma terminal_inv:
  assumes "store_inv pke t" and "0 < n" and "with_receipt b l x u t'"
  shows "markPreparedOutboundNotSubmitted b l x trm nx t = (Inr n, u) \<Longrightarrow> store_inv pke t'"
    and "markSubmittingOutboundNotSubmitted b l x trm nx t = (Inr n, u) \<Longrightarrow> store_inv pke t'"
    and "markOutboundSendUnconfirmed b l x trm nx up t = (Inr n, u) \<Longrightarrow> store_inv pke t'"
    and "markResolvedOutboundSendUnconfirmed b l x remote trm nx up t = (Inr n, u) \<Longrightarrow> store_inv pke t'"
    and "markOutboundSendCompleted b l x remote trm nx t = (Inr n, u) \<Longrightarrow> store_inv pke t'"
  unfolding terminal_defs
  by (erule single_terminal_inv [OF assms(1) _ assms(2) _ _ _ _ _ assms(3)],
      auto simp: key_simps row_simps)+

lemma terminalize_inv:
  assumes inv: "store_inv pke t"
    and upd: "terminalizeOutboundConversation b l conv trm nx t = (Inr ids, u)"
    and wr: "with_receipts b l ids u t'"
  shows "store_inv pke t'"
proof -
  let ?p = "terminalizable b l conv"
  let ?f = "\<lambda>r. r\<lparr>ob_state := (if ob_state r = Prepared then NotSubmitted else Unconfirmed),
      ob_terminal_ts := trm, ob_next_attempt_ts := nx, ob_updated_ts := trm\<rparr>"
  let ?E = "ob_key ` {r \<in> set (outbound t). ?p r}"
  from upd obtain n where up: "update_outbound ?p ?f t = (Inr n, u)"
    and ids: "ids = map ob_transaction_id (filter ?p (outbound t))"
    by (auto simp: terminalizeOutboundConversation_def split: prod.splits sum.splits)
  have E: "settled pke ?E u"
    by (rule terminal_update_opens [OF inv up]) (auto simp: terminalizable_def key_simps row_simps)
  have img: "(\<lambda>x. (b, l, x)) ` set ids = ?E"
    unfolding ids by (force simp: ob_key_def terminalizable_def)
  have dist: "distinct ids"
  proof -
    have "inj_on ob_key (set (outbound t))" and d: "distinct (outbound t)"
      using settled_constraints [OF inv] by (auto simp: outbound_constraints_def distinct_map)
    then have "inj_on ob_transaction_id (set (filter ?p (outbound t)))"
      by (auto simp: inj_on_def ob_key_def terminalizable_def)
    then show ?thesis unfolding ids using d by (simp add: distinct_map)
  qed
  have rows: "\<exists>r \<in> set (outbound u). at_key b l x r" if "x \<in> set ids" for x
  proof -
    from that obtain r where r: "r \<in> set (outbound t)" "?p r" "x = ob_transaction_id r"
      unfolding ids by auto
    then have "?f r \<in> set (outbound u)"
      using update_outbound_InrD [OF up] by (force simp: set_update_where)
    moreover have "at_key b l x (?f r)" using r by (simp add: at_key_def terminalizable_def)
    ultimately show ?thesis by blast
  qed
  have "settled pke (?E - (\<lambda>x. (b, l, x)) ` set ids) t'"
    by (rule with_receipts_closes [OF E wr dist]) (use img rows in auto)
  then show ?thesis using img by simp
qed

lemma re_receipt_same:
  assumes inv: "store_inv pke t" and wr: "with_receipt b l x t t'"
  shows "t' = t"
proof -
  from wr obtain r where r: "find (at_key b l x) (outbound t') = Some r"
    by (auto simp: with_receipt_def getOutboundTerminalReceiptIdentity_def split: option.splits)
  from find_SomeD [OF r] with_receipt_outbound [OF wr]
  have mem: "r \<in> set (outbound t)" "at_key b l x r" by auto
  note con = settled_constraints [OF inv]
  show ?thesis
  proof (cases "0 < ob_terminal_ts r")
    case True
    then have "has_receipt t r" using settled_rows [OF inv mem(1)] by (simp add: settled_row_def)
    then have "list_ex (receipt_conflict (receipt_of r)) (receipts t)"
      by (force simp: has_receipt_def list_ex_iff receipt_conflict_def receipt_of_def)
    then show ?thesis
      using wr find_at_key [OF con mem, of "\<lambda>r. 0 < ob_terminal_ts r"] True
      by (auto simp: with_receipt_def insertOutboundTerminalReceipt_def)
  next
    case False
    then show ?thesis
      using wr find_at_key [OF con mem, of "\<lambda>r. 0 < ob_terminal_ts r"]
      by (auto simp: with_receipt_def insertOutboundTerminalReceipt_def)
  qed
qed

lemma environment_inv:
  assumes inv: "store_inv pke t" and "outbound t' = outbound t" "receipts t' = receipts t"
    and "set (logins t) \<subseteq> set (logins t')"
  shows "store_inv pke t'"
  using assms settled_row_cong [of t' t]
  by (auto simp: settled_def outbound_constraints_def list_all_iff receipts_distinct_def)

lemma step_inv: "outbound_step pke t e t' \<Longrightarrow> store_inv pke t \<Longrightarrow> store_inv pke t'"
proof (induction rule: outbound_step.induct)
  case (submit ids base r t b l x st nx up n t')
  then show ?case using submit_inv [of pke t ids base b l x st nx up] by simp
next
  case (finish_status r t b l x notified token nx n t')
  then show ?case using nonterminal_inv(7) [of pke t b l x token notified nx] by simp
next
  case (re_receipt b l x t t')
  then show ?case using re_receipt_same by blast
qed (auto intro: create_inv bind_inv nonterminal_inv terminal_inv terminalize_inv
      environment_inv delete_inv
      simp: deletePreparedOutboundSend_def deleteNotSubmittedOutboundSend_def
        deleteUnconfirmedOutboundSend_def)

end
