(* ===== verification/OutboundRefinement.thy ===== *)
theory OutboundRefinement
  imports OutboundInvariant
begin

text \<open>
  Two things about the step relation: events are spent at most once (the interpretation of
  \<open>once_guard\<close>), and every method of the outbound store moves the tables by steps only,
  whatever its arguments and whichever statements fail.
\<close>

section \<open>Spent events\<close>

fun event_spent :: "tables \<Rightarrow> store_event \<Rightarrow> bool" where
  "event_spent t (Submitted b e) =
     ((\<exists>r \<in> set (outbound t). ob_event_key r = (b, e) \<and> ob_state r \<noteq> Prepared) \<or>
      event_receipted t (b, e))"
| "event_spent t (Notified b e) =
     (event_receipted t (b, e) \<and>
      (\<forall>r \<in> set (outbound t). ob_event_key r = (b, e) \<longrightarrow> 0 < ob_status_notified_ts r))"

definition forward :: "(outbound_row \<Rightarrow> bool) \<Rightarrow> (outbound_row \<Rightarrow> outbound_row) \<Rightarrow> bool" where
  "forward p f \<longleftrightarrow>
     (\<forall>r. p r \<longrightarrow> ob_event_key (f r) = ob_event_key r \<and>
        (ob_state r \<noteq> Prepared \<longrightarrow> ob_state (f r) \<noteq> Prepared) \<and>
        (0 < ob_status_notified_ts r \<longrightarrow> 0 < ob_status_notified_ts (f r)))"

lemma update_spent:
  assumes "forward p f" and "event_spent t k"
  shows "event_spent (snd (update_outbound p f t)) k"
proof -
  let ?u = "t\<lparr>outbound := update_where p f (outbound t)\<rparr>"
  have "event_spent ?u k"
  proof (cases k)
    case (Submitted b e)
    from assms(2) Submitted consider
        (row) r where "r \<in> set (outbound t)" "ob_event_key r = (b, e)" "ob_state r \<noteq> Prepared"
      | (receipt) "event_receipted t (b, e)" by auto
    then show ?thesis
    proof cases
      case row
      then have "(if p r then f r else r) \<in> set (outbound ?u)" by (auto simp: set_update_where)
      moreover have "ob_event_key (if p r then f r else r) = (b, e)"
        "ob_state (if p r then f r else r) \<noteq> Prepared"
        using row assms(1) by (auto simp: forward_def)
      ultimately show ?thesis using Submitted by auto
    next
      case receipt
      then show ?thesis using Submitted by (simp add: event_receipted_def)
    qed
  next
    case (Notified b e)
    then show ?thesis using assms
      by (auto simp: forward_def set_update_where event_receipted_def)
  qed
  then show ?thesis using update_outbound_cases [of p f t] assms(2) by auto
qed

lemma update_spent_Inr:
  "update_outbound p f t = (Inr n, u) \<Longrightarrow> forward p f \<Longrightarrow> event_spent t k \<Longrightarrow> event_spent u k"
  using update_spent [of p f t k] by simp

lemma with_receipt_mono:
  assumes "with_receipt b l x t t'"
  shows "set (receipts t) \<subseteq> set (receipts t')"
  using assms
  by (auto simp: with_receipt_def insertOutboundTerminalReceipt_def split: option.splits if_splits)

lemma spent_receipts_mono:
  assumes "outbound u = outbound t" and "set (receipts t) \<subseteq> set (receipts u)" and "event_spent t k"
  shows "event_spent u k"
  using assms by (cases k) (auto simp: event_receipted_def)

lemma with_receipt_spent: "with_receipt b l x t t' \<Longrightarrow> event_spent t k \<Longrightarrow> event_spent t' k"
  by (rule spent_receipts_mono [OF with_receipt_outbound with_receipt_mono])

lemma with_receipts_spent: "with_receipts b l xs t t' \<Longrightarrow> event_spent t k \<Longrightarrow> event_spent t' k"
  by (induction xs arbitrary: t) (auto dest: with_receipt_spent)

lemma delete_spent:
  assumes "\<And>r. p r \<Longrightarrow> r \<in> set (outbound t) \<Longrightarrow> ob_state r = Prepared \<or> event_receipted t (ob_event_key r)"
    and "event_spent t k"
  shows "event_spent (snd (delete_outbound p t)) k"
  using assms by (cases k) (fastforce simp: delete_outbound_def event_receipted_def)+

lemma create_spent:
  assumes "event_spent t k"
  shows "event_spent (snd (insertOutboundSend r t)) k"
proof (cases "snd (insertOutboundSend r t) = t")
  case True
  with assms show ?thesis by simp
next
  case False
  with insert_cases [of r t] have "snd (insertOutboundSend r t) = t\<lparr>outbound := outbound t @ [r]\<rparr>"
    "\<not> event_receipted t (ob_event_key r)" by auto
  with assms show ?thesis by (cases k) (auto simp: event_receipted_def)
qed

lemma step_spent: "outbound_step pke t e t' \<Longrightarrow> event_spent t k \<Longrightarrow> event_spent t' k"
proof (induction rule: outbound_step.induct)
  case (create r t)
  then show ?case by (simp add: create_spent)
next
  case (bind key conv t b l x nx up)
  then show ?case unfolding bindOutboundSendConversation_def
    by (intro update_spent) (auto simp: forward_def key_simps)
next
  case (submit ids base r t b l x st nx up n t')
  then show ?case unfolding markOutboundSendSubmitting_def
    by (elim update_spent_Inr) (auto simp: forward_def key_simps)
next
  case (finish_status r t b l x notified token nx n t')
  then show ?case unfolding finishOutboundStatusDelivery_def
    by (elim update_spent_Inr) (auto simp: forward_def key_simps)
next
  case (finish_status_epoch notified t b l x token nx)
  then show ?case unfolding finishOutboundStatusDelivery_def
    by (intro update_spent) (auto simp: forward_def key_simps)
next
  case (terminalize b l conv trm nx t ids u t')
  then have "event_spent u k"
    by (auto simp: terminalizeOutboundConversation_def forward_def key_simps
        split: prod.splits sum.splits elim!: update_spent_Inr)
  then show ?case using terminalize.hyps(2) with_receipts_spent by blast
next
  case (re_receipt b l x t t')
  then show ?case by (rule with_receipt_spent)
next
  case (environment t' t)
  then show ?case by (intro spent_receipts_mono [of t' t]) auto
next
  case (delete_prepared t b l x)
  then show ?case unfolding deletePreparedOutboundSend_def by (auto intro!: delete_spent)
next
  case (delete_not_submitted t b l x)
  then show ?case unfolding deleteNotSubmittedOutboundSend_def
    by (auto intro!: delete_spent has_receipt_event simp: deletable_failed_def)
next
  case (delete_unconfirmed t b l x)
  then show ?case unfolding deleteUnconfirmedOutboundSend_def
    by (auto intro!: delete_spent has_receipt_event simp: deletable_failed_def)
next
  case (not_submitted_prepared b l x trm nx t n u t')
  then have "event_spent u k" unfolding terminal_defs
    by (elim update_spent_Inr) (auto simp: forward_def key_simps)
  then show ?case using not_submitted_prepared.hyps(3) with_receipt_spent by blast
next
  case (not_submitted_submitting b l x trm nx t n u t')
  then have "event_spent u k" unfolding terminal_defs
    by (elim update_spent_Inr) (auto simp: forward_def key_simps)
  then show ?case using not_submitted_submitting.hyps(3) with_receipt_spent by blast
next
  case (unconfirmed b l x trm nx up t n u t')
  then have "event_spent u k" unfolding terminal_defs
    by (elim update_spent_Inr) (auto simp: forward_def key_simps)
  then show ?case using unconfirmed.hyps(3) with_receipt_spent by blast
next
  case (resolved_unconfirmed b l x remote trm nx up t n u t')
  then have "event_spent u k" unfolding terminal_defs
    by (elim update_spent_Inr) (auto simp: forward_def key_simps)
  then show ?case using resolved_unconfirmed.hyps(3) with_receipt_spent by blast
next
  case (completed b l x remote trm nx t n u t')
  then have "event_spent u k" unfolding terminal_defs
    by (elim update_spent_Inr) (auto simp: forward_def key_simps)
  then show ?case using completed.hyps(3) with_receipt_spent by blast
qed (auto intro!: update_spent simp: nonterminal_defs forward_def key_simps submitted_def)

text \<open>The row a single-row update changes, before and after.\<close>

lemma update_at_row:
  assumes inv: "store_inv pke t" and r: "r \<in> set (outbound t)" "at_key b l x r"
    and upd: "update_outbound p f t = (Inr n, t')" and n: "0 < n" and at: "\<And>q. p q \<Longrightarrow> at_key b l x q"
  shows "p r \<and> f r \<in> set (outbound t')"
proof -
  from update_outbound_InrD [OF upd] n obtain q where q: "q \<in> set (outbound t)" "p q"
    by (auto simp: filter_empty_conv)
  then have "q = r"
    using constraintsD(2) [OF settled_constraints [OF inv] q(1) r(1)] at [OF q(2)] r(2)
    by (simp add: at_key_iff)
  with q update_outbound_InrD [OF upd] show ?thesis by (auto simp: set_update_where)
qed

lemma step_spend:
  assumes inv: "store_inv pke t" and step: "outbound_step pke t (Some k) t'"
  shows "\<not> event_spent t k \<and> event_spent t' k"
  using step
proof (cases rule: outbound_step.cases)
  case (submit ids base r b l x st nx up n)
  let ?f = "\<lambda>r. r\<lparr>ob_state := Submitting, ob_baseline_ids_json := base, ob_send_started_ts := st,
              ob_next_attempt_ts := nx, ob_updated_ts := up\<rparr>"
  from update_at_row [OF inv submit(3,4) submit(5) [unfolded markOutboundSendSubmitting_def] submit(6)]
  have r: "ob_state r = Prepared" "ob_terminal_ts r = 0" and r': "?f r \<in> set (outbound t')" by auto
  have ev: "ob_event_key r = (b, ob_matrix_event_id r)" using submit(4) by (simp add: key_simps at_key_def)
  have "\<not> event_receipted t (ob_event_key r)"
    using settled_rows [OF inv submit(3)] r by (simp add: settled_row_def)
  moreover have "ob_state q = Prepared" if "q \<in> set (outbound t)" "ob_event_key q = ob_event_key r" for q
    using constraintsD(3) [OF settled_constraints [OF inv] that(1) submit(3) that(2)] r by simp
  moreover have "ob_event_key (?f r) = ob_event_key r" "ob_state (?f r) \<noteq> Prepared"
    by (simp_all add: key_simps)
  ultimately show ?thesis using submit(1) ev r' by auto
next
  case (finish_status r b l x notified token nx n)
  let ?f = "\<lambda>r. r\<lparr>ob_status_notified_ts := notified, ob_next_attempt_ts := nx,
              ob_status_claim_token := [], ob_status_claim_expires_ts := 0, ob_updated_ts := notified\<rparr>"
  from update_at_row [OF inv finish_status(2,3) finish_status(5) [unfolded finishOutboundStatusDelivery_def]
      finish_status(6)]
  have r: "ob_status_notified_ts r = 0" "0 < ob_terminal_ts r" and r': "?f r \<in> set (outbound t')" by auto
  have inv': "store_inv pke t'" using step_inv [OF step inv] .
  have ev: "ob_event_key r = (b, ob_matrix_event_id r)" "ob_event_key (?f r) = ob_event_key r"
    using finish_status(3) by (simp_all add: key_simps at_key_def)
  have "has_receipt t' (?f r)"
    using settled_rows [OF inv' r'] r by (simp add: settled_row_def)
  then have "event_receipted t' (ob_event_key r)" using has_receipt_event ev(2) by metis
  moreover have "0 < ob_status_notified_ts q"
    if "q \<in> set (outbound t')" "ob_event_key q = ob_event_key r" for q
  proof -
    have "q = ?f r"
      using constraintsD(3) [OF settled_constraints [OF inv'] that(1) r'] that(2) ev(2) by simp
    then show ?thesis using finish_status(4) by simp
  qed
  ultimately show ?thesis using finish_status(1,2) ev(1) r by auto
qed

interpretation send_once: once_guard "outbound_step pke" "store_inv pke" event_spent
  by unfold_locales (auto intro: step_inv step_spent step_spend [THEN conjunct1] step_spend [THEN conjunct2]
      dest: step_spend)

section \<open>Every method refines the steps\<close>

text \<open>Only \<open>MarkSubmitting\<close> takes a \<open>submit\<close> step; every other method takes quiet steps.\<close>

definition quiet_move :: "(portal_key \<Rightarrow> bool) \<Rightarrow> tables \<Rightarrow> tables \<Rightarrow> bool" where
  "quiet_move pke t t' \<longleftrightarrow> (\<exists>e. outbound_step pke t e t' \<and> (\<forall>b x. e \<noteq> Some (Submitted b x)))"

lemma quiet_outbound: "quiet_move pke t t' \<Longrightarrow> outbound_move pke t t'"
  by (auto simp: quiet_move_def outbound_move_def)

lemma moves_outbound:
  assumes "moves (on_tables (quiet_move pke)) m"
  shows "moves (on_tables (outbound_move pke)) m"
  unfolding moves_def
proof
  fix s
  have "(quiet_move pke)\<^sup>*\<^sup>* (tbl s) (tbl (snd (m s)))"
    using on_tables_rtrancl [OF movesD [OF assms, of s]] .
  then have "(outbound_move pke)\<^sup>*\<^sup>* (tbl s) (tbl (snd (m s)))"
    by (rule rtranclp_mono [THEN predicate2D, rotated]) (auto intro: quiet_outbound)
  then show "(on_tables (outbound_move pke))\<^sup>*\<^sup>* s (snd (m s))"
    by (intro r_into_rtranclp) (simp add: on_tables_def)
qed

lemma stmt_step: "outbound_step pke t None t' \<Longrightarrow> (quiet_move pke)\<^sup>*\<^sup>* t t'"
  by (rule r_into_rtranclp) (auto simp: quiet_move_def)

lemma notified_step: "outbound_step pke t (Some (Notified b x)) t' \<Longrightarrow> (quiet_move pke)\<^sup>*\<^sup>* t t'"
  by (rule r_into_rtranclp) (auto simp: quiet_move_def)

lemma submit_step: "outbound_step pke t e t' \<Longrightarrow> (outbound_move pke)\<^sup>*\<^sup>* t t'"
  by (rule r_into_rtranclp) (auto simp: outbound_move_def)

lemma update_zero: "update_outbound p f t = (Inr 0, t') \<Longrightarrow> t' = t"
  by (auto dest!: update_outbound_InrD simp: update_where_none)

lemma update_Inl: "update_outbound p f t = (Inl e, t') \<Longrightarrow> t' = t"
  by (auto simp: update_outbound_def Let_def split: if_splits)

lemma submit_moves:
  assumes "marshalBaselineMessageIDs ids = Inr base"
  shows "(outbound_move pke)\<^sup>*\<^sup>* t (snd (markOutboundSendSubmitting b l x base st nx up t))"
proof (cases "markOutboundSendSubmitting b l x base st nx up t")
  case (Pair res t')
  show ?thesis
  proof (cases res)
    case (Inl e)
    with Pair have "t' = t"
      unfolding markOutboundSendSubmitting_def by (auto dest: update_Inl)
    with Pair show ?thesis by simp
  next
    case (Inr n)
    show ?thesis
    proof (cases "n = 0")
      case True
      with Inr Pair have "t' = t" unfolding markOutboundSendSubmitting_def by (auto dest: update_zero)
      with Pair show ?thesis by simp
    next
      case False
      with Inr Pair obtain r where "r \<in> set (outbound t)" "at_key b l x r"
        unfolding markOutboundSendSubmitting_def
        by (auto dest!: update_outbound_InrD simp: filter_empty_conv)
      with False Inr Pair show ?thesis
        using submit_step [OF outbound_step.submit [OF assms, of r t b l x st nx up n t' pke]] by simp
    qed
  qed
qed

lemma finish_moves:
  "(quiet_move pke)\<^sup>*\<^sup>* t (snd (finishOutboundStatusDelivery b l x token notified nx t))"
proof (cases "finishOutboundStatusDelivery b l x token notified nx t")
  case (Pair res t')
  show ?thesis
  proof (cases "0 < notified")
    case False
    then show ?thesis by (intro stmt_step [OF outbound_step.finish_status_epoch]) simp
  next
    case pos: True
    show ?thesis
    proof (cases res)
      case (Inl e)
      with Pair have "t' = t"
        unfolding finishOutboundStatusDelivery_def by (auto dest: update_Inl)
      with Pair show ?thesis by simp
    next
      case (Inr n)
      show ?thesis
      proof (cases "n = 0")
        case True
        with Inr Pair have "t' = t" unfolding finishOutboundStatusDelivery_def by (auto dest: update_zero)
        with Pair show ?thesis by simp
      next
        case False
        with Inr Pair obtain r where "r \<in> set (outbound t)" "at_key b l x r"
          unfolding finishOutboundStatusDelivery_def
          by (auto dest!: update_outbound_InrD simp: filter_empty_conv)
        with False Inr Pair pos show ?thesis
          using notified_step [OF outbound_step.finish_status [of r t b l x notified token nx n t' pke]] by simp
      qed
    qed
  qed
qed

lemma ensureTerminalReceipt_InrD:
  "ensureTerminalReceipt b l x s = (Inr y, s') \<Longrightarrow> with_receipt b l x (tbl s) (tbl s')"
  by (auto simp: ensureTerminalReceipt_def with_receipt_def ret_def raise_def
      dest!: andThen_InrD exec_Inr query_Inr split: option.splits if_splits prod.splits)

lemma ensure_receipts_InrD:
  "ensure_receipts b l xs s = (Inr y, s') \<Longrightarrow> with_receipts b l xs (tbl s) (tbl s')"
  by (induction xs arbitrary: s)
     (auto simp: ret_def dest!: andThen_InrD ensureTerminalReceipt_InrD)

text \<open>The interface of a terminal transition: the statement changes nothing when it reports
  no row, and with a receipt it is one step.\<close>

lemma withTerminalReceipt_moves:
  assumes zero: "\<And>t t'. stm t = (Inr 0, t') \<Longrightarrow> t' = t"
    and step: "\<And>t n u t'. stm t = (Inr n, u) \<Longrightarrow> 0 < n \<Longrightarrow> with_receipt b l x u t' \<Longrightarrow>
                 outbound_step pke t None t'"
  shows "moves (on_tables (quiet_move pke)) (withTerminalReceipt b l x (exec stm))"
  unfolding withTerminalReceipt_def
proof (rule moves_doTxn)
  fix s y s'
  assume "andThen (exec stm) (\<lambda>n. if \<not> rowWasChanged n then ret False
      else andThen (ensureTerminalReceipt b l x) (\<lambda>_. ret True)) s = (Inr y, s')"
  then obtain n s1 where n: "exec stm s = (Inr n, s1)"
    and rest: "(if \<not> rowWasChanged n then ret False
      else andThen (ensureTerminalReceipt b l x) (\<lambda>_. ret True)) s1 = (Inr y, s')"
    by (auto dest!: andThen_InrD)
  note st = exec_Inr [OF n]
  show "(quiet_move pke)\<^sup>*\<^sup>* (tbl s) (tbl s')"
  proof (cases "n = 0")
    case True
    with st have "tbl s1 = tbl s" using zero by blast
    with True rest show ?thesis by (auto simp: rowWasChanged_def ret_def)
  next
    case False
    with rest have "with_receipt b l x (tbl s1) (tbl s')"
      by (auto simp: rowWasChanged_def ret_def dest!: andThen_InrD ensureTerminalReceipt_InrD)
    with step [OF st] False show ?thesis by (auto intro: stmt_step)
  qed
qed

lemma terminal_zero:
  "markPreparedOutboundNotSubmitted b l x trm nx t = (Inr 0, t') \<Longrightarrow> t' = t"
  "markSubmittingOutboundNotSubmitted b l x trm nx t = (Inr 0, t') \<Longrightarrow> t' = t"
  "markOutboundSendUnconfirmed b l x trm nx up t = (Inr 0, t') \<Longrightarrow> t' = t"
  "markResolvedOutboundSendUnconfirmed b l x remote trm nx up t = (Inr 0, t') \<Longrightarrow> t' = t"
  "markOutboundSendCompleted b l x remote trm nx t = (Inr 0, t') \<Longrightarrow> t' = t"
  unfolding terminal_defs by (auto dest: update_zero)

lemma identity_cong:
  assumes "UserLoginID s = UserLoginID u" "TransactionID s = TransactionID u"
    "PortalKey s = PortalKey u" "ConversationID s = ConversationID u"
    "MatrixRoomID s = MatrixRoomID u" "MatrixEventID s = MatrixEventID u"
    "MatrixSenderID s = MatrixSenderID u" "SenderID s = SenderID u"
    "SourceMediaDigest s = SourceMediaDigest u" "MessageType s = MessageType u"
  shows "validateOutboundSendIdentity pke s = validateOutboundSendIdentity pke u"
  using assms by (simp add: validateOutboundSendIdentity_def)

lemma new_row_fresh:
  assumes ident: "validateOutboundSendIdentity pke s = None"
    and base: "marshalBaselineMessageIDs ids = Inr base"
  shows "fresh_row pke (new_row bid s base now)"
proof -
  have "validateOutboundSendIdentity pke (send_of_row (new_row bid s base now) [] []) = None"
    by (subst identity_cong [of _ s, OF _ _ _ _ _ _ _ _ _ _])
       (simp_all add: send_of_row_def new_row_def ident)
  moreover have "\<exists>ids. decoded_baseline base = Some ids \<and> \<not> list_ex blank ids"
    using marshalled_readable [OF base] by blast
  ultimately show ?thesis by (simp add: fresh_row_def new_row_def)
qed

lemma moves_guard [moves_intros]:
  "(e = None \<Longrightarrow> moves R m) \<Longrightarrow> moves R (guard e m)"
  by (cases e) (auto intro: moves_raise)

lemma moves_stmt:
  "(\<And>t. outbound_step pke t None (snd (f t))) \<Longrightarrow> moves (on_tables (quiet_move pke)) (exec f)"
  by (rule moves_exec) (rule stmt_step)

lemma Get_moves [moves_intros]: "moves (on_tables R) (Outbound_Get pke b l x)"
  unfolding Outbound_Get_def by (intro moves_intros)

lemma insert_rounds_moves:
  assumes "fresh_row pke (new_row bid s base now)"
  shows "moves (on_tables (quiet_move pke)) (insert_rounds pke bid s base now n)"
proof (induction n)
  case 0
  show ?case by (simp add: moves_raise)
next
  case (Suc n)
  then show ?case
    unfolding insert_rounds.simps isMatrixEventMapped_def isMatrixEventClaimed_def hasTerminalReceipt_def
    by (intro moves_intros moves_stmt outbound_step.create assms)
qed

lemma LoadOrCreate_quiet:
  "moves (on_tables (quiet_move pke)) (Outbound_LoadOrCreate pke bid snd_opt now)"
proof (cases snd_opt)
  case None
  then show ?thesis by (simp add: Outbound_LoadOrCreate_def moves_raise)
next
  case (Some s0)
  then show ?thesis
    unfolding Outbound_LoadOrCreate_def Let_def
    by (auto intro!: moves_intros insert_rounds_moves new_row_fresh split: option.splits)
qed

lemma requirePending_moves [moves_intros]: "moves R (requirePendingOutboundSend n)"
  unfolding requirePendingOutboundSend_def by (intro moves_intros)

lemma require_changed_moves [moves_intros]: "moves R (require_changed c)"
  unfolding require_changed_def by (intro moves_intros)

lemma MarkSubmitting_moves:
  "moves (on_tables (outbound_move pke)) (Outbound_MarkSubmitting b l x baseline st nx now)"
  unfolding Outbound_MarkSubmitting_def
  by (auto intro!: moves_intros moves_exec submit_moves split: sum.splits)

lemma markNotSubmitted_quiet:
  "moves (on_tables (quiet_move pke)) (Outbound_ClaimPreparedNotSubmitted b l x trm nx)"
  "moves (on_tables (quiet_move pke)) (Outbound_MarkSubmittingNotSubmitted b l x trm nx)"
  unfolding Outbound_ClaimPreparedNotSubmitted_def Outbound_MarkSubmittingNotSubmitted_def markNotSubmitted_def
  by (intro moves_intros withTerminalReceipt_moves;
      (erule terminal_zero | erule (2) outbound_step.not_submitted_prepared
       | erule (2) outbound_step.not_submitted_submitting))+

lemma MarkUnconfirmed_quiet:
  "moves (on_tables (quiet_move pke)) (Outbound_MarkUnconfirmed b l x trm nx)"
  "moves (on_tables (quiet_move pke)) (Outbound_MarkResolvedUnconfirmed b l x remote trm nx)"
  unfolding Outbound_MarkUnconfirmed_def Outbound_MarkResolvedUnconfirmed_def
  by (intro moves_intros withTerminalReceipt_moves;
      (erule terminal_zero | erule (2) outbound_step.unconfirmed
       | erule (2) outbound_step.resolved_unconfirmed))+

lemma MarkCompleted_quiet:
  "moves (on_tables (quiet_move pke)) (Outbound_MarkCompleted pke b l x remote trm)"
  unfolding Outbound_MarkCompleted_def
proof (intro moves_if moves_raise moves_doTxn)
  let ?stm = "markOutboundSendCompleted b l x remote (unix_milli trm) outboundCompletedReceiptUnixMilli"
  fix s y s'
  assume "andThen (exec ?stm) (\<lambda>n. if rowWasChanged n then ensureTerminalReceipt b l x
     else andThen (Outbound_Get pke b l x) (\<lambda>existing. case existing of None \<Rightarrow> raise ErrNotPending
      | Some e \<Rightarrow> if SendState e \<noteq> Completed \<or> RemoteMessageID e \<noteq> remote then raise ErrNotPending
          else ensureTerminalReceipt b l x)) s = (Inr y, s')"
  then obtain n s1 where n: "exec ?stm s = (Inr n, s1)"
    and rest: "(if rowWasChanged n then ensureTerminalReceipt b l x
     else andThen (Outbound_Get pke b l x) (\<lambda>existing. case existing of None \<Rightarrow> raise ErrNotPending
      | Some e \<Rightarrow> if SendState e \<noteq> Completed \<or> RemoteMessageID e \<noteq> remote then raise ErrNotPending
          else ensureTerminalReceipt b l x)) s1 = (Inr y, s')"
    by (auto dest!: andThen_InrD)
  note st = exec_Inr [OF n]
  show "(quiet_move pke)\<^sup>*\<^sup>* (tbl s) (tbl s')"
  proof (cases "n = 0")
    case True
    then have "tbl s1 = tbl s" using st terminal_zero(5) by blast
    moreover have "with_receipt b l x (tbl s1) (tbl s')"
      using rest True
      by (auto simp: rowWasChanged_def Outbound_Get_def raise_def dest!: andThen_InrD
          ensureTerminalReceipt_InrD query_Inr split: option.splits if_splits)
    ultimately show ?thesis by (auto intro: stmt_step outbound_step.re_receipt)
  next
    case False
    then have "with_receipt b l x (tbl s1) (tbl s')"
      using rest by (auto simp: rowWasChanged_def dest!: ensureTerminalReceipt_InrD)
    with st False show ?thesis by (auto intro!: stmt_step outbound_step.completed)
  qed
qed

lemma Terminalize_quiet:
  "moves (on_tables (quiet_move pke)) (Outbound_TerminalizeConversation b l conv trm nx)"
  unfolding Outbound_TerminalizeConversation_def
proof (intro moves_if moves_raise moves_doTxn)
  fix s :: "'z db_scheme" and y s'
  assume run: "andThen (exec (terminalizeOutboundConversation b l conv (unix_milli trm) (unix_milli nx)))
      (\<lambda>ids. andThen (ensure_receipts b l ids) (\<lambda>_. ret ids)) s = (Inr y, s')"
  from andThen_InrD [OF run] obtain ids s1 where e: "exec (terminalizeOutboundConversation b l conv (unix_milli trm) (unix_milli nx)) s = (Inr ids, s1)"
    and r: "andThen (ensure_receipts b l ids) (\<lambda>_. ret ids) s1 = (Inr y, s')"
    by blast
  have "with_receipts b l ids (tbl s1) (tbl s')"
    using r by (auto simp: ret_def dest!: andThen_InrD ensure_receipts_InrD)
  with exec_Inr [OF e] show "(quiet_move pke)\<^sup>*\<^sup>* (tbl s) (tbl s')"
    by (intro stmt_step [OF outbound_step.terminalize])
qed

lemma simple_quiet:
  "moves (on_tables (quiet_move pke)) (Outbound_PrepareConversationBinding pke b l x conv nx now)"
  "moves (on_tables (quiet_move pke)) (Outbound_BindConversation pke b l x conv key nx now)"
  "moves (on_tables (quiet_move pke)) (Outbound_MarkAwaitingEcho b l x nx now)"
  "moves (on_tables (quiet_move pke)) (Outbound_MarkUncertain b l x nx now)"
  "moves (on_tables (quiet_move pke)) (Outbound_ScheduleRetry b l x nx now)"
  "moves (on_tables (quiet_move pke)) (Outbound_ClaimRemoteMessage b l x conv remote nx now)"
  "moves (on_tables (quiet_move pke)) (Outbound_ClaimStatusDelivery b l x token ex now)"
  "moves (on_tables (quiet_move pke)) (Outbound_FinishStatusDelivery pke b l x token nt ex)"
  "moves (on_tables (quiet_move pke)) (Outbound_ReleaseStatusDelivery b l x token now)"
  "moves (on_tables (quiet_move pke)) (Outbound_DeletePrepared b l x)"
  "moves (on_tables (quiet_move pke)) (Outbound_DeleteNotSubmitted b l x)"
  "moves (on_tables (quiet_move pke)) (Outbound_DeleteUnconfirmed b l x)"
  unfolding Outbound_PrepareConversationBinding_def Outbound_BindConversation_def
    Outbound_MarkAwaitingEcho_def Outbound_MarkUncertain_def Outbound_ScheduleRetry_def
    Outbound_ClaimRemoteMessage_def Outbound_ClaimStatusDelivery_def Outbound_FinishStatusDelivery_def
    Outbound_ReleaseStatusDelivery_def Outbound_DeletePrepared_def Outbound_DeleteNotSubmitted_def
    Outbound_DeleteUnconfirmed_def
  by (intro moves_intros moves_stmt outbound_step.intros moves_exec finish_moves; simp)+

lemmas LoadOrCreate_moves = LoadOrCreate_quiet [THEN moves_outbound]
lemmas markNotSubmitted_moves = markNotSubmitted_quiet [THEN moves_outbound]
lemmas MarkUnconfirmed_moves = MarkUnconfirmed_quiet [THEN moves_outbound]
lemmas MarkCompleted_moves = MarkCompleted_quiet [THEN moves_outbound]
lemmas Terminalize_moves = Terminalize_quiet [THEN moves_outbound]
lemmas simple_moves = simple_quiet [THEN moves_outbound]

end
