(* ===== verification/OutboundLifecycle.thy ===== *)
theory OutboundLifecycle
  imports OutboundRefinement
begin

text \<open>
  The life of one outbound row: which states follow which, what never changes, and what a
  terminal row keeps for ever. Stated as a relation between a row before and after a step,
  and proved for every step of the store.
\<close>

section \<open>The state machine of a send\<close>

fun next_states :: "send_state \<Rightarrow> send_state list" where
  "next_states Prepared = [Prepared, Submitting, NotSubmitted]"
| "next_states Submitting =
     [Submitting, AwaitingEcho, Uncertain, Resolved, NotSubmitted, Unconfirmed]"
| "next_states AwaitingEcho = [AwaitingEcho, Uncertain, Resolved, Unconfirmed]"
| "next_states Uncertain = [Uncertain, AwaitingEcho, Resolved, Unconfirmed]"
| "next_states Resolved = [Resolved, Completed, Unconfirmed]"
| "next_states Completed = [Completed]"
| "next_states NotSubmitted = [NotSubmitted]"
| "next_states Unconfirmed = [Unconfirmed]"
| "next_states (StateText s) = [StateText s]"

definition same_identity :: "outbound_row \<Rightarrow> outbound_row \<Rightarrow> bool" where
  "same_identity r q \<longleftrightarrow>
     ob_key q = ob_key r \<and> ob_event_key q = ob_event_key r \<and>
     ob_matrix_room_id q = ob_matrix_room_id r \<and> ob_matrix_sender_id q = ob_matrix_sender_id r \<and>
     ob_sender_id q = ob_sender_id r \<and> ob_input_transaction_id q = ob_input_transaction_id r \<and>
     ob_message_type q = ob_message_type r \<and> ob_content_hash q = ob_content_hash r \<and>
     ob_source_media_digest q = ob_source_media_digest r \<and> ob_created_ts q = ob_created_ts r"

definition row_evolves :: "outbound_row \<Rightarrow> outbound_row \<Rightarrow> bool" where
  "row_evolves r q \<longleftrightarrow>
     same_identity r q \<and> ob_state q \<in> set (next_states (ob_state r)) \<and>
     (ob_conversation_id r \<noteq> [] \<longrightarrow>
        ob_conversation_id q = ob_conversation_id r \<and> ob_portal_id q = ob_portal_id r \<and>
        ob_portal_receiver q = ob_portal_receiver r) \<and>
     (ob_remote_message_id r \<noteq> [] \<longrightarrow>
        ob_remote_message_id q = ob_remote_message_id r \<or> ob_state q = Unconfirmed) \<and>
     (0 < ob_terminal_ts r \<longrightarrow>
        ob_terminal_ts q = ob_terminal_ts r \<and> ob_remote_message_id q = ob_remote_message_id r) \<and>
     (ob_status_notified_ts r \<noteq> 0 \<longrightarrow> ob_status_notified_ts q = ob_status_notified_ts r)"

lemma next_states_refl [simp]: "st \<in> set (next_states st)"
  by (cases st) auto

lemma row_evolves_refl [simp]: "row_evolves r r"
  by (simp add: row_evolves_def same_identity_def)

definition evolving :: "(outbound_row \<Rightarrow> bool) \<Rightarrow> (outbound_row \<Rightarrow> outbound_row) \<Rightarrow> bool" where
  "evolving p f \<longleftrightarrow> (\<forall>r. p r \<and> outbound_row_checks r \<longrightarrow> row_evolves r (f r))"

text \<open>A row may also disappear, and then it was never submitted, or its receipt remains.\<close>

definition rows_evolve :: "tables \<Rightarrow> tables \<Rightarrow> bool" where
  "rows_evolve t t' \<longleftrightarrow>
     (\<forall>r \<in> set (outbound t).
        (\<exists>q \<in> set (outbound t'). row_evolves r q) \<or>
        ((\<forall>q \<in> set (outbound t'). ob_key q \<noteq> ob_key r) \<and>
         (ob_state r = Prepared \<or> has_receipt t' r)))"

lemma rows_evolve_same: "outbound t' = outbound t \<Longrightarrow> rows_evolve t t'"
  unfolding rows_evolve_def using row_evolves_refl by metis

lemma rows_evolve_receipts:
  "rows_evolve t u \<Longrightarrow> outbound t' = outbound u \<Longrightarrow> set (receipts u) \<subseteq> set (receipts t') \<Longrightarrow>
   rows_evolve t t'"
  by (fastforce simp: rows_evolve_def has_receipt_iff)

lemma update_evolves:
  assumes "store_inv pke t" and "evolving p f"
  shows "rows_evolve t (snd (update_outbound p f t))"
proof -
  let ?u = "t\<lparr>outbound := update_where p f (outbound t)\<rparr>"
  have "\<exists>q \<in> set (outbound ?u). row_evolves r q" if r: "r \<in> set (outbound t)" for r
  proof -
    have "(if p r then f r else r) \<in> set (outbound ?u)" using r by (auto simp: set_update_where)
    moreover have "row_evolves r (if p r then f r else r)"
      using assms(2) constraintsD(1) [OF settled_constraints [OF assms(1)] r]
      by (simp add: evolving_def)
    ultimately show ?thesis by blast
  qed
  then have "rows_evolve t ?u" by (simp add: rows_evolve_def)
  then show ?thesis
    using update_outbound_cases [of p f t] rows_evolve_same [of t t] by auto
qed

lemma update_evolves_Inr:
  "update_outbound p f t = (Inr n, u) \<Longrightarrow> store_inv pke t \<Longrightarrow> evolving p f \<Longrightarrow> rows_evolve t u"
  using update_evolves [of pke t p f] by simp

lemma delete_evolves:
  assumes inv: "store_inv pke t"
    and p: "\<And>r. p r \<Longrightarrow> ob_state r = Prepared \<or> has_receipt t r"
  shows "rows_evolve t (snd (delete_outbound p t))"
  unfolding rows_evolve_def
proof
  fix r assume r: "r \<in> set (outbound t)"
  let ?u = "snd (delete_outbound p t)"
  show "(\<exists>q \<in> set (outbound ?u). row_evolves r q) \<or>
      ((\<forall>q \<in> set (outbound ?u). ob_key q \<noteq> ob_key r) \<and> (ob_state r = Prepared \<or> has_receipt ?u r))"
  proof (cases "p r")
    case True
    have "ob_key q \<noteq> ob_key r" if "q \<in> set (outbound t)" "\<not> p q" for q
      using that True constraintsD(2) [OF settled_constraints [OF inv] that(1) r] by auto
    then show ?thesis using p [OF True] by (auto simp: delete_outbound_def has_receipt_def)
  next
    case False
    with r have "r \<in> set (outbound ?u)" by (simp add: delete_outbound_def)
    then show ?thesis using row_evolves_refl by blast
  qed
qed

lemma create_evolves: "rows_evolve t (snd (insertOutboundSend r t))"
proof (cases "snd (insertOutboundSend r t) = t")
  case True
  then show ?thesis by (simp add: rows_evolve_same)
next
  case False
  with insert_cases [of r t]
  have "set (outbound t) \<subseteq> set (outbound (snd (insertOutboundSend r t)))" by auto
  then show ?thesis unfolding rows_evolve_def using row_evolves_refl by blast
qed

lemma with_receipts_outbound: "with_receipts b l xs t t' \<Longrightarrow> outbound t' = outbound t"
  by (induction xs arbitrary: t) (auto dest: with_receipt_outbound)

lemma with_receipts_mono: "with_receipts b l xs t t' \<Longrightarrow> set (receipts t) \<subseteq> set (receipts t')"
  by (induction xs arbitrary: t) (auto dest: with_receipt_mono)

lemmas evolving_simps = evolving_def row_evolves_def same_identity_def key_simps submitted_def unresolved_def

text \<open>Each update follows the state machine.\<close>

lemma binding_evolves:
  "evolving (\<lambda>r. at_key b l x r \<and> ob_conversation_id r = [] \<and> ob_remote_message_id r = [] \<and>
            ob_terminal_ts r = 0 \<and> unresolved (ob_state r) \<and> Q r)
       (\<lambda>r. r\<lparr>ob_binding_conversation_id := conv, ob_next_attempt_ts := nx, ob_updated_ts := up\<rparr>)"
  "evolving (\<lambda>r. at_key b l x r \<and> ob_remote_message_id r = [] \<and> ob_terminal_ts r = 0 \<and>
            unresolved (ob_state r) \<and>
            ((ob_conversation_id r = [] \<and> ob_binding_conversation_id r = conv) \<or>
             (ob_conversation_id r = conv \<and> ob_binding_conversation_id r = [] \<and>
              ob_portal_id r = pk_id key \<and> ob_portal_receiver r = pk_receiver key)) \<and> Q r)
       (\<lambda>r. r\<lparr>ob_portal_id := pk_id key, ob_portal_receiver := pk_receiver key,
              ob_conversation_id := conv, ob_binding_conversation_id := [],
              ob_next_attempt_ts := nx, ob_updated_ts := up\<rparr>)"
  by (auto simp: evolving_simps)

lemma claim_evolves:
  "evolving (\<lambda>r. at_key b l x r \<and> ob_conversation_id r = conv \<and>
            ((submitted (ob_state r) \<and> ob_remote_message_id r = [] \<and> ob_terminal_ts r = 0 \<and> Q r) \<or>
             (ob_state r = Resolved \<and> ob_remote_message_id r = remote)))
       (\<lambda>r. r\<lparr>ob_remote_message_id := remote, ob_state := Resolved, ob_next_attempt_ts := nx,
              ob_updated_ts := up\<rparr>)"
proof -
  have "ob_terminal_ts r = 0" if "outbound_row_checks r" "ob_state r = Resolved" for r
    using check_terminal [OF that(1)] that(2) by auto
  then show ?thesis by (auto simp: evolving_simps)
qed

lemma uncertain_evolves:
  "evolving (\<lambda>r. at_key b l x r \<and> ob_terminal_ts r = 0 \<and> submitted (ob_state r))
       (\<lambda>r. r\<lparr>ob_state := Uncertain, ob_attempt_count := ob_attempt_count r + 1,
              ob_next_attempt_ts := nx, ob_updated_ts := up\<rparr>)"
  by (auto simp: evolving_simps)

lemma step_evolves: "outbound_step pke t e t' \<Longrightarrow> store_inv pke t \<Longrightarrow> rows_evolve t t'"
proof (induction rule: outbound_step.induct)
  case (create r t)
  show ?case by (rule create_evolves)
next
  case (claim_remote t b l x remote conv nx up)
  then show ?case unfolding claimOutboundRemoteMessage_def
    by (intro update_evolves claim_evolves)
next
  case (bind key conv t b l x nx up)
  then show ?case unfolding bindOutboundSendConversation_def
    by (intro update_evolves binding_evolves)
next
  case (submit ids base r t b l x st nx up n t')
  then show ?case unfolding markOutboundSendSubmitting_def
    by (elim update_evolves_Inr) (auto simp: evolving_simps)
next
  case (finish_status r t b l x notified token nx n t')
  then show ?case unfolding finishOutboundStatusDelivery_def
    by (elim update_evolves_Inr) (auto simp: evolving_simps)
next
  case (finish_status_epoch notified t b l x token nx)
  then show ?case unfolding finishOutboundStatusDelivery_def
    by (intro update_evolves) (auto simp: evolving_simps)
next
  case (terminalize b l conv trm nx t ids u t')
  then have "rows_evolve t u"
    by (auto simp: terminalizeOutboundConversation_def terminalizable_def evolving_simps
        split: prod.splits sum.splits elim!: update_evolves_Inr)
  then show ?case
    using rows_evolve_receipts with_receipts_outbound [OF terminalize.hyps(2)]
      with_receipts_mono [OF terminalize.hyps(2)] by blast
next
  case (re_receipt b l x t t')
  then show ?case using rows_evolve_same with_receipt_outbound by blast
next
  case (environment t' t)
  then show ?case by (simp add: rows_evolve_same)
next
  case (delete_prepared t b l x)
  then show ?case unfolding deletePreparedOutboundSend_def by (auto intro!: delete_evolves)
next
  case (delete_not_submitted t b l x)
  then show ?case unfolding deleteNotSubmittedOutboundSend_def
    by (auto intro!: delete_evolves simp: deletable_failed_def)
next
  case (delete_unconfirmed t b l x)
  then show ?case unfolding deleteUnconfirmedOutboundSend_def
    by (auto intro!: delete_evolves simp: deletable_failed_def)
next
  case (not_submitted_prepared b l x trm nx t n u t')
  then have "rows_evolve t u" unfolding terminal_defs
    by (elim update_evolves_Inr) (auto simp: evolving_simps)
  then show ?case using rows_evolve_receipts with_receipt_outbound with_receipt_mono
      not_submitted_prepared.hyps(3) by blast
next
  case (not_submitted_submitting b l x trm nx t n u t')
  then have "rows_evolve t u" unfolding terminal_defs
    by (elim update_evolves_Inr) (auto simp: evolving_simps)
  then show ?case using rows_evolve_receipts with_receipt_outbound with_receipt_mono
      not_submitted_submitting.hyps(3) by blast
next
  case (unconfirmed b l x trm nx up t n u t')
  then have "rows_evolve t u" unfolding terminal_defs
    by (elim update_evolves_Inr) (auto simp: evolving_simps)
  then show ?case using rows_evolve_receipts with_receipt_outbound with_receipt_mono
      unconfirmed.hyps(3) by blast
next
  case (resolved_unconfirmed b l x remote trm nx up t n u t')
  then have "rows_evolve t u" unfolding terminal_defs
    by (elim update_evolves_Inr) (auto simp: evolving_simps)
  then show ?case using rows_evolve_receipts with_receipt_outbound with_receipt_mono
      resolved_unconfirmed.hyps(3) by blast
next
  case (completed b l x remote trm nx t n u t')
  then have "rows_evolve t u" unfolding terminal_defs
    by (elim update_evolves_Inr) (auto simp: evolving_simps)
  then show ?case using rows_evolve_receipts with_receipt_outbound with_receipt_mono
      completed.hyps(3) by blast
next
  case (stage_binding t b l x conv nx up)
  then show ?case unfolding prepareOutboundSendConversation_def
    by (intro update_evolves binding_evolves)
next
  case (uncertain t b l x nx up)
  then show ?case unfolding markOutboundSendUncertain_def
    by (intro update_evolves uncertain_evolves)
qed (auto intro!: update_evolves simp: nonterminal_defs evolving_simps)

end
