(* ===== verification/OutboundCalls.thy ===== *)
theory OutboundCalls
  imports OutboundLifecycle
begin

text \<open>
  The clients of the outbound store, as arbitrary sequences of its method calls: every
  worker, command and event handler of the connector reaches the table only through these
  methods, in whatever order, while the framework changes its own tables and the database
  fails where it likes (\<open>Outside\<close>). The log records every
  \<open>MarkSubmitting\<close> that returned true, under the Matrix event of the send: the connector
  sends the request to the remote service exactly after such a return.
\<close>

datatype store_call =
    LoadOrCreate "outbound_send option" gotime
  | PrepareConversationBinding string string string gotime gotime
  | BindConversation string string string portal_key gotime gotime
  | MarkSubmitting string string "string list" gotime gotime gotime
  | ClaimPreparedNotSubmitted string string gotime gotime
  | MarkSubmittingNotSubmitted string string gotime gotime
  | MarkAwaitingEcho string string gotime gotime
  | MarkUncertain string string gotime gotime
  | MarkUnconfirmed string string gotime gotime
  | MarkResolvedUnconfirmed string string string gotime gotime
  | MarkCompleted string string string gotime
  | TerminalizeConversation string string gotime gotime
  | ScheduleRetry string string gotime gotime
  | ClaimRemoteMessage string string string string gotime gotime
  | ClaimStatusDelivery string string string gotime gotime
  | FinishStatusDelivery string string string gotime gotime
  | ReleaseStatusDelivery string string string gotime
  | DeletePrepared string string
  | DeleteNotSubmitted string string
  | DeleteUnconfirmed string string
  | Outside "message_row list" "portal_row list" "(string \<times> string) list" "bool list"

definition outside ::
  "message_row list \<Rightarrow> portal_row list \<Rightarrow> (string \<times> string) list \<Rightarrow> bool list \<Rightarrow> db \<Rightarrow> db" where
  "outside ms ps ls fs s =
     s\<lparr>tbl := (tbl s)\<lparr>messages := ms, portals := ps, logins := logins (tbl s) @ ls\<rparr>, faults := fs\<rparr>"

definition event_of_send :: "string \<Rightarrow> string \<Rightarrow> string \<Rightarrow> tables \<Rightarrow> string option" where
  "event_of_send bid l x t = map_option ob_matrix_event_id (getOutboundSend bid l x t)"

definition submit_log :: "string \<Rightarrow> string \<Rightarrow> string \<Rightarrow> db \<Rightarrow> store_error + bool \<Rightarrow> store_event list" where
  "submit_log bid l x s r =
     (if r = Inr True then
        (case event_of_send bid l x (tbl s) of Some e \<Rightarrow> [Submitted bid e] | None \<Rightarrow> [])
      else [])"

fun perform :: "(portal_key \<Rightarrow> bool) \<Rightarrow> string \<Rightarrow> store_call \<Rightarrow> db \<Rightarrow> store_event list \<times> db" where
  "perform pke bid (LoadOrCreate s now) d = ([], snd (Outbound_LoadOrCreate pke bid s now d))"
| "perform pke bid (PrepareConversationBinding l x c nx now) d =
     ([], snd (Outbound_PrepareConversationBinding pke bid l x c nx now d))"
| "perform pke bid (BindConversation l x c k nx now) d =
     ([], snd (Outbound_BindConversation pke bid l x c k nx now d))"
| "perform pke bid (MarkSubmitting l x base st nx now) d =
     (case Outbound_MarkSubmitting bid l x base st nx now d of
        (r, d') \<Rightarrow> (submit_log bid l x d r, d'))"
| "perform pke bid (ClaimPreparedNotSubmitted l x trm nx) d =
     ([], snd (Outbound_ClaimPreparedNotSubmitted bid l x trm nx d))"
| "perform pke bid (MarkSubmittingNotSubmitted l x trm nx) d =
     ([], snd (Outbound_MarkSubmittingNotSubmitted bid l x trm nx d))"
| "perform pke bid (MarkAwaitingEcho l x nx now) d = ([], snd (Outbound_MarkAwaitingEcho bid l x nx now d))"
| "perform pke bid (MarkUncertain l x nx now) d = ([], snd (Outbound_MarkUncertain bid l x nx now d))"
| "perform pke bid (MarkUnconfirmed l x trm nx) d = ([], snd (Outbound_MarkUnconfirmed bid l x trm nx d))"
| "perform pke bid (MarkResolvedUnconfirmed l x m trm nx) d =
     ([], snd (Outbound_MarkResolvedUnconfirmed bid l x m trm nx d))"
| "perform pke bid (MarkCompleted l x m trm) d = ([], snd (Outbound_MarkCompleted pke bid l x m trm d))"
| "perform pke bid (TerminalizeConversation l c trm nx) d =
     ([], snd (Outbound_TerminalizeConversation bid l c trm nx d))"
| "perform pke bid (ScheduleRetry l x nx now) d = ([], snd (Outbound_ScheduleRetry bid l x nx now d))"
| "perform pke bid (ClaimRemoteMessage l x c m nx now) d =
     ([], snd (Outbound_ClaimRemoteMessage bid l x c m nx now d))"
| "perform pke bid (ClaimStatusDelivery l x tok ex now) d =
     ([], snd (Outbound_ClaimStatusDelivery bid l x tok ex now d))"
| "perform pke bid (FinishStatusDelivery l x tok nt ex) d =
     ([], snd (Outbound_FinishStatusDelivery pke bid l x tok nt ex d))"
| "perform pke bid (ReleaseStatusDelivery l x tok now) d =
     ([], snd (Outbound_ReleaseStatusDelivery bid l x tok now d))"
| "perform pke bid (DeletePrepared l x) d = ([], snd (Outbound_DeletePrepared bid l x d))"
| "perform pke bid (DeleteNotSubmitted l x) d = ([], snd (Outbound_DeleteNotSubmitted bid l x d))"
| "perform pke bid (DeleteUnconfirmed l x) d = ([], snd (Outbound_DeleteUnconfirmed bid l x d))"
| "perform pke bid (Outside ms ps ls fs) d = ([], outside ms ps ls fs d)"

fun perform_all ::
  "(portal_key \<Rightarrow> bool) \<Rightarrow> string \<Rightarrow> store_call list \<Rightarrow> db \<Rightarrow> store_event list \<times> db" where
  "perform_all pke bid [] d = ([], d)"
| "perform_all pke bid (c # cs) d =
     (case perform pke bid c d of (log, d1) \<Rightarrow>
      case perform_all pke bid cs d1 of (log', d2) \<Rightarrow> (log @ log', d2))"

section \<open>Calls are runs of the step relation\<close>

text \<open>A run whose labels, silent ones dropped, are the log.\<close>

definition logged :: "'l option list \<Rightarrow> 'l list" where
  "logged ls = map the (filter (\<lambda>l. l \<noteq> None) ls)"

lemma logged_simps [simp]:
  "logged [] = []" "logged (None # ls) = logged ls" "logged (Some l # ls) = l # logged ls"
  "logged (ls @ ks) = logged ls @ logged ks"
  by (simp_all add: logged_def)

lemma count_logged: "count_list (logged ls) l = count_list ls (Some l)"
  by (induction ls) (auto simp: logged_def)

lemma runs_append: "runs step s ls u \<Longrightarrow> runs step u ks t \<Longrightarrow> runs step s (ls @ ks) t"
  by (induction rule: runs.induct) (auto intro: runs.intros)

lemma moves_unlabelled:
  "(outbound_move pke)\<^sup>*\<^sup>* t t' \<Longrightarrow> \<exists>ls. runs (outbound_step pke) t ls t'"
proof (induction rule: rtranclp_induct)
  case base
  then show ?case by (auto intro: runs.intros)
next
  case (step u t')
  then obtain ls e where "runs (outbound_step pke) t ls u" "outbound_step pke u e t'"
    by (auto simp: outbound_move_def)
  then show ?case using runs_append runs.intros by metis
qed

text \<open>A log is covered by a run: it counts no event more often.\<close>

definition covered :: "(portal_key \<Rightarrow> bool) \<Rightarrow> tables \<Rightarrow> store_event list \<Rightarrow> tables \<Rightarrow> bool" where
  "covered pke t log t' \<longleftrightarrow>
     (\<exists>ls. runs (outbound_step pke) t ls t' \<and> (\<forall>k. count_list log k \<le> count_list (logged ls) k))"

lemma covered_append: "covered pke t log u \<Longrightarrow> covered pke u log' t' \<Longrightarrow> covered pke t (log @ log') t'"
  unfolding covered_def by (metis runs_append logged_simps(4) count_list_append add_mono)

lemma covered_moves:
  assumes "moves (on_tables (outbound_move pke)) m"
  shows "covered pke (tbl d) [] (tbl (snd (m d)))"
  using moves_unlabelled [OF on_tables_rtrancl [OF movesD [OF assms, of d]]]
  by (auto simp: covered_def)

lemma getOutboundSend_row:
  "outbound_constraints ls (outbound t) \<Longrightarrow> r \<in> set (outbound t) \<Longrightarrow> at_key b l x r \<Longrightarrow>
   getOutboundSend b l x t = Some r"
  by (simp add: getOutboundSend_def find_at_key')

lemma MarkSubmitting_InrTrue:
  assumes inv: "store_inv pke (tbl d)"
    and run: "Outbound_MarkSubmitting bid l x base st nx now d = (Inr True, d')"
  shows "\<exists>e. event_of_send bid l x (tbl d) = Some e \<and>
             outbound_step pke (tbl d) (Some (Submitted bid e)) (tbl d')"
proof -
  from run obtain js n where js: "marshalBaselineMessageIDs base = Inr js"
    and ex: "markOutboundSendSubmitting bid l x js (unix_milli st) (unix_milli nx) (unix_milli now) (tbl d)
             = (Inr n, tbl d')" and n: "0 < n"
    by (auto simp: Outbound_MarkSubmitting_def ret_def raise_def rowWasChanged_def
        dest!: andThen_InrD exec_Inr split: if_splits option.splits sum.splits)
  then obtain r where r: "r \<in> set (outbound (tbl d))" "at_key bid l x r"
    unfolding markOutboundSendSubmitting_def
    by (auto dest!: update_outbound_InrD simp: filter_empty_conv)
  then have "event_of_send bid l x (tbl d) = Some (ob_matrix_event_id r)"
    using getOutboundSend_row [OF settled_constraints [OF inv]] by (simp add: event_of_send_def)
  with outbound_step.submit [OF js r ex n] show ?thesis by blast
qed

lemma MarkSubmitting_covered:
  assumes inv: "store_inv pke (tbl d)"
    and run: "Outbound_MarkSubmitting bid l x base st nx now d = (r, d')"
  shows "covered pke (tbl d) (submit_log bid l x d r) (tbl d')"
proof (cases "r = Inr True")
  case True
  with MarkSubmitting_InrTrue [OF inv] run obtain e where
    "event_of_send bid l x (tbl d) = Some e"
    "outbound_step pke (tbl d) (Some (Submitted bid e)) (tbl d')" by blast
  then show ?thesis using True
    by (auto simp: submit_log_def covered_def intro!: exI [of _ "[Some (Submitted bid e)]"] runs.intros)
next
  case False
  then show ?thesis
    using covered_moves [OF MarkSubmitting_moves, of pke d bid l x base st nx now] run
    by (simp add: submit_log_def)
qed

lemma perform_covered:
  "store_inv pke (tbl d) \<Longrightarrow> perform pke bid c d = (log, d') \<Longrightarrow> covered pke (tbl d) log (tbl d')"
proof (cases c)
  case (MarkSubmitting l x base st nx now)
  assume "store_inv pke (tbl d)" "perform pke bid c d = (log, d')"
  then show ?thesis using MarkSubmitting by (auto split: prod.splits intro: MarkSubmitting_covered)
next
  case (Outside ms ps ls fs)
  assume "perform pke bid c d = (log, d')"
  moreover have "outbound_step pke (tbl d) None (tbl (outside ms ps ls fs d))"
    by (rule outbound_step.environment) (auto simp: outside_def)
  ultimately show ?thesis using Outside
    by (auto simp: covered_def intro!: exI [of _ "[None]"] runs.intros)
qed (auto intro!: covered_moves LoadOrCreate_moves markNotSubmitted_moves MarkUnconfirmed_moves
      MarkCompleted_moves Terminalize_moves simple_moves)

lemma covered_inv: "covered pke t log t' \<Longrightarrow> store_inv pke t \<Longrightarrow> store_inv pke t'"
  by (auto simp: covered_def intro: send_once.inv_runs)

lemma perform_all_covered:
  "store_inv pke (tbl d) \<Longrightarrow> perform_all pke bid cs d = (log, d') \<Longrightarrow> covered pke (tbl d) log (tbl d')"
proof (induction cs arbitrary: d log)
  case Nil
  then show ?case by (auto simp: covered_def intro!: exI [of _ "[]"] runs.intros)
next
  case (Cons c cs)
  then obtain log1 d1 log2 where one: "perform pke bid c d = (log1, d1)"
    and rest: "perform_all pke bid cs d1 = (log2, d')" and log: "log = log1 @ log2"
    by (auto split: prod.splits)
  from perform_covered [OF Cons.prems(1) one] have c1: "covered pke (tbl d) log1 (tbl d1)" .
  from covered_append [OF c1 Cons.IH [OF covered_inv [OF c1 Cons.prems(1)] rest]] show ?case
    unfolding log .
qed

end
