(* ===== verification/OutboundSamples.thy ===== *)
theory OutboundSamples
  imports OutboundCalls
begin

text \<open>
  Small concrete databases on which the properties of the outbound store are instantiated,
  and the facts that evaluate the store's operations on them.
\<close>

section \<open>A concrete database for the witnesses\<close>

definition empty_key :: "portal_key \<Rightarrow> bool" where
  "empty_key k \<longleftrightarrow> pk_id k = [] \<and> pk_receiver k = []"

definition sample_row :: outbound_row where
  "sample_row =
     \<lparr>ob_bridge_id = ''b'', ob_user_login_id = ''u'', ob_transaction_id = ''t'',
      ob_portal_id = ''c'', ob_portal_receiver = ''u'', ob_conversation_id = ''c'',
      ob_binding_conversation_id = [], ob_matrix_room_id = ''r'', ob_matrix_event_id = ''e'',
      ob_matrix_sender_id = ''m'', ob_sender_id = ''s'', ob_input_transaction_id = [],
      ob_message_type = TextType, ob_content_hash = replicate 64 (CHR ''0''),
      ob_source_media_digest = [], ob_baseline_ids_json = JsonList [], ob_remote_message_id = [],
      ob_state = Prepared, ob_terminal_ts = 0, ob_status_notified_ts = 0,
      ob_status_claim_token = [], ob_status_claim_expires_ts = 0, ob_attempt_count = 0,
      ob_next_attempt_ts = 10, ob_send_started_ts = 5, ob_created_ts = 5, ob_updated_ts = 5\<rparr>"

definition sample_tables :: "outbound_row list \<Rightarrow> receipt_row list \<Rightarrow> tables" where
  "sample_tables rs cs =
     \<lparr>outbound = rs, receipts = cs, jobs = [], sync_states = [], conversation_syncs = [],
      messages = [], portals = [], logins = [(''b'', ''u'')]\<rparr>"

definition sample_db :: "outbound_row list \<Rightarrow> receipt_row list \<Rightarrow> db" where
  "sample_db rs cs = \<lparr>tbl = sample_tables rs cs, faults = []\<rparr>"

definition failed_row :: outbound_row where
  "failed_row = sample_row\<lparr>ob_state := Unconfirmed, ob_terminal_ts := 20, ob_next_attempt_ts := 21\<rparr>"

lemma sample_db_simps [simp]:
  "tbl (sample_db rs cs) = sample_tables rs cs" "faults (sample_db rs cs) = []"
  "healthy (sample_db rs cs)"
  by (simp_all add: sample_db_def healthy_def)

lemma sample_tables_simps [simp]:
  "outbound (sample_tables rs cs) = rs" "receipts (sample_tables rs cs) = cs"
  "logins (sample_tables rs cs) = [(''b'', ''u'')]" "messages (sample_tables rs cs) = []"
  by (simp_all add: sample_tables_def)

lemma sample_row_sound: "sound_row empty_key sample_row"
proof -
  have "hex_decode (replicate 64 (CHR ''0'')) \<noteq> None" by code_simp
  moreover have "validateOutboundSendIdentity empty_key (send_of_row sample_row [] []) = None"
    by (simp add: validateOutboundSendIdentity_def send_of_row_def sample_row_def empty_key_def
        validateOutboundMessageType_def)
  ultimately show ?thesis by (simp add: sound_row_def sample_row_def decoded_baseline_def)
qed

lemma failed_row_sound: "sound_row empty_key failed_row"
  using sample_row_sound by (simp add: failed_row_def row_simps)

lemma sample_inv: "store_inv empty_key (sample_tables [sample_row] [])"
proof -
  have "outbound_constraints [(''b'', ''u'')] [sample_row]" by code_simp
  then show ?thesis using sample_row_sound
    by (simp add: settled_def settled_row_def receipts_distinct_def event_receipted_def sample_row_def)
qed

lemma failed_inv: "store_inv empty_key (sample_tables [failed_row] [receipt_of failed_row])"
proof -
  have "outbound_constraints [(''b'', ''u'')] [failed_row]" by code_simp
  moreover have "settled_row (sample_tables [failed_row] [receipt_of failed_row]) failed_row" by code_simp
  ultimately show ?thesis using failed_row_sound
    by (simp add: settled_def receipts_distinct_def)
qed

lemma empty_inv: "store_inv empty_key (sample_tables [] [])"
  by (simp add: settled_def receipts_distinct_def outbound_constraints_def)

section \<open>Evaluation\<close>

lemmas eval_store =
  andThen_def attempt_def exec_def query_def doTxn_def ret_def raise_def rowWasChanged_def is_zero_def zero_time_def
  unix_milli_def timeFromMillis_def validateNextAttempt_def marshalBaselineMessageIDs_def
  update_outbound_def delete_outbound_def Let_def update_where_def at_key_def
  outbound_constraints_def outbound_row_checks_def known_states_def
  ob_key_def ob_event_key_def ob_remote_key_def ob_login_def

definition sample_submit :: store_call where
  "sample_submit = MarkSubmitting ''u'' ''t'' [] 6000000 20000000 7000000"

lemma sample_submits:
  "fst (perform_all empty_key ''b'' [sample_submit, sample_submit] (sample_db [sample_row] [])) =
   [Submitted ''b'' ''e'']"
  by (simp add: eval_store sample_submit_def Outbound_MarkSubmitting_def markOutboundSendSubmitting_def
      submit_log_def event_of_send_def getOutboundSend_def sample_row_def)

definition failed_claimed :: outbound_row where
  "failed_claimed = failed_row\<lparr>ob_status_claim_token := ''w'', ob_status_claim_expires_ts := 90\<rparr>"

definition failed_notified :: outbound_row where
  "failed_notified = failed_row\<lparr>ob_status_notified_ts := 30, ob_next_attempt_ts := 99, ob_updated_ts := 30\<rparr>"

lemma sample_finish:
  "finishOutboundStatusDelivery ''b'' ''u'' ''t'' ''w'' 30 99
     (sample_tables [failed_claimed] [receipt_of failed_row]) =
   (Inr 1, (sample_tables [failed_claimed] [receipt_of failed_row])\<lparr>outbound := [failed_notified]\<rparr>)"
  by (simp add: eval_store finishOutboundStatusDelivery_def failed_claimed_def failed_notified_def
      failed_row_def sample_row_def)

lemma claimed_inv: "store_inv empty_key (sample_tables [failed_claimed] [receipt_of failed_row])"
proof -
  have "sound_row empty_key failed_claimed"
    using failed_row_sound by (simp add: failed_claimed_def row_simps)
  then show ?thesis using failed_inv
    by (simp add: settled_def failed_claimed_def settled_row_def eval_store
      has_receipt_def receipt_of_def failed_row_def sample_row_def event_receipted_def receipts_distinct_def)
qed

end
