(* ===== verification/OutboundContracts.thy ===== *)
theory OutboundContracts
  imports OutboundSamples
begin

text \<open>
  The contracts of the single methods of the durable outbound store: what creation stores
  and what it refuses, atomicity of the terminal transactions, exclusivity of the status
  claim and of a claimed remote message, and the choice of the next due send.
\<close>

section \<open>Statements without failure\<close>

lemma Get_Inr:
  "Outbound_Get pke bid l x d = (Inr res, d') \<Longrightarrow>
   scan_option pke (getOutboundSend bid l x (tbl d)) = Inr res \<and> tbl d' = tbl d"
  by (auto simp: Outbound_Get_def raise_def dest: query_Inr split: if_splits)

lemma Get_healthy:
  "healthy d \<Longrightarrow> \<not> blank l \<Longrightarrow> \<not> blank x \<Longrightarrow>
   Outbound_Get pke bid l x d = (scan_option pke (getOutboundSend bid l x (tbl d)), d\<lparr>faults := tl (faults d)\<rparr>)"
  by (simp add: Outbound_Get_def query_healthy)

lemma scan_option_None [simp]: "scan_option pke r = Inr None \<longleftrightarrow> r = None"
  by (auto simp: scan_option_def split: option.splits sum.splits)

lemma identity_nonblank:
  "validateOutboundSendIdentity pke s = None \<Longrightarrow> \<not> blank (UserLoginID s) \<and> \<not> blank (TransactionID s)"
  by (auto simp: validateOutboundSendIdentity_def split: if_splits)

lemma find_snoc: "find p xs = None \<Longrightarrow> p x \<Longrightarrow> find p (xs @ [x]) = Some x"
  by (induction xs) (auto split: if_splits)

section \<open>Creation\<close>

lemma insert_rounds_created:
  "insert_rounds pke bid s base now n d = (Inr (s', True), d') \<Longrightarrow>
   (\<exists>k. insertOutboundSend (new_row bid s base now) (tbl d) = (Inr k, tbl d') \<and> 0 < k) \<and>
   s' = s\<lparr>SendState := Prepared, CreatedAt := now, UpdatedAt := now\<rparr>"
proof (induction n arbitrary: d)
  case 0
  then show ?case by (simp add: raise_def)
next
  case (Suc n)
  obtain k d1 where k: "exec (insertOutboundSend (new_row bid s base now)) d = (Inr k, d1)"
    using Suc.prems by (auto dest!: andThen_InrD)
  show ?case
  proof (cases "0 < k")
    case True
    then show ?thesis using Suc.prems exec_Inr [OF k] k
      by (auto simp: andThen_def rowWasChanged_def ret_def)
  next
    case False
    then have "tbl d1 = tbl d"
      using exec_Inr [OF k] by (auto simp: insertOutboundSend_def split: if_splits)
    moreover obtain d2 where "tbl d2 = tbl d1" "insert_rounds pke bid s base now n d2 = (Inr (s', True), d')"
      using Suc.prems False k
      by (auto simp: andThen_Inr rowWasChanged_def ret_def raise_def isMatrixEventMapped_def
          isMatrixEventClaimed_def hasTerminalReceipt_def
          dest!: andThen_InrD Get_Inr query_Inr split: option.splits if_splits)
    ultimately show ?thesis using Suc.IH [of d2] by simp
  qed
qed

text \<open>A struct as it reads back from the database: times at millisecond resolution, and the baseline as
  JSON keeps it (\<open>json_text\<close>: U+FFFD for every byte that is not part of a code point; the same
  identifier when it is valid UTF-8).\<close>

definition at_millis :: "outbound_send \<Rightarrow> outbound_send" where
  "at_millis s = s\<lparr>
     NextAttemptAt := timeFromMillis (unix_milli (NextAttemptAt s)),
     SendStartedAt := timeFromMillis (unix_milli (SendStartedAt s)),
     CreatedAt := timeFromMillis (unix_milli (CreatedAt s)),
     UpdatedAt := timeFromMillis (unix_milli (UpdatedAt s))\<rparr>"

definition created_send :: "string \<Rightarrow> outbound_send \<Rightarrow> gotime \<Rightarrow> outbound_send" where
  "created_send bid s0 now =
     s0\<lparr>BridgeID := bid, SendState := Prepared, CreatedAt := now, UpdatedAt := now\<rparr>"

definition read_back :: "outbound_send \<Rightarrow> outbound_send" where
  "read_back s = (at_millis s)\<lparr>BaselineMessageIDs := map json_text (BaselineMessageIDs s)\<rparr>"

lemma insert_InrPos:
  "insertOutboundSend r t = (Inr k, t') \<Longrightarrow> 0 < k \<Longrightarrow>
   t' = t\<lparr>outbound := outbound t @ [r]\<rparr> \<and> outbound_row_checks r \<and>
   \<not> outboundMatrixEventMapped (ob_bridge_id r) (ob_matrix_event_id r) t \<and>
   \<not> outboundMatrixEventClaimed (ob_bridge_id r) (ob_matrix_event_id r) t \<and>
   \<not> outboundTerminalReceiptExists (ob_bridge_id r) (ob_matrix_event_id r) t \<and>
   ob_key r \<notin> set (map ob_key (outbound t))"
  by (auto simp: insertOutboundSend_def outboundMatrixEventMapped_def outboundMatrixEventClaimed_def
      outboundTerminalReceiptExists_def list_ex_iff ob_event_key_def image_iff split: if_splits)

lemma LoadOrCreate_created:
  assumes "Outbound_LoadOrCreate pke bid (Some s0) now d = (Inr (s, True), d')"
  shows "validateOutboundSendIdentity pke (s0\<lparr>BridgeID := bid\<rparr>) = None \<and>
    fresh_send_error (s0\<lparr>BridgeID := bid\<rparr>) now = None \<and>
    getOutboundSend bid (UserLoginID s0) (TransactionID s0) (tbl d) = None \<and>
    (BridgeID s0 = [] \<or> BridgeID s0 = bid) \<and>
    (\<exists>base k. marshalBaselineMessageIDs (BaselineMessageIDs s0) = Inr base \<and> 0 < k \<and>
       insertOutboundSend (new_row bid (s0\<lparr>BridgeID := bid\<rparr>) base now) (tbl d) = (Inr k, tbl d')) \<and>
    s = created_send bid s0 now"
  using assms
  by (auto simp: Outbound_LoadOrCreate_def Let_def raise_def ret_def created_send_def
      dest!: andThen_InrD Get_Inr insert_rounds_created split: if_splits option.splits sum.splits)

lemma new_row_fields:
  "ob_bridge_id (new_row bid s base now) = bid"
  "ob_matrix_event_id (new_row bid s base now) = MatrixEventID s"
  "ob_key (new_row bid s base now) = (bid, UserLoginID s, TransactionID s)"
  by (simp_all add: new_row_def ob_key_def)

lemma new_row_reads_back:
  assumes ident: "validateOutboundSendIdentity pke (s0\<lparr>BridgeID := bid\<rparr>) = None"
    and fresh: "fresh_send_error (s0\<lparr>BridgeID := bid\<rparr>) now = None"
    and base: "marshalBaselineMessageIDs (BaselineMessageIDs s0) = Inr base"
    and chk: "outbound_row_checks (new_row bid (s0\<lparr>BridgeID := bid\<rparr>) base now)"
  shows "scan pke (new_row bid (s0\<lparr>BridgeID := bid\<rparr>) base now) = Inr (read_back (created_send bid s0 now))"
proof -
  let ?r = "new_row bid (s0\<lparr>BridgeID := bid\<rparr>) base now"
  from new_row_fresh [OF ident base, of bid now] have "readable_row pke ?r"
    using chk by (simp add: readable_row_def fresh_row_def)
  from scan_readable [OF this] obtain h ids where sc: "scan pke ?r = Inr (send_of_row ?r h ids)" by blast
  note bs = conjunct1 [OF marshalled_readable [OF base]]
  have "h = ContentHash s0" "ids = map json_text (BaselineMessageIDs s0)"
    using sc by (auto simp: scan_def Let_def bs new_row_def decoded_baseline_def send_of_row_def
        split: option.splits if_splits)
  moreover have "BindingConversationID s0 = []" "RemoteMessageID s0 = []" "AttemptCount s0 = 0"
    "StatusClaimToken s0 = []" "TerminalAt s0 = zero_time" "StatusNotifiedAt s0 = zero_time"
    "StatusClaimExpiresAt s0 = zero_time"
    using fresh by (auto simp: fresh_send_error_def is_zero_def split: if_splits)
  ultimately have "send_of_row ?r h ids = read_back (created_send bid s0 now)"
    by (simp add: send_of_row_def new_row_def read_back_def at_millis_def created_send_def timeFromMillis_def)
  with sc show ?thesis by simp
qed

text \<open>C6: what creation promises. When \<open>LoadOrCreate\<close> reports a new send, the Matrix event had
  neither an outbound row, nor a permanent receipt, nor a bridged message; exactly one row
  was added; the struct it returns is the caller's in state prepared; and reading the row
  back decodes to that struct, with its times at the resolution of the database and its baseline as
  JSON keeps it.\<close>

theorem creation_round_trip:
  assumes "store_inv pke (tbl d)"
    and "Outbound_LoadOrCreate pke bid (Some s0) now d = (Inr (s, True), d')"
  shows "s = created_send bid s0 now \<and>
    \<not> outboundMatrixEventMapped bid (MatrixEventID s0) (tbl d) \<and>
    \<not> outboundMatrixEventClaimed bid (MatrixEventID s0) (tbl d) \<and>
    \<not> outboundTerminalReceiptExists bid (MatrixEventID s0) (tbl d) \<and>
    (\<exists>r. tbl d' = (tbl d)\<lparr>outbound := outbound (tbl d) @ [r]\<rparr> \<and>
         getOutboundSend bid (UserLoginID s0) (TransactionID s0) (tbl d') = Some r \<and>
         scan pke r = Inr (read_back s))"
proof -
  from LoadOrCreate_created [OF assms(2)] obtain base k where
    ident: "validateOutboundSendIdentity pke (s0\<lparr>BridgeID := bid\<rparr>) = None"
    and fresh: "fresh_send_error (s0\<lparr>BridgeID := bid\<rparr>) now = None"
    and none: "getOutboundSend bid (UserLoginID s0) (TransactionID s0) (tbl d) = None"
    and base: "marshalBaselineMessageIDs (BaselineMessageIDs s0) = Inr base" and k: "0 < k"
    and ins: "insertOutboundSend (new_row bid (s0\<lparr>BridgeID := bid\<rparr>) base now) (tbl d) = (Inr k, tbl d')"
    and s: "s = created_send bid s0 now" by blast
  let ?r = "new_row bid (s0\<lparr>BridgeID := bid\<rparr>) base now"
  note new = insert_InrPos [OF ins k, unfolded new_row_fields]
  have "at_key bid (UserLoginID s0) (TransactionID s0) ?r" by (simp add: at_key_def new_row_def)
  then have "getOutboundSend bid (UserLoginID s0) (TransactionID s0) (tbl d') = Some ?r"
    using none new by (simp add: getOutboundSend_def find_snoc)
  moreover have "scan pke ?r = Inr (read_back s)"
    using new_row_reads_back [OF ident fresh base] new s by blast
  ultimately show ?thesis using new s by auto
qed

definition sample_send :: outbound_send where
  "sample_send =
     \<lparr>BridgeID = [], UserLoginID = ''u'', TransactionID = ''t'',
      PortalKey = \<lparr>pk_id = ''c'', pk_receiver = ''u''\<rparr>, ConversationID = ''c'',
      BindingConversationID = [], MatrixRoomID = ''r'', MatrixEventID = ''e'', MatrixSenderID = ''m'',
      SenderID = ''s'', InputTransactionID = [], MessageType = TextType,
      ContentHash = replicate 32 (CHR ''x''), SourceMediaDigest = [], BaselineMessageIDs = [''p''],
      RemoteMessageID = [], SendState = StateText [], TerminalAt = zero_time,
      StatusNotifiedAt = zero_time, StatusClaimToken = [], StatusClaimExpiresAt = zero_time,
      AttemptCount = 0, NextAttemptAt = 20000000, SendStartedAt = 5000001, CreatedAt = zero_time,
      UpdatedAt = zero_time\<rparr>"

lemma sample_json [simp]: "json_text ''p'' = ''p''"
  by (rule json_text_ascii) simp

lemma sample_visible [simp]: "\<not> has_control ''p''" "find (\<lambda>m. blank m \<or> has_control m) [''p''] = None"
  by (simp_all add: Let_def)

lemma sample_creates:
  "\<exists>d'. Outbound_LoadOrCreate empty_key ''b'' (Some sample_send) 7000000 (sample_db [] []) =
     (Inr (created_send ''b'' sample_send 7000000, True), d') \<and> faults d' = []"
  by (simp add: Outbound_LoadOrCreate_def sample_send_def validateOutboundSendIdentity_def empty_key_def
      validateOutboundMessageType_def Outbound_Get_def scan_option_def getOutboundSend_def
      fresh_send_error_def insertOutboundSend_def new_row_def created_send_def eval_store numeral_2_eq_2)

lemma creation_round_trip_witness:
  "\<exists>d' r. Outbound_LoadOrCreate empty_key ''b'' (Some sample_send) 7000000 (sample_db [] []) =
     (Inr (created_send ''b'' sample_send 7000000, True), d') \<and>
     getOutboundSend ''b'' ''u'' ''t'' (tbl d') = Some r \<and>
     scan empty_key r = Inr (read_back (created_send ''b'' sample_send 7000000))"
proof -
  from sample_creates obtain d' where run: "Outbound_LoadOrCreate empty_key ''b'' (Some sample_send)
     7000000 (sample_db [] []) = (Inr (created_send ''b'' sample_send 7000000, True), d')" by blast
  have "store_inv empty_key (tbl (sample_db [] []))" using empty_inv by simp
  from creation_round_trip [OF this run] run show ?thesis by (auto simp: sample_send_def)
qed



text \<open>Creation is idempotent. Presenting the same send again, at any later time, returns the
  stored send as loaded rather than created and changes no table.\<close>

theorem creation_idempotent:
  assumes "store_inv pke (tbl d)"
    and "Outbound_LoadOrCreate pke bid (Some s0) now d = (Inr (s, True), d')"
    and "healthy d'"
  shows "fst (Outbound_LoadOrCreate pke bid (Some s0) later d') = Inr (read_back s, False) \<and>
         tbl (snd (Outbound_LoadOrCreate pke bid (Some s0) later d')) = tbl d'"
proof -
  note c = LoadOrCreate_created [OF assms(2)]
  from c obtain base k where
    ident: "validateOutboundSendIdentity pke (s0\<lparr>BridgeID := bid\<rparr>) = None"
    and fresh: "fresh_send_error (s0\<lparr>BridgeID := bid\<rparr>) now = None"
    and none: "getOutboundSend bid (UserLoginID s0) (TransactionID s0) (tbl d) = None"
    and base: "marshalBaselineMessageIDs (BaselineMessageIDs s0) = Inr base" and k: "0 < k"
    and ins: "insertOutboundSend (new_row bid (s0\<lparr>BridgeID := bid\<rparr>) base now) (tbl d) = (Inr k, tbl d')"
    and s: "s = created_send bid s0 now" and bridge: "BridgeID s0 = [] \<or> BridgeID s0 = bid" by blast
  let ?r = "new_row bid (s0\<lparr>BridgeID := bid\<rparr>) base now"
  note new = insert_InrPos [OF ins k]
  have "at_key bid (UserLoginID s0) (TransactionID s0) ?r" by (simp add: at_key_def new_row_def)
  then have get: "getOutboundSend bid (UserLoginID s0) (TransactionID s0) (tbl d') = Some ?r"
    using none new by (simp add: getOutboundSend_def find_snoc)
  have sc: "scan pke ?r = Inr (read_back s)"
    using new_row_reads_back [OF ident fresh base] new s by blast
  have nb: "\<not> blank (UserLoginID s0)" "\<not> blank (TransactionID s0)"
    using identity_nonblank [OF ident] by simp_all
  have re: "validateOutboundSendReentry (read_back s) (s0\<lparr>BridgeID := bid\<rparr>) = None"
    by (simp add: validateOutboundSendReentry_def s created_send_def read_back_def at_millis_def)
  show ?thesis
    using bridge re
    by (auto simp add: Outbound_LoadOrCreate_def Let_def ident andThen_def Get_healthy [OF assms(3) nb]
        scan_option_def get sc ret_def)
qed

lemma creation_idempotent_witness:
  "\<exists>d'. snd (Outbound_LoadOrCreate empty_key ''b'' (Some sample_send) 7000000 (sample_db [] [])) = d' \<and>
     fst (Outbound_LoadOrCreate empty_key ''b'' (Some sample_send) 9000000 d') =
       Inr (read_back (created_send ''b'' sample_send 7000000), False)"
proof -
  from sample_creates obtain d' where run: "Outbound_LoadOrCreate empty_key ''b'' (Some sample_send)
     7000000 (sample_db [] []) = (Inr (created_send ''b'' sample_send 7000000, True), d')" and h: "healthy d'"
    by (auto simp: healthy_def)
  have "store_inv empty_key (tbl (sample_db [] []))" using empty_inv by simp
  from creation_idempotent [OF this run h] run show ?thesis by simp
qed

section \<open>Terminal transactions\<close>

definition final_with_receipt :: "string \<Rightarrow> string \<Rightarrow> string \<Rightarrow> send_state \<Rightarrow> tables \<Rightarrow> bool" where
  "final_with_receipt bid l x st t \<longleftrightarrow>
     (\<exists>r \<in> set (outbound t). at_key bid l x r \<and> ob_state r = st \<and> 0 < ob_terminal_ts r \<and> has_receipt t r)"

lemma moves_store_inv:
  "moves (on_tables (outbound_move pke)) m \<Longrightarrow> store_inv pke (tbl d) \<Longrightarrow> m d = (res, d') \<Longrightarrow>
   store_inv pke (tbl d')"
  using covered_inv [OF covered_moves [of pke m d]] by simp

lemma doTxn_Inl: "doTxn body d = (Inl e, d') \<Longrightarrow> tbl d' = tbl d"
  by (auto simp: doTxn_def split: sum.splits prod.splits list.splits bool.splits)

lemma doTxn_Inr: "doTxn body d = (Inr y, d') \<Longrightarrow> \<exists>d1. body d = (Inr y, d1) \<and> tbl d' = tbl d1"
  by (auto simp: doTxn_def split: sum.splits prod.splits list.splits bool.splits)

lemma withTerminalReceipt_Inr:
  assumes "withTerminalReceipt bid l x (exec stm) d = (Inr c, d')"
  shows "\<exists>n u. stm (tbl d) = (Inr n, u) \<and> (c \<longleftrightarrow> 0 < n) \<and>
           (if 0 < n then with_receipt bid l x u (tbl d') else tbl d' = u)"
  using assms
  by (fastforce simp: withTerminalReceipt_def rowWasChanged_def ret_def
      dest!: doTxn_Inr andThen_InrD exec_Inr ensureTerminalReceipt_InrD split: if_splits)

lemma update_changed_row:
  "update_outbound p f t = (Inr n, u) \<Longrightarrow> 0 < n \<Longrightarrow>
   \<exists>q \<in> set (outbound t). p q \<and> f q \<in> set (outbound u)"
  by (force dest!: update_outbound_InrD simp: set_update_where filter_empty_conv)

lemma final_update_receipted:
  assumes inv: "store_inv pke t" and inv': "store_inv pke t'"
    and upd: "update_outbound p f t = (Inr n, u)" and n: "0 < n"
    and wr: "with_receipt bid l x u t'"
    and p: "\<And>q. p q \<Longrightarrow> at_key bid l x q \<and> at_key bid l x (f q) \<and> ob_state (f q) = st"
    and fin: "final_state st"
  shows "final_with_receipt bid l x st t'"
proof -
  from update_changed_row [OF upd n] obtain q where q: "q \<in> set (outbound t)" "p q"
    and u: "f q \<in> set (outbound u)" by blast
  then have "f q \<in> set (outbound t')" using with_receipt_outbound [OF wr] by simp
  moreover from this have "settled_row t' (f q)" using settled_rows [OF inv'] by simp
  ultimately show ?thesis
    using p [OF q(2)] fin unfolding final_with_receipt_def
    by (intro bexI [of _ "f q"]) (auto simp: settled_row_def split: if_splits)
qed

text \<open>C9: marking a send not submitted is atomic. Either the method fails and no table changed,
  or it reports that the row was in another state and no table changed, or it reports
  success, and then the row is in its final state with a positive terminal timestamp and
  its permanent receipt is stored, whichever statement or commit the database fails.\<close>

theorem not_submitted_atomic:
  assumes "store_inv pke (tbl d)"
    and "op = Outbound_ClaimPreparedNotSubmitted bid l x trm nx \<or>
         op = Outbound_MarkSubmittingNotSubmitted bid l x trm nx"
    and "op d = (res, d')"
  shows "(res \<noteq> Inr True \<longrightarrow> tbl d' = tbl d) \<and>
         (res = Inr True \<longrightarrow> final_with_receipt bid l x NotSubmitted (tbl d'))"
proof -
  have "moves (on_tables (outbound_move pke)) op"
    using assms(2) by (auto intro: markNotSubmitted_moves)
  then have inv': "store_inv pke (tbl d')" using assms(1,3) by (rule moves_store_inv)
  obtain stm where op: "op = markNotSubmitted stm bid l x trm nx"
    and stm: "stm = markPreparedOutboundNotSubmitted \<or> stm = markSubmittingOutboundNotSubmitted"
    using assms(2) by (auto simp: Outbound_ClaimPreparedNotSubmitted_def Outbound_MarkSubmittingNotSubmitted_def)
  let ?stm = "stm bid l x (unix_milli trm) (unix_milli nx)"
  show ?thesis
  proof (cases res)
    case (Inl e)
    then show ?thesis using assms(3) op
      by (auto simp: markNotSubmitted_def raise_def withTerminalReceipt_def dest: doTxn_Inl split: if_splits)
  next
    case (Inr c)
    then have "withTerminalReceipt bid l x (exec ?stm) d = (Inr c, d')"
      using assms(3) op by (auto simp: markNotSubmitted_def raise_def split: if_splits)
    from withTerminalReceipt_Inr [OF this] obtain n u where
      run: "?stm (tbl d) = (Inr n, u)" "c \<longleftrightarrow> 0 < n"
      "if 0 < n then with_receipt bid l x u (tbl d') else tbl d' = u" by blast
    show ?thesis
    proof (cases "0 < n")
      case True
      have "final_with_receipt bid l x NotSubmitted (tbl d')"
        using stm run True
        by (auto simp: terminal_defs at_key_def intro!: final_update_receipted [OF assms(1) inv'])
      then show ?thesis using Inr run True by simp
    next
      case False
      then show ?thesis using Inr run stm terminal_zero(1,2) by auto
    qed
  qed
qed

lemma not_submitted_atomic_witness:
  "\<exists>d'. Outbound_ClaimPreparedNotSubmitted ''b'' ''u'' ''t'' 6000000 30000000 (sample_db [sample_row] []) =
     (Inr True, d') \<and> final_with_receipt ''b'' ''u'' ''t'' NotSubmitted (tbl d')"
proof -
  have "\<exists>d'. Outbound_ClaimPreparedNotSubmitted ''b'' ''u'' ''t'' 6000000 30000000 (sample_db [sample_row] []) =
     (Inr True, d')"
    by (simp add: Outbound_ClaimPreparedNotSubmitted_def markNotSubmitted_def withTerminalReceipt_def
        ensureTerminalReceipt_def markPreparedOutboundNotSubmitted_def insertOutboundTerminalReceipt_def
        getOutboundTerminalReceiptIdentity_def receipt_of_def eval_store sample_row_def)
  then obtain d' where run: "Outbound_ClaimPreparedNotSubmitted ''b'' ''u'' ''t'' 6000000 30000000
      (sample_db [sample_row] []) = (Inr True, d')" by blast
  have "store_inv empty_key (tbl (sample_db [sample_row] []))" using sample_inv by simp
  from not_submitted_atomic [OF this disjI1 [OF refl] run] run show ?thesis by blast
qed

text \<open>C10: completing a send is atomic. \<open>MarkCompleted\<close> either fails and leaves every table as it
  was, or the row is completed under exactly the claimed remote message and its permanent
  receipt is stored; repeating it on a completed send with the same remote message only
  confirms the receipt.\<close>

theorem completion_atomic:
  assumes "store_inv pke (tbl d)"
    and "Outbound_MarkCompleted pke bid l x remote trm d = (res, d')"
  shows "(\<forall>e. res = Inl e \<longrightarrow> tbl d' = tbl d) \<and>
         (res = Inr () \<longrightarrow> final_with_receipt bid l x Completed (tbl d') \<and>
            (\<exists>r \<in> set (outbound (tbl d')). at_key bid l x r \<and> ob_remote_message_id r = remote))"
proof (cases res)
  case (Inl e)
  then show ?thesis using assms(2)
    by (auto simp: Outbound_MarkCompleted_def raise_def dest: doTxn_Inl split: if_splits)
next
  case (Inr y)
  let ?stm = "markOutboundSendCompleted bid l x remote (unix_milli trm) outboundCompletedReceiptUnixMilli"
  have inv': "store_inv pke (tbl d')" using MarkCompleted_moves assms by (rule moves_store_inv)
  obtain n d1 where n: "exec ?stm d = (Inr n, d1)"
    and rest: "(if 0 < n then with_receipt bid l x (tbl d1) (tbl d')
       else with_receipt bid l x (tbl d1) (tbl d') \<and>
         (\<exists>e. scan_option pke (getOutboundSend bid l x (tbl d1)) = Inr (Some e) \<and>
              SendState e = Completed \<and> RemoteMessageID e = remote))"
    using assms(2) Inr
    by (fastforce simp: Outbound_MarkCompleted_def raise_def rowWasChanged_def
        dest!: doTxn_Inr andThen_InrD ensureTerminalReceipt_InrD Get_Inr split: if_splits option.splits)
  note upd = exec_Inr [OF n, unfolded markOutboundSendCompleted_def]
  have wr: "with_receipt bid l x (tbl d1) (tbl d')" using rest by (auto split: if_splits)
  have "\<exists>r \<in> set (outbound (tbl d')). at_key bid l x r \<and> ob_state r = Completed \<and> ob_remote_message_id r = remote"
  proof (cases "0 < n")
    case True
    then show ?thesis
      using update_changed_row [OF upd] with_receipt_outbound [OF wr]
      by (auto simp: at_key_def intro!: bexI [rotated])
  next
    case False
    with rest obtain r e where "find (at_key bid l x) (outbound (tbl d1)) = Some r" "scan pke r = Inr e"
      "SendState e = Completed" "RemoteMessageID e = remote"
      by (auto simp: scan_option_def getOutboundSend_def split: option.splits sum.splits)
    then show ?thesis
      using find_SomeD scan_Inr_send with_receipt_outbound [OF wr] by fastforce
  qed
  then show ?thesis
    using settled_rows [OF inv'] Inr
    by (fastforce simp: final_with_receipt_def settled_row_def split: if_splits)
qed

definition resolved_row :: outbound_row where
  "resolved_row = sample_row\<lparr>ob_state := Resolved, ob_remote_message_id := ''g''\<rparr>"

lemma resolved_inv: "store_inv empty_key (sample_tables [resolved_row] [])"
proof -
  have "sound_row empty_key resolved_row" using sample_row_sound by (simp add: resolved_row_def row_simps)
  moreover have "settled_row (sample_tables [resolved_row] []) resolved_row"
    by (simp add: settled_row_def event_receipted_def resolved_row_def sample_row_def)
  moreover have "outbound_constraints [(''b'', ''u'')] [resolved_row]"
    by (simp add: eval_store resolved_row_def sample_row_def)
  ultimately show ?thesis by (simp add: settled_def receipts_distinct_def)
qed

lemma completion_atomic_witness:
  "\<exists>d'. Outbound_MarkCompleted empty_key ''b'' ''u'' ''t'' ''g'' 6000000 (sample_db [resolved_row] []) =
     (Inr (), d') \<and> final_with_receipt ''b'' ''u'' ''t'' Completed (tbl d')"
proof -
  have "\<exists>d'. Outbound_MarkCompleted empty_key ''b'' ''u'' ''t'' ''g'' 6000000 (sample_db [resolved_row] []) =
     (Inr (), d')"
    by (simp add: Outbound_MarkCompleted_def ensureTerminalReceipt_def markOutboundSendCompleted_def
        insertOutboundTerminalReceipt_def outboundCompletedReceiptUnixMilli_def
        getOutboundTerminalReceiptIdentity_def receipt_of_def eval_store sample_row_def resolved_row_def)
  then obtain d' where run: "Outbound_MarkCompleted empty_key ''b'' ''u'' ''t'' ''g'' 6000000
      (sample_db [resolved_row] []) = (Inr (), d')" by blast
  have "store_inv empty_key (tbl (sample_db [resolved_row] []))" using resolved_inv by simp
  from completion_atomic [OF this run] run show ?thesis by blast
qed

end
