(* ===== verification/OutboundDelivery.thy ===== *)
theory OutboundDelivery
  imports OutboundContracts
begin

text \<open>
  Contracts of the remaining methods of the outbound store: leaving a conversation, the
  lease of the status delivery, the claim of a remote message, and the choice of the next
  due send.
\<close>

section \<open>Leaving a conversation\<close>

lemma terminalize_InrD:
  assumes "terminalizeOutboundConversation b l conv trm nx t = (Inr ids, u)"
  shows "ids = map ob_transaction_id (filter (terminalizable b l conv) (outbound t)) \<and>
    (\<exists>n. update_outbound (terminalizable b l conv)
        (\<lambda>r. r\<lparr>ob_state := (if ob_state r = Prepared then NotSubmitted else Unconfirmed),
               ob_terminal_ts := trm, ob_next_attempt_ts := nx, ob_updated_ts := trm\<rparr>) t = (Inr n, u))"
  using assms by (auto simp: terminalizeOutboundConversation_def split: prod.splits sum.splits)

text \<open>C11: leaving a conversation is complete and atomic. \<open>TerminalizeConversation\<close> either fails
  and changes nothing, or returns exactly the transactions that were open in the
  conversation (bound to it or about to be); each of them is then final, not submitted if
  it had only been prepared and unconfirmed otherwise, with its receipt stored; every
  other row is as before; and none is left open in the conversation.\<close>

theorem terminalize_complete:
  assumes "store_inv pke (tbl d)"
    and "Outbound_TerminalizeConversation bid l conv trm nx d = (res, d')"
  shows "(\<forall>e. res = Inl e \<longrightarrow> tbl d' = tbl d) \<and>
    (\<forall>ids. res = Inr ids \<longrightarrow>
       ids = map ob_transaction_id (filter (terminalizable bid l conv) (outbound (tbl d))) \<and>
       filter (terminalizable bid l conv) (outbound (tbl d')) = [] \<and>
       (\<forall>r \<in> set (outbound (tbl d)). \<not> terminalizable bid l conv r \<longrightarrow> r \<in> set (outbound (tbl d'))) \<and>
       (\<forall>r \<in> set (outbound (tbl d)). terminalizable bid l conv r \<longrightarrow>
          final_with_receipt bid l (ob_transaction_id r)
            (if ob_state r = Prepared then NotSubmitted else Unconfirmed) (tbl d')))"
proof (cases res)
  case (Inl e)
  then show ?thesis using assms(2)
    by (auto simp: Outbound_TerminalizeConversation_def raise_def dest: doTxn_Inl split: if_splits)
next
  case (Inr ids)
  let ?f = "\<lambda>r. r\<lparr>ob_state := (if ob_state r = Prepared then NotSubmitted else Unconfirmed),
               ob_terminal_ts := unix_milli trm, ob_next_attempt_ts := unix_milli nx,
               ob_updated_ts := unix_milli trm\<rparr>"
  have inv': "store_inv pke (tbl d')" using Terminalize_moves assms by (rule moves_store_inv)
  from assms(2) Inr obtain d1 where
    run: "andThen (exec (terminalizeOutboundConversation bid l conv (unix_milli trm) (unix_milli nx)))
      (\<lambda>ids. andThen (ensure_receipts bid l ids) (\<lambda>_. ret ids)) d = (Inr ids, d1)" and d1: "tbl d' = tbl d1"
    by (auto simp: Outbound_TerminalizeConversation_def raise_def dest!: doTxn_Inr split: if_splits)
  from andThen_InrD [OF run] obtain xs d2 where
    e: "exec (terminalizeOutboundConversation bid l conv (unix_milli trm) (unix_milli nx)) d = (Inr xs, d2)"
    and r: "andThen (ensure_receipts bid l xs) (\<lambda>_. ret xs) d2 = (Inr ids, d1)" by blast
  from r d1 have xs: "xs = ids" and wr: "with_receipts bid l ids (tbl d2) (tbl d')"
    by (auto simp: ret_def dest!: andThen_InrD ensure_receipts_InrD)
  let ?u = "tbl d2"
  have stm: "terminalizeOutboundConversation bid l conv (unix_milli trm) (unix_milli nx) (tbl d) = (Inr ids, ?u)"
    using exec_Inr [OF e] xs by simp
  from terminalize_InrD [OF stm] obtain n where ids: "ids = map ob_transaction_id (filter (terminalizable bid l conv) (outbound (tbl d)))"
    and upd: "update_outbound (terminalizable bid l conv) ?f (tbl d) = (Inr n, ?u)" by blast
  have out: "set (outbound (tbl d')) = (\<lambda>r. if terminalizable bid l conv r then ?f r else r) ` set (outbound (tbl d))"
    using update_outbound_InrD [OF upd] with_receipts_outbound [OF wr] by (simp add: update_where_def)
  have final: "final_with_receipt bid l (ob_transaction_id r)
      (if ob_state r = Prepared then NotSubmitted else Unconfirmed) (tbl d')"
    if r: "r \<in> set (outbound (tbl d))" "terminalizable bid l conv r" for r
  proof -
    have fr: "?f r \<in> set (outbound (tbl d'))" unfolding out using r by (auto intro!: image_eqI [of _ _ r])
    from settled_rows [OF inv' fr] have "0 < ob_terminal_ts (?f r)" "has_receipt (tbl d') (?f r)"
      by (auto simp: settled_row_def final_state_def split: if_splits)
    then show ?thesis
      unfolding final_with_receipt_def using fr r(2)
      by (intro bexI [of _ "?f r"]) (auto simp: at_key_def terminalizable_def)
  qed
  have closed: "\<not> terminalizable bid l conv (?f r)" for r
    by (simp add: terminalizable_def unresolved_def)
  have "\<not> terminalizable bid l conv q" if "q \<in> set (outbound (tbl d'))" for q
  proof -
    from that out obtain r where q: "q = (if terminalizable bid l conv r then ?f r else r)" by blast
    show ?thesis
    proof (cases "terminalizable bid l conv r")
      case True
      with q have "q = ?f r" by simp
      then show ?thesis using closed [of r] by (simp only: not_False_eq_True)
    next
      case False
      with q show ?thesis by simp
    qed
  qed
  then have "filter (terminalizable bid l conv) (outbound (tbl d')) = []"
    by (simp add: filter_empty_conv)
  moreover have "r \<in> set (outbound (tbl d'))"
    if "r \<in> set (outbound (tbl d))" "\<not> terminalizable bid l conv r" for r
    unfolding out using that by (auto intro!: image_eqI [of _ _ r])
  ultimately show ?thesis using Inr ids final by blast
qed

lemma terminalize_complete_witness:
  "\<exists>d'. Outbound_TerminalizeConversation ''b'' ''u'' ''c'' 6000000 30000000 (sample_db [sample_row] []) =
     (Inr [''t''], d') \<and> final_with_receipt ''b'' ''u'' ''t'' NotSubmitted (tbl d')"
proof -
  have "\<exists>d'. Outbound_TerminalizeConversation ''b'' ''u'' ''c'' 6000000 30000000 (sample_db [sample_row] []) =
     (Inr [''t''], d')"
    by (simp add: Outbound_TerminalizeConversation_def terminalizeOutboundConversation_def
        ensureTerminalReceipt_def insertOutboundTerminalReceipt_def terminalizable_def unresolved_def
        getOutboundTerminalReceiptIdentity_def receipt_of_def eval_store sample_row_def)
  then obtain d' where run: "Outbound_TerminalizeConversation ''b'' ''u'' ''c'' 6000000 30000000
      (sample_db [sample_row] []) = (Inr [''t''], d')" by blast
  have inv: "store_inv empty_key (tbl (sample_db [sample_row] []))" using sample_inv by simp
  have "terminalizable ''b'' ''u'' ''c'' sample_row" "ob_state sample_row = Prepared"
    "ob_transaction_id sample_row = ''t''"
    by (simp_all add: terminalizable_def unresolved_def sample_row_def)
  then show ?thesis using terminalize_complete [OF inv run] run by auto
qed

section \<open>The lease of the status delivery\<close>

lemma claim_InrTrue:
  assumes "Outbound_ClaimStatusDelivery bid l x token ex now d = (Inr True, d')"
  shows "token \<noteq> [] \<and> (\<exists>r \<in> set (outbound (tbl d')). at_key bid l x r \<and> ob_status_claim_token r = token \<and>
           ob_status_claim_expires_ts r = unix_milli ex)"
proof -
  from assms obtain n where
    "claimOutboundStatusDelivery bid l x token (unix_milli ex) (unix_milli now) (tbl d) = (Inr n, tbl d')"
    "0 < n" "\<not> blank token"
    by (auto simp: Outbound_ClaimStatusDelivery_def raise_def ret_def rowWasChanged_def
        dest!: andThen_InrD exec_Inr split: if_splits)
  from update_changed_row [OF this(1) [unfolded claimOutboundStatusDelivery_def] this(2)] this(3)
  show ?thesis by (auto simp: at_key_def not_blank_nonempty intro!: bexI [rotated])
qed

lemma update_none:
  assumes "store_inv pke t" and "r \<in> set (outbound t)" and "at_key b l x r"
    and "\<And>q. p q \<Longrightarrow> at_key b l x q" and "\<not> p r"
  shows "update_outbound p f t = (Inr 0, t)"
proof -
  have no: "\<not> p q" if "q \<in> set (outbound t)" for q
  proof
    assume "p q"
    with assms(3,4) have "ob_key q = ob_key r" by (simp add: at_key_iff)
    with constraintsD(2) [OF settled_constraints [OF assms(1)] that assms(2)] \<open>p q\<close> assms(5)
    show False by simp
  qed
  then have "update_where p f (outbound t) = outbound t" by (simp add: update_where_def map_idI)
  moreover have "filter p (outbound t) = []" using no by simp
  ultimately show ?thesis
    using settled_constraints [OF assms(1)] by (simp add: update_outbound_def Let_def)
qed

lemma andThen_frozen:
  assumes "tbl (snd (m d)) = tbl d" and "\<And>x s. tbl (snd (f x s)) = tbl s"
  shows "tbl (snd (andThen m f d)) = tbl d"
  using assms by (auto simp: andThen_def split: prod.splits sum.splits)

lemma exec_frozen: "snd (f (tbl d)) = tbl d \<Longrightarrow> tbl (snd (exec f d)) = tbl d"
  using exec_tbl [of f d] by simp

lemma Get_frozen: "tbl (snd (Outbound_Get pke bid l x s)) = tbl s"
  by (simp add: Outbound_Get_def raise_def)

lemma frozen_finish:
  assumes "\<And>a c. snd (finishOutboundStatusDelivery bid l x token a c (tbl d)) = tbl d"
  shows "tbl (snd (Outbound_FinishStatusDelivery pke bid l x token nt te d)) = tbl d"
  unfolding Outbound_FinishStatusDelivery_def
  by (auto simp: raise_def ret_def intro!: andThen_frozen exec_frozen assms Get_frozen split: option.splits)

lemma frozen_release:
  assumes "\<And>a. snd (releaseOutboundStatusDelivery bid l x token a (tbl d)) = tbl d"
  shows "tbl (snd (Outbound_ReleaseStatusDelivery bid l x token now d)) = tbl d"
  unfolding Outbound_ReleaseStatusDelivery_def
  by (auto simp: raise_def ret_def intro!: andThen_frozen exec_frozen assms)

text \<open>C12: the status claim is a lease. After a worker's \<open>ClaimStatusDelivery\<close> succeeded, and as
  long as its expiry (at the database's resolution) is ahead, no other claim of the send
  succeeds, with any token; the send is not handed out as due; and a worker with another
  token can neither finish nor release the delivery.\<close>

theorem status_claim_exclusive:
  assumes "store_inv pke (tbl d)"
    and "Outbound_ClaimStatusDelivery bid l x token ex now d = (Inr True, d')"
    and "unix_milli now' < unix_milli ex"
  shows "fst (Outbound_ClaimStatusDelivery bid l x token' ex' now' d') \<noteq> Inr True \<and>
    (\<forall>r \<in> set (outbound (tbl d')). at_key bid l x r \<longrightarrow> \<not> due_eligible bid l (unix_milli now') r) \<and>
    (token' \<noteq> token \<longrightarrow>
       tbl (snd (Outbound_FinishStatusDelivery pke bid l x token' nt te d')) = tbl d' \<and>
       tbl (snd (Outbound_ReleaseStatusDelivery bid l x token' now' d')) = tbl d')"
proof -
  from claim_InrTrue [OF assms(2)] obtain r where r: "r \<in> set (outbound (tbl d'))" "at_key bid l x r"
    "ob_status_claim_token r = token" "ob_status_claim_expires_ts r = unix_milli ex" and tok: "token \<noteq> []"
    by blast
  have inv': "store_inv pke (tbl d')" using simple_moves(7) assms(1,2) by (rule moves_store_inv)
  note none = update_none [OF inv' r(1,2)]
  have claim: "claimOutboundStatusDelivery bid l x token' e n (tbl d') = (Inr 0, tbl d')"
    if "n < unix_milli ex" for e n
    unfolding claimOutboundStatusDelivery_def by (rule none) (use that r tok in auto)
  have "fst (Outbound_ClaimStatusDelivery bid l x token' ex' now' d') \<noteq> Inr True"
  proof
    assume "fst (Outbound_ClaimStatusDelivery bid l x token' ex' now' d') = Inr True"
    then obtain k where "claimOutboundStatusDelivery bid l x token' (unix_milli ex') (unix_milli now') (tbl d') =
        (Inr k, tbl (snd (Outbound_ClaimStatusDelivery bid l x token' ex' now' d')))" "0 < k"
      by (cases "Outbound_ClaimStatusDelivery bid l x token' ex' now' d'")
         (auto simp: Outbound_ClaimStatusDelivery_def raise_def ret_def rowWasChanged_def
          dest!: andThen_InrD exec_Inr split: if_splits)
    with claim [OF assms(3)] show False by simp
  qed
  moreover have "\<not> due_eligible bid l (unix_milli now') q"
    if "q \<in> set (outbound (tbl d'))" "at_key bid l x q" for q
  proof -
    have "q = r"
      using constraintsD(2) [OF settled_constraints [OF inv'] that(1) r(1)] that(2) r(2)
      by (simp add: at_key_iff)
    then show ?thesis using r tok assms(3) by (simp add: due_eligible_def)
  qed
  moreover have "tbl (snd (Outbound_FinishStatusDelivery pke bid l x token' nt te d')) = tbl d' \<and>
       tbl (snd (Outbound_ReleaseStatusDelivery bid l x token' now' d')) = tbl d'" if ne: "token' \<noteq> token"
  proof -
    have f: "snd (finishOutboundStatusDelivery bid l x token' a c (tbl d')) = tbl d'" for a c
      unfolding finishOutboundStatusDelivery_def by (subst none) (use ne r in auto)
    have g: "snd (releaseOutboundStatusDelivery bid l x token' a (tbl d')) = tbl d'" for a
      unfolding releaseOutboundStatusDelivery_def by (subst none) (use ne r in auto)
    show ?thesis
      using frozen_finish [OF f] frozen_release [OF g] by simp
  qed
  ultimately show ?thesis by blast
qed

definition sample_claim :: "(store_error, 'z db_scheme, bool) oper" where
  "sample_claim = Outbound_ClaimStatusDelivery ''b'' ''u'' ''t'' ''w'' 90000000 25000000"

lemma status_claim_exclusive_witness:
  "\<exists>d'. sample_claim (sample_db [failed_row] [receipt_of failed_row]) = (Inr True, d') \<and>
     fst (Outbound_ClaimStatusDelivery ''b'' ''u'' ''t'' ''v'' 99000000 50000000 d') \<noteq> Inr True \<and>
     tbl (snd (Outbound_FinishStatusDelivery empty_key ''b'' ''u'' ''t'' ''v'' 50000000 99000000 d')) = tbl d'"
proof -
  have "\<exists>d'. sample_claim (sample_db [failed_row] [receipt_of failed_row]) = (Inr True, d')"
    by (simp add: sample_claim_def Outbound_ClaimStatusDelivery_def claimOutboundStatusDelivery_def
        eval_store failed_row_def sample_row_def)
  then obtain d' where run: "sample_claim (sample_db [failed_row] [receipt_of failed_row]) = (Inr True, d')"
    by blast
  have inv: "store_inv empty_key (tbl (sample_db [failed_row] [receipt_of failed_row]))"
    using failed_inv by simp
  have "unix_milli 50000000 < unix_milli 90000000" by (simp add: unix_milli_def)
  from status_claim_exclusive [OF inv run [unfolded sample_claim_def] this, of "''v''" 99000000 50000000 99000000]
  show ?thesis using run by auto
qed

section \<open>Claiming a remote message\<close>

text \<open>C13: a remote message belongs to one send. When \<open>ClaimRemoteMessage\<close> returns true, the
  send is resolved to exactly that message in exactly that conversation, no other send of
  the login holds it there, and unless the send held it before, no bridged message of the
  portal's receiver carries its identifier.\<close>

theorem remote_claim_unique:
  assumes "store_inv pke (tbl d)"
    and "Outbound_ClaimRemoteMessage bid l x conv remote nx now d = (Inr True, d')"
  shows "\<exists>r \<in> set (outbound (tbl d')). at_key bid l x r \<and> ob_state r = Resolved \<and>
           ob_remote_message_id r = remote \<and> ob_conversation_id r = conv \<and>
           (\<forall>q \<in> set (outbound (tbl d')). ob_bridge_id q = bid \<and> ob_user_login_id q = l \<and>
              ob_conversation_id q = conv \<and> ob_remote_message_id q = remote \<longrightarrow> q = r) \<and>
           ((\<exists>q \<in> set (outbound (tbl d)). at_key bid l x q \<and> ob_remote_message_id q = remote) \<or>
            (\<forall>m \<in> set (messages (tbl d)). ms_bridge_id m = bid \<and> ms_id m = remote \<longrightarrow>
               pk_receiver (ms_room m) \<notin> {ob_portal_receiver r, []}))"
proof -
  from assms(2) obtain n where
    stm: "claimOutboundRemoteMessage bid l x remote conv (unix_milli nx) (unix_milli now) (tbl d) = (Inr n, tbl d')"
    and n: "0 < n" and nb: "\<not> blank remote"
    by (auto simp: Outbound_ClaimRemoteMessage_def raise_def ret_def rowWasChanged_def
        dest!: andThen_InrD exec_Inr split: if_splits option.splits)
  have inv': "store_inv pke (tbl d')" using simple_moves(6) assms(1,2) by (rule moves_store_inv)
  note upd = stm [unfolded claimOutboundRemoteMessage_def]
  let ?f = "\<lambda>r. r\<lparr>ob_remote_message_id := remote, ob_state := Resolved,
              ob_next_attempt_ts := unix_milli nx, ob_updated_ts := unix_milli now\<rparr>"
  from update_changed_row [OF upd n] obtain r where r: "r \<in> set (outbound (tbl d))" "at_key bid l x r"
    "ob_conversation_id r = conv" "?f r \<in> set (outbound (tbl d'))"
    and old: "\<not> remote_taken (tbl d) bid l remote r \<or> ob_remote_message_id r = remote" by blast
  have "q = ?f r" if q: "q \<in> set (outbound (tbl d'))" "ob_bridge_id q = bid" "ob_user_login_id q = l"
    "ob_conversation_id q = conv" "ob_remote_message_id q = remote" for q
  proof -
    have "distinct (map ob_remote_key (filter (\<lambda>r. ob_remote_message_id r \<noteq> []) (outbound (tbl d'))))"
      using settled_constraints [OF inv'] by (simp add: outbound_constraints_def)
    moreover have "ob_remote_key q = ob_remote_key (?f r)"
      using q r by (simp add: ob_remote_key_def at_key_def)
    moreover have "ob_remote_message_id q \<noteq> []" using q nb not_blank_nonempty by blast
    moreover have "ob_remote_message_id (?f r) \<noteq> []" using nb not_blank_nonempty by simp
    ultimately show ?thesis using q(1) r(4)
      by (intro distinct_map_inj [of ob_remote_key "filter (\<lambda>r. ob_remote_message_id r \<noteq> []) (outbound (tbl d'))" q "?f r"]) simp_all
  qed
  moreover have "(\<exists>q \<in> set (outbound (tbl d)). at_key bid l x q \<and> ob_remote_message_id q = remote) \<or>
      (\<forall>m \<in> set (messages (tbl d)). ms_bridge_id m = bid \<and> ms_id m = remote \<longrightarrow>
         pk_receiver (ms_room m) \<notin> {ob_portal_receiver (?f r), []})"
    using old r(1,2) by (auto simp: remote_taken_def list_ex_iff)
  moreover have "at_key bid l x (?f r)" "ob_state (?f r) = Resolved" "ob_remote_message_id (?f r) = remote"
    "ob_conversation_id (?f r) = conv"
    using r by (simp_all add: at_key_def)
  ultimately show ?thesis using r(4) by (intro bexI [of _ "?f r"] conjI ballI impI) blast+
qed

definition waiting_row :: outbound_row where
  "waiting_row = sample_row\<lparr>ob_state := AwaitingEcho\<rparr>"

lemma waiting_inv: "store_inv empty_key (sample_tables [waiting_row] [])"
proof -
  have "sound_row empty_key waiting_row" using sample_row_sound by (simp add: waiting_row_def row_simps)
  moreover have "settled_row (sample_tables [waiting_row] []) waiting_row"
    by (simp add: settled_row_def event_receipted_def waiting_row_def sample_row_def)
  moreover have "outbound_constraints [(''b'', ''u'')] [waiting_row]"
    by (simp add: eval_store waiting_row_def sample_row_def)
  ultimately show ?thesis by (simp add: settled_def receipts_distinct_def)
qed

lemma remote_claim_unique_witness:
  "\<exists>d' r. Outbound_ClaimRemoteMessage ''b'' ''u'' ''t'' ''c'' ''g'' 30000000 25000000
       (sample_db [waiting_row] []) = (Inr True, d') \<and>
     r \<in> set (outbound (tbl d')) \<and> ob_state r = Resolved \<and> ob_remote_message_id r = ''g''"
proof -
  have "\<exists>d'. Outbound_ClaimRemoteMessage ''b'' ''u'' ''t'' ''c'' ''g'' 30000000 25000000
       (sample_db [waiting_row] []) = (Inr True, d')"
    by (simp add: Outbound_ClaimRemoteMessage_def claimOutboundRemoteMessage_def submitted_def
        remote_taken_def eval_store waiting_row_def sample_row_def)
  then obtain d' where run: "Outbound_ClaimRemoteMessage ''b'' ''u'' ''t'' ''c'' ''g'' 30000000 25000000
       (sample_db [waiting_row] []) = (Inr True, d')" by blast
  have "store_inv empty_key (tbl (sample_db [waiting_row] []))" using waiting_inv by simp
  from remote_claim_unique [OF this run] run show ?thesis by blast
qed

section \<open>The next due send\<close>



section \<open>A gap below the database's resolution\<close>

text \<open>C15: a failure to finish. \<open>markNotSubmitted\<close> accepts every next attempt after the terminal
  time, at nanoseconds, while the schema asks for it at milliseconds. When the two fall
  into the same millisecond, the method passes its own check and is then refused by the
  database with a constraint violation, leaving the send as it was, although the send was
  in the state the method is for. (\<open>MarkUnconfirmed\<close> compares milliseconds.)\<close>

theorem same_millisecond_refused:
  assumes "store_inv pke (tbl d)" and "healthy d"
    and "\<not> is_zero trm" and "trm < nx" and "unix_milli trm = unix_milli nx" and "0 < unix_milli trm"
    and "r \<in> set (outbound (tbl d))" and "at_key bid l x r" and "ob_state r = Prepared"
  shows "fst (Outbound_ClaimPreparedNotSubmitted bid l x trm nx d) = Inl ErrConstraint \<and>
         tbl (snd (Outbound_ClaimPreparedNotSubmitted bid l x trm nx d)) = tbl d"
proof -
  let ?f = "\<lambda>r. r\<lparr>ob_state := NotSubmitted, ob_terminal_ts := unix_milli trm,
              ob_next_attempt_ts := unix_milli nx, ob_updated_ts := unix_milli trm\<rparr>"
  note chk = constraintsD(1) [OF settled_constraints [OF assms(1)] assms(7)]
  have "ob_terminal_ts r = 0"
    using settled_rows [OF assms(1,7)] assms(9) check_terminal_ts [OF chk] by (auto simp: settled_row_def)
  moreover have "ob_status_notified_ts r = 0" "ob_remote_message_id r = []"
    using check_finished [OF chk] check_identity [OF chk] assms(9) by auto
  moreover have "\<not> outbound_row_checks (?f r)"
  proof
    assume "outbound_row_checks (?f r)"
    from check_terminal [OF this] assms(5,6) show False by simp
  qed
  ultimately have "markPreparedOutboundNotSubmitted bid l x (unix_milli trm) (unix_milli nx) (tbl d) =
      (Inl ErrConstraint, tbl d)"
    using assms(7-9)
    by (auto simp: markPreparedOutboundNotSubmitted_def update_outbound_def Let_def
        outbound_constraints_def list_all_iff set_update_where)
  then show ?thesis
    using assms(2-4)
    by (simp add: Outbound_ClaimPreparedNotSubmitted_def markNotSubmitted_def withTerminalReceipt_def
        doTxn_def andThen_def exec_healthy)
qed

lemma same_millisecond_refused_witness:
  "fst (Outbound_ClaimPreparedNotSubmitted ''b'' ''u'' ''t'' 20000001 20000002 (sample_db [sample_row] [])) =
     Inl ErrConstraint"
  using same_millisecond_refused [of empty_key "sample_db [sample_row] []" 20000001 20000002 sample_row "''b''" "''u''" "''t''"]
    sample_inv
  by (simp add: is_zero_def zero_time_def unix_milli_def at_key_def sample_row_def)

end
