(* ===== verification/OutboundProperties.thy ===== *)
theory OutboundProperties
  imports OutboundDelivery
begin

text \<open>
  The safety properties of the durable outbound store over all interleavings: at most one
  submission and one notification per Matrix event, refinement of the step relation by
  every method, readability of every stored row, and the state machine of a send.
\<close>

section \<open>No event is submitted or reported twice\<close>

text \<open>C1: at most one submission per Matrix event. Whatever sequence of calls of the store's
  methods the program makes, with whatever arguments, and whichever statements the database
  fails in between, \<open>MarkSubmitting\<close> returns true at most once for one Matrix event, so the
  request that follows it is sent to the remote service at most once. Deleting and
  re-creating rows does not help: the receipt of a final send is permanent.\<close>

theorem submitted_at_most_once:
  assumes "store_inv pke (tbl d)" and "perform_all pke bid cs d = (log, d')"
  shows "count_list log (Submitted bid e) \<le> 1"
proof -
  from perform_all_covered [OF assms] obtain ls where
    run: "runs (outbound_step pke) (tbl d) ls (tbl d')"
    and le: "count_list log (Submitted bid e) \<le> count_list (logged ls) (Submitted bid e)"
    by (auto simp: covered_def)
  show ?thesis
    using le send_once.at_most_once [OF run assms(1), of "Submitted bid e"] by (simp add: count_logged)
qed

lemma submitted_at_most_once_witness:
  "count_list (fst (perform_all empty_key ''b'' [sample_submit, sample_submit]
     (sample_db [sample_row] []))) (Submitted ''b'' ''e'') = 1"
proof -
  have inv: "store_inv empty_key (tbl (sample_db [sample_row] []))" using sample_inv by simp
  obtain log d' where run: "perform_all empty_key ''b'' [sample_submit, sample_submit]
     (sample_db [sample_row] []) = (log, d')" by (meson surj_pair)
  have "count_list log (Submitted ''b'' ''e'') \<le> 1" using submitted_at_most_once [OF inv run] .
  moreover have "log = [Submitted ''b'' ''e'']" using sample_submits run by simp
  ultimately show ?thesis using run by simp
qed



section \<open>Every method refines the step relation\<close>

text \<open>C3: the step relation is an abstract specification of the store and every method
  implements it: for every argument, every state of the database and every pattern of
  failing statements and commits, the tables after the call are reached from the tables
  before it by steps of the relation.\<close>

theorem methods_refine_steps:
  "moves (on_tables (outbound_move pke)) (Outbound_LoadOrCreate pke bid s now) \<and>
   moves (on_tables (outbound_move pke)) (Outbound_PrepareConversationBinding pke bid l x conv nx now) \<and>
   moves (on_tables (outbound_move pke)) (Outbound_BindConversation pke bid l x conv key nx now) \<and>
   moves (on_tables (outbound_move pke)) (Outbound_MarkSubmitting bid l x ids st nx now) \<and>
   moves (on_tables (outbound_move pke)) (Outbound_ClaimPreparedNotSubmitted bid l x trm nx) \<and>
   moves (on_tables (outbound_move pke)) (Outbound_MarkSubmittingNotSubmitted bid l x trm nx) \<and>
   moves (on_tables (outbound_move pke)) (Outbound_MarkAwaitingEcho bid l x nx now) \<and>
   moves (on_tables (outbound_move pke)) (Outbound_MarkUncertain bid l x nx now) \<and>
   moves (on_tables (outbound_move pke)) (Outbound_MarkUnconfirmed bid l x trm nx) \<and>
   moves (on_tables (outbound_move pke)) (Outbound_MarkResolvedUnconfirmed bid l x remote trm nx) \<and>
   moves (on_tables (outbound_move pke)) (Outbound_MarkCompleted pke bid l x remote trm) \<and>
   moves (on_tables (outbound_move pke)) (Outbound_TerminalizeConversation bid l conv trm nx) \<and>
   moves (on_tables (outbound_move pke)) (Outbound_ScheduleRetry bid l x nx now) \<and>
   moves (on_tables (outbound_move pke)) (Outbound_ClaimRemoteMessage bid l x conv remote nx now) \<and>
   moves (on_tables (outbound_move pke)) (Outbound_ClaimStatusDelivery bid l x token ex now) \<and>
   moves (on_tables (outbound_move pke)) (Outbound_FinishStatusDelivery pke bid l x token trm ex) \<and>
   moves (on_tables (outbound_move pke)) (Outbound_ReleaseStatusDelivery bid l x token now) \<and>
   moves (on_tables (outbound_move pke)) (Outbound_DeletePrepared bid l x) \<and>
   moves (on_tables (outbound_move pke)) (Outbound_DeleteNotSubmitted bid l x) \<and>
   moves (on_tables (outbound_move pke)) (Outbound_DeleteUnconfirmed bid l x)"
  by (intro conjI LoadOrCreate_moves markNotSubmitted_moves MarkUnconfirmed_moves
      MarkCompleted_moves Terminalize_moves MarkSubmitting_moves simple_moves)

section \<open>Stored rows stay readable and follow the state machine\<close>

text \<open>What each column says about the struct it is decoded to. Times are stored in milliseconds; the
  zero time is a value that is not positive.\<close>

definition time_of_column :: "int \<Rightarrow> gotime \<Rightarrow> bool" where
  "time_of_column ms t \<longleftrightarrow> (if ms \<le> 0 then is_zero t else t = ms * 1000000)"

definition decodes_to :: "outbound_row \<Rightarrow> outbound_send \<Rightarrow> bool" where
  "decodes_to r s \<longleftrightarrow>
     BridgeID s = ob_bridge_id r \<and> UserLoginID s = ob_user_login_id r \<and> TransactionID s = ob_transaction_id r \<and>
     pk_id (PortalKey s) = ob_portal_id r \<and> pk_receiver (PortalKey s) = ob_portal_receiver r \<and>
     ConversationID s = ob_conversation_id r \<and> BindingConversationID s = ob_binding_conversation_id r \<and>
     MatrixRoomID s = ob_matrix_room_id r \<and> MatrixEventID s = ob_matrix_event_id r \<and>
     MatrixSenderID s = ob_matrix_sender_id r \<and> SenderID s = ob_sender_id r \<and>
     InputTransactionID s = ob_input_transaction_id r \<and> MessageType s = ob_message_type r \<and>
     hex_decode (ob_content_hash r) = Some (ContentHash s) \<and> length (ContentHash s) = 32 \<and>
     SourceMediaDigest s = ob_source_media_digest r \<and>
     decoded_baseline (ob_baseline_ids_json r) = Some (BaselineMessageIDs s) \<and>
     RemoteMessageID s = ob_remote_message_id r \<and> SendState s = ob_state r \<and>
     StatusClaimToken s = ob_status_claim_token r \<and> AttemptCount s = ob_attempt_count r \<and>
     time_of_column (ob_terminal_ts r) (TerminalAt s) \<and>
     time_of_column (ob_status_notified_ts r) (StatusNotifiedAt s) \<and>
     time_of_column (ob_status_claim_expires_ts r) (StatusClaimExpiresAt s) \<and>
     time_of_column (ob_next_attempt_ts r) (NextAttemptAt s) \<and>
     time_of_column (ob_send_started_ts r) (SendStartedAt s) \<and>
     time_of_column (ob_created_ts r) (CreatedAt s) \<and> time_of_column (ob_updated_ts r) (UpdatedAt s)"

lemma scan_struct:
  "scan pke r = Inr s \<Longrightarrow> \<exists>h ids. hex_decode (ob_content_hash r) = Some h \<and> length h = 32 \<and>
     decoded_baseline (ob_baseline_ids_json r) = Some ids \<and> s = send_of_row r h ids"
  unfolding scan_def Let_def by (auto split: option.split_asm if_split_asm)

lemma scanned_decodes:
  assumes "scan pke r = Inr s"
  shows "decodes_to r s"
  using scan_struct [OF assms]
  by (elim exE conjE) (simp add: decodes_to_def time_of_column_def send_of_row_def timeFromMillis_def is_zero_def)

text \<open>C4: no operation writes a row the decoder rejects or misreads. In every state reachable from a
  consistent store, \<open>Scan\<close> accepts every outbound row, and every field of the struct it returns is the
  one of its own column, so the worker never stops on a corrupt row of its own making. The schema alone
  does not give this: it admits final states without a terminal timestamp.\<close>

theorem reachable_rows_scan:
  assumes "store_inv pke t" and "runs (outbound_step pke) t ls t'" and "r \<in> set (outbound t')"
  shows "\<exists>s. scan pke r = Inr s \<and> decodes_to r s"
  using scan_readable settled_readable [OF send_once.inv_runs [OF assms(2,1)] assms(3)] scanned_decodes by blast

lemma reachable_rows_scan_witness:
  "\<exists>s. scan empty_key sample_row = Inr s \<and> decodes_to sample_row s"
  using reachable_rows_scan [OF sample_inv runs_Nil, of sample_row] by simp

text \<open>C5: the state machine of a send. In one step a row keeps its identity and its
  fingerprints, moves along \<open>next_states\<close> (no final state is ever left, a submitted send
  never returns to prepared), never changes a conversation binding, a terminal timestamp
  or a notification once set, loses a claimed remote ID only by becoming unconfirmed; and
  a row disappears only while prepared, or with its permanent receipt left behind.\<close>

theorem rows_follow_state_machine:
  assumes "store_inv pke t" and "outbound_step pke t e t'"
  shows "rows_evolve t t'"
  using step_evolves [OF assms(2,1)] .

lemma rows_follow_state_machine_witness:
  "rows_evolve (sample_tables [sample_row] [])
     (snd (deletePreparedOutboundSend ''b'' ''u'' ''t'' (sample_tables [sample_row] []))) \<and>
   outbound (snd (deletePreparedOutboundSend ''b'' ''u'' ''t'' (sample_tables [sample_row] []))) = []"
  using rows_follow_state_machine [OF sample_inv outbound_step.delete_prepared [of empty_key _ "''b''" "''u''" "''t''"]]
  by (simp add: deletePreparedOutboundSend_def eval_store sample_row_def)

end
