(* ===== verification/JobStore.thy ===== *)
theory JobStore
  imports Database
begin

text \<open>
  The durable inbound queue (pkg/connector/tumblrdb/job.go), the scan watermark
  (syncstate.go) and the completed conversation heads (conversation_sync.go): rows,
  query constants, methods and their laws.

  A conversation job is a revisioned cell. Every new piece of evidence about a conversation
  bumps the revision, and a worker acknowledges, reschedules or annotates the job it loaded
  only under the revision it loaded. Two due jobs with the same due time and update time
  are ordered by insertion here; SQL leaves that order open, and no theorem depends on it.
  The revision is a mathematical integer: the database's 64 bits are not exhausted by
  increments of one.
\<close>

section \<open>Data\<close>

record conversation_job =
  jBridgeID :: string
  jUserLoginID :: string
  jConversationID :: string
  jRevision :: int
  jAttemptCount :: int
  jNextAttemptAt :: gotime
  jLastErrorCode :: string
  jDeleteRoomID :: string
  jCreatedAt :: gotime
  jUpdatedAt :: gotime

definition job_scan :: "job_row \<Rightarrow> conversation_job" where
  "job_scan r =
     \<lparr>jBridgeID = jb_bridge_id r, jUserLoginID = jb_user_login_id r,
      jConversationID = jb_conversation_id r, jRevision = jb_revision r,
      jAttemptCount = jb_attempt_count r, jNextAttemptAt = timeFromMillis (jb_next_attempt_ts r),
      jLastErrorCode = jb_last_error_code r, jDeleteRoomID = jb_delete_room_id r,
      jCreatedAt = timeFromMillis (jb_created_ts r), jUpdatedAt = timeFromMillis (jb_updated_ts r)\<rparr>"

definition job_error_codes :: "string list" where
  "job_error_codes =
     [''unknown'', ''auth'', ''network'', ''rate_limited'', ''remote'', ''invalid_response'', ''queue'', ''database'']"

definition normalizeJobErrorCode :: "string \<Rightarrow> string" where
  "normalizeJobErrorCode code = (if code = [] \<or> code \<in> set job_error_codes then code else ''unknown'')"

section \<open>Statements on the job table\<close>

definition job_at :: "string \<Rightarrow> string \<Rightarrow> string \<Rightarrow> job_row \<Rightarrow> bool" where
  "job_at b l c r \<longleftrightarrow> jb_bridge_id r = b \<and> jb_user_login_id r = l \<and> jb_conversation_id r = c"

definition fresh_job :: "string \<Rightarrow> string \<Rightarrow> string \<Rightarrow> millis \<Rightarrow> string \<Rightarrow> millis \<Rightarrow> job_row" where
  "fresh_job b l c next room now =
     \<lparr>jb_bridge_id = b, jb_user_login_id = l, jb_conversation_id = c, jb_revision = 1,
      jb_attempt_count = 0, jb_next_attempt_ts = next, jb_last_error_code = [],
      jb_delete_room_id = room, jb_created_ts = now, jb_updated_ts = now\<rparr>"

text \<open>\<open>INSERT ... ON CONFLICT (key) DO UPDATE SET f\<close>, with the foreign key checked on a
  genuine insertion.\<close>

definition upsert_job :: "job_row \<Rightarrow> (job_row \<Rightarrow> job_row) \<Rightarrow> unit stmt" where
  "upsert_job new f t =
     (let at = job_at (jb_bridge_id new) (jb_user_login_id new) (jb_conversation_id new) in
      if list_ex at (jobs t) then (Inr (), t\<lparr>jobs := update_where at f (jobs t)\<rparr>)
      else if (jb_bridge_id new, jb_user_login_id new) \<notin> set (logins t) then (Inl ErrConstraint, t)
      else (Inr (), t\<lparr>jobs := jobs t @ [new]\<rparr>))"

definition update_job :: "(job_row \<Rightarrow> bool) \<Rightarrow> (job_row \<Rightarrow> job_row) \<Rightarrow> nat stmt" where
  "update_job p f t = (Inr (length (filter p (jobs t))), t\<lparr>jobs := update_where p f (jobs t)\<rparr>)"

definition delete_job :: "(job_row \<Rightarrow> bool) \<Rightarrow> nat stmt" where
  "delete_job p t = (Inr (length (filter p (jobs t))), t\<lparr>jobs := filter (\<lambda>r. \<not> p r) (jobs t)\<rparr>)"

definition ensureConversationJob :: "string \<Rightarrow> string \<Rightarrow> string \<Rightarrow> millis \<Rightarrow> unit stmt" where
  "ensureConversationJob b l c now = upsert_job (fresh_job b l c 0 [] now) (\<lambda>r. r)"

definition getConversationJob :: "string \<Rightarrow> string \<Rightarrow> string \<Rightarrow> tables \<Rightarrow> job_row option" where
  "getConversationJob b l c t = find (job_at b l c) (jobs t)"

definition bumped :: "millis \<Rightarrow> millis \<Rightarrow> job_row \<Rightarrow> job_row" where
  "bumped next now r =
     r\<lparr>jb_revision := jb_revision r + 1, jb_attempt_count := 0, jb_next_attempt_ts := next,
       jb_last_error_code := [], jb_updated_ts := now\<rparr>"

definition putConversationJob :: "string \<Rightarrow> string \<Rightarrow> string \<Rightarrow> millis \<Rightarrow> (int \<times> millis) stmt" where
  "putConversationJob b l c now t =
     (case upsert_job (fresh_job b l c 0 [] now) (bumped 0 now) t of
        (Inl e, t') \<Rightarrow> (Inl e, t')
      | (Inr _, t') \<Rightarrow>
          (case getConversationJob b l c t' of
             None \<Rightarrow> (Inl ErrDatabase, t)
           | Some r \<Rightarrow> (Inr (jb_revision r, jb_created_ts r), t')))"

definition putLiveConversationJob :: "string \<Rightarrow> string \<Rightarrow> string \<Rightarrow> millis \<Rightarrow> unit stmt" where
  "putLiveConversationJob b l c now =
     upsert_job (fresh_job b l c 0 [] now) (\<lambda>r. (bumped 0 now r)\<lparr>jb_delete_room_id := []\<rparr>)"

definition job_due :: "string \<Rightarrow> string \<Rightarrow> millis \<Rightarrow> job_row \<Rightarrow> bool" where
  "job_due b l now r \<longleftrightarrow> jb_bridge_id r = b \<and> jb_user_login_id r = l \<and> jb_next_attempt_ts r \<le> now"

definition job_order :: "job_row \<Rightarrow> int \<times> int" where
  "job_order r = (jb_next_attempt_ts r, jb_updated_ts r)"

definition getNextDueConversationJob :: "string \<Rightarrow> string \<Rightarrow> millis \<Rightarrow> tables \<Rightarrow> job_row option" where
  "getNextDueConversationJob b l now t = min_row job_order (filter (job_due b l now) (jobs t))"

definition setConversationJobDeleteRoom ::
  "string \<Rightarrow> string \<Rightarrow> string \<Rightarrow> int \<Rightarrow> string \<Rightarrow> millis \<Rightarrow> nat stmt" where
  "setConversationJobDeleteRoom b l c rv room now =
     update_job (\<lambda>r. job_at b l c r \<and> jb_revision r = rv)
       (\<lambda>r. r\<lparr>jb_delete_room_id := room, jb_updated_ts := now\<rparr>)"

definition scheduleConversationJobDeleteRoom ::
  "string \<Rightarrow> string \<Rightarrow> string \<Rightarrow> millis \<Rightarrow> string \<Rightarrow> millis \<Rightarrow> unit stmt" where
  "scheduleConversationJobDeleteRoom b l c next room now =
     upsert_job (fresh_job b l c next room now) (\<lambda>r. (bumped next now r)\<lparr>jb_delete_room_id := room\<rparr>)"

definition markConversationJobRetry ::
  "string \<Rightarrow> string \<Rightarrow> string \<Rightarrow> int \<Rightarrow> millis \<Rightarrow> string \<Rightarrow> millis \<Rightarrow> nat stmt" where
  "markConversationJobRetry b l c rv next code now =
     update_job (\<lambda>r. job_at b l c r \<and> jb_revision r = rv)
       (\<lambda>r. r\<lparr>jb_revision := jb_revision r + 1, jb_attempt_count := jb_attempt_count r + 1,
              jb_next_attempt_ts := next, jb_last_error_code := code, jb_updated_ts := now\<rparr>)"

definition deleteConversationJob :: "string \<Rightarrow> string \<Rightarrow> string \<Rightarrow> int \<Rightarrow> nat stmt" where
  "deleteConversationJob b l c rv = delete_job (\<lambda>r. job_at b l c r \<and> jb_revision r = rv)"

definition deleteAllConversationJobs :: "string \<Rightarrow> string \<Rightarrow> nat stmt" where
  "deleteAllConversationJobs b l = delete_job (\<lambda>r. jb_bridge_id r = b \<and> jb_user_login_id r = l)"

definition countConversationJobs :: "string \<Rightarrow> string \<Rightarrow> tables \<Rightarrow> nat" where
  "countConversationJobs b l t = length (filter (\<lambda>r. jb_bridge_id r = b \<and> jb_user_login_id r = l) (jobs t))"

section \<open>Methods of \<open>ConversationJobQuery\<close>\<close>

definition Jobs_Ensure :: "string \<Rightarrow> string \<Rightarrow> string \<Rightarrow> gotime \<Rightarrow> (store_error, 'z db_scheme, unit) oper" where
  "Jobs_Ensure bid l c now = exec (ensureConversationJob bid l c (unix_milli now))"

definition Jobs_Put ::
  "string \<Rightarrow> string \<Rightarrow> string \<Rightarrow> gotime \<Rightarrow> (store_error, 'z db_scheme, int \<times> gotime) oper" where
  "Jobs_Put bid l c now =
     andThen (exec (putConversationJob bid l c (unix_milli now)))
       (\<lambda>(rv, created). ret (rv, timeFromMillis created))"

definition Jobs_PutLiveConversation ::
  "string \<Rightarrow> string \<Rightarrow> string \<Rightarrow> gotime \<Rightarrow> (store_error, 'z db_scheme, unit) oper" where
  "Jobs_PutLiveConversation bid l c now = exec (putLiveConversationJob bid l c (unix_milli now))"

definition Jobs_GetNextDue ::
  "string \<Rightarrow> string \<Rightarrow> gotime \<Rightarrow> (store_error, 'z db_scheme, conversation_job option) oper" where
  "Jobs_GetNextDue bid l now =
     query (\<lambda>t. Inr (map_option job_scan (getNextDueConversationJob bid l (unix_milli now) t)))"

definition Jobs_Get ::
  "string \<Rightarrow> string \<Rightarrow> string \<Rightarrow> (store_error, 'z db_scheme, conversation_job option) oper" where
  "Jobs_Get bid l c = query (\<lambda>t. Inr (map_option job_scan (getConversationJob bid l c t)))"

definition Jobs_SetDeleteRoom ::
  "string \<Rightarrow> string \<Rightarrow> string \<Rightarrow> int \<Rightarrow> string \<Rightarrow> gotime \<Rightarrow> (store_error, 'z db_scheme, bool) oper" where
  "Jobs_SetDeleteRoom bid l c rv room now =
     (if room = [] then ret False
      else andThen (exec (setConversationJobDeleteRoom bid l c rv room (unix_milli now)))
             (\<lambda>n. ret (rowWasChanged n)))"

definition Jobs_ScheduleDeleteRoom ::
  "string \<Rightarrow> string \<Rightarrow> string \<Rightarrow> string \<Rightarrow> gotime \<Rightarrow> gotime \<Rightarrow> (store_error, 'z db_scheme, unit) oper" where
  "Jobs_ScheduleDeleteRoom bid l c room notBefore now =
     (if room = [] then ret ()
      else exec (scheduleConversationJobDeleteRoom bid l c
             (unix_milli (if notBefore < now then now else notBefore)) room (unix_milli now)))"

definition Jobs_MarkRetry ::
  "string \<Rightarrow> string \<Rightarrow> string \<Rightarrow> int \<Rightarrow> gotime \<Rightarrow> string \<Rightarrow> gotime \<Rightarrow> (store_error, 'z db_scheme, bool) oper" where
  "Jobs_MarkRetry bid l c rv nextAttemptAt code now =
     andThen (exec (markConversationJobRetry bid l c rv (unix_milli nextAttemptAt)
                      (normalizeJobErrorCode code) (unix_milli now)))
       (\<lambda>n. ret (rowWasChanged n))"

definition Jobs_Delete ::
  "string \<Rightarrow> string \<Rightarrow> string \<Rightarrow> int \<Rightarrow> (store_error, 'z db_scheme, bool) oper" where
  "Jobs_Delete bid l c rv =
     andThen (exec (deleteConversationJob bid l c rv)) (\<lambda>n. ret (rowWasChanged n))"

definition Jobs_DeleteAll :: "string \<Rightarrow> string \<Rightarrow> (store_error, 'z db_scheme, unit) oper" where
  "Jobs_DeleteAll bid l = andThen (exec (deleteAllConversationJobs bid l)) (\<lambda>_. ret ())"

definition Jobs_Count :: "string \<Rightarrow> string \<Rightarrow> (store_error, 'z db_scheme, nat) oper" where
  "Jobs_Count bid l = query (\<lambda>t. Inr (countConversationJobs bid l t))"

section \<open>Scan state\<close>

record sync_state =
  sBridgeID :: string
  sUserLoginID :: string
  sLastRemoteWatermark :: int
  sLastScanSuccessAt :: gotime

definition sync_state_scan :: "sync_state_row \<Rightarrow> sync_state" where
  "sync_state_scan r =
     \<lparr>sBridgeID = ss_bridge_id r, sUserLoginID = ss_user_login_id r,
      sLastRemoteWatermark = ss_last_remote_watermark_ts r,
      sLastScanSuccessAt = timeFromMillis (ss_last_scan_success_ts r)\<rparr>"

definition sync_state_at :: "string \<Rightarrow> string \<Rightarrow> sync_state_row \<Rightarrow> bool" where
  "sync_state_at b l r \<longleftrightarrow> ss_bridge_id r = b \<and> ss_user_login_id r = l"

definition getSyncState :: "string \<Rightarrow> string \<Rightarrow> tables \<Rightarrow> sync_state_row option" where
  "getSyncState b l t = find (sync_state_at b l) (sync_states t)"

definition setScanSuccess :: "string \<Rightarrow> string \<Rightarrow> int \<Rightarrow> millis \<Rightarrow> unit stmt" where
  "setScanSuccess b l watermark at t =
     (if list_ex (sync_state_at b l) (sync_states t)
      then (Inr (), t\<lparr>sync_states := update_where (sync_state_at b l)
             (\<lambda>r. r\<lparr>ss_last_remote_watermark_ts :=
                      (if ss_last_remote_watermark_ts r < watermark then watermark
                       else ss_last_remote_watermark_ts r),
                    ss_last_scan_success_ts := at\<rparr>) (sync_states t)\<rparr>)
      else if (b, l) \<notin> set (logins t) then (Inl ErrConstraint, t)
      else (Inr (), t\<lparr>sync_states := sync_states t @
             [\<lparr>ss_bridge_id = b, ss_user_login_id = l, ss_last_remote_watermark_ts = watermark,
               ss_last_scan_success_ts = at\<rparr>]\<rparr>))"

definition SyncState_Get :: "string \<Rightarrow> string \<Rightarrow> (store_error, 'z db_scheme, sync_state option) oper" where
  "SyncState_Get bid l = query (\<lambda>t. Inr (map_option sync_state_scan (getSyncState bid l t)))"

definition SyncState_SetScanSuccess ::
  "string \<Rightarrow> string \<Rightarrow> int \<Rightarrow> gotime \<Rightarrow> (store_error, 'z db_scheme, unit) oper" where
  "SyncState_SetScanSuccess bid l watermark at = exec (setScanSuccess bid l watermark (unix_milli at))"

section \<open>Completed conversation heads\<close>

record conversation_sync =
  cBridgeID :: string
  cUserLoginID :: string
  cConversationID :: string
  cCompletedHeadMessageID :: string
  cUpdatedAt :: gotime

definition conversation_sync_scan :: "conversation_sync_row \<Rightarrow> conversation_sync" where
  "conversation_sync_scan r =
     \<lparr>cBridgeID = cs_bridge_id r, cUserLoginID = cs_user_login_id r,
      cConversationID = cs_conversation_id r, cCompletedHeadMessageID = cs_completed_head_message_id r,
      cUpdatedAt = timeFromMillis (cs_updated_ts r)\<rparr>"

definition conversation_sync_at :: "string \<Rightarrow> string \<Rightarrow> string \<Rightarrow> conversation_sync_row \<Rightarrow> bool" where
  "conversation_sync_at b l c r \<longleftrightarrow>
     cs_bridge_id r = b \<and> cs_user_login_id r = l \<and> cs_conversation_id r = c"

definition getConversationSync ::
  "string \<Rightarrow> string \<Rightarrow> string \<Rightarrow> tables \<Rightarrow> conversation_sync_row option" where
  "getConversationSync b l c t = find (conversation_sync_at b l c) (conversation_syncs t)"

text \<open>Both the inserted row and the updated one must satisfy the CHECKs.\<close>

definition setConversationSync ::
  "string \<Rightarrow> string \<Rightarrow> string \<Rightarrow> string \<Rightarrow> millis \<Rightarrow> unit stmt" where
  "setConversationSync b l c msg at t =
     (if msg = [] \<or> at \<le> 0 then (Inl ErrConstraint, t)
      else if list_ex (conversation_sync_at b l c) (conversation_syncs t)
      then (Inr (), t\<lparr>conversation_syncs := update_where (conversation_sync_at b l c)
             (\<lambda>r. r\<lparr>cs_completed_head_message_id := msg, cs_updated_ts := at\<rparr>) (conversation_syncs t)\<rparr>)
      else if (b, l) \<notin> set (logins t) then (Inl ErrConstraint, t)
      else (Inr (), t\<lparr>conversation_syncs := conversation_syncs t @
             [\<lparr>cs_bridge_id = b, cs_user_login_id = l, cs_conversation_id = c,
               cs_completed_head_message_id = msg, cs_updated_ts = at\<rparr>]\<rparr>))"

definition deleteConversationSync :: "string \<Rightarrow> string \<Rightarrow> string \<Rightarrow> unit stmt" where
  "deleteConversationSync b l c t =
     (Inr (), t\<lparr>conversation_syncs := filter (\<lambda>r. \<not> conversation_sync_at b l c r) (conversation_syncs t)\<rparr>)"

definition ConversationSync_Get ::
  "string \<Rightarrow> string \<Rightarrow> string \<Rightarrow> (store_error, 'z db_scheme, conversation_sync option) oper" where
  "ConversationSync_Get bid l c =
     query (\<lambda>t. Inr (map_option conversation_sync_scan (getConversationSync bid l c t)))"

definition ConversationSync_SetCompletedHead ::
  "string \<Rightarrow> string \<Rightarrow> string \<Rightarrow> string \<Rightarrow> gotime \<Rightarrow> (store_error, 'z db_scheme, unit) oper" where
  "ConversationSync_SetCompletedHead bid l c msg at = exec (setConversationSync bid l c msg (unix_milli at))"

definition ConversationSync_Delete ::
  "string \<Rightarrow> string \<Rightarrow> string \<Rightarrow> (store_error, 'z db_scheme, unit) oper" where
  "ConversationSync_Delete bid l c = exec (deleteConversationSync bid l c)"

end
