(* ===== verification/JobProperties.thy ===== *)
theory JobProperties
  imports JobStore
begin

text \<open>
  Laws of the durable inbound queue and of the scan watermark. The interface
  \<open>revisioned_cell\<close> states what a revisioned store promises its clients: a revision only
  grows while the cell exists. Its interpretation is the job table under arbitrary sequences
  of the queue's methods.
\<close>

section \<open>The interface\<close>

locale revisioned_cell =
  fixes act :: "'c \<Rightarrow> 's \<Rightarrow> 's"
    and inv :: "'s \<Rightarrow> bool"
    and revision :: "'k \<Rightarrow> 's \<Rightarrow> int option"
    and removes :: "'k \<Rightarrow> 'c \<Rightarrow> bool"
  assumes inv_act: "inv s \<Longrightarrow> inv (act c s)"
    and revision_act: "inv s \<Longrightarrow> revision k s = Some n \<Longrightarrow> \<not> removes k c \<Longrightarrow>
          \<exists>m \<ge> n. revision k (act c s) = Some m"
begin

lemma inv_all: "inv s \<Longrightarrow> inv (fold act cs s)"
  by (induction cs arbitrary: s) (auto intro: inv_act)

lemma revision_all:
  "inv s \<Longrightarrow> revision k s = Some n \<Longrightarrow> \<forall>c \<in> set cs. \<not> removes k c \<Longrightarrow>
   \<exists>m \<ge> n. revision k (fold act cs s) = Some m"
proof (induction cs arbitrary: s n)
  case Nil
  then show ?case by simp
next
  case (Cons c cs)
  then obtain m where "n \<le> m" "revision k (act c s) = Some m"
    using revision_act [of s k n c] by auto
  with Cons.IH [of "act c s" m] Cons.prems inv_act [of s c] show ?case by fastforce
qed

text \<open>Once a revision is superseded, no later state shows it again.\<close>

lemma superseded:
  assumes "inv s" and "revision k s = Some m" and "n < m" and "\<forall>c \<in> set cs. \<not> removes k c"
  shows "\<exists>m'. revision k (fold act cs s) = Some m' \<and> m' \<noteq> n"
  using revision_all [OF assms(1,2,4)] assms(3) by force

end

section \<open>Calls of the queue\<close>

datatype job_call =
    EnsureJob string string gotime
  | PutJob string string gotime
  | PutLiveJob string string gotime
  | SetDeleteRoomJob string string int string gotime
  | ScheduleDeleteRoomJob string string string gotime gotime
  | MarkRetryJob string string int gotime string gotime
  | DeleteJob string string int
  | DeleteAllJobs string
  | FailNext "bool list"

fun perform_job :: "string \<Rightarrow> job_call \<Rightarrow> db \<Rightarrow> db" where
  "perform_job bid (EnsureJob l c now) d = snd (Jobs_Ensure bid l c now d)"
| "perform_job bid (PutJob l c now) d = snd (Jobs_Put bid l c now d)"
| "perform_job bid (PutLiveJob l c now) d = snd (Jobs_PutLiveConversation bid l c now d)"
| "perform_job bid (SetDeleteRoomJob l c n room now) d = snd (Jobs_SetDeleteRoom bid l c n room now d)"
| "perform_job bid (ScheduleDeleteRoomJob l c room nb now) d =
     snd (Jobs_ScheduleDeleteRoom bid l c room nb now d)"
| "perform_job bid (MarkRetryJob l c n nx code now) d = snd (Jobs_MarkRetry bid l c n nx code now d)"
| "perform_job bid (DeleteJob l c n) d = snd (Jobs_Delete bid l c n d)"
| "perform_job bid (DeleteAllJobs l) d = snd (Jobs_DeleteAll bid l d)"
| "perform_job bid (FailNext fs) d = d\<lparr>faults := fs\<rparr>"

fun removes_job :: "string \<times> string \<Rightarrow> job_call \<Rightarrow> bool" where
  "removes_job k (DeleteJob l c n) = (k = (l, c))"
| "removes_job k (DeleteAllJobs l) = (fst k = l)"
| "removes_job k _ = False"

definition job_key :: "job_row \<Rightarrow> string \<times> string \<times> string" where
  "job_key r = (jb_bridge_id r, jb_user_login_id r, jb_conversation_id r)"

definition job_keys_distinct :: "tables \<Rightarrow> bool" where
  "job_keys_distinct t \<longleftrightarrow> distinct (map job_key (jobs t))"

definition job_revision :: "string \<Rightarrow> string \<Rightarrow> string \<Rightarrow> tables \<Rightarrow> int option" where
  "job_revision b l c t = map_option jb_revision (getConversationJob b l c t)"

lemma job_at_iff: "job_at b l c r \<longleftrightarrow> job_key r = (b, l, c)"
  by (auto simp: job_at_def job_key_def)

lemma find_update_where:
  "(\<And>r. p (f r) = p r) \<Longrightarrow> find p (update_where q f xs) = map_option (\<lambda>r. if q r then f r else r) (find p xs)"
  by (induction xs) (auto simp: update_where_def)

lemma find_filter_other:
  "(\<And>r. p r \<Longrightarrow> q r) \<Longrightarrow> find p (filter q xs) = find p xs"
  by (induction xs) auto

lemma map_key_update_where: "(\<And>r. k (f r) = k r) \<Longrightarrow> map k (update_where q f xs) = map k xs"
  by (induction xs) (auto simp: update_where_def)

lemma update_where_keep:
  "(\<And>r. r \<in> set xs \<Longrightarrow> \<not> q r) \<Longrightarrow> update_where q f xs = xs"
  by (induction xs) (auto simp: update_where_def)

text \<open>A change of one key's rows that keeps the key and does not lower its revision.\<close>

definition advances :: "(job_row \<Rightarrow> job_row) \<Rightarrow> bool" where
  "advances f \<longleftrightarrow> (\<forall>r. job_key (f r) = job_key r \<and> jb_revision r \<le> jb_revision (f r))"

definition advanced :: "tables \<Rightarrow> tables \<Rightarrow> bool" where
  "advanced t t' \<longleftrightarrow>
     (job_keys_distinct t \<longrightarrow> job_keys_distinct t') \<and>
     (\<forall>b l c n. job_revision b l c t = Some n \<longrightarrow> (\<exists>m \<ge> n. job_revision b l c t' = Some m))"

lemma advanced_refl [simp]: "advanced t t"
  by (auto simp: advanced_def)

lemma advanced_update:
  assumes "advances f"
  shows "advanced t (t\<lparr>jobs := update_where q f (jobs t)\<rparr>)"
proof -
  have "job_at b l c (f r) = job_at b l c r" for b l c r
    using assms by (simp add: job_at_iff advances_def)
  then have upd: "job_revision b l c (t\<lparr>jobs := update_where q f (jobs t)\<rparr>) =
      map_option (\<lambda>r. jb_revision (if q r then f r else r)) (find (job_at b l c) (jobs t))" for b l c
    by (simp add: job_revision_def getConversationJob_def find_update_where option.map_comp comp_def)
  have le: "jb_revision r \<le> jb_revision (if q r then f r else r)" for r
    using assms by (simp add: advances_def)
  have grows: "\<exists>m \<ge> n. job_revision b l c (t\<lparr>jobs := update_where q f (jobs t)\<rparr>) = Some m"
    if n: "job_revision b l c t = Some n" for b l c n
  proof -
    from n obtain r where r: "find (job_at b l c) (jobs t) = Some r" "jb_revision r = n"
      by (auto simp: job_revision_def getConversationJob_def)
    then have "job_revision b l c (t\<lparr>jobs := update_where q f (jobs t)\<rparr>) =
        Some (jb_revision (if q r then f r else r))"
      by (simp add: upd)
    then show ?thesis using le [of r] r(2) by blast
  qed
  from grows show ?thesis
    using assms by (auto simp: advanced_def job_keys_distinct_def map_key_update_where advances_def)
qed

lemma find_append_Some: "find p xs = Some y \<Longrightarrow> find p (xs @ ys) = Some y"
  by (induction xs) (auto split: if_splits)

lemma find_append: "find p (xs @ ys) = (case find p xs of Some y \<Rightarrow> Some y | None \<Rightarrow> find p ys)"
  by (induction xs) auto

lemma advanced_upsert:
  assumes "advances f"
  shows "advanced t (snd (upsert_job new f t))"
proof -
  have "advanced t (t\<lparr>jobs := jobs t @ [new]\<rparr>)"
    if "\<not> list_ex (job_at (jb_bridge_id new) (jb_user_login_id new) (jb_conversation_id new)) (jobs t)"
  proof -
    have "job_key new \<notin> job_key ` set (jobs t)"
      using that by (auto simp: list_ex_iff job_at_iff job_key_def)
    moreover have "job_revision b l c (t\<lparr>jobs := jobs t @ [new]\<rparr>) = Some n"
      if "job_revision b l c t = Some n" for b l c n
      using that find_append_Some [of "job_at b l c" "jobs t" _ "[new]"]
      by (auto simp: job_revision_def getConversationJob_def)
    ultimately show ?thesis by (auto simp: advanced_def job_keys_distinct_def)
  qed
  then show ?thesis
    using advanced_update [OF assms] by (simp add: upsert_job_def Let_def)
qed

lemma advances_bumped:
  "advances (bumped nx now)" "advances (\<lambda>r. r)"
  "advances (\<lambda>r. (bumped nx now r)\<lparr>jb_delete_room_id := room\<rparr>)"
  "advances (\<lambda>r. r\<lparr>jb_delete_room_id := room, jb_updated_ts := now\<rparr>)"
  "advances (\<lambda>r. r\<lparr>jb_revision := jb_revision r + 1, jb_attempt_count := jb_attempt_count r + 1,
              jb_next_attempt_ts := nx, jb_last_error_code := code, jb_updated_ts := now\<rparr>)"
  by (simp_all add: advances_def bumped_def job_key_def)

lemma advanced_stmts:
  "advanced t (snd (ensureConversationJob b l c now t))"
  "advanced t (snd (putConversationJob b l c now t))"
  "advanced t (snd (putLiveConversationJob b l c now t))"
  "advanced t (snd (scheduleConversationJobDeleteRoom b l c nx room now t))"
  "advanced t (snd (setConversationJobDeleteRoom b l c n room now t))"
  "advanced t (snd (markConversationJobRetry b l c n nx code now t))"
proof -
  have put: "snd (putConversationJob b l c now t) \<in> {t, snd (upsert_job (fresh_job b l c 0 [] now) (bumped 0 now) t)}"
    by (auto simp: putConversationJob_def upsert_job_def Let_def split: option.splits)
  then show "advanced t (snd (putConversationJob b l c now t))"
    using advanced_upsert [OF advances_bumped(1)] by auto
  show "advanced t (snd (ensureConversationJob b l c now t))"
    "advanced t (snd (putLiveConversationJob b l c now t))"
    "advanced t (snd (scheduleConversationJobDeleteRoom b l c nx room now t))"
    unfolding ensureConversationJob_def putLiveConversationJob_def scheduleConversationJobDeleteRoom_def
    by (rule advanced_upsert advances_bumped)+
  show "advanced t (snd (setConversationJobDeleteRoom b l c n room now t))"
    "advanced t (snd (markConversationJobRetry b l c n nx code now t))"
    unfolding setConversationJobDeleteRoom_def markConversationJobRetry_def update_job_def snd_conv
    by (rule advanced_update advances_bumped)+
qed

lemma advanced_exec: "(\<And>t. advanced t (snd (f t))) \<Longrightarrow> advanced (tbl d) (tbl (snd (exec f d)))"
  using exec_tbl [of f d] by auto

lemma snd_andThen_ret [simp]: "snd (andThen m (\<lambda>x. ret (g x)) d) = snd (m d)"
  by (auto simp: andThen_def ret_def split: prod.splits sum.splits)

lemma snd_andThen_ret_prod [simp]: "snd (andThen m (\<lambda>(x, y). ret (g x y)) d) = snd (m d)"
  by (auto simp: andThen_def ret_def split: prod.splits sum.splits)

lemma delete_job_keeps:
  assumes "job_keys_distinct t"
  shows "job_keys_distinct (snd (delete_job p t))"
  using assms by (simp add: job_keys_distinct_def delete_job_def distinct_map inj_on_def)

lemma delete_job_other:
  "(\<And>r. job_at b l c r \<Longrightarrow> \<not> p r) \<Longrightarrow> job_revision b l c (snd (delete_job p t)) = job_revision b l c t"
  by (simp add: job_revision_def getConversationJob_def delete_job_def find_filter_other)

lemma job_keys_call:
  "job_keys_distinct (tbl d) \<Longrightarrow> job_keys_distinct (tbl (perform_job bid c d))"
proof (cases "\<exists>l k n. c = DeleteJob l k n \<or> c = DeleteAllJobs l")
  case True
  assume "job_keys_distinct (tbl d)"
  then have "job_keys_distinct (tbl (snd (exec (delete_job p) d)))" for p
    using exec_tbl [of "delete_job p" d] delete_job_keeps by auto
  with True show ?thesis
    by (auto simp: Jobs_Delete_def Jobs_DeleteAll_def deleteConversationJob_def deleteAllConversationJobs_def)
next
  case False
  assume keys: "job_keys_distinct (tbl d)"
  have "advanced (tbl d) (tbl (perform_job bid c d))"
    using False
    by (cases c)
       (auto simp: Jobs_Ensure_def Jobs_Put_def Jobs_PutLiveConversation_def Jobs_SetDeleteRoom_def
          Jobs_ScheduleDeleteRoom_def Jobs_MarkRetry_def ret_def intro!: advanced_exec advanced_stmts)
  with keys show ?thesis by (simp add: advanced_def)
qed

lemma job_revision_call:
  assumes "job_revision bid l c (tbl d) = Some n" and "\<not> removes_job (l, c) call"
  shows "\<exists>m \<ge> n. job_revision bid l c (tbl (perform_job bid call d)) = Some m"
proof (cases "\<exists>l k n. call = DeleteJob l k n \<or> call = DeleteAllJobs l")
  case True
  have "job_revision bid l c (tbl (snd (exec (delete_job p) d))) = Some n"
    if "\<And>r. job_at bid l c r \<Longrightarrow> \<not> p r" for p
    using exec_tbl [of "delete_job p" d] delete_job_other [OF that] assms(1) by auto
  with True assms(2) show ?thesis
    by (auto simp: Jobs_Delete_def Jobs_DeleteAll_def deleteConversationJob_def deleteAllConversationJobs_def
        job_at_def)
next
  case False
  have "advanced (tbl d) (tbl (perform_job bid call d))"
    using False
    by (cases call)
       (auto simp: Jobs_Ensure_def Jobs_Put_def Jobs_PutLiveConversation_def Jobs_SetDeleteRoom_def
          Jobs_ScheduleDeleteRoom_def Jobs_MarkRetry_def ret_def intro!: advanced_exec advanced_stmts)
  with assms(1) show ?thesis by (simp add: advanced_def)
qed

interpretation job_cell: revisioned_cell "perform_job bid" "\<lambda>d. job_keys_distinct (tbl d)"
    "\<lambda>(l, c) d. job_revision bid l c (tbl d)" removes_job
  by unfold_locales (auto intro: job_keys_call job_revision_call)

section \<open>Stale workers\<close>

lemma stale_stmts:
  assumes "job_keys_distinct t" and "job_revision b l c t = Some m" and "m \<noteq> n"
  shows "deleteConversationJob b l c n t = (Inr 0, t)"
    and "markConversationJobRetry b l c n nx code now t = (Inr 0, t)"
    and "setConversationJobDeleteRoom b l c n room now t = (Inr 0, t)"
proof -
  from assms(2) obtain r where r: "find (job_at b l c) (jobs t) = Some r" "jb_revision r = m"
    by (auto simp: job_revision_def getConversationJob_def)
  have other: "\<not> (job_at b l c q \<and> jb_revision q = n)" if "q \<in> set (jobs t)" for q
  proof
    assume q: "job_at b l c q \<and> jb_revision q = n"
    have "r \<in> set (jobs t)" "job_at b l c r" using find_SomeD [OF r(1)] by auto
    then have "q = r"
      using q that assms(1) by (intro distinct_map_inj [of job_key "jobs t"]) (auto simp: job_keys_distinct_def job_at_iff)
    with q r(2) assms(3) show False by simp
  qed
  then have "filter (\<lambda>r. job_at b l c r \<and> jb_revision r = n) (jobs t) = []"
    "filter (\<lambda>r. \<not> (job_at b l c r \<and> jb_revision r = n)) (jobs t) = jobs t"
    "update_where (\<lambda>r. job_at b l c r \<and> jb_revision r = n) f (jobs t) = jobs t" for f
    by (auto simp: filter_empty_conv filter_id_conv update_where_keep)
  then show "deleteConversationJob b l c n t = (Inr 0, t)"
    "markConversationJobRetry b l c n nx code now t = (Inr 0, t)"
    "setConversationJobDeleteRoom b l c n room now t = (Inr 0, t)"
    by (simp_all add: deleteConversationJob_def delete_job_def markConversationJobRetry_def
        setConversationJobDeleteRoom_def update_job_def)
qed

lemma exec_none:
  "f (tbl d) = (Inr 0, tbl d) \<Longrightarrow>
   fst (andThen (exec f) (\<lambda>n. ret (rowWasChanged n)) d) \<noteq> Inr True \<and>
   tbl (snd (andThen (exec f) (\<lambda>n. ret (rowWasChanged n)) d)) = tbl d"
  by (auto simp: andThen_def exec_def ret_def rowWasChanged_def split: list.splits bool.splits)

lemma Put_Inr:
  assumes "Jobs_Put bid l c now d = (Inr (m, at), d')" and "job_revision bid l c (tbl d) = Some k"
  shows "m = k + 1 \<and> job_revision bid l c (tbl d') = Some m"
proof -
  obtain cr where put: "putConversationJob bid l c (unix_milli now) (tbl d) = (Inr (m, cr), tbl d')"
    using assms(1) by (auto simp: Jobs_Put_def ret_def dest!: andThen_InrD exec_Inr)
  obtain r where r: "find (job_at bid l c) (jobs (tbl d)) = Some r" "jb_revision r = k"
    using assms(2) by (auto simp: job_revision_def getConversationJob_def)
  have "list_ex (job_at bid l c) (jobs (tbl d))" using find_SomeD [OF r(1)] by (auto simp: list_ex_iff)
  moreover have "job_at bid l c (bumped 0 now q) = job_at bid l c q" for now q
    by (simp add: job_at_def bumped_def)
  moreover have "job_at bid l c r" using find_SomeD [OF r(1)] by simp
  ultimately have upd: "tbl d' = (tbl d)\<lparr>jobs := update_where (job_at bid l c) (bumped 0 (unix_milli now)) (jobs (tbl d))\<rparr>"
    and found: "find (job_at bid l c) (update_where (job_at bid l c) (bumped 0 (unix_milli now)) (jobs (tbl d))) =
      Some (bumped 0 (unix_milli now) r)"
    using put r(1) by (auto simp: putConversationJob_def upsert_job_def Let_def fresh_job_def
        find_update_where split: option.splits)
  have "m = jb_revision (bumped 0 (unix_milli now) r)"
    using put found \<open>list_ex _ _\<close> by (auto simp: putConversationJob_def upsert_job_def Let_def fresh_job_def
        getConversationJob_def split: option.splits)
  then show ?thesis using found r(2) by (simp add: upd job_revision_def getConversationJob_def bumped_def)
qed


definition job_db :: "job_row list \<Rightarrow> db" where
  "job_db js = \<lparr>tbl = \<lparr>outbound = [], receipts = [], jobs = js, sync_states = [], conversation_syncs = [],
      messages = [], portals = [], logins = [(''b'', ''u'')]\<rparr>, faults = []\<rparr>"

definition sample_job :: job_row where
  "sample_job = fresh_job ''b'' ''u'' ''c'' 0 [] 5"


section \<open>The next job\<close>

text \<open>The queue hands out work exactly when there is some. \<open>GetNextDue\<close> on a database
  without failures returns a job exactly when one of the login is due, and then one that no
  other due job precedes; and new evidence makes the conversation due at once.\<close>

theorem next_job_due:
  assumes "healthy d"
  shows "(\<exists>res. fst (Jobs_GetNextDue bid l now d) = Inr res \<and>
    (case res of
       None \<Rightarrow> \<forall>r \<in> set (jobs (tbl d)). \<not> job_due bid l (unix_milli now) r
     | Some j \<Rightarrow> \<exists>r \<in> set (jobs (tbl d)). job_due bid l (unix_milli now) r \<and> j = job_scan r \<and>
         (\<forall>q \<in> set (jobs (tbl d)). job_due bid l (unix_milli now) q \<longrightarrow> job_order r \<le> job_order q))) \<and>
    (\<forall>c t0. 0 \<le> unix_milli now \<longrightarrow> fst (Jobs_Put bid l c t0 d) = Inr (m, at) \<longrightarrow>
       (\<exists>r \<in> set (jobs (tbl (snd (Jobs_Put bid l c t0 d)))). job_at bid l c r \<and> jb_revision r = m \<and>
          job_due bid l (unix_milli now) r))"
proof -
  let ?m = "min_row job_order (filter (job_due bid l (unix_milli now)) (jobs (tbl d)))"
  have get: "fst (Jobs_GetNextDue bid l now d) = Inr (map_option job_scan ?m)"
    using assms by (simp add: Jobs_GetNextDue_def query_healthy getNextDueConversationJob_def)
  have first: "case map_option job_scan ?m of
       None \<Rightarrow> \<forall>r \<in> set (jobs (tbl d)). \<not> job_due bid l (unix_milli now) r
     | Some j \<Rightarrow> \<exists>r \<in> set (jobs (tbl d)). job_due bid l (unix_milli now) r \<and> j = job_scan r \<and>
         (\<forall>q \<in> set (jobs (tbl d)). job_due bid l (unix_milli now) q \<longrightarrow> job_order r \<le> job_order q)"
  proof (cases ?m)
    case None
    then show ?thesis by (auto simp: min_row_None filter_empty_conv)
  next
    case (Some r)
    then show ?thesis using min_row_Some [OF Some] by auto
  qed
  have "\<exists>r \<in> set (jobs (tbl (snd (Jobs_Put bid l c t0 d)))). job_at bid l c r \<and> jb_revision r = m \<and>
          job_due bid l (unix_milli now) r"
    if now: "0 \<le> unix_milli now" and put: "fst (Jobs_Put bid l c t0 d) = Inr (m, at)" for c t0
  proof -
    obtain d' where d': "Jobs_Put bid l c t0 d = (Inr (m, at), d')"
      using put by (cases "Jobs_Put bid l c t0 d") auto
    then obtain cr where stm: "putConversationJob bid l c (unix_milli t0) (tbl d) = (Inr (m, cr), tbl d')"
      by (auto simp: Jobs_Put_def ret_def dest!: andThen_InrD exec_Inr)
    then obtain r where r: "find (job_at bid l c) (jobs (tbl d')) = Some r" "jb_revision r = m"
      and up: "upsert_job (fresh_job bid l c 0 [] (unix_milli t0)) (bumped 0 (unix_milli t0)) (tbl d) = (Inr (), tbl d')"
      by (auto simp: putConversationJob_def getConversationJob_def split: prod.splits sum.splits option.splits)
    have rj: "r \<in> set (jobs (tbl d'))" "job_at bid l c r" using find_SomeD [OF r(1)] by auto
    have "jb_next_attempt_ts r = 0"
    proof (cases "list_ex (job_at bid l c) (jobs (tbl d))")
      case True
      then have "jobs (tbl d') = update_where (job_at bid l c) (bumped 0 (unix_milli t0)) (jobs (tbl d))"
        using up by (auto simp: upsert_job_def Let_def fresh_job_def dest: sym [of _ "tbl d'"])
      then show ?thesis using rj by (auto simp: set_update_where bumped_def)
    next
      case False
      then have "jobs (tbl d') = jobs (tbl d) @ [fresh_job bid l c 0 [] (unix_milli t0)]"
        using up by (auto simp: upsert_job_def Let_def fresh_job_def split: if_splits dest: sym [of _ "tbl d'"])
      then show ?thesis using rj False by (auto simp: list_ex_iff fresh_job_def)
    qed
    then show ?thesis using d' rj r(2) now by (auto simp: job_due_def job_at_def)
  qed
  with get first show ?thesis by blast
qed

lemma next_job_due_witness:
  "\<exists>j. fst (Jobs_GetNextDue ''b'' ''u'' 9000000 (job_db [sample_job])) = Inr (Some j)"
proof -
  have "healthy (job_db [sample_job])" by (simp add: healthy_def job_db_def)
  from conjunct1 [OF next_job_due [OF this, of "''b''" "''u''" 9000000]] obtain res where
    "fst (Jobs_GetNextDue ''b'' ''u'' 9000000 (job_db [sample_job])) = Inr res"
    "res = None \<longrightarrow> (\<forall>r \<in> set (jobs (tbl (job_db [sample_job]))). \<not> job_due ''b'' ''u'' (unix_milli 9000000) r)"
    by (auto split: option.splits)
  then show ?thesis
    by (cases res) (auto simp: job_db_def job_due_def sample_job_def fresh_job_def unix_milli_def)
qed

section \<open>The scan watermark\<close>

text \<open>C18: the remote watermark never moves back. After \<open>SetScanSuccess\<close>, when it succeeds, the row of the
  login holds the larger of its old watermark, if it had one, and the reported watermark, and the time
  as reported; when it fails, the row is as it was; and the rows of all other logins are as they were,
  in both cases.\<close>

theorem watermark_monotone:
  assumes "SyncState_SetScanSuccess bid l w at d = (res, d')"
  shows "(if res = Inr ()
      then map_option (\<lambda>r. (ss_last_remote_watermark_ts r, ss_last_scan_success_ts r)) (getSyncState bid l (tbl d')) =
        Some (case getSyncState bid l (tbl d) of Some r \<Rightarrow> max (ss_last_remote_watermark_ts r) w | None \<Rightarrow> w, unix_milli at)
      else getSyncState bid l (tbl d') = getSyncState bid l (tbl d)) \<and>
    (\<forall>b' l'. (b', l') = (bid, l) \<or> getSyncState b' l' (tbl d') = getSyncState b' l' (tbl d))"
proof -
  let ?f = "\<lambda>r. r\<lparr>ss_last_remote_watermark_ts :=
                      (if ss_last_remote_watermark_ts r < w then w else ss_last_remote_watermark_ts r),
                    ss_last_scan_success_ts := unix_milli at\<rparr>"
  let ?new = "\<lparr>ss_bridge_id = bid, ss_user_login_id = l, ss_last_remote_watermark_ts = w, ss_last_scan_success_ts = unix_milli at\<rparr>"
  have at: "sync_state_at b' l' (?f q) = sync_state_at b' l' q" for b' l' q by (simp add: sync_state_at_def)
  have here: "getSyncState b' l' t = Some q \<Longrightarrow> sync_state_at b' l' q" for b' l' t q
    using find_SomeD [of "sync_state_at b' l'" "sync_states t" q] by (simp add: getSyncState_def)
  consider (same) "tbl d' = tbl d" "res \<noteq> Inr ()"
    | (updated) "res = Inr ()" "sync_states (tbl d') = update_where (sync_state_at bid l) ?f (sync_states (tbl d))"
        "list_ex (sync_state_at bid l) (sync_states (tbl d))"
    | (added) "res = Inr ()" "sync_states (tbl d') = sync_states (tbl d) @ [?new]"
        "\<not> list_ex (sync_state_at bid l) (sync_states (tbl d))"
    using assms
    by (auto simp: SyncState_SetScanSuccess_def exec_def setScanSuccess_def
        split: list.splits bool.splits prod.splits if_splits)
  then show ?thesis
  proof cases
    case same
    then show ?thesis by auto
  next
    case updated
    have upd: "getSyncState b' l' (tbl d') =
        map_option (\<lambda>q. if sync_state_at bid l q then ?f q else q) (getSyncState b' l' (tbl d))" for b' l'
      by (simp add: getSyncState_def updated(2) find_update_where at)
    have "getSyncState b' l' (tbl d') = getSyncState b' l' (tbl d)" if "(b', l') \<noteq> (bid, l)" for b' l'
      using that here [of b' l' "tbl d"]
      by (cases "getSyncState b' l' (tbl d)") (auto simp: upd sync_state_at_def)
    moreover obtain r where "getSyncState bid l (tbl d) = Some r" "sync_state_at bid l r"
      using updated(3) here [of bid l "tbl d"] by (fastforce simp: getSyncState_def list_ex_iff find_None_iff)
    moreover have "getSyncState bid l (tbl d') = Some (?f r)" using upd [of bid l] calculation(2,3) by simp
    ultimately show ?thesis using updated(1) by (simp add: max_def) blast
  next
    case added
    have "getSyncState b' l' (tbl d') = (case getSyncState b' l' (tbl d) of Some q \<Rightarrow> Some q
        | None \<Rightarrow> if (b', l') = (bid, l) then Some ?new else None)" for b' l'
      by (auto simp: getSyncState_def added(2) find_append sync_state_at_def split: option.splits)
    moreover have "getSyncState bid l (tbl d) = None"
      using added(3) by (simp add: getSyncState_def list_ex_iff find_None_iff)
    ultimately show ?thesis using added(1) by (auto split: option.splits)
  qed
qed

definition watermark_db :: db where
  "watermark_db = (job_db [])\<lparr>tbl := (tbl (job_db []))\<lparr>sync_states :=
     [\<lparr>ss_bridge_id = ''b'', ss_user_login_id = ''u'', ss_last_remote_watermark_ts = 7,
       ss_last_scan_success_ts = 3\<rparr>]\<rparr>\<rparr>"

lemma watermark_monotone_witness:
  "\<exists>d' r. SyncState_SetScanSuccess ''b'' ''u'' 4 9000000 watermark_db = (Inr (), d') \<and>
     getSyncState ''b'' ''u'' (tbl d') = Some r \<and> ss_last_remote_watermark_ts r = 7 \<and>
     getSyncState ''b'' ''v'' (tbl d') = None"
proof -
  obtain d' where run: "SyncState_SetScanSuccess ''b'' ''u'' 4 9000000 watermark_db = (Inr (), d')"
    by (auto simp: SyncState_SetScanSuccess_def setScanSuccess_def exec_def watermark_db_def job_db_def sync_state_at_def)
  let ?old = "\<lparr>ss_bridge_id = ''b'', ss_user_login_id = ''u'', ss_last_remote_watermark_ts = 7, ss_last_scan_success_ts = 3\<rparr>"
  have old: "getSyncState ''b'' ''u'' (tbl watermark_db) = Some ?old" "getSyncState ''b'' ''v'' (tbl watermark_db) = None"
    by (simp_all add: getSyncState_def watermark_db_def sync_state_at_def)
  note w = watermark_monotone [OF run]
  have "map_option (\<lambda>r. (ss_last_remote_watermark_ts r, ss_last_scan_success_ts r)) (getSyncState ''b'' ''u'' (tbl d')) =
      Some (7, unix_milli 9000000)"
    using conjunct1 [OF w] unfolding old by simp
  then obtain r where "getSyncState ''b'' ''u'' (tbl d') = Some r" "ss_last_remote_watermark_ts r = 7" by blast
  moreover have "getSyncState ''b'' ''v'' (tbl d') = getSyncState ''b'' ''v'' (tbl watermark_db)"
    using conjunct2 [OF w, rule_format, of "''b''" "''v''"] by (rule disjE) (simp_all only: prod.inject, simp)
  ultimately show ?thesis unfolding old(2) using run by (intro exI conjI)
qed

end
