(* ===== verification/Matching.thy ===== *)
theory Matching
  imports OutboundSend "HOL-Library.AList"
begin

text \<open>
  Which remote message explains which durable send (pkg/connector/outbound.go:
  \<open>maximumOutboundCandidateMatching\<close>, \<open>forcedOutboundCandidateMatches\<close>): a maximum
  bipartite matching by augmenting paths, and the edges that lie in every maximum matching.

  The Go map \<open>matchedSetByMessage\<close> is an association list, so that the final loop over it
  can be written; its order does not matter, because every set index occurs at most once.
\<close>

record outboundCandidateSet =
  cset_send :: "outbound_send option"
  messageIDs :: "string list"

definition ids_of :: "outboundCandidateSet list \<Rightarrow> nat \<Rightarrow> string list" where
  "ids_of sets i = (if i < length sets then messageIDs (sets ! i) else [])"

section \<open>The search for an augmenting path\<close>

text \<open>The closure \<open>assign\<close>, with its loop over \<open>sets[setIndex].messageIDs\<close>; the visited set
  and the matching are threaded, as the closure shares them.\<close>

function assign ::
  "outboundCandidateSet list \<Rightarrow> int \<Rightarrow> string \<Rightarrow> nat \<Rightarrow> string list \<Rightarrow> string list \<Rightarrow> (string \<times> nat) list \<Rightarrow>
   bool \<times> string list \<times> (string \<times> nat) list" where
  "assign sets bs bm i [] vis M = (False, vis, M)"
| "assign sets bs bm i (m # ms) vis M =
     (if m = [] \<or> (int i = bs \<and> m = bm) then assign sets bs bm i ms vis M
      else if m \<in> set vis then assign sets bs bm i ms vis M
      else case map_of M m of
          None \<Rightarrow> (True, m # vis, AList.update m i M)
        | Some j \<Rightarrow>
            (case assign sets bs bm j (ids_of sets j) (m # vis) M of
               (True, vis', M') \<Rightarrow> (True, vis', AList.update m i M')
             | (False, vis', M') \<Rightarrow> assign sets bs bm i ms vis' M'))"
  by pat_completeness auto

lemma assign_visits:
  "assign_dom (sets, bs, bm, i, ids, vis, M) \<Longrightarrow>
   set vis \<subseteq> set (fst (snd (assign sets bs bm i ids vis M)))"
proof (induction rule: assign.pinduct)
  case (1 sets bs bm i vis M)
  then show ?case by (simp add: assign.psimps)
next
  case (2 sets bs bm i m ms vis M)
  show ?case
  proof (cases "m = [] \<or> (int i = bs \<and> m = bm) \<or> m \<in> set vis \<or> map_of M m = None")
    case True
    then show ?thesis using 2 by (auto simp: assign.psimps)
  next
    case False
    then obtain j where j: "map_of M m = Some j" by auto
    obtain r vis' M' where deep: "assign sets bs bm j (ids_of sets j) (m # vis) M = (r, vis', M')"
      by (metis prod_cases3)
    have "set (m # vis) \<subseteq> set vis'"
      using 2(4) [OF _ _ j] False deep by (metis fst_conv snd_conv)
    moreover have "set vis' \<subseteq> set (fst (snd (assign sets bs bm i ms vis' M')))" if "\<not> r"
      using 2(5) [OF _ _ j deep [symmetric]] False that by auto
    ultimately show ?thesis using False j deep 2(1) by (cases r) (auto simp: assign.psimps)
  qed
qed

definition unvisited :: "outboundCandidateSet list \<Rightarrow> string list \<Rightarrow> string list \<Rightarrow> string set" where
  "unvisited sets ids vis = (set ids \<union> \<Union> (set (map (set \<circ> messageIDs) sets))) - set vis"

lemma ids_of_universe: "set (ids_of sets j) \<subseteq> \<Union> (set (map (set \<circ> messageIDs) sets))"
  by (auto simp: ids_of_def intro: nth_mem)

lemma finite_unvisited [simp]: "finite (unvisited sets ids vis)"
  by (auto simp: unvisited_def)

lemma unvisited_mono: "set ids \<subseteq> set ids' \<Longrightarrow> set vis' \<subseteq> set vis \<Longrightarrow>
  card (unvisited sets ids vis) \<le> card (unvisited sets ids' vis')"
  by (rule card_mono) (auto simp: unvisited_def)

lemma unvisited_deeper:
  assumes "m \<notin> set vis"
  shows "card (unvisited sets (ids_of sets j) (m # vis)) < card (unvisited sets (m # ms) vis)"
proof (rule psubset_card_mono)
  show "unvisited sets (ids_of sets j) (m # vis) \<subset> unvisited sets (m # ms) vis"
    using assms ids_of_universe [of sets j] by (auto simp: unvisited_def)
qed simp

termination assign
proof (relation "measures [\<lambda>(sets, bs, bm, i, ids, vis, M). card (unvisited sets ids vis),
      \<lambda>(sets, bs, bm, i, ids, vis, M). length ids]", goal_cases)
  case 1
  then show ?case by simp
next
  case (2 sets bs bm i m ms vis M)
  have "card (unvisited sets ms vis) \<le> card (unvisited sets (m # ms) vis)"
    by (rule unvisited_mono) auto
  then show ?case by (simp add: le_eq_less_or_eq)
next
  case (3 sets bs bm i m ms vis M)
  have "card (unvisited sets ms vis) \<le> card (unvisited sets (m # ms) vis)"
    by (rule unvisited_mono) auto
  then show ?case by (simp add: le_eq_less_or_eq)
next
  case (4 sets bs bm i m ms vis M j)
  then show ?case using unvisited_deeper [of m vis sets j ms] by simp
next
  case (5 sets bs bm i m ms vis M j r rest vis' M')
  from assign_visits [OF 5(7)] 5(4,6) have "set vis \<subseteq> set vis'"
    by (metis fst_conv snd_conv set_subset_Cons subset_trans)
  then have "card (unvisited sets ms vis') \<le> card (unvisited sets (m # ms) vis)"
    by (intro unvisited_mono) auto
  then show ?case by (simp add: le_eq_less_or_eq)
qed

section \<open>An induction rule for the search\<close>

definition skipped :: "int \<Rightarrow> string \<Rightarrow> nat \<Rightarrow> string list \<Rightarrow> string \<Rightarrow> bool" where
  "skipped bs bm i vis m \<longleftrightarrow> m = [] \<or> (int i = bs \<and> m = bm) \<or> m \<in> set vis"

lemma assign_skip: "skipped bs bm i vis m \<Longrightarrow> assign sets bs bm i (m # ms) vis M = assign sets bs bm i ms vis M"
  by (auto simp: skipped_def)

lemma assign_free:
  "\<not> skipped bs bm i vis m \<Longrightarrow> map_of M m = None \<Longrightarrow>
   assign sets bs bm i (m # ms) vis M = (True, m # vis, AList.update m i M)"
  by (auto simp: skipped_def)

lemma assign_found:
  "\<not> skipped bs bm i vis m \<Longrightarrow> map_of M m = Some j \<Longrightarrow>
   assign sets bs bm j (ids_of sets j) (m # vis) M = (True, vis', M') \<Longrightarrow>
   assign sets bs bm i (m # ms) vis M = (True, vis', AList.update m i M')"
  by (auto simp: skipped_def)

lemma assign_back:
  "\<not> skipped bs bm i vis m \<Longrightarrow> map_of M m = Some j \<Longrightarrow>
   assign sets bs bm j (ids_of sets j) (m # vis) M = (False, vis', M') \<Longrightarrow>
   assign sets bs bm i (m # ms) vis M = assign sets bs bm i ms vis' M'"
  by (auto simp: skipped_def)

declare assign.simps(2) [simp del]

lemma assign_induct [case_names Nil Skip Free Found Back]:
  assumes "\<And>i vis M. P i [] vis M"
    and "\<And>i m ms vis M. skipped bs bm i vis m \<Longrightarrow> P i ms vis M \<Longrightarrow> P i (m # ms) vis M"
    and "\<And>i m ms vis M. \<not> skipped bs bm i vis m \<Longrightarrow> map_of M m = None \<Longrightarrow> P i (m # ms) vis M"
    and "\<And>i m ms vis M j vis' M'. \<not> skipped bs bm i vis m \<Longrightarrow> map_of M m = Some j \<Longrightarrow>
          assign sets bs bm j (ids_of sets j) (m # vis) M = (True, vis', M') \<Longrightarrow>
          P j (ids_of sets j) (m # vis) M \<Longrightarrow> P i (m # ms) vis M"
    and "\<And>i m ms vis M j vis' M'. \<not> skipped bs bm i vis m \<Longrightarrow> map_of M m = Some j \<Longrightarrow>
          assign sets bs bm j (ids_of sets j) (m # vis) M = (False, vis', M') \<Longrightarrow>
          P j (ids_of sets j) (m # vis) M \<Longrightarrow> P i ms vis' M' \<Longrightarrow> P i (m # ms) vis M"
  shows "P i ids vis M"
proof (induction sets \<equiv> sets bs \<equiv> bs bm \<equiv> bm i ids vis M rule: assign.induct)
  case (1 i vis M)
  show ?case by (rule assms(1))
next
  case (2 i m ms vis M)
  show ?case
  proof (cases "skipped bs bm i vis m")
    case True
    then have "P i ms vis M"
      using 2(1,2) by (cases "m = [] \<or> (int i = bs \<and> m = bm)") (auto simp: skipped_def)
    with True show ?thesis by (rule assms(2))
  next
    case False
    then have n: "\<not> (m = [] \<or> int i = bs \<and> m = bm)" "m \<notin> set vis" by (auto simp: skipped_def)
    show ?thesis
    proof (cases "map_of M m")
      case None
      with False show ?thesis by (rule assms(3))
    next
      case (Some j)
      obtain r vis' M' where deep: "assign sets bs bm j (ids_of sets j) (m # vis) M = (r, vis', M')"
        by (metis prod_cases3)
      have P: "P j (ids_of sets j) (m # vis) M" using 2(3) n Some by blast
      show ?thesis
      proof (cases r)
        case True
        with assms(4) [OF False Some _ P] deep show ?thesis by simp
      next
        case r: False
        then have "P i ms vis' M'" using 2(4) n Some deep by fastforce
        with assms(5) [OF False Some _ P] deep r show ?thesis by simp
      qed
    qed
  qed
qed

section \<open>What the search does\<close>

definition edge :: "outboundCandidateSet list \<Rightarrow> int \<Rightarrow> string \<Rightarrow> nat \<Rightarrow> string \<Rightarrow> bool" where
  "edge sets bs bm i m \<longleftrightarrow> m \<in> set (ids_of sets i) \<and> m \<noteq> [] \<and> \<not> (int i = bs \<and> m = bm)"

text \<open>A failing search leaves the matching alone; what it newly visited is matched, and the
  owners of the visited messages see only visited messages.\<close>

lemma assign_fails:
  "assign sets bs bm i ids vis M = (False, vis', M') \<Longrightarrow>
   M' = M \<and> set vis \<subseteq> set vis' \<and>
   (\<forall>m \<in> set ids. m \<noteq> [] \<and> \<not> (int i = bs \<and> m = bm) \<longrightarrow> m \<in> set vis') \<and>
   (\<forall>m \<in> set vis' - set vis. \<exists>j. map_of M m = Some j \<and> (\<forall>q. edge sets bs bm j q \<longrightarrow> q \<in> set vis'))"
proof (induction i ids vis M arbitrary: vis' M' rule: assign_induct [where sets = sets and bs = bs and bm = bm])
  case (Nil i vis M)
  then show ?case by simp
next
  case (Skip i m ms vis M)
  then show ?case by (auto simp: assign_skip skipped_def)
next
  case (Free i m ms vis M)
  then show ?case by (simp add: assign_free)
next
  case (Found i m ms vis M j vis1 M1)
  then show ?case by (simp add: assign_found)
next
  case (Back i m ms vis M j vis1 M1)
  from Back.IH(1) [OF Back.hyps(3)] have d: "M1 = M" "set (m # vis) \<subseteq> set vis1"
    "\<forall>q \<in> set (ids_of sets j). q \<noteq> [] \<and> \<not> (int j = bs \<and> q = bm) \<longrightarrow> q \<in> set vis1"
    "\<forall>q \<in> set vis1 - set (m # vis). \<exists>k. map_of M q = Some k \<and> (\<forall>q'. edge sets bs bm k q' \<longrightarrow> q' \<in> set vis1)"
    by simp_all
  have "assign sets bs bm i ms vis1 M1 = (False, vis', M')"
    using Back.prems assign_back [OF Back.hyps] by simp
  from Back.IH(2) [OF this] have r: "M' = M1" "set vis1 \<subseteq> set vis'"
    "\<forall>q \<in> set ms. q \<noteq> [] \<and> \<not> (int i = bs \<and> q = bm) \<longrightarrow> q \<in> set vis'"
    "\<forall>q \<in> set vis' - set vis1. \<exists>k. map_of M1 q = Some k \<and> (\<forall>q'. edge sets bs bm k q' \<longrightarrow> q' \<in> set vis')"
    by simp_all
  have "\<exists>k. map_of M q = Some k \<and> (\<forall>q'. edge sets bs bm k q' \<longrightarrow> q' \<in> set vis')"
    if q: "q \<in> set vis' - set vis" for q
  proof -
    consider "q = m" | "q \<in> set vis1 - set (m # vis)" | "q \<in> set vis' - set vis1" using q by auto
    then show ?thesis
    proof cases
      case 1
      have "\<forall>q'. edge sets bs bm j q' \<longrightarrow> q' \<in> set vis'"
        using d(3) r(2) unfolding edge_def by blast
      then show ?thesis using 1 Back.hyps(2) by blast
    next
      case 2
      then show ?thesis using d(4) r(2) by blast
    next
      case 3
      then show ?thesis using d(1) r(4) by blast
    qed
  qed
  moreover have "set vis \<subseteq> set vis'" "m \<in> set vis'" using d(2) r(2) by auto
  ultimately show ?case using d(1) r(1,3) by auto
qed

text \<open>A successful search matches one more message, gives \<open>i\<close> one more, changes no visited
  message, and uses allowed edges only.\<close>

definition owned :: "(string \<times> nat) list \<Rightarrow> nat \<Rightarrow> nat" where
  "owned M x = count_list (map snd M) x"

lemma length_update:
  "length (AList.update m i M) = (if m \<in> fst ` set M then length M else Suc (length M))"
  by (induction M) auto

lemma owned_update:
  "distinct (map fst M) \<Longrightarrow>
   owned (AList.update m i M) x + (if map_of M m = Some x then 1 else 0) =
   owned M x + (if x = i then 1 else 0)"
proof (induction M)
  case Nil
  then show ?case by (simp add: owned_def)
next
  case (Cons p M)
  obtain k v where p: "p = (k, v)" by (cases p)
  show ?case
  proof (cases "k = m")
    case True
    then show ?thesis by (simp add: p owned_def)
  next
    case False
    then show ?thesis using Cons by (cases "x = i") (auto simp: p owned_def split: if_splits)
  qed
qed

lemma assign_succeeds:
  assumes "assign sets bs bm i ids vis M = (True, vis', M')" and "distinct (map fst M)"
  shows "distinct (map fst M') \<and> length M' = Suc (length M) \<and>
    (\<forall>x. owned M' x = owned M x + (if x = i then 1 else 0)) \<and>
    (\<forall>m \<in> set vis. map_of M' m = map_of M m) \<and>
    (\<forall>m x. map_of M' m = Some x \<longrightarrow> map_of M m = Some x \<or> edge sets bs bm x m \<or>
       (x = i \<and> m \<in> set ids \<and> m \<noteq> [] \<and> \<not> (int i = bs \<and> m = bm)))"
  using assms
proof (induction i ids vis M arbitrary: vis' M' rule: assign_induct [where sets = sets and bs = bs and bm = bm])
  case (Nil i vis M)
  then show ?case by simp
next
  case (Skip i m ms vis M)
  then show ?case by (fastforce simp: assign_skip)
next
  case (Free i m ms vis M)
  then have M': "M' = AList.update m i M" by (simp add: assign_free)
  have "length M' = Suc (length M)"
    using Free.hyps(2) by (simp add: M' length_update map_of_eq_None_iff)
  moreover have "owned M' x = owned M x + (if x = i then 1 else 0)" for x
    using owned_update [OF Free.prems(2), of m i x] Free.hyps(2) by (simp add: M')
  ultimately show ?case
    using Free by (auto simp: M' distinct_update update_conv' skipped_def)
next
  case (Found i m ms vis M j vis1 M1)
  have M': "M' = AList.update m i M1" using Found.prems(1) assign_found [OF Found.hyps] by simp
  note deep = Found.IH [OF Found.hyps(3) Found.prems(2)]
  have m: "map_of M1 m = Some j" using deep Found.hyps(2) by simp
  then have "m \<in> fst ` set M1" by (force dest: map_of_SomeD)
  then have "length M' = Suc (length M)" using deep unfolding M' by (simp add: length_update)
  moreover have "owned M' x = owned M x + (if x = i then 1 else 0)" for x
  proof -
    have "owned M' x + (if j = x then 1 else 0) = owned M1 x + (if x = i then 1 else 0)"
      using owned_update [of M1 m i x] deep m by (simp add: M')
    moreover have "owned M1 x = owned M x + (if x = j then 1 else 0)" using deep by simp
    ultimately show ?thesis by (auto split: if_splits)
  qed
  moreover have "map_of M q = Some x \<or> edge sets bs bm x q \<or>
       (x = i \<and> q \<in> set (m # ms) \<and> q \<noteq> [] \<and> \<not> (int i = bs \<and> q = bm))"
    if q: "map_of M' q = Some x" for q x
  proof (cases "q = m")
    case True
    then have "x = i" using q by (simp add: M' update_conv')
    then show ?thesis using True Found.hyps(1) by (simp add: skipped_def)
  next
    case False
    then have "map_of M1 q = Some x" using q by (simp add: M' update_conv')
    then show ?thesis using deep unfolding edge_def by blast
  qed
  moreover have "map_of M' q = map_of M q" if "q \<in> set vis" for q
  proof -
    have "q \<noteq> m" using that Found.hyps(1) by (auto simp: skipped_def)
    then show ?thesis using that deep by (simp add: M' update_conv')
  qed
  moreover have "distinct (map fst M')" using deep by (simp add: M' distinct_update)
  ultimately show ?case by blast
next
  case (Back i m ms vis M j vis1 M1)
  have M1: "M1 = M" "set vis \<subseteq> set vis1" using assign_fails [OF Back.hyps(3)] by auto
  have "assign sets bs bm i ms vis1 M1 = (True, vis', M')"
    using Back.prems(1) assign_back [OF Back.hyps] by simp
  with Back.IH(2) [of vis' M'] Back.prems(2) M1 show ?case by fastforce
qed

text \<open>A set of messages that is matched and closed is a dead end: no search enters it and
  comes out with a free message, so a successful one leaves it as it is.\<close>

definition dead :: "outboundCandidateSet list \<Rightarrow> int \<Rightarrow> string \<Rightarrow> (string \<times> nat) list \<Rightarrow> string set \<Rightarrow> bool" where
  "dead sets bs bm M D \<longleftrightarrow>
     (\<forall>m \<in> D. \<exists>j. map_of M m = Some j \<and> (\<forall>q. edge sets bs bm j q \<longrightarrow> q \<in> D))"

lemma assign_dead:
  "dead sets bs bm M D \<Longrightarrow> (\<forall>m \<in> set ids. m \<noteq> [] \<and> \<not> (int i = bs \<and> m = bm) \<longrightarrow> m \<in> D) \<Longrightarrow>
   \<not> fst (assign sets bs bm i ids vis M)"
proof (induction i ids vis M rule: assign_induct [where sets = sets and bs = bs and bm = bm])
  case (Nil i vis M)
  then show ?case by simp
next
  case (Skip i m ms vis M)
  then show ?case by (simp add: assign_skip)
next
  case (Free i m ms vis M)
  then have "m \<in> D" by (simp add: skipped_def)
  then show ?case using Free by (auto simp: dead_def)
next
  case (Found i m ms vis M j vis1 M1)
  then have "m \<in> D" by (simp add: skipped_def)
  then have "\<forall>q \<in> set (ids_of sets j). q \<noteq> [] \<and> \<not> (int j = bs \<and> q = bm) \<longrightarrow> q \<in> D"
    using Found.hyps(2) Found.prems(1) by (auto simp: dead_def edge_def)
  from Found.IH [OF Found.prems(1) this] Found.hyps(3) show ?case by simp
next
  case (Back i m ms vis M j vis1 M1)
  have "M1 = M" using assign_fails [OF Back.hyps(3)] by blast
  then show ?case using Back.IH(2) Back.prems assign_back [OF Back.hyps] by simp
qed

lemma assign_avoids:
  "assign sets bs bm i ids vis M = (True, vis', M') \<Longrightarrow> dead sets bs bm M D \<Longrightarrow> m \<in> D \<Longrightarrow>
   map_of M' m = map_of M m"
proof (induction i ids vis M arbitrary: vis' M' rule: assign_induct [where sets = sets and bs = bs and bm = bm])
  case (Nil i vis M)
  then show ?case by simp
next
  case (Skip i q ms vis M)
  then show ?case by (simp add: assign_skip)
next
  case (Free i q ms vis M)
  then have "q \<noteq> m" by (auto simp: dead_def)
  with Free show ?case by (auto simp: assign_free update_conv')
next
  case (Found i q ms vis M j vis1 M1)
  have "q \<noteq> m"
  proof
    assume "q = m"
    then have "\<forall>q \<in> set (ids_of sets j). q \<noteq> [] \<and> \<not> (int j = bs \<and> q = bm) \<longrightarrow> q \<in> D"
      using Found.hyps(2) Found.prems(2,3) by (auto simp: dead_def edge_def)
    from assign_dead [OF Found.prems(2) this] Found.hyps(3) show False by (metis fst_conv)
  qed
  then show ?case
    using Found.IH [OF Found.hyps(3) Found.prems(2,3)] Found.prems(1) assign_found [OF Found.hyps]
    by (auto simp: update_conv')
next
  case (Back i q ms vis M j vis1 M1)
  have "M1 = M" using assign_fails [OF Back.hyps(3)] by blast
  then show ?case using Back.IH(2) Back.prems assign_back [OF Back.hyps] by simp
qed

section \<open>The maximum matching\<close>

fun match_loop ::
  "outboundCandidateSet list \<Rightarrow> int \<Rightarrow> string \<Rightarrow> nat list \<Rightarrow> (string \<times> nat) list \<Rightarrow> nat \<Rightarrow>
   (string \<times> nat) list \<times> nat" where
  "match_loop sets bs bm [] M k = (M, k)"
| "match_loop sets bs bm (i # is) M k =
     (case assign sets bs bm i (ids_of sets i) [] M of
        (b, _, M') \<Rightarrow> match_loop sets bs bm is M' (if b then Suc k else k))"

definition match_by_set :: "nat \<Rightarrow> (string \<times> nat) list \<Rightarrow> string list" where
  "match_by_set n M = fold (\<lambda>(m, i) ms. ms[i := m]) M (replicate n [])"

definition maximumOutboundCandidateMatching ::
  "outboundCandidateSet list \<Rightarrow> int \<Rightarrow> string \<Rightarrow> string list \<times> nat" where
  "maximumOutboundCandidateMatching sets bs bm =
     (case match_loop sets bs bm [0 ..< length sets] [] 0 of
        (M, k) \<Rightarrow> (match_by_set (length sets) M, k))"

definition forced_step ::
  "outboundCandidateSet list \<Rightarrow> string list \<Rightarrow> nat \<Rightarrow> nat \<Rightarrow> (string \<rightharpoonup> string) \<Rightarrow> (string \<rightharpoonup> string)" where
  "forced_step sets baseline baselineSize i forced =
     (let m = baseline ! i in
      case cset_send (sets ! i) of
        None \<Rightarrow> forced
      | Some s \<Rightarrow>
          if m = [] then forced
          else if snd (maximumOutboundCandidateMatching sets (int i) m) < baselineSize
          then forced(TransactionID s \<mapsto> m) else forced)"

definition forcedOutboundCandidateMatches :: "outboundCandidateSet list \<Rightarrow> (string \<rightharpoonup> string)" where
  "forcedOutboundCandidateMatches sets =
     (case maximumOutboundCandidateMatching sets (- 1) [] of
        (baseline, baselineSize) \<Rightarrow>
          if baselineSize = 0 then Map.empty
          else fold (forced_step sets baseline baselineSize) [0 ..< length baseline] Map.empty)"

section \<open>Matchings\<close>

definition is_matching ::
  "outboundCandidateSet list \<Rightarrow> int \<Rightarrow> string \<Rightarrow> (nat \<times> string) set \<Rightarrow> bool" where
  "is_matching sets bs bm N \<longleftrightarrow> (\<forall>(i, m) \<in> N. edge sets bs bm i m) \<and> inj_on fst N \<and> inj_on snd N"

definition maximum_matching :: "outboundCandidateSet list \<Rightarrow> (nat \<times> string) set \<Rightarrow> bool" where
  "maximum_matching sets N \<longleftrightarrow>
     is_matching sets (- 1) [] N \<and> (\<forall>N'. is_matching sets (- 1) [] N' \<longrightarrow> card N' \<le> card N)"

definition matching_of :: "string list \<Rightarrow> (nat \<times> string) set" where
  "matching_of ms = {(i, ms ! i) |i. i < length ms \<and> ms ! i \<noteq> []}"

definition loop_inv ::
  "outboundCandidateSet list \<Rightarrow> int \<Rightarrow> string \<Rightarrow> nat \<Rightarrow> (string \<times> nat) list \<Rightarrow> nat \<Rightarrow> bool" where
  "loop_inv sets bs bm n M k \<longleftrightarrow>
     distinct (map fst M) \<and> length M = k \<and> (\<forall>x. owned M x \<le> 1) \<and> (\<forall>x \<ge> n. owned M x = 0) \<and>
     (\<forall>m x. map_of M m = Some x \<longrightarrow> edge sets bs bm x m) \<and>
     (\<exists>D. dead sets bs bm M D \<and> (\<forall>x < n. owned M x = 0 \<longrightarrow> (\<forall>q. edge sets bs bm x q \<longrightarrow> q \<in> D)))"

lemma loop_step:
  assumes inv: "loop_inv sets bs bm n M k"
    and run: "assign sets bs bm n (ids_of sets n) [] M = (b, vis, M')"
  shows "loop_inv sets bs bm (Suc n) M' (if b then Suc k else k)"
proof -
  obtain D where D: "dead sets bs bm M D" "\<forall>x < n. owned M x = 0 \<longrightarrow> (\<forall>q. edge sets bs bm x q \<longrightarrow> q \<in> D)"
    using inv by (auto simp: loop_inv_def)
  show ?thesis
  proof (cases b)
    case True
    have run': "assign sets bs bm n (ids_of sets n) [] M = (True, vis, M')" using run True by simp
    note ok = assign_succeeds [OF run']
    have dM: "distinct (map fst M)" using inv by (simp add: loop_inv_def)
    have own: "owned M' x = owned M x + (if x = n then 1 else 0)" for x using ok dM by blast
    have "dead sets bs bm M' D"
      using D(1) assign_avoids [OF run' D(1)] by (simp add: dead_def)
    moreover have "\<forall>x < Suc n. owned M' x = 0 \<longrightarrow> (\<forall>q. edge sets bs bm x q \<longrightarrow> q \<in> D)"
      using D(2) own by (simp add: less_Suc_eq)
    moreover have "owned M' x \<le> 1" for x using inv own by (simp add: loop_inv_def)
    moreover have "edge sets bs bm x m" if "map_of M' m = Some x" for m x
      using ok [OF dM] that inv unfolding loop_inv_def edge_def by blast
    moreover have "\<forall>x \<ge> Suc n. owned M' x = 0" using inv own by (simp add: loop_inv_def)
    moreover have "distinct (map fst M')" "length M' = Suc k" using ok [OF dM] inv by (auto simp: loop_inv_def)
    ultimately show ?thesis using True unfolding loop_inv_def by auto
  next
    case False
    have "assign sets bs bm n (ids_of sets n) [] M = (False, vis, M')" using run False by simp
    note fail = assign_fails [OF this]
    have M': "M' = M" using fail by blast
    have own_n: "owned M n = 0" using inv by (simp add: loop_inv_def)
    have seen: "q \<in> set vis" if "edge sets bs bm n q" for q using fail that by (auto simp: edge_def)
    have "dead sets bs bm M (D \<union> set vis)"
      using D(1) fail unfolding dead_def by fastforce
    moreover have "\<forall>x < Suc n. owned M x = 0 \<longrightarrow> (\<forall>q. edge sets bs bm x q \<longrightarrow> q \<in> D \<union> set vis)"
      using D(2) seen by (auto simp: less_Suc_eq)
    ultimately show ?thesis
      using inv False M' unfolding loop_inv_def by (auto intro: Suc_leD)
  qed
qed

lemma match_loop_inv:
  "loop_inv sets bs bm n M k \<Longrightarrow> match_loop sets bs bm [n ..< n + l] M k = (M', k') \<Longrightarrow>
   loop_inv sets bs bm (n + l) M' k'"
proof (induction l arbitrary: n M k)
  case 0
  then show ?case by simp
next
  case (Suc l)
  obtain b vis M1 where run: "assign sets bs bm n (ids_of sets n) [] M = (b, vis, M1)" by (metis prod_cases3)
  have "[n ..< n + Suc l] = n # [Suc n ..< Suc n + l]" by (simp add: upt_conv_Cons)
  with Suc.prems(2) run have "match_loop sets bs bm [Suc n ..< Suc n + l] M1 (if b then Suc k else k) = (M', k')"
    by simp
  from Suc.IH [OF loop_step [OF Suc.prems(1) run] this] show ?case by simp
qed

lemma loop_inv_init: "loop_inv sets bs bm 0 [] 0"
  by (auto simp: loop_inv_def owned_def dead_def)

lemma count_le_distinct: "(\<And>x. count_list xs x \<le> 1) \<Longrightarrow> distinct xs"
proof (induction xs)
  case Nil
  then show ?case by simp
next
  case (Cons a xs)
  have "count_list xs x \<le> 1" for x using Cons.prems [of x] by (simp split: if_splits)
  moreover have "a \<notin> set xs" using Cons.prems [of a] by (auto simp: count_list_0_iff)
  ultimately show ?case using Cons.IH by simp
qed

lemma owned_pos: "distinct (map fst M) \<Longrightarrow> owned M i \<noteq> 0 \<Longrightarrow> \<exists>m. map_of M m = Some i"
  by (auto simp: owned_def count_list_0_iff)

text \<open>No matching is larger: every edge is charged to a matched message, a dead one to itself
  and any other to the partner of its set.\<close>

lemma loop_inv_maximum:
  assumes inv: "loop_inv sets bs bm (length sets) M k" and N: "is_matching sets bs bm N"
  shows "card N \<le> k"
proof -
  obtain D where D: "dead sets bs bm M D"
    "\<forall>x < length sets. owned M x = 0 \<longrightarrow> (\<forall>q. edge sets bs bm x q \<longrightarrow> q \<in> D)"
    using inv by (auto simp: loop_inv_def)
  have dM: "distinct (map fst M)" using inv by (simp add: loop_inv_def)
  define partner where "partner i = (SOME m. map_of M m = Some i)" for i
  define h where "h = (\<lambda>(i, m). if m \<in> D then m else partner i)"
  have partner: "map_of M (partner i) = Some i \<and> partner i \<notin> D"
    if e: "edge sets bs bm i m" "m \<notin> D" for i m
  proof -
    have "i < length sets" using e(1) by (auto simp: edge_def ids_of_def split: if_splits)
    then have "owned M i \<noteq> 0" using D(2) e by blast
    then have p: "map_of M (partner i) = Some i"
      unfolding partner_def using owned_pos [OF dM \<open>owned M i \<noteq> 0\<close>] by (metis (mono_tags, lifting) someI_ex)
    moreover have "partner i \<notin> D" using p D(1) e by (auto simp: dead_def)
    ultimately show ?thesis by simp
  qed
  have "inj_on h N"
  proof (rule inj_onI)
    fix x y assume x: "x \<in> N" and y: "y \<in> N" and eq: "h x = h y"
    obtain i m j q where xy: "x = (i, m)" "y = (j, q)" by (cases x, cases y)
    have e: "edge sets bs bm i m" "edge sets bs bm j q" using N x y xy by (auto simp: is_matching_def)
    consider "m \<in> D" "q \<in> D" | "m \<in> D" "q \<notin> D" | "m \<notin> D" "q \<in> D" | "m \<notin> D" "q \<notin> D" by blast
    then show "x = y"
    proof cases
      case 1
      then have "snd x = snd y" using eq xy by (simp add: h_def)
      with N x y show ?thesis unfolding is_matching_def by (blast dest: inj_onD)
    next
      case 2
      then have "m = partner j" using eq xy by (simp add: h_def)
      with partner [OF e(2) 2(2)] 2(1) show ?thesis by blast
    next
      case 3
      then have "partner i = q" using eq xy by (simp add: h_def)
      with partner [OF e(1) 3(1)] 3(2) show ?thesis by blast
    next
      case 4
      then have "partner i = partner j" using eq xy by (simp add: h_def)
      then have "Some i = Some j"
        using conjunct1 [OF partner [OF e(1) 4(1)]] conjunct1 [OF partner [OF e(2) 4(2)]] by metis
      then have "fst x = fst y" using xy by simp
      with N x y show ?thesis unfolding is_matching_def by (blast dest: inj_onD)
    qed
  qed
  moreover have "h ` N \<subseteq> fst ` set M"
  proof
    fix z assume "z \<in> h ` N"
    then obtain i m where im: "(i, m) \<in> N" "z = h (i, m)" by auto
    have e: "edge sets bs bm i m" using N im by (auto simp: is_matching_def)
    have "\<exists>j. map_of M z = Some j"
      using D(1) partner [OF e] im(2) by (cases "m \<in> D") (auto simp: h_def dead_def)
    then show "z \<in> fst ` set M" by (force dest: map_of_SomeD)
  qed
  ultimately have "card N \<le> card (fst ` set M)" by (intro card_inj_on_le) auto
  also have "\<dots> = length M" using dM distinct_card [of "map fst M"] by simp
  finally show ?thesis using inv by (simp add: loop_inv_def)
qed

section \<open>The matching by set\<close>

lemma fold_set_length [simp]: "length (fold (\<lambda>(m, i) ms. ms[i := m]) M acc) = length acc"
  by (induction M arbitrary: acc) auto

lemma fold_set_other:
  "i \<notin> snd ` set M \<Longrightarrow> fold (\<lambda>(m, i) ms. ms[i := m]) M acc ! i = acc ! i"
  by (induction M arbitrary: acc) auto

lemma fold_set_owner:
  "distinct (map snd M) \<Longrightarrow> (m, i) \<in> set M \<Longrightarrow> i < length acc \<Longrightarrow>
   fold (\<lambda>(m, i) ms. ms[i := m]) M acc ! i = m"
proof (induction M arbitrary: acc)
  case Nil
  then show ?case by simp
next
  case (Cons p M)
  obtain q j where p: "p = (q, j)" by (cases p)
  show ?case
  proof (cases "(m, i) = p")
    case True
    with Cons.prems p have "i \<notin> snd ` set M" by auto
    then show ?thesis using True p Cons.prems(3) by (simp add: fold_set_other)
  next
    case False
    then show ?thesis using Cons p by auto
  qed
qed

lemma matching_of_result:
  assumes inv: "loop_inv sets bs bm (length sets) M k"
  shows "matching_of (match_by_set (length sets) M) = {(i, m). map_of M m = Some i}"
proof -
  have dM: "distinct (map fst M)" using inv by (simp add: loop_inv_def)
  have dS: "distinct (map snd M)"
    using inv by (intro count_le_distinct) (simp add: loop_inv_def owned_def)
  have edge: "edge sets bs bm i m" if "(m, i) \<in> set M" for i m
    using inv that dM by (auto simp: loop_inv_def)
  have lt: "i < length sets" if "(m, i) \<in> set M" for i m
    using edge [OF that] by (auto simp: edge_def ids_of_def split: if_splits)
  have at: "match_by_set (length sets) M ! i = m" if "(m, i) \<in> set M" for i m
    unfolding match_by_set_def using fold_set_owner [OF dS that] lt [OF that] by simp
  have none: "match_by_set (length sets) M ! i = []" if "i \<notin> snd ` set M" "i < length sets" for i
    unfolding match_by_set_def using fold_set_other [OF that(1)] that(2) by simp
  have len: "length (match_by_set (length sets) M) = length sets" by (simp add: match_by_set_def)
  show ?thesis
  proof (intro set_eqI iffI)
    fix x assume "x \<in> matching_of (match_by_set (length sets) M)"
    then obtain i where i: "x = (i, match_by_set (length sets) M ! i)" "i < length sets"
      "match_by_set (length sets) M ! i \<noteq> []" by (auto simp: matching_of_def len)
    with none obtain m where "(m, i) \<in> set M" by force
    with i at dM show "x \<in> {(i, m). map_of M m = Some i}" by auto
  next
    fix x assume "x \<in> {(i, m). map_of M m = Some i}"
    then obtain i m where x: "x = (i, m)" "(m, i) \<in> set M" by (auto dest: map_of_SomeD)
    with at lt edge show "x \<in> matching_of (match_by_set (length sets) M)"
      by (auto simp: matching_of_def len edge_def intro!: exI [of _ i])
  qed
qed

lemma maximum_matching_result:
  assumes "maximumOutboundCandidateMatching sets bs bm = (ms, k)"
  shows "length ms = length sets \<and> is_matching sets bs bm (matching_of ms) \<and>
    card (matching_of ms) = k \<and> (\<forall>N. is_matching sets bs bm N \<longrightarrow> card N \<le> k)"
proof -
  obtain M where run: "match_loop sets bs bm [0 ..< 0 + length sets] [] 0 = (M, k)"
    and ms: "ms = match_by_set (length sets) M"
    using assms by (auto simp: maximumOutboundCandidateMatching_def split: prod.splits)
  have inv: "loop_inv sets bs bm (length sets) M k"
    using match_loop_inv [OF loop_inv_init run] by simp
  have dM: "distinct (map fst M)" using inv by (simp add: loop_inv_def)
  have dS: "distinct (map snd M)"
    using inv by (intro count_le_distinct) (simp add: loop_inv_def owned_def)
  have eq: "matching_of ms = (\<lambda>(m, i). (i, m)) ` set M"
    unfolding ms matching_of_result [OF inv] using dM by (force simp: image_iff)
  have "inj_on fst (matching_of ms)" "inj_on snd (matching_of ms)"
  proof -
    have "snd p = snd q \<longrightarrow> p = q" "fst p = fst q \<longrightarrow> p = q" if "p \<in> set M" "q \<in> set M" for p q
      using dM dS that by (auto simp: distinct_map dest: inj_onD)
    then show "inj_on fst (matching_of ms)" "inj_on snd (matching_of ms)"
      unfolding eq by (fastforce intro: inj_onI)+
  qed
  moreover have "\<forall>(i, m) \<in> matching_of ms. edge sets bs bm i m"
    using inv unfolding ms matching_of_result [OF inv] by (auto simp: loop_inv_def)
  moreover have "card (matching_of ms) = k"
  proof -
    have "card (matching_of ms) = card (set M)" unfolding eq by (rule card_image) (auto simp: inj_on_def)
    also have "\<dots> = length M" using dM by (intro distinct_card) (simp add: distinct_map)
    finally show ?thesis using inv by (simp add: loop_inv_def)
  qed
  ultimately show ?thesis
    using loop_inv_maximum [OF inv] by (simp add: is_matching_def ms match_by_set_def)
qed

end
