(* ===== verification/MatchingProperties.thy ===== *)
theory MatchingProperties
  imports Matching
begin

text \<open>
  The two routines of Matching are correct: the search finds a maximum matching, and the
  forced matches are exactly the edges that lie in every maximum matching.
\<close>

section \<open>Maximality\<close>

text \<open>C19: the augmenting-path search computes a maximum matching. For every list of candidate
  sets and every blocked edge, the result has one entry per set, the nonempty entries are
  allowed edges that share no set and no message, the returned size is their number, and no
  matching of the candidate graph without the blocked edge is larger.\<close>

theorem maximum_matching_correct:
  "case maximumOutboundCandidateMatching sets bs bm of (ms, k) \<Rightarrow>
     length ms = length sets \<and> is_matching sets bs bm (matching_of ms) \<and>
     card (matching_of ms) = k \<and> (\<forall>N. is_matching sets bs bm N \<longrightarrow> card N \<le> k)"
  using maximum_matching_result by (auto split: prod.splits)

section \<open>Forced edges\<close>

definition forced_pair ::
  "outboundCandidateSet list \<Rightarrow> string list \<Rightarrow> nat \<Rightarrow> nat \<Rightarrow> (string \<times> string) option" where
  "forced_pair sets baseline n i =
     (case cset_send (sets ! i) of
        None \<Rightarrow> None
      | Some s \<Rightarrow>
          if baseline ! i \<noteq> [] \<and> snd (maximumOutboundCandidateMatching sets (int i) (baseline ! i)) < n
          then Some (TransactionID s, baseline ! i) else None)"

lemma forced_step_pair:
  "forced_step sets baseline n i f =
     (case forced_pair sets baseline n i of None \<Rightarrow> f | Some (t, m) \<Rightarrow> f(t \<mapsto> m))"
  by (auto simp: forced_step_def forced_pair_def Let_def split: option.splits)

lemma fold_forced:
  assumes "\<And>i j t m m'. i \<in> set js \<Longrightarrow> j \<in> set js \<Longrightarrow> forced_pair sets baseline n i = Some (t, m) \<Longrightarrow>
             forced_pair sets baseline n j = Some (t, m') \<Longrightarrow> i = j"
  shows "fold (forced_step sets baseline n) js Map.empty t = Some m \<longleftrightarrow>
         (\<exists>i \<in> set js. forced_pair sets baseline n i = Some (t, m))"
  using assms
proof (induction js rule: rev_induct)
  case Nil
  then show ?case by simp
next
  case (snoc x xs)
  have IH: "fold (forced_step sets baseline n) xs Map.empty t = Some m \<longleftrightarrow>
      (\<exists>i \<in> set xs. forced_pair sets baseline n i = Some (t, m))"
    using snoc by (metis (no_types, lifting) UnCI set_append)
  show ?case
  proof (cases "forced_pair sets baseline n x")
    case None
    then show ?thesis using IH forced_step_pair [of sets baseline n x] by simp
  next
    case (Some p)
    obtain u q where p: "p = (u, q)" by (cases p)
    show ?thesis
    proof (cases "u = t")
      case True
      have "i = x" if "i \<in> set xs" "forced_pair sets baseline n i = Some (t, m)" for i
        using snoc.prems [of i x t m q] that Some p True by simp
      then show ?thesis using Some p True forced_step_pair [of sets baseline n x] by auto
    next
      case False
      then show ?thesis using IH Some p forced_step_pair [of sets baseline n x] by auto
    qed
  qed
qed

lemma edge_blocked: "edge sets (int i) m j q \<longleftrightarrow> edge sets (- 1) [] j q \<and> (j, q) \<noteq> (i, m)"
  by (auto simp: edge_def)

lemma matching_blocked:
  "is_matching sets (int i) m N \<longleftrightarrow> is_matching sets (- 1) [] N \<and> (i, m) \<notin> N"
  by (auto simp: is_matching_def edge_blocked)

lemma finite_matching: "is_matching sets bs bm N \<Longrightarrow> finite N"
proof -
  assume "is_matching sets bs bm N"
  then have "fst ` N \<subseteq> {..< length sets}" "inj_on fst N"
    by (auto simp: is_matching_def edge_def ids_of_def split: if_splits)
  then show ?thesis by (meson finite_lessThan finite_subset finite_imageD)
qed

definition distinct_sends :: "outboundCandidateSet list \<Rightarrow> bool" where
  "distinct_sends sets \<longleftrightarrow>
     distinct (filter (\<lambda>t. t \<noteq> None) (map (map_option TransactionID \<circ> cset_send) sets))"

lemma distinct_filter_nth:
  "distinct (filter p xs) \<Longrightarrow> i < length xs \<Longrightarrow> j < length xs \<Longrightarrow> xs ! i = xs ! j \<Longrightarrow> p (xs ! i) \<Longrightarrow> i = j"
proof (induction xs arbitrary: i j)
  case Nil
  then show ?case by simp
next
  case (Cons x xs)
  then show ?case
    by (cases i; cases j) (force split: if_splits)+
qed

lemma distinct_sendsD:
  "distinct_sends sets \<Longrightarrow> i < length sets \<Longrightarrow> j < length sets \<Longrightarrow> cset_send (sets ! i) = Some s \<Longrightarrow>
   cset_send (sets ! j) = Some s' \<Longrightarrow> TransactionID s = TransactionID s' \<Longrightarrow> i = j"
  unfolding distinct_sends_def by (erule distinct_filter_nth) simp_all

text \<open>C20: a match is forced exactly when no other explanation is as good. With one candidate
  set per send, \<open>forcedOutboundCandidateMatches\<close> gives the send \<open>t\<close> the message \<open>m\<close> if and
  only if that edge lies in every maximum matching of the candidate graph, and it never
  gives one message to two sends.\<close>

theorem forced_matches_exact:
  assumes "distinct_sends sets"
  shows "(forcedOutboundCandidateMatches sets t = Some m \<longleftrightarrow>
     (\<exists>i s. i < length sets \<and> cset_send (sets ! i) = Some s \<and> TransactionID s = t \<and>
        (\<forall>N. maximum_matching sets N \<longrightarrow> (i, m) \<in> N))) \<and>
    (forcedOutboundCandidateMatches sets t = Some m \<longrightarrow>
     forcedOutboundCandidateMatches sets t' = Some m \<longrightarrow> t = t')"
proof -
  obtain ms k where base: "maximumOutboundCandidateMatching sets (- 1) [] = (ms, k)" by fastforce
  note B = maximum_matching_result [OF base]
  have maxB: "maximum_matching sets (matching_of ms)" using B by (auto simp: maximum_matching_def)
  have every: "snd (maximumOutboundCandidateMatching sets (int i) q) < k \<longleftrightarrow>
      (\<forall>N. maximum_matching sets N \<longrightarrow> (i, q) \<in> N)" for i q
  proof -
    obtain ws l where w: "maximumOutboundCandidateMatching sets (int i) q = (ws, l)" by fastforce
    note W = maximum_matching_result [OF w, unfolded matching_blocked]
    show ?thesis
    proof
      assume less: "snd (maximumOutboundCandidateMatching sets (int i) q) < k"
      show "\<forall>N. maximum_matching sets N \<longrightarrow> (i, q) \<in> N"
      proof (intro allI impI)
        fix N assume N: "maximum_matching sets N"
        then have "card (matching_of ms) \<le> card N" using B unfolding maximum_matching_def by blast
        then have "l < card N" using less w B by simp
        then show "(i, q) \<in> N" using W N by (meson leD maximum_matching_def)
      qed
    next
      assume all: "\<forall>N. maximum_matching sets N \<longrightarrow> (i, q) \<in> N"
      have "l \<le> k" using B W by metis
      moreover have "l \<noteq> k"
      proof
        assume "l = k"
        then have "maximum_matching sets (matching_of ws)" using B W by (auto simp: maximum_matching_def)
        with all W show False by blast
      qed
      ultimately show "snd (maximumOutboundCandidateMatching sets (int i) q) < k" using w by simp
    qed
  qed
  have pair: "forced_pair sets ms k i = Some (t, m) \<longleftrightarrow>
      (\<exists>s. cset_send (sets ! i) = Some s \<and> TransactionID s = t \<and> m = ms ! i \<and> m \<noteq> [] \<and>
         (\<forall>N. maximum_matching sets N \<longrightarrow> (i, m) \<in> N))" for i t m
    by (auto simp: forced_pair_def every split: option.splits)
  have len: "length ms = length sets" using B by simp
  have uniq: "i = j" if "i \<in> set [0 ..< length ms]" "j \<in> set [0 ..< length ms]"
    "forced_pair sets ms k i = Some (t, m)" "forced_pair sets ms k j = Some (t, m')" for i j t m m'
    using that pair [of i] pair [of j] distinct_sendsD [OF assms, of i j] len by auto
  have zero: "k = 0 \<Longrightarrow> \<not> (\<forall>N. maximum_matching sets N \<longrightarrow> (i, m) \<in> N)" for i m
    using every [of i m] by simp
  have lookup: "forcedOutboundCandidateMatches sets t = Some m \<longleftrightarrow>
      (\<exists>i < length sets. forced_pair sets ms k i = Some (t, m))" for t m
  proof (cases "k = 0")
    case True
    then show ?thesis using zero pair by (auto simp: forcedOutboundCandidateMatches_def base)
  next
    case False
    then have "forcedOutboundCandidateMatches sets t = fold (forced_step sets ms k) [0 ..< length ms] Map.empty t"
      by (simp add: forcedOutboundCandidateMatches_def base)
    then show ?thesis using fold_forced [where js = "[0 ..< length ms]" and t = t and m = m, OF uniq] len by auto
  qed
  have inB: "(i, m) \<in> matching_of ms \<longleftrightarrow> i < length sets \<and> m = ms ! i \<and> m \<noteq> []" for i m
    by (auto simp: matching_of_def len)
  have "forcedOutboundCandidateMatches sets t = Some m \<longleftrightarrow>
     (\<exists>i s. i < length sets \<and> cset_send (sets ! i) = Some s \<and> TransactionID s = t \<and>
        (\<forall>N. maximum_matching sets N \<longrightarrow> (i, m) \<in> N))" for t
    unfolding lookup pair using maxB inB by blast
  moreover have "t = t'" if f: "forcedOutboundCandidateMatches sets t = Some m"
    "forcedOutboundCandidateMatches sets t' = Some m"
  proof -
    from f obtain i j where ij: "i < length sets" "j < length sets"
      "forced_pair sets ms k i = Some (t, m)" "forced_pair sets ms k j = Some (t', m)"
      unfolding lookup by blast
    have im: "(i, m) \<in> matching_of ms" "(j, m) \<in> matching_of ms"
      using ij(3,4) maxB unfolding pair by blast+
    have "inj_on snd (matching_of ms)" using B by (simp add: is_matching_def)
    from inj_onD [OF this _ im] have "i = j" by simp
    then show ?thesis using ij by simp
  qed
  ultimately show ?thesis by blast
qed

text \<open>The example of the source, A -> {A, B} and B -> {B}.\<close>

definition example_send :: "string \<Rightarrow> outbound_send" where
  "example_send t =
     \<lparr>BridgeID = [], UserLoginID = [], TransactionID = t, PortalKey = \<lparr>pk_id = [], pk_receiver = []\<rparr>,
      ConversationID = [], BindingConversationID = [], MatrixRoomID = [], MatrixEventID = [],
      MatrixSenderID = [], SenderID = [], InputTransactionID = [], MessageType = TextType,
      ContentHash = [], SourceMediaDigest = [], BaselineMessageIDs = [], RemoteMessageID = [],
      SendState = Submitting, TerminalAt = 0, StatusNotifiedAt = 0, StatusClaimToken = [],
      StatusClaimExpiresAt = 0, AttemptCount = 0, NextAttemptAt = 0, SendStartedAt = 0,
      CreatedAt = 0, UpdatedAt = 0\<rparr>"

definition example_sets :: "outboundCandidateSet list" where
  "example_sets =
     [\<lparr>cset_send = Some (example_send ''s''), messageIDs = [''a'', ''b'']\<rparr>,
      \<lparr>cset_send = Some (example_send ''t''), messageIDs = [''b'']\<rparr>]"

lemma forced_matches_exact_witness:
  "forcedOutboundCandidateMatches example_sets ''s'' = Some ''a'' \<and>
   (\<exists>i s. i < length example_sets \<and> cset_send (example_sets ! i) = Some s \<and> TransactionID s = ''s'' \<and>
      (\<forall>N. maximum_matching example_sets N \<longrightarrow> (i, ''a'') \<in> N))"
proof -
  have d: "distinct_sends example_sets"
    by (simp add: distinct_sends_def example_sets_def example_send_def)
  have "forcedOutboundCandidateMatches example_sets ''s'' = Some ''a''" by code_simp
  then show ?thesis using forced_matches_exact [OF d, of "''s''" "''a''"] by blast
qed

lemma maximum_matching_correct_witness:
  "is_matching example_sets (- 1) [] {(0, ''a''), (1, ''b'')} \<and>
   2 \<le> snd (maximumOutboundCandidateMatching example_sets (- 1) [])"
proof -
  have m: "is_matching example_sets (- 1) [] {(0, ''a''), (1, ''b'')}"
    by (simp add: is_matching_def edge_def example_sets_def ids_of_def)
  obtain ms k where r: "maximumOutboundCandidateMatching example_sets (- 1) [] = (ms, k)" by fastforce
  from maximum_matching_correct [of example_sets "- 1" "[]"] m r
  have "card {(0::nat, ''a''), (1, ''b'')} \<le> k" by (simp only: prod.case)
  then show ?thesis using m r by simp
qed

end
