(* ===== verification/TumblrErrors.thy ===== *)
theory TumblrErrors
  imports OutboundSend
begin

text \<open>
  Errors and their classification (pkg/tumblr/errors.go, pkg/connector/errors.go). An error
  value is a tree: the error types of the repository, the sentinels the code compares with,
  and wrappers (\<open>fmt.Errorf\<close> with \<open>%w\<close>, \<open>errors.Join\<close>). \<open>errors.As\<close> and \<open>errors.Is\<close> walk the
  tree depth first, parents before children; \<open>walk\<close> is that order, and a nil error is
  \<open>None\<close>.
\<close>

section \<open>Error values\<close>

record api_item =
  Title :: string
  Code :: int
  Detail :: string
  Logout :: bool

record api_error =
  StatusCode :: int
  Status :: string
  Errors :: "api_item list"
  Body :: string
  ErrorCode :: string
  CaptchaRequired :: bool

datatype sentinel =
    Canceled | DeadlineExceeded | UnexpectedEOF | NotLoggedIn | EditsNotSupported
  | MappingConflict | OutboundNotSubmitted | OutboundUnconfirmed
  | JobSuperseded | RateLimited | ClientRetired | NonDMBlockUser
  | BlogCannotMessage

datatype media_failure = MediaDownloadTransient | MediaDownloadPermanent

datatype go_error =
    ApiError api_error
  | MessageSendError "go_error option" bool "go_error option"
  | BootstrapError int string bool bool "go_error option"
  | RequestError string "go_error option"
  | NetError string
  | Sentinel sentinel
  | StoreError store_error
  | MatrixStatus bool string go_error
  | Wrapped string "go_error list"
  | Plain string
  | Deferred nat
  | BlockCheck string string string
  | MediaDownloadError media_failure int string

text \<open>\<open>Unwrap\<close>; \<open>errors.Join\<close> of a send error and its refresh error is a list here, because
  the joined value itself matches no target.\<close>

fun children :: "go_error \<Rightarrow> go_error list" where
  "children (MessageSendError e definite refresh) =
     (case refresh of
        Some r \<Rightarrow> (case e of Some x \<Rightarrow> [x, r] | None \<Rightarrow> [r])
      | None \<Rightarrow> (case e of Some x \<Rightarrow> [x] | None \<Rightarrow> []))"
| "children (BootstrapError c m a i cause) = (case cause of Some x \<Rightarrow> [x] | None \<Rightarrow> [])"
| "children (RequestError m cause) = (case cause of Some x \<Rightarrow> [x] | None \<Rightarrow> [])"
| "children (MatrixStatus certain m e) = [e]"
| "children (Wrapped m es) = es"
| "children _ = []"

lemma member_size: "x \<in> set xs \<Longrightarrow> size x < Suc (size_list size xs)"
  by (induction xs) auto

lemma children_smaller: "x \<in> set (children e) \<Longrightarrow> size x < size e"
  by (cases e) (auto split: option.splits dest: member_size)

function walk :: "go_error \<Rightarrow> go_error list" where
  "walk e = e # concat (map walk (children e))"
  by pat_completeness auto
termination
  by (relation "measure size") (auto dest: children_smaller)

declare walk.simps [simp del]

text \<open>\<open>errors.As\<close> for the types of the repository, \<open>errors.Is\<close> for a sentinel.\<close>

fun as_api :: "go_error \<Rightarrow> api_error option" where
  "as_api (ApiError a) = Some a"
| "as_api _ = None"

fun as_bootstrap :: "go_error \<Rightarrow> (int \<times> bool \<times> bool) option" where
  "as_bootstrap (BootstrapError c m a i cause) = Some (c, a, i)"
| "as_bootstrap _ = None"

fun as_send :: "go_error \<Rightarrow> (bool \<times> go_error option) option" where
  "as_send (MessageSendError e definite refresh) = Some (definite, refresh)"
| "as_send _ = None"

fun first_some :: "('a \<Rightarrow> 'b option) \<Rightarrow> 'a list \<Rightarrow> 'b option" where
  "first_some f [] = None"
| "first_some f (x # xs) = (case f x of Some y \<Rightarrow> Some y | None \<Rightarrow> first_some f xs)"

definition errors_as :: "(go_error \<Rightarrow> 'b option) \<Rightarrow> go_error \<Rightarrow> 'b option" where
  "errors_as f e = first_some f (walk e)"

definition errors_is :: "go_error \<Rightarrow> sentinel \<Rightarrow> bool" where
  "errors_is e s \<longleftrightarrow> Sentinel s \<in> set (walk e)"

lemma first_some_mem: "first_some f xs = Some y \<Longrightarrow> \<exists>x \<in> set xs. f x = Some y"
  by (induction xs) (auto split: option.splits)

lemma walk_size: "x \<in> set (walk e) \<Longrightarrow> size x \<le> size e"
proof (induction e rule: walk.induct)
  case (1 e)
  then show ?case
    by (subst (asm) (2) walk.simps) (fastforce dest: children_smaller)
qed

lemma as_send_smaller: "errors_as as_send e = Some (d, Some r) \<Longrightarrow> size r < size e"
proof -
  assume "errors_as as_send e = Some (d, Some r)"
  then obtain x where x: "x \<in> set (walk e)" "as_send x = Some (d, Some r)"
    by (auto simp: errors_as_def dest: first_some_mem)
  from x(2) have "size r < size x" by (cases x) auto
  with walk_size [OF x(1)] show ?thesis by simp
qed

section \<open>Classification\<close>

definition api_IsSessionInvalid :: "api_error \<Rightarrow> bool" where
  "api_IsSessionInvalid a \<longleftrightarrow> StatusCode a = 401 \<or> list_ex Logout (Errors a)"

definition api_IsForbidden :: "api_error \<Rightarrow> bool" where
  "api_IsForbidden a \<longleftrightarrow> StatusCode a = 403 \<and> \<not> api_IsSessionInvalid a"

definition api_IsNotFound :: "api_error \<Rightarrow> bool" where
  "api_IsNotFound a \<longleftrightarrow> StatusCode a = 404"

definition AuthRefreshFailed :: "bool \<times> go_error option \<Rightarrow> bool" where
  "AuthRefreshFailed s \<longleftrightarrow> snd s \<noteq> None"

definition IsMessageSendOutcomeUnknown :: "go_error \<Rightarrow> bool" where
  "IsMessageSendOutcomeUnknown e =
     (case errors_as as_send e of Some (definite, _) \<Rightarrow> \<not> definite | None \<Rightarrow> False)"

function IsSessionInvalid :: "go_error \<Rightarrow> bool" where
  "IsSessionInvalid e =
     (case errors_as as_send e of
        Some (d, Some r) \<Rightarrow> IsSessionInvalid r
      | _ \<Rightarrow>
          (case errors_as as_api e of Some a \<Rightarrow> api_IsSessionInvalid a | None \<Rightarrow> False) \<or>
          (case errors_as as_bootstrap e of Some (_, auth, _) \<Rightarrow> auth | None \<Rightarrow> False))"
  by pat_completeness auto
termination
  by (relation "measure size") (auto dest: as_send_smaller)

declare IsSessionInvalid.simps [simp del]

definition IsAuthError :: "go_error \<Rightarrow> bool" where
  "IsAuthError e = IsSessionInvalid e"

definition IsForbidden :: "go_error \<Rightarrow> bool" where
  "IsForbidden e = (case errors_as as_api e of Some a \<Rightarrow> api_IsForbidden a | None \<Rightarrow> False)"

definition ShouldRefreshAuth :: "go_error \<Rightarrow> bool \<Rightarrow> bool" where
  "ShouldRefreshAuth e mutating =
     (case errors_as as_send e of
        Some (d, Some r) \<Rightarrow> IsSessionInvalid r \<or> (mutating \<and> IsForbidden r)
      | _ \<Rightarrow> IsSessionInvalid e \<or> (mutating \<and> IsForbidden e))"

definition IsIncompleteSession :: "go_error \<Rightarrow> bool" where
  "IsIncompleteSession e = (case errors_as as_bootstrap e of Some (_, _, i) \<Rightarrow> i | None \<Rightarrow> False)"

definition NeedsEmailVerification :: "go_error \<Rightarrow> bool" where
  "NeedsEmailVerification e =
     (case errors_as as_api e of
        None \<Rightarrow> False
      | Some a \<Rightarrow> StatusCode a = 403 \<and> list_ex (\<lambda>i. Code i = 7001) (Errors a))"

definition IsNotFound :: "go_error \<Rightarrow> bool" where
  "IsNotFound e = (case errors_as as_api e of Some a \<Rightarrow> api_IsNotFound a | None \<Rightarrow> False)"

text \<open>The failures of a media download (media.go).\<close>

fun as_media :: "go_error \<Rightarrow> (media_failure \<times> int) option" where
  "as_media (MediaDownloadError f c m) = Some (f, c)"
| "as_media _ = None"

definition IsPermanentMediaDownloadError :: "go_error \<Rightarrow> bool" where
  "IsPermanentMediaDownloadError e =
     (case errors_as as_media e of Some (f, _) \<Rightarrow> f = MediaDownloadPermanent | None \<Rightarrow> False)"

definition IsServerMediaDownloadError :: "go_error \<Rightarrow> bool" where
  "IsServerMediaDownloadError e = (case errors_as as_media e of Some (_, c) \<Rightarrow> 500 \<le> c | None \<Rightarrow> False)"

definition IsTransientMediaDownloadError :: "go_error \<Rightarrow> bool" where
  "IsTransientMediaDownloadError e =
     (case errors_as as_media e of Some (f, _) \<Rightarrow> f = MediaDownloadTransient | None \<Rightarrow> False)"

definition newMediaDownloadError :: "media_failure \<Rightarrow> string \<Rightarrow> go_error" where
  "newMediaDownloadError failure msg = MediaDownloadError failure 0 msg"

section \<open>The connector's view\<close>

definition tumblrHTTPStatus :: "go_error \<Rightarrow> int" where
  "tumblrHTTPStatus e =
     (case errors_as as_api e of
        Some a \<Rightarrow> StatusCode a
      | None \<Rightarrow> (case errors_as as_bootstrap e of Some (c, _, _) \<Rightarrow> c | None \<Rightarrow> 0))"

definition as_net :: "go_error \<Rightarrow> unit option" where
  "as_net e = (case e of NetError _ \<Rightarrow> Some () | _ \<Rightarrow> None)"

definition isTumblrTemporaryFailure :: "go_error \<Rightarrow> bool" where
  "isTumblrTemporaryFailure e =
     (if tumblrHTTPStatus e \<noteq> 0 then tumblrHTTPStatus e = 429 \<or> 500 \<le> tumblrHTTPStatus e
      else errors_as as_net e \<noteq> None \<or> errors_is e UnexpectedEOF \<or> errors_is e DeadlineExceeded)"

definition isTumblrRequestsForbidden :: "go_error \<Rightarrow> bool" where
  "isTumblrRequestsForbidden e \<longleftrightarrow> \<not> IsSessionInvalid e \<and> tumblrHTTPStatus e = 403"

text \<open>The message status of a failed Matrix event: whether it is certain that nothing
  happened, the reason and status set beyond \<open>WrapErrorInStatus\<close> (\<open>None\<close> leaves the
  framework's default), the message, and whether a notice is sent.\<close>

datatype status_reason = ReasonNetworkError | ReasonNoPermission | ReasonUnsupported

record message_status =
  IsCertain :: bool
  ErrorReason :: "status_reason option"
  FailStatus :: bool
  StatusMessage :: string
  SendNotice :: bool
  WrappedError :: go_error

definition wrapped_status :: "go_error \<Rightarrow> message_status" where
  "wrapped_status e =
     \<lparr>IsCertain = False, ErrorReason = None, FailStatus = False, StatusMessage = [], SendNotice = True,
      WrappedError = e\<rparr>"

definition api_matrix_status :: "bool \<Rightarrow> go_error \<Rightarrow> string \<Rightarrow> api_error \<Rightarrow> message_status" where
  "api_matrix_status remoteForbidden e fallback a =
     (let wrapped = wrapped_status e; rejected = wrapped\<lparr>IsCertain := True\<rparr> in
      if StatusCode a = 403 \<and> remoteForbidden then
        rejected\<lparr>ErrorReason := Some ReasonNetworkError,
          StatusMessage := ''Tumblr is refusing requests from this account right now, try again later''\<rparr>
      else if NeedsEmailVerification e then
        rejected\<lparr>ErrorReason := Some ReasonNoPermission, FailStatus := True,
          StatusMessage := ''verify your email address on Tumblr, then try again''\<rparr>
      else if StatusCode a = 403 then
        rejected\<lparr>ErrorReason := Some ReasonNoPermission, FailStatus := True,
          StatusMessage := ''Tumblr didn't allow this''\<rparr>
      else if StatusCode a = 404 then
        rejected\<lparr>ErrorReason := Some ReasonNoPermission, FailStatus := True,
          StatusMessage := ''this Tumblr conversation is no longer available''\<rparr>
      else if StatusCode a = 413 then
        rejected\<lparr>ErrorReason := Some ReasonUnsupported, FailStatus := True,
          StatusMessage := ''too large for Tumblr''\<rparr>
      else if StatusCode a = 429 then
        rejected\<lparr>ErrorReason := Some ReasonNetworkError,
          StatusMessage := ''Tumblr is rate limiting requests, try again later''\<rparr>
      else if 500 \<le> StatusCode a then
        wrapped\<lparr>ErrorReason := Some ReasonNetworkError,
          StatusMessage := ''Tumblr is temporarily unavailable, try again later''\<rparr>
      else if 400 \<le> StatusCode a then
        rejected\<lparr>ErrorReason := Some ReasonNetworkError, FailStatus := True,
          StatusMessage := ''Tumblr rejected the request''\<rparr>
      else wrapped\<lparr>StatusMessage := fallback\<rparr>)"

definition tumblrMatrixErrorStatus :: "bool \<Rightarrow> go_error \<Rightarrow> string \<Rightarrow> message_status" where
  "tumblrMatrixErrorStatus remoteForbidden e fallback =
     (let wrapped = wrapped_status e; rejected = wrapped\<lparr>IsCertain := True\<rparr> in
      if errors_is e NotLoggedIn then rejected\<lparr>StatusMessage := ''not connected to Tumblr''\<rparr>
      else if IsSessionInvalid e then
        rejected\<lparr>ErrorReason := Some ReasonNetworkError,
          StatusMessage := ''Tumblr sign-in expired, reconnect Tumblr and try again''\<rparr>
      else if (case errors_as as_send e of Some s \<Rightarrow> AuthRefreshFailed s | None \<Rightarrow> False) then
        rejected\<lparr>StatusMessage := ''couldn't refresh the Tumblr sign-in, try again''\<rparr>
      else case errors_as as_api e of
          None \<Rightarrow> wrapped\<lparr>StatusMessage := fallback\<rparr>
        | Some a \<Rightarrow> api_matrix_status remoteForbidden e fallback a)"

datatype resp_error =
    RespSessionExpired | RespLimitExceeded | RespVerifyEmail | RespForbidden | RespUnreachable | RespUnexpected

text \<open>\<open>None\<close>: the error is returned as it is. Whether the error already carries a framework
  error response is the framework's type, the argument \<open>is_resp\<close>.\<close>

definition wrapTumblrRespError :: "(go_error \<Rightarrow> bool) \<Rightarrow> go_error \<Rightarrow> resp_error option" where
  "wrapTumblrRespError is_resp e =
     (let statusCode = tumblrHTTPStatus e in
      if is_resp e \<or> errors_is e NotLoggedIn then None
      else if IsSessionInvalid e then Some RespSessionExpired
      else if statusCode = 429 then Some RespLimitExceeded
      else if NeedsEmailVerification e then Some RespVerifyEmail
      else if statusCode = 403 then Some RespForbidden
      else if isTumblrTemporaryFailure e then Some RespUnreachable
      else Some RespUnexpected)"

section \<open>Laws\<close>

lemma walk_wrapped: "walk (Wrapped m [e]) = Wrapped m [e] # walk e"
  by (subst walk.simps) simp

lemma errors_as_wrapped: "f (Wrapped m [e]) = None \<Longrightarrow> errors_as f (Wrapped m [e]) = errors_as f e"
  by (simp add: errors_as_def walk_wrapped)

lemma as_wrapped [simp]:
  "errors_as as_api (Wrapped m [e]) = errors_as as_api e"
  "errors_as as_bootstrap (Wrapped m [e]) = errors_as as_bootstrap e"
  "errors_as as_send (Wrapped m [e]) = errors_as as_send e"
  by (simp_all add: errors_as_wrapped)

lemma as_net_wrapped [simp]: "errors_as as_net (Wrapped m [e]) = errors_as as_net e"
  by (rule errors_as_wrapped) (simp add: as_net_def)

lemma errors_is_wrapped [simp]: "errors_is (Wrapped m [e]) s = errors_is e s"
  by (simp add: errors_is_def walk_wrapped)

lemma session_invalid_wrapped [simp]: "IsSessionInvalid (Wrapped m [e]) = IsSessionInvalid e"
  by (subst (1 2) IsSessionInvalid.simps) (simp split: option.splits)

text \<open>C21: adding context never changes what an error means. Wrapping an error with
  \<open>fmt.Errorf("...: %w", err)\<close> leaves every classification the retry, refresh and reporting
  decisions depend on as it was.\<close>

theorem wrapping_preserves_classification:
  "IsSessionInvalid (Wrapped m [e]) = IsSessionInvalid e \<and>
   IsForbidden (Wrapped m [e]) = IsForbidden e \<and> IsNotFound (Wrapped m [e]) = IsNotFound e \<and>
   ShouldRefreshAuth (Wrapped m [e]) mutating = ShouldRefreshAuth e mutating \<and>
   IsMessageSendOutcomeUnknown (Wrapped m [e]) = IsMessageSendOutcomeUnknown e \<and>
   IsIncompleteSession (Wrapped m [e]) = IsIncompleteSession e \<and>
   NeedsEmailVerification (Wrapped m [e]) = NeedsEmailVerification e \<and>
   isTumblrTemporaryFailure (Wrapped m [e]) = isTumblrTemporaryFailure e \<and>
   isTumblrRequestsForbidden (Wrapped m [e]) = isTumblrRequestsForbidden e \<and>
   IsCertain (tumblrMatrixErrorStatus forbidden (Wrapped m [e]) fallback) =
   IsCertain (tumblrMatrixErrorStatus forbidden e fallback) \<and>
   StatusMessage (tumblrMatrixErrorStatus forbidden (Wrapped m [e]) fallback) =
   StatusMessage (tumblrMatrixErrorStatus forbidden e fallback)"
  by (simp add: IsForbidden_def IsNotFound_def ShouldRefreshAuth_def IsMessageSendOutcomeUnknown_def
      IsIncompleteSession_def NeedsEmailVerification_def isTumblrTemporaryFailure_def
      isTumblrRequestsForbidden_def tumblrHTTPStatus_def tumblrMatrixErrorStatus_def
      api_matrix_status_def wrapped_status_def Let_def
      split: option.splits)

text \<open>C22: the user is told "certainly not done" only when that is known. The status of a
  failed event claims certainty exactly when the login was not connected, the session is
  invalid, refreshing rejected credentials failed, or the first API error in the chain is a
  client error (400 to 499); a server error, an unreadable response or a lost connection
  never is certain.\<close>

theorem certain_only_when_rejected:
  "IsCertain (tumblrMatrixErrorStatus forbidden e fallback) \<longleftrightarrow>
     errors_is e NotLoggedIn \<or> IsSessionInvalid e \<or>
     (\<exists>d r. errors_as as_send e = Some (d, Some r)) \<or>
     (\<exists>a. errors_as as_api e = Some a \<and> 400 \<le> StatusCode a \<and> StatusCode a < 500)"
  by (auto simp: tumblrMatrixErrorStatus_def api_matrix_status_def wrapped_status_def Let_def
      AuthRefreshFailed_def NeedsEmailVerification_def split: option.splits prod.splits)

end
