(* ===== verification/Remote.thy ===== *)
theory Remote
  imports TumblrErrors "HOL-Library.Word"
begin

text \<open>
  The remote service's data as far as the connector reads it (pkg/tumblr/models.go), and the
  vocabulary of the HTTP client (pkg/tumblr/client.go): what it sends, what comes back, and
  the state it keeps between requests.
\<close>

section \<open>Conversations and messages\<close>

text \<open>Remote data (pkg/tumblr/models.go), as far as the connector reads it.\<close>

record image_asset =
  ia_URL :: string
  ia_Width :: int
  ia_Height :: int

record blog =
  bl_UUID :: string
  bl_Name :: string
  bl_Title :: string
  bl_CanMessage :: bool
  bl_IsGroupChannel :: bool
  bl_Avatar :: "image_asset list"

record message_image =
  mi_OriginalSize :: image_asset
  mi_AltSizes :: "image_asset list"

record remote_message =
  rm_ID :: string
  rm_Type :: string
  rm_Participant :: "blog option"
  rm_Text :: "string option"
  rm_PostID :: "string option"
  rm_Images :: "message_image list"
  rm_Timestamp :: int

record conversation =
  cv_ID :: string
  cv_Participants :: "blog list"
  cv_Messages :: "remote_message list"
  cv_LastReadTimestamp :: int
  cv_LastModifiedTimestamp :: int

section \<open>What is sent\<close>

record post_share =
  sh_ID :: string
  sh_Blog :: string
  sh_Type :: string

record image_upload =
  up_Data :: string
  up_FileName :: string
  up_ContentType :: string

record send_message_request =
  sr_ConversationID :: string
  sr_Participants :: "string list"
  sr_Type :: string
  sr_Participant :: string
  sr_StickerID :: string
  sr_Post :: "post_share option"
  sr_Message :: string

record multipart_form =
  mf_Fields :: "(string \<times> string) list"
  mf_FileField :: string
  mf_FileName :: string
  mf_FileContentType :: string
  mf_FileData :: string

text \<open>The bodies the client encodes: none, a message as JSON or as a form with a file, and the
  JSON objects of the other calls by their fields.\<close>

datatype request_body =
    NoBody
  | MessageBody send_message_request
  | FormBody multipart_form
  | FieldsBody "(string \<times> string) list"

section \<open>Requests and answers\<close>

text \<open>\<open>rq_base\<close> and \<open>rq_path\<close> are joined to the URL; query parameters in the order they are
  added. Redirects are followed (to allowed origins) or returned as they are.\<close>

record http_request =
  rq_method :: string
  rq_base :: string
  rq_path :: string
  rq_query :: "(string \<times> string) list"
  rq_body :: request_body
  rq_redirects :: bool
  rq_token :: string
  rq_version :: "string option"
  rq_csrf :: "string option"

text \<open>An answer: the status, the CSRF headers, the path the last request went to, and the body,
  unless reading it failed.\<close>

record http_answer =
  an_StatusCode :: int
  an_Status :: string
  an_csrf :: string
  an_csrf_token :: string
  an_path :: "string option"
  an_body :: "string option"

text \<open>The decoded envelope of an answer; the response proper stays encoded.\<close>

record api_envelope =
  en_MetaStatus :: int
  en_MetaMsg :: string
  en_Response :: string
  en_Errors :: "api_item list"
  en_ErrorCode :: string
  en_CaptchaRequired :: bool

text \<open>The client's own state. The generation counts the sets of credentials it loaded.\<close>

record http_client =
  cl_apiBaseURL :: string
  cl_apiToken :: string
  cl_csrfToken :: string
  cl_apiVersion :: string
  cl_recaptchaSiteKey :: string
  cl_authGeneration :: "64 word"

record send_response =
  sp_Conversation :: "conversation option"

end
