(* ===== verification/Connector.thy ===== *)
theory Connector
  imports OutboundRefinement Remote Runes
begin

text \<open>
  The state the connector's outbound code runs in (pkg/connector/outbound.go,
  pkg/connector/client.go): the database, the in-memory registrations of pending Matrix
  messages, the outbound send the current call works on, and the effects outside the
  database in the order they happen.

  The code passes one \<open>*OutboundSend\<close> around and its callees write through the pointer; the
  field \<open>w_send\<close> is that object, so that a caller sees what a failing callee wrote.
  \<open>time.Now()\<close>, the random sources, the context and every call that leaves the repository
  are read at the current tick, which each reading advances: two calls of \<open>time.Now()\<close>, or
  the same request made twice, may answer differently.

  The Matrix side (bridgev2, mautrix) and the remote service are not in the repository.
  \<open>env\<close> collects what the code calls of them: a \<open>foreign\<close> operation sees and changes the
  database, and answers, but cannot reach the connector's own memory. A theorem that needs
  documented behaviour of one names it as a hypothesis. Locks only serialise: an operation
  runs alone here, and interleavings are the business of the step relation of the store.
\<close>

section \<open>The world\<close>

datatype matrix_status = SuccessStatus | FailedStatus message_status

record event_info =
  ei_RoomID :: string
  ei_TransactionID :: string
  ei_SourceEventID :: string
  ei_IsImage :: bool
  ei_Sender :: string

text \<open>What the status sender asks of the Matrix server: the message status of a plain
  connector, and the checkpoint, status event, notice and receipt of the synchronous one;
  events carry the transaction ID they are sent under.\<close>

datatype matrix_request =
    PlainStatus matrix_status event_info
  | Checkpoint matrix_status event_info
  | StatusEvent matrix_status event_info string
  | StatusNotice matrix_status event_info string
  | DeliveryReceipt event_info

text \<open>What is handed to the framework's event queue: a message under its transaction ID, with its
  sender (and whether that is the login itself), and a read receipt.\<close>

datatype remote_event =
    MessageEvent portal_key remote_message string bool gotime string
  | ReceiptEvent portal_key string gotime

datatype effect =
    Requested matrix_request
  | FrameworkPendingAdded string
  | FrameworkPendingRemoved string
  | OutboundWoken
  | InboundWoken
  | Delivered remote_event
  | RoomRemoved string
  | ConnectFailed go_error
  | Posted string request_body "go_error option"

text \<open>The message of a registration: absent, without a portal, or in a portal's room.\<close>

datatype pending_message = NoMessage | NoPortal | InRoom string

text \<open>What a client remembers in memory: the conversations and messages it saw, with the order in
  which the messages are forgotten, the read receipts it passed on, the last complete walk of
  the conversation list with the checks it queued, and the pause after a rate limit.\<close>

record caches =
  ca_SeenConversations :: "string set"
  ca_SeenModified :: "string \<rightharpoonup> int"
  ca_ReadBridged :: "string \<rightharpoonup> int"
  ca_SeenMessages :: "string set"
  ca_SeenOrder :: "string list"
  ca_Listed :: "(string set \<times> gotime) option"
  ca_MissingQueued :: "string \<rightharpoonup> int \<times> gotime"
  ca_RateLimitedUntil :: millis

record world = db +
  w_clock :: "nat \<Rightarrow> gotime"
  w_random :: "nat \<Rightarrow> (nat \<Rightarrow> char) option"
  w_jitter :: "nat \<Rightarrow> nat"
  w_context :: "nat \<Rightarrow> go_error option"
  w_tick :: nat
  w_pending :: "string \<rightharpoonup> pending_message"
  w_send :: outbound_send
  w_client :: http_client
  w_caches :: caches
  w_effects :: "effect list"

type_synonym 'a act = "(go_error, world, 'a) oper"

abbreviation seq :: "unit act \<Rightarrow> 'a act \<Rightarrow> 'a act" where
  "seq m n \<equiv> andThen m (\<lambda>_. n)"

abbreviation fail :: "string \<Rightarrow> 'a act" where
  "fail msg \<equiv> raise (Plain msg)"

definition lift_store :: "(store_error, world, 'a) oper \<Rightarrow> 'a act" where
  "lift_store m w = (case m w of (Inl e, w') \<Rightarrow> (Inl (StoreError e), w') | (Inr x, w') \<Rightarrow> (Inr x, w'))"

text \<open>\<open>wrapping msg m\<close>: an error of \<open>m\<close> is returned as \<open>fmt.Errorf("msg: %w", err)\<close>.\<close>

definition wrapping :: "string \<Rightarrow> 'a act \<Rightarrow> 'a act" where
  "wrapping msg m w = (case m w of (Inl e, w') \<Rightarrow> (Inl (Wrapped msg [e]), w') | (Inr x, w') \<Rightarrow> (Inr x, w'))"

definition time_now :: "gotime act" where
  "time_now w = (Inr (w_clock w (w_tick w)), w\<lparr>w_tick := Suc (w_tick w)\<rparr>)"

definition random_bytes :: "nat \<Rightarrow> string option act" where
  "random_bytes n w =
     (Inr (map_option (\<lambda>f. map f [0 ..< n]) (w_random w (w_tick w))), w\<lparr>w_tick := Suc (w_tick w)\<rparr>)"

definition ctx_err :: "go_error option act" where
  "ctx_err w = (Inr (w_context w (w_tick w)), w\<lparr>w_tick := Suc (w_tick w)\<rparr>)"

definition the_send :: "outbound_send act" where
  "the_send w = (Inr (w_send w), w)"

definition update_send :: "(outbound_send \<Rightarrow> outbound_send) \<Rightarrow> unit act" where
  "update_send f w = (Inr (), w\<lparr>w_send := f (w_send w)\<rparr>)"

definition the_pending :: "(string \<rightharpoonup> pending_message) act" where
  "the_pending w = (Inr (w_pending w), w)"

definition put_pending :: "(string \<rightharpoonup> pending_message) \<Rightarrow> unit act" where
  "put_pending p w = (Inr (), w\<lparr>w_pending := p\<rparr>)"

definition the_client :: "http_client act" where
  "the_client w = (Inr (w_client w), w)"

definition update_client :: "(http_client \<Rightarrow> http_client) \<Rightarrow> unit act" where
  "update_client f w = (Inr (), w\<lparr>w_client := f (w_client w)\<rparr>)"

definition the_caches :: "caches act" where
  "the_caches w = (Inr (w_caches w), w)"

definition update_caches :: "(caches \<Rightarrow> caches) \<Rightarrow> unit act" where
  "update_caches f w = (Inr (), w\<lparr>w_caches := f (w_caches w)\<rparr>)"

definition emit :: "effect \<Rightarrow> unit act" where
  "emit e w = (Inr (), w\<lparr>w_effects := w_effects w @ [e]\<rparr>)"

text \<open>\<open>errors.Join\<close>.\<close>

definition join_errors :: "go_error \<Rightarrow> go_error \<Rightarrow> go_error" where
  "join_errors e f = Wrapped [] [e, f]"

text \<open>\<open>jitterDuration\<close> (inbound_sync.go): \<open>rand.Int64N(n)\<close> is any number below \<open>n\<close>.\<close>

definition jitterDuration :: "duration \<Rightarrow> duration \<Rightarrow> duration act" where
  "jitterDuration base spread w =
     (if spread \<le> 0 then (Inr base, w)
      else (Inr (base - spread + int (w_jitter w (w_tick w)) mod (2 * spread + 1)), w\<lparr>w_tick := Suc (w_tick w)\<rparr>))"

section \<open>Calls that leave the repository\<close>

type_synonym 'a foreign = "nat \<Rightarrow> db \<Rightarrow> (go_error + 'a) \<times> db"

definition foreign :: "'a foreign \<Rightarrow> 'a act" where
  "foreign m w =
     (case m (w_tick w) \<lparr>tbl = tbl w, faults = faults w\<rparr> of
        (r, d) \<Rightarrow> (r, w\<lparr>tbl := tbl d, faults := faults d, w_tick := Suc (w_tick w)\<rparr>))"

text \<open>Portals: the metadata of the repository (\<open>PortalMetadata\<close>, dbmeta.go) on the framework's
  object. \<open>pt_object\<close> is the identity of the cached object.\<close>

record portal_metadata =
  pm_ConversationID :: string
  pm_PendingParticipantIDs :: "string list"
  pm_PendingParticipantName :: string
  pm_ParticipantHash :: string

record portal_object =
  pt_object :: nat
  pt_bridge_id :: string
  pt_key :: portal_key
  pt_mxid :: string
  pt_meta :: "portal_metadata option"

record login_metadata =
  lm_SelectedBlogUUID :: string
  lm_SelectedBlogName :: string

record download =
  dl_Data :: string
  dl_SourceDigest :: string

datatype visual_hash = VisualHash string | VisualUnavailable | VisualError go_error

datatype matrix_sender =
    PlainSender
  | BrokenSender
  | SyncSender (status_events: bool) (error_notices: bool) (delivery_receipts: bool)

text \<open>The fields of the framework's \<open>MessageStatus\<close> the code reads, however the framework
  chose them.\<close>

record rendered_status =
  rs_status :: string
  rs_success :: bool
  rs_failure :: bool
  rs_decrypt_step :: bool
  rs_disable_mss :: bool
  rs_reason :: string
  rs_message :: string
  rs_certain :: bool
  rs_step :: string
  rs_retry :: int
  rs_notice :: bool

text \<open>\<open>e_blog_user\<close> stands for \<open>tumblrBlogUserID\<close> (pkg/connector/startchat.go): the user a blog
  is bridged as, empty when it has no valid identity. It rests on the URL parser of the
  standard library, and the outbound code only compares its results.\<close>

record env =
  e_bridge_id :: string
  e_login_id :: string
  e_pke :: "portal_key \<Rightarrow> bool"
  e_sha :: "string \<Rightarrow> string"
  e_visual :: "string \<Rightarrow> visual_hash"
  e_sender :: matrix_sender
  e_render :: "matrix_status \<Rightarrow> rendered_status"
  e_blog_user :: "blog \<Rightarrow> string"
  e_remote_forbidden :: bool
  e_begin_owned :: "bool foreign"
  e_request :: "matrix_request \<Rightarrow> unit foreign"
  e_portal :: "portal_key \<Rightarrow> portal_object option foreign"
  e_db_portal_by_key :: "portal_key \<Rightarrow> portal_object option foreign"
  e_db_portal_by_mxid :: "string \<Rightarrow> portal_object option foreign"
  e_portal_delete :: "portal_object \<Rightarrow> unit foreign"
  e_portal_refresh :: "portal_object \<Rightarrow> portal_object \<Rightarrow> unit foreign"
  e_portal_update_room :: "portal_object \<Rightarrow> portal_object \<Rightarrow> string \<Rightarrow> unit foreign"
  e_portal_save :: "portal_object \<Rightarrow> unit foreign"
  e_reid :: "portal_key \<Rightarrow> portal_key \<Rightarrow> unit foreign"
  e_ghost :: "string \<Rightarrow> unit foreign"
  e_message_by_mxid :: "string \<Rightarrow> message_row option foreign"
  e_message_by_id :: "string \<Rightarrow> string \<Rightarrow> message_row option foreign"
  e_message_insert :: "message_row \<Rightarrow> unit foreign"
  e_submission_lock :: "unit foreign"
  e_portal_lock :: "unit foreign"
  e_client :: "unit foreign"
  e_metadata :: "login_metadata foreign"
  e_by_participants :: "string \<Rightarrow> string \<Rightarrow> conversation option foreign"
  e_list_before :: "string \<Rightarrow> string \<Rightarrow> (conversation list \<times> (go_error + string)) foreign"
  e_download :: "string \<Rightarrow> download foreign"

section \<open>Store calls change the database only\<close>

text \<open>The outbound store and the inbound one share a database; a statement of the first does not
  touch the tables of the second.\<close>

definition inbox :: "tables \<Rightarrow> job_row list \<times> sync_state_row list \<times> conversation_sync_row list" where
  "inbox t = (jobs t, sync_states t, conversation_syncs t)"

definition framed :: "'a stmt \<Rightarrow> bool" where
  "framed f \<longleftrightarrow> (\<forall>t. inbox (snd (f t)) = inbox t)"

lemma inbox_outbound [simp]: "inbox (t\<lparr>outbound := o'\<rparr>) = inbox t" "inbox (t\<lparr>receipts := c\<rparr>) = inbox t"
  by (simp_all add: inbox_def)

lemma framed_basic:
  "framed (\<lambda>t. (g t, t))" "framed (update_outbound p f)" "framed (delete_outbound p)"
  "framed (insertOutboundSend r)" "framed (insertOutboundTerminalReceipt b l x)"
  by (auto simp: framed_def update_outbound_def delete_outbound_def insertOutboundSend_def
      insertOutboundTerminalReceipt_def Let_def split: option.split)

lemma framed_statements [moves_intros]:
  "framed (\<lambda>t. (g t, t))" "framed (insertOutboundSend r)" "framed (insertOutboundTerminalReceipt b l x)"
  "framed (prepareOutboundSendConversation b l x conv nx up)"
  "framed (markOutboundSendSubmitting b l x base st nx up)"
  "framed (markPreparedOutboundNotSubmitted b l x trm nx)"
  "framed (markSubmittingOutboundNotSubmitted b l x trm nx)"
  "framed (claimOutboundStatusDelivery b l x token ex up)"
  "framed (finishOutboundStatusDelivery b l x token trm nx)"
  "framed (releaseOutboundStatusDelivery b l x token up)"
  "framed (markOutboundSendAwaitingEcho b l x nx up)" "framed (markOutboundSendUncertain b l x nx up)"
  "framed (markOutboundSendUnconfirmed b l x trm nx up)"
  "framed (markResolvedOutboundSendUnconfirmed b l x remote trm nx up)"
  "framed (markOutboundSendCompleted b l x remote trm nx)"
  "framed (scheduleOutboundSendRetry b l x nx up)" "framed (deletePreparedOutboundSend b l x)"
  unfolding prepareOutboundSendConversation_def markOutboundSendSubmitting_def
    markPreparedOutboundNotSubmitted_def markSubmittingOutboundNotSubmitted_def
    claimOutboundStatusDelivery_def finishOutboundStatusDelivery_def releaseOutboundStatusDelivery_def
    markOutboundSendAwaitingEcho_def markOutboundSendUncertain_def markOutboundSendUnconfirmed_def
    markResolvedOutboundSendUnconfirmed_def markOutboundSendCompleted_def scheduleOutboundSendRetry_def
    deletePreparedOutboundSend_def
  by (rule framed_basic)+

lemma inbox_update: "inbox (snd (update_outbound p f t)) = inbox t" "inbox (snd (delete_outbound p t)) = inbox t"
  using framed_basic(2) [of p f] framed_basic(3) [of p] by (simp_all add: framed_def)

lemma framed_scanning [moves_intros]:
  "framed (bindOutboundSendConversation b l x key conv nx up)"
  "framed (claimOutboundRemoteMessage b l x remote conv nx up)"
  "framed (deleteNotSubmittedOutboundSend b l x)" "framed (deleteUnconfirmedOutboundSend b l x)"
  by (simp_all add: framed_def bindOutboundSendConversation_def claimOutboundRemoteMessage_def
      deleteNotSubmittedOutboundSend_def deleteUnconfirmedOutboundSend_def inbox_update)

lemma framed_terminalize [moves_intros]: "framed (terminalizeOutboundConversation b l conv trm nx)"
  unfolding framed_def terminalizeOutboundConversation_def
proof
  fix t
  let ?u = "update_outbound (terminalizable b l conv)
    (\<lambda>r. r\<lparr>ob_state := (if ob_state r = Prepared then NotSubmitted else Unconfirmed),
      ob_terminal_ts := trm, ob_next_attempt_ts := nx, ob_updated_ts := trm\<rparr>) t"
  obtain r u where u: "?u = (r, u)" by fastforce
  have "inbox (snd ?u) = inbox t" by (rule inbox_update(1))
  then have "inbox u = inbox t" by (simp only: u snd_conv)
  then show "inbox (snd (case ?u of (Inl e, t') \<Rightarrow> (Inl e, t')
      | (Inr n, t') \<Rightarrow> (Inr (map ob_transaction_id (filter (terminalizable b l conv) (outbound t))), t'))) = inbox t"
    unfolding u by (cases r) simp_all
qed

definition db_change :: "world \<Rightarrow> world \<Rightarrow> bool" where
  "db_change w w' \<longleftrightarrow> w_tick w' = w_tick w \<and> w_pending w' = w_pending w \<and> w_send w' = w_send w \<and>
     w_client w' = w_client w \<and> w_caches w' = w_caches w \<and> w_effects w' = w_effects w \<and>
     inbox (tbl w') = inbox (tbl w)"

lemma db_change_rtrancl: "db_change\<^sup>*\<^sup>* w w' \<Longrightarrow> db_change w w'"
  by (induction rule: rtranclp_induct) (auto simp: db_change_def)

lemma db_only_exec [moves_intros]: "framed f \<Longrightarrow> moves db_change (exec f)"
proof -
  assume f: "framed f"
  have "db_change w (snd (exec f w))" for w :: world
  proof (cases "f (tbl w)")
    case (Pair r t)
    then have "inbox t = inbox (tbl w)" using f unfolding framed_def by (metis snd_conv)
    then show ?thesis using Pair by (auto simp: exec_def db_change_def split: list.split bool.split)
  qed
  then show ?thesis by (auto simp: moves_def)
qed

lemma db_only_query [moves_intros]: "moves db_change (query g)"
  unfolding query_def by (intro moves_intros)

lemma db_only_doTxn [moves_intros]:
  assumes "moves db_change m"
  shows "moves db_change (doTxn m)"
  unfolding moves_def
proof
  fix w :: world
  have "db_change w (snd (m w))" using db_change_rtrancl [OF movesD [OF assms, of w]] .
  then have "db_change w (snd (doTxn m w))"
    by (auto simp: doTxn_def db_change_def split: prod.split sum.split list.split bool.split)
  then show "db_change\<^sup>*\<^sup>* w (snd (doTxn m w))" by blast
qed

lemma db_only_rounds: "moves db_change (insert_rounds pke bid s base now n)"
proof (induction n)
  case 0
  show ?case unfolding insert_rounds.simps by (intro moves_intros)
next
  case (Suc n)
  show ?case
    unfolding insert_rounds.simps isMatrixEventMapped_def isMatrixEventClaimed_def hasTerminalReceipt_def
      Outbound_Get_def
    by (intro moves_intros Suc)
qed

lemma db_only_receipts: "moves db_change (ensure_receipts b l xs)"
proof (induction xs)
  case Nil
  show ?case unfolding ensure_receipts.simps by (intro moves_intros)
next
  case (Cons x xs)
  show ?case unfolding ensure_receipts.simps ensureTerminalReceipt_def by (intro moves_intros Cons)
qed

lemma db_only [moves_intros]:
  "moves db_change (Outbound_Get pke b l x)"
  "moves db_change (Outbound_GetByRemoteID pke b l conv x)"
  "moves db_change (Outbound_GetNextDue pke b l now)"
  "moves db_change (Outbound_ListUnbound pke b l)"
  "moves db_change (Outbound_ListMatchable pke b l conv)"
  "moves db_change (Outbound_LoadOrCreate pke b s now)"
  "moves db_change (Outbound_PrepareConversationBinding pke b l x conv nx now)"
  "moves db_change (Outbound_BindConversation pke b l x conv key nx now)"
  "moves db_change (Outbound_MarkSubmitting b l x ids st nx now)"
  "moves db_change (Outbound_ClaimPreparedNotSubmitted b l x trm nx)"
  "moves db_change (Outbound_MarkSubmittingNotSubmitted b l x trm nx)"
  "moves db_change (Outbound_MarkAwaitingEcho b l x nx now)"
  "moves db_change (Outbound_MarkUncertain b l x nx now)"
  "moves db_change (Outbound_MarkUnconfirmed b l x trm nx)"
  "moves db_change (Outbound_MarkResolvedUnconfirmed b l x remote trm nx)"
  "moves db_change (Outbound_MarkCompleted pke b l x remote trm)"
  "moves db_change (Outbound_TerminalizeConversation b l conv trm nx)"
  "moves db_change (Outbound_ScheduleRetry b l x nx now)"
  "moves db_change (Outbound_ClaimRemoteMessage b l x conv remote nx now)"
  "moves db_change (Outbound_ClaimStatusDelivery b l x token ex now)"
  "moves db_change (Outbound_FinishStatusDelivery pke b l x token trm ex)"
  "moves db_change (Outbound_ReleaseStatusDelivery b l x token now)"
  "moves db_change (Outbound_DeletePrepared b l x)"
  "moves db_change (Outbound_DeleteNotSubmitted b l x)"
  "moves db_change (Outbound_DeleteUnconfirmed b l x)"
  unfolding Outbound_Get_def Outbound_GetByRemoteID_def Outbound_GetNextDue_def Outbound_ListUnbound_def
    Outbound_ListMatchable_def Outbound_LoadOrCreate_def Outbound_PrepareConversationBinding_def
    Outbound_BindConversation_def Outbound_MarkSubmitting_def Outbound_ClaimPreparedNotSubmitted_def
    Outbound_MarkSubmittingNotSubmitted_def markNotSubmitted_def withTerminalReceipt_def
    ensureTerminalReceipt_def requirePendingOutboundSend_def require_changed_def
    Outbound_MarkAwaitingEcho_def Outbound_MarkUncertain_def Outbound_MarkUnconfirmed_def
    Outbound_MarkResolvedUnconfirmed_def Outbound_MarkCompleted_def Outbound_TerminalizeConversation_def
    Outbound_ScheduleRetry_def Outbound_ClaimRemoteMessage_def Outbound_ClaimStatusDelivery_def
    Outbound_FinishStatusDelivery_def Outbound_ReleaseStatusDelivery_def Outbound_DeletePrepared_def
    Outbound_DeleteNotSubmitted_def Outbound_DeleteUnconfirmed_def isMatrixEventMapped_def
    isMatrixEventClaimed_def hasTerminalReceipt_def
  by (intro moves_intros db_only_rounds db_only_receipts)+

lemma moves_lift [moves_intros]: "moves R m \<Longrightarrow> moves R (lift_store m)"
proof -
  assume "moves R m"
  moreover have "snd (lift_store m w) = snd (m w)" for w
    by (auto simp: lift_store_def split: prod.splits sum.splits)
  ultimately show ?thesis by (simp add: moves_def)
qed

lemma moves_wrapping [moves_intros]: "moves R m \<Longrightarrow> moves R (wrapping msg m)"
proof -
  assume "moves R m"
  moreover have "snd (wrapping msg m w) = snd (m w)" for w
    by (auto simp: wrapping_def split: prod.splits sum.splits)
  ultimately show ?thesis by (simp add: moves_def)
qed

section \<open>Tame operations\<close>

text \<open>A tame operation takes quiet steps on the tables, those that submit nothing, and posts no
  message to the remote service.\<close>

fun is_post :: "effect \<Rightarrow> bool" where
  "is_post (Posted ev rq err) = True"
| "is_post _ = False"

definition posts :: "world \<Rightarrow> effect list" where
  "posts w = filter is_post (w_effects w)"

text \<open>What the program does to the world outside: it posts a message, hands an event to the framework,
  or has a room removed.\<close>

fun is_deed :: "effect \<Rightarrow> bool" where
  "is_deed (Posted ev rq err) = True"
| "is_deed (Delivered ev) = True"
| "is_deed (RoomRemoved x) = True"
| "is_deed _ = False"

definition deeds :: "world \<Rightarrow> effect list" where
  "deeds w = filter is_deed (w_effects w)"

lemma posts_deeds: "posts w = filter is_post (deeds w)"
proof -
  have "(is_deed e \<and> is_post e) = is_post e" for e by (cases e) simp_all
  then show ?thesis by (simp add: posts_def deeds_def)
qed

lemma posts_same: "deeds w' = deeds w \<Longrightarrow> posts w' = posts w"
  by (simp add: posts_deeds)

definition tame :: "(portal_key \<Rightarrow> bool) \<Rightarrow> world \<Rightarrow> world \<Rightarrow> bool" where
  "tame pke w w' \<longleftrightarrow> on_tables (quiet_move pke) w w' \<and> posts w' = posts w"

lemma tame_rtrancl:
  assumes "(tame pke)\<^sup>*\<^sup>* w w'"
  shows "(quiet_move pke)\<^sup>*\<^sup>* (tbl w) (tbl w') \<and> posts w' = posts w"
  using assms by (induction rule: rtranclp_induct) (auto simp: tame_def on_tables_def)

text \<open>Tame, leaving the inbound tables alone, and doing nothing to the world outside.\<close>

definition aloof :: "(portal_key \<Rightarrow> bool) \<Rightarrow> world \<Rightarrow> world \<Rightarrow> bool" where
  "aloof pke w w' \<longleftrightarrow> tame pke w w' \<and> inbox (tbl w') = inbox (tbl w) \<and> deeds w' = deeds w"

text \<open>The documented behaviour the theorems rely on: whatever the framework and the remote
  service do, they write the framework's tables only. \<open>leaves\<close> says so of the outbound tables,
  \<open>leaves_all\<close> of the inbound ones too; \<open>outside_env F E\<close> of every call of \<open>E\<close>.\<close>

definition leaves :: "db \<Rightarrow> db \<Rightarrow> bool" where
  "leaves d d' \<longleftrightarrow> outbound (tbl d') = outbound (tbl d) \<and> receipts (tbl d') = receipts (tbl d) \<and>
     set (logins (tbl d)) \<subseteq> set (logins (tbl d'))"

definition leaves_all :: "db \<Rightarrow> db \<Rightarrow> bool" where
  "leaves_all d d' \<longleftrightarrow> leaves d d' \<and> inbox (tbl d') = inbox (tbl d)"

definition stays :: "(db \<Rightarrow> db \<Rightarrow> bool) \<Rightarrow> 'a foreign \<Rightarrow> bool" where
  "stays F m \<longleftrightarrow> (\<forall>n d. F d (snd (m n d)))"

abbreviation leaves_store :: "'a foreign \<Rightarrow> bool" where
  "leaves_store \<equiv> stays leaves"

definition outside_env :: "(db \<Rightarrow> db \<Rightarrow> bool) \<Rightarrow> env \<Rightarrow> bool" where
  "outside_env F E \<longleftrightarrow>
     stays F (e_begin_owned E) \<and> (\<forall>r. stays F (e_request E r)) \<and> (\<forall>k. stays F (e_portal E k)) \<and>
     (\<forall>k. stays F (e_db_portal_by_key E k)) \<and> (\<forall>x. stays F (e_db_portal_by_mxid E x)) \<and>
     (\<forall>p. stays F (e_portal_delete E p)) \<and> (\<forall>p q. stays F (e_portal_refresh E p q)) \<and>
     (\<forall>p q x. stays F (e_portal_update_room E p q x)) \<and>
     (\<forall>p. stays F (e_portal_save E p)) \<and> (\<forall>k k'. stays F (e_reid E k k')) \<and>
     (\<forall>u. stays F (e_ghost E u)) \<and> (\<forall>x. stays F (e_message_by_mxid E x)) \<and>
     (\<forall>r x. stays F (e_message_by_id E r x)) \<and> (\<forall>m. stays F (e_message_insert E m)) \<and>
     stays F (e_submission_lock E) \<and> stays F (e_portal_lock E) \<and> stays F (e_client E) \<and>
     stays F (e_metadata E) \<and> (\<forall>x y. stays F (e_by_participants E x y)) \<and>
     (\<forall>x y. stays F (e_list_before E x y)) \<and> (\<forall>u. stays F (e_download E u))"

abbreviation foreign_env :: "env \<Rightarrow> bool" where
  "foreign_env \<equiv> outside_env leaves"

section \<open>Relations the outbound code respects\<close>

text \<open>
  What the connector's outbound operations are shown to do is the same for every relation \<open>R\<close>
  of worlds that admits the quiet steps of the outbound tables which leave the inbound tables
  alone, everything in memory but a deed, and what the framework may do to the database
  (\<open>F\<close>). The operations' own lemmas are proved once, for any such relation.
\<close>

locale quiet_relation =
  fixes R :: "(portal_key \<Rightarrow> bool) \<Rightarrow> world \<Rightarrow> world \<Rightarrow> bool"
    and F :: "db \<Rightarrow> db \<Rightarrow> bool"
  assumes quiet: "(quiet_move pke)\<^sup>*\<^sup>* (tbl w) (tbl w') \<Longrightarrow> inbox (tbl w') = inbox (tbl w) \<Longrightarrow>
      deeds w' = deeds w \<Longrightarrow> R pke w w'"
    and outsider: "F \<lparr>tbl = tbl w, faults = faults w\<rparr> d \<Longrightarrow> deeds w' = deeds w \<Longrightarrow> tbl w' = tbl d \<Longrightarrow> R pke w w'"
begin

lemma same: "tbl w' = tbl w \<Longrightarrow> deeds w' = deeds w \<Longrightarrow> R pke w w'"
  by (rule quiet) simp_all

lemma local_moves [moves_intros]:
  "moves (R pke) time_now" "moves (R pke) (random_bytes n)" "moves (R pke) ctx_err"
  "moves (R pke) the_send" "moves (R pke) (update_send f)"
  "moves (R pke) the_pending" "moves (R pke) (put_pending p)"
  "moves (R pke) the_client" "moves (R pke) (update_client g)"
  "moves (R pke) the_caches" "moves (R pke) (update_caches h)"
  "moves (R pke) (jitterDuration base spread)"
  by (auto simp: moves_def deeds_def time_now_def random_bytes_def ctx_err_def
      the_send_def update_send_def the_pending_def put_pending_def the_client_def update_client_def
      the_caches_def update_caches_def jitterDuration_def intro!: r_into_rtranclp same)

lemma emit_moves: "\<not> is_deed e \<Longrightarrow> moves (R pke) (emit e)"
  by (auto simp: moves_def deeds_def emit_def intro!: r_into_rtranclp same)

lemma effects_moves [moves_intros]:
  "moves (R pke) (emit (Requested r))" "moves (R pke) (emit (FrameworkPendingAdded x))"
  "moves (R pke) (emit (FrameworkPendingRemoved x))" "moves (R pke) (emit OutboundWoken)"
  "moves (R pke) (emit InboundWoken)"
  "moves (R pke) (emit (ConnectFailed err))"
  by (simp_all add: emit_moves)

lemma store_moves:
  assumes "moves (on_tables (quiet_move pke)) m" and "moves db_change m"
  shows "moves (R pke) m"
  unfolding moves_def
proof
  fix w :: world
  have "(quiet_move pke)\<^sup>*\<^sup>* (tbl w) (tbl (snd (m w)))"
    using on_tables_rtrancl [OF movesD [OF assms(1)]] .
  moreover have "deeds (snd (m w)) = deeds w" and "inbox (tbl (snd (m w))) = inbox (tbl w)"
    using db_change_rtrancl [OF movesD [OF assms(2), of w]] by (auto simp: db_change_def deeds_def)
  ultimately have "R pke w (snd (m w))" by (intro quiet)
  then show "(R pke)\<^sup>*\<^sup>* w (snd (m w))" by blast
qed

lemma stays_moves:
  assumes "stays F m"
  shows "moves (R pke) (foreign m)"
  unfolding moves_def
proof (intro allI r_into_rtranclp)
  fix w :: world
  show "R pke w (snd (foreign m w))"
    by (rule outsider [of w "snd (m (w_tick w) \<lparr>tbl = tbl w, faults = faults w\<rparr>)"])
      (use assms in \<open>auto simp: stays_def foreign_def deeds_def split: prod.split\<close>)
qed

lemma env_moves [moves_intros]:
  assumes "outside_env F E"
  shows "moves (R pke) (foreign (e_begin_owned E))"
    and "moves (R pke) (foreign (e_request E r))"
    and "moves (R pke) (foreign (e_portal E k))"
    and "moves (R pke) (foreign (e_db_portal_by_key E k))"
    and "moves (R pke) (foreign (e_db_portal_by_mxid E x))"
    and "moves (R pke) (foreign (e_portal_delete E p))"
    and "moves (R pke) (foreign (e_portal_refresh E p q))"
    and "moves (R pke) (foreign (e_portal_update_room E p q x))"
    and "moves (R pke) (foreign (e_portal_save E p))"
    and "moves (R pke) (foreign (e_reid E k k'))"
    and "moves (R pke) (foreign (e_ghost E u))"
    and "moves (R pke) (foreign (e_message_by_mxid E x))"
    and "moves (R pke) (foreign (e_message_by_id E r' x))"
    and "moves (R pke) (foreign (e_message_insert E m))"
    and "moves (R pke) (foreign (e_submission_lock E))"
    and "moves (R pke) (foreign (e_portal_lock E))"
    and "moves (R pke) (foreign (e_client E))"
    and "moves (R pke) (foreign (e_metadata E))"
    and "moves (R pke) (foreign (e_by_participants E x y))"
    and "moves (R pke) (foreign (e_list_before E x y))"
    and "moves (R pke) (foreign (e_download E u))"
  using assms by (auto simp: outside_env_def intro: stays_moves)

end

lemma leaves_move:
  assumes "leaves \<lparr>tbl = t, faults = fs\<rparr> d"
  shows "(quiet_move pke)\<^sup>*\<^sup>* t (tbl d)"
proof -
  have "outbound_step pke t None (tbl d)"
    using assms by (intro outbound_step.environment) (simp_all add: leaves_def)
  then show ?thesis by (rule stmt_step)
qed

interpretation tamed: quiet_relation tame leaves
  by unfold_locales (auto simp: tame_def on_tables_def intro: leaves_move posts_same)

interpretation aloofness: quiet_relation aloof leaves_all
  by unfold_locales (auto simp: aloof_def tame_def on_tables_def leaves_all_def intro: leaves_move posts_same)

lemma tame_emit: "\<not> is_post e \<Longrightarrow> moves (tame pke) (emit e)"
  by (auto simp: moves_def tame_def on_tables_def posts_def emit_def intro!: r_into_rtranclp)

lemma tame_deeds [moves_intros]: "moves (tame pke) (emit (Delivered ev))" "moves (tame pke) (emit (RoomRemoved x))"
  by (simp_all add: tame_emit)

lemma aloof_rtrancl:
  assumes "(aloof pke)\<^sup>*\<^sup>* w w'"
  shows "inbox (tbl w') = inbox (tbl w) \<and> deeds w' = deeds w"
  using assms by (induction rule: rtranclp_induct) (auto simp: aloof_def)

lemma aloofD:
  assumes "moves (aloof pke) m" and "m w = (r, w')"
  shows "inbox (tbl w') = inbox (tbl w) \<and> deeds w' = deeds w"
  using aloof_rtrancl [OF movesD [OF assms(1), of w]] assms(2) by simp

end
