(* ===== verification/OutboundWorker.thy ===== *)
theory OutboundWorker
  imports Connector
begin

text \<open>
  Reporting and recovery of outbound sends (pkg/connector/outbound.go): the identifiers and
  fingerprints of a send, the in-memory registration of its Matrix event, the mapping of a
  resolved send to its remote message, the delivery of a final status under the store's
  lease, and what recovery does with a send whose outcome is not known. Functions appear in
  the order of the file. \<open>E\<close> is what the connector is wired to; the send a function works on
  is \<open>w_send\<close>, except where the code reads a copy.
\<close>

section \<open>Constants\<close>

definition outboundResolvedDelay :: duration where "outboundResolvedDelay = second"
definition outboundStatusClaimTTL :: duration where "outboundStatusClaimTTL = 2 * minute"
definition outboundRecoveryRetry :: duration where "outboundRecoveryRetry = 5 * minute"
definition outboundRecoveryRetryMax :: duration where "outboundRecoveryRetryMax = hour"
definition outboundRecoveryMaxAge :: duration where "outboundRecoveryMaxAge = 24 * hour"
definition outboundTerminalRetention :: duration where "outboundTerminalRetention = 30 * 24 * hour"

definition outboundUnconfirmedMessage :: string where
  "outboundUnconfirmedMessage =
     ''Tumblr may have sent this message, but Beeper couldn't confirm it. It wasn't sent again to avoid a duplicate.''"

definition outboundNotSubmittedMessage :: string where
  "outboundNotSubmittedMessage = ''Tumblr did not receive this message. Try sending it again.''"

section \<open>Identifiers and fingerprints\<close>

definition outboundTransactionID :: "(string \<Rightarrow> string) \<Rightarrow> string \<Rightarrow> string \<Rightarrow> string" where
  "outboundTransactionID sha loginID eventID =
     ''tumblr-outbound-'' @ hex_encode (sha (loginID @ [char_of (0::nat)] @ eventID))"

definition newOutboundStatusClaimToken :: "string act" where
  "newOutboundStatusClaimToken =
     andThen (random_bytes 16) (\<lambda>token.
     case token of
       None \<Rightarrow> raise (Wrapped ''generate outbound status claim token'' [Plain ''random source failed''])
     | Some bytes \<Rightarrow> ret (hex_encode bytes))"

fun decimal :: "nat \<Rightarrow> string" where
  "decimal n = (if n < 10 then [] else decimal (n div 10)) @ [char_of (n mod 10 + 48)]"

declare decimal.simps [simp del]

definition decimal_int :: "int \<Rightarrow> string" where
  "decimal_int i = (if i < 0 then CHR ''-'' # decimal (nat (- i)) else decimal (nat i))"

text \<open>One field of the hashed text: its length, a colon, the field.\<close>

definition status_frame :: "string \<Rightarrow> string" where
  "status_frame field = decimal (length field) @ '':'' @ field"

definition status_fields :: "outbound_send \<Rightarrow> rendered_status \<Rightarrow> string \<Rightarrow> string list" where
  "status_fields s st channel =
     [''tumblr-outbound-status-v1'', channel, BridgeID s, UserLoginID s, TransactionID s,
      MatrixRoomID s, MatrixEventID s, InputTransactionID s, rs_status st, rs_reason st,
      rs_message st, (if rs_certain st then ''true'' else ''false''), rs_step st,
      decimal_int (rs_retry st)]"

definition outboundStatusTransactionID ::
  "(string \<Rightarrow> string) \<Rightarrow> outbound_send \<Rightarrow> rendered_status \<Rightarrow> string \<Rightarrow> string" where
  "outboundStatusTransactionID sha s st channel =
     ''tumblr-status-'' @ hex_encode (sha (concat (map status_frame (status_fields s st channel))))"

definition type_text :: "message_type \<Rightarrow> string" where
  "type_text t =
     (case t of TextType \<Rightarrow> ''TEXT'' | ImageType \<Rightarrow> ''IMAGE'' | PostRefType \<Rightarrow> ''POSTREF'' | TypeText x \<Rightarrow> x)"

definition outboundMessageType :: "string \<Rightarrow> go_error + message_type" where
  "outboundMessageType t =
     (if t = ''TEXT'' then Inr TextType
      else if t = ''IMAGE'' then Inr ImageType
      else if t = ''POSTREF'' then Inr PostRefType
      else Inl (Plain (''unsupported outbound Tumblr message type '' @ t)))"

text \<open>\<open>outboundContentHash\<close>: \<open>visual\<close> is the visual hash of decoded image pixels
  (\<open>HashVisualImageContent\<close>), whose decoders are libraries. The error of an unsupported medium
  carries the framework's sentinel, not the cause.\<close>

definition outboundContentHash ::
  "(string \<Rightarrow> string) \<Rightarrow> (string \<Rightarrow> visual_hash) \<Rightarrow> string \<Rightarrow> string \<Rightarrow> string \<Rightarrow> string option \<Rightarrow>
   go_error + string" where
  "outboundContentHash sha visual t text img post =
     (if t = ''TEXT'' then Inr (sha text)
      else if t = ''IMAGE'' then
        (if img = [] then Inl (Plain ''outbound image content is empty'')
         else case visual img of
             VisualUnavailable \<Rightarrow> Inr (sha img)
           | VisualError e \<Rightarrow> Inl (Plain ''unsupported media type'')
           | VisualHash h \<Rightarrow> Inr h)
      else if t = ''POSTREF'' then
        (case post of
           None \<Rightarrow> Inl (Plain ''outbound post ID is missing'')
         | Some p \<Rightarrow> if blank p then Inl (Plain ''outbound post ID is missing'') else Inr (sha (trim_space p)))
      else Inl (Plain (''unsupported outbound Tumblr message type '' @ t)))"

section \<open>The bridged message\<close>

definition maxTumblrTimestampFutureSkew :: duration where
  "maxTumblrTimestampFutureSkew = 24 * hour"

definition tumblrTimestamp :: "int \<Rightarrow> gotime" where
  "tumblrTimestamp ts = (if 1000000000000 < ts then ts * millisecond else ts * second)"

definition saneTumblrTimestamp :: "int \<Rightarrow> gotime \<Rightarrow> gotime option" where
  "saneTumblrTimestamp ts reference =
     (if ts \<le> 0 then None
      else if reference + maxTumblrTimestampFutureSkew < tumblrTimestamp ts then None
      else Some (tumblrTimestamp ts))"

definition message_of_send :: "outbound_send \<Rightarrow> gotime \<Rightarrow> message_row" where
  "message_of_send s timestamp =
     \<lparr>ms_bridge_id = [], ms_id = RemoteMessageID s, ms_mxid = MatrixEventID s, ms_room = PortalKey s,
      ms_sender_id = SenderID s, ms_sender_mxid = MatrixSenderID s, ms_timestamp = timestamp,
      ms_send_txn_id = InputTransactionID s, ms_message_type = MessageType s\<rparr>"

definition outboundDatabaseMessage :: "outbound_send \<Rightarrow> remote_message option \<Rightarrow> message_row act" where
  "outboundDatabaseMessage s remote =
     (case remote of
        None \<Rightarrow> ret (message_of_send s (SendStartedAt s))
      | Some m \<Rightarrow>
          andThen time_now (\<lambda>now.
          ret (message_of_send s
            (case saneTumblrTimestamp (rm_Timestamp m) now of Some ts \<Rightarrow> ts | None \<Rightarrow> SendStartedAt s))))"

section \<open>Registrations\<close>

definition registerOutboundPending :: "pending_message \<Rightarrow> outbound_send \<Rightarrow> message_row act" where
  "registerOutboundPending msg s =
     andThen (outboundDatabaseMessage s None) (\<lambda>dbMessage.
     andThen the_pending (\<lambda>pending.
     seq (put_pending (pending(TransactionID s \<mapsto> msg)))
     (seq (emit (FrameworkPendingAdded (TransactionID s)))
     (ret (dbMessage\<lparr>ms_id := []\<rparr>)))))"

definition dropOutboundPending :: "string \<Rightarrow> bool \<Rightarrow> unit act" where
  "dropOutboundPending txnID removeFramework =
     andThen the_pending (\<lambda>pending.
     seq (put_pending (pending(txnID := None)))
     (case pending txnID of
        Some msg \<Rightarrow> if removeFramework \<and> msg \<noteq> NoMessage then emit (FrameworkPendingRemoved txnID) else ret ()
      | None \<Rightarrow> ret ()))"

definition activeOutboundPending :: "outbound_send \<Rightarrow> bool act" where
  "activeOutboundPending s =
     andThen the_pending (\<lambda>pending. ret (pending (TransactionID s) = Some (InRoom (MatrixRoomID s))))"

definition Worker_terminalizeOutboundConversation :: "env \<Rightarrow> string \<Rightarrow> unit act" where
  "Worker_terminalizeOutboundConversation E conversationID =
     andThen time_now (\<lambda>now.
     andThen (lift_store (Outbound_TerminalizeConversation (e_bridge_id E) (e_login_id E) conversationID
        now (now + millisecond))) (\<lambda>txnIDs.
     seq (foldr (\<lambda>txnID rest. seq (dropOutboundPending txnID True) rest) txnIDs (ret ()))
     (emit OutboundWoken)))"

section \<open>Mapping a resolved send\<close>

definition mapping_conflict :: "string \<Rightarrow> go_error" where
  "mapping_conflict msg = Wrapped msg [Sentinel MappingConflict]"

definition mapped_message :: "outbound_send \<Rightarrow> message_row \<Rightarrow> message_row" where
  "mapped_message s m =
     m\<lparr>ms_id := RemoteMessageID s, ms_mxid := MatrixEventID s, ms_room := PortalKey s,
       ms_sender_id := SenderID s, ms_sender_mxid := MatrixSenderID s, ms_send_txn_id := InputTransactionID s,
       ms_timestamp := (if is_zero (ms_timestamp m) then SendStartedAt s else ms_timestamp m)\<rparr>"

text \<open>What a failed insertion means: another writer may have stored the same mapping, or a
  conflicting one. Errors of the two lookups are not looked at.\<close>

definition explain_insert_failure :: "env \<Rightarrow> outbound_send \<Rightarrow> go_error \<Rightarrow> unit act" where
  "explain_insert_failure E s err =
     attempt (foreign (e_message_by_mxid E (MatrixEventID s))) (\<lambda>byMXID.
     if (case byMXID of Inr (Some m) \<Rightarrow> ms_id m = RemoteMessageID s \<and> ms_room m = PortalKey s | _ \<Rightarrow> False)
     then ret ()
     else attempt (foreign (e_message_by_id E (pk_receiver (PortalKey s)) (RemoteMessageID s))) (\<lambda>byRemote.
     if (case byRemote of Inr (Some m) \<Rightarrow> ms_mxid m \<noteq> MatrixEventID s \<or> ms_room m \<noteq> PortalKey s | _ \<Rightarrow> False)
     then raise (mapping_conflict [])
     else raise (Wrapped ''save Tumblr outbound message mapping'' [err])))"

definition persistOutboundMapping :: "env \<Rightarrow> outbound_send \<Rightarrow> message_row \<Rightarrow> unit act" where
  "persistOutboundMapping E s dbMessage =
     (if SendState s \<noteq> Resolved \<or> RemoteMessageID s = [] \<or> ConversationID s = []
      then fail ''tumblr outbound send is not resolved''
      else let m = mapped_message s dbMessage in
        andThen (wrapping ''load Tumblr portal for outbound mapping'' (foreign (e_portal E (PortalKey s)))) (\<lambda>portal.
        case portal of
          None \<Rightarrow> raise (mapping_conflict ''Tumblr portal for outbound mapping does not exist'')
        | Some p \<Rightarrow>
            if pt_mxid p = [] \<or> pt_mxid p \<noteq> MatrixRoomID s
            then raise (mapping_conflict ''Tumblr portal does not own the outbound Matrix room'')
            else seq (wrapping ''load Tumblr sender for outbound mapping'' (foreign (e_ghost E (SenderID s))))
              (andThen (foreign (e_message_by_mxid E (MatrixEventID s))) (\<lambda>existingByMXID.
               case existingByMXID of
                 Some x \<Rightarrow>
                   if ms_id x \<noteq> RemoteMessageID s \<or> ms_room x \<noteq> PortalKey s
                   then raise (mapping_conflict ''matrix event is already mapped to another Tumblr message'')
                   else ret ()
               | None \<Rightarrow>
                   andThen (foreign (e_message_by_id E (pk_receiver (PortalKey s)) (RemoteMessageID s))) (\<lambda>existingByRemote.
                   case existingByRemote of
                     Some x \<Rightarrow>
                       if ms_mxid x \<noteq> MatrixEventID s \<or> ms_room x \<noteq> PortalKey s
                       then raise (Sentinel MappingConflict)
                       else ret ()
                   | None \<Rightarrow>
                       attempt (foreign (e_message_insert E m)) (\<lambda>inserted.
                       case inserted of
                         Inl err \<Rightarrow> explain_insert_failure E s err
                       | Inr _ \<Rightarrow> ret ()))))))"

text \<open>\<open>outboundEchoHandler\<close>: its result is always that nothing is saved and no status is sent,
  so only its effects are left. \<open>remoteID\<close> is the echoed message, \<open>dbMessage\<close> the framework's
  pending row.\<close>

text \<open>\<open>seenMessageCacheKey\<close>, \<open>storeSeenMessageLocked\<close> and \<open>markConversationMessageSeen\<close> (sync.go): the
  newest 10000 messages are remembered, in the order they were first seen.\<close>

definition maxSeenMessages :: nat where "maxSeenMessages = 10000"

definition seenMessageCacheKey :: "string \<Rightarrow> string \<Rightarrow> string" where
  "seenMessageCacheKey conversationID messageID =
     (if conversationID = [] then messageID else conversationID @ char_of (0::nat) # messageID)"

definition storeSeenMessageLocked :: "string \<Rightarrow> caches \<Rightarrow> caches" where
  "storeSeenMessageLocked key c =
     (if key \<in> ca_SeenMessages c then c
      else let order = ca_SeenOrder c @ [key];
               excess = length order - maxSeenMessages in
        c\<lparr>ca_SeenMessages := insert key (ca_SeenMessages c) - set (take excess order),
          ca_SeenOrder := drop excess order\<rparr>)"

definition markConversationMessageSeen :: "string \<Rightarrow> string \<Rightarrow> unit act" where
  "markConversationMessageSeen conversationID messageID =
     (if \<not> validRemoteID messageID \<or> (conversationID \<noteq> [] \<and> \<not> validRemoteID conversationID) then ret ()
      else update_caches (storeSeenMessageLocked (seenMessageCacheKey conversationID messageID)))"

definition outboundEchoHandler :: "env \<Rightarrow> string \<Rightarrow> string \<Rightarrow> message_row \<Rightarrow> unit act" where
  "outboundEchoHandler E txnID remoteID dbMessage =
     attempt (foreign (e_begin_owned E)) (\<lambda>owned.
     if owned \<noteq> Inr True then ret ()
     else seq (dropOutboundPending txnID False)
       (attempt (lift_store (Outbound_Get (e_pke E) (e_bridge_id E) (e_login_id E) txnID)) (\<lambda>loaded.
        case loaded of
          Inr (Some s) \<Rightarrow>
            if SendState s \<noteq> Resolved \<or> RemoteMessageID s \<noteq> remoteID then emit OutboundWoken
            else attempt (persistOutboundMapping E s
                   (dbMessage\<lparr>ms_id := remoteID, ms_room := PortalKey s, ms_sender_id := SenderID s,
                     ms_sender_mxid := MatrixSenderID s, ms_send_txn_id := InputTransactionID s,
                     ms_message_type := MessageType s\<rparr>)) (\<lambda>saved.
                 case saved of
                   Inl _ \<Rightarrow> emit OutboundWoken
                 | Inr _ \<Rightarrow> seq (markConversationMessageSeen (ConversationID s) remoteID) (emit OutboundWoken))
        | _ \<Rightarrow> emit OutboundWoken)))"

definition retainCompletedOutbound :: "env \<Rightarrow> unit act" where
  "retainCompletedOutbound E =
     andThen the_send (\<lambda>s.
     andThen time_now (\<lambda>completedAt.
     seq (wrapping ''retain completed Tumblr outbound send''
            (lift_store (Outbound_MarkCompleted (e_pke E) (e_bridge_id E) (UserLoginID s) (TransactionID s)
               (RemoteMessageID s) completedAt)))
     (update_send (\<lambda>s. s\<lparr>SendState := Completed, TerminalAt := completedAt,
        NextAttemptAt := timeFromMillis outboundCompletedReceiptUnixMilli\<rparr>))))"

section \<open>Reporting a status\<close>

definition event_info_of :: "outbound_send \<Rightarrow> event_info" where
  "event_info_of s =
     \<lparr>ei_RoomID = MatrixRoomID s, ei_TransactionID = InputTransactionID s, ei_SourceEventID = MatrixEventID s,
      ei_IsImage = (MessageType s = ImageType), ei_Sender = MatrixSenderID s\<rparr>"

definition request :: "env \<Rightarrow> matrix_request \<Rightarrow> unit act" where
  "request E r = seq (emit (Requested r)) (foreign (e_request E r))"

definition provided :: "bool \<Rightarrow> unit act \<Rightarrow> unit act" where
  "provided b m = (if b then m else ret ())"

definition sendOutboundStatus :: "env \<Rightarrow> matrix_status \<Rightarrow> unit act" where
  "sendOutboundStatus E st =
     andThen the_send (\<lambda>s.
     if MatrixRoomID s = [] then fail ''matrix room for Tumblr outbound status is unavailable''
     else if MatrixEventID s = [] then fail ''matrix event for Tumblr outbound status is unavailable''
     else let info = event_info_of s; rs = e_render E st in
       (case e_sender E of
          PlainSender \<Rightarrow> attempt (request E (PlainStatus st info)) (\<lambda>_. ret ())
        | BrokenSender \<Rightarrow> fail ''synchronous matrix status sender is unavailable''
        | SyncSender mss notices delivery \<Rightarrow>
            attempt (request E (Checkpoint st info)) (\<lambda>_.
            seq (provided (\<not> rs_disable_mss rs \<and> mss)
                  (wrapping ''send Tumblr outbound Matrix status event''
                    (request E (StatusEvent st info (outboundStatusTransactionID (e_sha E) s rs ''mss'')))))
            (seq (provided (rs_notice rs \<and> notices \<and> (rs_failure rs \<or> rs_decrypt_step rs))
                  (wrapping ''send Tumblr outbound Matrix status notice''
                    (request E (StatusNotice st info (outboundStatusTransactionID (e_sha E) s rs ''notice'')))))
            (provided (rs_success rs \<and> delivery)
                  (wrapping ''send Tumblr outbound Matrix delivery receipt''
                    (request E (DeliveryReceipt info))))))))"

section \<open>Delivering a final status under a lease\<close>

text \<open>The two outcomes of the request under a claim: release the claim, or finish it.\<close>

definition release_status_claim :: "env \<Rightarrow> string \<Rightarrow> go_error \<Rightarrow> unit act" where
  "release_status_claim E token err =
     andThen the_send (\<lambda>s.
     andThen time_now (\<lambda>now.
     attempt (lift_store (Outbound_ReleaseStatusDelivery (e_bridge_id E) (UserLoginID s) (TransactionID s) token now)) (\<lambda>released.
     seq (update_send (\<lambda>s. s\<lparr>StatusClaimToken := [], StatusClaimExpiresAt := zero_time\<rparr>))
     (raise (case released of Inl e \<Rightarrow> join_errors err e | Inr _ \<Rightarrow> err)))))"

definition finish_status_claim :: "env \<Rightarrow> string \<Rightarrow> unit act" where
  "finish_status_claim E token =
     andThen the_send (\<lambda>s.
     andThen time_now (\<lambda>notifiedAt.
     let expiresAt = notifiedAt + outboundTerminalRetention in
     seq (lift_store (Outbound_FinishStatusDelivery (e_pke E) (e_bridge_id E) (UserLoginID s) (TransactionID s)
           token notifiedAt expiresAt))
     (update_send (\<lambda>s. s\<lparr>NextAttemptAt := expiresAt, StatusNotifiedAt := notifiedAt,
        StatusClaimToken := [], StatusClaimExpiresAt := zero_time\<rparr>))))"

definition notifyOutboundStatusAtLeastOnce :: "env \<Rightarrow> matrix_status \<Rightarrow> unit act" where
  "notifyOutboundStatusAtLeastOnce E st =
     andThen the_send (\<lambda>s.
     if \<not> is_zero (StatusNotifiedAt s) then ret ()
     else andThen newOutboundStatusClaimToken (\<lambda>token.
       andThen time_now (\<lambda>t0.
       let expires = t0 + outboundStatusClaimTTL in
       andThen time_now (\<lambda>now.
       andThen (lift_store (Outbound_ClaimStatusDelivery (e_bridge_id E) (UserLoginID s) (TransactionID s)
         token expires now)) (\<lambda>claimed.
       if \<not> claimed then ret ()
       else seq (update_send (\<lambda>s. s\<lparr>StatusClaimToken := token, StatusClaimExpiresAt := expires\<rparr>))
         (attempt (sendOutboundStatus E st) (\<lambda>sent.
          case sent of
            Inl err \<Rightarrow> release_status_claim E token err
          | Inr _ \<Rightarrow> finish_status_claim E token)))))))"

definition parkOutboundUnconfirmed :: "env \<Rightarrow> gotime \<Rightarrow> unit act" where
  "parkOutboundUnconfirmed E now0 =
     andThen (if is_zero now0 then time_now else ret now0) (\<lambda>now.
     andThen the_send (\<lambda>s.
     let nextAttemptAt = now + millisecond in
     seq (lift_store
           (if SendState s = Resolved
            then Outbound_MarkResolvedUnconfirmed (e_bridge_id E) (UserLoginID s) (TransactionID s)
                   (RemoteMessageID s) now nextAttemptAt
            else Outbound_MarkUnconfirmed (e_bridge_id E) (UserLoginID s) (TransactionID s) now nextAttemptAt))
     (seq (update_send (\<lambda>s. s\<lparr>SendState := Unconfirmed, RemoteMessageID := [], TerminalAt := now,
        NextAttemptAt := nextAttemptAt\<rparr>))
     (dropOutboundPending (TransactionID s) True))))"

section \<open>Recovery\<close>

text \<open>The loop of \<open>outboundRecoveryBackoff\<close>; the argument is the number of rounds left.\<close>

fun backoff_loop :: "nat \<Rightarrow> duration \<Rightarrow> duration" where
  "backoff_loop 0 backoff = backoff"
| "backoff_loop (Suc n) backoff =
     (if backoff < outboundRecoveryRetryMax
      then backoff_loop n (if outboundRecoveryRetryMax < backoff * 2 then outboundRecoveryRetryMax else backoff * 2)
      else backoff)"

definition outboundRecoveryBackoff :: "int \<Rightarrow> duration act" where
  "outboundRecoveryBackoff attempt_number =
     (let a = (if attempt_number < 1 then 1 else attempt_number);
          backoff = backoff_loop (nat (a - 1)) outboundRecoveryRetry
      in jitterDuration backoff (backoff div 5))"

definition markOutboundUncertain :: "env \<Rightarrow> gotime \<Rightarrow> unit act" where
  "markOutboundUncertain E now =
     andThen the_send (\<lambda>s.
     andThen (outboundRecoveryBackoff (AttemptCount s + 1)) (\<lambda>backoff.
     let nextAttempt = now + backoff in
     andThen time_now (\<lambda>now'.
     seq (lift_store (Outbound_MarkUncertain (e_bridge_id E) (UserLoginID s) (TransactionID s) nextAttempt now'))
     (update_send (\<lambda>s. s\<lparr>AttemptCount := AttemptCount s + 1, SendState := Uncertain,
        NextAttemptAt := nextAttempt\<rparr>)))))"

text \<open>\<open>deferOutboundRecovery\<close>, \<open>markOutboundUnconfirmed\<close> and \<open>finishOutboundUnconfirmed\<close> call
  each other. \<open>defer\<close> below is the call back into the first; \<open>deferOutboundRecovery_fuel\<close> counts
  its nested calls.\<close>

definition finish_status :: "(go_error \<Rightarrow> unit act) \<Rightarrow> env \<Rightarrow> matrix_status \<Rightarrow> unit act" where
  "finish_status defer E st =
     attempt (notifyOutboundStatusAtLeastOnce E st) (\<lambda>notified.
     case notified of
       Inl err \<Rightarrow> defer err
     | Inr _ \<Rightarrow> andThen the_send (\<lambda>s. dropOutboundPending (TransactionID s) True))"

definition unconfirmed_status :: matrix_status where
  "unconfirmed_status =
     FailedStatus ((wrapped_status (Sentinel OutboundUnconfirmed))\<lparr>StatusMessage := outboundUnconfirmedMessage\<rparr>)"

definition not_submitted_status :: "bool \<Rightarrow> go_error option \<Rightarrow> matrix_status" where
  "not_submitted_status remoteForbidden cause =
     FailedStatus
       (case cause of
          None \<Rightarrow> (wrapped_status (Sentinel OutboundNotSubmitted))
                    \<lparr>StatusMessage := outboundNotSubmittedMessage, IsCertain := True\<rparr>
        | Some e \<Rightarrow> (tumblrMatrixErrorStatus remoteForbidden e outboundNotSubmittedMessage)\<lparr>IsCertain := True\<rparr>)"

definition mark_unconfirmed :: "(go_error \<Rightarrow> unit act) \<Rightarrow> env \<Rightarrow> unit act" where
  "mark_unconfirmed defer E =
     andThen time_now (\<lambda>now.
     seq (parkOutboundUnconfirmed E now) (finish_status defer E unconfirmed_status))"

definition schedule_retry :: "env \<Rightarrow> unit act" where
  "schedule_retry E =
     andThen the_send (\<lambda>s.
     andThen time_now (\<lambda>now.
     andThen (outboundRecoveryBackoff (AttemptCount s + 1)) (\<lambda>backoff.
     let nextAttempt = now + backoff in
     andThen time_now (\<lambda>now'.
     seq (lift_store (Outbound_ScheduleRetry (e_bridge_id E) (UserLoginID s) (TransactionID s) nextAttempt now'))
     (update_send (\<lambda>s. s\<lparr>AttemptCount := AttemptCount s + 1, NextAttemptAt := nextAttempt\<rparr>))))))"

definition stops_recovery :: "go_error \<Rightarrow> bool" where
  "stops_recovery e \<longleftrightarrow> IsAuthError e \<or> errors_is e Canceled \<or> errors_is e DeadlineExceeded"

definition after_schedule :: "go_error \<Rightarrow> unit act \<Rightarrow> unit act" where
  "after_schedule cause schedule =
     attempt schedule (\<lambda>scheduled.
     case scheduled of
       Inl e \<Rightarrow> raise (join_errors cause e)
     | Inr _ \<Rightarrow> if stops_recovery cause then raise cause else ret ())"

fun deferOutboundRecovery_fuel :: "nat \<Rightarrow> env \<Rightarrow> go_error \<Rightarrow> unit act" where
  "deferOutboundRecovery_fuel 0 E cause = fail ''out of fuel''"
| "deferOutboundRecovery_fuel (Suc n) E cause =
     andThen the_send (\<lambda>s.
     after_schedule cause
       (if SendState s = Resolved \<or> isTerminal s then schedule_retry E
        else andThen time_now (\<lambda>now.
          if \<not> is_zero (SendStartedAt s) \<and> SendStartedAt s + outboundRecoveryMaxAge \<le> now
          then mark_unconfirmed (deferOutboundRecovery_fuel n E) E
          else markOutboundUncertain E now)))"

definition deferOutboundRecovery :: "env \<Rightarrow> go_error \<Rightarrow> unit act" where
  "deferOutboundRecovery E = deferOutboundRecovery_fuel 2 E"

definition finishOutboundUnconfirmed :: "env \<Rightarrow> unit act" where
  "finishOutboundUnconfirmed E = finish_status (deferOutboundRecovery E) E unconfirmed_status"

definition finishOutboundNotSubmitted :: "env \<Rightarrow> go_error option \<Rightarrow> unit act" where
  "finishOutboundNotSubmitted E cause =
     finish_status (deferOutboundRecovery E) E (not_submitted_status (e_remote_forbidden E) cause)"

definition markOutboundUnconfirmed :: "env \<Rightarrow> unit act" where
  "markOutboundUnconfirmed E = mark_unconfirmed (deferOutboundRecovery E) E"

definition finalizeOutboundWithoutEcho :: "env \<Rightarrow> remote_message option \<Rightarrow> unit act" where
  "finalizeOutboundWithoutEcho E remote =
     andThen the_send (\<lambda>s.
     andThen (outboundDatabaseMessage s remote) (\<lambda>dbMessage.
     attempt (persistOutboundMapping E s dbMessage) (\<lambda>saved.
     case saved of
       Inl err \<Rightarrow>
         if errors_is err MappingConflict
         then andThen time_now (\<lambda>now.
           attempt (seq (parkOutboundUnconfirmed E now) (finishOutboundUnconfirmed E)) (\<lambda>parked.
           case parked of
             Inl e \<Rightarrow> raise (join_errors err e)
           | Inr _ \<Rightarrow> emit InboundWoken))
         else raise err
     | Inr _ \<Rightarrow>
         seq (dropOutboundPending (TransactionID s) True)
         (seq (sendOutboundStatus E SuccessStatus)
         (retainCompletedOutbound E)))))"

end
