(* ===== verification/OutboundBinding.thy ===== *)
theory OutboundBinding
  imports OutboundWorker
begin

text \<open>
  Binding an outbound send to its conversation and the Matrix room's portal
  (pkg/connector/outbound.go): the participants of a conversation (pkg/connector/sync.go,
  pkg/connector/startchat.go), the portal cache kept in parity with its row, and the transfer
  of the pending portal to the conversation's key under the mutation lock.
\<close>

section \<open>Participants\<close>

definition MakePortalKey :: "string \<Rightarrow> string \<Rightarrow> portal_key" where
  "MakePortalKey conversationID loginID = \<lparr>pk_id = conversationID, pk_receiver = loginID\<rparr>"

definition tumblrUserIDMatchesLogin :: "string \<Rightarrow> login_metadata \<Rightarrow> bool" where
  "tumblrUserIDMatchesLogin u meta \<longleftrightarrow>
     u \<noteq> [] \<and> (u = lm_SelectedBlogUUID meta \<or> u = lm_SelectedBlogName meta)"

definition portalKey :: "env \<Rightarrow> string \<Rightarrow> portal_key" where
  "portalKey E conversationID = MakePortalKey conversationID (e_login_id E)"

definition join_nul :: "string list \<Rightarrow> string" where
  "join_nul xs = (case xs of [] \<Rightarrow> [] | y # ys \<Rightarrow> y @ concat (map (\<lambda>z. char_of (0::nat) # z) ys))"

definition pendingDMPortalKey :: "env \<Rightarrow> string list \<Rightarrow> portal_key" where
  "pendingDMPortalKey E participantIDs =
     portalKey E (''pending-dm:'' @ hex_encode (take 16 (e_sha E (join_nul participantIDs))))"

definition conversationParticipantIDs :: "conversation \<Rightarrow> string list" where
  "conversationParticipantIDs c =
     filter validRemoteID (map (\<lambda>p. trim_space (bl_UUID p)) (cv_Participants c))"

definition equalParticipantIDs :: "string list \<Rightarrow> string list \<Rightarrow> bool" where
  "equalParticipantIDs left right \<longleftrightarrow> sort left = sort right"

definition outboundPortalMatchesConversation :: "env \<Rightarrow> portal_key \<Rightarrow> conversation \<Rightarrow> bool" where
  "outboundPortalMatchesConversation E key c =
     (let ids = conversationParticipantIDs c; sorted_ids = sort ids in
      if ids = [] then False
      else if pendingDMPortalKey E ids = key then True
      else if pendingDMPortalKey E sorted_ids = key then True
      else if length sorted_ids = 2 then pendingDMPortalKey E [sorted_ids ! 1, sorted_ids ! 0] = key
      else False)"

section \<open>The portal cache\<close>

definition blank_metadata :: portal_metadata where
  "blank_metadata =
     \<lparr>pm_ConversationID = [], pm_PendingParticipantIDs = [], pm_PendingParticipantName = [],
      pm_ParticipantHash = []\<rparr>"

text \<open>The metadata after \<open>applyConversationPortalMetadata\<close>, and whether it changed.\<close>

definition applyConversationPortalMetadata ::
  "portal_object \<Rightarrow> string \<Rightarrow> string \<Rightarrow> portal_object \<times> bool" where
  "applyConversationPortalMetadata p conversationID participantHash =
     (let meta = (case pt_meta p of Some m \<Rightarrow> m | None \<Rightarrow> blank_metadata);
          new_conv = (validRemoteID conversationID \<and> pm_ConversationID meta \<noteq> conversationID);
          meta1 = (if new_conv
                   then meta\<lparr>pm_ConversationID := conversationID, pm_PendingParticipantIDs := [],
                          pm_PendingParticipantName := []\<rparr>
                   else meta);
          new_hash = (participantHash \<noteq> [] \<and> pm_ParticipantHash meta1 \<noteq> participantHash);
          meta2 = (if new_hash then meta1\<lparr>pm_ParticipantHash := participantHash\<rparr> else meta1)
      in (p\<lparr>pt_meta := Some meta2\<rparr>, new_conv \<or> new_hash))"

text \<open>The cached object with every field of the row: \<open>portal.Portal = persisted\<close>.\<close>

definition refreshed :: "portal_object \<Rightarrow> portal_object \<Rightarrow> portal_object" where
  "refreshed p persisted = persisted\<lparr>pt_object := pt_object p\<rparr>"

definition loadPortalWithPersistedParity ::
  "env \<Rightarrow> portal_key \<Rightarrow> portal_object option \<Rightarrow> portal_object option act" where
  "loadPortalWithPersistedParity E key persisted =
     andThen (wrapping ''load cached Tumblr portal'' (foreign (e_portal E key))) (\<lambda>portal.
     case persisted of
       None \<Rightarrow>
         (case portal of
            Some p \<Rightarrow> seq (wrapping ''evict stale Tumblr portal cache'' (foreign (e_portal_delete E p))) (ret None)
          | None \<Rightarrow> ret None)
     | Some row \<Rightarrow>
         if pt_key row \<noteq> key then fail ''persisted Tumblr portal key does not match the requested key''
         else case portal of
             None \<Rightarrow> fail ''tumblr portal cache does not match its persisted row''
           | Some p \<Rightarrow>
               if pt_bridge_id p \<noteq> pt_bridge_id row \<or> pt_key p \<noteq> pt_key row
               then fail ''tumblr portal cache does not match its persisted row''
               else if pt_mxid p \<noteq> pt_mxid row
               then (if pt_mxid row = []
                     then fail ''tumblr portal cache has a room that is absent from its persisted row''
                     else seq (wrapping ''refresh stale Tumblr portal room cache''
                                (foreign (e_portal_update_room E p row (pt_mxid row))))
                          (ret (Some (refreshed p row))))
               else seq (foreign (e_portal_refresh E p row)) (ret (Some (refreshed p row))))"

definition loadOutboundTargetPortal :: "env \<Rightarrow> portal_key \<Rightarrow> portal_object option act" where
  "loadOutboundTargetPortal E key =
     andThen (wrapping ''load persisted Tumblr target portal'' (foreign (e_db_portal_by_key E key))) (\<lambda>row.
     loadPortalWithPersistedParity E key row)"

definition saveOutboundConversationPortal :: "env \<Rightarrow> portal_object \<Rightarrow> string \<Rightarrow> portal_object act" where
  "saveOutboundConversationPortal E p conversationID =
     (case applyConversationPortalMetadata p conversationID [] of
        (p', changed) \<Rightarrow>
          if changed
          then seq (wrapping ''save re-IDed Tumblr DM portal'' (foreign (e_portal_save E p'))) (ret p')
          else ret p')"

definition finishOutboundPortalBinding ::
  "env \<Rightarrow> outbound_send \<Rightarrow> portal_object \<Rightarrow> portal_key \<Rightarrow> duration \<Rightarrow> (portal_object option \<times> bool) act" where
  "finishOutboundPortalBinding E current p targetKey retryDelay =
     (let conversationID = pk_id targetKey in
      andThen (saveOutboundConversationPortal E p conversationID) (\<lambda>saved.
      andThen (wrapping ''verify persisted owner before binding Tumblr conversation''
                (foreign (e_db_portal_by_mxid E (MatrixRoomID current)))) (\<lambda>owner.
      if (case owner of Some o' \<Rightarrow> pt_key o' \<noteq> targetKey \<or> pt_mxid o' \<noteq> MatrixRoomID current | None \<Rightarrow> True)
      then raise (StoreError ErrRoomMismatch)
      else andThen time_now (\<lambda>t0.
        let nextAttemptAt = t0 + retryDelay in
        andThen time_now (\<lambda>now.
        seq (lift_store (Outbound_BindConversation (e_pke E) (e_bridge_id E) (UserLoginID current)
              (TransactionID current) conversationID targetKey nextAttemptAt now))
        (seq (update_send (\<lambda>s. s\<lparr>ConversationID := conversationID, BindingConversationID := [],
                PortalKey := targetKey, NextAttemptAt := nextAttemptAt\<rparr>))
        (ret (Some saved, False))))))))"

text \<open>\<open>bindOutboundPortalOwnership\<close> in the order of its parts: what to do when neither the source
  nor the target portal owns the room, the transfer of the source portal, and the end.\<close>

definition owner_is_elsewhere ::
  "env \<Rightarrow> outbound_send \<Rightarrow> portal_key \<Rightarrow> duration \<Rightarrow> portal_object option \<Rightarrow> (portal_object option \<times> bool) act" where
  "owner_is_elsewhere E current targetKey retryDelay owner =
     andThen (loadOutboundTargetPortal E targetKey) (\<lambda>target.
     let give_up = (\<lambda>owner'.
           if owner' \<noteq> None then ret (target, True)
           else if (case target of Some p \<Rightarrow> pt_mxid p \<noteq> [] | None \<Rightarrow> False) then ret (target, True)
           else fail ''outbound Matrix room no longer has a persisted portal owner'') in
     case target of
       Some p \<Rightarrow>
         if pt_mxid p = MatrixRoomID current
         then andThen (wrapping ''recheck persisted outbound Matrix room owner''
                (foreign (e_db_portal_by_mxid E (MatrixRoomID current)))) (\<lambda>owner'.
              if (case owner' of Some o' \<Rightarrow> pt_key o' = targetKey | None \<Rightarrow> False)
              then finishOutboundPortalBinding E current p targetKey retryDelay
              else give_up owner')
         else give_up owner
     | None \<Rightarrow> give_up owner)"

definition finish_owned ::
  "env \<Rightarrow> outbound_send \<Rightarrow> portal_key \<Rightarrow> duration \<Rightarrow> portal_object \<Rightarrow> (portal_object option \<times> bool) act" where
  "finish_owned E current targetKey retryDelay owner =
     (if pt_key owner \<noteq> targetKey \<or> pt_mxid owner \<noteq> MatrixRoomID current
      then fail ''tumblr target portal does not own the outbound Matrix room''
      else andThen (loadOutboundTargetPortal E targetKey) (\<lambda>portal.
        case portal of
          None \<Rightarrow> fail ''tumblr target portal cache does not match persisted room ownership''
        | Some p \<Rightarrow>
            if pt_mxid p \<noteq> MatrixRoomID current
            then fail ''tumblr target portal cache does not match persisted room ownership''
            else finishOutboundPortalBinding E current p targetKey retryDelay))"

definition transfer_portal ::
  "env \<Rightarrow> outbound_send \<Rightarrow> portal_key \<Rightarrow> portal_key \<Rightarrow> duration \<Rightarrow> (portal_object option \<times> bool) act" where
  "transfer_portal E current sourceKey targetKey retryDelay =
     andThen (wrapping ''load persisted Tumblr source portal before re-ID'' (foreign (e_db_portal_by_key E sourceKey))) (\<lambda>sourceRow.
     andThen (loadPortalWithPersistedParity E sourceKey sourceRow) (\<lambda>source.
     case source of
       None \<Rightarrow> fail ''tumblr source portal cache does not match persisted room ownership''
     | Some sp \<Rightarrow>
         if pt_mxid sp \<noteq> MatrixRoomID current
         then fail ''tumblr source portal cache does not match persisted room ownership''
         else
         andThen (wrapping ''load persisted Tumblr target portal before re-ID'' (foreign (e_db_portal_by_key E targetKey))) (\<lambda>targetRow.
         andThen (loadPortalWithPersistedParity E targetKey targetRow) (\<lambda>targetPortal.
         if (case targetPortal of Some tp \<Rightarrow> pt_object tp = pt_object sp | None \<Rightarrow> False)
         then fail ''tumblr source and target portal caches unexpectedly share one object''
         else
         seq (wrapping ''re-ID pending Tumblr portal'' (foreign (e_reid E sourceKey targetKey)))
         (andThen (wrapping ''verify persisted owner after Tumblr portal re-ID''
             (foreign (e_db_portal_by_mxid E (MatrixRoomID current)))) (\<lambda>owner.
          case owner of
            Some o' \<Rightarrow>
              if pt_key o' = targetKey then finish_owned E current targetKey retryDelay o'
              else andThen (loadOutboundTargetPortal E targetKey) (\<lambda>target.
                if (case target of Some p \<Rightarrow> pt_mxid p \<noteq> [] \<and> pt_mxid p \<noteq> MatrixRoomID current | None \<Rightarrow> False)
                   \<or> pt_key o' \<noteq> sourceKey
                then ret (target, True)
                else fail ''tumblr portal re-ID did not transfer persisted room ownership'')
          | None \<Rightarrow>
              andThen (loadOutboundTargetPortal E targetKey) (\<lambda>target.
              if (case target of Some p \<Rightarrow> pt_mxid p \<noteq> [] \<and> pt_mxid p \<noteq> MatrixRoomID current | None \<Rightarrow> False)
              then ret (target, True)
              else fail ''tumblr portal re-ID did not transfer persisted room ownership'')))))))"

definition bindOutboundPortalOwnership ::
  "env \<Rightarrow> portal_key \<Rightarrow> duration \<Rightarrow> (portal_object option \<times> bool) act" where
  "bindOutboundPortalOwnership E targetKey retryDelay =
     andThen the_send (\<lambda>s.
     if MatrixRoomID s = [] then fail ''outbound Matrix room lineage is missing''
     else if e_pke E targetKey \<or> pk_id targetKey = [] then fail ''outbound target portal is missing''
     else if retryDelay \<le> 0 then fail ''outbound binding retry delay is invalid''
     else seq (wrapping ''coordinate Tumblr portal re-ID'' (foreign (e_portal_lock E)))
      (andThen (wrapping ''reload outbound send before portal re-ID''
        (lift_store (Outbound_Get (e_pke E) (e_bridge_id E) (UserLoginID s) (TransactionID s)))) (\<lambda>loaded.
       case loaded of
         None \<Rightarrow> raise (StoreError ErrNotPending)
       | Some current \<Rightarrow>
           if isTerminal current then raise (StoreError ErrNotPending)
           else if MatrixRoomID current \<noteq> MatrixRoomID s then raise (StoreError (ErrIdentityChanged []))
           else if \<not> (ConversationID current = pk_id targetKey \<and> BindingConversationID current = [] \<and>
                      PortalKey current = targetKey) \<and>
                   \<not> (ConversationID current = [] \<and> BindingConversationID current = pk_id targetKey)
             then raise (StoreError ErrBindingConflict)
           else andThen (wrapping ''load persisted outbound Matrix room owner''
                  (foreign (e_db_portal_by_mxid E (MatrixRoomID current)))) (\<lambda>owner.
             case owner of
               None \<Rightarrow> owner_is_elsewhere E current targetKey retryDelay None
             | Some o' \<Rightarrow>
                 if pt_key o' \<noteq> PortalKey current \<and> pt_key o' \<noteq> targetKey
                 then owner_is_elsewhere E current targetKey retryDelay (Some o')
                 else if pt_key o' = PortalKey current \<and> PortalKey current \<noteq> targetKey
                 then transfer_portal E current (PortalKey current) targetKey retryDelay
                 else finish_owned E current targetKey retryDelay o'))))"

end
