(* ===== verification/OutboundRecovery.thy ===== *)
theory OutboundRecovery
  imports OutboundBinding
begin

text \<open>
  The recovery worker (pkg/connector/outbound.go): it takes the next due send from the store,
  finishes what is final, finds the conversation of an unbound send, has the conversation
  synchronised, and finishes what the synchronisation left open. The synchronisation itself
  (pkg/connector/sync.go) is the argument \<open>Y\<close> of the worker, three operations on the world.
\<close>

section \<open>Binding\<close>

definition bindOutboundSendToConversation :: "env \<Rightarrow> string \<Rightarrow> string act" where
  "bindOutboundSendToConversation E conversationID =
     andThen the_send (\<lambda>s.
     andThen time_now (\<lambda>t0.
     andThen time_now (\<lambda>now.
     seq (lift_store (Outbound_PrepareConversationBinding (e_pke E) (e_bridge_id E) (UserLoginID s)
           (TransactionID s) conversationID (t0 + outboundResolvedDelay) now))
     (seq (update_send (\<lambda>s. s\<lparr>BindingConversationID := conversationID\<rparr>))
     (andThen (bindOutboundPortalOwnership E (portalKey E conversationID) outboundResolvedDelay) (\<lambda>bound.
      case bound of (portal, sourceRoomReplaced) \<Rightarrow>
        if sourceRoomReplaced
        then andThen time_now (\<lambda>now'.
             seq (parkOutboundUnconfirmed E now')
             (seq (finishOutboundUnconfirmed E)
             (seq (emit InboundWoken) (ret conversationID))))
        else (case portal of
                None \<Rightarrow> fail ''tumblr target portal is unavailable after binding an outbound send''
              | Some p \<Rightarrow>
                  if pt_mxid p \<noteq> MatrixRoomID s
                  then fail ''tumblr target portal is unavailable after binding an outbound send''
                  else ret conversationID)))))))"

definition handleRemoteError :: "go_error \<Rightarrow> 'a act" where
  "handleRemoteError e = seq (if IsAuthError e then emit (ConnectFailed e) else ret ()) (raise e)"

text \<open>The pages of the conversation list; the argument counts the pages left, \<open>before\<close> is the
  cursor.\<close>

definition outboundUnboundSearchPages :: nat where "outboundUnboundSearchPages = 5"

fun search_pages :: "nat \<Rightarrow> env \<Rightarrow> string \<Rightarrow> string \<Rightarrow> string act" where
  "search_pages 0 E blogUUID before = ret []"
| "search_pages (Suc n) E blogUUID before =
     attempt (foreign (e_list_before E blogUUID before)) (\<lambda>page.
     case page of
       Inl e \<Rightarrow> handleRemoteError e
     | Inr (conversations, next_before) \<Rightarrow>
         andThen the_send (\<lambda>s.
         case find (\<lambda>c. validRemoteID (cv_ID c) \<and> outboundPortalMatchesConversation E (PortalKey s) c) conversations of
           Some c \<Rightarrow> bindOutboundSendToConversation E (cv_ID c)
         | None \<Rightarrow>
             (case next_before of
                Inl e \<Rightarrow> raise e
              | Inr cursor \<Rightarrow>
                  if trim_space cursor = [] then ret [] else search_pages n E blogUUID (trim_space cursor))))"

definition recoverOutboundConversationBinding :: "env \<Rightarrow> string act" where
  "recoverOutboundConversationBinding E =
     andThen the_send (\<lambda>s.
     if BindingConversationID s \<noteq> [] then bindOutboundSendToConversation E (BindingConversationID s)
     else
     seq (foreign (e_client E))
     (andThen (foreign (e_metadata E)) (\<lambda>meta.
      andThen (foreign (e_portal E (PortalKey s))) (\<lambda>portal.
      let pages = search_pages outboundUnboundSearchPages E (lm_SelectedBlogUUID meta) [] in
      case portal of
        None \<Rightarrow> pages
      | Some p \<Rightarrow>
          (case pt_meta p of
             None \<Rightarrow> pages
           | Some pending \<Rightarrow>
               if pm_PendingParticipantName pending = [] then pages
               else attempt (foreign (e_by_participants E (lm_SelectedBlogName meta) (pm_PendingParticipantName pending))) (\<lambda>resp.
                 case resp of
                   Inl e \<Rightarrow> if IsNotFound e then pages else handleRemoteError e
                 | Inr (Some c) \<Rightarrow>
                     if validRemoteID (cv_ID c) \<and>
                        equalParticipantIDs (pm_PendingParticipantIDs pending) (conversationParticipantIDs c)
                     then bindOutboundSendToConversation E (cv_ID c)
                     else pages
                 | Inr None \<Rightarrow> pages))))))"

section \<open>The next due send\<close>

text \<open>\<open>prepareNextDueOutboundSend\<close>: \<open>None\<close> when nothing is due, otherwise whether the send's
  conversation has to be synchronised. The functions below are its branches.\<close>

definition retire_not_submitted :: "env \<Rightarrow> outbound_send \<Rightarrow> unit act" where
  "retire_not_submitted E s =
     (if \<not> is_zero (StatusNotifiedAt s)
      then andThen (lift_store (Outbound_DeleteNotSubmitted (e_bridge_id E) (UserLoginID s) (TransactionID s))) (\<lambda>_.
           dropOutboundPending (TransactionID s) True)
      else finishOutboundNotSubmitted E None)"

definition retire_unconfirmed :: "env \<Rightarrow> outbound_send \<Rightarrow> unit act" where
  "retire_unconfirmed E s =
     (if \<not> is_zero (StatusNotifiedAt s)
      then andThen (lift_store (Outbound_DeleteUnconfirmed (e_bridge_id E) (UserLoginID s) (TransactionID s))) (\<lambda>deleted.
           if deleted then dropOutboundPending (TransactionID s) True else ret ())
      else finishOutboundUnconfirmed E)"

definition abandon_prepared :: "env \<Rightarrow> outbound_send \<Rightarrow> unit act" where
  "abandon_prepared E s =
     andThen time_now (\<lambda>terminalAt.
     let nextAttemptAt = terminalAt + millisecond in
     andThen (lift_store (Outbound_ClaimPreparedNotSubmitted (e_bridge_id E) (UserLoginID s) (TransactionID s)
       terminalAt nextAttemptAt)) (\<lambda>claimed.
     if \<not> claimed then ret ()
     else seq (update_send (\<lambda>s. s\<lparr>SendState := NotSubmitted, TerminalAt := terminalAt,
                 NextAttemptAt := nextAttemptAt\<rparr>))
          (finishOutboundNotSubmitted E None)))"

definition finish_resolved :: "env \<Rightarrow> unit act" where
  "finish_resolved E =
     attempt (finalizeOutboundWithoutEcho E None) (\<lambda>finished.
     case finished of Inl e \<Rightarrow> deferOutboundRecovery E e | Inr _ \<Rightarrow> ret ())"

definition bind_unbound :: "env \<Rightarrow> bool act" where
  "bind_unbound E =
     attempt (recoverOutboundConversationBinding E) (\<lambda>bound.
     case bound of
       Inl e \<Rightarrow> seq (deferOutboundRecovery E e) (ret False)
     | Inr conversationID \<Rightarrow>
         if conversationID = [] then seq (markOutboundUnconfirmed E) (ret False)
         else andThen the_send (\<lambda>s.
           if isTerminal s then ret False
           else seq (update_send (\<lambda>s. s\<lparr>ConversationID := conversationID,
                  PortalKey := portalKey E conversationID\<rparr>)) (ret True)))"

definition prepareNextDueOutboundSend :: "env \<Rightarrow> bool option act" where
  "prepareNextDueOutboundSend E =
     andThen time_now (\<lambda>now.
     andThen (lift_store (Outbound_GetNextDue (e_pke E) (e_bridge_id E) (e_login_id E) now)) (\<lambda>due.
     case due of
       None \<Rightarrow> ret None
     | Some s \<Rightarrow>
         seq (update_send (\<lambda>_. s))
         (if SendState s = NotSubmitted then seq (retire_not_submitted E s) (ret (Some False))
          else if SendState s = Unconfirmed then seq (retire_unconfirmed E s) (ret (Some False))
          else if isTerminal s then fail ''unexpected terminal Tumblr outbound state''
          else if SendState s = Prepared then seq (abandon_prepared E s) (ret (Some False))
          else if SendState s = Resolved then seq (finish_resolved E) (ret (Some False))
          else if ConversationID s = [] then andThen (bind_unbound E) (\<lambda>sync. ret (Some sync))
          else ret (Some True))))"

text \<open>\<open>finishDueOutboundSend\<close>, given what the synchronisation returned.\<close>

definition stop_or_done :: "go_error option \<Rightarrow> unit act" where
  "stop_or_done syncErr =
     (case syncErr of Some e \<Rightarrow> if stops_recovery e then raise e else ret () | None \<Rightarrow> ret ())"

definition joined_with :: "go_error option \<Rightarrow> go_error \<Rightarrow> go_error" where
  "joined_with syncErr e = (case syncErr of Some s \<Rightarrow> join_errors s e | None \<Rightarrow> e)"

definition finishDueOutboundSend :: "env \<Rightarrow> string \<Rightarrow> go_error option \<Rightarrow> unit act" where
  "finishDueOutboundSend E txnID syncErr =
     attempt (lift_store (Outbound_Get (e_pke E) (e_bridge_id E) (e_login_id E) txnID)) (\<lambda>reloaded.
     case reloaded of
       Inl e \<Rightarrow> raise (joined_with syncErr e)
     | Inr None \<Rightarrow> stop_or_done syncErr
     | Inr (Some s) \<Rightarrow>
         seq (update_send (\<lambda>_. s))
         (if isTerminal s then seq (dropOutboundPending (TransactionID s) True) (stop_or_done syncErr)
          else if SendState s = Resolved
          then attempt (finish_resolved E) (\<lambda>finished.
               case finished of
                 Inl e \<Rightarrow> raise (joined_with syncErr e)
               | Inr _ \<Rightarrow> stop_or_done syncErr)
          else case syncErr of
              Some e \<Rightarrow> deferOutboundRecovery E e
            | None \<Rightarrow> markOutboundUnconfirmed E))"

section \<open>The worker\<close>

text \<open>\<open>syncConversationByIDWithSubmissionLock\<close>, \<open>deliverConversation\<close> and
  \<open>commitConversationDeliveryWithSubmissionLock\<close>; a delivery is a number here, and no delivery
  is \<open>None\<close>.\<close>

record 'd conversation_sync_ops =
  y_sync :: "string \<Rightarrow> 'd option act"
  y_deliver :: "'d \<Rightarrow> unit act"
  y_commit :: "'d \<Rightarrow> unit act"

definition left_error :: "go_error + 'a \<Rightarrow> go_error option" where
  "left_error r = (case r of Inl e \<Rightarrow> Some e | Inr _ \<Rightarrow> None)"

text \<open>The synchronisation of one conversation: the error that is logged and handed to
  \<open>finishDueOutboundSend\<close>, or the failure to take the submission lock again.\<close>

definition synchronise :: "env \<Rightarrow> 'd conversation_sync_ops \<Rightarrow> string \<Rightarrow> go_error option act" where
  "synchronise E Y conversationID =
     attempt (y_sync Y conversationID) (\<lambda>synced.
     case synced of
       Inl e \<Rightarrow> ret (Some e)
     | Inr None \<Rightarrow> ret None
     | Inr (Some delivery) \<Rightarrow>
         attempt (y_deliver Y delivery) (\<lambda>delivered.
         attempt (foreign (e_submission_lock E)) (\<lambda>locked.
         case locked of
           Inl e \<Rightarrow> raise (joined_with (left_error delivered) e)
         | Inr _ \<Rightarrow>
             (case delivered of
                Inl e \<Rightarrow> ret (Some e)
              | Inr _ \<Rightarrow> attempt (y_commit Y delivery) (\<lambda>committed. ret (left_error committed))))))"

text \<open>True: a send was due.\<close>

definition processNextDueOutboundSend :: "env \<Rightarrow> 'd conversation_sync_ops \<Rightarrow> bool act" where
  "processNextDueOutboundSend E Y =
     seq (foreign (e_submission_lock E))
     (andThen (prepareNextDueOutboundSend E) (\<lambda>due.
      case due of
        None \<Rightarrow> ret False
      | Some needsSync \<Rightarrow>
          if \<not> needsSync then ret True
          else andThen the_send (\<lambda>s.
            andThen (synchronise E Y (ConversationID s)) (\<lambda>syncErr.
            seq (finishDueOutboundSend E (TransactionID s) syncErr) (ret True)))))"

text \<open>A pass over at most \<open>limit\<close> sends; the worker uses 100. The loop stops when the context
  ends, when nothing is due, or at the first error.\<close>

definition outboundRecoveryPassMax :: nat where "outboundRecoveryPassMax = 100"

fun processDueOutboundSends :: "nat \<Rightarrow> env \<Rightarrow> 'd conversation_sync_ops \<Rightarrow> unit act" where
  "processDueOutboundSends 0 E Y =
     andThen ctx_err (\<lambda>ended. case ended of Some e \<Rightarrow> raise e | None \<Rightarrow> ret ())"
| "processDueOutboundSends (Suc n) E Y =
     andThen ctx_err (\<lambda>ended.
     case ended of
       Some e \<Rightarrow> raise e
     | None \<Rightarrow> andThen (processNextDueOutboundSend E Y) (\<lambda>due.
         if due then processDueOutboundSends n E Y else ret ()))"

end
