(* ===== verification/OutboundReconcile.thy ===== *)
theory OutboundReconcile
  imports OutboundRecovery Matching
begin

text \<open>
  Reconciliation of a fetched conversation with the pending sends (pkg/connector/outbound.go):
  which remote message may be the echo of which send, which of these explanations are forced,
  and which messages of the conversation may go on to the Matrix room.
\<close>

section \<open>Candidates\<close>

definition outboundMatchBefore :: duration where "outboundMatchBefore = 2 * minute"
definition outboundMatchAfter :: duration where "outboundMatchAfter = 15 * minute"

datatype candidate = NoCandidate | CandidateMatch | Indeterminate

definition validOutboundRemoteMessageID :: "string \<Rightarrow> bool" where
  "validOutboundRemoteMessageID i \<longleftrightarrow> validRemoteID i \<and> \<not> has_prefix ''matrix-'' i"

definition outboundSenderMatches :: "env \<Rightarrow> string \<Rightarrow> blog \<Rightarrow> bool act" where
  "outboundSenderMatches E senderID participant =
     (let participantID = e_blog_user E participant in
      if participantID = [] \<or> senderID = [] then ret False
      else if participantID = senderID then ret True
      else attempt (foreign (e_metadata E)) (\<lambda>meta.
        ret (case meta of
               Inl _ \<Rightarrow> False
             | Inr m \<Rightarrow> tumblrUserIDMatchesLogin participantID m \<and> tumblrUserIDMatchesLogin senderID m)))"

text \<open>The renditions of an image (pkg/tumblr/models.go): the original, then the others by
  falling area, without blank or repeated addresses. The area is a 128-bit product there, so
  it is exact.\<close>

definition imageAssetArea :: "image_asset \<Rightarrow> int" where
  "imageAssetArea a = (if ia_Width a \<le> 0 \<or> ia_Height a \<le> 0 then 0 else ia_Width a * ia_Height a)"

fun append_candidates :: "string list \<Rightarrow> image_asset list \<Rightarrow> string list" where
  "append_candidates seen [] = seen"
| "append_candidates seen (a # as) =
     (let url = trim_space (ia_URL a) in
      append_candidates (if url = [] \<or> url \<in> set seen then seen else seen @ [url]) as)"

definition Candidates :: "message_image \<Rightarrow> string list" where
  "Candidates im =
     append_candidates [] (mi_OriginalSize im # sort_key (\<lambda>a. - imageAssetArea a) (mi_AltSizes im))"

text \<open>The loop over the renditions: the last error and whether a source identity was missing.\<close>

fun verify_assets ::
  "env \<Rightarrow> outbound_send \<Rightarrow> string list \<Rightarrow> go_error option \<Rightarrow> bool \<Rightarrow> candidate act" where
  "verify_assets E s [] lastErr missing =
     (case lastErr of
        Some e \<Rightarrow> raise e
      | None \<Rightarrow> ret (if missing then Indeterminate else NoCandidate))"
| "verify_assets E s (url # urls) lastErr missing =
     attempt (foreign (e_download E url)) (\<lambda>downloaded.
     case downloaded of
       Inl e \<Rightarrow> verify_assets E s urls (Some e) missing
     | Inr d \<Rightarrow>
         if SourceMediaDigest s \<noteq> [] \<and> dl_SourceDigest d = SourceMediaDigest s then ret CandidateMatch
         else if SourceMediaDigest s \<noteq> [] \<and> dl_SourceDigest d \<noteq> []
         then verify_assets E s urls lastErr missing
         else let missing' = (missing \<or> SourceMediaDigest s \<noteq> []) in
           (case e_visual E (dl_Data d) of
              VisualUnavailable \<Rightarrow>
                if e_sha E (dl_Data d) = ContentHash s then ret CandidateMatch
                else verify_assets E s urls lastErr missing'
            | VisualError e \<Rightarrow> verify_assets E s urls (Some e) missing'
            | VisualHash h \<Rightarrow>
                if h = ContentHash s \<or> e_sha E (dl_Data d) = ContentHash s then ret CandidateMatch
                else verify_assets E s urls lastErr missing'))"

definition content_candidate :: "env \<Rightarrow> outbound_send \<Rightarrow> remote_message \<Rightarrow> bool \<Rightarrow> candidate act" where
  "content_candidate E s m verifyImage =
     (case MessageType s of
        TextType \<Rightarrow>
          ret (case rm_Text m of
                 None \<Rightarrow> NoCandidate
               | Some x \<Rightarrow> if e_sha E x = ContentHash s then CandidateMatch else NoCandidate)
      | PostRefType \<Rightarrow>
          ret (case rm_PostID m of
                 None \<Rightarrow> NoCandidate
               | Some p \<Rightarrow>
                   if blank p then NoCandidate
                   else if e_sha E (trim_space p) = ContentHash s then CandidateMatch else NoCandidate)
      | ImageType \<Rightarrow>
          (case rm_Images m of
             [im] \<Rightarrow>
               if \<not> verifyImage then ret Indeterminate
               else seq (foreign (e_client E))
                 (if Candidates im = [] then ret Indeterminate
                  else verify_assets E s (Candidates im) None False)
           | _ \<Rightarrow> ret NoCandidate)
      | TypeText _ \<Rightarrow> ret NoCandidate)"

definition outboundMessageCandidate :: "env \<Rightarrow> outbound_send \<Rightarrow> remote_message \<Rightarrow> bool \<Rightarrow> candidate act" where
  "outboundMessageCandidate E s m verifyImage =
     (if \<not> validOutboundRemoteMessageID (rm_ID m) \<or> equal_fold (rm_ID m) (RemoteMessageID s)
      then ret NoCandidate
      else if rm_ID m \<in> set (BaselineMessageIDs s) then ret NoCandidate
      else case rm_Participant m of
          None \<Rightarrow> ret NoCandidate
        | Some participant \<Rightarrow>
            andThen (outboundSenderMatches E (SenderID s) participant) (\<lambda>sender.
            if \<not> sender then ret NoCandidate
            else andThen time_now (\<lambda>now.
            if (case saneTumblrTimestamp (rm_Timestamp m) now of
                  None \<Rightarrow> True
                | Some ts \<Rightarrow> ts < SendStartedAt s - outboundMatchBefore \<or> SendStartedAt s + outboundMatchAfter < ts)
            then ret NoCandidate
            else if \<not> equal_fold (rm_Type m) (type_text (MessageType s)) then ret NoCandidate
            else
            andThen (lift_store (Outbound_GetByRemoteID (e_pke E) (e_bridge_id E) (UserLoginID s)
              (ConversationID s) (rm_ID m))) (\<lambda>claimed.
            if (case claimed of Some c \<Rightarrow> TransactionID c \<noteq> TransactionID s | None \<Rightarrow> False)
            then ret NoCandidate
            else
            andThen (foreign (e_message_by_id E (pk_receiver (PortalKey s)) (rm_ID m))) (\<lambda>mapped.
            if mapped \<noteq> None then ret NoCandidate
            else content_candidate E s m verifyImage)))))"

section \<open>The candidate graph\<close>

text \<open>What the loops over the conversation collect.\<close>

record gathered =
  g_sets :: "(outbound_send \<times> string list) list"
  g_quarantine :: "string set"
  g_blocked_sends :: "string set"
  g_blocked_messages :: "string set"

text \<open>The relation of one send to the messages not yet explained: the matching ones, and the
  image messages whose content has to be fetched.\<close>

fun first_look ::
  "env \<Rightarrow> outbound_send \<Rightarrow> remote_message list \<Rightarrow> string list \<Rightarrow> remote_message list \<Rightarrow>
   (string list \<times> remote_message list) act" where
  "first_look E s [] ids images = ret (ids, images)"
| "first_look E s (m # ms) ids images =
     andThen (outboundMessageCandidate E s m False) (\<lambda>c.
     if MessageType s = ImageType \<and> c = Indeterminate then first_look E s ms ids (images @ [m])
     else first_look E s ms (if c = CandidateMatch then ids @ [rm_ID m] else ids) images)"

fun verify_images ::
  "env \<Rightarrow> outbound_send \<Rightarrow> remote_message list \<Rightarrow> string list \<Rightarrow> gathered \<Rightarrow> (string list \<times> gathered) act" where
  "verify_images E s [] ids g = ret (ids, g)"
| "verify_images E s (m # ms) ids g =
     attempt (outboundMessageCandidate E s m True) (\<lambda>c.
     if (case c of Inl _ \<Rightarrow> True | Inr k \<Rightarrow> k = Indeterminate)
     then verify_images E s ms ids
            (g\<lparr>g_quarantine := insert (rm_ID m) (g_quarantine g),
               g_blocked_sends := insert (TransactionID s) (g_blocked_sends g),
               g_blocked_messages := insert (rm_ID m) (g_blocked_messages g)\<rparr>)
     else verify_images E s ms (if c = Inr CandidateMatch then ids @ [rm_ID m] else ids) g)"

fun gather :: "env \<Rightarrow> remote_message list \<Rightarrow> outbound_send list \<Rightarrow> gathered \<Rightarrow> gathered act" where
  "gather E open_messages [] g = ret g"
| "gather E open_messages (s # ss) g =
     andThen (first_look E s open_messages [] []) (\<lambda>look.
     case look of (ids0, images) \<Rightarrow>
       andThen (if MessageType s = ImageType then verify_images E s images ids0 g else ret (ids0, g)) (\<lambda>seen.
       case seen of (ids, g') \<Rightarrow>
         gather E open_messages ss
           (g'\<lparr>g_sets := g_sets g' @ [(s, ids)], g_quarantine := g_quarantine g' \<union> set ids\<rparr>)))"

section \<open>Blocked components\<close>

text \<open>One pass of the loop over the sets: \<open>bs\<close> and \<open>bm\<close> are the blocked sends and messages.\<close>

fun block_messages :: "string \<Rightarrow> string list \<Rightarrow> string set \<times> string set \<times> bool \<Rightarrow> string set \<times> string set \<times> bool" where
  "block_messages x [] b = b"
| "block_messages x (m # ms) (bs, bm, changed) =
     block_messages x ms
       (if x \<in> bs \<and> m \<notin> bm then (bs, insert m bm, True)
        else if m \<in> bm \<and> x \<notin> bs then (insert x bs, bm, True)
        else (bs, bm, changed))"

fun block_pass :: "(string \<times> string list) list \<Rightarrow> string set \<times> string set \<times> bool \<Rightarrow> string set \<times> string set \<times> bool" where
  "block_pass [] b = b"
| "block_pass ((x, ms) # sets) b = block_pass sets (block_messages x ms b)"

text \<open>A pass grows the blocked sets, by sends and messages of the graph only, and reports a change
  exactly when it grew them.\<close>

lemma block_messages_grows:
  "block_messages x ms (bs, bm, c) = (bs', bm', c') \<Longrightarrow>
   bs \<subseteq> bs' \<and> bm \<subseteq> bm' \<and> bs' \<subseteq> insert x bs \<and> bm' \<subseteq> bm \<union> set ms \<and> (c \<longrightarrow> c') \<and>
   (c' \<longrightarrow> c \<or> bs \<noteq> bs' \<or> bm \<noteq> bm')"
proof (induction ms arbitrary: bs bm c)
  case Nil
  then show ?case by auto
next
  case (Cons m ms)
  show ?case
  proof (cases "x \<in> bs \<and> m \<notin> bm")
    case True
    with Cons.prems have "block_messages x ms (bs, insert m bm, True) = (bs', bm', c')" by simp
    from Cons.IH [OF this] True show ?thesis by auto
  next
    case False
    show ?thesis
    proof (cases "m \<in> bm \<and> x \<notin> bs")
      case True
      with False Cons.prems have "block_messages x ms (insert x bs, bm, True) = (bs', bm', c')" by simp
      from Cons.IH [OF this] True show ?thesis by auto
    next
      case f: False
      with False Cons.prems have "block_messages x ms (bs, bm, c) = (bs', bm', c')" by auto
      from Cons.IH [OF this] show ?thesis by auto
    qed
  qed
qed

lemma block_pass_grows:
  "block_pass sets (bs, bm, c) = (bs', bm', c') \<Longrightarrow>
   bs \<subseteq> bs' \<and> bm \<subseteq> bm' \<and> bs' \<subseteq> bs \<union> fst ` set sets \<and> bm' \<subseteq> bm \<union> (\<Union>p \<in> set sets. set (snd p)) \<and>
   (c \<longrightarrow> c') \<and> (c' \<longrightarrow> c \<or> bs \<noteq> bs' \<or> bm \<noteq> bm')"
proof (induction sets arbitrary: bs bm c)
  case Nil
  then show ?case by auto
next
  case (Cons p sets)
  obtain x ms where p: "p = (x, ms)" by fastforce
  obtain b1 m1 c1 where 1: "block_messages x ms (bs, bm, c) = (b1, m1, c1)" by (metis prod_cases3)
  with Cons.prems p have 2: "block_pass sets (b1, m1, c1) = (bs', bm', c')" by simp
  note g1 = block_messages_grows [OF 1] and g2 = Cons.IH [OF 2]
  have "bs \<subseteq> bs'" "bm \<subseteq> bm'" "c \<longrightarrow> c'" using g1 g2 by (auto simp only: subset_iff)
  moreover have "bs' \<subseteq> insert x bs \<union> fst ` set sets" using g1 g2 by (simp only: subset_iff Un_iff) metis
  moreover have "bm' \<subseteq> (bm \<union> set ms) \<union> (\<Union>p \<in> set sets. set (snd p))" using g1 g2
    by (simp only: subset_iff Un_iff) metis
  moreover have "c' \<longrightarrow> c \<or> bs \<noteq> bs' \<or> bm \<noteq> bm'" using g1 g2 by (metis subset_antisym)
  ultimately show ?case using p by (simp only: list.set image_insert fst_conv snd_conv UN_insert Un_assoc) auto
qed

lemma diff_shrinks:
  assumes "finite A" and "X \<subseteq> Y" and "Y \<subseteq> X \<union> A"
  shows "card (A - Y) \<le> card (A - X)" and "X \<noteq> Y \<Longrightarrow> card (A - Y) < card (A - X)"
proof -
  have fin: "finite (A - X)" using assms(1) by simp
  have sub: "A - Y \<subseteq> A - X" using assms(2) by blast
  then show "card (A - Y) \<le> card (A - X)" using fin by (rule card_mono [rotated])
  assume "X \<noteq> Y"
  then obtain x where "x \<in> Y" "x \<notin> X" using assms(2) by blast
  then have "x \<in> A - X" "x \<notin> A - Y" using assms(3) by blast+
  then have "A - Y \<subset> A - X" using sub by blast
  then show "card (A - Y) < card (A - X)" using fin by (rule psubset_card_mono [rotated])
qed

lemma block_pass_shrinks:
  assumes "block_pass sets (bs, bm, False) = (bs', bm', True)"
  shows "card (fst ` set sets - bs') + card ((\<Union>p \<in> set sets. set (snd p)) - bm') <
    card (fst ` set sets - bs) + card ((\<Union>p \<in> set sets. set (snd p)) - bm)"
proof -
  let ?A = "fst ` set sets" and ?B = "\<Union>p \<in> set sets. set (snd p)"
  note g = block_pass_grows [OF assms]
  have A: "finite ?A" and B: "finite ?B" by simp_all
  have a: "bs \<subseteq> bs'" "bs' \<subseteq> bs \<union> ?A" and b: "bm \<subseteq> bm'" "bm' \<subseteq> bm \<union> ?B"
    and ch: "bs \<noteq> bs' \<or> bm \<noteq> bm'"
    using g by simp_all
  note da = diff_shrinks [OF A a] and db = diff_shrinks [OF B b]
  show ?thesis using da db ch by linarith
qed

function block_loop :: "(string \<times> string list) list \<Rightarrow> string set \<Rightarrow> string set \<Rightarrow> string set \<times> string set" where
  "block_loop sets bs bm =
     (case block_pass sets (bs, bm, False) of
        (bs', bm', changed) \<Rightarrow> if changed then block_loop sets bs' bm' else (bs', bm'))"
  by pat_completeness auto
termination
  by (relation "measure (\<lambda>(sets, bs, bm).
        card (fst ` set sets - bs) + card ((\<Union>p \<in> set sets. set (snd p)) - bm))")
     (simp_all only: wf_measure in_measure prod.case block_pass_shrinks prod.inject simp_thms)

declare block_loop.simps [simp del]

section \<open>Reconciliation\<close>

record progress =
  p_transactions :: "string \<rightharpoonup> string"
  p_quarantine :: "string set"
  p_finalized :: "string set"

text \<open>Messages already claimed by a send: announced to the waiting Matrix event, or finished.\<close>

fun settle_claimed :: "env \<Rightarrow> string \<Rightarrow> remote_message list \<Rightarrow> progress \<Rightarrow> progress act" where
  "settle_claimed E conversationID [] p = ret p"
| "settle_claimed E conversationID (m # ms) p =
     (if \<not> validOutboundRemoteMessageID (rm_ID m) then settle_claimed E conversationID ms p
      else andThen (lift_store (Outbound_GetByRemoteID (e_pke E) (e_bridge_id E) (e_login_id E)
             conversationID (rm_ID m))) (\<lambda>resolved.
        case resolved of
          None \<Rightarrow> settle_claimed E conversationID ms p
        | Some s \<Rightarrow>
            andThen (activeOutboundPending s) (\<lambda>active.
            if active
            then settle_claimed E conversationID ms
                   (p\<lparr>p_transactions := (p_transactions p)(rm_ID m \<mapsto> TransactionID s)\<rparr>)
            else seq (update_send (\<lambda>_. s))
              (seq (finalizeOutboundWithoutEcho E (Some m))
              (settle_claimed E conversationID ms
                 (p\<lparr>p_finalized := insert (rm_ID m) (p_finalized p)\<rparr>))))))"

definition claim_result :: "env \<Rightarrow> outbound_send \<Rightarrow> string \<Rightarrow> bool \<Rightarrow> string \<Rightarrow> outbound_send act" where
  "claim_result E s messageID claimed msg =
     (if claimed then ret (s\<lparr>SendState := Resolved, RemoteMessageID := messageID\<rparr>)
      else andThen (lift_store (Outbound_Get (e_pke E) (e_bridge_id E) (e_login_id E) (TransactionID s))) (\<lambda>reloaded.
        case reloaded of
          None \<Rightarrow> fail msg
        | Some r \<Rightarrow> if SendState r \<noteq> Resolved \<or> RemoteMessageID r \<noteq> messageID then fail msg else ret r))"

definition claim_message :: "env \<Rightarrow> outbound_send \<Rightarrow> string \<Rightarrow> string \<Rightarrow> bool act" where
  "claim_message E s conversationID messageID =
     andThen time_now (\<lambda>t0.
     andThen time_now (\<lambda>now.
     lift_store (Outbound_ClaimRemoteMessage (e_bridge_id E) (e_login_id E) (TransactionID s) conversationID
       messageID (t0 + outboundResolvedDelay) now)))"

definition findConversationMessage :: "remote_message list \<Rightarrow> string \<Rightarrow> remote_message option" where
  "findConversationMessage ms i = find (\<lambda>m. rm_ID m = i) ms"

fun claim_forced ::
  "env \<Rightarrow> conversation \<Rightarrow> (string \<rightharpoonup> string) \<Rightarrow> (outbound_send \<times> string list) list \<Rightarrow> progress \<Rightarrow> progress act" where
  "claim_forced E c forced [] p = ret p"
| "claim_forced E c forced ((s, ids) # sets) p =
     (case forced (TransactionID s) of
        None \<Rightarrow> claim_forced E c forced sets p
      | Some messageID \<Rightarrow>
          if messageID = [] then claim_forced E c forced sets p
          else
          andThen (claim_message E s (cv_ID c) messageID) (\<lambda>claimed.
          andThen (claim_result E s messageID claimed
            ''tumblr outbound candidate graph changed while claiming a forced match'') (\<lambda>s'.
          andThen (activeOutboundPending s') (\<lambda>active.
          if active
          then claim_forced E c forced sets
                 (p\<lparr>p_transactions := (p_transactions p)(messageID \<mapsto> TransactionID s'),
                    p_quarantine := p_quarantine p - {messageID}\<rparr>)
          else case findConversationMessage (cv_Messages c) messageID of
              None \<Rightarrow> claim_forced E c forced sets p
            | Some m \<Rightarrow>
                seq (update_send (\<lambda>_. s'))
                (seq (finalizeOutboundWithoutEcho E (Some m))
                (claim_forced E c forced sets
                   (p\<lparr>p_finalized := insert messageID (p_finalized p)\<rparr>)))))))"

fun bind_matching :: "env \<Rightarrow> conversation \<Rightarrow> outbound_send list \<Rightarrow> unit act" where
  "bind_matching E c [] = ret ()"
| "bind_matching E c (s # ss) =
     (if outboundPortalMatchesConversation E (PortalKey s) c
      then seq (update_send (\<lambda>_. s))
           (andThen (bindOutboundSendToConversation E (cv_ID c)) (\<lambda>_. bind_matching E c ss))
      else bind_matching E c ss)"

definition open_messages :: "progress \<Rightarrow> conversation \<Rightarrow> remote_message list" where
  "open_messages p c =
     filter (\<lambda>m. rm_ID m \<notin> p_finalized p \<and> p_transactions p (rm_ID m) = None) (cv_Messages c)"

definition eligible_sets :: "gathered \<Rightarrow> outboundCandidateSet list" where
  "eligible_sets g =
     (let blocked = fst (block_loop (map (\<lambda>(s, ids). (TransactionID s, ids)) (g_sets g))
                          (g_blocked_sends g) (g_blocked_messages g)) in
      map (\<lambda>(s, ids). \<lparr>cset_send = Some s, messageIDs = ids\<rparr>)
        (filter (\<lambda>(s, ids). TransactionID s \<notin> blocked) (g_sets g)))"

text \<open>The messages that go on, and the held ones.\<close>

definition passed_messages :: "progress \<Rightarrow> remote_message list \<Rightarrow> remote_message list" where
  "passed_messages p ms =
     filter (\<lambda>m. rm_ID m \<notin> p_finalized p \<and> rm_ID m \<notin> p_quarantine p) ms"

definition held_messages :: "progress \<Rightarrow> remote_message list \<Rightarrow> string set" where
  "held_messages p ms = {rm_ID m |m. m \<in> set ms \<and> rm_ID m \<notin> p_finalized p \<and> rm_ID m \<in> p_quarantine p}"

record reconciliation =
  rr_transactions :: "string \<rightharpoonup> string"
  rr_heldMessageIDs :: "string set"

text \<open>Binding, the messages already claimed, and the candidate graph of the rest; then the forced
  matches of the components without a blocked relation.\<close>

definition candidate_graph :: "env \<Rightarrow> conversation \<Rightarrow> (progress \<times> gathered) act" where
  "candidate_graph E c =
     andThen (lift_store (Outbound_ListUnbound (e_pke E) (e_bridge_id E) (e_login_id E))) (\<lambda>unbound.
     seq (bind_matching E c unbound)
     (andThen (lift_store (Outbound_ListMatchable (e_pke E) (e_bridge_id E) (e_login_id E) (cv_ID c))) (\<lambda>matchable.
      andThen (settle_claimed E (cv_ID c) (cv_Messages c)
        \<lparr>p_transactions = Map.empty, p_quarantine = {}, p_finalized = {}\<rparr>) (\<lambda>p.
      andThen (gather E (open_messages p c) matchable
        \<lparr>g_sets = [], g_quarantine = {}, g_blocked_sends = {}, g_blocked_messages = {}\<rparr>) (\<lambda>g.
      ret (p, g))))))"

definition reconcileOutboundConversation ::
  "env \<Rightarrow> conversation \<Rightarrow> (reconciliation \<times> conversation) act" where
  "reconcileOutboundConversation E c =
     andThen (candidate_graph E c) (\<lambda>(p, g).
     andThen (claim_forced E c (forcedOutboundCandidateMatches (eligible_sets g)) (g_sets g)
       (p\<lparr>p_quarantine := g_quarantine g\<rparr>)) (\<lambda>p'.
     ret (\<lparr>rr_transactions = p_transactions p', rr_heldMessageIDs = held_messages p' (cv_Messages c)\<rparr>,
          c\<lparr>cv_Messages := passed_messages p' (cv_Messages c)\<rparr>)))"

section \<open>The response of a successful post\<close>

text \<open>Whether another pending send may claim the message; \<open>None\<close>: the caller gives up.\<close>

fun competing_claim :: "env \<Rightarrow> outbound_send \<Rightarrow> remote_message \<Rightarrow> outbound_send list \<Rightarrow> bool act" where
  "competing_claim E s m [] = ret False"
| "competing_claim E s m (o' # os) =
     (if TransactionID o' = TransactionID s then competing_claim E s m os
      else andThen (outboundMessageCandidate E o' m True) (\<lambda>k.
        if k = NoCandidate then competing_claim E s m os else ret True))"

fun sole_candidate ::
  "env \<Rightarrow> outbound_send \<Rightarrow> outbound_send list \<Rightarrow> remote_message list \<Rightarrow> string \<Rightarrow> string option act" where
  "sole_candidate E s matchable [] found = ret (Some found)"
| "sole_candidate E s matchable (m # ms) found =
     andThen (outboundMessageCandidate E s m True) (\<lambda>k.
     if k = Indeterminate then ret None
     else if k = NoCandidate then sole_candidate E s matchable ms found
     else if found \<noteq> [] then ret None
     else andThen (competing_claim E s m matchable) (\<lambda>competing.
       if competing then ret None else sole_candidate E s matchable ms (rm_ID m)))"

definition claimOutboundSendResponseLocked :: "env \<Rightarrow> outbound_send \<Rightarrow> conversation \<Rightarrow> unit act" where
  "claimOutboundSendResponseLocked E s c =
     (if cv_ID c \<noteq> ConversationID s then ret ()
      else andThen (lift_store (Outbound_ListUnbound (e_pke E) (e_bridge_id E) (e_login_id E))) (\<lambda>unbound.
        if list_ex (\<lambda>u. TransactionID u \<noteq> TransactionID s \<and>
                        outboundPortalMatchesConversation E (PortalKey u) c) unbound
        then ret ()
        else andThen (lift_store (Outbound_ListMatchable (e_pke E) (e_bridge_id E) (e_login_id E) (cv_ID c))) (\<lambda>matchable.
          if \<not> list_ex (\<lambda>u. TransactionID u = TransactionID s) matchable then ret ()
          else andThen (sole_candidate E s matchable (cv_Messages c) []) (\<lambda>sole.
            case sole of
              None \<Rightarrow> ret ()
            | Some messageID \<Rightarrow>
                if messageID = [] then ret ()
                else andThen (claim_message E s (cv_ID c) messageID) (\<lambda>claimed.
                  if claimed then ret ()
                  else andThen (claim_result E s messageID False
                    ''tumblr outbound candidate graph changed while claiming the send response'') (\<lambda>_. ret ()))))))"

section \<open>The baseline\<close>

text \<open>\<open>outboundBaseline\<close>: the messages the conversation already has before a send, without
  invalid and repeated identifiers. \<open>fetch\<close> is the request for the conversation's history; its
  answer is absent, or a conversation (absent or not) and its messages.\<close>

definition history_error :: "string \<Rightarrow> (conversation option \<times> remote_message list) option \<Rightarrow> go_error option" where
  "history_error conversationID resp =
     (case resp of
        None \<Rightarrow> Some (Plain ''conversation history response is missing'')
      | Some (None, _) \<Rightarrow> Some (Plain ''conversation history response did not include conversation metadata'')
      | Some (Some c, _) \<Rightarrow>
          if \<not> validRemoteID (cv_ID c)
          then Some (Plain ''conversation history response did not include a valid conversation ID'')
          else if cv_ID c \<noteq> conversationID
          then Some (Plain ''conversation history response ID did not match requested conversation'')
          else None)"

fun baseline_ids :: "remote_message list \<Rightarrow> string list \<Rightarrow> string list" where
  "baseline_ids [] ids = ids"
| "baseline_ids (m # ms) ids =
     baseline_ids ms (if \<not> validRemoteID (rm_ID m) \<or> rm_ID m \<in> set ids then ids else ids @ [rm_ID m])"

definition outboundBaseline ::
  "(conversation option \<times> remote_message list) option foreign \<Rightarrow> string \<Rightarrow> string list act" where
  "outboundBaseline fetch conversationID =
     (if conversationID = [] then ret []
      else attempt (foreign fetch) (\<lambda>resp.
        case resp of
          Inl e \<Rightarrow> handleRemoteError e
        | Inr r \<Rightarrow>
            (case history_error conversationID r of
               Some e \<Rightarrow> raise e
             | None \<Rightarrow> (case r of Some (_, ms) \<Rightarrow> ret (baseline_ids ms []) | None \<Rightarrow> ret []))))"

end
