(* ===== verification/TumblrClient.thy ===== *)
theory TumblrClient
  imports OutboundBinding
begin

text \<open>
  The HTTP client of the remote service (pkg/tumblr/client.go, login.go, push.go, blocks.go):
  loading credentials from the web page, refreshing them after a rejection, requests and their
  interpretation, and the eight ways of sending a message. Functions appear in the order of the
  files. \<open>H\<close> is what the client is wired to: the transport, the URL and JSON libraries, the
  patterns that read the web page and redact error texts.

  Case is folded for ASCII letters, which are all a blog name or a host of the service has;
  \<open>strings.ToLower\<close> also folds other letters.

  Posting a message leaves a \<open>Posted\<close> effect with the outcome of the request; it carries the
  Matrix event of the send at hand, for the theorems only.
\<close>

section \<open>The client's surroundings\<close>

record parsed_url =
  u_Scheme :: string
  u_Host :: string
  u_Hostname :: string
  u_Port :: string
  u_Path :: string
  u_EscapedPath :: string
  u_HasUser :: bool
  u_RawQuery :: string
  u_Fragment :: string
  u_Opaque :: string

text \<open>What the patterns find on the messaging page, unescaped.\<close>

record page_fields =
  pf_LoggedOut :: bool
  pf_APIURL :: string
  pf_APIToken :: string
  pf_CSRFToken :: string
  pf_RecaptchaKey :: string

record http_env =
  h_webBaseURL :: string
  h_exchange :: "http_request \<Rightarrow> http_answer foreign"
  h_messaging_page :: "http_answer foreign"
  h_login_page :: "http_answer foreign"
  h_parse :: "string \<Rightarrow> go_error + parsed_url"
  h_resolve :: "parsed_url \<Rightarrow> parsed_url \<Rightarrow> parsed_url"
  h_url_string :: "parsed_url \<Rightarrow> string"
  h_page_fields :: "string \<Rightarrow> page_fields"
  h_envelope :: "string \<Rightarrow> api_envelope \<times> go_error option"
  h_send_response :: "string \<Rightarrow> go_error + send_response"
  h_redact :: "string \<Rightarrow> string"
  h_status_text :: "int \<Rightarrow> string"
  h_content_type :: "string \<Rightarrow> string"

definition of_result :: "go_error + 'a \<Rightarrow> 'a act" where
  "of_result r = (case r of Inl e \<Rightarrow> raise e | Inr x \<Rightarrow> ret x)"

text \<open>A wait the context can end: \<open>select\<close> on the context and a timer.\<close>

definition pause :: "unit act" where
  "pause = andThen ctx_err (\<lambda>e. case e of Some err \<Rightarrow> raise err | None \<Rightarrow> ret ())"

section \<open>Header credentials and blog names\<close>

definition MaxMessageTextRunes :: nat where "MaxMessageTextRunes = 4096"
definition MaxRequestLimit :: int where "MaxRequestLimit = 100"
definition DefaultMaxUploadBytes :: nat where "DefaultMaxUploadBytes = 5 * 1024 * 1024"
definition maxBootstrapPageBytes :: nat where "maxBootstrapPageBytes = 4 * 1024 * 1024"
definition maxAPIResponseBytes :: nat where "maxAPIResponseBytes = 8 * 1024 * 1024"
definition maxIdentifierRunes :: nat where "maxIdentifierRunes = 512"

definition containsHTTPHeaderControl :: "string \<Rightarrow> bool" where
  "containsHTTPHeaderControl v \<longleftrightarrow> list_ex is_control_rune (rune_list v)"

definition normalizeOptionalHeaderCredential :: "string \<Rightarrow> string" where
  "normalizeOptionalHeaderCredential v =
     (let t = trim_space v in if t = [] \<or> containsHTTPHeaderControl t then [] else t)"

definition normalizeBearerToken :: "string \<Rightarrow> string" where
  "normalizeBearerToken v =
     (let i = normalizeOptionalHeaderCredential v in
      if i = [] then []
      else if length i < 6 \<or> \<not> equal_fold (take 6 i) ''bearer'' then i
      else let remainder = trim_space (drop 6 i) in
        if remainder = [] \<or> remainder = drop 6 i then i
        else normalizeOptionalHeaderCredential remainder)"

definition containsSpaceOrControl :: "string \<Rightarrow> bool" where
  "containsSpaceOrControl v \<longleftrightarrow> list_ex (\<lambda>r. is_space_rune r \<or> is_control_rune r) (rune_list v)"

definition contains_char :: "string \<Rightarrow> string \<Rightarrow> bool" where
  "contains_char cs s \<longleftrightarrow> list_ex (\<lambda>c. c \<in> set cs) s"

definition cleanBlogName :: "string \<Rightarrow> string" where
  "cleanBlogName v =
     (let n = trim_space v in
      if n = [] then []
      else if contains_char [CHR ''/'', CHR ''?'', CHR ''#'', CHR 0x5C] n then []
      else let m = trim_suffix ''.tumblr.com'' (trim_prefix ''www.'' (to_lower (trim_space n))) in
        if contains_char ''.'' m then []
        else if contains_char '':'' m then []
        else if containsSpaceOrControl m then []
        else m)"

definition isReservedTumblrPathSegment :: "string \<Rightarrow> bool" where
  "isReservedTumblrPathSegment seg \<longleftrightarrow>
     to_lower seg \<in> {''activity'', ''dashboard'', ''explore'', ''inbox'', ''likes'', ''login'', ''messaging'',
       ''new'', ''register'', ''search'', ''settings'', ''tagged''}"

fun split_at :: "char \<Rightarrow> string \<Rightarrow> string list" where
  "split_at c [] = [[]]"
| "split_at c (x # xs) =
     (if x = c then [] # split_at c xs
      else case split_at c xs of p # ps \<Rightarrow> (x # p) # ps | [] \<Rightarrow> [[x]])"

definition trim_slashes :: "string \<Rightarrow> string" where
  "trim_slashes s = rev (dropWhile (\<lambda>c. c = CHR ''/'') (rev (dropWhile (\<lambda>c. c = CHR ''/'') s)))"

definition blogNameFromTumblrPath :: "string \<Rightarrow> string" where
  "blogNameFromTumblrPath path =
     (case split_at (CHR ''/'') (trim_slashes path) of
        [] \<Rightarrow> []
      | p0 # rest \<Rightarrow>
          if p0 = [] then []
          else if to_lower p0 = ''blog'' then
            (case rest of
               [] \<Rightarrow> []
             | p1 # others \<Rightarrow>
                 if equal_fold p1 ''view'' then (case others of p2 # _ \<Rightarrow> p2 | [] \<Rightarrow> [])
                 else p1)
          else if to_lower p0 = ''dashboard'' then
            (case rest of
               p1 # p2 # _ \<Rightarrow> if equal_fold p1 ''blog'' then p2 else []
             | _ \<Rightarrow> [])
          else if isReservedTumblrPathSegment p0 then []
          else p0)"

definition substring :: "string \<Rightarrow> string \<Rightarrow> bool" where
  "substring p s \<longleftrightarrow> list_ex (\<lambda>i. has_prefix p (drop i s)) [0 ..< Suc (length s)]"

definition hasEscapedPathSeparator :: "parsed_url \<Rightarrow> bool" where
  "hasEscapedPathSeparator u \<longleftrightarrow>
     substring ''%2f'' (to_lower (u_EscapedPath u)) \<or> substring ''%5c'' (to_lower (u_EscapedPath u))"

definition hasInvalidExplicitBlogURLScheme :: "http_env \<Rightarrow> string \<Rightarrow> bool" where
  "hasInvalidExplicitBlogURLScheme H v =
     (case h_parse H v of
        Inl _ \<Rightarrow> False
      | Inr u \<Rightarrow> u_Scheme u \<noteq> [] \<and>
          ((u_Scheme u \<noteq> ''http'' \<and> u_Scheme u \<noteq> ''https'') \<or> u_Host u = []))"

text \<open>\<open>net.SplitHostPort\<close> as far as it decides here: exactly one colon and no brackets; the host
  is what precedes it.\<close>

definition split_host :: "string \<Rightarrow> string" where
  "split_host s =
     (if length (filter (\<lambda>c. c = CHR '':'') s) = 1 \<and> \<not> contains_char [CHR ''['', CHR '']''] s
      then takeWhile (\<lambda>c. c \<noteq> CHR '':'') s else s)"

definition parseBlogURL :: "http_env \<Rightarrow> string \<Rightarrow> parsed_url option" where
  "parseBlogURL H v =
     (case (case h_parse H v of Inr u \<Rightarrow> if u_Host u \<noteq> [] then Some u else None | Inl _ \<Rightarrow> None) of
        Some u \<Rightarrow> if u_Scheme u \<in> {''http'', ''https'', []} then Some u else None
      | None \<Rightarrow>
          let firstPart = takeWhile (\<lambda>c. c \<noteq> CHR ''/'') v;
              hostPart = trim_prefix ''www.'' (to_lower firstPart);
              host = (if contains_char '':'' hostPart
                      then trim_prefix ''www.'' (to_lower (split_host hostPart)) else hostPart) in
          if host = ''tumblr.com'' \<or> has_suffix ''.tumblr.com'' host
          then (case h_parse H (''https://'' @ v) of
                  Inr u \<Rightarrow> if u_Host u \<noteq> [] then Some u else None
                | Inl _ \<Rightarrow> None)
          else None)"

definition NormalizeBlogName :: "http_env \<Rightarrow> string \<Rightarrow> string" where
  "NormalizeBlogName H v =
     (let n = trim_prefix ''@'' (trim_space v) in
      if n = [] then []
      else case parseBlogURL H n of
          Some u \<Rightarrow>
            if u_HasUser u then []
            else let host = trim_prefix ''www.'' (to_lower (u_Hostname u)) in
              if host = ''tumblr.com''
              then (if hasEscapedPathSeparator u then [] else cleanBlogName (blogNameFromTumblrPath (u_Path u)))
              else if has_suffix ''.tumblr.com'' host then cleanBlogName (trim_suffix ''.tumblr.com'' host)
              else []
        | None \<Rightarrow> if hasInvalidExplicitBlogURLScheme H n then [] else cleanBlogName n)"

section \<open>Loading credentials\<close>

definition needsBootstrap :: "http_client \<Rightarrow> bool \<Rightarrow> bool" where
  "needsBootstrap c mutating \<longleftrightarrow> cl_apiToken c = [] \<or> (mutating \<and> cl_csrfToken c = [])"

definition isLoginPath :: "string \<Rightarrow> bool" where
  "isLoginPath p \<longleftrightarrow>
     (let t = rev (dropWhile (\<lambda>c. c = CHR ''/'') (rev p)) in t = ''/login'' \<or> has_prefix ''/login/'' t)"

definition isSameOrigin :: "parsed_url \<Rightarrow> parsed_url \<Rightarrow> bool" where
  "isSameOrigin u web \<longleftrightarrow> u_Scheme u = u_Scheme web \<and> equal_fold (u_Host u) (u_Host web)"

definition trusted_origin :: "string list \<Rightarrow> parsed_url \<Rightarrow> bool" where
  "trusted_origin hosts u \<longleftrightarrow>
     u_Scheme u = ''https'' \<and> (u_Port u = [] \<or> u_Port u = ''443'') \<and>
     trim_suffix ''.'' (to_lower (u_Hostname u)) \<in> set hosts"

definition isTrustedTumblrAPIOrigin :: "parsed_url \<Rightarrow> bool" where
  "isTrustedTumblrAPIOrigin = trusted_origin [''tumblr.com'', ''www.tumblr.com'', ''api.tumblr.com'']"

definition isTrustedTumblrWebOrigin :: "parsed_url \<Rightarrow> bool" where
  "isTrustedTumblrWebOrigin = trusted_origin [''tumblr.com'', ''www.tumblr.com'']"

definition trim_right_slashes :: "string \<Rightarrow> string" where
  "trim_right_slashes s = rev (dropWhile (\<lambda>c. c = CHR ''/'') (rev s))"

definition allowed_redirect :: "(parsed_url \<Rightarrow> bool) \<Rightarrow> http_env \<Rightarrow> string \<Rightarrow> parsed_url \<Rightarrow> bool" where
  "allowed_redirect trusted H base u \<longleftrightarrow>
     (if u_Scheme u = [] \<or> u_Host u = [] \<or> u_HasUser u then False
      else if (case h_parse H (trim_right_slashes base) of
                 Inr b \<Rightarrow> u_Scheme b \<noteq> [] \<and> u_Host b \<noteq> [] \<and> isSameOrigin u b
               | Inl _ \<Rightarrow> False) then True
      else trusted u)"

definition isAllowedBootstrapRedirectURL :: "http_env \<Rightarrow> string \<Rightarrow> parsed_url \<Rightarrow> bool" where
  "isAllowedBootstrapRedirectURL = allowed_redirect isTrustedTumblrWebOrigin"

definition isAllowedAPIRedirectURL :: "http_env \<Rightarrow> string \<Rightarrow> parsed_url \<Rightarrow> bool" where
  "isAllowedAPIRedirectURL = allowed_redirect isTrustedTumblrAPIOrigin"

definition bad_page :: "string \<Rightarrow> bool \<Rightarrow> go_error" where
  "bad_page msg incomplete = BootstrapError 0 msg False incomplete None"

definition normalizeBootstrapAPIURL :: "http_env \<Rightarrow> string \<Rightarrow> go_error + string" where
  "normalizeBootstrapAPIURL H raw =
     (let invalid = Inl (bad_page ''Tumblr messaging page included an invalid API URL'' False) in
      case h_parse H (trim_right_slashes (h_webBaseURL H)) of
        Inl _ \<Rightarrow> invalid
      | Inr web \<Rightarrow>
          if u_Scheme web = [] \<or> u_Host web = [] then invalid
          else case h_parse H (trim_space raw) of
              Inl _ \<Rightarrow> invalid
            | Inr rel \<Rightarrow>
                let u = h_resolve H web rel in
                if u_HasUser u \<or> u_RawQuery u \<noteq> [] \<or> u_Fragment u \<noteq> [] \<or> u_Opaque u \<noteq> [] then invalid
                else if isSameOrigin u web \<or> isTrustedTumblrAPIOrigin u
                then Inr (trim_right_slashes (h_url_string H u))
                else Inl (bad_page ''Tumblr messaging page included an unsafe API URL'' False))"

definition bootstrapFromHTML :: "http_env \<Rightarrow> string \<Rightarrow> unit act" where
  "bootstrapFromHTML H html =
     (let f = h_page_fields H html;
          apiToken = normalizeBearerToken (pf_APIToken f);
          csrfToken = normalizeOptionalHeaderCredential (pf_CSRFToken f);
          recaptcha = trim_space (pf_RecaptchaKey f) in
      andThen (if pf_APIURL f = [] then ret [] else of_result (normalizeBootstrapAPIURL H (pf_APIURL f))) (\<lambda>apiBaseURL.
      if apiToken = [] then
        (if \<not> blank (pf_APIToken f)
         then raise (bad_page ''Tumblr messaging page included an invalid API token'' True)
         else raise (bad_page ''Tumblr messaging page did not include an API token'' True))
      else update_client (\<lambda>c.
        c\<lparr>cl_apiBaseURL := (if apiBaseURL \<noteq> [] then apiBaseURL else cl_apiBaseURL c),
          cl_apiToken := apiToken, cl_csrfToken := csrfToken,
          cl_recaptchaSiteKey := (if recaptcha \<noteq> [] then recaptcha else cl_recaptchaSiteKey c),
          cl_authGeneration := cl_authGeneration c + 1\<rparr>)))"

text \<open>\<open>readLimitedBody\<close>.\<close>

definition limited_body :: "http_answer \<Rightarrow> nat \<Rightarrow> string \<Rightarrow> go_error + string" where
  "limited_body a maxBytes description =
     (case an_body a of
        None \<Rightarrow> Inl (Plain (''failed to read '' @ description))
      | Some b \<Rightarrow> if maxBytes < length b then Inl (Plain (description @ '' is too large'')) else Inr b)"

definition not_logged_in :: go_error where
  "not_logged_in = BootstrapError 401 ''Tumblr session is not logged in'' True False None"

definition successful :: "int \<Rightarrow> bool" where
  "successful status \<longleftrightarrow> 200 \<le> status \<and> status < 300"

definition bootstrap :: "http_env \<Rightarrow> unit act" where
  "bootstrap H =
     attempt (foreign (h_messaging_page H)) (\<lambda>got.
     case got of
       Inl cause \<Rightarrow> raise (BootstrapError 0 ''Tumblr messaging page request failed'' False False (Some cause))
     | Inr a \<Rightarrow>
         if \<not> successful (an_StatusCode a)
         then raise (BootstrapError (an_StatusCode a)
                (''failed to load Tumblr messaging page: HTTP '' @ decimal_int (an_StatusCode a))
                (an_StatusCode a = 401) False None)
         else if (case an_path a of Some p \<Rightarrow> isLoginPath p | None \<Rightarrow> False) then raise not_logged_in
         else andThen (of_result (limited_body a maxBootstrapPageBytes ''Tumblr messaging page'')) (\<lambda>html.
           if pf_LoggedOut (h_page_fields H html) then raise not_logged_in
           else bootstrapFromHTML H html))"

definition bootstrapIfNeeded :: "http_env \<Rightarrow> bool \<Rightarrow> unit act" where
  "bootstrapIfNeeded H mutating =
     andThen the_client (\<lambda>c. if \<not> needsBootstrap c mutating then ret () else bootstrap H)"

text \<open>The retry loop of \<open>refreshAuthAfterFailure\<close>; the delays left are its argument.\<close>

fun refresh_loop :: "http_env \<Rightarrow> duration list \<Rightarrow> unit act" where
  "refresh_loop H delays =
     andThen ctx_err (\<lambda>early.
     case early of
       Some e \<Rightarrow> raise e
     | None \<Rightarrow>
         attempt (bootstrap H) (\<lambda>r.
         andThen ctx_err (\<lambda>late.
         case late of
           Some e \<Rightarrow> raise e
         | None \<Rightarrow>
             (case r of
                Inr _ \<Rightarrow> ret ()
              | Inl e \<Rightarrow>
                  if \<not> IsAuthError e then raise e
                  else case delays of
                      [] \<Rightarrow> raise e
                    | d # ds \<Rightarrow> seq pause (refresh_loop H ds)))))"

declare refresh_loop.simps [simp del]

definition authRefreshRetryDelays :: "duration list" where
  "authRefreshRetryDelays = [3 * second, 6 * second]"

definition refreshAuthAfterFailure :: "http_env \<Rightarrow> 64 word \<Rightarrow> unit act" where
  "refreshAuthAfterFailure H failedGeneration =
     andThen the_client (\<lambda>c.
     if cl_authGeneration c \<noteq> failedGeneration then ret ()
     else refresh_loop H authRefreshRetryDelays)"

end
