(* ===== verification/TumblrRequests.thy ===== *)
theory TumblrRequests
  imports TumblrClient
begin

text \<open>
  Requests of the HTTP client (pkg/tumblr/client.go, login.go, push.go, blocks.go): one exchange
  and what its answer means, the general retry loop, posting a message, the checks on what is
  sent and on what comes back, and the calls the connector makes.
\<close>

section \<open>One exchange\<close>

definition isMutating :: "string \<Rightarrow> bool" where
  "isMutating m \<longleftrightarrow> m \<in> {''POST'', ''PUT'', ''PATCH'', ''DELETE''}"

definition messages_path :: string where
  "messages_path = ''/v2/conversations/messages''"

text \<open>The request with the headers of \<open>setAPIHeaders\<close> that depend on the client's state.\<close>

definition api_request ::
  "http_client \<Rightarrow> string \<Rightarrow> string \<Rightarrow> (string \<times> string) list \<Rightarrow> request_body \<Rightarrow> bool \<Rightarrow> http_request" where
  "api_request c meth path q body allowRedirects =
     \<lparr>rq_method = meth, rq_base = cl_apiBaseURL c, rq_path = path, rq_query = q, rq_body = body,
      rq_redirects = allowRedirects, rq_token = cl_apiToken c,
      rq_version = (if cl_apiVersion c \<noteq> [] then Some (cl_apiVersion c) else None),
      rq_csrf = (if cl_csrfToken c \<noteq> [] \<and> isMutating meth then Some (cl_csrfToken c) else None)\<rparr>"

definition responseCSRFToken :: "http_answer \<Rightarrow> string" where
  "responseCSRFToken a =
     (let csrf = normalizeOptionalHeaderCredential (an_csrf a) in
      if csrf \<noteq> [] then csrf else normalizeOptionalHeaderCredential (an_csrf_token a))"

definition plain_api_error :: "int \<Rightarrow> string \<Rightarrow> go_error" where
  "plain_api_error status line =
     ApiError \<lparr>StatusCode = status, Status = line, Errors = [], Body = [], ErrorCode = [], CaptchaRequired = False\<rparr>"

definition safeAPIErrors :: "http_env \<Rightarrow> api_item list \<Rightarrow> api_item list" where
  "safeAPIErrors H items = map (\<lambda>i. i\<lparr>Title := h_redact H (Title i), Detail := h_redact H (Detail i)\<rparr>) items"

definition safeAPIMetaStatus :: "http_env \<Rightarrow> int \<Rightarrow> string \<Rightarrow> string" where
  "safeAPIMetaStatus H status msg =
     (if blank msg then []
      else if h_status_text H status \<noteq> [] then h_status_text H status
      else if equal_fold (trim_space msg) ''OK'' then ''OK''
      else [])"

definition envelope_error :: "http_env \<Rightarrow> int \<Rightarrow> string \<Rightarrow> api_envelope \<Rightarrow> string \<Rightarrow> go_error" where
  "envelope_error H status line en body =
     ApiError \<lparr>StatusCode = status, Status = line, Errors = safeAPIErrors H (en_Errors en),
       Body = h_redact H body, ErrorCode = trim_space (en_ErrorCode en),
       CaptchaRequired = en_CaptchaRequired en\<rparr>"

definition empty_envelope :: api_envelope where
  "empty_envelope =
     \<lparr>en_MetaStatus = 0, en_MetaMsg = [], en_Response = [], en_Errors = [], en_ErrorCode = [],
      en_CaptchaRequired = False\<rparr>"

text \<open>Where the response goes: nowhere (\<open>out == nil\<close>), or into a value it is decoded to.\<close>

datatype 'a out_value = Discard 'a | Decode "string \<Rightarrow> go_error + 'a"

definition decode_response :: "'a out_value \<Rightarrow> string \<Rightarrow> go_error + 'a" where
  "decode_response out resp =
     (case out of
        Discard x \<Rightarrow> Inr x
      | Decode f \<Rightarrow>
          if resp = [] \<or> trim_space resp = ''null''
          then Inl (Plain ''tumblr api response is missing response data'')
          else case f resp of
              Inl e \<Rightarrow> Inl (Wrapped ''failed to parse Tumblr response'' [e])
            | Inr x \<Rightarrow> Inr x)"

text \<open>What an answer means, from the check for the login page to the decoded response.\<close>

definition read_answer :: "http_env \<Rightarrow> 'a out_value \<Rightarrow> http_answer \<Rightarrow> go_error + 'a" where
  "read_answer H out a =
     (let status = an_StatusCode a in
      if (case an_path a of Some p \<Rightarrow> isLoginPath p | None \<Rightarrow> False)
      then Inl (plain_api_error 401 ''Tumblr session is not logged in'')
      else case limited_body a maxAPIResponseBytes ''Tumblr API response'' of
          Inl e \<Rightarrow>
            if 400 \<le> status \<and> status < 500 then Inl (plain_api_error status (h_redact H (an_Status a)))
            else Inl e
        | Inr body \<Rightarrow>
            (case (if body \<noteq> [] then h_envelope H body else (empty_envelope, None)) of
               (en, err) \<Rightarrow>
                 if err \<noteq> None \<and> successful status
                 then Inl (Wrapped ''failed to parse Tumblr API envelope'' [the err])
                 else if \<not> successful status
                 then Inl (envelope_error H status (h_redact H (an_Status a)) en body)
                 else if en_MetaStatus en \<noteq> 0 \<and> \<not> successful (en_MetaStatus en)
                 then Inl (envelope_error H (en_MetaStatus en)
                        (safeAPIMetaStatus H (en_MetaStatus en) (en_MetaMsg en)) en body)
                 else decode_response out (en_Response en)))"

definition doOnceWithRedirectPolicy ::
  "http_env \<Rightarrow> string \<Rightarrow> string \<Rightarrow> (string \<times> string) list \<Rightarrow> request_body \<Rightarrow> 'a out_value \<Rightarrow> bool \<Rightarrow> 'a act" where
  "doOnceWithRedirectPolicy H meth path q body out allowRedirects =
     andThen the_client (\<lambda>c.
     case h_parse H (cl_apiBaseURL c @ path) of
       Inl e \<Rightarrow> raise e
     | Inr _ \<Rightarrow>
         attempt (foreign (h_exchange H (api_request c meth path q body allowRedirects))) (\<lambda>got.
         case got of
           Inl cause \<Rightarrow> raise (RequestError ''tumblr API request failed'' (Some cause))
         | Inr a \<Rightarrow>
             seq (if responseCSRFToken a \<noteq> [] then update_client (\<lambda>c. c\<lparr>cl_csrfToken := responseCSRFToken a\<rparr>)
                  else ret ())
             (of_result (read_answer H out a))))"

definition doOnce ::
  "http_env \<Rightarrow> string \<Rightarrow> string \<Rightarrow> (string \<times> string) list \<Rightarrow> request_body \<Rightarrow> 'a out_value \<Rightarrow> 'a act" where
  "doOnce H meth path q body out = doOnceWithRedirectPolicy H meth path q body out True"

section \<open>Retries\<close>

definition apiTransientRetryDelays :: "duration list" where
  "apiTransientRetryDelays = [500 * millisecond, 1250 * millisecond]"

definition isDefiniteMessageRejection :: "go_error \<Rightarrow> bool" where
  "isDefiniteMessageRejection e =
     (case errors_as as_api e of Some a \<Rightarrow> 400 \<le> StatusCode a \<and> StatusCode a < 500 | None \<Rightarrow> False)"

definition isRetryableTransientSendError :: "string \<Rightarrow> string \<Rightarrow> go_error \<Rightarrow> bool" where
  "isRetryableTransientSendError meth path e =
     (if meth \<noteq> ''POST'' \<or> path \<noteq> messages_path then False
      else case errors_as as_api e of Some a \<Rightarrow> 500 \<le> StatusCode a \<and> StatusCode a < 600 | None \<Rightarrow> False)"

definition csrf_missing :: go_error where
  "csrf_missing = Plain ''tumblr API CSRF token is missing''"

definition refresh_failed :: "string \<Rightarrow> go_error \<Rightarrow> go_error \<Rightarrow> go_error" where
  "refresh_failed meth authErr e =
     Wrapped (''tumblr API '' @ meth @ '' returned an error; authentication refresh failed'') [e]"

text \<open>The loop of \<open>do\<close>: whether the credentials were refreshed already, and the transient delays
  left.\<close>

function do_loop ::
  "http_env \<Rightarrow> string \<Rightarrow> string \<Rightarrow> (string \<times> string) list \<Rightarrow> request_body \<Rightarrow> 'a out_value \<Rightarrow>
   bool \<Rightarrow> duration list \<Rightarrow> 'a act" where
  "do_loop H meth path q body out authRetried delays =
     andThen the_client (\<lambda>c.
     attempt (doOnce H meth path q body out) (\<lambda>r.
     case r of
       Inr x \<Rightarrow> ret x
     | Inl err \<Rightarrow>
         if ShouldRefreshAuth err (isMutating meth) \<and> \<not> authRetried
         then attempt (refreshAuthAfterFailure H (cl_authGeneration c)) (\<lambda>refreshed.
           case refreshed of
             Inl e \<Rightarrow> raise (refresh_failed meth err e)
           | Inr _ \<Rightarrow>
               andThen the_client (\<lambda>c.
               if isMutating meth \<and> cl_csrfToken c = [] then raise csrf_missing
               else do_loop H meth path q body out True delays))
         else if \<not> isRetryableTransientSendError meth path err then raise err
         else case delays of
             [] \<Rightarrow> raise err
           | d # ds \<Rightarrow>
               seq (if d \<le> 0 then ret () else pause)
               (do_loop H meth path q body out authRetried ds)))"
  by pat_completeness auto
termination
  by (relation "measure (\<lambda>(H, meth, path, q, body, out, authRetried, delays).
       length delays + (if authRetried then 0 else 1))") auto

declare do_loop.simps [simp del]

definition do_request ::
  "http_env \<Rightarrow> string \<Rightarrow> string \<Rightarrow> (string \<times> string) list \<Rightarrow> request_body \<Rightarrow> 'a out_value \<Rightarrow> 'a act" where
  "do_request H meth path q body out =
     andThen the_client (\<lambda>c.
     seq (if needsBootstrap c (isMutating meth) then bootstrapIfNeeded H (isMutating meth) else ret ())
     (andThen the_client (\<lambda>c.
      if isMutating meth \<and> cl_csrfToken c = [] then raise csrf_missing
      else do_loop H meth path q body out False apiTransientRetryDelays)))"

section \<open>Posting a message\<close>

text \<open>One POST of a message, without redirects, and its trace.\<close>

definition post_message ::
  "http_env \<Rightarrow> (string \<times> string) list \<Rightarrow> request_body \<Rightarrow> send_response act" where
  "post_message H q body =
     andThen the_send (\<lambda>s.
     attempt (doOnceWithRedirectPolicy H ''POST'' messages_path q body (Decode (h_send_response H)) False) (\<lambda>r.
     seq (emit (Posted (MatrixEventID s) body (case r of Inl e \<Rightarrow> Some e | Inr _ \<Rightarrow> None)))
     (of_result r)))"

text \<open>\<open>doMessageSend\<close> from its end: the second request, the refresh after a definite rejection for
  expired credentials, and the whole.\<close>

definition retry_message ::
  "http_env \<Rightarrow> (string \<times> string) list \<Rightarrow> request_body \<Rightarrow> send_response act" where
  "retry_message H q body =
     attempt (post_message H q body) (\<lambda>retry.
     case retry of
       Inr x \<Rightarrow> ret x
     | Inl e \<Rightarrow> raise (MessageSendError (Some e) (isDefiniteMessageRejection e) None))"

definition refresh_and_retry ::
  "http_env \<Rightarrow> (string \<times> string) list \<Rightarrow> request_body \<Rightarrow> 64 word \<Rightarrow> go_error \<Rightarrow> send_response act" where
  "refresh_and_retry H q body generation err =
     attempt (refreshAuthAfterFailure H generation) (\<lambda>refreshed.
     case refreshed of
       Inl e \<Rightarrow> raise (MessageSendError (Some err) True
          (Some (Wrapped ''refresh Tumblr authentication after rejected message'' [e])))
     | Inr _ \<Rightarrow>
         andThen the_client (\<lambda>c.
         if cl_csrfToken c = []
         then raise (MessageSendError (Some err) True
           (Some (Plain ''refresh Tumblr authentication after rejected message: CSRF token is missing'')))
         else retry_message H q body))"

definition doMessageSend ::
  "http_env \<Rightarrow> (string \<times> string) list \<Rightarrow> request_body \<Rightarrow> send_response act" where
  "doMessageSend H q body =
     andThen the_client (\<lambda>c.
     attempt (if needsBootstrap c True then bootstrapIfNeeded H True else ret ()) (\<lambda>booted.
     case booted of
       Inl e \<Rightarrow> raise (MessageSendError (Some e) True None)
     | Inr _ \<Rightarrow>
         andThen the_client (\<lambda>c.
         if cl_csrfToken c = [] then raise (MessageSendError (Some csrf_missing) True None)
         else attempt (post_message H q body) (\<lambda>sent.
           case sent of
             Inr x \<Rightarrow> ret x
           | Inl err \<Rightarrow>
               let definite = isDefiniteMessageRejection err in
               if \<not> definite \<or> \<not> ShouldRefreshAuth err True
               then raise (MessageSendError (Some err) definite None)
               else refresh_and_retry H q body (cl_authGeneration c) err))))"

section \<open>Checks on what is sent\<close>

definition requireNonEmpty :: "string \<Rightarrow> string \<Rightarrow> go_error + string" where
  "requireNonEmpty v field =
     (let t = trim_space v in if t = [] then Inl (Plain (field @ '' is empty'')) else Inr t)"

definition requireIdentifierValue :: "string \<Rightarrow> string \<Rightarrow> go_error + string" where
  "requireIdentifierValue v field =
     (case requireNonEmpty v field of
        Inl e \<Rightarrow> Inl e
      | Inr t \<Rightarrow>
          if containsSpaceOrControl t then Inl (Plain (field @ '' is invalid''))
          else if maxIdentifierRunes < length (rune_list t) then Inl (Plain (field @ '' is invalid''))
          else Inr t)"

definition cappedRequestLimit :: "int \<Rightarrow> int" where
  "cappedRequestLimit l = (if l \<le> 0 then 0 else if MaxRequestLimit < l then MaxRequestLimit else l)"

text \<open>The loop of \<open>requireParticipantIDs\<close>; \<open>output\<close> is what it collected.\<close>

fun distinct_participants :: "string list \<Rightarrow> string list \<Rightarrow> go_error + string list" where
  "distinct_participants output [] = Inr output"
| "distinct_participants output (p # ps) =
     (case requireIdentifierValue p ''participant ID'' of
        Inl e \<Rightarrow> Inl e
      | Inr t \<Rightarrow> distinct_participants (if t \<in> set output then output else output @ [t]) ps)"

definition requireParticipantIDs :: "string list \<Rightarrow> go_error + string list" where
  "requireParticipantIDs input =
     (if length input < 2 then Inl (Plain ''participant IDs must include at least two participants'')
      else case distinct_participants [] input of
          Inl e \<Rightarrow> Inl e
        | Inr output \<Rightarrow>
            if length output < 2
            then Inl (Plain ''participant IDs must include at least two distinct participants'')
            else Inr output)"

definition requirePostShare :: "post_share \<Rightarrow> go_error + post_share" where
  "requirePostShare p =
     (case requireIdentifierValue (sh_ID p) ''post ID'' of
        Inl e \<Rightarrow> Inl e
      | Inr postID \<Rightarrow>
          (case requireIdentifierValue (sh_Blog p) ''post blog UUID'' of
             Inl e \<Rightarrow> Inl e
           | Inr blogID \<Rightarrow> Inr \<lparr>sh_ID = postID, sh_Blog = blogID, sh_Type = trim_space (sh_Type p)\<rparr>))"

text \<open>\<open>SniffImageMIME\<close> and \<open>CanonicalImageExtension\<close> (media.go); the type is detected by the
  standard library's \<open>http.DetectContentType\<close>.\<close>

definition SniffImageMIME :: "http_env \<Rightarrow> string \<Rightarrow> go_error + string" where
  "SniffImageMIME H d =
     (let t = h_content_type H d in
      if t \<in> {''image/jpeg'', ''image/png'', ''image/webp'', ''image/gif''} then Inr t
      else Inl (newMediaDownloadError MediaDownloadPermanent ''image format is not supported''))"

definition CanonicalImageExtension :: "string \<Rightarrow> string" where
  "CanonicalImageExtension t =
     (if t = ''image/jpeg'' then ''.jpg'' else if t = ''image/png'' then ''.png''
      else if t = ''image/webp'' then ''.webp'' else if t = ''image/gif'' then ''.gif'' else [])"

definition strip_control :: "string \<Rightarrow> string" where
  "strip_control s =
     map char_of (concat (map (\<lambda>r. encode_rune (if r = 47 \<or> r = 92 then 95 else r))
       (filter (\<lambda>r. \<not> is_control_rune r) (rune_list s))))"

text \<open>The part after the last slash, and the last dot with what follows (\<open>path.Ext\<close>).\<close>

definition after_slash :: "string \<Rightarrow> string" where
  "after_slash s = rev (takeWhile (\<lambda>c. c \<noteq> CHR ''/'') (rev s))"

definition path_ext :: "string \<Rightarrow> string" where
  "path_ext s = (if CHR ''.'' \<in> set (after_slash s)
     then CHR ''.'' # rev (takeWhile (\<lambda>c. c \<noteq> CHR ''.'') (rev (after_slash s))) else [])"

definition cleanUploadFileName :: "string \<Rightarrow> string \<Rightarrow> string" where
  "cleanUploadFileName fileName contentType =
     (let name = strip_control (after_slash (trim_space
            (map (\<lambda>c. if c = CHR 0x5C then CHR ''/'' else c) fileName)));
          base = trim_suffix (path_ext name) name;
          ext = CanonicalImageExtension contentType in
      if \<not> blank name then (if blank base then ''tumblr-image'' else base) @ ext
      else if ext \<noteq> [] then ''tumblr-image'' @ ext
      else ''tumblr-image'')"

definition requireImageUpload :: "http_env \<Rightarrow> image_upload \<Rightarrow> go_error + image_upload" where
  "requireImageUpload H im =
     (if up_Data im = [] then Inl (Plain ''image data is empty'')
      else if DefaultMaxUploadBytes < length (up_Data im) then Inl (Plain ''image data is too large'')
      else case SniffImageMIME H (up_Data im) of
          Inl e \<Rightarrow> Inl e
        | Inr contentType \<Rightarrow>
            Inr \<lparr>up_Data = up_Data im, up_FileName = cleanUploadFileName (up_FileName im) contentType,
              up_ContentType = contentType\<rparr>)"

section \<open>Checks on what comes back\<close>

definition validateSendResponseConversation :: "send_response \<Rightarrow> string \<Rightarrow> go_error option" where
  "validateSendResponseConversation r expected =
     (case sp_Conversation r of
        None \<Rightarrow> Some (Plain ''send response conversation metadata is missing'')
      | Some c \<Rightarrow>
          (case requireIdentifierValue (cv_ID c) ''send response conversation ID'' of
             Inl e \<Rightarrow> Some e
           | Inr i \<Rightarrow>
               if expected \<noteq> [] \<and> i \<noteq> expected
               then Some (Plain ''send response conversation ID did not match requested conversation ID'')
               else None))"

fun identifier_values :: "string list \<Rightarrow> string \<Rightarrow> go_error + string list" where
  "identifier_values [] field = Inr []"
| "identifier_values (v # vs) field =
     (case requireIdentifierValue v field of
        Inl e \<Rightarrow> Inl e
      | Inr t \<Rightarrow> (case identifier_values vs field of Inl e \<Rightarrow> Inl e | Inr ts \<Rightarrow> Inr (t # ts)))"

definition validateSendResponseParticipants :: "send_response \<Rightarrow> string list \<Rightarrow> go_error option" where
  "validateSendResponseParticipants r expected =
     (case validateSendResponseConversation r [] of
        Some e \<Rightarrow> Some e
      | None \<Rightarrow>
          (case sp_Conversation r of
             None \<Rightarrow> None
           | Some c \<Rightarrow>
               (case identifier_values (map bl_UUID (cv_Participants c)) ''send response participant UUID'' of
                  Inl e \<Rightarrow> Some e
                | Inr actual \<Rightarrow>
                    if sort actual \<noteq> sort expected
                    then Some (Plain ''send response participants did not match requested participants'')
                    else None)))"

definition classifySendResponseError :: "go_error \<Rightarrow> go_error" where
  "classifySendResponseError e =
     (if errors_as as_send e \<noteq> None then e else MessageSendError (Some e) False None)"

definition classified :: "send_response act \<Rightarrow> send_response act" where
  "classified m =
     attempt m (\<lambda>r. case r of Inl e \<Rightarrow> raise (classifySendResponseError e) | Inr x \<Rightarrow> ret x)"

definition validated :: "(send_response \<Rightarrow> go_error option) \<Rightarrow> send_response act \<Rightarrow> send_response act" where
  "validated check m =
     andThen m (\<lambda>x. case check x of Some e \<Rightarrow> raise e | None \<Rightarrow> ret x)"

section \<open>Sending\<close>

definition blog_fields_query :: "(string \<times> string) list" where
  "blog_fields_query = [(''fields[blogs]'', ''?avatar,name,?seconds_since_last_activity,url,?blog_view_url,?uuid,?theme,?description_npf,?is_adult,?primary'')]"

definition blank_request :: send_message_request where
  "blank_request =
     \<lparr>sr_ConversationID = [], sr_Participants = [], sr_Type = [], sr_Participant = [], sr_StickerID = [],
      sr_Post = None, sr_Message = []\<rparr>"

definition send_to_conversation ::
  "http_env \<Rightarrow> string \<Rightarrow> request_body \<Rightarrow> send_response act" where
  "send_to_conversation H conversationID body =
     classified (validated (\<lambda>r. validateSendResponseConversation r conversationID)
       (doMessageSend H blog_fields_query body))"

definition send_to_participants ::
  "http_env \<Rightarrow> string list \<Rightarrow> request_body \<Rightarrow> send_response act" where
  "send_to_participants H participantIDs body =
     classified (validated (\<lambda>r. validateSendResponseParticipants r participantIDs)
       (doMessageSend H blog_fields_query body))"

definition require_text :: "string \<Rightarrow> unit act" where
  "require_text text =
     (if blank text then fail ''message text is empty''
      else if MaxMessageTextRunes < length (rune_list text) then fail ''message text is too long''
      else ret ())"

definition SendText :: "http_env \<Rightarrow> string \<Rightarrow> string \<Rightarrow> string \<Rightarrow> send_response act" where
  "SendText H selectedBlogName conversationID text =
     andThen (of_result (requireIdentifierValue selectedBlogName ''selected blog name'')) (\<lambda>name.
     andThen (of_result (requireIdentifierValue conversationID ''conversation ID'')) (\<lambda>conv.
     seq (require_text text)
     (send_to_conversation H conv (MessageBody (blank_request\<lparr>sr_ConversationID := conv, sr_Type := ''TEXT'',
        sr_Participant := name, sr_Message := text\<rparr>)))))"

definition SendTextToParticipants :: "http_env \<Rightarrow> string \<Rightarrow> string list \<Rightarrow> string \<Rightarrow> send_response act" where
  "SendTextToParticipants H sender participantIDs text =
     andThen (of_result (requireIdentifierValue sender ''sender participant ID'')) (\<lambda>sender.
     andThen (of_result (requireParticipantIDs participantIDs)) (\<lambda>ids.
     seq (require_text text)
     (send_to_participants H ids (MessageBody (blank_request\<lparr>sr_Participants := ids, sr_Type := ''TEXT'',
        sr_Participant := sender, sr_Message := text\<rparr>)))))"

definition image_form :: "(string \<times> string) list \<Rightarrow> image_upload \<Rightarrow> request_body" where
  "image_form form_fields im =
     FormBody \<lparr>mf_Fields = form_fields, mf_FileField = ''data'', mf_FileName = up_FileName im,
       mf_FileContentType = up_ContentType im, mf_FileData = up_Data im\<rparr>"

definition SendImage :: "http_env \<Rightarrow> string \<Rightarrow> string \<Rightarrow> image_upload \<Rightarrow> send_response act" where
  "SendImage H selectedBlogName conversationID im =
     andThen (of_result (requireIdentifierValue selectedBlogName ''selected blog name'')) (\<lambda>name.
     andThen (of_result (requireIdentifierValue conversationID ''conversation ID'')) (\<lambda>conv.
     andThen (of_result (requireImageUpload H im)) (\<lambda>im.
     send_to_conversation H conv (image_form
       [(''conversation_id'', conv), (''type'', ''IMAGE''), (''participant'', name)] im))))"

fun join_comma :: "string list \<Rightarrow> string" where
  "join_comma [] = []"
| "join_comma [x] = x"
| "join_comma (x # xs) = x @ '','' @ join_comma xs"

definition SendImageToParticipants :: "http_env \<Rightarrow> string \<Rightarrow> string list \<Rightarrow> image_upload \<Rightarrow> send_response act" where
  "SendImageToParticipants H sender participantIDs im =
     andThen (of_result (requireIdentifierValue sender ''sender participant ID'')) (\<lambda>sender.
     andThen (of_result (requireParticipantIDs participantIDs)) (\<lambda>ids.
     andThen (of_result (requireImageUpload H im)) (\<lambda>im.
     send_to_participants H ids (image_form
       [(''participants'', join_comma ids), (''type'', ''IMAGE''), (''participant'', sender)] im))))"

definition SendSticker :: "http_env \<Rightarrow> string \<Rightarrow> string \<Rightarrow> string \<Rightarrow> send_response act" where
  "SendSticker H selectedBlogName conversationID stickerID =
     andThen (of_result (requireIdentifierValue selectedBlogName ''selected blog name'')) (\<lambda>name.
     andThen (of_result (requireIdentifierValue conversationID ''conversation ID'')) (\<lambda>conv.
     andThen (of_result (requireIdentifierValue stickerID ''sticker ID'')) (\<lambda>sticker.
     send_to_conversation H conv (MessageBody (blank_request\<lparr>sr_ConversationID := conv, sr_Type := ''STICKER'',
        sr_Participant := name, sr_StickerID := sticker\<rparr>)))))"

definition SendStickerToParticipants :: "http_env \<Rightarrow> string \<Rightarrow> string list \<Rightarrow> string \<Rightarrow> send_response act" where
  "SendStickerToParticipants H sender participantIDs stickerID =
     andThen (of_result (requireIdentifierValue sender ''sender participant ID'')) (\<lambda>sender.
     andThen (of_result (requireParticipantIDs participantIDs)) (\<lambda>ids.
     andThen (of_result (requireIdentifierValue stickerID ''sticker ID'')) (\<lambda>sticker.
     send_to_participants H ids (MessageBody (blank_request\<lparr>sr_Participants := ids, sr_Type := ''STICKER'',
        sr_Participant := sender, sr_StickerID := sticker\<rparr>)))))"

definition SendPostRef :: "http_env \<Rightarrow> string \<Rightarrow> string \<Rightarrow> post_share \<Rightarrow> send_response act" where
  "SendPostRef H sender conversationID post =
     andThen (of_result (requireIdentifierValue sender ''sender participant ID'')) (\<lambda>sender.
     andThen (of_result (requireIdentifierValue conversationID ''conversation ID'')) (\<lambda>conv.
     andThen (of_result (requirePostShare post)) (\<lambda>post.
     send_to_conversation H conv (MessageBody (blank_request\<lparr>sr_ConversationID := conv, sr_Type := ''POSTREF'',
        sr_Participant := sender, sr_Post := Some post\<rparr>)))))"

definition SendPostRefToParticipants :: "http_env \<Rightarrow> string \<Rightarrow> string list \<Rightarrow> post_share \<Rightarrow> send_response act" where
  "SendPostRefToParticipants H sender participantIDs post =
     andThen (of_result (requireIdentifierValue sender ''sender participant ID'')) (\<lambda>sender.
     andThen (of_result (requireParticipantIDs participantIDs)) (\<lambda>ids.
     andThen (of_result (requirePostShare post)) (\<lambda>post.
     send_to_participants H ids (MessageBody (blank_request\<lparr>sr_Participants := ids, sr_Type := ''POSTREF'',
        sr_Participant := sender, sr_Post := Some post\<rparr>)))))"

section \<open>The other calls\<close>

definition MarkConversationAsRead :: "http_env \<Rightarrow> string \<Rightarrow> string \<Rightarrow> unit act" where
  "MarkConversationAsRead H selectedBlogName conversationID =
     andThen (of_result (requireIdentifierValue selectedBlogName ''selected blog name'')) (\<lambda>name.
     andThen (of_result (requireIdentifierValue conversationID ''conversation ID'')) (\<lambda>conv.
     do_request H ''POST'' ''/v2/conversations/mark_as_read'' []
       (FieldsBody [(''conversation_id'', conv), (''participant'', name)]) (Discard ())))"

definition DeleteConversation :: "http_env \<Rightarrow> string \<Rightarrow> string \<Rightarrow> unit act" where
  "DeleteConversation H selectedBlogName conversationID =
     andThen (of_result (requireIdentifierValue selectedBlogName ''selected blog name'')) (\<lambda>name.
     andThen (of_result (requireIdentifierValue conversationID ''conversation ID'')) (\<lambda>conv.
     do_request H ''DELETE'' messages_path [(''conversation_id'', conv), (''participant'', name)]
       NoBody (Discard ())))"

definition optional_cursor :: "string \<Rightarrow> string act" where
  "optional_cursor before =
     (if blank before then ret before
      else of_result (requireIdentifierValue before ''pagination cursor''))"

definition limit_query :: "int \<Rightarrow> (string \<times> string) list" where
  "limit_query limit =
     (let l = cappedRequestLimit limit in if 0 < l then [(''limit'', decimal_int l)] else [])"

definition before_query :: "string \<Rightarrow> (string \<times> string) list" where
  "before_query before = (if before \<noteq> [] then [(''before'', before)] else [])"

definition ListConversationsBefore ::
  "http_env \<Rightarrow> (string \<Rightarrow> go_error + 'a) \<Rightarrow> string \<Rightarrow> int \<Rightarrow> string \<Rightarrow> 'a act" where
  "ListConversationsBefore H decode selectedBlogUUID limit before =
     andThen (of_result (requireIdentifierValue selectedBlogUUID ''selected blog UUID'')) (\<lambda>uuid.
     andThen (optional_cursor before) (\<lambda>before.
     do_request H ''GET'' ''/v2/conversations''
       ((''participant'', uuid) # blog_fields_query @ limit_query limit @ before_query before)
       NoBody (Decode decode)))"

definition getConversationMessages ::
  "http_env \<Rightarrow> (string \<Rightarrow> go_error + 'a) \<Rightarrow> string \<Rightarrow> string \<Rightarrow> int \<Rightarrow> string \<Rightarrow> 'a act" where
  "getConversationMessages H decode selectedBlogName conversationID limit before =
     andThen (of_result (requireIdentifierValue selectedBlogName ''selected blog name'')) (\<lambda>name.
     andThen (of_result (requireIdentifierValue conversationID ''conversation ID'')) (\<lambda>conv.
     andThen (optional_cursor before) (\<lambda>before.
     do_request H ''GET'' messages_path
       ([(''participant'', name), (''conversation_id'', conv)] @ blog_fields_query @
        [(''preserve_last_read_ts'', ''true'')] @ limit_query limit @ before_query before)
       NoBody (Decode decode))))"

definition GetConversationByParticipants ::
  "http_env \<Rightarrow> (string \<Rightarrow> go_error + 'a) \<Rightarrow> string \<Rightarrow> string \<Rightarrow> int \<Rightarrow> 'a act" where
  "GetConversationByParticipants H decode selectedBlogName otherName limit =
     andThen (of_result (requireIdentifierValue (NormalizeBlogName H selectedBlogName) ''selected blog name'')) (\<lambda>name.
     andThen (of_result (requireIdentifierValue (NormalizeBlogName H otherName) ''other participant blog name'')) (\<lambda>other.
     do_request H ''GET'' messages_path
       ([(''participant'', name), (''participants[0]'', name), (''participants[1]'', other)] @ blog_fields_query @
        [(''preserve_last_read_ts'', ''true'')] @ limit_query limit)
       NoBody (Decode decode)))"

section \<open>Signing in\<close>

definition PrepareLogin :: "http_env \<Rightarrow> unit act" where
  "PrepareLogin H =
     attempt (foreign (h_login_page H)) (\<lambda>got.
     case got of
       Inl cause \<Rightarrow> raise (BootstrapError 0 ''tumblr login page request failed'' False False (Some cause))
     | Inr a \<Rightarrow>
         if \<not> successful (an_StatusCode a)
         then raise (BootstrapError (an_StatusCode a)
                (''failed to load Tumblr login page: HTTP '' @ decimal_int (an_StatusCode a)) False False None)
         else andThen (of_result (limited_body a maxBootstrapPageBytes ''Tumblr login page'')) (\<lambda>html.
           seq (bootstrapFromHTML H html)
           (update_client (\<lambda>c. if cl_apiVersion c = [] then c\<lparr>cl_apiVersion := ''redpop/3/0//redpop/''\<rparr> else c))))"

definition loginHasErrorCode :: "go_error \<Rightarrow> int \<Rightarrow> bool" where
  "loginHasErrorCode e code =
     (case errors_as as_api e of Some a \<Rightarrow> list_ex (\<lambda>i. Code i = code) (Errors a) | None \<Rightarrow> False)"

text \<open>The fields of the request: the identifier, the password and the rest of the form.\<close>

definition PasswordLogin :: "http_env \<Rightarrow> string \<Rightarrow> string \<Rightarrow> (string \<times> string) list \<Rightarrow> unit act" where
  "PasswordLogin H identifier password others =
     (let ident = trim_space identifier;
          body = FieldsBody ([(''username'', ident), (''password'', password)] @ others @
            [(''grant_type'', ''password'')]);
          once = doOnce H ''POST'' ''/v2/oauth2/token'' [] body (Discard ()) in
      if ident = [] \<or> password = [] then fail ''tumblr email and password are required''
      else andThen the_client (\<lambda>before.
        attempt once (\<lambda>r.
        case r of
          Inr _ \<Rightarrow> ret ()
        | Inl e \<Rightarrow>
            if \<not> loginHasErrorCode e 1023 then raise e
            else andThen the_client (\<lambda>after.
              if cl_csrfToken after = [] \<or> cl_csrfToken after = cl_csrfToken before then raise e
              else once))))"

definition api_check :: "(api_error \<Rightarrow> bool) \<Rightarrow> go_error \<Rightarrow> bool" where
  "api_check p e = (case errors_as as_api e of Some a \<Rightarrow> p a | None \<Rightarrow> False)"

definition LoginNeedsTwoFactor :: "go_error \<Rightarrow> bool" where
  "LoginNeedsTwoFactor = api_check (\<lambda>a. StatusCode a = 409 \<or> ErrorCode a = ''tfa_invalid'')"

definition LoginNeedsCaptcha :: "go_error \<Rightarrow> bool" where
  "LoginNeedsCaptcha = api_check (\<lambda>a. CaptchaRequired a \<or> ErrorCode a = ''captcha_invalid'')"

definition IsLoginInputError :: "go_error \<Rightarrow> bool" where
  "IsLoginInputError = api_check (\<lambda>a. StatusCode a = 400 \<or> StatusCode a = 401)"

definition LoginRequiresPasswordReset :: "go_error \<Rightarrow> bool" where
  "LoginRequiresPasswordReset = api_check (\<lambda>a. ErrorCode a = ''password_reset'')"

definition LoginRequiresConsent :: "go_error \<Rightarrow> bool" where
  "LoginRequiresConsent = api_check (\<lambda>a. StatusCode a = 403 \<and> list_ex (\<lambda>i. Code i = 1027) (Errors a))"

definition LoginAccountPendingDeletion :: "go_error \<Rightarrow> bool" where
  "LoginAccountPendingDeletion = api_check (\<lambda>a. list_ex (\<lambda>i. Code i = 16015) (Errors a))"

end
