(* ===== verification/SendTrace.thy ===== *)
theory SendTrace
  imports TumblrRequests
begin

text \<open>
  The trace a send of the HTTP client leaves: which POSTs it makes, with which outcomes, and what
  its result says about them (pkg/tumblr/client.go: \<open>doMessageSend\<close> and the six senders). The
  interface \<open>message_sender\<close> is what the connector relies on.
\<close>

section \<open>Operations that post nothing\<close>

definition silent :: "world \<Rightarrow> world \<Rightarrow> bool" where
  "silent w w' \<longleftrightarrow> posts w' = posts w \<and> w_send w' = w_send w"

lemma silent_rtrancl: "silent\<^sup>*\<^sup>* w w' \<Longrightarrow> silent w w'"
  by (induction rule: rtranclp_induct) (auto simp: silent_def)

lemma silentD: "moves silent m \<Longrightarrow> m w = (r, w') \<Longrightarrow> posts w' = posts w \<and> w_send w' = w_send w"
  using silent_rtrancl [OF movesD [of silent m w]] by (simp add: silent_def)

lemma silent_local [moves_intros]:
  "moves silent ctx_err" "moves silent the_send" "moves silent the_client" "moves silent (update_client f)"
  "moves silent (foreign m)"
  by (auto simp: moves_def silent_def posts_def ctx_err_def the_send_def the_client_def update_client_def
      foreign_def split: prod.split intro!: r_into_rtranclp)

lemma moves_of_result [moves_intros]: "moves R (of_result r)"
  unfolding of_result_def by (intro moves_intros)

lemma moves_pause [moves_intros]: "moves R ctx_err \<Longrightarrow> moves R pause"
  unfolding pause_def by (intro moves_intros)

lemma silent_bootstrap [moves_intros]:
  "moves silent (bootstrapFromHTML H html)" "moves silent (bootstrap H)" "moves silent (bootstrapIfNeeded H b)"
  unfolding bootstrapIfNeeded_def bootstrap_def bootstrapFromHTML_def Let_def
  by (intro moves_intros)+

lemma silent_refresh_loop [moves_intros]: "moves silent (refresh_loop H ds)"
proof (induction ds)
  case Nil
  show ?case by (subst refresh_loop.simps, simp only: list.case) (intro moves_intros)
next
  case (Cons d ds)
  show ?case by (subst refresh_loop.simps, simp only: list.case) (intro moves_intros Cons)
qed

lemma silent_refresh [moves_intros]: "moves silent (refreshAuthAfterFailure H g)"
  unfolding refreshAuthAfterFailure_def by (intro moves_intros)

lemma silent_once [moves_intros]: "moves silent (doOnceWithRedirectPolicy H meth path q body out b)"
  unfolding doOnceWithRedirectPolicy_def by (intro moves_intros)

section \<open>The contract of a sender\<close>

text \<open>The service answered with a status from 400 to 499: it did not take the message.\<close>

definition rejected :: "go_error \<Rightarrow> bool" where
  "rejected e \<longleftrightarrow> (\<exists>a. errors_as as_api e = Some a \<and> StatusCode a \<in> {400..499})"

lemma definite_rejected: "isDefiniteMessageRejection e \<longleftrightarrow> rejected e"
  by (auto simp: isDefiniteMessageRejection_def rejected_def split: option.splits)

text \<open>A POST that may have been accepted, and one that was: the service answered with success and the
  client could read the answer.\<close>

fun live_post :: "effect \<Rightarrow> bool" where
  "live_post (Posted ev body None) = True"
| "live_post (Posted ev body (Some e)) = (\<not> rejected e)"
| "live_post _ = False"

fun accepted_post :: "effect \<Rightarrow> bool" where
  "accepted_post (Posted ev body None) = True"
| "accepted_post _ = False"

fun post_event :: "effect \<Rightarrow> string" where
  "post_event (Posted ev body err) = ev"
| "post_event _ = []"

lemma accepted_live: "accepted_post p \<Longrightarrow> live_post p"
  by (cases p rule: accepted_post.cases) auto

lemma accepted_live_some: "ps \<noteq> [] \<Longrightarrow> accepted_post (last ps) \<Longrightarrow> filter live_post ps \<noteq> []"
  using accepted_live [of "last ps"] last_in_set [of ps] by (auto simp: filter_empty_conv)

definition answers :: "go_error + 'r \<Rightarrow> effect list \<Rightarrow> bool" where
  "answers r ps \<longleftrightarrow>
     (case r of
        Inl e \<Rightarrow> IsMessageSendOutcomeUnknown e \<longleftrightarrow> filter live_post ps \<noteq> []
      | Inr _ \<Rightarrow> ps \<noteq> [] \<and> accepted_post (last ps))"

definition sends_one :: "'r act \<Rightarrow> bool" where
  "sends_one m \<longleftrightarrow>
     (\<forall>w r w'. m w = (r, w') \<longrightarrow>
        w_send w' = w_send w \<and>
        (\<exists>ps. posts w' = posts w @ ps \<and> (\<forall>p \<in> set ps. post_event p = MatrixEventID (w_send w)) \<and>
           length ps \<le> 2 \<and> length (filter live_post ps) \<le> 1 \<and> answers r ps))"

text \<open>What the connector relies on when it calls the client to send a message: each call posts
  for the send at hand, at most one POST may have been accepted, the error tells whether one
  may have been, and a result means that the last one was.\<close>

locale message_sender =
  fixes send :: "'r act"
  assumes one: "sends_one send"
begin

lemma traced:
  assumes "send w = (r, w')"
  obtains ps where "posts w' = posts w @ ps" "\<forall>p \<in> set ps. post_event p = MatrixEventID (w_send w)"
    "length (filter live_post ps) \<le> 1" "answers r ps" "w_send w' = w_send w"
  using one assms unfolding sends_one_def by blast

lemma failed_known:
  assumes "send w = (Inl e, w')" and "\<not> IsMessageSendOutcomeUnknown e"
  obtains ps where "posts w' = posts w @ ps" "filter live_post ps = []"
  using traced [OF assms(1)] assms(2) by (auto simp: answers_def)

end

section \<open>Posting\<close>

lemma unknown_of_send [simp]:
  "IsMessageSendOutcomeUnknown (MessageSendError e definite rf) = (\<not> definite)"
  by (simp add: IsMessageSendOutcomeUnknown_def errors_as_def walk.simps [of "MessageSendError e definite rf"])

lemma post_message_trace:
  assumes "post_message H q body w = (r, w')"
  shows "posts w' = posts w @ [Posted (MatrixEventID (w_send w)) body (case r of Inl e \<Rightarrow> Some e | Inr _ \<Rightarrow> None)]
    \<and> w_send w' = w_send w"
proof -
  obtain r1 w1 where o: "doOnceWithRedirectPolicy H ''POST'' messages_path q body (Decode (h_send_response H)) False w
      = (r1, w1)" by fastforce
  then have "posts w1 = posts w \<and> w_send w1 = w_send w" using silentD [OF silent_once] by blast
  moreover have "r = r1 \<and> w' = snd (emit (Posted (MatrixEventID (w_send w)) body
      (case r1 of Inl e \<Rightarrow> Some e | Inr _ \<Rightarrow> None)) w1)"
    using assms o
    by (auto simp: post_message_def the_send_def andThen_def attempt_def emit_def of_result_def ret_def raise_def
        split: sum.splits)
  ultimately show ?thesis by (simp add: emit_def posts_def)
qed


text \<open>Composition: a call that posts nothing before the sender, and its errors.\<close>

definition quiet_error :: "'a act \<Rightarrow> bool" where
  "quiet_error m \<longleftrightarrow> moves silent m \<and> (\<forall>w e w'. m w = (Inl e, w') \<longrightarrow> \<not> IsMessageSendOutcomeUnknown e)"

lemma sends_one_after:
  assumes "quiet_error m" and "\<And>x. sends_one (f x)"
  shows "sends_one (andThen m f)"
  unfolding sends_one_def
proof (intro allI impI)
  fix w r w'
  assume eq: "andThen m f w = (r, w')"
  obtain r1 w1 where m: "m w = (r1, w1)" by fastforce
  then have s: "posts w1 = posts w \<and> w_send w1 = w_send w"
    using assms(1) silentD unfolding quiet_error_def by blast
  let ?goal = "\<lambda>r w'. w_send w' = w_send w \<and>
        (\<exists>ps. posts w' = posts w @ ps \<and> (\<forall>p \<in> set ps. post_event p = MatrixEventID (w_send w)) \<and>
           length ps \<le> 2 \<and> length (filter live_post ps) \<le> 1 \<and> answers r ps)"
  show "?goal r w'"
  proof (cases r1)
    case (Inl e)
    then have "\<not> IsMessageSendOutcomeUnknown e" using m assms(1) unfolding quiet_error_def by blast
    then have "?goal (Inl e) w1" using s by (auto simp: answers_def)
    moreover have "r = Inl e" "w' = w1" using eq m Inl by (auto simp: andThen_def)
    ultimately show ?thesis by (simp add: answers_def)
  next
    case (Inr x)
    then have "f x w1 = (r, w')" using eq m by (simp add: andThen_def)
    then show ?thesis using assms(2) [of x] s unfolding sends_one_def by metis
  qed
qed


text \<open>A post that ends in success, one that is not rejected, and one that is.\<close>

lemma live_post_cases:
  "live_post (Posted ev body (case r of Inl e \<Rightarrow> Some e | Inr _ \<Rightarrow> None)) \<longleftrightarrow>
   (\<forall>e. r = Inl e \<longrightarrow> \<not> isDefiniteMessageRejection e)"
  "accepted_post (Posted ev body (case r of Inl e \<Rightarrow> Some e | Inr _ \<Rightarrow> None)) \<longleftrightarrow> (\<exists>x. r = Inr x)"
  by (cases r; simp add: definite_rejected)+

lemma single_post:
  assumes "post_message H q body w = (r, w')"
  obtains p where "posts w' = posts w @ [p]" "post_event p = MatrixEventID (w_send w)" "w_send w' = w_send w"
    "live_post p \<longleftrightarrow> (\<forall>e. r = Inl e \<longrightarrow> \<not> isDefiniteMessageRejection e)"
    "accepted_post p \<longleftrightarrow> (\<exists>x. r = Inr x)"
  using post_message_trace [OF assms] live_post_cases by (metis post_event.simps(1))

lemma retry_sends:
  assumes "retry_message H q body w = (r, w')"
  obtains p where "posts w' = posts w @ [p]" "post_event p = MatrixEventID (w_send w)" "w_send w' = w_send w"
    "answers r [p]"
proof -
  obtain r1 w1 where p: "post_message H q body w = (r1, w1)" by fastforce
  from single_post [OF p] obtain p where p': "posts w1 = posts w @ [p]"
    "post_event p = MatrixEventID (w_send w)" "w_send w1 = w_send w"
    "live_post p \<longleftrightarrow> (\<forall>e. r1 = Inl e \<longrightarrow> \<not> isDefiniteMessageRejection e)"
    "accepted_post p \<longleftrightarrow> (\<exists>x. r1 = Inr x)" by blast
  have "w' = w1 \<and> answers r [p]"
    using assms p p'(4,5)
    by (cases r1) (auto simp: retry_message_def attempt_def ret_def raise_def answers_def)
  then show ?thesis using p' that by blast
qed

lemma refresh_sends:
  assumes "refresh_and_retry H q body g err w = (r, w')"
  obtains ps where "posts w' = posts w @ ps" "\<forall>p \<in> set ps. post_event p = MatrixEventID (w_send w)"
    "w_send w' = w_send w" "length ps \<le> 1" "answers r ps"
proof -
  obtain r1 w1 where f: "refreshAuthAfterFailure H g w = (r1, w1)" by fastforce
  then have s: "posts w1 = posts w" "w_send w1 = w_send w" using silentD [OF silent_refresh] by blast+
  show ?thesis
  proof (cases "(\<exists>e. r1 = Inl e) \<or> cl_csrfToken (w_client w1) = []")
    case True
    then have "w' = w1 \<and> answers r []"
      using assms f by (auto simp: refresh_and_retry_def attempt_def raise_def andThen_def the_client_def
          answers_def split: sum.splits)
    then show ?thesis using s that [of "[]"] by simp
  next
    case False
    then have "retry_message H q body w1 = (r, w')"
      using assms f by (cases r1) (auto simp: refresh_and_retry_def attempt_def andThen_def the_client_def)
    from retry_sends [OF this] s show ?thesis using that by (metis list.set(1) list.set(2) empty_iff
          insert_iff One_nat_def le_numeral_extra(4) length_Cons list.size(3))
  qed
qed

lemma sends_oneI:
  assumes "w_send w' = w_send w" "posts w' = posts w @ ps"
    "\<forall>p \<in> set ps. post_event p = MatrixEventID (w_send w)" "length ps \<le> 2"
    "length (filter live_post ps) \<le> 1" "answers r ps"
  shows "w_send w' = w_send w \<and>
        (\<exists>ps. posts w' = posts w @ ps \<and> (\<forall>p \<in> set ps. post_event p = MatrixEventID (w_send w)) \<and>
           length ps \<le> 2 \<and> length (filter live_post ps) \<le> 1 \<and> answers r ps)"
  using assms by blast

lemma message_send_one: "sends_one (doMessageSend H q body)"
  unfolding sends_one_def
proof (intro allI impI)
  fix w :: world and r w'
  assume eq: "doMessageSend H q body w = (r, w')"
  obtain r1 w1 where b: "(if needsBootstrap (w_client w) True then bootstrapIfNeeded H True else ret ()) w = (r1, w1)"
    by fastforce
  have "moves silent (if needsBootstrap (w_client w) True then bootstrapIfNeeded H True else ret ())"
    by (intro moves_intros)
  from silentD [OF this b] have s1: "posts w1 = posts w" "w_send w1 = w_send w" by blast+
  obtain r2 w2 where p: "post_message H q body w1 = (r2, w2)" by fastforce
  from single_post [OF p] obtain p where p': "posts w2 = posts w @ [p]"
    "post_event p = MatrixEventID (w_send w)" "w_send w2 = w_send w"
    "live_post p \<longleftrightarrow> (\<forall>e. r2 = Inl e \<longrightarrow> \<not> isDefiniteMessageRejection e)"
    "accepted_post p \<longleftrightarrow> (\<exists>x. r2 = Inr x)" using s1 by metis
  consider (unsent) "w' = w1" "answers r []"
    | (final) "w' = w2" "answers r [p]"
    | (retry) err where "r2 = Inl err" "isDefiniteMessageRejection err"
        "refresh_and_retry H q body (cl_authGeneration (w_client w1)) err w2 = (r, w')"
    using eq b p p'(4,5)
    by (auto simp: doMessageSend_def andThen_def the_client_def attempt_def ret_def raise_def Let_def answers_def
        split: sum.splits if_splits)
  then show "w_send w' = w_send w \<and>
        (\<exists>ps. posts w' = posts w @ ps \<and> (\<forall>p \<in> set ps. post_event p = MatrixEventID (w_send w)) \<and>
           length ps \<le> 2 \<and> length (filter live_post ps) \<le> 1 \<and> answers r ps)"
  proof cases
    case unsent
    then show ?thesis using s1 by (intro sends_oneI [of _ _ "[]"]) auto
  next
    case final
    then show ?thesis using p' by (intro sends_oneI [of _ _ "[p]"]) auto
  next
    case retry
    from refresh_sends [OF retry(3)] obtain qs where qs: "posts w' = posts w2 @ qs"
      "\<forall>p \<in> set qs. post_event p = MatrixEventID (w_send w2)" "w_send w' = w_send w2" "length qs \<le> 1"
      "answers r qs" by blast
    have dead: "\<not> live_post p" using p'(4) retry by simp
    then have "answers r (p # qs)" using qs(5) by (cases r) (simp_all add: answers_def)
    then show ?thesis using p' qs dead
      by (intro sends_oneI [of _ _ "p # qs"]) (auto simp: le_trans [OF length_filter_le])
  qed
qed

section \<open>The six senders\<close>

lemma IsUnknown_Plain [simp]: "\<not> IsMessageSendOutcomeUnknown (Plain msg)"
  by (simp add: IsMessageSendOutcomeUnknown_def errors_as_def walk.simps [of "Plain msg"])

lemma quiet_error_result: "(\<And>e. r = Inl e \<Longrightarrow> \<not> IsMessageSendOutcomeUnknown e) \<Longrightarrow> quiet_error (of_result r)"
  by (auto simp: quiet_error_def of_result_def raise_def ret_def intro!: moves_intros split: sum.splits)


lemma identifier_error: "requireIdentifierValue v f = Inl e \<Longrightarrow> \<exists>msg. e = Plain msg"
  by (auto simp: requireIdentifierValue_def requireNonEmpty_def Let_def split: sum.splits if_splits)

lemma participants_error: "distinct_participants out ps = Inl e \<Longrightarrow> \<exists>msg. e = Plain msg"
  by (induction out ps rule: distinct_participants.induct) (auto split: sum.splits dest: identifier_error)

lemma identifier_values_error: "identifier_values vs f = Inl e \<Longrightarrow> \<exists>msg. e = Plain msg"
  by (induction vs) (auto split: sum.splits dest: identifier_error)

lemma argument_errors:
  "requireParticipantIDs ids = Inl e \<Longrightarrow> \<exists>msg. e = Plain msg"
  "requirePostShare post = Inl e \<Longrightarrow> \<exists>msg. e = Plain msg"
  "validateSendResponseConversation r x = Some e \<Longrightarrow> \<exists>msg. e = Plain msg"
  "validateSendResponseParticipants r ids = Some e \<Longrightarrow> \<exists>msg. e = Plain msg"
  by (auto simp: requireParticipantIDs_def requirePostShare_def validateSendResponseConversation_def
      validateSendResponseParticipants_def split: sum.splits option.splits if_splits
      dest: identifier_error participants_error identifier_values_error)

lemma quiet_arguments [intro]:
  "quiet_error (of_result (requireIdentifierValue v f))"
  "quiet_error (of_result (requireParticipantIDs ids))"
  "quiet_error (of_result (requirePostShare post))"
  by (auto intro!: quiet_error_result dest!: identifier_error argument_errors)

lemma quiet_text [intro]: "quiet_error (require_text text)"
  by (auto simp: quiet_error_def require_text_def raise_def ret_def intro!: moves_intros split: if_splits)

lemma message_send_error:
  assumes "doMessageSend H q body w = (Inl e, w')"
  shows "errors_as as_send e \<noteq> None"
proof -
  have "\<exists>c d f. e = MessageSendError c d f"
    using assms
    by (auto simp: doMessageSend_def refresh_and_retry_def retry_message_def andThen_def the_client_def
        attempt_def ret_def raise_def Let_def split: sum.splits if_splits prod.splits)
  then show ?thesis by (auto simp: errors_as_def walk.simps [of "MessageSendError _ _ _"])
qed

lemma no_send_Plain [simp]: "errors_as as_send (Plain msg) = None"
  by (simp add: errors_as_def walk.simps [of "Plain msg"])

lemma classified_one:
  assumes "\<And>x e. check x = Some e \<Longrightarrow> \<exists>msg. e = Plain msg"
  shows "sends_one (classified (validated check (doMessageSend H q body)))"
  unfolding sends_one_def
proof (intro allI impI)
  fix w r w'
  assume eq: "classified (validated check (doMessageSend H q body)) w = (r, w')"
  obtain r1 w1 where d: "doMessageSend H q body w = (r1, w1)" by fastforce
  from message_send_one d obtain ps where ps: "w_send w1 = w_send w" "posts w1 = posts w @ ps"
    "\<forall>p \<in> set ps. post_event p = MatrixEventID (w_send w)" "length ps \<le> 2"
    "length (filter live_post ps) \<le> 1" "answers r1 ps"
    unfolding sends_one_def by blast
  have "w' = w1 \<and> answers r ps"
    using eq d ps(6) message_send_error [OF d [THEN trans]] accepted_live_some [of ps]
    by (cases r1) (auto simp: classified_def validated_def attempt_def andThen_def ret_def raise_def answers_def
        classifySendResponseError_def dest!: assms message_send_error split: option.splits)
  then show "w_send w' = w_send w \<and>
        (\<exists>ps. posts w' = posts w @ ps \<and> (\<forall>p \<in> set ps. post_event p = MatrixEventID (w_send w)) \<and>
           length ps \<le> 2 \<and> length (filter live_post ps) \<le> 1 \<and> answers r ps)"
    using ps by (intro sends_oneI [of _ _ ps]) auto
qed

lemma to_conversation_one [intro]: "sends_one (send_to_conversation H conv body)"
  unfolding send_to_conversation_def by (rule classified_one) (rule argument_errors)

lemma to_participants_one [intro]: "sends_one (send_to_participants H ids body)"
  unfolding send_to_participants_def by (rule classified_one) (rule argument_errors)

lemma download_error_known [simp]: "\<not> IsMessageSendOutcomeUnknown (newMediaDownloadError f msg)"
proof -
  have "walk (newMediaDownloadError f msg) = [newMediaDownloadError f msg]"
    unfolding newMediaDownloadError_def by (subst walk.simps) simp
  then show ?thesis
    by (simp add: IsMessageSendOutcomeUnknown_def errors_as_def newMediaDownloadError_def)
qed

lemma quiet_image [intro]: "quiet_error (of_result (requireImageUpload H im))"
  by (intro quiet_error_result)
    (auto simp: requireImageUpload_def SniffImageMIME_def Let_def split: if_splits sum.splits)

text \<open>Each of the six senders meets the contract.\<close>

lemmas sender_defs = SendText_def SendTextToParticipants_def SendImage_def SendImageToParticipants_def
  SendSticker_def SendStickerToParticipants_def SendPostRef_def SendPostRefToParticipants_def

interpretation text_sender: message_sender "SendText H name conv msg" for H name conv msg
  by unfold_locales (unfold sender_defs, intro sends_one_after quiet_arguments quiet_text to_conversation_one)

interpretation text_starter: message_sender "SendTextToParticipants H sender ids msg" for H sender ids msg
  by unfold_locales (unfold sender_defs, intro sends_one_after quiet_arguments quiet_text to_participants_one)

interpretation image_sender: message_sender "SendImage H name conv im" for H name conv im
  by unfold_locales (unfold sender_defs, intro sends_one_after quiet_arguments quiet_image to_conversation_one)

interpretation image_starter: message_sender "SendImageToParticipants H sender ids im" for H sender ids im
  by unfold_locales (unfold sender_defs, intro sends_one_after quiet_arguments quiet_image to_participants_one)

interpretation sticker_sender: message_sender "SendSticker H name conv sticker" for H name conv sticker
  by unfold_locales (unfold sender_defs, intro sends_one_after quiet_arguments to_conversation_one)

interpretation sticker_starter: message_sender "SendStickerToParticipants H sender ids sticker" for H sender ids sticker
  by unfold_locales (unfold sender_defs, intro sends_one_after quiet_arguments to_participants_one)

interpretation post_sender: message_sender "SendPostRef H sender conv post" for H sender conv post
  by unfold_locales (unfold sender_defs, intro sends_one_after quiet_arguments to_conversation_one)

interpretation post_starter: message_sender "SendPostRefToParticipants H sender ids post" for H sender ids post
  by unfold_locales (unfold sender_defs, intro sends_one_after quiet_arguments to_participants_one)

end
