(* ===== verification/QuietMoves.thy ===== *)
theory QuietMoves
  imports OutboundReconcile SendTrace OutboundLifecycle
begin

text \<open>
  What the operations of the outbound code do to the store, whatever their control flow and
  whatever fails: reporting, recovery, binding, matching and the HTTP client respect every
  relation of worlds that admits quiet steps (\<open>quiet_relation\<close>). The framework and the remote
  service are arbitrary up to what the relation allows them (\<open>outside_env\<close>).
\<close>

named_theorems calm_intros \<open>quiet operations of the connector\<close>


lemma GetNextDue_moves [moves_intros]: "moves (on_tables R) (Outbound_GetNextDue pke b l now)"
  unfolding Outbound_GetNextDue_def by (intro moves_intros)

lemma list_moves [moves_intros]:
  "moves (on_tables R) (Outbound_GetByRemoteID pke b l conv x)"
  "moves (on_tables R) (Outbound_ListUnbound pke b l)"
  "moves (on_tables R) (Outbound_ListMatchable pke b l conv)"
  unfolding Outbound_GetByRemoteID_def Outbound_ListUnbound_def Outbound_ListMatchable_def
  by (intro moves_intros)+

lemmas store_quiet = MarkUnconfirmed_quiet MarkCompleted_quiet markNotSubmitted_quiet Terminalize_quiet
  simple_quiet LoadOrCreate_quiet Get_moves GetNextDue_moves list_moves

lemma moves_case_sender [moves_intros]:
  "moves R p \<Longrightarrow> moves R b \<Longrightarrow> (\<And>x y z. moves R (f x y z)) \<Longrightarrow>
   moves R (case s of PlainSender \<Rightarrow> p | BrokenSender \<Rightarrow> b | SyncSender x y z \<Rightarrow> f x y z)"
  by (cases s) auto

lemma moves_foldr [moves_intros]:
  "(\<And>x. moves R (f x)) \<Longrightarrow> moves R (foldr (\<lambda>x rest. seq (f x) rest) xs (ret ()))"
  by (induction xs) (auto intro: moves_intros)

lemma moves_provided [moves_intros]: "moves R m \<Longrightarrow> moves R (provided b m)"
  by (simp add: provided_def moves_ret)

lemma moves_case_visual [moves_intros]:
  "(\<And>h. moves R (f h)) \<Longrightarrow> moves R u \<Longrightarrow> (\<And>e. moves R (g e)) \<Longrightarrow>
   moves R (case v of VisualHash h \<Rightarrow> f h | VisualUnavailable \<Rightarrow> u | VisualError e \<Rightarrow> g e)"
  by (cases v) auto

lemma moves_case_type [moves_intros]:
  "moves R a \<Longrightarrow> moves R b \<Longrightarrow> moves R c \<Longrightarrow> (\<And>x. moves R (d x)) \<Longrightarrow>
   moves R (case t of TextType \<Rightarrow> a | ImageType \<Rightarrow> b | PostRefType \<Rightarrow> c | TypeText x \<Rightarrow> d x)"
  by (cases t) auto

lemma moves_case_list [moves_intros]:
  "moves R a \<Longrightarrow> (\<And>x xs. moves R (f x xs)) \<Longrightarrow> moves R (case ys of [] \<Rightarrow> a | x # xs \<Rightarrow> f x xs)"
  by (cases ys) auto

lemma moves_case_bool [moves_intros]:
  "moves R m \<Longrightarrow> moves R n \<Longrightarrow> moves R (case b of True \<Rightarrow> m | False \<Rightarrow> n)"
  by (cases b) auto

definition outside_http :: "(db \<Rightarrow> db \<Rightarrow> bool) \<Rightarrow> http_env \<Rightarrow> bool" where
  "outside_http F H \<longleftrightarrow> (\<forall>r. stays F (h_exchange H r)) \<and> stays F (h_messaging_page H)"

section \<open>The worker, for every relation it respects\<close>

context quiet_relation
begin

abbreviation mild :: "env \<Rightarrow> 'a act \<Rightarrow> bool" where
  "mild E m \<equiv> moves (R (e_pke E)) m"

lemmas store_mild = store_quiet [THEN store_moves]

lemma worker_mild_1 [calm_intros]:
  assumes "outside_env F E"
  shows "mild E newOutboundStatusClaimToken"
    and "mild E (outboundDatabaseMessage s remote)"
    and "mild E (registerOutboundPending msg s)"
    and "mild E (dropOutboundPending x b)"
    and "mild E (activeOutboundPending s)"
    and "mild E (request E r)"
    and "mild E (outboundRecoveryBackoff a)"
  unfolding newOutboundStatusClaimToken_def outboundDatabaseMessage_def registerOutboundPending_def
    dropOutboundPending_def activeOutboundPending_def request_def outboundRecoveryBackoff_def
  by (intro moves_intros calm_intros store_mild assms)+

lemma terminalize_mild [calm_intros]:
  assumes "outside_env F E"
  shows "mild E (Worker_terminalizeOutboundConversation E c)"
  unfolding Worker_terminalizeOutboundConversation_def
  by (intro moves_intros calm_intros store_mild assms)

lemma worker_mild_2 [calm_intros]:
  assumes "outside_env F E"
  shows "mild E (explain_insert_failure E s err)"
    and "mild E (persistOutboundMapping E s m)"
    and "mild E (retainCompletedOutbound E)"
    and "mild E (sendOutboundStatus E st)"
    and "mild E (release_status_claim E token err)"
    and "mild E (finish_status_claim E token)"
proof -
  show 1: "mild E (explain_insert_failure E s err)" for s err
    unfolding explain_insert_failure_def by (intro moves_intros calm_intros store_mild assms)
  show "mild E (persistOutboundMapping E s m)"
    unfolding persistOutboundMapping_def by (intro moves_intros calm_intros store_mild assms 1)
  show "mild E (retainCompletedOutbound E)"
    unfolding retainCompletedOutbound_def by (intro moves_intros calm_intros store_mild assms)
  show "mild E (sendOutboundStatus E st)"
    unfolding sendOutboundStatus_def by (intro moves_intros calm_intros store_mild assms)
  show "mild E (release_status_claim E token err)"
    unfolding release_status_claim_def by (intro moves_intros calm_intros store_mild assms)
  show "mild E (finish_status_claim E token)"
    unfolding finish_status_claim_def by (intro moves_intros calm_intros store_mild assms)
qed

lemma worker_mild_3 [calm_intros]:
  assumes "outside_env F E"
  shows "mild E (notifyOutboundStatusAtLeastOnce E st)"
    and "mild E (parkOutboundUnconfirmed E now)"
    and "mild E (markOutboundUncertain E now)"
    and "mild E (schedule_retry E)"
  unfolding notifyOutboundStatusAtLeastOnce_def parkOutboundUnconfirmed_def markOutboundUncertain_def
    schedule_retry_def
  by (intro moves_intros calm_intros store_mild assms)+

lemma finish_status_mild [calm_intros]: "outside_env F E \<Longrightarrow> (\<And>e. mild E (d e)) \<Longrightarrow> mild E (finish_status d E st)"
  unfolding finish_status_def by (intro moves_intros calm_intros)

lemma mark_unconfirmed_mild [calm_intros]: "outside_env F E \<Longrightarrow> (\<And>e. mild E (d e)) \<Longrightarrow> mild E (mark_unconfirmed d E)"
  unfolding mark_unconfirmed_def by (intro moves_intros calm_intros)

lemma after_schedule_mild [calm_intros]: "mild E m \<Longrightarrow> mild E (after_schedule cause m)"
  unfolding after_schedule_def by (intro moves_intros)

lemma defer_fuel_mild [calm_intros]:
  assumes "outside_env F E"
  shows "mild E (deferOutboundRecovery_fuel n E cause)"
proof (induction n arbitrary: cause)
  case 0
  show ?case by (simp add: moves_raise)
next
  case (Suc n)
  show ?case
    unfolding deferOutboundRecovery_fuel.simps
    by (intro moves_intros calm_intros store_mild assms Suc)
qed

lemma worker_mild_4 [calm_intros]:
  assumes "outside_env F E"
  shows "mild E (deferOutboundRecovery E cause)"
    and "mild E (finishOutboundUnconfirmed E)"
    and "mild E (finishOutboundNotSubmitted E c)"
    and "mild E (markOutboundUnconfirmed E)"
  unfolding deferOutboundRecovery_def finishOutboundUnconfirmed_def finishOutboundNotSubmitted_def
    markOutboundUnconfirmed_def
  by (intro moves_intros calm_intros store_mild assms)+

lemma finalize_mild [calm_intros]:
  assumes "outside_env F E"
  shows "mild E (finalizeOutboundWithoutEcho E remote)"
  unfolding finalizeOutboundWithoutEcho_def
  by (intro moves_intros calm_intros store_mild assms)

lemma echo_mild [calm_intros]:
  assumes "outside_env F E"
  shows "mild E (outboundEchoHandler E x remote m)"
  unfolding outboundEchoHandler_def markConversationMessageSeen_def
  by (intro moves_intros calm_intros store_mild assms)

lemma portal_mild [calm_intros]:
  assumes "outside_env F E"
  shows "mild E (loadPortalWithPersistedParity E k p)"
    and "mild E (loadOutboundTargetPortal E k)"
    and "mild E (saveOutboundConversationPortal E q c)"
proof -
  show 1: "mild E (loadPortalWithPersistedParity E k p)" for k p
    unfolding loadPortalWithPersistedParity_def by (intro moves_intros calm_intros store_mild assms)
  show "mild E (loadOutboundTargetPortal E k)"
    unfolding loadOutboundTargetPortal_def by (intro moves_intros calm_intros store_mild assms 1)
  show "mild E (saveOutboundConversationPortal E q c)"
    unfolding saveOutboundConversationPortal_def by (intro moves_intros calm_intros store_mild assms)
qed

lemma finish_binding_mild [calm_intros]:
  assumes "outside_env F E"
  shows "mild E (finishOutboundPortalBinding E s p k d)"
  unfolding finishOutboundPortalBinding_def by (intro moves_intros calm_intros store_mild assms)

lemma ownership_mild [calm_intros]:
  assumes "outside_env F E"
  shows "mild E (owner_is_elsewhere E s k d p)"
    and "mild E (finish_owned E s k d q)"
    and "mild E (transfer_portal E s k' k d)"
proof -
  show "mild E (owner_is_elsewhere E s k d p)"
    unfolding owner_is_elsewhere_def Let_def by (intro moves_intros calm_intros store_mild assms)
  show 1: "mild E (finish_owned E s k d q)" for q
    unfolding finish_owned_def by (intro moves_intros calm_intros store_mild assms)
  show "mild E (transfer_portal E s k' k d)"
    unfolding transfer_portal_def by (intro moves_intros calm_intros store_mild assms 1)
qed

lemma bind_mild [calm_intros]:
  assumes "outside_env F E"
  shows "mild E (bindOutboundSendToConversation E c)"
  unfolding bindOutboundSendToConversation_def bindOutboundPortalOwnership_def
  by (intro moves_intros calm_intros store_mild assms)

lemma handle_error_mild [calm_intros]:
  assumes "outside_env F E"
  shows "mild E (handleRemoteError e)"
  unfolding handleRemoteError_def by (intro moves_intros calm_intros store_mild assms)

lemma search_mild [calm_intros]:
  assumes "outside_env F E"
  shows "mild E (search_pages n E u before)"
proof (induction n arbitrary: before)
  case 0
  show ?case by (simp add: moves_ret)
next
  case (Suc n)
  show ?case
    unfolding search_pages.simps by (intro moves_intros calm_intros store_mild assms Suc)
qed

lemma recover_mild [calm_intros]:
  assumes "outside_env F E"
  shows "mild E (recoverOutboundConversationBinding E)"
  unfolding recoverOutboundConversationBinding_def Let_def
  by (intro moves_intros calm_intros store_mild assms)

lemma prepare_mild [calm_intros]:
  assumes "outside_env F E"
  shows "mild E (prepareNextDueOutboundSend E)"
  unfolding prepareNextDueOutboundSend_def retire_not_submitted_def retire_unconfirmed_def
    abandon_prepared_def finish_resolved_def bind_unbound_def
  by (intro moves_intros calm_intros store_mild assms)

lemma finish_mild [calm_intros]:
  assumes "outside_env F E"
  shows "mild E (finishDueOutboundSend E x err)"
  unfolding finishDueOutboundSend_def stop_or_done_def finish_resolved_def
  by (intro moves_intros calm_intros store_mild assms)

lemma verify_assets_mild [calm_intros]:
  assumes "outside_env F E"
  shows "mild E (verify_assets E s urls err missing)"
proof (induction urls arbitrary: err missing)
  case Nil
  show ?case unfolding verify_assets.simps by (intro moves_intros)
next
  case (Cons url urls)
  show ?case unfolding verify_assets.simps by (intro moves_intros calm_intros store_mild assms Cons.IH)
qed

lemma candidate_mild [calm_intros]:
  assumes "outside_env F E"
  shows "mild E (outboundMessageCandidate E s m v)"
  unfolding outboundMessageCandidate_def outboundSenderMatches_def content_candidate_def
  by (intro moves_intros calm_intros store_mild assms)

lemma graph_mild [calm_intros]:
  assumes "outside_env F E"
  shows "mild E (first_look E s ms ids images)"
    and "mild E (verify_images E s ms ids' g)"
    and "mild E (gather E ms ss g')"
proof -
  show 1: "mild E (first_look E s ms ids images)" for s ms ids images
  proof (induction ms arbitrary: ids images)
    case Nil
    show ?case unfolding first_look.simps by (intro moves_intros)
  next
    case (Cons m ms)
    show ?case unfolding first_look.simps by (intro moves_intros calm_intros store_mild assms Cons.IH)
  qed
  show 2: "mild E (verify_images E s ms ids g)" for s ms ids g
  proof (induction ms arbitrary: ids g)
    case Nil
    show ?case unfolding verify_images.simps by (intro moves_intros)
  next
    case (Cons m ms)
    show ?case unfolding verify_images.simps by (intro moves_intros calm_intros store_mild assms Cons.IH)
  qed
  show "mild E (gather E ms ss g')"
  proof (induction ss arbitrary: g')
    case Nil
    show ?case unfolding gather.simps by (intro moves_intros)
  next
    case (Cons s ss)
    show ?case unfolding gather.simps by (intro moves_intros 1 2 Cons.IH)
  qed
qed

lemma claiming_mild [calm_intros]:
  assumes "outside_env F E"
  shows "mild E (settle_claimed E conv ms p)"
    and "mild E (claim_message E s conv i)"
    and "mild E (claim_result E s i b msg)"
    and "mild E (bind_matching E c ss)"
    and "mild E (claim_forced E c forced sets q)"
proof -
  show "mild E (settle_claimed E conv ms p)"
  proof (induction ms arbitrary: p)
    case Nil
    show ?case unfolding settle_claimed.simps by (intro moves_intros)
  next
    case (Cons m ms)
    show ?case unfolding settle_claimed.simps by (intro moves_intros calm_intros store_mild assms Cons.IH)
  qed
  show 1: "mild E (claim_message E s conv i)" for s conv i
    unfolding claim_message_def by (intro moves_intros store_mild)
  show 2: "mild E (claim_result E s i b msg)" for s i b msg
    unfolding claim_result_def by (intro moves_intros store_mild)
  show "mild E (bind_matching E c ss)"
  proof (induction ss)
    case Nil
    show ?case unfolding bind_matching.simps by (intro moves_intros)
  next
    case (Cons s ss)
    show ?case unfolding bind_matching.simps by (intro moves_intros calm_intros store_mild assms Cons.IH)
  qed
  show "mild E (claim_forced E c forced sets q)"
  proof (induction sets arbitrary: q)
    case Nil
    show ?case unfolding claim_forced.simps by (intro moves_intros)
  next
    case (Cons p sets)
    show ?case
      by (cases p) (simp only: claim_forced.simps, intro moves_intros calm_intros assms 1 2 Cons.IH)
  qed
qed

lemma reconcile_mild [calm_intros]:
  assumes "outside_env F E"
  shows "mild E (reconcileOutboundConversation E c)"
    and "mild E (claimOutboundSendResponseLocked E s c)"
proof -
  show "mild E (reconcileOutboundConversation E c)"
    unfolding reconcileOutboundConversation_def candidate_graph_def
    by (intro moves_intros calm_intros store_mild assms)
  have 1: "mild E (competing_claim E s m os)" for m os
  proof (induction os)
    case Nil
    show ?case unfolding competing_claim.simps by (intro moves_intros)
  next
    case (Cons o' os)
    show ?case unfolding competing_claim.simps by (intro moves_intros calm_intros store_mild assms Cons.IH)
  qed
  have 2: "mild E (sole_candidate E s matchable ms found)" for matchable ms found
  proof (induction ms arbitrary: found)
    case Nil
    show ?case unfolding sole_candidate.simps by (intro moves_intros)
  next
    case (Cons m ms)
    show ?case unfolding sole_candidate.simps by (intro moves_intros calm_intros store_mild assms 1 Cons.IH)
  qed
  show "mild E (claimOutboundSendResponseLocked E s c)"
    unfolding claimOutboundSendResponseLocked_def by (intro moves_intros calm_intros store_mild assms 2)
qed

lemma http_moves:
  assumes "outside_http F H"
  shows "moves (R pke) (foreign (h_exchange H r))" and "moves (R pke) (foreign (h_messaging_page H))"
  using assms by (auto simp: outside_http_def intro: stays_moves)

lemma client_mild [calm_intros]:
  assumes "outside_http F H"
  shows "moves (R pke) (bootstrapFromHTML H html)"
    and "moves (R pke) (bootstrap H)"
    and "moves (R pke) (bootstrapIfNeeded H b)"
    and "moves (R pke) (refreshAuthAfterFailure H g)"
    and "moves (R pke) (doOnceWithRedirectPolicy H meth path q body out r)"
proof -
  show 1: "moves (R pke) (bootstrapFromHTML H html)" for html
    unfolding bootstrapFromHTML_def by (intro moves_intros)
  show 2: "moves (R pke) (bootstrap H)"
    unfolding bootstrap_def by (intro moves_intros 1 http_moves assms)
  show "moves (R pke) (bootstrapIfNeeded H b)"
    unfolding bootstrapIfNeeded_def by (intro moves_intros 2)
  have 3: "moves (R pke) (refresh_loop H ds)" for ds
  proof (induction ds)
    case Nil
    show ?case by (subst refresh_loop.simps, simp only: list.case) (intro moves_intros 2)
  next
    case (Cons d ds)
    show ?case by (subst refresh_loop.simps, simp only: list.case) (intro moves_intros 2 Cons)
  qed
  show "moves (R pke) (refreshAuthAfterFailure H g)"
    unfolding refreshAuthAfterFailure_def by (intro moves_intros 3)
  show "moves (R pke) (doOnceWithRedirectPolicy H meth path q body out r)"
    unfolding doOnceWithRedirectPolicy_def by (intro moves_intros http_moves assms)
qed

lemma do_request_mild [calm_intros]:
  assumes "outside_http F H"
  shows "moves (R pke) (do_request H meth path q body out)"
proof -
  have "moves (R pke) (do_loop H meth path q body out b ds)" for b ds
  proof (induction "length ds + (if b then 0 else 1)" arbitrary: b ds rule: less_induct)
    case less
    have step: "moves (R pke) (do_loop H meth path q body out b' ds')"
      if "length ds' + (if b' then 0 else 1) < length ds + (if b then 0 else 1)" for b' ds'
      using less that by blast
    show ?case
      by (subst do_loop.simps, unfold doOnce_def, cases ds, simp_all only: list.case)
        (intro moves_intros calm_intros assms; (intro step; simp)?)+
  qed
  then show ?thesis
    unfolding do_request_def by (intro moves_intros calm_intros assms)
qed

end

end
