(* ===== verification/OutboundRecoveryMoves.thy ===== *)
theory OutboundRecoveryMoves
  imports QuietMoves OutboundSamples
begin

text \<open>
  What recovery can do to the store: every operation of the worker, whatever its control flow
  and whatever fails, takes quiet steps only, those that never submit a send. The framework
  and the remote service are arbitrary, as long as they leave the store's own tables alone
  (\<open>foreign_env\<close>).
\<close>

abbreviation calm :: "env \<Rightarrow> 'a act \<Rightarrow> bool" where
  "calm E m \<equiv> moves (tame (e_pke E)) m"

lemmas terminalize_calm = tamed.terminalize_mild
  and echo_calm = tamed.echo_mild

lemmas store_calm = tamed.store_mild

text \<open>The synchronisation is quiet as well: it claims and finishes sends, it never submits one.\<close>

definition calm_sync :: "env \<Rightarrow> 'd conversation_sync_ops \<Rightarrow> bool" where
  "calm_sync E Y \<longleftrightarrow>
     (\<forall>c. calm E (y_sync Y c)) \<and> (\<forall>d. calm E (y_deliver Y d)) \<and> (\<forall>d. calm E (y_commit Y d))"

lemma calm_syncD [calm_intros]:
  "calm_sync E Y \<Longrightarrow> calm E (y_sync Y c)"
  "calm_sync E Y \<Longrightarrow> calm E (y_deliver Y d)"
  "calm_sync E Y \<Longrightarrow> calm E (y_commit Y d)"
  by (simp_all add: calm_sync_def)

lemma process_next_calm [calm_intros]:
  assumes "foreign_env E" "calm_sync E Y"
  shows "calm E (processNextDueOutboundSend E Y)"
  unfolding processNextDueOutboundSend_def synchronise_def
  by (intro moves_intros calm_intros store_calm assms)

lemma process_due_calm:
  assumes "foreign_env E" "calm_sync E Y"
  shows "calm E (processDueOutboundSends n E Y)"
proof (induction n)
  case 0
  show ?case unfolding processDueOutboundSends.simps by (intro moves_intros)
next
  case (Suc n)
  show ?case
    unfolding processDueOutboundSends.simps by (intro moves_intros calm_intros assms Suc)
qed

section \<open>A quiet step submits nothing\<close>

definition submitting :: "tables \<Rightarrow> ((string \<times> string \<times> string) \<times> string \<times> string) set" where
  "submitting t = {(ob_key r, ob_event_key r) |r. r \<in> set (outbound t) \<and> ob_state r = Submitting}"

definition no_submit :: "(outbound_row \<Rightarrow> bool) \<Rightarrow> (outbound_row \<Rightarrow> outbound_row) \<Rightarrow> bool" where
  "no_submit p f \<longleftrightarrow>
     (\<forall>r. p r \<and> ob_state (f r) = Submitting \<longrightarrow>
        ob_state r = Submitting \<and> ob_key (f r) = ob_key r \<and> ob_event_key (f r) = ob_event_key r)"

lemma update_submitting:
  assumes "no_submit p f"
  shows "submitting (snd (update_outbound p f t)) \<subseteq> submitting t"
proof -
  have "submitting (t\<lparr>outbound := update_where p f (outbound t)\<rparr>) \<subseteq> submitting t"
  proof
    fix k assume "k \<in> submitting (t\<lparr>outbound := update_where p f (outbound t)\<rparr>)"
    then obtain q where q: "q \<in> set (update_where p f (outbound t))" "ob_state q = Submitting"
      "k = (ob_key q, ob_event_key q)" by (auto simp: submitting_def)
    then obtain r where r: "r \<in> set (outbound t)" "q = (if p r then f r else r)"
      by (auto simp: update_where_def)
    with q assms show "k \<in> submitting t"
      by (cases "p r") (auto simp: submitting_def no_submit_def)
  qed
  then show ?thesis using update_outbound_cases [of p f t] by auto
qed

lemma update_submitting_Inr:
  "update_outbound p f t = (Inr n, u) \<Longrightarrow> no_submit p f \<Longrightarrow> submitting u \<subseteq> submitting t"
  using update_submitting [of p f t] by simp

lemma submitting_cong: "outbound t' = outbound t \<Longrightarrow> submitting t' = submitting t"
  by (simp add: submitting_def)

lemma delete_submitting: "submitting (snd (delete_outbound p t)) \<subseteq> submitting t"
  by (auto simp: submitting_def delete_outbound_def)

lemma quiet_step_submitting:
  "outbound_step pke t e t' \<Longrightarrow> (\<And>b x. e \<noteq> Some (Submitted b x)) \<Longrightarrow> submitting t' \<subseteq> submitting t"
proof (induction rule: outbound_step.induct)
  case (create r t)
  then show ?case
    using insert_cases [of r t] by (auto simp: submitting_def fresh_row_def)
next
  case (bind key conv t b l x nx up)
  then show ?case unfolding bindOutboundSendConversation_def
    by (intro update_submitting) (auto simp: no_submit_def key_simps)
next
  case (submit ids base r t b l x st nx up n t')
  then show ?case by blast
next
  case (finish_status r t b l x notified token nx n t')
  then show ?case unfolding finishOutboundStatusDelivery_def
    by (elim update_submitting_Inr) (auto simp: no_submit_def key_simps)
next
  case (finish_status_epoch notified t b l x token nx)
  then show ?case unfolding finishOutboundStatusDelivery_def
    by (intro update_submitting) (auto simp: no_submit_def key_simps)
next
  case (terminalize b l conv trm nx t ids u t')
  then have "submitting u \<subseteq> submitting t"
    by (auto simp: terminalizeOutboundConversation_def no_submit_def key_simps
        split: prod.splits sum.splits elim!: update_submitting_Inr [THEN subsetD])
  then show ?case using terminalize.hyps(2) with_receipts_outbound submitting_cong by metis
next
  case (re_receipt b l x t t')
  then show ?case using with_receipt_outbound submitting_cong by (metis order_refl)
next
  case (environment t' t)
  then show ?case using submitting_cong by (metis order_refl)
next
  case (delete_prepared t b l x)
  show ?case unfolding deletePreparedOutboundSend_def by (rule delete_submitting)
next
  case (delete_not_submitted t b l x)
  show ?case unfolding deleteNotSubmittedOutboundSend_def by (rule delete_submitting)
next
  case (delete_unconfirmed t b l x)
  show ?case unfolding deleteUnconfirmedOutboundSend_def by (rule delete_submitting)
next
  case (not_submitted_prepared b l x trm nx t n u t')
  then have "submitting u \<subseteq> submitting t" unfolding terminal_defs
    by (elim update_submitting_Inr) (auto simp: no_submit_def key_simps)
  then show ?case using not_submitted_prepared.hyps(3) with_receipt_outbound submitting_cong by metis
next
  case (not_submitted_submitting b l x trm nx t n u t')
  then have "submitting u \<subseteq> submitting t" unfolding terminal_defs
    by (elim update_submitting_Inr) (auto simp: no_submit_def key_simps)
  then show ?case using not_submitted_submitting.hyps(3) with_receipt_outbound submitting_cong by metis
next
  case (unconfirmed b l x trm nx up t n u t')
  then have "submitting u \<subseteq> submitting t" unfolding terminal_defs
    by (elim update_submitting_Inr) (auto simp: no_submit_def key_simps)
  then show ?case using unconfirmed.hyps(3) with_receipt_outbound submitting_cong by metis
next
  case (resolved_unconfirmed b l x remote trm nx up t n u t')
  then have "submitting u \<subseteq> submitting t" unfolding terminal_defs
    by (elim update_submitting_Inr) (auto simp: no_submit_def key_simps)
  then show ?case using resolved_unconfirmed.hyps(3) with_receipt_outbound submitting_cong by metis
next
  case (completed b l x remote trm nx t n u t')
  then have "submitting u \<subseteq> submitting t" unfolding terminal_defs
    by (elim update_submitting_Inr) (auto simp: no_submit_def key_simps)
  then show ?case using completed.hyps(3) with_receipt_outbound submitting_cong by metis
qed (auto intro!: update_submitting simp: nonterminal_defs no_submit_def key_simps)

lemma quiet_submitting: "(quiet_move pke)\<^sup>*\<^sup>* t t' \<Longrightarrow> submitting t' \<subseteq> submitting t"
  by (induction rule: rtranclp_induct) (auto simp: quiet_move_def dest!: quiet_step_submitting)

lemma calm_tables: "calm E m \<Longrightarrow> (quiet_move (e_pke E))\<^sup>*\<^sup>* (tbl w) (tbl (snd (m w)))"
  using tame_rtrancl [OF movesD [of _ m w]] by blast

lemma calm_posts: "calm E m \<Longrightarrow> posts (snd (m w)) = posts w"
  using tame_rtrancl [OF movesD [of _ m w]] by blast

lemma calm_submitting: "calm E m \<Longrightarrow> submitting (tbl (snd (m w))) \<subseteq> submitting (tbl w)"
  using quiet_submitting [OF calm_tables] by blast

end
