(* ===== verification/Backoff.thy ===== *)
theory Backoff
  imports OutboundRecoveryMoves
begin

text \<open>
  Retry delays and status identifiers. The two retry loops of the connector
  (\<open>outboundRecoveryBackoff\<close> in pkg/connector/outbound.go, \<open>tumblrConversationJobBackoff\<close> in
  pkg/connector/inbound_sync.go) are instances of one interface, whose closed form is proved
  once; the encoding behind a status transaction ID is injective.
\<close>

section \<open>Doubling up to a cap\<close>

locale capped_doubling =
  fixes loop :: "nat \<Rightarrow> int \<Rightarrow> int" and cap :: int
  assumes loop_0: "loop 0 b = b"
    and loop_Suc: "loop (Suc n) b = (if b < cap then loop n (if cap < b * 2 then cap else b * 2) else b)"
begin

lemma loop_at_cap: "cap \<le> b \<Longrightarrow> loop n b = b"
  by (cases n) (auto simp: loop_0 loop_Suc)

lemma loop_closed: "0 < b \<Longrightarrow> b \<le> cap \<Longrightarrow> loop n b = min cap (b * 2 ^ n)"
proof (induction n arbitrary: b)
  case 0
  then show ?case by (simp add: loop_0)
next
  case (Suc n)
  show ?case
  proof (cases "b < cap \<and> b * 2 \<le> cap")
    case True
    then show ?thesis using Suc.IH [of "b * 2"] Suc.prems by (simp add: loop_Suc mult.assoc)
  next
    case False
    then have "cap < b * 2" using Suc.prems by linarith
    moreover have "b * 2 \<le> b * 2 ^ Suc n" using Suc.prems by (simp add: self_le_power mult_left_mono)
    ultimately have "min cap (b * 2 ^ Suc n) = cap" by simp
    then show ?thesis using \<open>cap < b * 2\<close> Suc.prems by (auto simp: loop_Suc loop_at_cap)
  qed
qed

lemma loop_range:
  assumes "0 < b" and "b \<le> cap"
  shows "b \<le> loop n b \<and> loop n b \<le> cap"
proof -
  have "b * 1 \<le> b * 2 ^ n" using assms by (intro mult_left_mono) simp_all
  then show ?thesis using loop_closed [OF assms, of n] assms by simp
qed

lemma loop_mono:
  assumes "0 < b" and "b \<le> cap" and "m \<le> n"
  shows "loop m b \<le> loop n b"
proof -
  have "b * 2 ^ m \<le> b * 2 ^ n" using assms by (intro mult_left_mono power_increasing) simp_all
  then show ?thesis using loop_closed [OF assms(1,2)] by (simp add: min.coboundedI2)
qed

end

interpretation outbound_backoff: capped_doubling backoff_loop outboundRecoveryRetryMax
  by unfold_locales simp_all

section \<open>The conversation jobs' backoff\<close>

definition tumblrJobRetryBase :: duration where "tumblrJobRetryBase = 2 * second"
definition tumblrJobRetryMax :: duration where "tumblrJobRetryMax = 5 * minute"

fun job_backoff_loop :: "nat \<Rightarrow> duration \<Rightarrow> duration" where
  "job_backoff_loop 0 backoff = backoff"
| "job_backoff_loop (Suc n) backoff =
     (if backoff < tumblrJobRetryMax
      then job_backoff_loop n (if tumblrJobRetryMax < backoff * 2 then tumblrJobRetryMax else backoff * 2)
      else backoff)"

definition tumblrConversationJobBackoff :: "int \<Rightarrow> duration act" where
  "tumblrConversationJobBackoff attempt_number =
     (let a = (if attempt_number < 1 then 1 else attempt_number);
          backoff = job_backoff_loop (nat (a - 1)) tumblrJobRetryBase
      in jitterDuration backoff (backoff div 2))"

interpretation job_backoff: capped_doubling job_backoff_loop tumblrJobRetryMax
  by unfold_locales simp_all

text \<open>Jitter keeps a delay within the spread around its base.\<close>

lemma jitter_range:
  assumes "0 \<le> spread"
  shows "\<exists>d w'. jitterDuration base spread w = (Inr d, w') \<and> base - spread \<le> d \<and> d \<le> base + spread"
proof (cases "spread = 0")
  case True
  then show ?thesis by (simp add: jitterDuration_def)
next
  case False
  let ?r = "int (w_jitter w (w_tick w)) mod (2 * spread + 1)"
  have "?r < 2 * spread + 1" using assms by (intro pos_mod_bound) linarith
  then have "?r \<le> 2 * spread" by linarith
  moreover have "0 \<le> ?r" using assms by (intro pos_mod_sign) linarith
  ultimately show ?thesis using False assms unfolding jitterDuration_def by simp
qed

section \<open>Decimal lengths and frames\<close>

fun decimal_value :: "nat \<Rightarrow> string \<Rightarrow> nat" where
  "decimal_value v [] = v"
| "decimal_value v (c # cs) = decimal_value (10 * v + (of_char c - 48)) cs"

lemma decimal_value_append: "decimal_value v (xs @ ys) = decimal_value (decimal_value v xs) ys"
  by (induction xs arbitrary: v) auto

lemma digit_code: "(of_char (char_of (n mod 10 + 48) :: char) :: nat) = n mod 10 + 48"
proof -
  have "n mod 10 + 48 < 256" using mod_less_divisor [of 10 n] by linarith
  then show ?thesis by simp
qed

lemma decimal_value_decimal: "decimal_value 0 (decimal n) = n"
proof (induction n rule: decimal.induct)
  case (1 n)
  then show ?case
    by (subst decimal.simps) (auto simp: decimal_value_append digit_code)
qed

lemma decimal_digits: "c \<in> set (decimal n) \<Longrightarrow> 48 \<le> (of_char c :: nat) \<and> (of_char c :: nat) < 58"
proof (induction n rule: decimal.induct)
  case (1 n)
  then show ?case
    by (subst (asm) (2) decimal.simps) (auto simp: digit_code split: if_splits)
qed

lemma colon_not_digit: "CHR '':'' \<notin> set (decimal n)"
  using decimal_digits [of "CHR '':''" n] by auto

lemma takeWhile_decimal: "takeWhile (\<lambda>c. c \<noteq> CHR '':'') (decimal n @ '':'' @ s) = decimal n"
proof -
  have "\<And>c. c \<in> set (decimal n) \<Longrightarrow> c \<noteq> CHR '':''" using colon_not_digit by blast
  then show ?thesis by (subst takeWhile_append2) auto
qed

lemma decimal_inj: "decimal m = decimal n \<Longrightarrow> m = n"
  using decimal_value_decimal by metis

lemma decimal_int_inj:
  assumes "decimal_int i = decimal_int j"
  shows "i = j"
proof -
  have "CHR ''-'' \<notin> set (decimal n)" for n using decimal_digits [of "CHR ''-''" n] by auto
  then have "decimal m \<noteq> CHR ''-'' # xs" "CHR ''-'' # xs \<noteq> decimal m" for m xs by (metis list.set_intros(1))+
  then show ?thesis using assms
    by (cases "i < 0"; cases "j < 0") (auto simp: decimal_int_def dest!: decimal_inj simp del: decimal.simps)
qed

lemma frame_prefix:
  assumes "status_frame a @ x = status_frame b @ y"
  shows "a = b \<and> x = y"
proof -
  have e: "decimal (length a) @ '':'' @ (a @ x) = decimal (length b) @ '':'' @ (b @ y)"
    using assms by (simp add: status_frame_def)
  then have "takeWhile (\<lambda>c. c \<noteq> CHR '':'') (decimal (length a) @ '':'' @ (a @ x)) =
      takeWhile (\<lambda>c. c \<noteq> CHR '':'') (decimal (length b) @ '':'' @ (b @ y))" by (rule arg_cong)
  then have d: "decimal (length a) = decimal (length b)" by (simp only: takeWhile_decimal)
  then have "length a = length b" using decimal_value_decimal by metis
  then show ?thesis using e d by simp
qed

lemma frames_inj:
  "length xs = length ys \<Longrightarrow> concat (map status_frame xs) = concat (map status_frame ys) \<Longrightarrow> xs = ys"
  by (induction xs ys rule: list_induct2) (auto dest: frame_prefix)

lemma hex_encode_inj: "hex_encode a = hex_encode b \<Longrightarrow> a = b"
  by (metis hex_decode_encode option.inject)

end
