(* ===== verification/RecoveryProperties.thy ===== *)
theory RecoveryProperties
  imports Backoff
begin

text \<open>
  What recovery guarantees: it never submits a message again, its mutual recursion ends, its
  delays stay in their range, and a Matrix status is always sent under the same transaction ID
  (pkg/connector/outbound.go, pkg/connector/inbound_sync.go).
\<close>

section \<open>A concrete environment\<close>

text \<open>A framework that refuses every call and a conversation synchronisation that finds
  nothing: the witnesses run in it.\<close>

definition refuse :: "'a foreign" where
  "refuse n d = (Inl (Plain ''refused''), d)"

definition accept :: "'a \<Rightarrow> 'a foreign" where
  "accept x n d = (Inr x, d)"

definition sample_env :: env where
  "sample_env =
     \<lparr>e_bridge_id = ''b'', e_login_id = ''u'', e_pke = empty_key, e_sha = (\<lambda>s. s),
      e_visual = (\<lambda>_. VisualUnavailable), e_sender = PlainSender,
      e_render = (\<lambda>_. \<lparr>rs_status = ''SUCCESS'', rs_success = True, rs_failure = False, rs_decrypt_step = False,
        rs_disable_mss = False, rs_reason = [], rs_message = [], rs_certain = True, rs_step = [], rs_retry = 0,
        rs_notice = False\<rparr>),
      e_blog_user = bl_UUID, e_remote_forbidden = False,
      e_begin_owned = accept True, e_request = (\<lambda>_. accept ()), e_portal = (\<lambda>_. accept None),
      e_db_portal_by_key = (\<lambda>_. accept None), e_db_portal_by_mxid = (\<lambda>_. accept None),
      e_portal_delete = (\<lambda>_. accept ()), e_portal_refresh = (\<lambda>_ _. accept ()),
      e_portal_update_room = (\<lambda>_ _ _. accept ()), e_portal_save = (\<lambda>_. accept ()),
      e_reid = (\<lambda>_ _. refuse), e_ghost = (\<lambda>_. accept ()), e_message_by_mxid = (\<lambda>_. accept None),
      e_message_by_id = (\<lambda>_ _. accept None), e_message_insert = (\<lambda>_. refuse),
      e_submission_lock = accept (), e_portal_lock = accept (), e_client = accept (),
      e_metadata = refuse, e_by_participants = (\<lambda>_ _. accept None), e_list_before = (\<lambda>_ _. refuse),
      e_download = (\<lambda>_. refuse)\<rparr>"

definition sample_sync :: "nat conversation_sync_ops" where
  "sample_sync = \<lparr>y_sync = (\<lambda>_. ret None), y_deliver = (\<lambda>_. ret ()), y_commit = (\<lambda>_. ret ())\<rparr>"

lemma leaves_store_samples [simp]: "leaves_store refuse" "leaves_store (accept x)"
  by (simp_all add: stays_def leaves_def refuse_def accept_def)

lemma sample_foreign: "foreign_env sample_env"
  by (simp add: outside_env_def sample_env_def)

lemma sample_calm_sync: "calm_sync E sample_sync"
  by (simp add: calm_sync_def sample_sync_def moves_ret)

lemma sample_pke [simp]: "e_pke sample_env = empty_key"
  by (simp add: sample_env_def)

section \<open>Reporting keeps a send final\<close>

definition steady :: "world \<Rightarrow> world \<Rightarrow> bool" where
  "steady w w' \<longleftrightarrow> TerminalAt (w_send w') = TerminalAt (w_send w)"

lemma steady_rtrancl: "steady\<^sup>*\<^sup>* w w' \<Longrightarrow> steady w w'"
  by (induction rule: rtranclp_induct) (auto simp: steady_def)

lemma moves_steady: "(\<And>w. w_send (snd (m w)) = w_send w) \<Longrightarrow> moves steady m"
  by (auto simp: moves_def steady_def intro!: r_into_rtranclp)

lemma steady_local [moves_intros]:
  "moves steady time_now" "moves steady (random_bytes n)" "moves steady the_send"
  "moves steady the_pending" "moves steady (put_pending p)" "moves steady (emit e)"
  "moves steady (foreign m)"
  by (rule moves_steady; simp add: time_now_def random_bytes_def the_send_def
      the_pending_def put_pending_def emit_def foreign_def split: prod.split)+

lemma steady_update: "(\<And>s. TerminalAt (f s) = TerminalAt s) \<Longrightarrow> moves steady (update_send f)"
  by (auto simp: moves_def steady_def update_send_def intro!: r_into_rtranclp)

lemma steady_store: "moves db_change m \<Longrightarrow> moves steady (lift_store m)"
proof -
  assume "moves db_change m"
  then have "moves db_change (lift_store m)" by (rule moves_lift)
  then have "w_send (snd (lift_store m w)) = w_send w" for w
    using db_change_rtrancl [OF movesD, of "lift_store m" w] by (simp add: db_change_def)
  then show ?thesis by (rule moves_steady)
qed

lemma steady_notify: "moves steady (notifyOutboundStatusAtLeastOnce E st)"
  unfolding notifyOutboundStatusAtLeastOnce_def newOutboundStatusClaimToken_def sendOutboundStatus_def
    request_def release_status_claim_def finish_status_claim_def
  by (intro steady_store moves_intros steady_update; simp)


lemma drop_pending_send: "w_send (snd (dropOutboundPending x b w)) = w_send w"
  by (simp add: dropOutboundPending_def the_pending_def put_pending_def emit_def andThen_def ret_def
      split: option.split)

lemma unconfirmed_needs_time:
  "Outbound_MarkResolvedUnconfirmed b l x remote trm nx s = (Inr y, s') \<Longrightarrow> \<not> is_zero trm"
  "Outbound_MarkUnconfirmed b l x trm nx s = (Inr y, s') \<Longrightarrow> \<not> is_zero trm"
  by (auto simp: Outbound_MarkResolvedUnconfirmed_def Outbound_MarkUnconfirmed_def raise_def split: if_splits)

lemma lift_store_InrD: "lift_store m w = (Inr x, w') \<Longrightarrow> m w = (Inr x, w')"
  by (auto simp: lift_store_def split: prod.splits sum.splits)

lemma andThen_the_send: "andThen the_send f w = f (w_send w) w"
  by (simp add: andThen_def the_send_def)

lemma andThen_update_send: "seq (update_send g) m w = m (w\<lparr>w_send := g (w_send w)\<rparr>)"
  by (simp add: andThen_def update_send_def)

lemma park_terminal:
  assumes "parkOutboundUnconfirmed E now0 w = (Inr y, w')"
  shows "isTerminal (w_send w')"
proof -
  obtain now w1 where
    "andThen the_send (\<lambda>s. let nextAttemptAt = now + millisecond in
     seq (lift_store
           (if SendState s = Resolved
            then Outbound_MarkResolvedUnconfirmed (e_bridge_id E) (UserLoginID s) (TransactionID s)
                   (RemoteMessageID s) now nextAttemptAt
            else Outbound_MarkUnconfirmed (e_bridge_id E) (UserLoginID s) (TransactionID s) now nextAttemptAt))
     (seq (update_send (\<lambda>s. s\<lparr>SendState := Unconfirmed, RemoteMessageID := [], TerminalAt := now,
        NextAttemptAt := nextAttemptAt\<rparr>))
     (dropOutboundPending (TransactionID s) True))) w1 = (Inr y, w')"
    using andThen_InrD [OF assms [unfolded parkOutboundUnconfirmed_def]] by blast
  note 1 = this [unfolded andThen_the_send Let_def, THEN andThen_InrD]
  then obtain u w2 where 2: "lift_store
           (if SendState (w_send w1) = Resolved
            then Outbound_MarkResolvedUnconfirmed (e_bridge_id E) (UserLoginID (w_send w1)) (TransactionID (w_send w1))
                   (RemoteMessageID (w_send w1)) now (now + millisecond)
            else Outbound_MarkUnconfirmed (e_bridge_id E) (UserLoginID (w_send w1)) (TransactionID (w_send w1)) now (now + millisecond)) w1
      = (Inr u, w2)"
    and 3: "dropOutboundPending (TransactionID (w_send w1)) True
       (w2\<lparr>w_send := (w_send w2)\<lparr>SendState := Unconfirmed, RemoteMessageID := [], TerminalAt := now,
        NextAttemptAt := now + millisecond\<rparr>\<rparr>) = (Inr y, w')"
    unfolding andThen_update_send by blast
  from lift_store_InrD [OF 2] have "\<not> is_zero now"
    by (auto dest: unconfirmed_needs_time split: if_splits)
  moreover have "TerminalAt (w_send w') = now"
    using arg_cong [OF 3, of "\<lambda>r. TerminalAt (w_send (snd r))"] by (simp add: drop_pending_send)
  ultimately show ?thesis by (simp add: isTerminal_def)
qed

section \<open>The depth of the recovery recursion\<close>

lemma defer_terminal:
  assumes "isTerminal (w_send w)"
  shows "deferOutboundRecovery_fuel (Suc n) E cause w = deferOutboundRecovery_fuel (Suc 0) E cause w"
  using assms by (simp add: andThen_the_send)

lemma finish_status_cong:
  assumes "isTerminal (w_send w)"
    and "\<And>e w'. isTerminal (w_send w') \<Longrightarrow> d e w' = d' e w'"
  shows "finish_status d E st w = finish_status d' E st w"
proof -
  obtain r w1 where n: "notifyOutboundStatusAtLeastOnce E st w = (r, w1)" by fastforce
  have "steady w w1"
    using steady_rtrancl [OF movesD [OF steady_notify, of w E st]] n by simp
  then have "isTerminal (w_send w1)" using assms(1) by (simp add: steady_def isTerminal_def)
  then show ?thesis using assms(2) n by (cases r) (simp_all add: finish_status_def attempt_def)
qed

lemma mark_unconfirmed_cong:
  assumes "\<And>e w'. isTerminal (w_send w') \<Longrightarrow> d e w' = d' e w'"
  shows "mark_unconfirmed d E w = mark_unconfirmed d' E w"
proof -
  obtain now w1 where t: "time_now w = (Inr now, w1)" by (simp add: time_now_def)
  obtain r w2 where p: "parkOutboundUnconfirmed E now w1 = (r, w2)" by fastforce
  show ?thesis
  proof (cases r)
    case (Inl e)
    then show ?thesis using t p by (simp add: mark_unconfirmed_def andThen_def)
  next
    case (Inr y)
    then have "isTerminal (w_send w2)" using p park_terminal by blast
    then show ?thesis
      using t p Inr finish_status_cong [OF _ assms] by (simp add: mark_unconfirmed_def andThen_def)
  qed
qed

text \<open>C26: recovery's mutual recursion ends. However the database, the framework and the clock
  behave, \<open>deferOutboundRecovery\<close> calls itself at most once through \<open>markOutboundUnconfirmed\<close>
  and \<open>finishOutboundUnconfirmed\<close>: two levels give the result of every deeper unfolding, because
  the send is final after the first.\<close>

theorem recovery_depth_bounded:
  "deferOutboundRecovery_fuel (Suc (Suc n)) E cause = deferOutboundRecovery E cause"
proof
  fix w
  let ?m = "\<lambda>k. mark_unconfirmed (deferOutboundRecovery_fuel k E) E"
  have "?m (Suc n) = ?m (Suc 0)"
    by (rule ext, rule mark_unconfirmed_cong, rule defer_terminal)
  then show "deferOutboundRecovery_fuel (Suc (Suc n)) E cause w = deferOutboundRecovery E cause w"
    by (simp add: deferOutboundRecovery_def numeral_2_eq_2 del: deferOutboundRecovery_fuel.simps(1)
        cong: if_cong)
qed

section \<open>Claims\<close>

definition sample_send :: outbound_send where
  "sample_send = send_of_row sample_row [] []"

definition sample_client :: http_client where
  "sample_client =
     \<lparr>cl_apiBaseURL = ''https://www.tumblr.com/api'', cl_apiToken = ''token'', cl_csrfToken = ''csrf'',
      cl_apiVersion = [], cl_recaptchaSiteKey = [], cl_authGeneration = 1\<rparr>"

definition sample_caches :: caches where
  "sample_caches =
     \<lparr>ca_SeenConversations = {}, ca_SeenModified = Map.empty, ca_ReadBridged = Map.empty, ca_SeenMessages = {},
      ca_SeenOrder = [], ca_Listed = None, ca_MissingQueued = Map.empty, ca_RateLimitedUntil = 0\<rparr>"

definition sample_world :: "outbound_row list \<Rightarrow> receipt_row list \<Rightarrow> world" where
  "sample_world rs cs =
     \<lparr>tbl = sample_tables rs cs, faults = [], w_clock = (\<lambda>n. 5000000000 + int n * second),
      w_random = (\<lambda>_. Some (\<lambda>_. CHR ''x'')), w_jitter = (\<lambda>_. 0), w_context = (\<lambda>_. None), w_tick = 0,
      w_pending = Map.empty, w_send = sample_send,
      w_client = sample_client, w_caches = sample_caches, w_effects = []\<rparr>"

lemma sample_world_tbl [simp]: "tbl (sample_world rs cs) = sample_tables rs cs"
  by (simp add: sample_world_def)

text \<open>C23: recovery never sends a message again. A pass of the worker over any number of due
  sends, whatever the framework, the remote service and the database answer, puts no send into
  the submitting state: every row submitting afterwards was submitting before, with the same
  identity and Matrix event, and the store's invariant is kept.\<close>

theorem recovery_never_resubmits:
  assumes "foreign_env E" and "calm_sync E Y" and "store_inv (e_pke E) (tbl w)"
  shows "submitting (tbl (snd (processDueOutboundSends n E Y w))) \<subseteq> submitting (tbl w) \<and>
    store_inv (e_pke E) (tbl (snd (processDueOutboundSends n E Y w)))"
proof
  note calm = process_due_calm [OF assms(1,2), of n]
  show "submitting (tbl (snd (processDueOutboundSends n E Y w))) \<subseteq> submitting (tbl w)"
    using calm by (rule calm_submitting)
  have "store_inv pke t'" if "(quiet_move pke)\<^sup>*\<^sup>* t t'" and "store_inv pke t" for pke t t'
    using that by (induction rule: rtranclp_induct) (auto simp: quiet_move_def intro: step_inv)
  then show "store_inv (e_pke E) (tbl (snd (processDueOutboundSends n E Y w)))"
    using calm_tables [OF calm, of w] assms(3) by blast
qed

lemma recovery_never_resubmits_witness:
  "submitting (tbl (snd (processDueOutboundSends outboundRecoveryPassMax sample_env sample_sync
     (sample_world [sample_row] [])))) = {} \<and>
   store_inv empty_key (tbl (snd (processDueOutboundSends outboundRecoveryPassMax sample_env sample_sync
     (sample_world [sample_row] []))))"
  using recovery_never_resubmits [OF sample_foreign sample_calm_sync [of sample_env],
      of "sample_world [sample_row] []" outboundRecoveryPassMax] sample_inv
  by (simp add: submitting_def sample_tables_def sample_row_def)

text \<open>C24: Matrix never sees two statuses under one transaction ID. The hash is taken of the length-prefixed
  fields, and that encoding is injective: when two status transaction IDs are equal, and the hash does
  not collide on the two encodings at hand, then the sends, the channel and every reported field are
  the same.\<close>

theorem status_transaction_injective:
  assumes "outboundStatusTransactionID sha s st channel = outboundStatusTransactionID sha s' st' channel'"
    and "sha (concat (map status_frame (status_fields s st channel))) =
           sha (concat (map status_frame (status_fields s' st' channel'))) \<Longrightarrow>
         concat (map status_frame (status_fields s st channel)) = concat (map status_frame (status_fields s' st' channel'))"
  shows "channel = channel' \<and> BridgeID s = BridgeID s' \<and> UserLoginID s = UserLoginID s' \<and>
     TransactionID s = TransactionID s' \<and> MatrixRoomID s = MatrixRoomID s' \<and>
     MatrixEventID s = MatrixEventID s' \<and> InputTransactionID s = InputTransactionID s' \<and>
     rs_status st = rs_status st' \<and> rs_reason st = rs_reason st' \<and> rs_message st = rs_message st' \<and>
     rs_certain st = rs_certain st' \<and> rs_step st = rs_step st' \<and>
     rs_retry st = rs_retry st'"
proof -
  have "sha (concat (map status_frame (status_fields s st channel))) =
      sha (concat (map status_frame (status_fields s' st' channel')))"
    using assms(1) by (auto simp: outboundStatusTransactionID_def dest: hex_encode_inj)
  from assms(2) [OF this] have "status_fields s st channel = status_fields s' st' channel'"
    by (rule frames_inj [rotated]) (simp add: status_fields_def)
  then show ?thesis by (auto simp: status_fields_def split: if_splits dest: decimal_int_inj)
qed

text \<open>With the encoding in the place of the hash nothing collides.\<close>

lemma status_transaction_injective_witness:
  "outboundStatusTransactionID (\<lambda>x. x) sample_send (e_render sample_env SuccessStatus) ''mss'' \<noteq>
   outboundStatusTransactionID (\<lambda>x. x) sample_send (e_render sample_env SuccessStatus) ''notice''"
proof
  assume "outboundStatusTransactionID (\<lambda>x. x) sample_send (e_render sample_env SuccessStatus) ''mss'' =
    outboundStatusTransactionID (\<lambda>x. x) sample_send (e_render sample_env SuccessStatus) ''notice''"
  from status_transaction_injective [OF this] show False by simp
qed

text \<open>C25: retry delays stay in their range. The delay before attempt \<open>n + 1\<close> of an outbound
  recovery is five minutes doubled \<open>n\<close> times and capped at an hour, within a fifth of it, so
  between 4 and 72 minutes; a conversation job waits two seconds doubled \<open>n\<close> times and capped at
  five minutes, within a half of it.\<close>

theorem backoff_in_range:
  "(\<exists>d w'. outboundRecoveryBackoff (int n + 1) w = (Inr d, w') \<and>
      \<bar>d - min hour (5 * minute * 2 ^ n)\<bar> \<le> min hour (5 * minute * 2 ^ n) div 5 \<and>
      4 * minute \<le> d \<and> d \<le> 72 * minute) \<and>
   (\<exists>d w'. tumblrConversationJobBackoff (int n + 1) w = (Inr d, w') \<and>
      \<bar>d - min (5 * minute) (2 * second * 2 ^ n)\<bar> \<le> min (5 * minute) (2 * second * 2 ^ n) div 2 \<and>
      second \<le> d)"
proof
  let ?b = "min hour (5 * minute * 2 ^ n) :: int"
  have b: "backoff_loop n outboundRecoveryRetry = ?b"
    using outbound_backoff.loop_closed [of outboundRecoveryRetry n]
    by (simp add: outboundRecoveryRetryMax_def outboundRecoveryRetry_def)
  have lo: "5 * minute \<le> ?b"
    using outbound_backoff.loop_range [of outboundRecoveryRetry n] b
    by (simp add: outboundRecoveryRetryMax_def outboundRecoveryRetry_def)
  have "0 \<le> ?b div 5" using lo by linarith
  from jitter_range [OF this, of ?b w]
  obtain d w' where d: "jitterDuration ?b (?b div 5) w = (Inr d, w')" "?b - ?b div 5 \<le> d" "d \<le> ?b + ?b div 5"
    by blast
  have "?b \<le> hour" by simp
  then have "4 * minute \<le> d" and "d \<le> 72 * minute" using d lo by linarith+
  moreover have "\<bar>d - ?b\<bar> \<le> ?b div 5" using d by linarith
  moreover have "outboundRecoveryBackoff (int n + 1) w = (Inr d, w')"
    using d(1) b by (simp add: outboundRecoveryBackoff_def Let_def)
  ultimately show "\<exists>d w'. outboundRecoveryBackoff (int n + 1) w = (Inr d, w') \<and>
      \<bar>d - ?b\<bar> \<le> ?b div 5 \<and> 4 * minute \<le> d \<and> d \<le> 72 * minute" by blast
next
  let ?b = "min (5 * minute) (2 * second * 2 ^ n) :: int"
  have b: "job_backoff_loop n tumblrJobRetryBase = ?b"
    using job_backoff.loop_closed [of tumblrJobRetryBase n]
    by (simp add: tumblrJobRetryMax_def tumblrJobRetryBase_def)
  have lo: "2 * second \<le> ?b"
    using job_backoff.loop_range [of tumblrJobRetryBase n] b
    by (simp add: tumblrJobRetryMax_def tumblrJobRetryBase_def)
  have "0 \<le> ?b div 2" using lo by linarith
  from jitter_range [OF this, of ?b w]
  obtain d w' where d: "jitterDuration ?b (?b div 2) w = (Inr d, w')" "?b - ?b div 2 \<le> d" "d \<le> ?b + ?b div 2"
    by blast
  have "second \<le> d" using d lo by linarith
  moreover have "\<bar>d - ?b\<bar> \<le> ?b div 2" using d by linarith
  moreover have "tumblrConversationJobBackoff (int n + 1) w = (Inr d, w')"
    using d(1) b by (simp add: tumblrConversationJobBackoff_def Let_def)
  ultimately show "\<exists>d w'. tumblrConversationJobBackoff (int n + 1) w = (Inr d, w') \<and>
      \<bar>d - ?b\<bar> \<le> ?b div 2 \<and> second \<le> d" by blast
qed

end
