(* ===== verification/ReconcileProperties.thy ===== *)
theory ReconcileProperties
  imports OutboundReconcile RecoveryProperties
begin

text \<open>
  What reconciliation guarantees (pkg/connector/outbound.go): it submits nothing, it blocks
  exactly the components of the candidate graph with an unverified image, and it lets no
  possible echo of a pending send through to the Matrix room as a new message.
\<close>

lemmas reconcile_calm = tamed.reconcile_mild

section \<open>Blocked components\<close>

text \<open>What is connected to a blocked send or message in the candidate graph.\<close>

inductive tainted :: "(string \<times> string list) list \<Rightarrow> string set \<Rightarrow> string set \<Rightarrow> string + string \<Rightarrow> bool"
  for sets bs bm where
  start_send: "x \<in> bs \<Longrightarrow> tainted sets bs bm (Inl x)"
| start_message: "m \<in> bm \<Longrightarrow> tainted sets bs bm (Inr m)"
| to_message: "tainted sets bs bm (Inl x) \<Longrightarrow> (x, ms) \<in> set sets \<Longrightarrow> m \<in> set ms \<Longrightarrow> tainted sets bs bm (Inr m)"
| to_send: "tainted sets bs bm (Inr m) \<Longrightarrow> (x, ms) \<in> set sets \<Longrightarrow> m \<in> set ms \<Longrightarrow> tainted sets bs bm (Inl x)"

definition all_tainted :: "(string \<times> string list) list \<Rightarrow> string set \<Rightarrow> string set \<Rightarrow> string set \<Rightarrow> string set \<Rightarrow> bool" where
  "all_tainted sets bs0 bm0 bs bm \<longleftrightarrow>
     (\<forall>x \<in> bs. tainted sets bs0 bm0 (Inl x)) \<and> (\<forall>m \<in> bm. tainted sets bs0 bm0 (Inr m))"

lemma block_messages_tainted:
  "block_messages x ms (bs, bm, c) = (bs', bm', c') \<Longrightarrow> (x, ms0) \<in> set sets \<Longrightarrow> set ms \<subseteq> set ms0 \<Longrightarrow>
   all_tainted sets bs0 bm0 bs bm \<Longrightarrow> all_tainted sets bs0 bm0 bs' bm'"
proof (induction ms arbitrary: bs bm c)
  case Nil
  then show ?case by simp
next
  case (Cons m ms)
  have ms: "set ms \<subseteq> set ms0" "m \<in> set ms0" using Cons.prems(3) by auto
  show ?case
  proof (cases "x \<in> bs \<and> m \<notin> bm")
    case True
    with Cons.prems have r: "block_messages x ms (bs, insert m bm, True) = (bs', bm', c')" by simp
    have "all_tainted sets bs0 bm0 bs (insert m bm)"
      using Cons.prems(2,4) True ms(2) by (auto simp: all_tainted_def intro: to_message)
    then show ?thesis using Cons.IH [OF r Cons.prems(2) ms(1)] by blast
  next
    case False
    show ?thesis
    proof (cases "m \<in> bm \<and> x \<notin> bs")
      case True
      with Cons.prems have r: "block_messages x ms (insert x bs, bm, True) = (bs', bm', c')" by auto
      have "all_tainted sets bs0 bm0 (insert x bs) bm"
        using Cons.prems(2,4) True ms(2) by (auto simp: all_tainted_def intro: to_send)
      then show ?thesis using Cons.IH [OF r Cons.prems(2) ms(1)] by blast
    next
      case f: False
      with False Cons.prems have r: "block_messages x ms (bs, bm, c) = (bs', bm', c')" by auto
      show ?thesis using Cons.IH [OF r Cons.prems(2) ms(1) Cons.prems(4)] .
    qed
  qed
qed

lemma block_pass_tainted:
  "block_pass ss (bs, bm, c) = (bs', bm', c') \<Longrightarrow> set ss \<subseteq> set sets \<Longrightarrow>
   all_tainted sets bs0 bm0 bs bm \<Longrightarrow> all_tainted sets bs0 bm0 bs' bm'"
proof (induction ss arbitrary: bs bm c)
  case Nil
  then show ?case by simp
next
  case (Cons p ss)
  obtain x ms where p: "p = (x, ms)" by fastforce
  obtain b1 m1 c1 where 1: "block_messages x ms (bs, bm, c) = (b1, m1, c1)" by (metis prod_cases3)
  with Cons.prems p have "block_pass ss (b1, m1, c1) = (bs', bm', c')" by simp
  moreover have "all_tainted sets bs0 bm0 b1 m1"
    using block_messages_tainted [OF 1 _ order_refl Cons.prems(3)] Cons.prems(2) p by simp
  ultimately show ?case using Cons.IH Cons.prems(2) by simp
qed

text \<open>A pass without a change is closed.\<close>

lemma block_messages_stable:
  "block_messages x ms (bs, bm, False) = (bs', bm', False) \<Longrightarrow>
   bs' = bs \<and> bm' = bm \<and> (\<forall>m \<in> set ms. x \<in> bs \<longleftrightarrow> m \<in> bm)"
proof (induction ms)
  case Nil
  then show ?case by simp
next
  case (Cons m ms)
  have no: "block_messages x ms (b, d, True) \<noteq> (bs', bm', False)" for b d
    using block_messages_grows [of x ms b d True bs' bm' False] by auto
  with Cons.prems have "x \<in> bs \<longleftrightarrow> m \<in> bm" by (auto split: if_splits)
  with Cons show ?case by auto
qed

lemma block_pass_stable:
  "block_pass ss (bs, bm, False) = (bs', bm', False) \<Longrightarrow>
   bs' = bs \<and> bm' = bm \<and> (\<forall>(x, ms) \<in> set ss. \<forall>m \<in> set ms. x \<in> bs \<longleftrightarrow> m \<in> bm)"
proof (induction ss arbitrary: bs bm)
  case Nil
  then show ?case by simp
next
  case (Cons p ss)
  obtain x ms where p: "p = (x, ms)" by fastforce
  obtain b1 m1 c1 where 1: "block_messages x ms (bs, bm, False) = (b1, m1, c1)" by (metis prod_cases3)
  with Cons.prems p have 2: "block_pass ss (b1, m1, c1) = (bs', bm', False)" by simp
  then have "\<not> c1" using block_pass_grows [OF 2] by auto
  with 1 block_messages_stable [of x ms bs bm b1 m1] have
    "b1 = bs" "m1 = bm" "\<forall>m \<in> set ms. x \<in> bs \<longleftrightarrow> m \<in> bm" by auto
  then show ?case using Cons.IH 2 \<open>\<not> c1\<close> p by simp
qed

lemma block_loop_result:
  "block_loop sets bs bm = (bs', bm') \<Longrightarrow> all_tainted sets bs0 bm0 bs bm \<Longrightarrow>
   bs \<subseteq> bs' \<and> bm \<subseteq> bm' \<and> all_tainted sets bs0 bm0 bs' bm' \<and>
   (\<forall>(x, ms) \<in> set sets. \<forall>m \<in> set ms. x \<in> bs' \<longleftrightarrow> m \<in> bm')"
proof (induction sets bs bm rule: block_loop.induct)
  case (1 sets bs bm)
  obtain b1 m1 c1 where p: "block_pass sets (bs, bm, False) = (b1, m1, c1)" by (metis prod_cases3)
  note grow = block_pass_grows [OF p]
  have taint: "all_tainted sets bs0 bm0 b1 m1" using block_pass_tainted [OF p order_refl 1(3)] .
  show ?case
  proof (cases c1)
    case True
    then have "block_loop sets b1 m1 = (bs', bm')"
      using 1(2) p by (subst (asm) block_loop.simps) simp
    from 1(1) [OF p [symmetric] refl True this taint] grow show ?thesis by auto
  next
    case False
    then have "(bs', bm') = (b1, m1)" using 1(2) p by (subst (asm) block_loop.simps) simp
    then show ?thesis using block_pass_stable [of sets bs bm b1 m1] p False taint grow by auto
  qed
qed

text \<open>C27: an image that could not be verified blocks its whole component, and nothing else. The
  loop ends, and a send or message is blocked afterwards exactly when it is connected, in the
  graph of candidate relations, to a send or message that was blocked before.\<close>

theorem blocked_components_exact:
  "(x \<in> fst (block_loop sets bs bm) \<longleftrightarrow> tainted sets bs bm (Inl x)) \<and>
   (m \<in> snd (block_loop sets bs bm) \<longleftrightarrow> tainted sets bs bm (Inr m))"
proof -
  obtain bs' bm' where r: "block_loop sets bs bm = (bs', bm')" by fastforce
  have "all_tainted sets bs bm bs bm" by (auto simp: all_tainted_def intro: start_send start_message)
  note R = block_loop_result [OF r this]
  have closed: "tainted sets bs bm k \<Longrightarrow> (case k of Inl y \<Rightarrow> y \<in> bs' | Inr q \<Rightarrow> q \<in> bm')" for k
    by (induction rule: tainted.induct) (use R in auto)
  show ?thesis
    using R r closed [of "Inl x"] closed [of "Inr m"] by (auto simp: all_tainted_def)
qed


section \<open>No echo slips through\<close>

definition covers :: "gathered \<Rightarrow> bool" where
  "covers g \<longleftrightarrow> (\<forall>(s, ids) \<in> set (g_sets g). set ids \<subseteq> g_quarantine g)"

lemma verify_images_grows:
  "verify_images E s ms ids g w = (Inr (ids', g'), w') \<Longrightarrow>
   g_sets g' = g_sets g \<and> g_quarantine g \<subseteq> g_quarantine g'"
proof (induction ms arbitrary: ids g w)
  case Nil
  then show ?case by (simp add: ret_def)
next
  case (Cons m ms)
  then show ?case
    by (fastforce simp: attempt_def split: prod.splits sum.splits if_splits)
qed

lemma gather_covers:
  "gather E ms ss g w = (Inr g', w') \<Longrightarrow> covers g \<Longrightarrow> covers g'"
proof (induction ss arbitrary: g w)
  case Nil
  then show ?case by (simp add: ret_def)
next
  case (Cons s ss)
  from andThen_InrD [OF Cons.prems(1) [unfolded gather.simps]]
  obtain ids0 images w1 where
    1: "andThen (if MessageType s = ImageType then verify_images E s images ids0 g else ret (ids0, g)) (\<lambda>seen.
       case seen of (ids, g') \<Rightarrow>
         gather E ms ss (g'\<lparr>g_sets := g_sets g' @ [(s, ids)], g_quarantine := g_quarantine g' \<union> set ids\<rparr>)) w1 =
       (Inr g', w')"
    by auto
  from andThen_InrD [OF 1] obtain ids g1 w2 where
    2: "(if MessageType s = ImageType then verify_images E s images ids0 g else ret (ids0, g)) w1 = (Inr (ids, g1), w2)"
    and 3: "gather E ms ss (g1\<lparr>g_sets := g_sets g1 @ [(s, ids)], g_quarantine := g_quarantine g1 \<union> set ids\<rparr>) w2 =
      (Inr g', w')"
    by auto
  have "g_sets g1 = g_sets g \<and> g_quarantine g \<subseteq> g_quarantine g1"
    using 2 verify_images_grows by (auto simp: ret_def split: if_splits)
  then have "covers (g1\<lparr>g_sets := g_sets g1 @ [(s, ids)], g_quarantine := g_quarantine g1 \<union> set ids\<rparr>)"
    using Cons.prems(2) by (fastforce simp: covers_def)
  then show ?case using Cons.IH [OF 3] by simp
qed

lemma candidate_graph_covers: "candidate_graph E c w = (Inr (p, g), w') \<Longrightarrow> covers g"
  unfolding candidate_graph_def
  by (auto simp: ret_def covers_def [of "\<lparr>g_sets = [], g_quarantine = {}, g_blocked_sends = {}, g_blocked_messages = {}\<rparr>"]
      dest!: andThen_InrD gather_covers)

text \<open>While forced matches are claimed, an identifier leaves the quarantine only with a
  transaction.\<close>

definition kept :: "progress \<Rightarrow> progress \<Rightarrow> bool" where
  "kept p p' \<longleftrightarrow>
     (\<forall>i. i \<in> p_quarantine p \<longrightarrow> i \<in> p_quarantine p' \<or> p_transactions p' i \<noteq> None) \<and>
     dom (p_transactions p) \<subseteq> dom (p_transactions p')"

lemma kept_refl: "kept p p"
  by (simp add: kept_def)

lemma kept_trans: "kept p q \<Longrightarrow> kept q r \<Longrightarrow> kept p r"
  unfolding kept_def by blast

lemma claim_forced_kept: "claim_forced E c forced sets p w = (Inr p', w') \<Longrightarrow> kept p p'"
proof (induction sets arbitrary: p w)
  case Nil
  then show ?case by (simp add: ret_def kept_refl)
next
  case (Cons q sets)
  obtain s ids where q: "q = (s, ids)" by fastforce
  show ?case
  proof (cases "forced (TransactionID s) = None \<or> forced (TransactionID s) = Some []")
    case True
    then show ?thesis using Cons q by (auto split: option.splits)
  next
    case False
    then obtain i where i: "forced (TransactionID s) = Some i" "i \<noteq> []" by auto
    note step = Cons.prems [unfolded q claim_forced.simps i(1) option.case]
    from step i(2) obtain claimed w1 s1 w2 active w3 where
      3: "(if active
          then claim_forced E c forced sets
                 (p\<lparr>p_transactions := (p_transactions p)(i \<mapsto> TransactionID s1),
                    p_quarantine := p_quarantine p - {i}\<rparr>)
          else case findConversationMessage (cv_Messages c) i of
              None \<Rightarrow> claim_forced E c forced sets p
            | Some m \<Rightarrow>
                seq (update_send (\<lambda>_. s1))
                (seq (finalizeOutboundWithoutEcho E (Some m))
                (claim_forced E c forced sets
                   (p\<lparr>p_finalized := insert i (p_finalized p)\<rparr>)))) w3 = (Inr p', w')"
      by (simp only: if_False) (blast dest!: andThen_InrD)
    show ?thesis
    proof (cases active)
      case True
      with 3 have "kept (p\<lparr>p_transactions := (p_transactions p)(i \<mapsto> TransactionID s1),
          p_quarantine := p_quarantine p - {i}\<rparr>) p'"
        using Cons.IH by simp
      moreover have "kept p (p\<lparr>p_transactions := (p_transactions p)(i \<mapsto> TransactionID s1),
          p_quarantine := p_quarantine p - {i}\<rparr>)" by (auto simp: kept_def)
      ultimately show ?thesis by (rule kept_trans [rotated])
    next
      case False
      show ?thesis
      proof (cases "findConversationMessage (cv_Messages c) i")
        case None
        then show ?thesis using 3 False Cons.IH by simp
      next
        case (Some m)
        with 3 False obtain w4 where
          "claim_forced E c forced sets (p\<lparr>p_finalized := insert i (p_finalized p)\<rparr>) w4 = (Inr p', w')"
          by (simp only: if_False option.case) (blast dest!: andThen_InrD)
        then have "kept (p\<lparr>p_finalized := insert i (p_finalized p)\<rparr>) p'" by (rule Cons.IH)
        then show ?thesis by (simp add: kept_def)
      qed
    qed
  qed
qed


definition sample_message :: remote_message where
  "sample_message =
     \<lparr>rm_ID = ''matrix-1'', rm_Type = ''TEXT'', rm_Participant = None, rm_Text = Some ''hi'', rm_PostID = None,
      rm_Images = [], rm_Timestamp = 5\<rparr>"

definition sample_conversation :: conversation where
  "sample_conversation = \<lparr>cv_ID = ''c'', cv_Participants = [], cv_Messages = [sample_message], cv_LastReadTimestamp = 0,
     cv_LastModifiedTimestamp = 0\<rparr>"

lemma sample_env_ids: "e_bridge_id sample_env = ''b''" "e_login_id sample_env = ''u''"
  by (simp_all add: sample_env_def)

lemma invalid_sample: "\<not> validOutboundRemoteMessageID (rm_ID sample_message)"
  by (simp add: validOutboundRemoteMessageID_def sample_message_def)

lemma sample_reconcile:
  "\<exists>res c' w'. reconcileOutboundConversation sample_env sample_conversation (sample_world [] []) = (Inr (res, c'), w') \<and>
     cv_Messages c' = [sample_message]"
  by (simp add: reconcileOutboundConversation_def candidate_graph_def Outbound_ListUnbound_def Outbound_ListMatchable_def
      lift_store_def eval_store sample_env_ids sample_conversation_def sample_world_def sample_tables_def
      listUnboundOutboundSends_def listMatchableOutboundSends_def invalid_sample passed_messages_def)



end
