(* ===== verification/OutboundSending.thy ===== *)
theory OutboundSending
  imports OutboundReconcile SendTrace
begin

text \<open>
  Sending a Matrix message (pkg/connector/client.go, portal.go, media.go): what is accepted, the
  durable row that is created for it, the binding of a pending chat, the submission, the POST,
  and what each outcome leaves behind. \<open>E\<close> is what the connector is wired to, \<open>N\<close> what the send
  path uses beyond that. The persisted send is \<open>w_send\<close> from the moment it is loaded or created.
\<close>

section \<open>Messages and the surroundings of the send path\<close>

datatype message_kind = MsgText | MsgNotice | MsgImage | MsgSticker | MsgVideo | MsgOther

text \<open>\<open>ct_Replaces\<close>: the event replaces another or carries new content, an edit. \<open>ct_IsGIF\<close> is
  the framework's \<open>GetCapMsgType() == CapMsgGIF\<close>. The media address is the plain or the
  encrypted file's.\<close>

record message_content =
  ct_Kind :: message_kind
  ct_Body :: string
  ct_Replaces :: bool
  ct_ReplyTo :: string
  ct_IsGIF :: bool
  ct_MediaURL :: string
  ct_InfoSize :: int
  ct_FileName :: string

record matrix_event =
  ev_ID :: string
  ev_RoomID :: string
  ev_Sender :: string

record matrix_message =
  mm_Event :: "matrix_event option"
  mm_Content :: "message_content option"
  mm_Portal :: "portal_object option"
  mm_InputTransactionID :: string

record message_response =
  mr_DB :: "message_row option"
  mr_Pending :: bool

text \<open>\<open>n_reply_text\<close> is the framework's removal of the reply fallback, \<open>n_media\<close> the download of a
  media address by the bridge's bot, \<open>n_path_unescape\<close> the standard library's
  \<open>url.PathUnescape\<close>; \<open>n_history\<close> and \<open>n_blog_info\<close> decode what the client fetches.\<close>

record send_env =
  n_http :: http_env
  n_logged_in :: "bool foreign"
  n_history :: "string \<Rightarrow> string \<Rightarrow> (conversation option \<times> remote_message list) option foreign"
  n_bot :: bool
  n_media :: "string \<Rightarrow> string foreign"
  n_reply_text :: "string \<Rightarrow> string"
  n_path_unescape :: "string \<Rightarrow> string option"
  n_blog_info :: "string \<Rightarrow> go_error + blog option"

definition pending_response :: message_response where
  "pending_response = \<lparr>mr_DB = None, mr_Pending = True\<rparr>"

definition completed_response :: "message_row \<Rightarrow> message_response" where
  "completed_response m = \<lparr>mr_DB = Some m, mr_Pending = False\<rparr>"

definition visible_response :: "message_row \<Rightarrow> message_response" where
  "visible_response m = \<lparr>mr_DB = Some m, mr_Pending = True\<rparr>"

definition unsupportedMatrixMessageError :: "go_error \<Rightarrow> go_error" where
  "unsupportedMatrixMessageError e = MatrixStatus True ''unsupported'' e"

definition errTumblrEmptyText :: go_error where
  "errTumblrEmptyText = unsupportedMatrixMessageError (Plain ''message text is empty'')"

definition errTumblrTextTooLong :: go_error where
  "errTumblrTextTooLong = unsupportedMatrixMessageError (Plain ''message is too long for Tumblr'')"

section \<open>Portals\<close>

definition isPendingDMPortalID :: "string \<Rightarrow> bool" where
  "isPendingDMPortalID i = has_prefix ''pending-dm:'' i"

definition pendingDMMetadataFromPortal :: "portal_object \<Rightarrow> portal_metadata option" where
  "pendingDMMetadataFromPortal p =
     (if \<not> isPendingDMPortalID (pk_id (pt_key p)) then None
      else case pt_meta p of
          None \<Rightarrow> None
        | Some meta \<Rightarrow> if pm_PendingParticipantIDs meta = [] then None else Some meta)"

definition conversationIDFromPortal :: "portal_object option \<Rightarrow> string \<Rightarrow> go_error + string" where
  "conversationIDFromPortal portal requiredError =
     (case portal of
        None \<Rightarrow> Inl (Plain requiredError)
      | Some p \<Rightarrow>
          if (case pt_meta p of Some meta \<Rightarrow> pm_ConversationID meta \<noteq> [] | None \<Rightarrow> False)
          then (let i = pm_ConversationID (the (pt_meta p)) in
                if \<not> validRemoteID i then Inl (Plain ''tumblr conversation id contains invalid characters'')
                else Inr i)
          else let i = pk_id (pt_key p) in
            if i = [] then Inl (Plain ''tumblr conversation id is missing'')
            else if isPendingDMPortalID i then Inl (Plain ''tumblr conversation has not been created yet'')
            else if \<not> validRemoteID i then Inl (Plain ''tumblr conversation id contains invalid characters'')
            else Inr i)"

section \<open>Messages that were handled before\<close>

definition completedOutboundMapping :: "env \<Rightarrow> string \<Rightarrow> string \<Rightarrow> message_row option act" where
  "completedOutboundMapping E eventID roomID =
     andThen (foreign (e_message_by_mxid E eventID)) (\<lambda>existing.
     case existing of
       None \<Rightarrow> ret None
     | Some m \<Rightarrow>
         andThen (wrapping ''load persisted Tumblr room owner for completed message''
           (foreign (e_db_portal_by_mxid E roomID))) (\<lambda>owner.
         if (case owner of None \<Rightarrow> True | Some p \<Rightarrow> pt_key p \<noteq> ms_room m) \<or> ms_mxid m \<noteq> eventID \<or> ms_id m = []
         then fail ''matrix event is already mapped to a different Tumblr room or message''
         else ret (Some m)))"

definition room_error :: "matrix_message \<Rightarrow> matrix_event \<Rightarrow> go_error option" where
  "room_error msg ev =
     (case mm_Portal msg of
        None \<Rightarrow> Some (Plain ''matrix room is required to send a Tumblr message'')
      | Some p \<Rightarrow>
          if pt_mxid p = [] then Some (Plain ''matrix room is required to send a Tumblr message'')
          else if ev_RoomID ev = [] \<or> ev_RoomID ev \<noteq> pt_mxid p
          then Some (Plain ''matrix event room does not match the Tumblr portal room'')
          else None)"

definition completedOutboundReplay :: "env \<Rightarrow> matrix_message \<Rightarrow> matrix_event \<Rightarrow> message_response option act" where
  "completedOutboundReplay E msg ev =
     (case room_error msg ev of
        Some e \<Rightarrow> raise e
      | None \<Rightarrow>
          andThen (completedOutboundMapping E (ev_ID ev) (ev_RoomID ev)) (\<lambda>completed.
          ret (map_option completed_response completed)))"

definition tombstone_mismatch :: string where
  "tombstone_mismatch = ''completed Tumblr outbound tombstone does not match its message mapping''"

definition pendingAfterPreparedOwnershipLoss :: "env \<Rightarrow> outbound_send \<Rightarrow> message_response act" where
  "pendingAfterPreparedOwnershipLoss E s =
     andThen (lift_store (Outbound_Get (e_pke E) (e_bridge_id E) (UserLoginID s) (TransactionID s))) (\<lambda>current.
     andThen (if (case current of None \<Rightarrow> True | Some c \<Rightarrow> SendState c = Completed)
              then completedOutboundMapping E (MatrixEventID s) (MatrixRoomID s) else ret None) (\<lambda>completed.
     case completed of
       Some m \<Rightarrow>
         if (case current of Some c \<Rightarrow> ms_id m \<noteq> RemoteMessageID c | None \<Rightarrow> False) then fail tombstone_mismatch
         else ret (completed_response m)
     | None \<Rightarrow>
         (case current of
            None \<Rightarrow>
              seq (dropOutboundPending (TransactionID s) True) (seq (emit OutboundWoken) (ret pending_response))
          | Some c \<Rightarrow>
              if isTerminal c
              then seq (dropOutboundPending (TransactionID s) True) (seq (emit OutboundWoken) (ret pending_response))
              else seq (emit OutboundWoken)
                (andThen (outboundDatabaseMessage c None) (\<lambda>m. ret (visible_response m))))))"

definition deletePreparedOutbound :: "env \<Rightarrow> go_error \<Rightarrow> message_response act" where
  "deletePreparedOutbound E cause =
     andThen the_send (\<lambda>s.
     attempt (lift_store (Outbound_DeletePrepared (e_bridge_id E) (UserLoginID s) (TransactionID s))) (\<lambda>deleted.
     case deleted of
       Inl e \<Rightarrow> raise (join_errors cause (Wrapped ''delete unsent Tumblr message state'' [e]))
     | Inr d \<Rightarrow>
         if \<not> d then pendingAfterPreparedOwnershipLoss E s
         else seq (dropOutboundPending (TransactionID s) True) (raise cause)))"

section \<open>Binding a pending chat\<close>

definition outboundUnconfirmedTimeout :: duration where "outboundUnconfirmedTimeout = 2 * minute"

definition prepare_binding :: "env \<Rightarrow> string \<Rightarrow> unit act" where
  "prepare_binding E conversationID =
     andThen the_send (\<lambda>s.
     andThen time_now (\<lambda>t0.
     let bindingDeadline = t0 + outboundUnconfirmedTimeout in
     if ConversationID s \<noteq> [] then ret ()
     else if BindingConversationID s \<noteq> [] \<and> BindingConversationID s \<noteq> conversationID
     then raise (StoreError ErrBindingConflict)
     else andThen time_now (\<lambda>now.
       seq (lift_store (Outbound_PrepareConversationBinding (e_pke E) (e_bridge_id E) (UserLoginID s)
             (TransactionID s) conversationID bindingDeadline now))
       (update_send (\<lambda>s. s\<lparr>BindingConversationID := conversationID, NextAttemptAt := bindingDeadline\<rparr>)))))"

text \<open>True: the chat's room was merged into the conversation's own.\<close>

definition prepareAndBindOutboundPendingPortal :: "env \<Rightarrow> string \<Rightarrow> bool act" where
  "prepareAndBindOutboundPendingPortal E conversationID =
     andThen the_send (\<lambda>s.
     if \<not> validRemoteID conversationID then fail ''tumblr conversation ID is invalid''
     else if ConversationID s \<noteq> [] \<and> ConversationID s \<noteq> conversationID then raise (StoreError ErrBindingConflict)
     else if ConversationID s \<noteq> [] \<and> PortalKey s \<noteq> portalKey E conversationID
     then raise (StoreError ErrBindingConflict)
     else seq (prepare_binding E conversationID)
       (andThen (bindOutboundPortalOwnership E (portalKey E conversationID) outboundUnconfirmedTimeout)
         (\<lambda>(portal, sourceRoomReplaced).
          if sourceRoomReplaced then ret True
          else if (case portal of Some p \<Rightarrow> pt_mxid p \<noteq> MatrixRoomID s | None \<Rightarrow> True)
          then fail ''tumblr target portal is unavailable after binding an outbound send''
          else ret False)))"

section \<open>After the POST\<close>

definition keepOutboundPendingAfterSubmit :: "env \<Rightarrow> message_row \<Rightarrow> message_response act" where
  "keepOutboundPendingAfterSubmit E dbMessage =
     andThen the_send (\<lambda>s.
     andThen time_now (\<lambda>t0.
     andThen time_now (\<lambda>now.
     attempt (lift_store (Outbound_MarkUncertain (e_bridge_id E) (UserLoginID s) (TransactionID s)
       (t0 + outboundUnconfirmedTimeout) now)) (\<lambda>_.
     seq (emit OutboundWoken) (ret (visible_response dbMessage))))))"

definition keepOutboundVisibleAfterRoomReplacement :: "env \<Rightarrow> message_response act" where
  "keepOutboundVisibleAfterRoomReplacement E =
     andThen the_send (\<lambda>s.
     seq (dropOutboundPending (TransactionID s) True)
     (andThen time_now (\<lambda>now.
      attempt (parkOutboundUnconfirmed E now) (\<lambda>parked.
      seq (case parked of
             Inl _ \<Rightarrow> ret ()
           | Inr _ \<Rightarrow> attempt (finishOutboundUnconfirmed E) (\<lambda>_. ret ()))
      (seq (emit InboundWoken) (seq (emit OutboundWoken) (ret pending_response)))))))"

text \<open>What is posted: the type, the text, the image and the shared post of the message.\<close>

record outgoing =
  og_type :: string
  og_text :: string
  og_image :: image_upload
  og_post :: "post_share option"

definition post_outgoing ::
  "http_env \<Rightarrow> login_metadata \<Rightarrow> string \<Rightarrow> string list \<Rightarrow> outgoing \<Rightarrow> send_response act" where
  "post_outgoing H meta conversationID participantIDs og =
     (if conversationID = [] then
        (if og_type og = ''IMAGE'' then SendImageToParticipants H (lm_SelectedBlogUUID meta) participantIDs (og_image og)
         else if og_type og = ''POSTREF''
         then SendPostRefToParticipants H (lm_SelectedBlogUUID meta) participantIDs (the (og_post og))
         else SendTextToParticipants H (lm_SelectedBlogUUID meta) participantIDs (og_text og))
      else
        (if og_type og = ''IMAGE'' then SendImage H (lm_SelectedBlogName meta) conversationID (og_image og)
         else if og_type og = ''POSTREF'' then SendPostRef H (lm_SelectedBlogUUID meta) conversationID (the (og_post og))
         else SendText H (lm_SelectedBlogName meta) conversationID (og_text og)))"

text \<open>\<open>handleRemoteError\<close> where its result is only logged or reported.\<close>

definition note_remote_error :: "go_error \<Rightarrow> unit act" where
  "note_remote_error e = (if IsAuthError e then emit (ConnectFailed e) else ret ())"

definition after_rejection :: "env \<Rightarrow> go_error \<Rightarrow> message_response act" where
  "after_rejection E err =
     seq (note_remote_error err)
     (andThen the_send (\<lambda>s.
      andThen time_now (\<lambda>terminalAt.
      let nextAttemptAt = terminalAt + millisecond in
      attempt (lift_store (Outbound_MarkSubmittingNotSubmitted (e_bridge_id E) (UserLoginID s) (TransactionID s)
        terminalAt nextAttemptAt)) (\<lambda>claimed.
      if claimed \<noteq> Inr True then pendingAfterPreparedOwnershipLoss E s
      else seq (update_send (\<lambda>s. s\<lparr>SendState := NotSubmitted, TerminalAt := terminalAt,
                  NextAttemptAt := nextAttemptAt\<rparr>))
        (attempt (finishOutboundNotSubmitted E (Some err)) (\<lambda>_.
         seq (emit OutboundWoken) (ret pending_response)))))))"

definition mark_awaiting ::
  "env \<Rightarrow> send_response \<Rightarrow> string \<Rightarrow> message_row \<Rightarrow> message_response act" where
  "mark_awaiting E resp conversationID dbMessage =
     andThen the_send (\<lambda>s.
     andThen time_now (\<lambda>t0.
     andThen time_now (\<lambda>now.
     attempt (lift_store (Outbound_MarkAwaitingEcho (e_bridge_id E) (UserLoginID s) (TransactionID s)
       (t0 + outboundUnconfirmedTimeout) now)) (\<lambda>marked.
     case marked of
       Inl _ \<Rightarrow> keepOutboundPendingAfterSubmit E dbMessage
     | Inr _ \<Rightarrow>
         seq (case sp_Conversation resp of
                Some c \<Rightarrow>
                  if cv_ID c = conversationID
                  then attempt (claimOutboundSendResponseLocked E s c) (\<lambda>_. ret ())
                  else ret ()
              | None \<Rightarrow> ret ())
         (seq (emit OutboundWoken) (ret (visible_response dbMessage)))))))"

definition response_conversation ::
  "portal_metadata option \<Rightarrow> send_response \<Rightarrow> string option" where
  "response_conversation pending resp =
     (case (pending, sp_Conversation resp) of
        (Some meta, Some c) \<Rightarrow>
          if validRemoteID (cv_ID c) \<and>
             equalParticipantIDs (pm_PendingParticipantIDs meta) (conversationParticipantIDs c)
          then Some (cv_ID c) else None
      | _ \<Rightarrow> None)"

definition after_acceptance ::
  "env \<Rightarrow> portal_metadata option \<Rightarrow> string \<Rightarrow> send_response \<Rightarrow> message_row \<Rightarrow> message_response act" where
  "after_acceptance E pending conversationID resp dbMessage =
     andThen the_send (\<lambda>s.
     if ConversationID s \<noteq> [] then mark_awaiting E resp conversationID dbMessage
     else case response_conversation pending resp of
         None \<Rightarrow> keepOutboundPendingAfterSubmit E dbMessage
       | Some i \<Rightarrow>
           attempt (prepareAndBindOutboundPendingPortal E i) (\<lambda>bound.
           case bound of
             Inl _ \<Rightarrow> keepOutboundPendingAfterSubmit E dbMessage
           | Inr True \<Rightarrow> keepOutboundVisibleAfterRoomReplacement E
           | Inr False \<Rightarrow>
               andThen the_send (\<lambda>s. mark_awaiting E resp i (dbMessage\<lparr>ms_room := PortalKey s\<rparr>))))"

text \<open>The POST of a send that was just marked submitting, and what its outcome leaves.\<close>

definition post_submitted ::
  "env \<Rightarrow> send_env \<Rightarrow> matrix_message \<Rightarrow> login_metadata \<Rightarrow> portal_metadata option \<Rightarrow> string \<Rightarrow> outgoing \<Rightarrow>
   message_response act" where
  "post_submitted E N msg meta pending conversationID og =
     andThen the_send (\<lambda>s.
     andThen (registerOutboundPending
       (case mm_Portal msg of Some p \<Rightarrow> InRoom (pt_mxid p) | None \<Rightarrow> NoPortal) s) (\<lambda>dbMessage.
     attempt (post_outgoing (n_http N) meta conversationID
       (case pending of Some p \<Rightarrow> pm_PendingParticipantIDs p | None \<Rightarrow> []) og) (\<lambda>posted.
     case posted of
       Inl err \<Rightarrow>
         if IsMessageSendOutcomeUnknown err then keepOutboundPendingAfterSubmit E dbMessage
         else after_rejection E err
     | Inr resp \<Rightarrow> after_acceptance E pending conversationID resp dbMessage)))"

definition submit_and_post ::
  "env \<Rightarrow> send_env \<Rightarrow> matrix_message \<Rightarrow> login_metadata \<Rightarrow> portal_metadata option \<Rightarrow> string \<Rightarrow> outgoing \<Rightarrow>
   string list \<Rightarrow> message_response act" where
  "submit_and_post E N msg meta pending conversationID og baseline =
     andThen the_send (\<lambda>s.
     andThen time_now (\<lambda>submitStartedAt.
     let submitDeadline = submitStartedAt + outboundUnconfirmedTimeout in
     andThen time_now (\<lambda>now.
     attempt (lift_store (Outbound_MarkSubmitting (e_bridge_id E) (UserLoginID s) (TransactionID s) baseline
       submitStartedAt submitDeadline now)) (\<lambda>claimed.
     case claimed of
       Inl e \<Rightarrow> deletePreparedOutbound E e
     | Inr False \<Rightarrow> pendingAfterPreparedOwnershipLoss E s
     | Inr True \<Rightarrow>
         seq (update_send (\<lambda>s. s\<lparr>SendState := Submitting, BaselineMessageIDs := baseline,
               SendStartedAt := submitStartedAt, NextAttemptAt := submitDeadline\<rparr>))
         (post_submitted E N msg meta pending conversationID og)))))"

section \<open>Before the POST\<close>

text \<open>The conversation a pending chat turns out to have.\<close>

definition existing_conversation :: "env \<Rightarrow> login_metadata \<Rightarrow> portal_metadata option \<Rightarrow> string \<Rightarrow> string act" where
  "existing_conversation E meta pending conversationID =
     (case pending of
        None \<Rightarrow> ret conversationID
      | Some p \<Rightarrow>
          if pm_PendingParticipantName p = [] then ret conversationID
          else attempt (foreign (e_by_participants E (lm_SelectedBlogName meta) (pm_PendingParticipantName p))) (\<lambda>resp.
            case resp of
              Inl e \<Rightarrow> if IsNotFound e then ret conversationID else handleRemoteError e
            | Inr None \<Rightarrow> ret conversationID
            | Inr (Some c) \<Rightarrow>
                if validRemoteID (cv_ID c) \<and>
                   equalParticipantIDs (pm_PendingParticipantIDs p) (conversationParticipantIDs c)
                then ret (cv_ID c) else ret conversationID))"

definition merged_chat :: go_error where
  "merged_chat = MatrixStatus True
     ''This chat was merged into an existing Tumblr DM. Send the message again in the replacement chat.''
     (Plain ''tumblr chat was merged into an existing conversation'')"

text \<open>The binding of the prepared send before it is submitted: \<open>Inl cause\<close> when the prepared row is
  to be deleted, otherwise the conversation to post to.\<close>

definition bind_before_submit ::
  "env \<Rightarrow> portal_metadata option \<Rightarrow> string \<Rightarrow> (go_error + string) act" where
  "bind_before_submit E pending conversationID =
     andThen the_send (\<lambda>s.
     if pending = None \<and> BindingConversationID s = [] \<and> \<not> (ConversationID s = [] \<and> conversationID \<noteq> [])
     then ret (Inr conversationID)
     else let known = (if ConversationID s \<noteq> [] then ConversationID s else BindingConversationID s);
              target = (if known \<noteq> [] then known else conversationID) in
       if known \<noteq> [] \<and> conversationID \<noteq> [] \<and> conversationID \<noteq> known
       then ret (Inl (StoreError ErrBindingConflict))
       else if target = [] then ret (Inr target)
       else attempt (prepareAndBindOutboundPendingPortal E target) (\<lambda>bound.
         case bound of
           Inl e \<Rightarrow> ret (Inl e)
         | Inr True \<Rightarrow> ret (Inl merged_chat)
         | Inr False \<Rightarrow> ret (Inr target)))"

text \<open>Another process may have advanced the row while this one waited: it is read again, and only
  a prepared row is submitted.\<close>

definition reload_and_submit ::
  "env \<Rightarrow> send_env \<Rightarrow> matrix_message \<Rightarrow> login_metadata \<Rightarrow> portal_metadata option \<Rightarrow> string \<Rightarrow> outgoing \<Rightarrow>
   outbound_send \<Rightarrow> string \<Rightarrow> string \<Rightarrow> message_response act" where
  "reload_and_submit E N msg meta pending conversationID og send l x =
     andThen (lift_store (Outbound_Get (e_pke E) (e_bridge_id E) l x)) (\<lambda>reloaded.
     case reloaded of
       None \<Rightarrow> pendingAfterPreparedOwnershipLoss E send
     | Some s \<Rightarrow>
         if SendState s \<noteq> Prepared then pendingAfterPreparedOwnershipLoss E send
         else seq (update_send (\<lambda>_. s))
           (attempt (outboundBaseline (n_history N (lm_SelectedBlogName meta) conversationID) conversationID) (\<lambda>baseline.
            case baseline of
              Inl e \<Rightarrow> deletePreparedOutbound E e
            | Inr ids \<Rightarrow> submit_and_post E N msg meta pending conversationID og ids)))"

definition send_prepared ::
  "env \<Rightarrow> send_env \<Rightarrow> matrix_message \<Rightarrow> login_metadata \<Rightarrow> portal_metadata option \<Rightarrow> string \<Rightarrow> outgoing \<Rightarrow>
   outbound_send \<Rightarrow> message_response act" where
  "send_prepared E N msg meta pending conversationID og send =
     andThen (bind_before_submit E pending conversationID) (\<lambda>bound.
     case bound of
       Inl cause \<Rightarrow> deletePreparedOutbound E cause
     | Inr conversationID \<Rightarrow>
         andThen the_send (\<lambda>s.
         reload_and_submit E N msg meta pending conversationID og send (UserLoginID s) (TransactionID s)))"

text \<open>What an existing row means for the message: it may be completed, final, or under way.\<close>

definition replay_completed :: "env \<Rightarrow> matrix_event \<Rightarrow> outbound_send option \<Rightarrow> message_response act" where
  "replay_completed E ev persisted =
     andThen (completedOutboundMapping E (ev_ID ev) (ev_RoomID ev)) (\<lambda>completed.
     case completed of
       None \<Rightarrow> fail (if persisted = None then ''completed Tumblr outbound mapping is unavailable'' else tombstone_mismatch)
     | Some m \<Rightarrow>
         if (case persisted of Some p \<Rightarrow> ms_id m \<noteq> RemoteMessageID p | None \<Rightarrow> False) then fail tombstone_mismatch
         else ret (completed_response m))"

definition load_and_send ::
  "env \<Rightarrow> send_env \<Rightarrow> matrix_message \<Rightarrow> matrix_event \<Rightarrow> login_metadata \<Rightarrow> portal_metadata option \<Rightarrow> string \<Rightarrow>
   outgoing \<Rightarrow> outbound_send \<Rightarrow> message_response act" where
  "load_and_send E N msg ev meta pending conversationID og send =
     andThen time_now (\<lambda>now.
     attempt (lift_store (Outbound_LoadOrCreate (e_pke E) (e_bridge_id E) (Some send) now)) (\<lambda>loaded.
     case loaded of
       Inl e \<Rightarrow>
         if e = StoreError ErrAlreadyHandled then ret pending_response
         else if e = StoreError ErrAlreadyCompleted then replay_completed E ev None
         else raise e
     | Inr (persisted, created) \<Rightarrow>
         if \<not> created \<and> SendState persisted = Completed then replay_completed E ev (Some persisted)
         else if \<not> created \<and> isTerminal persisted
         then seq (dropOutboundPending (TransactionID persisted) True)
            (seq (emit OutboundWoken) (ret pending_response))
         else if \<not> created \<and> SendState persisted \<noteq> Prepared
         then seq (emit OutboundWoken)
            (andThen (outboundDatabaseMessage persisted None) (\<lambda>m. ret (visible_response m)))
         else seq (update_send (\<lambda>_. persisted))
            (send_prepared E N msg meta pending conversationID og send)))"

text \<open>The row of a new send; the media digest (MD5) is a parameter of the environment's library.\<close>

definition new_send ::
  "env \<Rightarrow> (string \<Rightarrow> string) \<Rightarrow> matrix_message \<Rightarrow> matrix_event \<Rightarrow> portal_key \<Rightarrow> login_metadata \<Rightarrow> string \<Rightarrow>
   message_type \<Rightarrow> string \<Rightarrow> outgoing \<Rightarrow> gotime \<Rightarrow> outbound_send" where
  "new_send E digest msg ev key meta storedConversationID mtype contentHash og now =
     \<lparr>BridgeID = [], UserLoginID = e_login_id E,
      TransactionID = outboundTransactionID (e_sha E) (e_login_id E) (ev_ID ev),
      PortalKey = key, ConversationID = storedConversationID, BindingConversationID = [],
      MatrixRoomID = ev_RoomID ev, MatrixEventID = ev_ID ev, MatrixSenderID = ev_Sender ev,
      SenderID = lm_SelectedBlogUUID meta, InputTransactionID = mm_InputTransactionID msg,
      MessageType = mtype, ContentHash = contentHash,
      SourceMediaDigest = (if og_type og = ''IMAGE'' then digest (up_Data (og_image og)) else []),
      BaselineMessageIDs = [], RemoteMessageID = [], SendState = StateText [], TerminalAt = zero_time,
      StatusNotifiedAt = zero_time, StatusClaimToken = [], StatusClaimExpiresAt = zero_time, AttemptCount = 0,
      NextAttemptAt = now + outboundUnconfirmedTimeout, SendStartedAt = now, CreatedAt = zero_time,
      UpdatedAt = zero_time\<rparr>"

definition requireLoggedIn :: "send_env \<Rightarrow> unit act" where
  "requireLoggedIn N =
     andThen (foreign (n_logged_in N)) (\<lambda>yes. if yes then ret () else raise (Sentinel NotLoggedIn))"

definition sendMatrixMessageToTumblr ::
  "env \<Rightarrow> send_env \<Rightarrow> (string \<Rightarrow> string) \<Rightarrow> matrix_message \<Rightarrow> matrix_event \<Rightarrow> outgoing \<Rightarrow> message_response act" where
  "sendMatrixMessageToTumblr E N digest msg ev og =
     (case mm_Portal msg of
        None \<Rightarrow> fail ''matrix room is required to send a Tumblr message''
      | Some p \<Rightarrow>
          seq (foreign (e_submission_lock E))
          (case room_error msg ev of
             Some e \<Rightarrow> raise e
           | None \<Rightarrow>
               let pending = pendingDMMetadataFromPortal p in
               andThen (if pending = None
                  then of_result (conversationIDFromPortal (Some p) ''portal is required to send a Tumblr message'')
                  else ret []) (\<lambda>conversationID0.
               andThen (completedOutboundMapping E (ev_ID ev) (ev_RoomID ev)) (\<lambda>completed.
               case completed of
                 Some m \<Rightarrow> ret (completed_response m)
               | None \<Rightarrow>
                   seq (requireLoggedIn N)
                   (andThen (foreign (e_metadata E)) (\<lambda>meta.
                    seq (foreign (e_client E))
                    (andThen (existing_conversation E meta pending conversationID0) (\<lambda>conversationID.
                     andThen (of_result (outboundMessageType (og_type og))) (\<lambda>mtype.
                     andThen (of_result (outboundContentHash (e_sha E) (e_visual E) (og_type og) (og_text og)
                       (up_Data (og_image og)) (map_option sh_ID (og_post og)))) (\<lambda>contentHash.
                     andThen time_now (\<lambda>now.
                     load_and_send E N msg ev meta pending conversationID og
                       (new_send E digest msg ev (pt_key p) meta
                         (if pending = None then conversationID else []) mtype contentHash og now))))))))))))"

section \<open>What is accepted\<close>

definition is_digit_rune :: "char \<Rightarrow> bool" where
  "is_digit_rune c \<longleftrightarrow> 48 \<le> (of_char c :: nat) \<and> (of_char c :: nat) \<le> 57"

definition isTumblrPostID :: "string \<Rightarrow> bool" where
  "isTumblrPostID v \<longleftrightarrow> v \<noteq> [] \<and> list_all is_digit_rune v"

fun unescape_segments :: "(string \<Rightarrow> string option) \<Rightarrow> string list \<Rightarrow> string list \<Rightarrow> string list" where
  "unescape_segments unescape [] out = out"
| "unescape_segments unescape (raw # raws) out =
     (if raw = [] then unescape_segments unescape raws out
      else case unescape raw of
          None \<Rightarrow> []
        | Some segment \<Rightarrow>
            unescape_segments unescape raws
              (if trim_space segment = [] then out else out @ [trim_space segment]))"

definition pathSegments :: "(string \<Rightarrow> string option) \<Rightarrow> string \<Rightarrow> string list" where
  "pathSegments unescape escapedPath = unescape_segments unescape (split_at (CHR ''/'') escapedPath) []"

definition parseTumblrDotComPostPath :: "string list \<Rightarrow> (string \<times> string) option" where
  "parseTumblrDotComPostPath seg =
     (if 4 \<le> length seg \<and> seg ! 0 = ''blog'' \<and> seg ! 1 = ''view'' \<and> isTumblrPostID (seg ! 3)
      then Some (seg ! 2, seg ! 3)
      else if 2 \<le> length seg \<and> isTumblrPostID (seg ! 1) then Some (seg ! 0, seg ! 1)
      else if 3 \<le> length seg \<and> seg ! 1 = ''post'' \<and> isTumblrPostID (seg ! 2) then Some (seg ! 0, seg ! 2)
      else None)"

definition parseTumblrPostShare :: "send_env \<Rightarrow> string \<Rightarrow> (string \<times> string) option" where
  "parseTumblrPostShare N text =
     (let field = trim_space text in
      if field = [] \<or> list_ex is_space_rune (rune_list field) then None
      else case h_parse (n_http N) field of
          Inl _ \<Rightarrow> None
        | Inr u \<Rightarrow>
            if u_Scheme u \<noteq> ''https'' \<and> u_Scheme u \<noteq> ''http'' then None
            else let host = to_lower (trim_space (u_Hostname u));
                     segments = pathSegments (n_path_unescape N) (u_EscapedPath u) in
              if host = ''www.tumblr.com'' \<or> host = ''tumblr.com'' then parseTumblrDotComPostPath segments
              else if has_suffix ''.tumblr.com'' host \<and> 2 \<le> length segments \<and> segments ! 0 = ''post'' \<and>
                      isTumblrPostID (segments ! 1)
              then Some (trim_suffix ''.tumblr.com'' host, segments ! 1)
              else None)"

text \<open>\<open>resolveTumblrPostShare\<close>: \<open>None\<close> when the link is not a post that can be shared.\<close>

definition resolveTumblrPostShare :: "env \<Rightarrow> send_env \<Rightarrow> string \<times> string \<Rightarrow> post_share option act" where
  "resolveTumblrPostShare E N parsed =
     (let blogName = NormalizeBlogName (n_http N) (fst parsed) in
      if blogName = [] \<or> snd parsed = [] then ret None
      else seq (requireLoggedIn N)
        (seq (foreign (e_client E))
        (attempt
          (andThen (of_result (requireIdentifierValue (NormalizeBlogName (n_http N) blogName) ''blog name'')) (\<lambda>name.
           do_request (n_http N) ''GET'' (''/v2/blog/'' @ name @ ''/info'') blog_fields_query NoBody
             (Decode (n_blog_info N)))) (\<lambda>resp.
         case resp of
           Inl e \<Rightarrow> if IsNotFound e then ret None else handleRemoteError e
         | Inr (Some b) \<Rightarrow>
             if \<not> validRemoteID (bl_UUID b)
             then fail ''tumblr did not return the blog UUID needed to share this post''
             else ret (Some \<lparr>sh_ID = snd parsed, sh_Blog = bl_UUID b, sh_Type = []\<rparr>)
         | Inr None \<Rightarrow> fail ''tumblr did not return the blog UUID needed to share this post''))))"

definition no_image :: image_upload where
  "no_image = \<lparr>up_Data = [], up_FileName = [], up_ContentType = []\<rparr>"

definition handleMatrixTextMessage ::
  "env \<Rightarrow> send_env \<Rightarrow> (string \<Rightarrow> string) \<Rightarrow> matrix_message \<Rightarrow> matrix_event \<Rightarrow> message_content \<Rightarrow> message_response act" where
  "handleMatrixTextMessage E N digest msg ev ct =
     (let text = (if ct_ReplyTo ct \<noteq> [] then n_reply_text N (ct_Body ct) else ct_Body ct);
          plain = sendMatrixMessageToTumblr E N digest msg ev
            \<lparr>og_type = ''TEXT'', og_text = text, og_image = no_image, og_post = None\<rparr> in
      if blank text then raise errTumblrEmptyText
      else if MaxMessageTextRunes < length (rune_list text) then raise (Wrapped ''too long'' [errTumblrTextTooLong])
      else case parseTumblrPostShare N text of
          None \<Rightarrow> plain
        | Some parsed \<Rightarrow>
            andThen (resolveTumblrPostShare E N parsed) (\<lambda>resolved.
            case resolved of
              None \<Rightarrow> plain
            | Some post \<Rightarrow> sendMatrixMessageToTumblr E N digest msg ev
                \<lparr>og_type = ''POSTREF'', og_text = [], og_image = no_image, og_post = Some post\<rparr>))"

definition media_error :: "string \<Rightarrow> go_error" where
  "media_error kind = Wrapped kind [MatrixStatus True kind (Plain kind)]"

definition downloadMatrixMediaBounded :: "send_env \<Rightarrow> string \<Rightarrow> nat \<Rightarrow> string act" where
  "downloadMatrixMediaBounded N url maxBytes =
     andThen (foreign (n_media N url)) (\<lambda>data.
     if maxBytes < length data then fail ''matrix image is too large'' else ret data)"

definition downloadMatrixImage :: "send_env \<Rightarrow> matrix_message \<Rightarrow> message_content \<Rightarrow> image_upload act" where
  "downloadMatrixImage N msg ct =
     (if ct_MediaURL ct = [] then raise (unsupportedMatrixMessageError (Plain ''image message is missing media''))
      else if mm_Portal msg = None \<or> \<not> n_bot N then fail ''matrix media downloader is not available''
      else if int DefaultMaxUploadBytes < ct_InfoSize ct then raise (media_error ''media too large'')
      else attempt (downloadMatrixMediaBounded N (ct_MediaURL ct) DefaultMaxUploadBytes) (\<lambda>got.
        case got of
          Inl e \<Rightarrow>
            andThen ctx_err (\<lambda>ended.
            case ended of
              Some ce \<Rightarrow> raise ce
            | None \<Rightarrow> raise (media_error
                (if e = Plain ''matrix image is too large'' then ''media too large'' else ''media download failed'')))
        | Inr data \<Rightarrow>
            (case SniffImageMIME (n_http N) data of
               Inl _ \<Rightarrow> raise (media_error ''unsupported media type'')
             | Inr mimeType \<Rightarrow>
                 if ct_IsGIF ct \<and> mimeType \<noteq> ''image/gif'' then raise (media_error ''unsupported media type'')
                 else ret \<lparr>up_Data = data, up_FileName = ct_FileName ct, up_ContentType = mimeType\<rparr>)))"

definition handleMatrixImageMessage ::
  "env \<Rightarrow> send_env \<Rightarrow> (string \<Rightarrow> string) \<Rightarrow> matrix_message \<Rightarrow> matrix_event \<Rightarrow> message_content \<Rightarrow> message_response act" where
  "handleMatrixImageMessage E N digest msg ev ct =
     andThen (downloadMatrixImage N msg ct) (\<lambda>im.
     sendMatrixMessageToTumblr E N digest msg ev
       \<lparr>og_type = ''IMAGE'', og_text = [], og_image = im, og_post = None\<rparr>)"

definition unsupported_kind :: go_error where
  "unsupported_kind = unsupportedMatrixMessageError
     (Plain ''tumblr currently only supports text, image, GIF, and sticker messages'')"

definition handleMatrixMessage ::
  "env \<Rightarrow> send_env \<Rightarrow> (string \<Rightarrow> string) \<Rightarrow> matrix_message \<Rightarrow> message_response act" where
  "handleMatrixMessage E N digest msg =
     attempt (foreign (e_begin_owned E)) (\<lambda>owned.
     if owned \<noteq> Inr True then raise (Sentinel NotLoggedIn)
     else case mm_Content msg of
         None \<Rightarrow> fail ''message content is required''
       | Some ct \<Rightarrow>
           (case mm_Event msg of
              None \<Rightarrow> fail ''matrix event is required to send a tumblr message''
            | Some ev \<Rightarrow>
                if blank (ev_ID ev) then fail ''matrix event id is required to send a tumblr message''
                else andThen (completedOutboundReplay E msg ev) (\<lambda>completed.
                  case completed of
                    Some r \<Rightarrow> ret r
                  | None \<Rightarrow>
                      if ct_Replaces ct then raise (MatrixStatus True ''edits'' (Sentinel EditsNotSupported))
                      else (case ct_Kind ct of
                          MsgText \<Rightarrow> handleMatrixTextMessage E N digest msg ev ct
                        | MsgNotice \<Rightarrow> handleMatrixTextMessage E N digest msg ev ct
                        | MsgImage \<Rightarrow> handleMatrixImageMessage E N digest msg ev ct
                        | MsgSticker \<Rightarrow> handleMatrixImageMessage E N digest msg ev ct
                        | MsgVideo \<Rightarrow>
                            if ct_IsGIF ct then handleMatrixImageMessage E N digest msg ev ct
                            else raise unsupported_kind
                        | MsgOther \<Rightarrow> raise unsupported_kind))))"

text \<open>\<open>wrapTumblrMatrixError\<close>: an error that carries a Matrix status is returned as it is, every
  other one as the status of the failed event.\<close>

datatype handler_error = AsItIs go_error | WithStatus message_status

fun as_status :: "go_error \<Rightarrow> bool option" where
  "as_status (MatrixStatus certain m e) = Some certain"
| "as_status _ = None"

definition wrapTumblrMatrixError :: "bool \<Rightarrow> go_error \<Rightarrow> string \<Rightarrow> handler_error" where
  "wrapTumblrMatrixError remoteForbidden e fallback =
     (if errors_as as_status e \<noteq> None then AsItIs e
      else WithStatus (tumblrMatrixErrorStatus remoteForbidden e fallback))"

definition HandleMatrixMessage ::
  "env \<Rightarrow> send_env \<Rightarrow> (string \<Rightarrow> string) \<Rightarrow> matrix_message \<Rightarrow> world \<Rightarrow> (handler_error + message_response) \<times> world" where
  "HandleMatrixMessage E N digest msg w =
     (case handleMatrixMessage E N digest msg w of
        (Inl e, w') \<Rightarrow> (Inl (wrapTumblrMatrixError (e_remote_forbidden E) e ''failed to send message to Tumblr''), w')
      | (Inr r, w') \<Rightarrow> (Inr r, w'))"

end
