(* ===== verification/ClientProperties.thy ===== *)
theory ClientProperties
  imports SendTrace RecoveryProperties
begin

text \<open>
  Properties of the HTTP client (pkg/tumblr/client.go): sending, retrying, loading credentials,
  and the identifiers it accepts.
\<close>

section \<open>A concrete transport\<close>

text \<open>A service that rejects the first POST for its credentials, and a URL library that knows one
  origin: the witnesses run in it.\<close>

definition sample_url :: parsed_url where
  "sample_url =
     \<lparr>u_Scheme = ''https'', u_Host = ''www.tumblr.com'', u_Hostname = ''www.tumblr.com'', u_Port = [],
      u_Path = ''/api'', u_EscapedPath = ''/api'', u_HasUser = False, u_RawQuery = [], u_Fragment = [],
      u_Opaque = []\<rparr>"

definition sample_answer :: "int \<Rightarrow> string \<Rightarrow> http_answer" where
  "sample_answer status body =
     \<lparr>an_StatusCode = status, an_Status = [], an_csrf = [], an_csrf_token = [], an_path = None,
      an_body = Some body\<rparr>"

definition sample_http :: http_env where
  "sample_http =
     \<lparr>h_webBaseURL = ''https://www.tumblr.com'', h_exchange = (\<lambda>_. accept (sample_answer 404 [])),
      h_messaging_page = accept (sample_answer 200 ''page''), h_login_page = accept (sample_answer 200 ''page''),
      h_parse = (\<lambda>_. Inr sample_url), h_resolve = (\<lambda>_ u. u), h_url_string = (\<lambda>_. ''https://www.tumblr.com/api/''),
      h_page_fields = (\<lambda>_. \<lparr>pf_LoggedOut = False, pf_APIURL = ''/api'', pf_APIToken = ''fresh'',
        pf_CSRFToken = ''csrf'', pf_RecaptchaKey = []\<rparr>),
      h_envelope = (\<lambda>_. (empty_envelope, None)), h_send_response = (\<lambda>_. Inr \<lparr>sp_Conversation = None\<rparr>),
      h_redact = (\<lambda>s. s), h_status_text = (\<lambda>_. []), h_content_type = (\<lambda>_. ''image/png'')\<rparr>"

section \<open>Sending\<close>

text \<open>C29: no send of the client can be accepted twice. Every sender makes at most two POSTs, all
  for the send at hand; at most one of them was not answered with a rejection (a status from 400 to
  499); and its result tells: an error says "outcome unknown" exactly when one POST may have
  been accepted, and a result means that the last POST was accepted with an answer the client could
  read.\<close>

theorem senders_post_once:
  "sends_one (SendText H name conv msg) \<and> sends_one (SendTextToParticipants H sender ids msg) \<and>
   sends_one (SendImage H name conv im) \<and> sends_one (SendImageToParticipants H sender ids im) \<and>
   sends_one (SendSticker H name conv sticker) \<and> sends_one (SendStickerToParticipants H sender ids sticker) \<and>
   sends_one (SendPostRef H sender conv post) \<and> sends_one (SendPostRefToParticipants H sender ids post)"
  by (intro conjI text_sender.one text_starter.one image_sender.one image_starter.one sticker_sender.one
      sticker_starter.one post_sender.one post_starter.one)

section \<open>Retrying\<close>

text \<open>One retry with fresh credentials, and no other.\<close>

definition once_refreshed ::
  "http_env \<Rightarrow> string \<Rightarrow> string \<Rightarrow> (string \<times> string) list \<Rightarrow> request_body \<Rightarrow> 'a out_value \<Rightarrow> 'a act" where
  "once_refreshed H meth path q body out =
     andThen the_client (\<lambda>c.
     attempt (doOnce H meth path q body out) (\<lambda>r.
     case r of
       Inr x \<Rightarrow> ret x
     | Inl err \<Rightarrow>
         if ShouldRefreshAuth err (isMutating meth)
         then attempt (refreshAuthAfterFailure H (cl_authGeneration c)) (\<lambda>refreshed.
           case refreshed of
             Inl e \<Rightarrow> raise (refresh_failed meth err e)
           | Inr _ \<Rightarrow>
               andThen the_client (\<lambda>c.
               if isMutating meth \<and> cl_csrfToken c = [] then raise csrf_missing
               else doOnce H meth path q body out))
         else raise err))"

text \<open>C30: the general request loop makes at most two requests. Outside the message endpoint,
  which the senders use without this loop, no error is retried for being transient: the loop
  is a request, and after an authentication failure one refresh and one more request.\<close>

theorem requests_at_most_twice:
  assumes "meth \<noteq> ''POST'' \<or> path \<noteq> messages_path"
  shows "do_loop H meth path q body out False delays = once_refreshed H meth path q body out"
proof -
  have no: "\<not> isRetryableTransientSendError meth path e" for e
    using assms by (auto simp: isRetryableTransientSendError_def)
  have as_is: "attempt m (\<lambda>r. case r of Inl e \<Rightarrow> raise e | Inr x \<Rightarrow> ret x) = m" for m :: "'a act"
    by (rule ext) (auto simp: attempt_def raise_def ret_def split: prod.split sum.split)
  have drop: "andThen the_client (\<lambda>c. m) = m" for m :: "'a act"
    by (rule ext) (simp add: andThen_def the_client_def)
  have again: "do_loop H meth path q body out True ds = doOnce H meth path q body out" for ds
    by (subst do_loop.simps) (simp add: no as_is drop cong: sum.case_cong)
  show ?thesis
    by (subst do_loop.simps) (simp add: no again once_refreshed_def cong: if_cong sum.case_cong)
qed

lemma requests_at_most_twice_witness:
  "do_loop sample_http ''GET'' messages_path [] NoBody (Discard ()) False apiTransientRetryDelays =
   once_refreshed sample_http ''GET'' messages_path [] NoBody (Discard ())"
  by (rule requests_at_most_twice) simp

section \<open>Loading credentials\<close>

lemma bootstrap_html_cases:
  assumes "bootstrapFromHTML H html w = (r, w')"
  shows "(\<exists>e. r = Inl e \<and> w' = w) \<or>
    (\<exists>f base. r = Inr () \<and> w' = w\<lparr>w_client := f\<rparr> \<and> cl_apiToken f \<noteq> [] \<and>
       cl_authGeneration f = cl_authGeneration (w_client w) + 1 \<and>
       cl_apiToken f = normalizeBearerToken (pf_APIToken (h_page_fields H html)) \<and>
       cl_csrfToken f = normalizeOptionalHeaderCredential (pf_CSRFToken (h_page_fields H html)) \<and>
       (cl_apiBaseURL f = cl_apiBaseURL (w_client w) \<or>
        normalizeBootstrapAPIURL H (pf_APIURL (h_page_fields H html)) = Inr (cl_apiBaseURL f)))"
  using assms
  by (auto simp: bootstrapFromHTML_def Let_def andThen_def of_result_def ret_def raise_def update_client_def
      split: if_splits sum.splits)

lemma bearer_no_control: "\<not> containsHTTPHeaderControl (normalizeBearerToken v)"
  by (auto simp: normalizeBearerToken_def normalizeOptionalHeaderCredential_def Let_def
      containsHTTPHeaderControl_def rune_list_def)

definition trusted_base :: "http_env \<Rightarrow> string \<Rightarrow> bool" where
  "trusted_base H base \<longleftrightarrow>
     (\<exists>u web. h_parse H (trim_right_slashes (h_webBaseURL H)) = Inr web \<and>
        base = trim_right_slashes (h_url_string H u) \<and> \<not> u_HasUser u \<and> u_RawQuery u = [] \<and>
        (isSameOrigin u web \<or> isTrustedTumblrAPIOrigin u))"

lemma normalized_trusted: "normalizeBootstrapAPIURL H raw = Inr base \<Longrightarrow> trusted_base H base"
  by (auto simp: normalizeBootstrapAPIURL_def trusted_base_def Let_def split: sum.splits if_splits)


lemma trim_space_Nil: "trim_space [] = []"
  by (simp add: trim_space_def)


section \<open>Identifiers\<close>

lemma identifier_ok:
  "requireIdentifierValue v f = Inr t \<Longrightarrow>
   t = trim_space v \<and> t \<noteq> [] \<and> \<not> containsSpaceOrControl t \<and> length (rune_list t) \<le> maxIdentifierRunes"
  by (auto simp: requireIdentifierValue_def requireNonEmpty_def Let_def split: sum.splits if_splits)

definition proper_identifier :: "string \<Rightarrow> bool" where
  "proper_identifier i \<longleftrightarrow> i \<noteq> [] \<and> \<not> containsSpaceOrControl i \<and> length (rune_list i) \<le> 512"

lemma distinct_participants_ok:
  "distinct_participants out ps = Inr res \<Longrightarrow> distinct out \<Longrightarrow> (\<forall>i \<in> set out. proper_identifier i) \<Longrightarrow>
   distinct res \<and> set res = set out \<union> trim_space ` set ps \<and> (\<forall>i \<in> set res. proper_identifier i)"
proof (induction out ps rule: distinct_participants.induct)
  case (1 out)
  then show ?case by simp
next
  case (2 out p ps)
  from 2(2) obtain t where t: "requireIdentifierValue p ''participant ID'' = Inr t"
    and r: "distinct_participants (if t \<in> set out then out else out @ [t]) ps = Inr res"
    by (auto split: sum.splits)
  have p: "t = trim_space p" "proper_identifier t"
    using identifier_ok [OF t] by (auto simp: proper_identifier_def maxIdentifierRunes_def)
  let ?out = "if t \<in> set out then out else out @ [t]"
  have "distinct ?out" and "\<forall>i \<in> set ?out. proper_identifier i" using 2(3,4) p(2) by auto
  with 2(1) [OF t r] have "distinct res" "set res = set ?out \<union> trim_space ` set ps" "\<forall>i \<in> set res. proper_identifier i"
    by blast+
  moreover have "set ?out = set out \<union> {trim_space p}" using p(1) by auto
  ultimately show ?case by auto
qed

text \<open>A new conversation is started only with a proper set of participants: the accepted
  identifiers are those given, trimmed and without repetition, at least two, each non-empty, at
  most 512 code points and free of spaces and control characters.\<close>

theorem participants_checked:
  assumes "requireParticipantIDs ids = Inr out"
  shows "distinct out \<and> 2 \<le> length out \<and> set out = trim_space ` set ids \<and>
    (\<forall>i \<in> set out. proper_identifier i)"
  using assms distinct_participants_ok [of "[]" ids out]
  by (auto simp: requireParticipantIDs_def split: if_splits sum.splits)

lemma participants_checked_witness:
  "requireParticipantIDs [''t:a'', ''t:b'', ''t:a''] = Inr [''t:a'', ''t:b''] \<and> distinct [''t:a'', ''t:b'']"
proof -
  have e1: "trim_space ''t:a'' = ''t:a''" "rune_list ''t:a'' = [116, 58, 97]"
    "trim_space ''t:b'' = ''t:b''" "rune_list ''t:b'' = [116, 58, 98]"
    by (simp_all add: trim_space_visible visible_def rune_list_def)
  have i: "requireIdentifierValue ''t:a'' f = Inr ''t:a''" "requireIdentifierValue ''t:b'' f = Inr ''t:b''" for f
    by (simp_all add: requireIdentifierValue_def requireNonEmpty_def e1 containsSpaceOrControl_def
        is_space_rune_def is_control_rune_def maxIdentifierRunes_def)
  have e: "requireParticipantIDs [''t:a'', ''t:b'', ''t:a''] = Inr [''t:a'', ''t:b'']"
    by (simp add: requireParticipantIDs_def i)
  show ?thesis using e participants_checked [OF e] by simp
qed

lemma lower_char_mark: "lower_char c \<in> {CHR ''/'', CHR ''?'', CHR ''#'', CHR 0x5C} \<Longrightarrow> lower_char c = c"
proof -
  assume a: "lower_char c \<in> {CHR ''/'', CHR ''?'', CHR ''#'', CHR 0x5C}"
  show ?thesis
  proof (cases "65 \<le> (of_char c :: nat) \<and> (of_char c :: nat) \<le> 90")
    case True
    then have "(of_char (lower_char c) :: nat) = of_char c + 32"
      by (simp add: lower_char_def Let_def)
    with True a show ?thesis by auto
  next
    case False
    then show ?thesis by (auto simp: lower_char_def Let_def)
  qed
qed

lemma clean_name_letters:
  assumes "c \<in> set (cleanBlogName v)" and "c \<in> {CHR ''/'', CHR ''?'', CHR ''#'', CHR 0x5C}"
  shows "c \<in> set (trim_space v)"
proof -
  have "c \<in> set (to_lower (trim_space (trim_space v)))"
    using assms(1) by (auto simp: cleanBlogName_def Let_def trim_suffix_def trim_prefix_def
        dest!: in_set_takeD in_set_dropD split: if_splits)
  from subsetD [OF to_lower_source this] assms(2) obtain d where
    "d \<in> set (trim_space (trim_space v))" "lower_char d = c \<or> d = c" by auto
  moreover have "d = c" using lower_char_mark [of d] calculation(2) assms(2) by auto
  ultimately have "c \<in> set (trim_space (trim_space v))" by simp
  then show ?thesis by (rule subsetD [OF trim_space_subset])
qed

text \<open>A normalised blog name is safe in a URL path. Whatever the user typed, and whatever the
  URL library makes of it, the result is empty or free of slashes, backslashes, question marks,
  number signs, dots, colons, spaces and control characters.\<close>

theorem blog_name_is_path_segment:
  "set (NormalizeBlogName H v) \<inter> {CHR ''/'', CHR ''?'', CHR ''#'', CHR 0x5C, CHR ''.'', CHR '':''} = {} \<and>
   \<not> containsSpaceOrControl (NormalizeBlogName H v)"
proof -
  have clean: "set (cleanBlogName n) \<inter> {CHR ''/'', CHR ''?'', CHR ''#'', CHR 0x5C, CHR ''.'', CHR '':''} = {} \<and>
      \<not> containsSpaceOrControl (cleanBlogName n)" for n
  proof -
    have "c \<notin> {CHR ''/'', CHR ''?'', CHR ''#'', CHR 0x5C}" if "c \<in> set (cleanBlogName n)" for c
    proof
      assume "c \<in> {CHR ''/'', CHR ''?'', CHR ''#'', CHR 0x5C}"
      moreover have "\<not> contains_char [CHR ''/'', CHR ''?'', CHR ''#'', CHR 0x5C] (trim_space n)"
        using that by (auto simp: cleanBlogName_def Let_def split: if_splits)
      ultimately show False using clean_name_letters [OF that] by (auto simp: contains_char_def list_ex_iff)
    qed
    moreover have "\<not> contains_char ''.'' (cleanBlogName n)" "\<not> contains_char '':'' (cleanBlogName n)"
      "\<not> containsSpaceOrControl (cleanBlogName n)"
      by (auto simp: cleanBlogName_def Let_def contains_char_def containsSpaceOrControl_def rune_list_def)
    ultimately show ?thesis by (auto simp: contains_char_def list_ex_iff)
  qed
  have "NormalizeBlogName H v = [] \<or> (\<exists>n. NormalizeBlogName H v = cleanBlogName n)"
    by (auto simp: NormalizeBlogName_def Let_def split: option.splits)
  then show ?thesis using clean by (auto simp: containsSpaceOrControl_def rune_list_def)
qed

end
