(* ===== verification/SendingMoves.thy ===== *)
theory SendingMoves
  imports OutboundSending ReconcileProperties ClientProperties OutboundCalls OutboundContracts
begin

text \<open>
  What the send path can do to the store and to the remote service: everything but the
  submission itself is tame, and the submission is guarded by the row of the send, so that the
  POSTs of one Matrix event stay accounted for.
\<close>

section \<open>The surroundings of the send path\<close>

definition foreign_send :: "send_env \<Rightarrow> bool" where
  "foreign_send N \<longleftrightarrow>
     leaves_store (n_logged_in N) \<and> (\<forall>b c. leaves_store (n_history N b c)) \<and> (\<forall>u. leaves_store (n_media N u)) \<and>
     (\<forall>r. leaves_store (h_exchange (n_http N) r)) \<and> leaves_store (h_messaging_page (n_http N))"

lemma foreign_send_http: "foreign_send N \<Longrightarrow> outside_http leaves (n_http N)"
  by (simp add: foreign_send_def outside_http_def)

lemma send_env_calm:
  assumes "foreign_send N"
  shows "calm E (foreign (n_logged_in N))" and "calm E (foreign (n_history N b c))"
    and "calm E (foreign (n_media N u))"
  using assms by (auto simp: foreign_send_def intro: tamed.stays_moves)

lemma client_calm [calm_intros]:
  assumes "foreign_send N"
  shows "calm E (bootstrapIfNeeded (n_http N) b)"
    and "calm E (refreshAuthAfterFailure (n_http N) g)"
    and "calm E (doOnceWithRedirectPolicy (n_http N) meth path q body out r)"
    and "calm E (do_request (n_http N) meth path q body out)"
  by (rule tamed.client_mild [OF foreign_send_http [OF assms]] tamed.do_request_mild [OF foreign_send_http [OF assms]])+

section \<open>The send path but for the submission\<close>

lemma before_calm [calm_intros]:
  assumes "foreign_env E"
  shows "calm E (completedOutboundMapping E ev room)"
    and "calm E (pendingAfterPreparedOwnershipLoss E s)"
    and "calm E (deletePreparedOutbound E e)"
    and "calm E (prepare_binding E c)"
    and "calm E (prepareAndBindOutboundPendingPortal E c)"
proof -
  show 1: "calm E (completedOutboundMapping E ev room)" for ev room
    unfolding completedOutboundMapping_def by (intro moves_intros calm_intros store_calm assms)
  show 2: "calm E (pendingAfterPreparedOwnershipLoss E s)" for s
    unfolding pendingAfterPreparedOwnershipLoss_def by (intro moves_intros calm_intros store_calm assms 1)
  show "calm E (deletePreparedOutbound E e)"
    unfolding deletePreparedOutbound_def by (intro moves_intros calm_intros store_calm assms 2)
  show 3: "calm E (prepare_binding E c)"
    unfolding prepare_binding_def by (intro moves_intros calm_intros store_calm assms)
  have 4: "calm E (bindOutboundPortalOwnership E k d)" for k d
    unfolding bindOutboundPortalOwnership_def by (intro moves_intros calm_intros store_calm assms)
  show "calm E (prepareAndBindOutboundPendingPortal E c)"
    unfolding prepareAndBindOutboundPendingPortal_def
    by (intro moves_intros calm_intros store_calm assms 3 4)
qed

lemma after_calm [calm_intros]:
  assumes "foreign_env E"
  shows "calm E (keepOutboundPendingAfterSubmit E m)"
    and "calm E (keepOutboundVisibleAfterRoomReplacement E)"
    and "calm E (after_rejection E err)"
    and "calm E (mark_awaiting E resp c m)"
    and "calm E (after_acceptance E pending c resp m)"
proof -
  show 1: "calm E (keepOutboundPendingAfterSubmit E m)" for m
    unfolding keepOutboundPendingAfterSubmit_def by (intro moves_intros calm_intros store_calm assms)
  show 2: "calm E (keepOutboundVisibleAfterRoomReplacement E)"
    unfolding keepOutboundVisibleAfterRoomReplacement_def by (intro moves_intros calm_intros store_calm assms)
  show "calm E (after_rejection E err)"
    unfolding after_rejection_def note_remote_error_def by (intro moves_intros calm_intros store_calm assms)
  show 3: "calm E (mark_awaiting E resp c m)" for c m
    unfolding mark_awaiting_def by (intro moves_intros calm_intros store_calm assms 1)
  show "calm E (after_acceptance E pending c resp m)"
    unfolding after_acceptance_def by (intro moves_intros calm_intros store_calm assms 1 2 3)
qed

end
