(* ===== verification/SendingInvariant.thy ===== *)
theory SendingInvariant
  imports SendingMoves
begin

text \<open>
  The POSTs of the send path against the rows of the store: a message is posted only after its
  row was marked submitting, which happens at most once, and the POST carries the Matrix event
  of that row.
\<close>

section \<open>Sending touches the store of none but the framework\<close>

abbreviation shelved :: "env \<Rightarrow> 'a act \<Rightarrow> bool" where
  "shelved E m \<equiv> moves (on_tables (quiet_move (e_pke E))) m"

named_theorems shelved_intros \<open>operations that take quiet steps on the tables\<close>

lemma calm_shelved: "calm E m \<Longrightarrow> shelved E m"
proof -
  assume c: "calm E m"
  show "shelved E m"
    unfolding moves_def
  proof
    fix w :: world
    have "on_tables (quiet_move (e_pke E)) w (snd (m w))"
      unfolding on_tables_def using calm_tables [OF c] .
    then show "(on_tables (quiet_move (e_pke E)))\<^sup>*\<^sup>* w (snd (m w))" by blast
  qed
qed

lemma shelved_tables: "shelved E m \<Longrightarrow> (quiet_move (e_pke E))\<^sup>*\<^sup>* (tbl w) (tbl (snd (m w)))"
  using on_tables_rtrancl [OF movesD] .

lemma shelved_emit [shelved_intros]: "shelved E (emit e)"
  by (auto simp: moves_def emit_def intro!: r_into_rtranclp on_tables_same)

lemma shelved_local [shelved_intros]: "shelved E the_send" "shelved E the_client"
  by (rule calm_shelved, rule tamed.local_moves)+

lemma shelved_client [shelved_intros]:
  assumes "foreign_send N"
  shows "shelved E (bootstrapIfNeeded (n_http N) b)"
    and "shelved E (refreshAuthAfterFailure (n_http N) g)"
    and "shelved E (doOnceWithRedirectPolicy (n_http N) meth path q body out r)"
  using client_calm [OF assms] calm_shelved by blast+

lemma shelved_message [shelved_intros]:
  assumes "foreign_send N"
  shows "shelved E (doMessageSend (n_http N) q body)"
proof -
  have 1: "shelved E (post_message (n_http N) q body)" for q body
    unfolding post_message_def by (intro moves_intros shelved_intros assms)
  have 2: "shelved E (retry_message (n_http N) q body)" for q body
    unfolding retry_message_def by (intro moves_intros 1)
  have 3: "shelved E (refresh_and_retry (n_http N) q body g err)" for q body g err
    unfolding refresh_and_retry_def by (intro moves_intros shelved_intros assms 2)
  show ?thesis
    unfolding doMessageSend_def by (intro moves_intros shelved_intros assms 1 3)
qed

lemma shelved_senders [shelved_intros]:
  assumes "foreign_send N"
  shows "shelved E (post_outgoing (n_http N) meta conv ids og)"
  unfolding post_outgoing_def SendText_def SendTextToParticipants_def SendImage_def SendImageToParticipants_def
    SendPostRef_def SendPostRefToParticipants_def send_to_conversation_def send_to_participants_def
    classified_def validated_def require_text_def
  by (intro moves_intros shelved_intros assms)

text \<open>What is posted is one of the client's messages, so its contract holds.\<close>

interpretation outgoing_sender: message_sender "post_outgoing H meta conv ids og" for H meta conv ids og
  by unfold_locales
    (simp add: post_outgoing_def text_sender.one text_starter.one image_sender.one image_starter.one
      post_sender.one post_starter.one)

section \<open>The invariant\<close>

definition event_posts :: "string \<Rightarrow> world \<Rightarrow> effect list" where
  "event_posts ev w = filter (\<lambda>p. post_event p = ev) (posts w)"

definition accounted :: "env \<Rightarrow> world \<Rightarrow> bool" where
  "accounted E w \<longleftrightarrow>
     store_inv (e_pke E) (tbl w) \<and>
     (\<forall>ev. event_posts ev w \<noteq> [] \<longrightarrow> event_spent (tbl w) (Submitted (e_bridge_id E) ev)) \<and>
     (\<forall>ev. length (event_posts ev w) \<le> 2 \<and> length (filter live_post (event_posts ev w)) \<le> 1)"

definition accounts :: "env \<Rightarrow> world \<Rightarrow> world \<Rightarrow> bool" where
  "accounts E w w' \<longleftrightarrow> (accounted E w \<longrightarrow> accounted E w')"

lemma outbound_moves_keep:
  assumes "(outbound_move pke)\<^sup>*\<^sup>* t t'" and "store_inv pke t"
  shows "store_inv pke t' \<and> (event_spent t k \<longrightarrow> event_spent t' k)"
  using assms
  by (induction rule: rtranclp_induct) (auto simp: outbound_move_def dest: step_inv step_spent)

lemma quiet_moves_outbound: "(quiet_move pke)\<^sup>*\<^sup>* t t' \<Longrightarrow> (outbound_move pke)\<^sup>*\<^sup>* t t'"
  by (induction rule: rtranclp_induct) (auto intro: rtranclp.rtrancl_into_rtrancl quiet_outbound)

lemma accounted_moves:
  assumes "accounted E w" and "(outbound_move (e_pke E))\<^sup>*\<^sup>* (tbl w) (tbl w')" and "posts w' = posts w"
  shows "accounted E w'"
  using assms(1) outbound_moves_keep [OF assms(2)] assms(3)
  unfolding accounted_def event_posts_def by metis

lemma calm_accounted: "calm E m \<Longrightarrow> accounted E w \<Longrightarrow> accounted E (snd (m w))"
  using accounted_moves quiet_moves_outbound [OF calm_tables] calm_posts by blast

lemma calm_accounts: "calm E m \<Longrightarrow> moves (accounts E) m"
  by (auto simp: moves_def accounts_def intro!: r_into_rtranclp calm_accounted)

lemma accounts_accounted: "moves (accounts E) m \<Longrightarrow> accounted E w \<Longrightarrow> accounted E (snd (m w))"
  using moves_invariant [of "accounts E" m "accounted E"] by (auto simp: accounts_def)

text \<open>The step that matters: a send that was just marked submitting is posted.\<close>

lemma accounted_post:
  assumes w: "accounted E w" and step: "outbound_step (e_pke E) (tbl w) (Some (Submitted (e_bridge_id E) ev)) (tbl w1)"
    and same: "posts w1 = posts w"
    and later: "(quiet_move (e_pke E))\<^sup>*\<^sup>* (tbl w1) (tbl w')"
    and ps: "posts w' = posts w1 @ ps" "\<forall>p \<in> set ps. post_event p = ev" "length ps \<le> 2"
      "length (filter live_post ps) \<le> 1"
  shows "accounted E w'"
proof -
  have inv: "store_inv (e_pke E) (tbl w)" using w by (simp add: accounted_def)
  note fresh = step_spend [OF inv step]
  have "(outbound_move (e_pke E))\<^sup>*\<^sup>* (tbl w) (tbl w1)"
    using step by (intro r_into_rtranclp) (auto simp: outbound_move_def)
  then have all: "(outbound_move (e_pke E))\<^sup>*\<^sup>* (tbl w) (tbl w')"
    using quiet_moves_outbound [OF later] by simp
  have inv1: "store_inv (e_pke E) (tbl w1)" using step_inv [OF step inv] .
  have spent: "event_spent (tbl w') (Submitted (e_bridge_id E) ev)"
    using outbound_moves_keep [OF quiet_moves_outbound [OF later] inv1] fresh by blast
  have none: "event_posts ev w = []" using w fresh by (auto simp: accounted_def)
  have this_one: "event_posts ev w' = ps"
    using none ps(1,2) same by (simp add: event_posts_def)
  have other: "event_posts e w' = event_posts e w" if "e \<noteq> ev" for e
    using ps(1,2) same that by (auto simp: event_posts_def filter_empty_conv)
  show ?thesis
    unfolding accounted_def
  proof (intro conjI allI impI)
    show "store_inv (e_pke E) (tbl w')" using outbound_moves_keep [OF all inv] by blast
    fix e
    show "event_spent (tbl w') (Submitted (e_bridge_id E) e)" if "event_posts e w' \<noteq> []"
    proof (cases "e = ev")
      case True then show ?thesis using spent by simp
    next
      case False
      then have "event_spent (tbl w) (Submitted (e_bridge_id E) e)"
        using w that other [OF False] by (simp add: accounted_def)
      then show ?thesis using outbound_moves_keep [OF all inv] by blast
    qed
    show "length (event_posts e w') \<le> 2"
      using w ps(3) this_one other [of e] by (cases "e = ev") (auto simp: accounted_def)
    show "length (filter live_post (event_posts e w')) \<le> 1"
      using w ps(4) this_one other [of e] by (cases "e = ev") (auto simp: accounted_def)
  qed
qed

section \<open>The submission\<close>

definition aside :: "world \<Rightarrow> world \<Rightarrow> bool" where
  "aside w w' \<longleftrightarrow> outbound (tbl w') = outbound (tbl w) \<and> w_send w' = w_send w"

lemma aside_rtrancl: "aside\<^sup>*\<^sup>* w w' \<Longrightarrow> aside w w'"
  by (induction rule: rtranclp_induct) (auto simp: aside_def)

lemma aside_local [moves_intros]:
  "moves aside (emit e)" "moves aside time_now" "moves aside the_send" "moves aside the_pending" "moves aside (put_pending p)"
  by (auto simp: moves_def aside_def emit_def time_now_def the_send_def the_pending_def put_pending_def
      intro!: r_into_rtranclp)

lemma aside_foreign: "leaves_store m \<Longrightarrow> moves aside (foreign m)"
  by (auto simp: moves_def aside_def foreign_def stays_def leaves_def split: prod.split intro!: r_into_rtranclp)
    (metis db.simps(1) snd_conv)+

lemma aside_baseline:
  assumes "foreign_send N"
  shows "moves aside (outboundBaseline (n_history N b c) conv)"
  using assms unfolding outboundBaseline_def handleRemoteError_def foreign_send_def
  by (intro moves_intros aside_foreign) blast

lemma aside_register: "moves aside (registerOutboundPending msg s)"
  unfolding registerOutboundPending_def outboundDatabaseMessage_def by (intro moves_intros)

lemma aside_event:
  "aside w w' \<Longrightarrow> event_of_send b l x (tbl w') = event_of_send b l x (tbl w)"
  by (simp add: aside_def event_of_send_def getOutboundSend_def)

text \<open>The row of the send at hand is that of its Matrix event.\<close>

definition own_row :: "env \<Rightarrow> world \<Rightarrow> bool" where
  "own_row E w \<longleftrightarrow>
     event_of_send (e_bridge_id E) (UserLoginID (w_send w)) (TransactionID (w_send w)) (tbl w) =
       Some (MatrixEventID (w_send w))"

lemma own_row_aside: "aside w w' \<Longrightarrow> own_row E w \<Longrightarrow> own_row E w'"
  by (simp add: own_row_def aside_event) (simp add: aside_def)

lemma own_row_loaded:
  assumes "lift_store (Outbound_Get pke (e_bridge_id E) l x) w = (Inr (Some s), w')"
  shows "own_row E (snd (update_send (\<lambda>_. s) w'))"
proof -
  have "scan_option pke (getOutboundSend (e_bridge_id E) l x (tbl w)) = Inr (Some s)" "tbl w' = tbl w"
    using Get_Inr [OF lift_store_InrD [OF assms]] by simp_all
  then obtain r where r: "getOutboundSend (e_bridge_id E) l x (tbl w') = Some r" "scan pke r = Inr s"
    by (auto simp: scan_option_def split: option.splits sum.splits)
  moreover from this obtain h ids where "s = send_of_row r h ids" using scan_Inr_send by blast
  moreover have "ob_user_login_id r = l \<and> ob_transaction_id r = x"
    using r(1) by (auto simp: getOutboundSend_def at_key_def find_Some_iff)
  ultimately show ?thesis by (simp add: own_row_def update_send_def event_of_send_def)
qed

lemma registered_calm: "calm E (registerOutboundPending msg s)"
  unfolding registerOutboundPending_def outboundDatabaseMessage_def by (intro moves_intros)

lemma settled_calm:
  assumes "foreign_env E"
  shows "calm E (case posted of
       Inl err \<Rightarrow>
         if IsMessageSendOutcomeUnknown err then keepOutboundPendingAfterSubmit E dbMessage
         else after_rejection E err
     | Inr resp \<Rightarrow> after_acceptance E pending conversationID resp dbMessage)"
  by (intro moves_intros calm_intros assms)

lemma post_submitted_accounted:
  assumes env: "foreign_env E" "foreign_send N" and w: "accounted E w"
    and step: "outbound_step (e_pke E) (tbl w) (Some (Submitted (e_bridge_id E) (MatrixEventID (w_send w1)))) (tbl w1)"
    and same: "posts w1 = posts w"
  shows "accounted E (snd (post_submitted E N msg meta pending conv og w1))"
proof -
  let ?reg = "registerOutboundPending
    (case mm_Portal msg of Some p \<Rightarrow> InRoom (pt_mxid p) | None \<Rightarrow> NoPortal) (w_send w1)"
  let ?post = "post_outgoing (n_http N) meta conv (case pending of Some p \<Rightarrow> pm_PendingParticipantIDs p | None \<Rightarrow> []) og"
  obtain r2 w2 where reg: "?reg w1 = (r2, w2)" by fastforce
  have "moves aside ?reg" by (rule aside_register)
  then have "aside w1 (snd (?reg w1))" by (rule aside_rtrancl [OF movesD])
  moreover have "calm E ?reg" by (rule registered_calm)
  ultimately have w2: "(quiet_move (e_pke E))\<^sup>*\<^sup>* (tbl w1) (tbl w2)" "posts w2 = posts w1" "w_send w2 = w_send w1"
    using calm_tables [of E ?reg w1] calm_posts [of E ?reg w1] reg by (auto simp: aside_def)
  show ?thesis
  proof (cases r2)
    case (Inl e)
    have "accounted E w2" using accounted_post [OF w step same w2(1), of "[]"] w2(2) by simp
    with Inl reg show ?thesis by (simp add: post_submitted_def andThen_the_send andThen_Inl)
  next
    case (Inr m)
    obtain r3 w3 where post: "?post w2 = (r3, w3)" by fastforce
    obtain ps where ps: "posts w3 = posts w2 @ ps" "\<forall>p \<in> set ps. post_event p = MatrixEventID (w_send w2)"
      "length ps \<le> 2" "length (filter live_post ps) \<le> 1"
      using outgoing_sender.one post unfolding sends_one_def by blast
    have "(quiet_move (e_pke E))\<^sup>*\<^sup>* (tbl w2) (tbl w3)"
      using shelved_tables [of E ?post w2] shelved_senders [OF env(2)] post by simp
    with w2(1) have "(quiet_move (e_pke E))\<^sup>*\<^sup>* (tbl w1) (tbl w3)" by (rule rtranclp_trans)
    then have "accounted E w3"
      using accounted_post [OF w step same, of w3 ps] w2 ps by simp
    with Inr reg post show ?thesis
      using calm_accounted [OF settled_calm [OF env(1)], of w3]
      by (simp add: post_submitted_def andThen_the_send andThen_Inr attempt_apply)
  qed
qed

lemma mark_submitting_effects:
  fixes w :: world
  assumes "Outbound_MarkSubmitting b l x base st nx now w = (r, w1)"
  shows "(outbound_move pke)\<^sup>*\<^sup>* (tbl w) (tbl w1)" and "posts w1 = posts w" and "w_send w1 = w_send w"
proof -
  have "moves (on_tables (outbound_move pke)) (Outbound_MarkSubmitting b l x base st nx now :: (store_error, world, bool) oper)"
    by (rule MarkSubmitting_moves)
  from on_tables_rtrancl [OF movesD [OF this, of w]] show "(outbound_move pke)\<^sup>*\<^sup>* (tbl w) (tbl w1)"
    using assms by simp
  have "moves db_change (Outbound_MarkSubmitting b l x base st nx now)" by (rule db_only)
  from db_change_rtrancl [OF movesD [OF this, of w]] show "posts w1 = posts w" and "w_send w1 = w_send w"
    using assms by (simp_all add: db_change_def posts_def)
qed

lemma submit_accounted:
  assumes env: "foreign_env E" "foreign_send N" and w: "accounted E w" and own: "own_row E w"
  shows "accounted E (snd (submit_and_post E N msg meta pending conv og baseline w))"
proof -
  let ?st = "w_clock w (w_tick w)" and ?now = "w_clock w (Suc (w_tick w))"
  let ?w = "w\<lparr>w_tick := Suc (Suc (w_tick w))\<rparr>"
  let ?nx = "?st + outboundUnconfirmedTimeout"
  let ?mark = "Outbound_MarkSubmitting (e_bridge_id E) (UserLoginID (w_send w)) (TransactionID (w_send w)) baseline ?st ?nx ?now"
  obtain r1 w1 where mark: "?mark ?w = (r1, w1)" by fastforce
  note eff = mark_submitting_effects [OF mark]
  have w1: "accounted E w1"
    using accounted_moves [OF w] eff by (simp add: posts_def)
  have body: "submit_and_post E N msg meta pending conv og baseline w =
    (case r1 of
       Inl e \<Rightarrow> deletePreparedOutbound E (StoreError e) w1
     | Inr False \<Rightarrow> pendingAfterPreparedOwnershipLoss E (w_send w) w1
     | Inr True \<Rightarrow> post_submitted E N msg meta pending conv og
        (w1\<lparr>w_send := (w_send w1)\<lparr>SendState := Submitting, BaselineMessageIDs := baseline,
          SendStartedAt := ?st, NextAttemptAt := ?nx\<rparr>\<rparr>))"
    using mark
    by (simp add: submit_and_post_def andThen_def attempt_def the_send_def time_now_def lift_store_def
        update_send_def Let_def split: sum.split bool.split)
  show ?thesis
  proof (cases "r1 = Inr True")
    case True
    let ?w1 = "w1\<lparr>w_send := (w_send w1)\<lparr>SendState := Submitting, BaselineMessageIDs := baseline,
          SendStartedAt := ?st, NextAttemptAt := ?nx\<rparr>\<rparr>"
    have inv: "store_inv (e_pke E) (tbl ?w)" using w by (simp add: accounted_def)
    from MarkSubmitting_InrTrue [OF inv mark [unfolded True]] own
    have "outbound_step (e_pke E) (tbl w) (Some (Submitted (e_bridge_id E) (MatrixEventID (w_send ?w1)))) (tbl ?w1)"
      using eff(3) by (simp add: own_row_def)
    from post_submitted_accounted [OF env w this] show ?thesis
      using body True eff(2) by (simp add: posts_def)
  next
    case False
    have "calm E (deletePreparedOutbound E e)" and "calm E (pendingAfterPreparedOwnershipLoss E s)" for e s
      by (rule before_calm [OF env(1)])+
    then have "accounted E (snd (deletePreparedOutbound E e w1))"
      and "accounted E (snd (pendingAfterPreparedOwnershipLoss E s w1))" for e s
      using w1 calm_accounted by blast+
    then show ?thesis using body False by (auto split: sum.split bool.split)
  qed
qed

lemma reload_accounts:
  assumes env: "foreign_env E" "foreign_send N"
  shows "moves (accounts E) (reload_and_submit E N msg meta pending conv og send l x)"
proof -
  let ?get = "lift_store (Outbound_Get (e_pke E) (e_bridge_id E) l x)"
  let ?base = "outboundBaseline (n_history N (lm_SelectedBlogName meta) conv) conv"
  have lost: "calm E (pendingAfterPreparedOwnershipLoss E send)" and drop: "calm E (deletePreparedOutbound E e)" for e
    by (rule before_calm [OF env(1)])+
  have get: "calm E ?get" by (intro moves_intros store_calm)
  have base: "calm E ?base"
    unfolding outboundBaseline_def by (intro moves_intros calm_intros send_env_calm env)
  have "accounted E (snd (reload_and_submit E N msg meta pending conv og send l x w))" if w: "accounted E w" for w
  proof -
    obtain r1 w1 where g: "?get w = (r1, w1)" by fastforce
    have w1: "accounted E w1" using calm_accounted [OF get w] g by simp
    show ?thesis
    proof (cases "\<exists>s. r1 = Inr (Some s) \<and> SendState s = Prepared")
      case False
      then show ?thesis using g w1 calm_accounted [OF lost w1]
        by (auto simp: reload_and_submit_def andThen_def split: sum.split option.split)
    next
      case True
      then obtain s where s: "r1 = Inr (Some s)" "SendState s = Prepared" by blast
      let ?w1 = "w1\<lparr>w_send := s\<rparr>"
      have own: "own_row E ?w1"
        using own_row_loaded [OF g [unfolded s(1)]] by (simp add: update_send_def)
      have acc: "accounted E ?w1" using w1 by (simp add: accounted_def event_posts_def posts_def)
      obtain r2 w2 where b: "?base ?w1 = (r2, w2)" by fastforce
      have w2: "accounted E w2" using calm_accounted [OF base acc] b by simp
      have "moves aside ?base" by (rule aside_baseline [OF env(2)])
      then have "aside ?w1 w2" using aside_rtrancl [OF movesD, of ?base ?w1] b by simp
      then have own2: "own_row E w2" using own by (rule own_row_aside)
      have "reload_and_submit E N msg meta pending conv og send l x w =
        (case r2 of Inl e \<Rightarrow> deletePreparedOutbound E e w2
         | Inr ids \<Rightarrow> submit_and_post E N msg meta pending conv og ids w2)"
        using g b s by (simp add: reload_and_submit_def andThen_def attempt_def update_send_def split: sum.split)
      then show ?thesis
        using calm_accounted [OF drop w2] submit_accounted [OF env w2 own2] by (simp split: sum.split)
    qed
  qed
  then show ?thesis by (auto simp: moves_def accounts_def intro!: r_into_rtranclp)
qed

section \<open>The whole send path\<close>

lemma preparing_calm:
  assumes "foreign_env E" "foreign_send N"
  shows "calm E (bind_before_submit E pending conv)"
    and "calm E (existing_conversation E meta pending conv)"
    and "calm E (replay_completed E ev persisted)"
    and "calm E (requireLoggedIn N)"
    and "calm E (resolveTumblrPostShare E N parsed)"
    and "calm E (downloadMatrixImage N msg ct)"
    and "calm E (completedOutboundReplay E msg ev)"
proof -
  show 1: "calm E (requireLoggedIn N)"
    unfolding requireLoggedIn_def by (intro moves_intros send_env_calm assms)
  show "calm E (bind_before_submit E pending conv)"
    unfolding bind_before_submit_def by (intro moves_intros calm_intros assms)
  show "calm E (existing_conversation E meta pending conv)"
    unfolding existing_conversation_def by (intro moves_intros calm_intros assms)
  show "calm E (replay_completed E ev persisted)"
    unfolding replay_completed_def by (intro moves_intros calm_intros assms)
  show "calm E (resolveTumblrPostShare E N parsed)"
    unfolding resolveTumblrPostShare_def by (intro moves_intros calm_intros assms 1)
  show "calm E (downloadMatrixImage N msg ct)"
    unfolding downloadMatrixImage_def downloadMatrixMediaBounded_def
    by (intro moves_intros send_env_calm assms)
  show "calm E (completedOutboundReplay E msg ev)"
    unfolding completedOutboundReplay_def by (intro moves_intros calm_intros assms)
qed

lemma accounts_local [moves_intros]:
  "moves (accounts E) time_now" "moves (accounts E) the_send" "moves (accounts E) (update_send f)"
  "moves (accounts E) (emit OutboundWoken)"
  by (rule calm_accounts, intro moves_intros)+

lemma accounts_env [moves_intros]:
  assumes "foreign_env E"
  shows "moves (accounts E) (foreign (e_begin_owned E))" "moves (accounts E) (foreign (e_submission_lock E))"
    "moves (accounts E) (foreign (e_client E))" "moves (accounts E) (foreign (e_metadata E))"
    "moves (accounts E) (completedOutboundMapping E x room)"
    "moves (accounts E) (dropOutboundPending x' b)" "moves (accounts E) (outboundDatabaseMessage o' m)"
    "moves (accounts E) (deletePreparedOutbound E err)"
    "moves (accounts E) (lift_store (Outbound_LoadOrCreate (e_pke E) (e_bridge_id E) s now))"
  by (rule calm_accounts, intro moves_intros calm_intros store_calm assms)+

lemma sending_accounts:
  assumes env: "foreign_env E" "foreign_send N"
  shows "moves (accounts E) (handleMatrixMessage E N digest msg)"
proof -
  note calm = preparing_calm [OF env, THEN calm_accounts]
  have 1: "moves (accounts E) (send_prepared E N msg meta pending conv og send)" for meta pending conv og send
    unfolding send_prepared_def by (intro moves_intros calm reload_accounts env)
  have 2: "moves (accounts E) (load_and_send E N msg ev meta pending conv og send)" for ev meta pending conv og send
    unfolding load_and_send_def by (intro moves_intros calm 1 env)
  have 3: "moves (accounts E) (sendMatrixMessageToTumblr E N digest msg ev og)" for ev og
    unfolding sendMatrixMessageToTumblr_def by (intro moves_intros calm 2 env)
  have 4: "moves (accounts E) (handleMatrixTextMessage E N digest msg ev ct)" for ev ct
    unfolding handleMatrixTextMessage_def Let_def by (intro moves_intros calm 3)
  have 5: "moves (accounts E) (handleMatrixImageMessage E N digest msg ev ct)" for ev ct
    unfolding handleMatrixImageMessage_def by (intro moves_intros calm 3)
  have kinds: "moves R (case k of MsgText \<Rightarrow> a | MsgNotice \<Rightarrow> b | MsgImage \<Rightarrow> c | MsgSticker \<Rightarrow> d
      | MsgVideo \<Rightarrow> e | MsgOther \<Rightarrow> f)"
    if "moves R a" "moves R b" "moves R c" "moves R d" "moves R e" "moves R f"
    for R :: "world \<Rightarrow> world \<Rightarrow> bool" and k and a b c d e f :: "message_response act"
    using that by (cases k) auto
  show ?thesis
    unfolding handleMatrixMessage_def by (intro moves_intros calm 4 5 kinds env)
qed

lemma handler_accounted:
  assumes "foreign_env E" "foreign_send N" "accounted E w"
  shows "accounted E (snd (HandleMatrixMessage E N digest msg w))"
proof -
  have "snd (HandleMatrixMessage E N digest msg w) = snd (handleMatrixMessage E N digest msg w)"
    by (simp add: HandleMatrixMessage_def split: prod.split sum.split)
  then show ?thesis using accounts_accounted [OF sending_accounts [OF assms(1,2)] assms(3)] by simp
qed

end
