(* ===== verification/Conversations.thy ===== *)
theory Conversations
  imports TumblrRequests "HOL-Library.AList"
begin

text \<open>
  What the connector reads off remote conversations (pkg/connector/sync.go, startchat.go, avatar.go,
  config.go; pkg/tumblr/media.go and models.go): the identity of a blog, display names and titles,
  avatars, the room description, the order and the pages of messages, and the cursors between pages.
\<close>

section \<open>Answers of the remote service\<close>

record response_link =
  rl_Href :: string
  rl_Method :: string
  rl_QueryParams :: "string \<rightharpoonup> string"

record history_response =
  hr_Conversation :: "conversation option"
  hr_Messages :: "remote_message list"
  hr_Next :: "response_link option"

record list_response =
  lr_Conversations :: "conversation list"
  lr_Next :: "response_link option"

definition QueryParam :: "response_link \<Rightarrow> string \<Rightarrow> string" where
  "QueryParam l name = (case rl_QueryParams l name of Some v \<Rightarrow> trim_space v | None \<Rightarrow> [])"

text \<open>\<open>param\<close> parses a URL and returns a query parameter of it (net/url).\<close>

definition nextBeforeCursor ::
  "(string \<Rightarrow> string \<Rightarrow> go_error + string) \<Rightarrow> response_link option \<Rightarrow> go_error + string" where
  "nextBeforeCursor param nxt =
     (let missing = Inl (Plain ''tumblr next-page link is missing its before cursor'') in
      case nxt of
        None \<Rightarrow> Inr []
      | Some l \<Rightarrow>
          if QueryParam l ''before'' \<noteq> [] then Inr (QueryParam l ''before'')
          else if trim_space (rl_Href l) = [] then missing
          else case param (trim_space (rl_Href l)) ''before'' of
              Inl e \<Rightarrow> Inl (Wrapped ''invalid Tumblr next-page URL'' [e])
            | Inr before \<Rightarrow> if trim_space before \<noteq> [] then Inr (trim_space before) else missing)"

section \<open>Blogs and users\<close>

definition tumblrBlogNameID :: "http_env \<Rightarrow> string \<Rightarrow> string" where
  "tumblrBlogNameID H name =
     (let raw = trim_space name; normalized = NormalizeBlogName H raw in
      if raw = [] then []
      else if normalized = [] \<or> \<not> validRemoteID normalized then []
      else if trim_prefix ''@'' (to_lower raw) \<noteq> normalized then []
      else normalized)"

definition tumblrBlogUserID :: "http_env \<Rightarrow> blog \<Rightarrow> string" where
  "tumblrBlogUserID H b =
     (if validRemoteID (bl_UUID b) then bl_UUID b else tumblrBlogNameID H (bl_Name b))"

text \<open>Display names. \<open>tmpl\<close> runs the configured text template on a user name and a display name.\<close>

definition space_or_control :: "nat \<Rightarrow> bool" where
  "space_or_control r \<longleftrightarrow> is_space_rune r \<or> is_control_rune r"

definition maxDisplayNameRunes :: nat where "maxDisplayNameRunes = 100"
definition maxConversationTitleRunes :: nat where "maxConversationTitleRunes = 200"
definition displayNameTruncation :: string where "displayNameTruncation = ''...''"

definition truncated :: "nat \<Rightarrow> string \<Rightarrow> string" where
  "truncated n s =
     (if length (rune_list s) \<le> n then s else rune_string (take n (rune_list s)) @ displayNameTruncation)"

definition cleanDisplayName :: "string \<Rightarrow> string" where
  "cleanDisplayName v =
     (let normalized = join_with '' '' (FieldsFunc space_or_control v) in
      if normalized = [] then [] else truncated maxDisplayNameRunes normalized)"

definition fallbackDisplayname :: "string \<Rightarrow> string \<Rightarrow> string" where
  "fallbackDisplayname username displayName =
     (if cleanDisplayName displayName \<noteq> [] then cleanDisplayName displayName else cleanDisplayName username)"

definition FormatDisplayname :: "(string \<Rightarrow> string \<Rightarrow> string option) \<Rightarrow> string \<Rightarrow> string \<Rightarrow> string" where
  "FormatDisplayname tmpl username displayName =
     (let u = cleanDisplayName username; d = cleanDisplayName displayName in
      case tmpl u d of
        None \<Rightarrow> fallbackDisplayname u d
      | Some formatted \<Rightarrow>
          if cleanDisplayName formatted = [] then fallbackDisplayname u d else cleanDisplayName formatted)"

definition blogDisplayName ::
  "http_env \<Rightarrow> (string \<Rightarrow> string \<Rightarrow> string option) \<Rightarrow> blog \<Rightarrow> string" where
  "blogDisplayName H tmpl b = FormatDisplayname tmpl (tumblrBlogNameID H (bl_Name b)) (bl_Title b)"

definition truncateConversationTitle :: "string \<Rightarrow> string" where
  "truncateConversationTitle = truncated maxConversationTitleRunes"

definition cleanConversationTitle :: "string \<Rightarrow> string" where
  "cleanConversationTitle title = truncateConversationTitle (join_with '' '' (FieldsFunc space_or_control title))"

section \<open>Download addresses and avatars\<close>

definition canonical_label :: "string \<Rightarrow> bool" where
  "canonical_label l \<longleftrightarrow>
     l \<noteq> [] \<and> length l \<le> 63 \<and> hd l \<noteq> CHR ''-'' \<and> last l \<noteq> CHR ''-'' \<and>
     list_all (\<lambda>c. (CHR ''a'' \<le> c \<and> c \<le> CHR ''z'') \<or> (CHR ''0'' \<le> c \<and> c \<le> CHR ''9'') \<or> c = CHR ''-'') l"

definition isCanonicalASCIIDomain :: "string \<Rightarrow> bool" where
  "isCanonicalASCIIDomain host \<longleftrightarrow>
     host \<noteq> [] \<and> length host \<le> 253 \<and> \<not> has_suffix ''.'' host \<and> list_all (\<lambda>r. r \<le> 127) (rune_list host) \<and>
     list_all canonical_label (split_at (CHR ''.'') host)"

definition isTrustedTumblrDownloadHost :: "string \<Rightarrow> bool" where
  "isTrustedTumblrDownloadHost host \<longleftrightarrow> host = ''tumblr.com'' \<or> has_suffix ''.tumblr.com'' host"

definition isTrustedTumblrMediaHost :: "string \<Rightarrow> bool" where
  "isTrustedTumblrMediaHost host \<longleftrightarrow> host = ''media.tumblr.com'' \<or> has_suffix ''.media.tumblr.com'' host"

definition bad_download :: "string \<Rightarrow> go_error + 'a" where
  "bad_download msg = Inl (newMediaDownloadError MediaDownloadPermanent msg)"

definition normalizeDownloadURL :: "http_env \<Rightarrow> string \<Rightarrow> go_error + string" where
  "normalizeDownloadURL H rawURL =
     (case h_parse H (trim_space rawURL) of
        Inl _ \<Rightarrow> bad_download ''download URL is invalid''
      | Inr u \<Rightarrow>
          let host = to_lower (u_Hostname u) in
          if u_Opaque u \<noteq> [] then bad_download ''download URL is invalid''
          else if \<not> equal_fold (u_Scheme u) ''https'' then bad_download ''download URL must use https''
          else if u_Host u = [] then bad_download ''download URL host is missing''
          else if u_HasUser u then bad_download ''download URL user info is not allowed''
          else if u_Fragment u \<noteq> [] then bad_download ''download URL fragments are not allowed''
          else if u_Port u \<noteq> [] \<and> u_Port u \<noteq> ''443'' then bad_download ''download URL port is not allowed''
          else if \<not> isCanonicalASCIIDomain host then bad_download ''download URL host is invalid''
          else if \<not> isTrustedTumblrDownloadHost host then bad_download ''download URL host is not allowed''
          else Inr (h_url_string H (u\<lparr>u_Scheme := ''https'', u_Host := host\<rparr>)))"

definition IsDownloadURLAllowed :: "http_env \<Rightarrow> string \<Rightarrow> bool" where
  "IsDownloadURLAllowed H rawURL = (case normalizeDownloadURL H rawURL of Inl _ \<Rightarrow> False | Inr _ \<Rightarrow> True)"

text \<open>\<open>bestAvatarURL\<close>: areas are 64-bit products and may wrap.\<close>

definition asset_area :: "image_asset \<Rightarrow> 64 word" where
  "asset_area a = of_int (ia_Width a) * of_int (ia_Height a)"

fun best_avatar :: "http_env \<Rightarrow> string \<Rightarrow> int \<Rightarrow> image_asset list \<Rightarrow> string" where
  "best_avatar H bestURL bestArea [] = bestURL"
| "best_avatar H bestURL bestArea (a # assets) =
     (if IsDownloadURLAllowed H (ia_URL a) \<and> bestArea < sint (asset_area a)
      then best_avatar H (ia_URL a) (sint (asset_area a)) assets
      else best_avatar H bestURL bestArea assets)"

definition bestAvatarURL :: "http_env \<Rightarrow> image_asset list \<Rightarrow> string" where
  "bestAvatarURL H assets = best_avatar H [] (- 1) assets"

record avatar =
  av_ID :: string
  av_URL :: string

definition avatarIDForURL :: "env \<Rightarrow> string \<Rightarrow> string" where
  "avatarIDForURL E url = ''tumblr-avatar:'' @ hex_encode (e_sha E url)"

definition blogAvatar :: "env \<Rightarrow> http_env \<Rightarrow> blog \<Rightarrow> avatar option" where
  "blogAvatar E H b =
     (let url = bestAvatarURL H (bl_Avatar b) in
      if url = [] then None else Some \<lparr>av_ID = avatarIDForURL E url, av_URL = url\<rparr>)"

section \<open>Times and the order of messages\<close>

text \<open>\<open>time.Now()\<close> is never the zero time here, so that the fallbacks to it in
  \<open>messageSortTimestampWithReference\<close> are not taken.\<close>

definition nonZeroFallbackTime :: "gotime \<Rightarrow> gotime act" where
  "nonZeroFallbackTime fallback = (if is_zero fallback then time_now else ret fallback)"

definition messageTimestampWithFallback :: "remote_message \<Rightarrow> gotime \<Rightarrow> gotime act" where
  "messageTimestampWithFallback m fallback =
     andThen (nonZeroFallbackTime fallback) (\<lambda>f.
     ret (case saneTumblrTimestamp (rm_Timestamp m) f of Some ts \<Rightarrow> ts | None \<Rightarrow> f))"

definition messageSortTimestampWithReference :: "gotime \<Rightarrow> remote_message \<Rightarrow> gotime" where
  "messageSortTimestampWithReference reference m =
     (case saneTumblrTimestamp (rm_Timestamp m) reference of Some ts \<Rightarrow> ts | None \<Rightarrow> zero_time)"

definition sortedMessagesWithReference :: "remote_message list \<Rightarrow> gotime \<Rightarrow> remote_message list" where
  "sortedMessagesWithReference ms reference = sort_key (messageSortTimestampWithReference reference) ms"

definition sortedMessages :: "remote_message list \<Rightarrow> remote_message list act" where
  "sortedMessages ms = andThen time_now (\<lambda>now. ret (sortedMessagesWithReference ms now))"

section \<open>Pages of a conversation's history\<close>

definition conversationMessagesFromResponse :: "history_response \<Rightarrow> remote_message list" where
  "conversationMessagesFromResponse r =
     (if hr_Messages r \<noteq> [] then hr_Messages r
      else case hr_Conversation r of Some c \<Rightarrow> cv_Messages c | None \<Rightarrow> [])"

text \<open>Repeated identifiers are dropped; the pages are read from the oldest to the newest.\<close>

fun keep_new :: "string set \<Rightarrow> remote_message list \<Rightarrow> remote_message list" where
  "keep_new seen [] = []"
| "keep_new seen (m # ms) =
     (if validRemoteID (rm_ID m)
      then (if rm_ID m \<in> seen then keep_new seen ms else m # keep_new (insert (rm_ID m) seen) ms)
      else m # keep_new seen ms)"

definition aggregateConversationMessagePages :: "remote_message list list \<Rightarrow> remote_message list" where
  "aggregateConversationMessagePages pages = keep_new {} (concat (rev pages))"

definition newest_valid :: "remote_message list \<Rightarrow> string" where
  "newest_valid ordered =
     (case find (\<lambda>m. validRemoteID (rm_ID m)) (rev ordered) of Some m \<Rightarrow> rm_ID m | None \<Rightarrow> [])"

definition conversationPageHeadMessageID :: "remote_message list \<Rightarrow> string act" where
  "conversationPageHeadMessageID ms = andThen (sortedMessages ms) (\<lambda>ordered. ret (newest_valid ordered))"

definition conversationPageReachesTime :: "remote_message list \<Rightarrow> gotime \<Rightarrow> bool" where
  "conversationPageReachesTime ms cutoff \<longleftrightarrow>
     \<not> (is_zero cutoff \<or> unix_milli cutoff \<le> 0) \<and>
     list_ex (\<lambda>m. 0 < rm_Timestamp m \<and> \<not> cutoff < tumblrTimestamp (rm_Timestamp m)) ms"

definition conversationPageContainsMessageID :: "remote_message list \<Rightarrow> string \<Rightarrow> bool" where
  "conversationPageContainsMessageID ms i \<longleftrightarrow> i \<noteq> [] \<and> list_ex (\<lambda>m. rm_ID m = i) ms"

definition mergeConversationHistoryForSync :: "conversation \<Rightarrow> history_response \<Rightarrow> conversation" where
  "mergeConversationHistoryForSync listed r =
     (case hr_Conversation r of
        None \<Rightarrow> listed
      | Some c \<Rightarrow>
          \<lparr>cv_ID = (if cv_ID c = [] then cv_ID listed else cv_ID c),
           cv_Participants = (if cv_Participants c = [] then cv_Participants listed else cv_Participants c),
           cv_Messages = (if hr_Messages r \<noteq> [] then hr_Messages r
                          else if cv_Messages c = [] then cv_Messages listed else cv_Messages c),
           cv_LastReadTimestamp =
             (if cv_LastReadTimestamp c \<le> 0 then cv_LastReadTimestamp listed else cv_LastReadTimestamp c),
           cv_LastModifiedTimestamp =
             (if cv_LastModifiedTimestamp c \<le> 0 then cv_LastModifiedTimestamp listed
              else cv_LastModifiedTimestamp c)\<rparr>)"

section \<open>The room of a conversation\<close>

datatype room_type = DMRoom | GroupDMRoom

record user_info =
  ui_Name :: "string option"
  ui_Identifiers :: "string list"
  ui_Avatar :: "avatar option"

record chat_member =
  mb_IsFromMe :: bool
  mb_Sender :: string
  mb_UserInfo :: "user_info option"

record chat_info =
  ci_Type :: room_type
  ci_Members :: "(string \<times> chat_member) list"
  ci_OtherUserID :: string
  ci_Name :: "string option"
  ci_Avatar :: "avatar option"
  ci_ConversationID :: string
  ci_ParticipantHash :: string

definition blogUserInfo :: "env \<Rightarrow> http_env \<Rightarrow> (string \<Rightarrow> string \<Rightarrow> string option) \<Rightarrow> blog \<Rightarrow> user_info" where
  "blogUserInfo E H tmpl b =
     (let shown = blogDisplayName H tmpl b; name = tumblrBlogNameID H (bl_Name b) in
      \<lparr>ui_Name = (if shown \<noteq> [] then Some shown else None),
       ui_Identifiers = (if name \<noteq> [] then [''tumblr:'' @ name] else []),
       ui_Avatar = blogAvatar E H b\<rparr>)"

text \<open>Whether a user or a blog is the login itself: the metadata is read anew each time, and an
  unreadable one means no.\<close>

definition matches_login :: "env \<Rightarrow> string \<Rightarrow> bool act" where
  "matches_login E userID =
     attempt (foreign (e_metadata E)) (\<lambda>meta.
     ret (case meta of Inl _ \<Rightarrow> False | Inr m \<Rightarrow> tumblrUserIDMatchesLogin userID m))"

definition isSelfBlog :: "env \<Rightarrow> http_env \<Rightarrow> blog \<Rightarrow> bool act" where
  "isSelfBlog E H b = matches_login E (tumblrBlogUserID H b)"

definition participant_part :: "http_env \<Rightarrow> blog \<Rightarrow> string" where
  "participant_part H b =
     join_nul [trim_space (tumblrBlogUserID H b), tumblrBlogNameID H (bl_Name b), trim_space (bl_Title b),
       bestAvatarURL H (bl_Avatar b)]"

definition conversationParticipantHash :: "env \<Rightarrow> http_env \<Rightarrow> conversation \<Rightarrow> string" where
  "conversationParticipantHash E H c =
     (let parts = map (participant_part H)
            (filter (\<lambda>b. trim_space (tumblrBlogUserID H b) \<noteq> []) (cv_Participants c)) in
      if parts = [] then [] else hex_encode (take 16 (e_sha E (join_nul (sort parts)))))"

definition self_member :: chat_member where
  "self_member = \<lparr>mb_IsFromMe = True, mb_Sender = [], mb_UserInfo = None\<rparr>"

text \<open>The loop of \<open>chatMembersFromConversation\<close>: the members by their sender, and the first other
  user.\<close>

fun chat_members ::
  "env \<Rightarrow> http_env \<Rightarrow> (string \<Rightarrow> string \<Rightarrow> string option) \<Rightarrow> blog list \<Rightarrow> (string \<times> chat_member) list \<Rightarrow>
   string \<Rightarrow> ((string \<times> chat_member) list \<times> string) act" where
  "chat_members E H tmpl [] members other = ret (members, other)"
| "chat_members E H tmpl (b # bs) members other =
     (let userID = tumblrBlogUserID H b in
      if userID = [] then chat_members E H tmpl bs members other
      else andThen (isSelfBlog E H b) (\<lambda>isSelf.
        chat_members E H tmpl bs
          (if isSelf then AList.update [] self_member members
           else AList.update userID
             \<lparr>mb_IsFromMe = False, mb_Sender = userID, mb_UserInfo = Some (blogUserInfo E H tmpl b)\<rparr> members)
          (if \<not> isSelf \<and> other = [] then userID else other)))"

definition chatMembersFromConversation ::
  "env \<Rightarrow> http_env \<Rightarrow> (string \<Rightarrow> string \<Rightarrow> string option) \<Rightarrow> conversation \<Rightarrow>
   ((string \<times> chat_member) list \<times> string) act" where
  "chatMembersFromConversation E H tmpl c =
     andThen (chat_members E H tmpl (cv_Participants c) [([], self_member)] []) (\<lambda>(members, other).
     ret (members, if length members = 2 then other else []))"

fun other_participant :: "env \<Rightarrow> http_env \<Rightarrow> blog list \<Rightarrow> blog option act" where
  "other_participant E H [] = ret None"
| "other_participant E H (b # bs) =
     (if tumblrBlogUserID H b = [] then other_participant E H bs
      else andThen (isSelfBlog E H b) (\<lambda>isSelf.
        if isSelf then other_participant E H bs else ret (Some b)))"

fun display_names ::
  "env \<Rightarrow> http_env \<Rightarrow> (string \<Rightarrow> string \<Rightarrow> string option) \<Rightarrow> bool \<Rightarrow> blog list \<Rightarrow> string list act" where
  "display_names E H tmpl includeSelf [] = ret []"
| "display_names E H tmpl includeSelf (b # bs) =
     (if tumblrBlogUserID H b = [] then display_names E H tmpl includeSelf bs
      else andThen (if includeSelf then ret False else isSelfBlog E H b) (\<lambda>skip.
        andThen (display_names E H tmpl includeSelf bs) (\<lambda>names.
        ret (if skip \<or> blogDisplayName H tmpl b = [] then names else blogDisplayName H tmpl b # names))))"

definition conversationTitle ::
  "env \<Rightarrow> http_env \<Rightarrow> (string \<Rightarrow> string \<Rightarrow> string option) \<Rightarrow> conversation \<Rightarrow> string act" where
  "conversationTitle E H tmpl c =
     andThen (display_names E H tmpl False (cv_Participants c)) (\<lambda>names.
     andThen (if names = [] then display_names E H tmpl True (cv_Participants c) else ret names) (\<lambda>names.
     ret (cleanConversationTitle (join_with '', '' names))))"

definition validParticipantCount :: "http_env \<Rightarrow> conversation \<Rightarrow> nat" where
  "validParticipantCount H c = length (filter (\<lambda>b. tumblrBlogUserID H b \<noteq> []) (cv_Participants c))"

definition chatInfoFromConversation ::
  "env \<Rightarrow> http_env \<Rightarrow> (string \<Rightarrow> string \<Rightarrow> string option) \<Rightarrow> conversation \<Rightarrow> chat_info act" where
  "chatInfoFromConversation E H tmpl c =
     (let roomType = (if 2 < validParticipantCount H c then GroupDMRoom else DMRoom) in
      andThen (conversationTitle E H tmpl c) (\<lambda>name.
      andThen (chatMembersFromConversation E H tmpl c) (\<lambda>(members, otherUserID).
      andThen (if roomType = DMRoom then other_participant E H (cv_Participants c) else ret None) (\<lambda>other.
      ret \<lparr>ci_Type = roomType, ci_Members = members, ci_OtherUserID = otherUserID,
           ci_Name = (if name \<noteq> [] then Some name else None),
           ci_Avatar = (case other of Some b \<Rightarrow> blogAvatar E H b | None \<Rightarrow> None),
           ci_ConversationID = cv_ID c, ci_ParticipantHash = conversationParticipantHash E H c\<rparr>))))"

end
