(* ===== verification/InboundSync.thy ===== *)
theory InboundSync
  imports Conversations OutboundReconcile JobStore
begin

text \<open>
  Synchronising one conversation (pkg/connector/sync.go): fetching its history up to the completed
  boundary, what is new in it, the room it needs, and handing the messages to the framework.
  \<open>E\<close> is what the connector is wired to, \<open>I\<close> what the inbound code uses beyond that.
\<close>

section \<open>The surroundings\<close>

text \<open>The framework's answer to a queued event.\<close>

record event_result =
  er_Success :: bool
  er_Queued :: bool
  er_Error :: "go_error option"

text \<open>The Matrix server's answer: success, \<open>M_NOT_FOUND\<close>, or another error.\<close>

datatype matrix_answer = MatrixOk | MatrixNotFound | MatrixFailed go_error

record user_info_response =
  ur_UserName :: string
  ur_Blogs :: "blog list"

record block_page =
  bp_Blogs :: "blog list option"
  bp_Next :: "response_link option"

text \<open>The decoders of \<open>I\<close> read the JSON of an answer; \<open>i_query_param\<close> parses a URL and returns a query
  parameter, \<open>i_atoi\<close> is \<open>strconv.Atoi\<close>. \<open>i_background\<close> is the marker of a background context,
  \<open>i_limit\<close> the configured page size, \<open>i_template\<close> the template of display names. The rest are the
  framework's operations on portals, rooms and logins.\<close>

record inbound_env =
  i_http :: http_env
  i_history :: "string \<Rightarrow> go_error + history_response"
  i_list :: "string \<Rightarrow> go_error + list_response"
  i_user_info :: "string \<Rightarrow> go_error + user_info_response"
  i_blocks :: "string \<Rightarrow> go_error + block_page"
  i_query_param :: "string \<Rightarrow> string \<Rightarrow> go_error + string"
  i_atoi :: "string \<Rightarrow> int option"
  i_template :: "string \<Rightarrow> string \<Rightarrow> string option"
  i_limit :: int
  i_background :: bool
  i_logged_in :: "bool foreign"
  i_save_blog :: "blog \<Rightarrow> unit foreign"
  i_save_login :: "unit foreign"
  i_portal_create :: "portal_key \<Rightarrow> portal_object option foreign"
  i_user_portal :: "portal_key \<Rightarrow> unit foreign"
  i_user_portals :: "portal_key option list foreign"
  i_create_room :: "portal_object \<Rightarrow> chat_info \<Rightarrow> unit foreign"
  i_update_info :: "portal_object \<Rightarrow> chat_info \<Rightarrow> unit foreign"
  i_queue :: "remote_event \<Rightarrow> event_result foreign"
  i_members :: "string \<Rightarrow> matrix_answer foreign"
  i_delete_room :: "string \<Rightarrow> matrix_answer foreign"
  i_space_child :: "string \<Rightarrow> string \<Rightarrow> matrix_answer foreign"
  i_filtering_spaces :: bool
  i_space_room :: string
  i_room_is_dm :: "portal_object \<Rightarrow> bool"
  i_other_user :: "portal_object \<Rightarrow> string"
  i_block_pages :: nat

definition defaultConversationSyncLimit :: int where "defaultConversationSyncLimit = 50"

definition ConversationSyncBatchLimit :: "inbound_env \<Rightarrow> int" where
  "ConversationSyncBatchLimit I =
     (if i_limit I \<le> 0 then defaultConversationSyncLimit
      else if MaxRequestLimit < i_limit I then MaxRequestLimit else i_limit I)"

definition GetConversationBefore ::
  "inbound_env \<Rightarrow> string \<Rightarrow> string \<Rightarrow> int \<Rightarrow> string \<Rightarrow> history_response act" where
  "GetConversationBefore I name conversationID limit before =
     getConversationMessages (i_http I) (i_history I) name conversationID limit before"

definition list_conversations :: "inbound_env \<Rightarrow> string \<Rightarrow> int \<Rightarrow> string \<Rightarrow> list_response act" where
  "list_conversations I uuid limit before = ListConversationsBefore (i_http I) (i_list I) uuid limit before"

definition inbound_logged_in :: "inbound_env \<Rightarrow> unit act" where
  "inbound_logged_in I =
     andThen (foreign (i_logged_in I)) (\<lambda>yes. if yes then ret () else raise (Sentinel NotLoggedIn))"

definition requireLoggedInForContext :: "inbound_env \<Rightarrow> unit act" where
  "requireLoggedInForContext I =
     andThen (foreign (i_logged_in I)) (\<lambda>yes.
     if yes \<or> i_background I then ret () else raise (Sentinel NotLoggedIn))"

section \<open>A renamed blog\<close>

definition CurrentUser :: "inbound_env \<Rightarrow> user_info_response act" where
  "CurrentUser I =
     do_request (i_http I) ''GET'' ''/v2/user/info'' blog_fields_query NoBody (Decode (i_user_info I))"

definition normalizedMessagingBlog :: "http_env \<Rightarrow> blog \<Rightarrow> blog option" where
  "normalizedMessagingBlog H b =
     (let name = NormalizeBlogName H (bl_Name b) in
      if name = [] \<or> \<not> validRemoteID (bl_UUID b) then None else Some (b\<lparr>bl_Name := name\<rparr>))"

definition selectedBlogFromCurrentUser ::
  "http_env \<Rightarrow> user_info_response \<Rightarrow> login_metadata \<Rightarrow> go_error + blog" where
  "selectedBlogFromCurrentUser H info meta =
     (case find (\<lambda>b. bl_UUID b = lm_SelectedBlogUUID meta) (ur_Blogs info) of
        None \<Rightarrow> Inl (Plain ''selected tumblr blog is not available in the current account'')
      | Some b \<Rightarrow>
          if \<not> bl_CanMessage b \<or> bl_IsGroupChannel b then Inl (Sentinel BlogCannotMessage)
          else case normalizedMessagingBlog H b of
              None \<Rightarrow> Inl (Plain ''selected tumblr blog is missing name or uuid or has invalid identifiers'')
            | Some b' \<Rightarrow> Inr b')"

text \<open>\<open>applySelectedBlog\<close> and \<open>saveOwnedUserLogin\<close> write the login's metadata: \<open>i_save_blog\<close> and
  \<open>i_save_login\<close>.\<close>

definition refreshRenamedSelectedBlog :: "env \<Rightarrow> inbound_env \<Rightarrow> bool act" where
  "refreshRenamedSelectedBlog E I =
     attempt (CurrentUser I) (\<lambda>got.
     case got of
       Inl e \<Rightarrow> handleRemoteError e
     | Inr userInfo \<Rightarrow>
         andThen (foreign (e_metadata E)) (\<lambda>meta.
         andThen (of_result (selectedBlogFromCurrentUser (i_http I) userInfo meta)) (\<lambda>blog.
         if bl_Name blog = lm_SelectedBlogName meta then ret False
         else andThen (foreign (e_begin_owned E)) (\<lambda>owned.
           if \<not> owned then raise (Sentinel ClientRetired)
           else seq (foreign (i_save_blog I blog))
             (seq (wrapping ''failed to save renamed Tumblr blog'' (foreign (i_save_login I)))
             (ret True))))))"

section \<open>Fetching the history\<close>

definition maxConversationMessagePages :: nat where "maxConversationMessagePages = 1000"
definition conversationBoundaryTimeSlack :: duration where "conversationBoundaryTimeSlack = hour"

text \<open>What a scan looks for: the conversation as it was listed, whether the room exists and is
  caught up, the message the last completed synchronisation ended with, and when it was saved.\<close>

record history_goal =
  hg_listed :: conversation
  hg_catchUp :: bool
  hg_boundary :: string
  hg_boundaryAt :: gotime

definition reaches_boundary :: "history_goal \<Rightarrow> remote_message list \<Rightarrow> bool" where
  "reaches_boundary g ms \<longleftrightarrow>
     conversationPageContainsMessageID ms (hg_boundary g) \<or>
     (hg_boundary g \<noteq> [] \<and> conversationPageReachesTime ms (hg_boundaryAt g - conversationBoundaryTimeSlack))"

text \<open>The loop over the pages: \<open>n\<close> pages are left, \<open>before\<close> is the cursor, \<open>seen\<close> the cursors so far,
  \<open>pages\<close> the pages so far, \<open>start\<close> what the first page said. \<open>fetch\<close> asks for one page, \<open>cursor\<close> reads
  the link to the next.\<close>

fun history_loop ::
  "nat \<Rightarrow> (string \<Rightarrow> history_response act) \<Rightarrow> (response_link option \<Rightarrow> go_error + string) \<Rightarrow>
   history_goal \<Rightarrow> string \<Rightarrow> string set \<Rightarrow> remote_message list list \<Rightarrow> (conversation \<times> string) option \<Rightarrow>
   (conversation \<times> string) act" where
  "history_loop 0 fetch cursor g before seen pages start =
     fail ''tumblr conversation history exceeded 1000 pages''"
| "history_loop (Suc n) fetch cursor g before seen pages start =
     attempt (fetch before) (\<lambda>got.
     case got of
       Inl e \<Rightarrow>
         if pages \<noteq> [] \<and> IsNotFound e then fail ''tumblr conversation history page disappeared during sync''
         else raise e
     | Inr resp \<Rightarrow>
         (case history_error (cv_ID (hg_listed g)) (Some (hr_Conversation resp, hr_Messages resp)) of
            Some e \<Rightarrow> raise e
          | None \<Rightarrow>
              let pageMessages = conversationMessagesFromResponse resp; pages' = pages @ [pageMessages] in
              andThen (case start of
                         Some s \<Rightarrow> ret s
                       | None \<Rightarrow> andThen (conversationPageHeadMessageID pageMessages) (\<lambda>head.
                           ret (mergeConversationHistoryForSync (hg_listed g) resp, head)))
              (\<lambda>(conversation, head).
               let finished = ret (conversation\<lparr>cv_Messages := aggregateConversationMessagePages pages'\<rparr>, head) in
               if \<not> hg_catchUp g \<or> reaches_boundary g pageMessages then finished
               else case cursor (hr_Next resp) of
                   Inl e \<Rightarrow> raise e
                 | Inr c \<Rightarrow>
                     let nextBefore = trim_space c in
                     if nextBefore = [] then finished
                     else if nextBefore \<in> seen then fail ''tumblr conversation history cursor repeated''
                     else history_loop n fetch cursor g nextBefore (insert nextBefore seen) pages'
                            (Some (conversation, head)))))"

declare history_loop.simps [simp del]

definition fetchConversationForSync ::
  "env \<Rightarrow> inbound_env \<Rightarrow> string \<Rightarrow> conversation \<Rightarrow> int \<Rightarrow> (conversation \<times> string) act" where
  "fetchConversationForSync E I selectedBlogName listed limit =
     (if \<not> validRemoteID (cv_ID listed) then fail ''tumblr conversation ID is invalid''
      else
      andThen (wrapping ''failed to load Tumblr portal before conversation sync''
        (foreign (e_portal E (portalKey E (cv_ID listed))))) (\<lambda>portal.
      let catchUp = (case portal of Some p \<Rightarrow> pt_mxid p \<noteq> [] | None \<Rightarrow> False) in
      andThen (if catchUp
               then wrapping ''failed to load Tumblr conversation sync boundary''
                 (lift_store (ConversationSync_Get (e_bridge_id E) (e_login_id E) (cv_ID listed)))
               else ret None) (\<lambda>state.
      let (boundary, at) =
        (case state of
           Some s \<Rightarrow> if validRemoteID (cCompletedHeadMessageID s)
                     then (cCompletedHeadMessageID s, cUpdatedAt s) else ([], zero_time)
         | None \<Rightarrow> ([], zero_time)) in
      history_loop maxConversationMessagePages
        (GetConversationBefore I selectedBlogName (cv_ID listed) limit) (nextBeforeCursor (i_query_param I))
        \<lparr>hg_listed = listed, hg_catchUp = catchUp, hg_boundary = boundary, hg_boundaryAt = at\<rparr> [] {} [] None)))"

section \<open>What a client has seen\<close>

definition isMessageSeenLocked :: "string \<Rightarrow> string \<Rightarrow> caches \<Rightarrow> bool" where
  "isMessageSeenLocked key messageID c \<longleftrightarrow>
     key \<in> ca_SeenMessages c \<or> (key \<noteq> messageID \<and> messageID \<in> ca_SeenMessages c)"

definition later :: "(string \<rightharpoonup> int) \<Rightarrow> string \<Rightarrow> int \<Rightarrow> string \<rightharpoonup> int" where
  "later m k v = (if (case m k of Some x \<Rightarrow> x | None \<Rightarrow> 0) < v then m(k \<mapsto> v) else m)"

fun see_messages :: "string \<Rightarrow> remote_message list \<Rightarrow> caches \<Rightarrow> remote_message list \<times> caches" where
  "see_messages conversationID [] c = ([], c)"
| "see_messages conversationID (m # ms) c =
     (let key = seenMessageCacheKey conversationID (rm_ID m) in
      if \<not> validRemoteID (rm_ID m) \<or> isMessageSeenLocked key (rm_ID m) c then see_messages conversationID ms c
      else case see_messages conversationID ms (storeSeenMessageLocked key c) of
          (new, c') \<Rightarrow> (m # new, c'))"

definition see_conversation :: "conversation \<Rightarrow> caches \<Rightarrow> caches" where
  "see_conversation cv c =
     c\<lparr>ca_SeenConversations := insert (cv_ID cv) (ca_SeenConversations c),
       ca_SeenModified := later (ca_SeenModified c) (cv_ID cv) (cv_LastModifiedTimestamp cv)\<rparr>"

definition markConversationSeen :: "conversation \<Rightarrow> (bool \<times> remote_message list) act" where
  "markConversationSeen cv =
     (if \<not> validRemoteID (cv_ID cv) then ret (False, [])
      else andThen the_caches (\<lambda>c.
        andThen (sortedMessages (cv_Messages cv)) (\<lambda>ms.
        case see_messages (cv_ID cv) ms (see_conversation cv c) of
          (new, c') \<Rightarrow> seq (update_caches (\<lambda>_. c')) (ret (cv_ID cv \<notin> ca_SeenConversations c, new)))))"

definition readReceiptAlreadyBridged :: "conversation \<Rightarrow> bool act" where
  "readReceiptAlreadyBridged cv =
     andThen the_caches (\<lambda>c.
     ret (case ca_ReadBridged c (cv_ID cv) of Some t \<Rightarrow> cv_LastReadTimestamp cv \<le> t | None \<Rightarrow> False))"

definition markReadReceiptBridged :: "conversation \<Rightarrow> unit act" where
  "markReadReceiptBridged cv =
     update_caches (\<lambda>c. c\<lparr>ca_ReadBridged := later (ca_ReadBridged c) (cv_ID cv) (cv_LastReadTimestamp cv)\<rparr>)"

definition markConversationMessagesSeen :: "string \<Rightarrow> remote_message list \<Rightarrow> unit act" where
  "markConversationMessagesSeen conversationID ms =
     (if \<not> validRemoteID conversationID then ret ()
      else update_caches (fold (\<lambda>m. storeSeenMessageLocked (seenMessageCacheKey conversationID (rm_ID m)))
             (filter (\<lambda>m. validRemoteID (rm_ID m)) ms)))"

definition clearDeletedConversationSeenState :: "string \<Rightarrow> unit act" where
  "clearDeletedConversationSeenState conversationID =
     update_caches (\<lambda>c.
       let gone = (\<lambda>key. has_prefix (conversationID @ [char_of (0::nat)]) key) in
       c\<lparr>ca_SeenConversations := ca_SeenConversations c - {conversationID},
         ca_SeenModified := (ca_SeenModified c)(conversationID := None),
         ca_ReadBridged := (ca_ReadBridged c)(conversationID := None),
         ca_SeenMessages := ca_SeenMessages c - set (filter gone (ca_SeenOrder c)),
         ca_SeenOrder := filter (\<lambda>key. \<not> gone key) (ca_SeenOrder c)\<rparr>)"

section \<open>Events for the framework\<close>

definition unknownTumblrUserID :: string where "unknownTumblrUserID = ''unknown-tumblr-user''"

text \<open>The sender of a message, and whether it is the login.\<close>

definition senderFromMessage :: "env \<Rightarrow> http_env \<Rightarrow> remote_message \<Rightarrow> (string \<times> bool) act" where
  "senderFromMessage E H m =
     (case rm_Participant m of
        None \<Rightarrow> ret (unknownTumblrUserID, False)
      | Some p \<Rightarrow>
          if tumblrBlogUserID H p = [] then ret (unknownTumblrUserID, False)
          else andThen (matches_login E (tumblrBlogUserID H p)) (\<lambda>isFromMe.
            ret (tumblrBlogUserID H p, isFromMe)))"

definition loginEventSender :: "env \<Rightarrow> string act" where
  "loginEventSender E =
     attempt (foreign (e_metadata E)) (\<lambda>meta.
     ret (case meta of Inr m \<Rightarrow> lm_SelectedBlogUUID m | Inl _ \<Rightarrow> []))"

definition messageEventFromMessageWithTransaction ::
  "env \<Rightarrow> http_env \<Rightarrow> portal_key \<Rightarrow> remote_message \<Rightarrow> gotime \<Rightarrow> string \<Rightarrow> remote_event option act" where
  "messageEventFromMessageWithTransaction E H key m fallback transactionID =
     (if \<not> validRemoteID (rm_ID m) then ret None
      else andThen (senderFromMessage E H m) (\<lambda>(sender, isFromMe).
        andThen (messageTimestampWithFallback m fallback) (\<lambda>ts.
        ret (Some (MessageEvent key m sender isFromMe ts transactionID)))))"

definition readReceiptEventFromConversation ::
  "env \<Rightarrow> conversation \<Rightarrow> portal_key \<Rightarrow> gotime \<Rightarrow> remote_event option act" where
  "readReceiptEventFromConversation E cv key fallback =
     (if cv_LastReadTimestamp cv \<le> 0 then ret None
      else case saneTumblrTimestamp (cv_LastReadTimestamp cv) fallback of
          None \<Rightarrow> ret None
        | Some readAt \<Rightarrow> andThen (loginEventSender E) (\<lambda>sender. ret (Some (ReceiptEvent key sender readAt))))"

definition accepted :: "event_result \<Rightarrow> bool" where
  "accepted r \<longleftrightarrow> er_Success r \<and> \<not> er_Queued r"

definition remoteEventQueueError :: "event_result \<Rightarrow> string \<Rightarrow> unit act" where
  "remoteEventQueueError r description =
     (if accepted r then ret ()
      else case er_Error r of
          Some e \<Rightarrow> raise (Wrapped (description @ '' was not accepted'') [e])
        | None \<Rightarrow> fail (description @ '' was not accepted''))"

text \<open>\<open>queueRemoteEvent\<close>. An event the framework handled leaves a \<open>Delivered\<close> effect.\<close>

definition queueRemoteEvent :: "env \<Rightarrow> inbound_env \<Rightarrow> remote_event \<Rightarrow> event_result act" where
  "queueRemoteEvent E I ev =
     (let refused = \<lparr>er_Success = False, er_Queued = False,
        er_Error = Some (Plain ''tumblr remote event cannot be queued'')\<rparr> in
      attempt (foreign (e_begin_owned E)) (\<lambda>owned.
      if owned \<noteq> Inr True then ret refused
      else andThen (foreign (i_queue I ev)) (\<lambda>r.
        seq (if accepted r then emit (Delivered ev) else ret ()) (ret r))))"

definition ctx_guard :: "unit act" where
  "ctx_guard = andThen ctx_err (\<lambda>ended. case ended of Some e \<Rightarrow> raise e | None \<Rightarrow> ret ())"

fun queue_messages ::
  "env \<Rightarrow> inbound_env \<Rightarrow> portal_key \<Rightarrow> gotime \<Rightarrow> (string \<rightharpoonup> string) \<Rightarrow> remote_message list \<Rightarrow> unit act" where
  "queue_messages E I key fallback transactions [] = ret ()"
| "queue_messages E I key fallback transactions (m # ms) =
     seq ctx_guard
     (andThen (messageEventFromMessageWithTransaction E (i_http I) key m fallback
        (case transactions (rm_ID m) of Some x \<Rightarrow> x | None \<Rightarrow> [])) (\<lambda>ev.
      case ev of
        None \<Rightarrow> fail ''tumblr message has an invalid ID''
      | Some e \<Rightarrow>
          andThen (queueRemoteEvent E I e) (\<lambda>r.
          seq (remoteEventQueueError r ''tumblr message'')
          (queue_messages E I key fallback transactions ms))))"

definition queueConversationMessageChain ::
  "env \<Rightarrow> inbound_env \<Rightarrow> portal_key \<Rightarrow> remote_message list \<Rightarrow> remote_event option \<Rightarrow> gotime \<Rightarrow>
   (string \<rightharpoonup> string) \<Rightarrow> unit act" where
  "queueConversationMessageChain E I key ms readReceipt fallback transactions =
     seq (queue_messages E I key fallback transactions ms)
     (case readReceipt of
        None \<Rightarrow> ret ()
      | Some receipt \<Rightarrow>
          seq ctx_guard
          (andThen (queueRemoteEvent E I receipt) (\<lambda>r. remoteEventQueueError r ''tumblr read receipt'')))"

section \<open>Preparing a delivery\<close>

record conversation_delivery =
  cd_conversation :: conversation
  cd_portalKey :: portal_key
  cd_messages :: "remote_message list"
  cd_readReceipt :: "remote_event option"
  cd_fallbackTimestamp :: gotime
  cd_transactions :: "string \<rightharpoonup> string"
  cd_heldMessageCount :: nat
  cd_fetchedHeadMessageID :: string

fun missing_messages :: "env \<Rightarrow> portal_key \<Rightarrow> remote_message list \<Rightarrow> remote_message list act" where
  "missing_messages E key [] = ret []"
| "missing_messages E key (m # ms) =
     (if \<not> validRemoteID (rm_ID m) then missing_messages E key ms
      else andThen (wrapping ''failed to check if Tumblr message already exists''
          (foreign (e_message_by_id E (pk_receiver key) (rm_ID m)))) (\<lambda>existing.
        andThen (missing_messages E key ms) (\<lambda>missing.
        ret (if existing = None then m # missing else missing))))"

definition missingConversationMessages :: "env \<Rightarrow> portal_key \<Rightarrow> conversation \<Rightarrow> remote_message list act" where
  "missingConversationMessages E key cv =
     andThen (sortedMessages (cv_Messages cv)) (\<lambda>ms. missing_messages E key ms)"

definition messagesForConversationSync ::
  "env \<Rightarrow> portal_key \<Rightarrow> conversation \<Rightarrow> bool \<Rightarrow> bool \<Rightarrow> remote_message list \<Rightarrow> remote_message list act" where
  "messagesForConversationSync E key cv firstSeen forceChatResync newMessages =
     (if firstSeen \<or> forceChatResync then missingConversationMessages E key cv else ret newMessages)"

definition confirmTumblrPortalExists :: "env \<Rightarrow> portal_key \<Rightarrow> unit act" where
  "confirmTumblrPortalExists E key =
     andThen (wrapping ''failed to load persisted Tumblr portal'' (foreign (e_db_portal_by_key E key))) (\<lambda>persisted.
     andThen (wrapping ''failed to verify Tumblr portal cache'' (loadPortalWithPersistedParity E key persisted)) (\<lambda>portal.
     case portal of
       None \<Rightarrow> fail ''tumblr portal does not exist''
     | Some p \<Rightarrow> if pt_mxid p = [] then fail ''tumblr portal does not exist'' else ret ()))"

definition saveConversationMetadataIfChangedLocked ::
  "env \<Rightarrow> portal_object \<Rightarrow> conversation \<Rightarrow> string \<Rightarrow> (portal_object \<times> bool) act" where
  "saveConversationMetadataIfChangedLocked E p cv participantHash =
     (if participantHash = [] then ret (p, False)
      else case applyConversationPortalMetadata p (cv_ID cv) participantHash of
          (p', changed) \<Rightarrow>
            if \<not> changed then ret (p', False)
            else seq (wrapping ''failed to save Tumblr portal participant metadata'' (foreign (e_portal_save E p')))
              (ret (p', True)))"

text \<open>The room of the conversation: the portal is loaded or created, its metadata saved, and the
  room created or updated.\<close>

definition sync_room ::
  "env \<Rightarrow> inbound_env \<Rightarrow> portal_key \<Rightarrow> conversation \<Rightarrow> bool \<Rightarrow> portal_object \<Rightarrow> unit act" where
  "sync_room E I key cv forceResync p =
     seq (wrapping ''failed to restore Tumblr login portal before chat sync'' (foreign (i_user_portal I key)))
     (andThen (saveConversationMetadataIfChangedLocked E p cv (conversationParticipantHash E (i_http I) cv))
       (\<lambda>(p, metadataChanged).
        if pt_mxid p = []
        then andThen (chatInfoFromConversation E (i_http I) (i_template I) cv) (\<lambda>info.
             seq (wrapping ''failed to create Tumblr conversation room'' (foreign (i_create_room I p info)))
             (confirmTumblrPortalExists E key))
        else if \<not> forceResync \<and> \<not> metadataChanged then ret ()
        else andThen (chatInfoFromConversation E (i_http I) (i_template I) cv) (\<lambda>info.
             attempt (foreign (i_update_info I p info)) (\<lambda>_.
             seq (wrapping ''timed out updating Tumblr conversation room'' ctx_guard)
             (seq (wrapping ''failed to save updated Tumblr conversation room'' (foreign (e_portal_save E p)))
             (confirmTumblrPortalExists E key))))))"

definition ensureConversationPortalForSync ::
  "env \<Rightarrow> inbound_env \<Rightarrow> portal_key \<Rightarrow> conversation \<Rightarrow> bool \<Rightarrow> unit act" where
  "ensureConversationPortalForSync E I key cv forceResync =
     seq (foreign (e_portal_lock E))
     (andThen (wrapping ''failed to load persisted Tumblr portal before chat sync''
        (foreign (e_db_portal_by_key E key))) (\<lambda>persisted.
      andThen (wrapping ''failed to verify Tumblr portal cache before chat sync''
        (loadPortalWithPersistedParity E key persisted)) (\<lambda>portal.
      andThen (case portal of
                 Some p \<Rightarrow> ret (Some p)
               | None \<Rightarrow> wrapping ''failed to create Tumblr portal before chat sync''
                   (foreign (i_portal_create I key))) (\<lambda>portal.
      case portal of
        None \<Rightarrow> fail ''tumblr portal is unavailable before chat sync''
      | Some p \<Rightarrow>
          if pt_key p \<noteq> key then fail ''tumblr portal is unavailable before chat sync''
          else sync_room E I key cv forceResync p))))"

definition prepareConversationDelivery ::
  "env \<Rightarrow> inbound_env \<Rightarrow> conversation \<Rightarrow> bool \<Rightarrow> string \<Rightarrow> conversation_delivery act" where
  "prepareConversationDelivery E I cv forceChatResync fetchedHeadMessageID =
     (if \<not> validRemoteID (cv_ID cv) then fail ''tumblr conversation ID is invalid''
      else
      andThen (wrapping ''failed to reconcile Tumblr outbound messages'' (reconcileOutboundConversation E cv))
        (\<lambda>(reconciliation, cv).
      andThen (markConversationSeen cv) (\<lambda>(firstSeen, newMessages).
      let key = portalKey E (cv_ID cv) in
      andThen time_now (\<lambda>fallbackTimestamp.
      andThen (messagesForConversationSync E key cv firstSeen forceChatResync newMessages) (\<lambda>messages.
      andThen (readReceiptAlreadyBridged cv) (\<lambda>bridged.
      andThen (if bridged then ret None else readReceiptEventFromConversation E cv key fallbackTimestamp)
        (\<lambda>readReceipt.
      seq (ensureConversationPortalForSync E I key cv (forceChatResync \<or> firstSeen))
      (ret \<lparr>cd_conversation = cv, cd_portalKey = key, cd_messages = messages, cd_readReceipt = readReceipt,
            cd_fallbackTimestamp = fallbackTimestamp, cd_transactions = rr_transactions reconciliation,
            cd_heldMessageCount = card (rr_heldMessageIDs reconciliation),
            cd_fetchedHeadMessageID = fetchedHeadMessageID\<rparr>))))))))"

section \<open>Delivering and committing\<close>

definition deliverConversation :: "env \<Rightarrow> inbound_env \<Rightarrow> conversation_delivery \<Rightarrow> unit act" where
  "deliverConversation E I d =
     seq (queueConversationMessageChain E I (cd_portalKey d) (cd_messages d) (cd_readReceipt d)
           (cd_fallbackTimestamp d) (cd_transactions d))
     (seq (if cd_readReceipt d \<noteq> None then markReadReceiptBridged (cd_conversation d) else ret ())
     (if 0 < cd_heldMessageCount d then raise (Deferred (cd_heldMessageCount d)) else ret ()))"

definition commitConversationDelivery :: "env \<Rightarrow> conversation_delivery \<Rightarrow> unit act" where
  "commitConversationDelivery E d =
     andThen (wrapping ''failed to reload Tumblr conversation sync job''
       (lift_store (Jobs_Get (e_bridge_id E) (e_login_id E) (cv_ID (cd_conversation d))))) (\<lambda>job.
     if (case job of Some j \<Rightarrow> jDeleteRoomID j \<noteq> [] | None \<Rightarrow> False) then raise (Sentinel JobSuperseded)
     else andThen (wrapping ''failed to load Tumblr portal before saving sync boundary''
         (foreign (e_db_portal_by_key E (cd_portalKey d)))) (\<lambda>portal.
       if portal = None then raise (Sentinel JobSuperseded)
       else if cd_fetchedHeadMessageID d = [] then ret ()
       else if \<not> validRemoteID (cd_fetchedHeadMessageID d)
       then fail ''tumblr conversation sync boundary is invalid''
       else andThen time_now (\<lambda>now.
         wrapping ''failed to save Tumblr conversation sync boundary''
           (lift_store (ConversationSync_SetCompletedHead (e_bridge_id E) (e_login_id E)
             (cv_ID (cd_conversation d)) (cd_fetchedHeadMessageID d) now)))))"

end
