(* ===== verification/ConversationDelete.thy ===== *)
theory ConversationDelete
  imports InboundSync OutboundSending
begin

text \<open>
  Deleting the room of a conversation that is gone (pkg/connector/conversation_delete.go, delete.go,
  blocks.go; pkg/tumblr/blocks.go): a direct probe, the walk of the conversation list, the check for
  a block, the durable intent in the job, the removal of the portal and of the Matrix room.
  A request to delete a room leaves a \<open>RoomRemoved\<close> effect. The background refresh of a room's block
  state (\<open>resyncDMBlock\<close>) runs on its own and is not part of these operations.
\<close>

section \<open>Blocks\<close>

definition blog_uuid_char :: "char \<Rightarrow> bool" where
  "blog_uuid_char c \<longleftrightarrow>
     (CHR ''A'' \<le> c \<and> c \<le> CHR ''Z'') \<or> (CHR ''a'' \<le> c \<and> c \<le> CHR ''z'') \<or>
     (CHR ''0'' \<le> c \<and> c \<le> CHR ''9'') \<or> c = CHR ''_'' \<or> c = CHR ''-''"

text \<open>The pattern \<open>^t:[A-Za-z0-9_-]+$\<close>.\<close>

definition IsBlogUUID :: "string \<Rightarrow> bool" where
  "IsBlogUUID v \<longleftrightarrow> has_prefix ''t:'' v \<and> drop 2 v \<noteq> [] \<and> list_all blog_uuid_char (drop 2 v)"

definition SetBlogBlocked :: "http_env \<Rightarrow> string \<Rightarrow> string \<Rightarrow> bool \<Rightarrow> unit act" where
  "SetBlogBlocked H owner peer blocked =
     (if \<not> IsBlogUUID owner \<or> \<not> IsBlogUUID peer \<or> owner = peer
      then fail ''invalid Tumblr block owner or target''
      else do_request H (if blocked then ''POST'' else ''DELETE'') (''/v2/blog/'' @ owner @ ''/blocks'') []
        (FieldsBody [(''blocked_tumblelog'', peer)]) (Discard ()))"

fun collect_blogs :: "string \<Rightarrow> string set \<Rightarrow> blog list \<Rightarrow> string set \<times> blog list" where
  "collect_blogs owner seen [] = (seen, [])"
| "collect_blogs owner seen (b # bs) =
     (if \<not> IsBlogUUID (bl_UUID b) \<or> bl_UUID b = owner \<or> bl_UUID b \<in> seen then collect_blogs owner seen bs
      else case collect_blogs owner (insert (bl_UUID b) seen) bs of (s, ys) \<Rightarrow> (s, b # ys))"

text \<open>Where the next page starts: \<open>None\<close> when this page was the last.\<close>

definition next_offset :: "inbound_env \<Rightarrow> int \<Rightarrow> nat \<Rightarrow> response_link option \<Rightarrow> go_error + int option" where
  "next_offset I offset n link =
     (let stuck = Inl (Plain ''tumblr block list continuation did not advance'') in
      case link of
        Some l \<Rightarrow>
          if rl_Method l \<noteq> [] \<and> rl_Method l \<noteq> ''GET''
          then Inl (Plain ''invalid Tumblr block list continuation method'')
          else (case (if QueryParam l ''offset'' \<noteq> [] then Inr (QueryParam l ''offset'')
                      else i_query_param I (rl_Href l) ''offset'') of
                  Inl e \<Rightarrow> Inl (Plain ''invalid Tumblr block list continuation'')
                | Inr v \<Rightarrow>
                    (case i_atoi I v of
                       None \<Rightarrow> stuck
                     | Some k \<Rightarrow> if k \<le> offset then stuck else Inr (Some k)))
      | None \<Rightarrow> if n < 20 then Inr None else Inr (Some (offset + int n)))"

definition maxBlockListEmptyPages :: nat where "maxBlockListEmptyPages = 5"

text \<open>The pages of the list of blocked blogs; the first argument bounds their number, which the
  code leaves to the service.\<close>

fun block_pages ::
  "nat \<Rightarrow> inbound_env \<Rightarrow> string \<Rightarrow> int \<Rightarrow> nat \<Rightarrow> string set \<Rightarrow> blog list \<Rightarrow> blog list act" where
  "block_pages 0 I owner offset emptyPages seen blogs = fail ''out of fuel''"
| "block_pages (Suc n) I owner offset emptyPages seen blogs =
     andThen (do_request (i_http I) ''GET'' (''/v2/blog/'' @ owner @ ''/blocks'')
       [(''limit'', ''20''), (''offset'', decimal_int offset)] NoBody (Decode (i_blocks I))) (\<lambda>page.
     case bp_Blogs page of
       None \<Rightarrow> fail ''invalid Tumblr block list''
     | Some bs \<Rightarrow>
         let (seen', new) = collect_blogs owner seen bs;
             empty' = (if bs = [] then Suc emptyPages else 0) in
         if 20 \<le> length bs \<and> new = [] then fail ''tumblr block list pagination made no progress''
         else if maxBlockListEmptyPages < empty' then fail ''tumblr block list returned too many empty pages''
         else andThen (of_result (next_offset I offset (length bs) (bp_Next page))) (\<lambda>nxt.
           case nxt of
             None \<Rightarrow> ret (blogs @ new)
           | Some k \<Rightarrow> seq pause (block_pages n I owner k empty' seen' (blogs @ new))))"

definition ListBlockedBlogs :: "inbound_env \<Rightarrow> string \<Rightarrow> blog list act" where
  "ListBlockedBlogs I owner =
     (if \<not> IsBlogUUID owner then fail ''invalid Tumblr block list owner UUID''
      else block_pages (i_block_pages I) I owner 0 0 {} [])"

definition blockTarget :: "env \<Rightarrow> inbound_env \<Rightarrow> portal_object option \<Rightarrow> (string \<times> string) act" where
  "blockTarget E I portal =
     andThen (foreign (e_metadata E)) (\<lambda>meta.
     case portal of
       None \<Rightarrow> raise (Sentinel NonDMBlockUser)
     | Some p \<Rightarrow>
         if \<not> IsBlogUUID (lm_SelectedBlogUUID meta) \<or> e_login_id E \<noteq> lm_SelectedBlogUUID meta \<or>
            \<not> i_room_is_dm I p \<or> pt_key p \<noteq> portalKey E (pk_id (pt_key p)) \<or>
            isPendingDMPortalID (pk_id (pt_key p)) \<or> \<not> IsBlogUUID (i_other_user I p) \<or>
            tumblrUserIDMatchesLogin (i_other_user I p) meta
         then raise (Sentinel NonDMBlockUser)
         else ret (lm_SelectedBlogUUID meta, i_other_user I p))"

text \<open>The request of a user to block or unblock the other user of a room; \<open>plain\<close> says that it is
  neither malformed nor a spam report.\<close>

definition HandleMatrixBlockUser :: "env \<Rightarrow> inbound_env \<Rightarrow> bool \<Rightarrow> portal_object option \<Rightarrow> bool \<Rightarrow> unit act" where
  "HandleMatrixBlockUser E I plain portal block =
     andThen (foreign (e_begin_owned E)) (\<lambda>owned.
     if \<not> owned then raise (Sentinel ClientRetired)
     else seq (inbound_logged_in I)
     (if \<not> plain then fail ''invalid Tumblr block request or unsupported spam report''
      else andThen (blockTarget E I portal) (\<lambda>(owner, peer).
        if (case portal of Some p \<Rightarrow> pt_mxid p = [] | None \<Rightarrow> True) then raise (Sentinel NonDMBlockUser)
        else seq (foreign (e_client E))
        (seq (foreign (e_submission_lock E))
        (attempt (SetBlogBlocked (i_http I) owner peer block) (\<lambda>done.
         case done of
           Inl e \<Rightarrow> handleRemoteError e
         | Inr _ \<Rightarrow>
             if block then ret ()
             else andThen time_now (\<lambda>now.
               seq (lift_store (Jobs_PutLiveConversation (e_bridge_id E) (e_login_id E)
                     (case portal of Some p \<Rightarrow> pk_id (pt_key p) | None \<Rightarrow> []) now))
               (emit InboundWoken))))))))"

section \<open>The conversation list\<close>

definition maxConversationListPages :: nat where "maxConversationListPages = 1000"
definition tumblrDeletionReconciliationInterval :: duration where
  "tumblrDeletionReconciliationInterval = 5 * minute"

definition rememberListedConversations :: "string set \<Rightarrow> gotime \<Rightarrow> unit act" where
  "rememberListedConversations ids walkStartedAt =
     update_caches (\<lambda>c. c\<lparr>ca_Listed := Some (ids, walkStartedAt), ca_MissingQueued := Map.empty\<rparr>)"

definition rememberQueuedMissingConversations ::
  "gotime \<Rightarrow> (string \<rightharpoonup> int \<times> gotime) \<Rightarrow> unit act" where
  "rememberQueuedMissingConversations walkStartedAt queued =
     update_caches (\<lambda>c.
       if (case ca_Listed c of Some (_, at) \<Rightarrow> at = walkStartedAt | None \<Rightarrow> is_zero walkStartedAt)
       then c\<lparr>ca_MissingQueued := queued\<rparr> else c)"

text \<open>Whether a recent walk of the list answers for the job; \<open>None\<close>: it does not.\<close>

definition recent_listed :: "caches \<Rightarrow> gotime \<Rightarrow> conversation_job \<Rightarrow> bool option" where
  "recent_listed c now job =
     (case ca_Listed c of
        None \<Rightarrow> None
      | Some (ids, at) \<Rightarrow>
          if tumblrDeletionReconciliationInterval < now - at then None
          else if jConversationID job \<in> ids then Some True
          else if jUpdatedAt job < at then Some False
          else (case ca_MissingQueued c (jConversationID job) of
                  Some (revision, createdAt) \<Rightarrow>
                    if revision = jRevision job \<and> createdAt = jCreatedAt job then Some False else None
                | None \<Rightarrow> None))"

definition recentListedConversation :: "conversation_job \<Rightarrow> bool option act" where
  "recentListedConversation job =
     andThen the_caches (\<lambda>c. andThen time_now (\<lambda>now. ret (recent_listed c now job)))"

text \<open>The walk: \<open>n\<close> pages are left.\<close>

fun listed_loop ::
  "nat \<Rightarrow> env \<Rightarrow> inbound_env \<Rightarrow> string \<Rightarrow> string \<Rightarrow> gotime \<Rightarrow> string \<Rightarrow> string set \<Rightarrow> string set \<Rightarrow> bool act" where
  "listed_loop 0 E I uuid conversationID startedAt before seen ids =
     fail ''tumblr conversation list exceeded 1000 pages''"
| "listed_loop (Suc n) E I uuid conversationID startedAt before seen ids =
     attempt (list_conversations I uuid (ConversationSyncBatchLimit I) before) (\<lambda>got.
     case got of
       Inl e \<Rightarrow> handleRemoteError e
     | Inr resp \<Rightarrow>
         if list_ex (\<lambda>c. cv_ID c = conversationID) (lr_Conversations resp) then ret True
         else let ids' = ids \<union> set (filter validRemoteID (map cv_ID (lr_Conversations resp))) in
           andThen (of_result (nextBeforeCursor (i_query_param I) (lr_Next resp))) (\<lambda>c.
           let nextBefore = trim_space c in
           if nextBefore = [] then seq (rememberListedConversations ids' startedAt) (ret False)
           else if nextBefore \<in> seen then fail ''tumblr conversation list cursor repeated''
           else listed_loop n E I uuid conversationID startedAt nextBefore (insert nextBefore seen) ids'))"

definition conversationStillListed :: "env \<Rightarrow> inbound_env \<Rightarrow> string \<Rightarrow> conversation_job \<Rightarrow> bool act" where
  "conversationStillListed E I uuid job =
     andThen (recentListedConversation job) (\<lambda>recent.
     case recent of
       Some listed \<Rightarrow> ret listed
     | None \<Rightarrow> andThen time_now (\<lambda>startedAt.
         listed_loop maxConversationListPages E I uuid (jConversationID job) startedAt [] {} {}))"

section \<open>Removing the Matrix room\<close>

definition ensureTumblrMatrixRoomDeleted :: "inbound_env \<Rightarrow> string \<Rightarrow> unit act" where
  "ensureTumblrMatrixRoomDeleted I roomID =
     (if roomID = [] then ret ()
      else andThen (foreign (i_members I roomID)) (\<lambda>probe.
        if probe = MatrixNotFound then ret ()
        else seq (emit (RoomRemoved roomID))
          (andThen (foreign (i_delete_room I roomID)) (\<lambda>deleted.
           case deleted of
             MatrixFailed e \<Rightarrow>
               (let failed = Wrapped ''failed to retry deleted Tumblr Matrix room cleanup'' [e] in
                case probe of
                  MatrixFailed p \<Rightarrow> raise (join_errors
                    (Wrapped ''failed to confirm deleted Tumblr Matrix room'' [p]) failed)
                | _ \<Rightarrow> raise failed)
           | _ \<Rightarrow> ret ()))))"

definition ensureTumblrFilteringSpaceChildRemoved :: "inbound_env \<Rightarrow> string \<Rightarrow> unit act" where
  "ensureTumblrFilteringSpaceChildRemoved I roomID =
     (if roomID = [] \<or> \<not> i_filtering_spaces I \<or> i_space_room I = [] then ret ()
      else andThen (foreign (i_space_child I (i_space_room I) roomID)) (\<lambda>r.
        case r of
          MatrixFailed e \<Rightarrow>
            raise (Wrapped ''failed to remove deleted Tumblr room from its filtering space'' [e])
        | _ \<Rightarrow> ret ()))"

definition finishTumblrConversationDelete :: "env \<Rightarrow> inbound_env \<Rightarrow> portal_key \<Rightarrow> string \<Rightarrow> unit act" where
  "finishTumblrConversationDelete E I key roomID =
     andThen (wrapping ''failed to load persisted deleted Tumblr portal'' (foreign (e_db_portal_by_key E key))) (\<lambda>persisted.
     andThen (wrapping ''failed to verify deleted Tumblr portal cache'' (loadPortalWithPersistedParity E key persisted)) (\<lambda>portal.
     if portal \<noteq> None then fail ''deleted Tumblr portal still exists after cleanup''
     else if roomID = [] then ret ()
     else seq (ensureTumblrMatrixRoomDeleted I roomID) (ensureTumblrFilteringSpaceChildRemoved I roomID)))"

definition saved_delete_room :: "env \<Rightarrow> string \<Rightarrow> int \<Rightarrow> string act" where
  "saved_delete_room E conversationID expectedRevision =
     andThen (wrapping ''failed to load deleted Tumblr room cleanup''
       (lift_store (Jobs_Get (e_bridge_id E) (e_login_id E) conversationID))) (\<lambda>job.
     case job of
       None \<Rightarrow> raise (Sentinel JobSuperseded)
     | Some j \<Rightarrow>
         if jRevision j \<noteq> expectedRevision then raise (Sentinel JobSuperseded) else ret (jDeleteRoomID j))"

definition deletedConversationRoomID ::
  "env \<Rightarrow> string \<Rightarrow> int \<Rightarrow> portal_object option \<Rightarrow> string act" where
  "deletedConversationRoomID E conversationID expectedRevision portal =
     (let room = (case portal of Some p \<Rightarrow> pt_mxid p | None \<Rightarrow> []) in
      if room = [] then saved_delete_room E conversationID expectedRevision
      else andThen time_now (\<lambda>now.
        andThen (wrapping ''failed to persist deleted Tumblr room cleanup''
          (lift_store (Jobs_SetDeleteRoom (e_bridge_id E) (e_login_id E) conversationID expectedRevision room now)))
        (\<lambda>changed. if \<not> changed then raise (Sentinel JobSuperseded) else ret room)))"

section \<open>Deleting\<close>

text \<open>The answer of the block list for the target it was asked about (\<open>conversationBlockCheck\<close>).\<close>

record block_check =
  bc_owner :: string
  bc_peer :: string
  bc_roomID :: string
  bc_blocked :: bool
  bc_err :: "go_error option"

definition maxBlockCheckAttempts :: int where "maxBlockCheckAttempts = 3"

definition put_live :: "env \<Rightarrow> string \<Rightarrow> unit act" where
  "put_live E conversationID =
     andThen time_now (\<lambda>now.
     lift_store (Jobs_PutLiveConversation (e_bridge_id E) (e_login_id E) conversationID now))"

text \<open>\<open>handleRemoteConversationDelete\<close> from its parts. A conversation that is still listed keeps its
  room, and is fetched again when the blog was renamed.\<close>

definition keep_listed :: "env \<Rightarrow> inbound_env \<Rightarrow> string \<Rightarrow> unit act" where
  "keep_listed E I conversationID =
     andThen (wrapping ''failed to check Tumblr blog name after a listed conversation returned not found''
       (refreshRenamedSelectedBlog E I)) (\<lambda>renamed.
     if renamed
     then seq (wrapping ''failed to requeue Tumblr conversation after blog rename'' (put_live E conversationID))
            (emit InboundWoken)
     else ret ())"

text \<open>Whether the block list allows the removal: a direct conversation with a blocked user keeps its
  room.\<close>

definition block_allows ::
  "env \<Rightarrow> inbound_env \<Rightarrow> block_check option \<Rightarrow> conversation_job \<Rightarrow> portal_object option \<Rightarrow> bool act" where
  "block_allows E I check job portal =
     attempt (blockTarget E I portal) (\<lambda>target.
     let room = (case portal of Some p \<Rightarrow> pt_mxid p | None \<Rightarrow> []) in
     case target of
       Inl _ \<Rightarrow>
         if check \<noteq> None then fail ''tumblr deletion target became ineligible during block check'' else ret True
     | Inr (owner, peer) \<Rightarrow>
         if room = []
         then (if check \<noteq> None then fail ''tumblr deletion target became ineligible during block check''
               else ret True)
         else (case check of
                 None \<Rightarrow> seq (emit InboundWoken) (raise (BlockCheck owner peer room))
               | Some k \<Rightarrow>
                   if bc_owner k \<noteq> owner \<or> bc_peer k \<noteq> peer \<or> bc_roomID k \<noteq> room
                   then fail ''tumblr deletion target changed during block check''
                   else (case bc_err k of
                           Some e \<Rightarrow>
                             if maxBlockCheckAttempts \<le> jAttemptCount job then ret False
                             else raise (Wrapped ''failed to check Tumblr blocks before conversation deletion'' [e])
                         | None \<Rightarrow> ret (\<not> bc_blocked k))))"

text \<open>Whether a conversation that a direct probe did not find is removed; a durable intent needs no
  further evidence.\<close>

definition removal_confirmed ::
  "env \<Rightarrow> inbound_env \<Rightarrow> block_check option \<Rightarrow> string \<Rightarrow> conversation_job \<Rightarrow> string \<Rightarrow> bool act" where
  "removal_confirmed E I check conversationID job uuid =
     (if jDeleteRoomID job \<noteq> [] then ret True
      else andThen (wrapping ''failed to check Tumblr conversation list before deletion''
          (conversationStillListed E I uuid job)) (\<lambda>listed.
        if listed then seq (keep_listed E I conversationID) (ret False)
        else andThen (foreign (e_portal E (portalKey E conversationID))) (\<lambda>portal.
          block_allows E I check job portal)))"

definition remove_portal :: "env \<Rightarrow> string \<Rightarrow> int \<Rightarrow> string act" where
  "remove_portal E conversationID expectedRevision =
     (let key = portalKey E conversationID in
      seq (foreign (e_portal_lock E))
      (andThen (wrapping ''failed to load persisted deleted Tumblr conversation''
         (foreign (e_db_portal_by_key E key))) (\<lambda>persisted.
       andThen (wrapping ''failed to verify deleted Tumblr portal cache''
         (loadPortalWithPersistedParity E key persisted)) (\<lambda>portal.
       andThen (deletedConversationRoomID E conversationID expectedRevision portal) (\<lambda>room.
       case portal of
         None \<Rightarrow> ret room
       | Some p \<Rightarrow>
           if pk_receiver (pt_key p) = [] \<or> pk_receiver (pt_key p) \<noteq> e_login_id E
           then fail ''deleted Tumblr portal is not owned by this login''
           else seq (wrapping ''failed to remove deleted Tumblr portal'' (foreign (e_portal_delete E p)))
                (ret room))))))"

definition remove_conversation :: "env \<Rightarrow> inbound_env \<Rightarrow> string \<Rightarrow> int \<Rightarrow> unit act" where
  "remove_conversation E I conversationID expectedRevision =
     seq (wrapping ''failed to cancel outbound sends for deleted Tumblr conversation''
           (Worker_terminalizeOutboundConversation E conversationID))
     (andThen (remove_portal E conversationID expectedRevision) (\<lambda>room.
      seq (finishTumblrConversationDelete E I (portalKey E conversationID) room)
      (seq (wrapping ''failed to finish cancelling outbound sends for deleted Tumblr conversation''
             (Worker_terminalizeOutboundConversation E conversationID))
      (seq (wrapping ''failed to clear deleted Tumblr conversation sync state''
             (lift_store (ConversationSync_Delete (e_bridge_id E) (e_login_id E) conversationID)))
      (clearDeletedConversationSeenState conversationID)))))"

definition cancel_deletion :: "env \<Rightarrow> string \<Rightarrow> history_response \<Rightarrow> unit act" where
  "cancel_deletion E conversationID resp =
     (case history_error conversationID (Some (hr_Conversation resp, hr_Messages resp)) of
        Some e \<Rightarrow> raise (Wrapped ''failed to validate Tumblr conversation before deletion'' [e])
      | None \<Rightarrow>
          seq (wrapping ''failed to cancel stale Tumblr conversation deletion'' (put_live E conversationID))
          (emit InboundWoken))"

text \<open>What follows a probe that did not find the conversation.\<close>

definition delete_missing ::
  "env \<Rightarrow> inbound_env \<Rightarrow> block_check option \<Rightarrow> string \<Rightarrow> int \<Rightarrow> string \<Rightarrow> unit act" where
  "delete_missing E I check conversationID expectedRevision uuid =
     andThen time_now (\<lambda>now.
     seq (wrapping ''failed to persist deleted Tumblr conversation cleanup''
       (lift_store (Jobs_Ensure (e_bridge_id E) (e_login_id E) conversationID now)))
     (andThen (wrapping ''failed to reload deleted Tumblr conversation cleanup''
       (lift_store (Jobs_Get (e_bridge_id E) (e_login_id E) conversationID))) (\<lambda>job.
      case job of
        None \<Rightarrow> raise (Sentinel JobSuperseded)
      | Some j \<Rightarrow>
          if expectedRevision \<le> 0 \<or> jRevision j \<noteq> expectedRevision then raise (Sentinel JobSuperseded)
          else andThen (removal_confirmed E I check conversationID j uuid) (\<lambda>go.
            if go then remove_conversation E I conversationID expectedRevision else ret ()))))"

definition handleRemoteConversationDelete ::
  "env \<Rightarrow> inbound_env \<Rightarrow> block_check option \<Rightarrow> string \<Rightarrow> int \<Rightarrow> unit act" where
  "handleRemoteConversationDelete E I check conversationID expectedRevision =
     (if \<not> validRemoteID conversationID then fail ''tumblr conversation ID is invalid''
      else
      seq (requireLoggedInForContext I)
      (andThen (foreign (e_metadata E)) (\<lambda>meta.
       seq (foreign (e_client E))
       (attempt (GetConversationBefore I (lm_SelectedBlogName meta) conversationID 1 []) (\<lambda>probe.
        case probe of
          Inr resp \<Rightarrow> cancel_deletion E conversationID resp
        | Inl e \<Rightarrow>
            if IsNotFound e
            then delete_missing E I check conversationID expectedRevision (lm_SelectedBlogUUID meta)
            else if IsAuthError e then handleRemoteError e
            else raise (Wrapped ''failed to confirm deleted Tumblr conversation'' [e]))))))"

definition resumeRemoteConversationDelete ::
  "env \<Rightarrow> inbound_env \<Rightarrow> block_check option \<Rightarrow> string \<Rightarrow> int \<Rightarrow> unit act" where
  "resumeRemoteConversationDelete E I check conversationID expectedRevision =
     seq ctx_guard
     (andThen (wrapping ''failed to reload Tumblr conversation deletion''
       (lift_store (Jobs_Get (e_bridge_id E) (e_login_id E) conversationID))) (\<lambda>job.
      if 0 < expectedRevision \<and> (case job of None \<Rightarrow> True | Some j \<Rightarrow> jRevision j \<noteq> expectedRevision)
      then raise (Sentinel JobSuperseded)
      else let nothing = (if 0 < expectedRevision then raise (Sentinel JobSuperseded) else ret ()) in
        case job of
          None \<Rightarrow> nothing
        | Some j \<Rightarrow>
            if jDeleteRoomID j = [] then nothing
            else andThen time_now (\<lambda>now.
              if now < jNextAttemptAt j then nothing
              else handleRemoteConversationDelete E I check conversationID (jRevision j))))"

section \<open>A chat the user deletes\<close>

definition tumblrMatrixDeleteContinuationGrace :: duration where
  "tumblrMatrixDeleteContinuationGrace = 2 * minute"

text \<open>\<open>content\<close>: whether the chat is to be deleted for everyone, when the event has a content.\<close>

definition handleMatrixDeleteChat ::
  "env \<Rightarrow> inbound_env \<Rightarrow> bool option \<Rightarrow> portal_object option \<Rightarrow> unit act" where
  "handleMatrixDeleteChat E I content portal =
     andThen (foreign (e_begin_owned E)) (\<lambda>owned.
     if \<not> owned then raise (Sentinel ClientRetired)
     else case content of
         None \<Rightarrow> fail ''delete-chat content is required''
       | Some True \<Rightarrow>
           raise (MatrixStatus True ''Tumblr can only delete chats for you''
             (Plain ''tumblr does not support deleting chats for everyone''))
       | Some False \<Rightarrow>
           andThen (of_result (conversationIDFromPortal portal ''portal is required to delete a Tumblr conversation''))
             (\<lambda>conversationID.
           let room = (case portal of Some p \<Rightarrow> pt_mxid p | None \<Rightarrow> []) in
           if room = [] then fail ''matrix room is required to delete a Tumblr conversation''
           else
           seq (foreign (e_submission_lock E))
           (seq ctx_guard
           (seq (requireLoggedInForContext I)
           (andThen (foreign (e_metadata E)) (\<lambda>meta.
            seq (foreign (e_client E))
            (andThen time_now (\<lambda>t0.
             andThen time_now (\<lambda>now.
             seq (wrapping ''failed to persist Tumblr conversation deletion''
               (lift_store (Jobs_ScheduleDeleteRoom (e_bridge_id E) (e_login_id E) conversationID room
                 (t0 + tumblrMatrixDeleteContinuationGrace) now)))
             (attempt (DeleteConversation (i_http I) (lm_SelectedBlogName meta) conversationID) (\<lambda>deleted.
              case deleted of
                Inl e \<Rightarrow>
                  if IsNotFound e
                  then wrapping ''failed to cancel outbound sends for deleted Tumblr conversation''
                    (Worker_terminalizeOutboundConversation E conversationID)
                  else handleRemoteError e
              | Inr _ \<Rightarrow>
                  wrapping ''failed to cancel outbound sends for deleted Tumblr conversation''
                    (Worker_terminalizeOutboundConversation E conversationID))))))))))))"

definition HandleMatrixDeleteChat ::
  "env \<Rightarrow> inbound_env \<Rightarrow> bool option \<Rightarrow> portal_object option \<Rightarrow> world \<Rightarrow> (handler_error + unit) \<times> world" where
  "HandleMatrixDeleteChat E I content portal w =
     (case handleMatrixDeleteChat E I content portal w of
        (Inl e, w') \<Rightarrow>
          (Inl (wrapTumblrMatrixError (e_remote_forbidden E) e ''failed to delete the Tumblr conversation''), w')
      | (Inr r, w') \<Rightarrow> (Inr r, w'))"

section \<open>Reading a conversation\<close>

definition markConversationRead :: "env \<Rightarrow> inbound_env \<Rightarrow> string \<Rightarrow> unit act" where
  "markConversationRead E I conversationID =
     seq (inbound_logged_in I)
     (andThen (foreign (e_metadata E)) (\<lambda>meta.
      seq (foreign (e_client E))
      (attempt (MarkConversationAsRead (i_http I) (lm_SelectedBlogName meta) conversationID) (\<lambda>r.
       case r of Inl e \<Rightarrow> handleRemoteError e | Inr _ \<Rightarrow> ret ()))))"

definition read_required :: string where
  "read_required = ''portal is required to mark a Tumblr conversation read''"

definition markPortalRead :: "env \<Rightarrow> inbound_env \<Rightarrow> portal_object option \<Rightarrow> unit act" where
  "markPortalRead E I portal =
     andThen (of_result (conversationIDFromPortal portal read_required)) (markConversationRead E I)"

definition HandleMatrixReadReceipt ::
  "env \<Rightarrow> inbound_env \<Rightarrow> portal_object option \<Rightarrow> gotime \<Rightarrow> gotime \<Rightarrow> unit act" where
  "HandleMatrixReadReceipt E I portal readUpTo lastRead =
     andThen (foreign (e_begin_owned E)) (\<lambda>owned.
     if \<not> owned then raise (Sentinel NotLoggedIn)
     else case portal of
         None \<Rightarrow> ret ()
       | Some p \<Rightarrow>
           andThen (of_result (conversationIDFromPortal (Some p) read_required)) (\<lambda>conversationID.
           if \<not> lastRead < readUpTo then ret () else markConversationRead E I conversationID))"

definition HandleMatrixViewingChat :: "env \<Rightarrow> inbound_env \<Rightarrow> portal_object option \<Rightarrow> unit act" where
  "HandleMatrixViewingChat E I portal =
     andThen (foreign (e_begin_owned E)) (\<lambda>owned.
     if \<not> owned then raise (Sentinel NotLoggedIn)
     else case portal of None \<Rightarrow> ret () | Some p \<Rightarrow> markPortalRead E I (Some p))"

end
