(* ===== verification/InboundJobs.thy ===== *)
theory InboundJobs
  imports ConversationDelete Backoff
begin

text \<open>
  The inbound worker (pkg/connector/inbound_sync.go, sync.go): the synchronisation of one
  conversation, the durable jobs and what becomes of them, the probe of the conversation heads, the
  walk that finds changed conversations and the one that finds missing ones. Locks only serialise;
  the worker's timers and its goroutine are not modelled.
\<close>

section \<open>Synchronising a conversation\<close>

definition superseded_by :: "int \<Rightarrow> conversation_job option \<Rightarrow> bool act" where
  "superseded_by expectedRevision job =
     (if expectedRevision \<le> 0 then ret False
      else case job of
          None \<Rightarrow> ret True
        | Some j \<Rightarrow>
            if jRevision j \<noteq> expectedRevision then ret True
            else andThen time_now (\<lambda>now. ret (now < jNextAttemptAt j)))"

text \<open>The history, fetched again under the blog's new name when the old one is refused.\<close>

definition fetch_renamed ::
  "env \<Rightarrow> inbound_env \<Rightarrow> string \<Rightarrow> go_error \<Rightarrow> (conversation \<times> string) act" where
  "fetch_renamed E I conversationID e =
     (if \<not> IsForbidden e \<or> e_remote_forbidden E then raise e
      else attempt (refreshRenamedSelectedBlog E I) (\<lambda>renamed.
        case renamed of
          Inl r \<Rightarrow> raise (Wrapped ''failed to check Tumblr blog name'' [r, e])
        | Inr False \<Rightarrow> raise e
        | Inr True \<Rightarrow>
            andThen (foreign (e_metadata E)) (\<lambda>meta.
            fetchConversationForSync E I (lm_SelectedBlogName meta)
              \<lparr>cv_ID = conversationID, cv_Participants = [], cv_Messages = [], cv_LastReadTimestamp = 0,
               cv_LastModifiedTimestamp = 0\<rparr> (ConversationSyncBatchLimit I))))"

definition fetch_history :: "env \<Rightarrow> inbound_env \<Rightarrow> login_metadata \<Rightarrow> string \<Rightarrow> (conversation \<times> string) act" where
  "fetch_history E I meta conversationID =
     attempt (fetchConversationForSync E I (lm_SelectedBlogName meta)
       \<lparr>cv_ID = conversationID, cv_Participants = [], cv_Messages = [], cv_LastReadTimestamp = 0,
        cv_LastModifiedTimestamp = 0\<rparr> (ConversationSyncBatchLimit I)) (\<lambda>fetched.
     case fetched of Inr x \<Rightarrow> ret x | Inl e \<Rightarrow> fetch_renamed E I conversationID e)"

text \<open>The job under which a conversation that was not found is cleaned up.\<close>

definition cleanup_job ::
  "env \<Rightarrow> string \<Rightarrow> int \<Rightarrow> conversation_job option \<Rightarrow> conversation_job act" where
  "cleanup_job E conversationID expectedRevision job =
     (case job of
        Some j \<Rightarrow> ret j
      | None \<Rightarrow>
          if 0 < expectedRevision then raise (Sentinel JobSuperseded)
          else andThen time_now (\<lambda>now.
            seq (wrapping ''failed to persist missing Tumblr conversation cleanup''
              (lift_store (Jobs_Ensure (e_bridge_id E) (e_login_id E) conversationID now)))
            (andThen (wrapping ''failed to reload missing Tumblr conversation cleanup''
              (lift_store (Jobs_Get (e_bridge_id E) (e_login_id E) conversationID))) (\<lambda>job.
             case job of
               None \<Rightarrow> fail ''missing Tumblr conversation cleanup was not persisted''
             | Some j \<Rightarrow> ret j))))"

definition sync_fetched ::
  "env \<Rightarrow> inbound_env \<Rightarrow> block_check option \<Rightarrow> string \<Rightarrow> int \<Rightarrow> conversation_job option \<Rightarrow>
   go_error + conversation \<times> string \<Rightarrow> conversation_delivery option act" where
  "sync_fetched E I check conversationID expectedRevision job fetched =
     (case fetched of
        Inr (conversation, head) \<Rightarrow>
          andThen (prepareConversationDelivery E I conversation True head) (\<lambda>d. ret (Some d))
      | Inl e \<Rightarrow>
          if IsNotFound e
          then andThen (cleanup_job E conversationID expectedRevision job) (\<lambda>j.
            seq (handleRemoteConversationDelete E I check conversationID (jRevision j)) (ret None))
          else if IsAuthError e then handleRemoteError e
          else raise e)"

definition syncConversationByIDWithSubmissionLock ::
  "env \<Rightarrow> inbound_env \<Rightarrow> block_check option \<Rightarrow> string \<Rightarrow> int \<Rightarrow> conversation_delivery option act" where
  "syncConversationByIDWithSubmissionLock E I check conversationID expectedRevision =
     (if \<not> validRemoteID conversationID then fail ''tumblr conversation ID is invalid''
      else
      seq ctx_guard
      (andThen (wrapping ''failed to reload Tumblr conversation sync job''
        (lift_store (Jobs_Get (e_bridge_id E) (e_login_id E) conversationID))) (\<lambda>job.
       andThen (superseded_by expectedRevision job) (\<lambda>superseded.
       if superseded then raise (Sentinel JobSuperseded)
       else if (case job of Some j \<Rightarrow> jDeleteRoomID j \<noteq> [] | None \<Rightarrow> False)
       then andThen time_now (\<lambda>now.
         if now < jNextAttemptAt (the job) then raise (Sentinel JobSuperseded)
         else seq (handleRemoteConversationDelete E I check conversationID (jRevision (the job))) (ret None))
       else
       seq (requireLoggedInForContext I)
       (andThen (foreign (e_metadata E)) (\<lambda>meta.
        seq (foreign (e_client E))
        (attempt (fetch_history E I meta conversationID) (\<lambda>fetched.
         sync_fetched E I check conversationID expectedRevision job fetched))))))))"

text \<open>The synchronisation as the outbound recovery and the inbound worker use it.\<close>

definition inbound_sync_ops ::
  "env \<Rightarrow> inbound_env \<Rightarrow> block_check option \<Rightarrow> int \<Rightarrow> conversation_delivery conversation_sync_ops" where
  "inbound_sync_ops E I check revision =
     \<lparr>y_sync = (\<lambda>c. syncConversationByIDWithSubmissionLock E I check c revision),
      y_deliver = deliverConversation E I, y_commit = commitConversationDelivery E\<rparr>"

section \<open>The outcome of a job\<close>

definition as_deferred :: "go_error \<Rightarrow> nat option" where
  "as_deferred e = (case e of Deferred n \<Rightarrow> Some n | _ \<Rightarrow> None)"

definition as_block_check :: "go_error \<Rightarrow> (string \<times> string \<times> string) option" where
  "as_block_check e = (case e of BlockCheck owner peer room \<Rightarrow> Some (owner, peer, room) | _ \<Rightarrow> None)"

definition classifyConversationJobError :: "go_error \<Rightarrow> string" where
  "classifyConversationJobError e =
     (if errors_as as_deferred e \<noteq> None then ''queue''
      else if IsAuthError e then ''auth''
      else if errors_is e Canceled \<or> errors_is e DeadlineExceeded then ''network''
      else case errors_as as_api e of
          Some a \<Rightarrow>
            if StatusCode a = 429 then ''rate_limited''
            else if 500 \<le> StatusCode a then ''remote''
            else ''invalid_response''
        | None \<Rightarrow> ''unknown'')"

definition tumblrRateLimitCooldown :: duration where "tumblrRateLimitCooldown = 5 * minute"

definition rateLimitRemaining :: "duration act" where
  "rateLimitRemaining =
     andThen the_caches (\<lambda>c. andThen time_now (\<lambda>now. ret (ca_RateLimitedUntil c * millisecond - now)))"

definition noteRateLimit :: "go_error \<Rightarrow> duration act" where
  "noteRateLimit e =
     (if (case errors_as as_api e of Some a \<Rightarrow> StatusCode a \<noteq> 429 | None \<Rightarrow> True) then ret 0
      else andThen time_now (\<lambda>now.
        andThen (jitterDuration tumblrRateLimitCooldown (tumblrRateLimitCooldown div 5)) (\<lambda>cooldown.
        let until = unix_milli (now + cooldown) in
        andThen the_caches (\<lambda>c.
        if until \<le> ca_RateLimitedUntil c then rateLimitRemaining
        else seq (update_caches (\<lambda>c. c\<lparr>ca_RateLimitedUntil := until\<rparr>))
          (andThen time_now (\<lambda>now'. ret (until * millisecond - now')))))))"

text \<open>What becomes of a job that failed: it is due again after the backoff, or after the pause a rate
  limit asks for.\<close>

definition retry_job :: "env \<Rightarrow> conversation_job \<Rightarrow> go_error \<Rightarrow> unit act" where
  "retry_job E job e =
     andThen time_now (\<lambda>t0.
     andThen (tumblrConversationJobBackoff (jAttemptCount job + 1)) (\<lambda>backoff.
     andThen (noteRateLimit e) (\<lambda>cooldown.
     andThen time_now (\<lambda>now.
     attempt (lift_store (Jobs_MarkRetry (e_bridge_id E) (e_login_id E) (jConversationID job) (jRevision job)
       (t0 + max backoff cooldown) (classifyConversationJobError e) now)) (\<lambda>marked.
     case marked of
       Inl m \<Rightarrow> raise (join_errors e m)
     | Inr _ \<Rightarrow> if IsAuthError e then raise e else ret ())))))"

definition finish_job :: "env \<Rightarrow> conversation_job \<Rightarrow> go_error option \<Rightarrow> unit act" where
  "finish_job E job outcome =
     (case outcome of
        Some e \<Rightarrow>
          if errors_is e JobSuperseded then emit InboundWoken
          else if errors_as as_block_check e \<noteq> None then raise e
          else retry_job E job e
      | None \<Rightarrow>
          andThen (lift_store (Jobs_Delete (e_bridge_id E) (e_login_id E) (jConversationID job) (jRevision job)))
            (\<lambda>changed. if changed then ret () else emit InboundWoken))"

text \<open>The work of a job: a durable deletion is resumed, everything else is synchronised.\<close>

definition run_job ::
  "env \<Rightarrow> inbound_env \<Rightarrow> block_check option \<Rightarrow> conversation_job \<Rightarrow> go_error option act" where
  "run_job E I check job =
     (if jDeleteRoomID job \<noteq> []
      then attempt (resumeRemoteConversationDelete E I check (jConversationID job) (jRevision job))
        (\<lambda>r. ret (left_error r))
      else synchronise E (inbound_sync_ops E I check (jRevision job)) (jConversationID job))"

definition processSelectedConversationJobWithBlockCheck ::
  "env \<Rightarrow> inbound_env \<Rightarrow> block_check option \<Rightarrow> conversation_job \<Rightarrow> unit act" where
  "processSelectedConversationJobWithBlockCheck E I check selected =
     seq (foreign (e_submission_lock E))
     (andThen (lift_store (Jobs_Get (e_bridge_id E) (e_login_id E) (jConversationID selected))) (\<lambda>loaded.
      case loaded of
        None \<Rightarrow> emit InboundWoken
      | Some job \<Rightarrow>
          if jRevision job \<noteq> jRevision selected then emit InboundWoken
          else andThen time_now (\<lambda>now.
            if now < jNextAttemptAt job then emit InboundWoken
            else andThen (run_job E I check job) (\<lambda>outcome. finish_job E job outcome))))"

definition processSelectedConversationJob :: "env \<Rightarrow> inbound_env \<Rightarrow> conversation_job \<Rightarrow> unit act" where
  "processSelectedConversationJob E I selected =
     attempt (processSelectedConversationJobWithBlockCheck E I None selected) (\<lambda>r.
     case r of
       Inr _ \<Rightarrow> ret ()
     | Inl e \<Rightarrow>
         (case errors_as as_block_check e of
            None \<Rightarrow> raise e
          | Some (owner, peer, room) \<Rightarrow>
              attempt (seq (foreign (e_client E)) (ListBlockedBlogs I owner)) (\<lambda>listed.
              seq (case listed of Inl le \<Rightarrow> note_remote_error le | Inr _ \<Rightarrow> ret ())
              (processSelectedConversationJobWithBlockCheck E I
                (Some \<lparr>bc_owner = owner, bc_peer = peer, bc_roomID = room,
                   bc_blocked = (case listed of Inr bs \<Rightarrow> list_ex (\<lambda>b. bl_UUID b = peer) bs | Inl _ \<Rightarrow> False),
                   bc_err = left_error listed\<rparr>) selected))))"

text \<open>A pass over at most \<open>n\<close> due jobs. The worker passes no limit: its loop ends when nothing is due,
  so it runs as long as some \<open>n\<close> demands.\<close>

fun processDueConversationJobs :: "nat \<Rightarrow> env \<Rightarrow> inbound_env \<Rightarrow> unit act" where
  "processDueConversationJobs 0 E I = ctx_guard"
| "processDueConversationJobs (Suc n) E I =
     seq ctx_guard
     (andThen rateLimitRemaining (\<lambda>remaining.
      if 0 < remaining then ret ()
      else andThen time_now (\<lambda>now.
        andThen (lift_store (Jobs_GetNextDue (e_bridge_id E) (e_login_id E) now)) (\<lambda>due.
        case due of
          None \<Rightarrow> ret ()
        | Some job \<Rightarrow>
            seq (processSelectedConversationJob E I job) (processDueConversationJobs n E I)))))"

section \<open>New evidence\<close>

definition putLiveConversationJob_locked :: "env \<Rightarrow> string \<Rightarrow> unit act" where
  "putLiveConversationJob_locked E conversationID =
     seq (foreign (e_submission_lock E)) (put_live E conversationID)"

definition enqueueConversationSync :: "env \<Rightarrow> string \<Rightarrow> unit act" where
  "enqueueConversationSync E conversationID =
     (if \<not> validRemoteID conversationID then fail ''tumblr conversation ID is invalid''
      else seq (wrapping ''failed to persist Tumblr conversation sync job''
             (putLiveConversationJob_locked E conversationID))
        (emit InboundWoken))"

definition queueChangedConversationHead :: "env \<Rightarrow> string \<Rightarrow> string \<Rightarrow> bool act" where
  "queueChangedConversationHead E conversationID headMessageID =
     seq (foreign (e_submission_lock E))
     (andThen (lift_store (ConversationSync_Get (e_bridge_id E) (e_login_id E) conversationID)) (\<lambda>state.
      andThen (lift_store (Jobs_Get (e_bridge_id E) (e_login_id E) conversationID)) (\<lambda>job.
      case job of
        Some j \<Rightarrow>
          if jDeleteRoomID j \<noteq> [] then seq (put_live E conversationID) (ret True) else ret False
      | None \<Rightarrow>
          if (case state of Some s \<Rightarrow> cCompletedHeadMessageID s = headMessageID | None \<Rightarrow> False) then ret False
          else seq (put_live E conversationID) (ret True))))"

text \<open>The conversations of a probe: the newest modification, whether a job was queued, and the heads
  observed now.\<close>

fun probe_heads ::
  "env \<Rightarrow> (string \<rightharpoonup> string) \<Rightarrow> conversation list \<Rightarrow> int \<Rightarrow> bool \<Rightarrow> (string \<rightharpoonup> string) \<Rightarrow>
   (int \<times> bool \<times> (string \<rightharpoonup> string)) act" where
  "probe_heads E observed [] latest queued nxt = ret (latest, queued, nxt)"
| "probe_heads E observed (c # cs) latest queued nxt =
     (let latest' = max latest (cv_LastModifiedTimestamp c) in
      if \<not> validRemoteID (cv_ID c) then probe_heads E observed cs latest' queued nxt
      else andThen (conversationPageHeadMessageID (cv_Messages c)) (\<lambda>head.
        if \<not> validRemoteID head then probe_heads E observed cs latest' queued nxt
        else if observed (cv_ID c) = Some head
        then probe_heads E observed cs latest' queued (nxt(cv_ID c \<mapsto> head))
        else andThen (queueChangedConversationHead E (cv_ID c) head) (\<lambda>changed.
          probe_heads E observed cs latest' (queued \<or> changed) (nxt(cv_ID c \<mapsto> head)))))"

definition probeChangedConversationHeads ::
  "env \<Rightarrow> inbound_env \<Rightarrow> (string \<rightharpoonup> string) \<Rightarrow> (int \<times> bool \<times> (string \<rightharpoonup> string)) act" where
  "probeChangedConversationHeads E I observed =
     seq (inbound_logged_in I)
     (andThen (foreign (e_metadata E)) (\<lambda>meta.
      seq (foreign (e_client E))
      (attempt (list_conversations I (lm_SelectedBlogUUID meta) 0 []) (\<lambda>got.
       case got of
         Inl e \<Rightarrow> handleRemoteError e
       | Inr resp \<Rightarrow>
           andThen (probe_heads E observed (lr_Conversations resp) 0 False Map.empty) (\<lambda>(latest, queued, nxt).
           seq (if queued then emit InboundWoken else ret ()) (ret (latest, queued, nxt)))))))"

definition tumblrConversationHeadProbeDelay :: "gotime \<Rightarrow> int \<Rightarrow> duration" where
  "tumblrConversationHeadProbeDelay now latestModifiedTS =
     (let age = now - latestModifiedTS * second in
      if latestModifiedTS \<le> 0 then 30 * second
      else if age < 30 * second then 2 * second
      else if age < minute then 5 * second
      else if age < 2 * minute then 10 * second
      else if age < 5 * minute then 30 * second
      else minute)"

section \<open>The walk for changed conversations\<close>

text \<open>The conversations of a page: the new watermark, and whether all of the page is older than the
  previous one.\<close>

fun queue_page :: "env \<Rightarrow> int \<Rightarrow> conversation list \<Rightarrow> int \<Rightarrow> bool \<Rightarrow> (int \<times> bool) act" where
  "queue_page E previous [] watermark older = ret (watermark, older)"
| "queue_page E previous (c # cs) watermark older =
     (let m = cv_LastModifiedTimestamp c; older' = (older \<and> 0 < m \<and> m < previous) in
      if \<not> validRemoteID (cv_ID c) then queue_page E previous cs watermark older'
      else if 0 < previous \<and> 0 < m \<and> m < previous then queue_page E previous cs (max watermark m) older'
      else seq (putLiveConversationJob_locked E (cv_ID c)) (queue_page E previous cs (max watermark m) older'))"

fun head_loop ::
  "nat \<Rightarrow> env \<Rightarrow> inbound_env \<Rightarrow> string \<Rightarrow> int \<Rightarrow> string \<Rightarrow> string set \<Rightarrow> int \<Rightarrow> unit act" where
  "head_loop 0 E I uuid previous before seen watermark =
     fail ''tumblr conversation reconciliation exceeded 1000 pages''"
| "head_loop (Suc n) E I uuid previous before seen watermark =
     attempt (list_conversations I uuid (ConversationSyncBatchLimit I) before) (\<lambda>got.
     case got of
       Inl e \<Rightarrow> handleRemoteError e
     | Inr resp \<Rightarrow>
         andThen (queue_page E previous (lr_Conversations resp) watermark
           (0 < previous \<and> lr_Conversations resp \<noteq> [])) (\<lambda>(watermark', older).
         andThen (of_result (nextBeforeCursor (i_query_param I) (lr_Next resp))) (\<lambda>c.
         let nextBefore = trim_space c in
         if nextBefore = [] \<or> older
         then andThen time_now (\<lambda>now.
           seq (lift_store (SyncState_SetScanSuccess (e_bridge_id E) (e_login_id E) watermark' now))
           (emit InboundWoken))
         else if nextBefore \<in> seen then fail ''tumblr conversation reconciliation cursor repeated''
         else head_loop n E I uuid previous nextBefore (insert nextBefore seen) watermark')))"

definition reconcileConversationHead :: "env \<Rightarrow> inbound_env \<Rightarrow> unit act" where
  "reconcileConversationHead E I =
     seq (inbound_logged_in I)
     (andThen (foreign (e_metadata E)) (\<lambda>meta.
      seq (foreign (e_client E))
      (andThen (lift_store (SyncState_Get (e_bridge_id E) (e_login_id E))) (\<lambda>state.
       let previous = (case state of Some s \<Rightarrow> sLastRemoteWatermark s | None \<Rightarrow> 0) in
       head_loop maxConversationListPages E I (lm_SelectedBlogUUID meta) previous [] {} previous))))"

section \<open>The walk for missing conversations\<close>

text \<open>The loop over the login's portals: what was queued, and the error that ended it.\<close>

fun queue_missing ::
  "env \<Rightarrow> string set \<Rightarrow> portal_key option list \<Rightarrow> (string \<times> int \<times> gotime) list \<Rightarrow>
   ((string \<times> int \<times> gotime) list \<times> go_error option) act" where
  "queue_missing E ids [] queued = ret (queued, None)"
| "queue_missing E ids (up # ups) queued =
     (case up of
        None \<Rightarrow> queue_missing E ids ups queued
      | Some key \<Rightarrow>
          let conversationID = pk_id key in
          if \<not> validRemoteID conversationID \<or> isPendingDMPortalID conversationID \<or>
             key \<noteq> portalKey E conversationID \<or> conversationID \<in> ids
          then queue_missing E ids ups queued
          else andThen time_now (\<lambda>now.
            attempt (lift_store (Jobs_Put (e_bridge_id E) (e_login_id E) conversationID now)) (\<lambda>put.
            case put of
              Inl e \<Rightarrow>
                ret (queued, Some (Wrapped ''failed to persist Tumblr deletion verification job'' [e]))
            | Inr entry \<Rightarrow> queue_missing E ids ups (AList.update conversationID entry queued))))"

definition enqueueMissingConversationChecks ::
  "env \<Rightarrow> inbound_env \<Rightarrow> string set \<Rightarrow> gotime \<Rightarrow> unit act" where
  "enqueueMissingConversationChecks E I ids walkStartedAt =
     andThen (wrapping ''failed to load Tumblr portals for deletion reconciliation''
       (foreign (i_user_portals I))) (\<lambda>userPortals.
     andThen (queue_missing E ids userPortals []) (\<lambda>(queued, failed).
     seq (if failed = None \<and> queued \<noteq> [] then emit InboundWoken else ret ())
     (seq (rememberQueuedMissingConversations walkStartedAt (map_of queued))
     (case failed of Some e \<Rightarrow> raise e | None \<Rightarrow> ret ()))))"

fun deletions_loop ::
  "nat \<Rightarrow> env \<Rightarrow> inbound_env \<Rightarrow> string \<Rightarrow> gotime \<Rightarrow> string \<Rightarrow> string set \<Rightarrow> string set \<Rightarrow> unit act" where
  "deletions_loop 0 E I uuid startedAt before seen ids =
     fail ''tumblr conversation deletion reconciliation exceeded 1000 pages''"
| "deletions_loop (Suc n) E I uuid startedAt before seen ids =
     attempt (list_conversations I uuid (ConversationSyncBatchLimit I) before) (\<lambda>got.
     case got of
       Inl e \<Rightarrow> handleRemoteError e
     | Inr resp \<Rightarrow>
         let ids' = ids \<union> set (filter validRemoteID (map cv_ID (lr_Conversations resp))) in
         andThen (of_result (nextBeforeCursor (i_query_param I) (lr_Next resp))) (\<lambda>c.
         let nextBefore = trim_space c in
         if nextBefore = []
         then seq (rememberListedConversations ids' startedAt) (enqueueMissingConversationChecks E I ids' startedAt)
         else if nextBefore \<in> seen then fail ''tumblr conversation deletion reconciliation cursor repeated''
         else deletions_loop n E I uuid startedAt nextBefore (insert nextBefore seen) ids'))"

definition reconcileConversationDeletions :: "env \<Rightarrow> inbound_env \<Rightarrow> unit act" where
  "reconcileConversationDeletions E I =
     seq (inbound_logged_in I)
     (andThen (foreign (e_metadata E)) (\<lambda>meta.
      seq (foreign (e_client E))
      (andThen time_now (\<lambda>startedAt.
       deletions_loop maxConversationListPages E I (lm_SelectedBlogUUID meta) startedAt [] {} {}))))"

end
