(* ===== verification/InboundMoves.thy ===== *)
theory InboundMoves
  imports InboundJobs OutboundRecoveryMoves JobProperties
begin

text \<open>
  What the inbound operations do to the store and to the world outside, whatever their control
  flow and whatever fails. Reading and preparing respect every quiet relation; the operations on
  the jobs respect every relation that also admits the steps of the inbound tables which add no
  completed boundary and lose no job (\<open>inbound_relation\<close>); the removal of a room respects those
  that admit it (\<open>removing_relation\<close>).
\<close>

section \<open>The surroundings\<close>

text \<open>Handing an event to the framework may run the connector's echo handler, which finishes a
  pending send: quiet steps of the outbound tables. Everything else leaves the tables alone.\<close>

definition echoing :: "(portal_key \<Rightarrow> bool) \<Rightarrow> 'a foreign \<Rightarrow> bool" where
  "echoing pke m \<longleftrightarrow>
     (\<forall>n d. (quiet_move pke)\<^sup>*\<^sup>* (tbl d) (tbl (snd (m n d))) \<and> inbox (tbl (snd (m n d))) = inbox (tbl d))"

definition outside_inbound :: "(portal_key \<Rightarrow> bool) \<Rightarrow> (db \<Rightarrow> db \<Rightarrow> bool) \<Rightarrow> inbound_env \<Rightarrow> bool" where
  "outside_inbound pke F I \<longleftrightarrow>
     outside_http F (i_http I) \<and> stays F (i_logged_in I) \<and> (\<forall>b. stays F (i_save_blog I b)) \<and>
     stays F (i_save_login I) \<and> (\<forall>k. stays F (i_portal_create I k)) \<and> (\<forall>k. stays F (i_user_portal I k)) \<and>
     stays F (i_user_portals I) \<and> (\<forall>p i. stays F (i_create_room I p i)) \<and>
     (\<forall>p i. stays F (i_update_info I p i)) \<and> (\<forall>ev. echoing pke (i_queue I ev)) \<and>
     (\<forall>x. stays F (i_members I x)) \<and> (\<forall>x. stays F (i_delete_room I x)) \<and>
     (\<forall>x y. stays F (i_space_child I x y))"

lemma moves_case_answer [moves_intros]:
  "moves R a \<Longrightarrow> moves R b \<Longrightarrow> (\<And>e. moves R (f e)) \<Longrightarrow>
   moves R (case m of MatrixOk \<Rightarrow> a | MatrixNotFound \<Rightarrow> b | MatrixFailed e \<Rightarrow> f e)"
  by (cases m) auto

section \<open>Reading and preparing\<close>

context quiet_relation
begin

lemma echo_moves: "echoing pke m \<Longrightarrow> moves (R pke) (foreign m)"
  unfolding moves_def
proof (intro allI r_into_rtranclp)
  fix w :: world
  assume "echoing pke m"
  then have "(quiet_move pke)\<^sup>*\<^sup>* (tbl w) (tbl (snd (foreign m w))) \<and> inbox (tbl (snd (foreign m w))) = inbox (tbl w)"
    unfolding echoing_def foreign_def
    by (cases "m (w_tick w) \<lparr>tbl = tbl w, faults = faults w\<rparr>") (auto dest!: spec [of _ "w_tick w"] spec [of _ "\<lparr>tbl = tbl w, faults = faults w\<rparr>"])
  moreover have "deeds (snd (foreign m w)) = deeds w" by (simp add: foreign_def deeds_def split: prod.split)
  ultimately show "R pke w (snd (foreign m w))" by (intro quiet) blast+
qed

lemma inbound_env_moves [moves_intros]:
  assumes "outside_inbound pke F I"
  shows "moves (R pke) (foreign (i_logged_in I))" and "moves (R pke) (foreign (i_save_blog I b))"
    and "moves (R pke) (foreign (i_save_login I))" and "moves (R pke) (foreign (i_portal_create I k))"
    and "moves (R pke) (foreign (i_user_portal I k))" and "moves (R pke) (foreign (i_user_portals I))"
    and "moves (R pke) (foreign (i_create_room I p ci))" and "moves (R pke) (foreign (i_update_info I p ci))"
    and "moves (R pke) (foreign (i_queue I ev))" and "moves (R pke) (foreign (i_members I x))"
    and "moves (R pke) (foreign (i_delete_room I x))" and "moves (R pke) (foreign (i_space_child I x y))"
  using assms by (auto simp: outside_inbound_def intro: stays_moves echo_moves)

lemma inbound_http: "outside_inbound pke F I \<Longrightarrow> outside_http F (i_http I)"
  by (simp add: outside_inbound_def)

lemma requests_mild [calm_intros]:
  assumes "outside_http F H"
  shows "moves (R pke) (MarkConversationAsRead H n c)" and "moves (R pke) (DeleteConversation H n c)"
    and "moves (R pke) (getConversationMessages H dec n c limit before)"
    and "moves (R pke) (ListConversationsBefore H dec' u limit before)"
    and "moves (R pke) (SetBlogBlocked H owner peer bl)"
  unfolding MarkConversationAsRead_def DeleteConversation_def getConversationMessages_def
    ListConversationsBefore_def SetBlogBlocked_def optional_cursor_def
  by (intro moves_intros calm_intros assms)+

lemma read_store_mild [calm_intros]:
  "moves (R pke) (Jobs_Get b l c)" "moves (R pke) (Jobs_GetNextDue b l now)"
  "moves (R pke) (SyncState_Get b l)" "moves (R pke) (ConversationSync_Get b l c)"
  unfolding Jobs_Get_def Jobs_GetNextDue_def SyncState_Get_def ConversationSync_Get_def
  by (intro store_moves moves_intros)+

lemma clocked_mild [calm_intros]:
  "moves (R pke) (sortedMessages ms)" "moves (R pke) (conversationPageHeadMessageID ms)"
  "moves (R pke) (messageTimestampWithFallback m fb)" "moves (R pke) ctx_guard" "moves (R pke) pause"
  unfolding sortedMessages_def conversationPageHeadMessageID_def messageTimestampWithFallback_def ctx_guard_def
    nonZeroFallbackTime_def
  by (intro moves_intros)+

lemma seen_mild [calm_intros]:
  "moves (R pke) (markConversationSeen cv)" "moves (R pke) (readReceiptAlreadyBridged cv)"
  "moves (R pke) (markReadReceiptBridged cv)" "moves (R pke) (markConversationMessagesSeen c ms)"
  "moves (R pke) (clearDeletedConversationSeenState c)" "moves (R pke) (rememberListedConversations ids at)"
  "moves (R pke) (rememberQueuedMissingConversations at q)" "moves (R pke) (recentListedConversation j)"
  "moves (R pke) rateLimitRemaining" "moves (R pke) (noteRateLimit e)"
  unfolding markConversationSeen_def readReceiptAlreadyBridged_def markReadReceiptBridged_def
    markConversationMessagesSeen_def clearDeletedConversationSeenState_def rememberListedConversations_def
    rememberQueuedMissingConversations_def recentListedConversation_def rateLimitRemaining_def noteRateLimit_def
  by (intro moves_intros calm_intros)+

lemma description_mild:
  assumes "outside_env F E"
  shows "mild E (matches_login E u)" and "mild E (isSelfBlog E H b)" and "mild E (loginEventSender E)"
    and "mild E (senderFromMessage E H m)"
    and "mild E (messageEventFromMessageWithTransaction E H key m fb x)"
    and "mild E (readReceiptEventFromConversation E cv key fb)"
proof -
  show 1: "mild E (matches_login E u)" for u unfolding matches_login_def by (intro moves_intros assms)
  show "mild E (isSelfBlog E H b)" unfolding isSelfBlog_def by (rule 1)
  show 2: "mild E (loginEventSender E)" unfolding loginEventSender_def by (intro moves_intros assms)
  show 3: "mild E (senderFromMessage E H m)" unfolding senderFromMessage_def by (intro moves_intros 1)
  show "mild E (messageEventFromMessageWithTransaction E H key m fb x)"
    unfolding messageEventFromMessageWithTransaction_def by (intro moves_intros calm_intros 3)
  show "mild E (readReceiptEventFromConversation E cv key fb)"
    unfolding readReceiptEventFromConversation_def by (intro moves_intros 2)
qed

lemma chat_info_mild [calm_intros]:
  assumes "outside_env F E"
  shows "mild E (chatInfoFromConversation E H tmpl c)"
proof -
  note self = description_mild(2) [OF assms]
  have 1: "mild E (chat_members E H tmpl bs ms x)" for bs ms x
    by (induction bs arbitrary: ms x) (simp_all only: chat_members.simps, (intro moves_intros self | assumption)+)
  have 2: "mild E (other_participant E H bs)" for bs
    by (induction bs) (simp_all only: other_participant.simps, (intro moves_intros self | assumption)+)
  have 3: "mild E (display_names E H tmpl b bs)" for b bs
    by (induction bs) (simp_all only: display_names.simps, (intro moves_intros self | assumption)+)
  show ?thesis
    unfolding chatInfoFromConversation_def conversationTitle_def chatMembersFromConversation_def
    by (intro moves_intros 1 2 3)
qed


lemma fetching_mild [calm_intros]:
  assumes "outside_env F E" and "outside_inbound (e_pke E) F I"
  shows "mild E (inbound_logged_in I)" and "mild E (requireLoggedInForContext I)"
    and "mild E (CurrentUser I)" and "mild E (refreshRenamedSelectedBlog E I)"
    and "mild E (fetchConversationForSync E I name listed limit)"
    and "mild E (fetch_history E I meta c)"
proof -
  note http = inbound_http [OF assms(2)]
  show "mild E (inbound_logged_in I)" and "mild E (requireLoggedInForContext I)"
    unfolding inbound_logged_in_def requireLoggedInForContext_def by (intro moves_intros assms)+
  show 1: "mild E (CurrentUser I)"
    unfolding CurrentUser_def by (intro moves_intros calm_intros http)
  show 2: "mild E (refreshRenamedSelectedBlog E I)"
    unfolding refreshRenamedSelectedBlog_def by (intro moves_intros calm_intros assms 1)
  have 3: "mild E (history_loop n fetch cursor g before seen pages start)" if "\<And>b. mild E (fetch b)"
    for n fetch cursor g before seen pages start
  proof (induction n arbitrary: before seen pages start)
    case 0
    show ?case unfolding history_loop.simps by (intro moves_intros)
  next
    case (Suc n)
    show ?case unfolding history_loop.simps by (intro moves_intros calm_intros that Suc)
  qed
  show 4: "mild E (fetchConversationForSync E I name listed limit)" for name listed limit
    unfolding fetchConversationForSync_def GetConversationBefore_def
    by (intro moves_intros calm_intros 3 assms http)
  show "mild E (fetch_history E I meta c)"
    unfolding fetch_history_def fetch_renamed_def by (intro moves_intros calm_intros 2 4 assms)
qed

lemma new_messages_mild [calm_intros]:
  assumes "outside_env F E"
  shows "mild E (messagesForConversationSync E key cv a b ms)"
proof -
  have 1: "mild E (missing_messages E key ms)" for key ms
  proof (induction ms)
    case Nil
    show ?case unfolding missing_messages.simps by (intro moves_intros)
  next
    case (Cons m ms)
    show ?case unfolding missing_messages.simps by (intro moves_intros calm_intros assms Cons)
  qed
  show ?thesis
    unfolding messagesForConversationSync_def missingConversationMessages_def by (intro moves_intros calm_intros 1)
qed

lemma delivery_mild [calm_intros]:
  assumes "outside_env F E" and "outside_inbound (e_pke E) F I"
  shows "mild E (ensureConversationPortalForSync E I key cv a)"
    and "mild E (prepareConversationDelivery E I cv a head)"
proof -
  have 3: "mild E (confirmTumblrPortalExists E key)" for key
    unfolding confirmTumblrPortalExists_def by (intro moves_intros calm_intros assms)
  have 4: "mild E (saveConversationMetadataIfChangedLocked E p cv h)" for p cv h
    unfolding saveConversationMetadataIfChangedLocked_def by (intro moves_intros calm_intros assms)
  show 5: "mild E (ensureConversationPortalForSync E I key cv a)" for key cv a
    unfolding ensureConversationPortalForSync_def sync_room_def by (intro moves_intros calm_intros assms 3 4)
  show "mild E (prepareConversationDelivery E I cv a head)"
    unfolding prepareConversationDelivery_def Let_def
    by (intro moves_intros calm_intros description_mild assms 5)
qed

lemma listing_mild [calm_intros]:
  assumes "outside_env F E" and "outside_inbound (e_pke E) F I"
  shows "mild E (list_conversations I uuid limit before)" and "mild E (conversationStillListed E I uuid job)"
    and "mild E (ListBlockedBlogs I owner)" and "mild E (blockTarget E I portal)"
    and "mild E (block_allows E I check job portal)" and "mild E (markConversationRead E I c)"
proof -
  note http = inbound_http [OF assms(2)]
  show 1: "mild E (list_conversations I uuid limit before)" for uuid limit before
    unfolding list_conversations_def by (intro calm_intros http)
  have 2: "mild E (listed_loop n E I uuid c startedAt before seen ids)" for n uuid c startedAt before seen ids
  proof (induction n arbitrary: before seen ids)
    case 0
    show ?case unfolding listed_loop.simps by (intro moves_intros)
  next
    case (Suc n)
    show ?case unfolding listed_loop.simps by (intro moves_intros calm_intros assms 1 Suc)
  qed
  show "mild E (conversationStillListed E I uuid job)"
    unfolding conversationStillListed_def by (intro moves_intros calm_intros 2)
  have 3: "mild E (block_pages n I owner offset k seen blogs)" for n offset k seen blogs
  proof (induction n arbitrary: offset k seen blogs)
    case 0
    show ?case unfolding block_pages.simps by (intro moves_intros)
  next
    case (Suc n)
    show ?case unfolding block_pages.simps by (intro moves_intros calm_intros http Suc)
  qed
  show "mild E (ListBlockedBlogs I owner)"
    unfolding ListBlockedBlogs_def by (intro moves_intros 3)
  show 4: "mild E (blockTarget E I portal)" for portal
    unfolding blockTarget_def by (intro moves_intros assms)
  show "mild E (block_allows E I check job portal)"
    unfolding block_allows_def by (intro moves_intros 4)
  show "mild E (markConversationRead E I c)"
    unfolding markConversationRead_def by (intro moves_intros calm_intros assms http)
qed

end

section \<open>The inbound tables\<close>

definition job_keys :: "tables \<Rightarrow> (string \<times> string \<times> string) set" where
  "job_keys t = job_key ` set (jobs t)"

text \<open>A step of the inbound tables that adds no completed boundary and loses no job.\<close>

definition inbound_step :: "tables \<Rightarrow> tables \<Rightarrow> bool" where
  "inbound_step t t' \<longleftrightarrow>
     outbound t' = outbound t \<and> receipts t' = receipts t \<and> set (logins t) \<subseteq> set (logins t') \<and>
     set (conversation_syncs t') \<subseteq> set (conversation_syncs t) \<and> job_keys t \<subseteq> job_keys t'"

fun is_grave :: "effect \<Rightarrow> bool" where
  "is_grave (Posted ev rq err) = True"
| "is_grave (RoomRemoved x) = True"
| "is_grave _ = False"

fun is_removal :: "effect \<Rightarrow> bool" where
  "is_removal (RoomRemoved x) = True"
| "is_removal _ = False"

definition graves :: "world \<Rightarrow> effect list" where
  "graves w = filter is_grave (w_effects w)"

definition removals :: "world \<Rightarrow> effect list" where
  "removals w = filter is_removal (w_effects w)"

lemma filter_sub: "(\<And>e. q e \<Longrightarrow> p e) \<Longrightarrow> filter p xs = filter p ys \<Longrightarrow> filter q xs = filter q ys"
proof -
  assume sub: "\<And>e. q e \<Longrightarrow> p e" and eq: "filter p xs = filter p ys"
  have "filter q zs = filter q (filter p zs)" for zs
    using sub by (induction zs) auto
  then show ?thesis using eq by metis
qed

lemma removals_deeds: "deeds w' = deeds w \<Longrightarrow> removals w' = removals w"
  unfolding deeds_def removals_def by (rule filter_sub [of is_removal is_deed]) (auto elim: is_removal.elims)

lemma removals_graves: "graves w' = graves w \<Longrightarrow> removals w' = removals w"
  unfolding graves_def removals_def by (rule filter_sub [of is_removal is_grave]) (auto elim: is_removal.elims)

lemma posts_graves: "graves w' = graves w \<Longrightarrow> posts w' = posts w"
  unfolding graves_def posts_def by (rule filter_sub [of is_post is_grave]) (auto elim: is_post.elims)

lemma step_same: "inbound_step t t"
  by (simp add: inbound_step_def)

lemma keys_update:
  assumes "\<And>r. job_key (f r) = job_key r"
  shows "job_keys (t\<lparr>jobs := update_where p f (jobs t)\<rparr>) = job_keys t"
proof -
  have "job_key (if p r then f r else r) = job_key r" for r using assms by simp
  then have "job_key ` (\<lambda>r. if p r then f r else r) ` set (jobs t) = job_key ` set (jobs t)"
    by (simp only: image_image)
  moreover have "set (jobs (t\<lparr>jobs := update_where p f (jobs t)\<rparr>)) = (\<lambda>r. if p r then f r else r) ` set (jobs t)"
    by (simp add: update_where_def)
  ultimately show ?thesis by (simp only: job_keys_def)
qed

lemma upsert_step: "(\<And>r. job_key (f r) = job_key r) \<Longrightarrow> inbound_step t (snd (upsert_job new f t))"
  using keys_update [of f "job_at (jb_bridge_id new) (jb_user_login_id new) (jb_conversation_id new)" t]
  by (auto simp: upsert_job_def inbound_step_def Let_def) (auto simp: job_keys_def)

lemma update_step: "(\<And>r. job_key (f r) = job_key r) \<Longrightarrow> inbound_step t (snd (update_job p f t))"
  using keys_update [of f p t] by (auto simp: update_job_def inbound_step_def)

lemma put_step: "inbound_step t (snd (putConversationJob b l c now t))"
proof -
  have "inbound_step t (snd (upsert_job (fresh_job b l c 0 [] now) (bumped 0 now) t))"
    by (rule upsert_step) (simp add: bumped_def job_key_def)
  then show ?thesis
    by (auto simp: putConversationJob_def step_same split: prod.splits sum.splits option.splits)
qed

lemma job_statement_steps:
  "inbound_step t (snd (ensureConversationJob b l c now t))"
  "inbound_step t (snd (putLiveConversationJob b l c now t))"
  "inbound_step t (snd (scheduleConversationJobDeleteRoom b l c next room now t))"
  "inbound_step t (snd (setConversationJobDeleteRoom b l c rv room now t))"
  "inbound_step t (snd (markConversationJobRetry b l c rv next code now t))"
  unfolding ensureConversationJob_def putLiveConversationJob_def scheduleConversationJobDeleteRoom_def
    setConversationJobDeleteRoom_def markConversationJobRetry_def
  by (rule upsert_step update_step; simp add: bumped_def job_key_def)+

lemma sync_statement_steps:
  "inbound_step t (snd (setScanSuccess b l wm at t))" "inbound_step t (snd (deleteConversationSync b l c t))"
  by (auto simp: setScanSuccess_def deleteConversationSync_def inbound_step_def job_keys_def)

section \<open>Relations the inbound code respects\<close>

locale inbound_relation = quiet_relation +
  assumes inbound: "inbound_step (tbl w) (tbl w') \<Longrightarrow> graves w' = graves w \<Longrightarrow>
      set (deeds w) \<subseteq> set (deeds w') \<Longrightarrow> R pke w w'"
begin

lemma exec_moves:
  assumes "\<And>t. inbound_step t (snd (f t))"
  shows "moves (R pke) (exec f)"
  unfolding moves_def
proof (intro allI r_into_rtranclp)
  fix w :: world
  have "graves (snd (exec f w)) = graves w" and "deeds (snd (exec f w)) = deeds w"
    by (auto simp: exec_def graves_def deeds_def split: list.split bool.split prod.split)
  moreover have "inbound_step (tbl w) (tbl (snd (exec f w)))"
    using exec_tbl [of f w] assms [of "tbl w"] step_same by metis
  ultimately show "R pke w (snd (exec f w))" by (intro inbound) simp_all
qed

lemma jobs_mild [calm_intros]:
  "moves (R pke) (Jobs_Ensure b l c now)" "moves (R pke) (Jobs_Put b l c now)"
  "moves (R pke) (Jobs_PutLiveConversation b l c now)"
  "moves (R pke) (Jobs_SetDeleteRoom b l c rv room now)"
  "moves (R pke) (Jobs_ScheduleDeleteRoom b l c room nb now)"
  "moves (R pke) (Jobs_MarkRetry b l c rv nx code now)"
  "moves (R pke) (SyncState_SetScanSuccess b l wm at)"
  "moves (R pke) (ConversationSync_Delete b l c)"
  unfolding Jobs_Ensure_def Jobs_Put_def Jobs_PutLiveConversation_def Jobs_SetDeleteRoom_def
    Jobs_ScheduleDeleteRoom_def Jobs_MarkRetry_def SyncState_SetScanSuccess_def ConversationSync_Delete_def
  by (intro moves_intros exec_moves job_statement_steps sync_statement_steps put_step)+

lemma delivered_moves [moves_intros]: "moves (R pke) (emit (Delivered ev))"
  by (auto simp: moves_def graves_def deeds_def emit_def step_same intro!: r_into_rtranclp inbound)

lemma queue_event_mild [calm_intros]:
  assumes "outside_env F E" and "outside_inbound (e_pke E) F I"
  shows "mild E (queueRemoteEvent E I ev)"
  unfolding queueRemoteEvent_def by (intro moves_intros assms)

lemma queue_error_mild [calm_intros]: "mild E (remoteEventQueueError r s)"
  unfolding remoteEventQueueError_def by (intro moves_intros)

lemma queue_messages_mild [calm_intros]:
  assumes "outside_env F E" and "outside_inbound (e_pke E) F I"
  shows "mild E (queue_messages E I key fb x ms)"
proof (induction ms)
  case Nil
  show ?case unfolding queue_messages.simps by (intro moves_intros)
next
  case (Cons m ms)
  show ?case unfolding queue_messages.simps
    by (intro moves_intros calm_intros description_mild assms Cons)
qed

lemma deliver_mild [calm_intros]:
  assumes "outside_env F E" and "outside_inbound (e_pke E) F I"
  shows "mild E (deliverConversation E I d)"
  unfolding deliverConversation_def queueConversationMessageChain_def
  by (intro moves_intros calm_intros assms)

lemma live_mild [calm_intros]:
  assumes "outside_env F E"
  shows "mild E (put_live E c)" and "mild E (cancel_deletion E c resp)" and "mild E (enqueueConversationSync E c)"
    and "mild E (putLiveConversationJob_locked E c)" and "mild E (queueChangedConversationHead E c head)"
    and "mild E (retry_job E job e)" and "mild E (cleanup_job E c rv j)"
proof -
  show 1: "mild E (put_live E c)" for c unfolding put_live_def by (intro moves_intros calm_intros)
  show "mild E (cancel_deletion E c resp)"
    unfolding cancel_deletion_def by (intro moves_intros calm_intros 1)
  show 2: "mild E (putLiveConversationJob_locked E c)" for c
    unfolding putLiveConversationJob_locked_def by (intro moves_intros assms 1)
  show "mild E (enqueueConversationSync E c)"
    unfolding enqueueConversationSync_def by (intro moves_intros 2)
  show "mild E (queueChangedConversationHead E c head)"
    unfolding queueChangedConversationHead_def by (intro moves_intros calm_intros assms 1)
  show "mild E (retry_job E job e)"
    unfolding retry_job_def tumblrConversationJobBackoff_def by (intro moves_intros calm_intros)
  show "mild E (cleanup_job E c rv j)"
    unfolding cleanup_job_def by (intro moves_intros calm_intros)
qed

lemma walks_mild [calm_intros]:
  assumes "outside_env F E" and "outside_inbound (e_pke E) F I"
  shows "mild E (probeChangedConversationHeads E I observed)" and "mild E (reconcileConversationHead E I)"
    and "mild E (reconcileConversationDeletions E I)"
proof -
  have 1: "mild E (probe_heads E ob cs latest queued nxt)" for ob cs latest queued nxt
  proof (induction cs arbitrary: latest queued nxt)
    case Nil
    show ?case unfolding probe_heads.simps by (intro moves_intros)
  next
    case (Cons c cs)
    show ?case unfolding probe_heads.simps by (intro moves_intros calm_intros assms Cons)
  qed
  show "mild E (probeChangedConversationHeads E I observed)"
    unfolding probeChangedConversationHeads_def by (intro moves_intros calm_intros assms 1)
  have 2: "mild E (queue_page E prv cs wm older)" for prv cs wm older
  proof (induction cs arbitrary: wm older)
    case Nil
    show ?case unfolding queue_page.simps by (intro moves_intros)
  next
    case (Cons c cs)
    show ?case unfolding queue_page.simps by (intro moves_intros calm_intros assms Cons)
  qed
  have 3: "mild E (head_loop n E I uuid prv before seen wm)" for n uuid prv before seen wm
  proof (induction n arbitrary: before seen wm)
    case 0
    show ?case unfolding head_loop.simps by (intro moves_intros)
  next
    case (Suc n)
    show ?case unfolding head_loop.simps by (intro moves_intros calm_intros assms 2 Suc)
  qed
  show "mild E (reconcileConversationHead E I)"
    unfolding reconcileConversationHead_def Let_def by (intro moves_intros calm_intros assms 3)
  have 4: "mild E (queue_missing E ids ups queued)" for ids ups queued
  proof (induction ups arbitrary: queued)
    case Nil
    show ?case unfolding queue_missing.simps by (intro moves_intros)
  next
    case (Cons up ups)
    show ?case unfolding queue_missing.simps by (intro moves_intros calm_intros Cons)
  qed
  have 5: "mild E (deletions_loop n E I uuid at before seen ids)" for n uuid at before seen ids
  proof (induction n arbitrary: before seen ids)
    case 0
    show ?case unfolding deletions_loop.simps by (intro moves_intros)
  next
    case (Suc n)
    show ?case unfolding deletions_loop.simps enqueueMissingConversationChecks_def
      by (intro moves_intros calm_intros assms 4 Suc)
  qed
  show "mild E (reconcileConversationDeletions E I)"
    unfolding reconcileConversationDeletions_def by (intro moves_intros calm_intros assms 5)
qed

lemma user_mild [calm_intros]:
  assumes "outside_env F E" and "outside_inbound (e_pke E) F I"
  shows "mild E (handleMatrixDeleteChat E I content portal)" and "mild E (HandleMatrixBlockUser E I plain portal blk)"
    and "mild E (HandleMatrixReadReceipt E I portal upTo last_read)" and "mild E (HandleMatrixViewingChat E I portal)"
proof -
  note http = inbound_http [OF assms(2)]
  show "mild E (handleMatrixDeleteChat E I content portal)"
    unfolding handleMatrixDeleteChat_def Let_def
    by (intro moves_intros moves_case_bool calm_intros assms http)
  show "mild E (HandleMatrixBlockUser E I plain portal blk)"
    unfolding HandleMatrixBlockUser_def by (intro moves_intros calm_intros assms http)
  show "mild E (HandleMatrixReadReceipt E I portal upTo last_read)"
    unfolding HandleMatrixReadReceipt_def by (intro moves_intros calm_intros assms)
  show "mild E (HandleMatrixViewingChat E I portal)"
    unfolding HandleMatrixViewingChat_def markPortalRead_def by (intro moves_intros calm_intros assms)
qed

lemma confirmed_mild [calm_intros]:
  assumes "outside_env F E" and "outside_inbound (e_pke E) F I"
  shows "mild E (removal_confirmed E I check c job uuid)"
  unfolding removal_confirmed_def keep_listed_def by (intro moves_intros calm_intros assms)

lemma remove_portal_mild [calm_intros]:
  assumes "outside_env F E"
  shows "mild E (remove_portal E c rv)"
proof -
  have 2: "mild E (deletedConversationRoomID E c rv portal)" for portal
    unfolding deletedConversationRoomID_def saved_delete_room_def Let_def by (intro moves_intros calm_intros)
  show "mild E (remove_portal E c rv)"
    unfolding remove_portal_def Let_def by (intro moves_intros calm_intros assms 2)
qed

end

section \<open>Removing a room\<close>

locale removing_relation = inbound_relation +
  assumes removal: "tbl w' = tbl w \<Longrightarrow> posts w' = posts w \<Longrightarrow> set (deeds w) \<subseteq> set (deeds w') \<Longrightarrow> R pke w w'"
begin

lemma removed_moves [moves_intros]: "moves (R pke) (emit (RoomRemoved x))"
  by (auto simp: moves_def posts_def deeds_def emit_def intro!: r_into_rtranclp removal)

lemma deletion_mild [calm_intros]:
  assumes "outside_env F E" and "outside_inbound (e_pke E) F I"
  shows "mild E (handleRemoteConversationDelete E I check c rv)"
    and "mild E (resumeRemoteConversationDelete E I check c rv)"
    and "mild E (syncConversationByIDWithSubmissionLock E I check c rv)"
proof -
  note http = inbound_http [OF assms(2)]
  have 1: "mild E (finishTumblrConversationDelete E I key room)" for key room
    unfolding finishTumblrConversationDelete_def ensureTumblrMatrixRoomDeleted_def
      ensureTumblrFilteringSpaceChildRemoved_def Let_def
    by (intro moves_intros calm_intros assms)
  have 2: "mild E (remove_conversation E I c rv)" for c rv
    unfolding remove_conversation_def by (intro moves_intros calm_intros assms 1)
  show 3: "mild E (handleRemoteConversationDelete E I check c rv)" for c rv
    unfolding handleRemoteConversationDelete_def delete_missing_def GetConversationBefore_def
    by (intro moves_intros calm_intros assms http 2)
  show "mild E (resumeRemoteConversationDelete E I check c rv)"
    unfolding resumeRemoteConversationDelete_def Let_def by (intro moves_intros calm_intros assms 3)
  show "mild E (syncConversationByIDWithSubmissionLock E I check c rv)"
    unfolding syncConversationByIDWithSubmissionLock_def sync_fetched_def superseded_by_def
    by (intro moves_intros calm_intros assms 3)
qed

end

section \<open>The relations\<close>

text \<open>No completed boundary is added, no job is lost and no deed is undone; no room is removed.\<close>

definition receding :: "(portal_key \<Rightarrow> bool) \<Rightarrow> world \<Rightarrow> world \<Rightarrow> bool" where
  "receding pke w w' \<longleftrightarrow>
     set (conversation_syncs (tbl w')) \<subseteq> set (conversation_syncs (tbl w)) \<and>
     job_keys (tbl w) \<subseteq> job_keys (tbl w') \<and> set (deeds w) \<subseteq> set (deeds w')"

definition sparing :: "(portal_key \<Rightarrow> bool) \<Rightarrow> world \<Rightarrow> world \<Rightarrow> bool" where
  "sparing pke w w' \<longleftrightarrow> removals w' = removals w"

lemma step_moves: "inbound_step t t' \<Longrightarrow> (quiet_move pke)\<^sup>*\<^sup>* t t'"
  by (rule stmt_step) (auto simp: inbound_step_def intro!: outbound_step.environment)

interpretation tamed_inbound: removing_relation tame leaves
  by unfold_locales (auto simp: tame_def on_tables_def intro: step_moves posts_graves)

interpretation recession: removing_relation receding leaves_all
  by unfold_locales (auto simp: receding_def leaves_all_def inbox_def job_keys_def inbound_step_def)

lemma receding_rtrancl: "(receding pke)\<^sup>*\<^sup>* w w' \<Longrightarrow> receding pke w w'"
  by (induction rule: rtranclp_induct) (auto simp: receding_def)

lemma recedes: "moves (receding pke) m \<Longrightarrow> m w = (r, w') \<Longrightarrow> receding pke w w'"
  using receding_rtrancl [OF movesD [of "receding pke" m w]] by simp

lemma sparing_rtrancl: "(sparing pke)\<^sup>*\<^sup>* w w' \<Longrightarrow> sparing pke w w'"
  by (induction rule: rtranclp_induct) (auto simp: sparing_def)

lemma spares: "moves (sparing pke) m \<Longrightarrow> m w = (r, w') \<Longrightarrow> removals w' = removals w"
  using sparing_rtrancl [OF movesD [of "sparing pke" m w]] by (simp add: sparing_def)

interpretation spared: inbound_relation sparing leaves
  by unfold_locales (auto simp: sparing_def intro: removals_deeds removals_graves)

section \<open>The inbound worker is tame\<close>

definition foreign_inbound :: "env \<Rightarrow> inbound_env \<Rightarrow> bool" where
  "foreign_inbound E I \<longleftrightarrow> outside_inbound (e_pke E) leaves I"

lemma commit_calm [calm_intros]:
  assumes "foreign_env E"
  shows "calm E (commitConversationDelivery E d)" and "moves (tame (e_pke E)) (Jobs_Delete b l c rv)"
proof -
  have 1: "outbound_step (e_pke E) t None (snd (setConversationSync b l c msg at t))" for b l c msg at t
    by (rule outbound_step.environment) (auto simp: setConversationSync_def)
  have 2: "outbound_step (e_pke E) t None (snd (deleteConversationJob b l c rv t))" for b l c rv t
    by (rule outbound_step.environment) (auto simp: deleteConversationJob_def delete_job_def)
  have step: "moves (tame (e_pke E)) (exec f)" if "\<And>t. outbound_step (e_pke E) t None (snd (f t))" for f :: "'x stmt"
    unfolding moves_def
  proof (intro allI r_into_rtranclp)
    fix w :: world
    have "(quiet_move (e_pke E))\<^sup>*\<^sup>* (tbl w) (tbl (snd (exec f w)))"
      using exec_tbl [of f w] stmt_step [OF that [of "tbl w"]] by auto
    moreover have "posts (snd (exec f w)) = posts w"
      by (auto simp: exec_def posts_def split: list.split bool.split prod.split)
    ultimately show "tame (e_pke E) w (snd (exec f w))" by (simp add: tame_def on_tables_def)
  qed
  show "calm E (commitConversationDelivery E d)"
    unfolding commitConversationDelivery_def ConversationSync_SetCompletedHead_def
    by (intro moves_intros calm_intros assms step 1)
  show "moves (tame (e_pke E)) (Jobs_Delete b l c rv)"
    unfolding Jobs_Delete_def by (intro moves_intros step 2)
qed

lemma inbound_calm_sync:
  assumes "foreign_env E" "foreign_inbound E I"
  shows "calm_sync E (inbound_sync_ops E I check rv)"
  using assms unfolding calm_sync_def inbound_sync_ops_def foreign_inbound_def
  by (auto intro!: tamed_inbound.deletion_mild tamed_inbound.deliver_mild commit_calm)

lemma jobs_calm [calm_intros]:
  assumes "foreign_env E" "foreign_inbound E I"
  shows "calm E (processSelectedConversationJob E I job)"
proof -
  note inb = assms(2) [unfolded foreign_inbound_def]
  have 1: "calm E (run_job E I check job)" for check job
    unfolding run_job_def synchronise_def
    by (intro moves_intros calm_intros tamed_inbound.deletion_mild inbound_calm_sync assms inb)
  have 2: "calm E (finish_job E job outcome)" for job outcome
    unfolding finish_job_def by (intro moves_intros calm_intros tamed_inbound.live_mild assms)
  have 3: "calm E (processSelectedConversationJobWithBlockCheck E I check job)" for check
    unfolding processSelectedConversationJobWithBlockCheck_def
    by (intro moves_intros calm_intros tamed.read_store_mild assms 1 2)
  show ?thesis
    unfolding processSelectedConversationJob_def note_remote_error_def
    by (intro moves_intros calm_intros tamed.listing_mild assms inb 3)
qed

lemma process_jobs_calm [calm_intros]:
  assumes "foreign_env E" "foreign_inbound E I"
  shows "calm E (processDueConversationJobs n E I)"
proof (induction n)
  case 0
  show ?case unfolding processDueConversationJobs.simps by (rule tamed.clocked_mild)
next
  case (Suc n)
  show ?case
    unfolding processDueConversationJobs.simps
    by (intro moves_intros calm_intros tamed.clocked_mild tamed.seen_mild tamed.read_store_mild assms Suc)
qed

end
