(* ===== verification/InboundSamples.thy ===== *)
theory InboundSamples
  imports InboundMoves ClientProperties
begin

text \<open>
  A concrete framework and remote service on which the properties of the inbound code are
  instantiated: one conversation with one message, and a service that has nothing.
\<close>

definition answering_http :: http_env where
  "answering_http = sample_http\<lparr>
     h_exchange := (\<lambda>_. accept (sample_answer 200 ''ok'')),
     h_envelope := (\<lambda>_. (empty_envelope\<lparr>en_Response := ''x''\<rparr>, None))\<rparr>"

definition sample_portal :: portal_object where
  "sample_portal =
     \<lparr>pt_object = 0, pt_bridge_id = ''b'', pt_key = \<lparr>pk_id = ''c'', pk_receiver = ''u''\<rparr>, pt_mxid = ''!r'',
      pt_meta = None\<rparr>"

definition fetched_message :: remote_message where
  "fetched_message =
     \<lparr>rm_ID = ''m'', rm_Type = ''TEXT'', rm_Participant = None, rm_Text = Some ''hi'', rm_PostID = None,
      rm_Images = [], rm_Timestamp = 5\<rparr>"

definition fetched_page :: history_response where
  "fetched_page =
     \<lparr>hr_Conversation = Some \<lparr>cv_ID = ''c'', cv_Participants = [], cv_Messages = [], cv_LastReadTimestamp = 0,
        cv_LastModifiedTimestamp = 0\<rparr>,
      hr_Messages = [fetched_message], hr_Next = None\<rparr>"

definition sample_inbound :: "http_env \<Rightarrow> inbound_env" where
  "sample_inbound H =
     \<lparr>i_http = H, i_history = (\<lambda>_. Inr fetched_page), i_list = (\<lambda>_. Inr \<lparr>lr_Conversations = [], lr_Next = None\<rparr>),
      i_user_info = (\<lambda>_. Inr \<lparr>ur_UserName = [], ur_Blogs = []\<rparr>), i_blocks = (\<lambda>_. Inr \<lparr>bp_Blogs = None, bp_Next = None\<rparr>),
      i_query_param = (\<lambda>_ _. Inr []), i_atoi = (\<lambda>_. None), i_template = (\<lambda>_ _. None), i_limit = 50,
      i_background = False, i_logged_in = accept True, i_save_blog = (\<lambda>_. accept ()), i_save_login = accept (),
      i_portal_create = (\<lambda>_. accept None), i_user_portal = (\<lambda>_. accept ()), i_user_portals = accept [],
      i_create_room = (\<lambda>_ _. accept ()), i_update_info = (\<lambda>_ _. accept ()),
      i_queue = (\<lambda>_. accept \<lparr>er_Success = True, er_Queued = False, er_Error = None\<rparr>),
      i_members = (\<lambda>_. accept MatrixOk), i_delete_room = (\<lambda>_. accept MatrixOk), i_space_child = (\<lambda>_ _. accept MatrixOk),
      i_filtering_spaces = False, i_space_room = [], i_room_is_dm = (\<lambda>_. False), i_other_user = (\<lambda>_. []),
      i_block_pages = 1\<rparr>"

definition inbound_world_env :: env where
  "inbound_world_env = sample_env\<lparr>
     e_metadata := accept \<lparr>lm_SelectedBlogUUID = ''s'', lm_SelectedBlogName = ''name''\<rparr>\<rparr>"

definition bridged_env :: env where
  "bridged_env = inbound_world_env\<lparr>
     e_portal := (\<lambda>_. accept (Some sample_portal)), e_db_portal_by_key := (\<lambda>_. accept (Some sample_portal))\<rparr>"

lemma stays_all_samples [simp]: "stays leaves_all refuse" "stays leaves_all (accept x)"
  by (simp_all add: stays_def leaves_all_def leaves_def refuse_def accept_def)

lemma echoing_sample [simp]: "echoing pke (accept x)"
  by (simp add: echoing_def accept_def)

lemma sample_outside:
  "outside_env leaves_all bridged_env" "outside_env leaves bridged_env" "outside_env leaves_all inbound_world_env"
  "outside_env leaves inbound_world_env"
  by (simp_all add: outside_env_def bridged_env_def inbound_world_env_def sample_env_def)

lemma sample_outside_inbound:
  "outside_inbound pke leaves (sample_inbound sample_http)" "outside_inbound pke leaves_all (sample_inbound sample_http)"
  "outside_inbound pke leaves (sample_inbound answering_http)" "outside_inbound pke leaves_all (sample_inbound answering_http)"
  by (simp_all add: outside_inbound_def sample_inbound_def outside_http_def sample_http_def answering_http_def)

section \<open>Requests\<close>

lemma no_csrf: "an_csrf a = [] \<Longrightarrow> an_csrf_token a = [] \<Longrightarrow> responseCSRFToken a = []"
  by (simp add: responseCSRFToken_def normalizeOptionalHeaderCredential_def trim_space_Nil)

lemma seq_ret: "seq (ret ()) m = m"
  by (rule ext) (simp add: andThen_def ret_def)

lemma single_request:
  assumes "cl_apiToken (w_client w) \<noteq> []" and "doOnce H ''GET'' path q NoBody out w = (r, w')"
    and "\<And>e. r = Inl e \<Longrightarrow> \<not> ShouldRefreshAuth e False"
  shows "do_request H ''GET'' path q NoBody out w = (r, w')"
proof -
  have get: "\<not> isMutating ''GET''" by (simp add: isMutating_def)
  have client: "andThen the_client f v = f (w_client v) v" for f :: "http_client \<Rightarrow> 'x act" and v
    by (simp add: andThen_def the_client_def)
  have loop: "do_loop H ''GET'' path q NoBody out False ds w = (r, w')" for ds
    using assms(2,3)
    by (subst do_loop.simps) (cases r; simp add: client attempt_apply get ret_def raise_def isRetryableTransientSendError_def)
  show ?thesis
    using assms(1) by (simp add: do_request_def client needsBootstrap_def get seq_ret loop)
qed

lemma answered_once:
  assumes "h_exchange H = (\<lambda>_. accept a)" and "h_parse H = (\<lambda>_. Inr u)" and "an_csrf a = []" "an_csrf_token a = []"
  shows "doOnce H meth path q body out w = (read_answer H out a, w\<lparr>w_tick := Suc (w_tick w)\<rparr>)"
  using assms
  by (simp add: doOnce_def doOnceWithRedirectPolicy_def andThen_def the_client_def attempt_def foreign_def accept_def
      no_csrf ret_def of_result_def raise_def split: sum.split)

lemma page_request:
  assumes "w_client w = sample_client" and "f ''x'' = Inr x"
  shows "do_request answering_http ''GET'' path q NoBody (Decode f) w = (Inr x, w\<lparr>w_tick := Suc (w_tick w)\<rparr>)"
proof (rule single_request)
  have "read_answer answering_http (Decode f) (sample_answer 200 ''ok'') = Inr x"
    using assms(2)
    by (simp add: read_answer_def sample_answer_def limited_body_def answering_http_def successful_def decode_response_def
        empty_envelope_def maxAPIResponseBytes_def trim_space_visible visible_def)
  moreover have "doOnce answering_http ''GET'' path q NoBody (Decode f) w =
      (read_answer answering_http (Decode f) (sample_answer 200 ''ok''), w\<lparr>w_tick := Suc (w_tick w)\<rparr>)"
    by (rule answered_once [where u = sample_url]) (simp_all add: answering_http_def sample_http_def sample_answer_def)
  ultimately show "doOnce answering_http ''GET'' path q NoBody (Decode f) w = (Inr x, w\<lparr>w_tick := Suc (w_tick w)\<rparr>)" by simp
qed (simp_all add: assms sample_client_def)

definition not_found :: go_error where
  "not_found = envelope_error sample_http 404 [] empty_envelope []"

lemma not_found_is: "IsNotFound not_found" "\<not> ShouldRefreshAuth not_found b"
  by (simp_all add: not_found_def envelope_error_def IsNotFound_def ShouldRefreshAuth_def errors_as_def api_IsNotFound_def
      IsForbidden_def api_IsSessionInvalid_def api_IsForbidden_def empty_envelope_def safeAPIErrors_def
      IsSessionInvalid.simps [of "ApiError _"] walk.simps [of "ApiError _"])

lemma missing_request:
  assumes "w_client w = sample_client"
  shows "do_request sample_http ''GET'' path q NoBody (Decode f) w = (Inl not_found, w\<lparr>w_tick := Suc (w_tick w)\<rparr>)"
proof (rule single_request)
  have "read_answer sample_http (Decode f) (sample_answer 404 []) = Inl not_found"
    by (simp add: read_answer_def sample_answer_def limited_body_def successful_def not_found_def sample_http_def envelope_error_def)
  moreover have "doOnce sample_http ''GET'' path q NoBody (Decode f) w =
      (read_answer sample_http (Decode f) (sample_answer 404 []), w\<lparr>w_tick := Suc (w_tick w)\<rparr>)"
    by (rule answered_once [where u = sample_url]) (simp_all add: sample_http_def sample_answer_def)
  ultimately show "doOnce sample_http ''GET'' path q NoBody (Decode f) w = (Inl not_found, w\<lparr>w_tick := Suc (w_tick w)\<rparr>)" by simp
qed (use assms not_found_is in \<open>auto simp: sample_client_def\<close>)

section \<open>A conversation with one message\<close>

definition blank_conversation :: "string \<Rightarrow> conversation" where
  "blank_conversation c =
     \<lparr>cv_ID = c, cv_Participants = [], cv_Messages = [], cv_LastReadTimestamp = 0, cv_LastModifiedTimestamp = 0\<rparr>"

definition fetched_conversation :: conversation where
  "fetched_conversation = (blank_conversation ''c'')\<lparr>cv_Messages := [fetched_message]\<rparr>"

lemma valid_samples: "validRemoteID ''c''" "validRemoteID ''m''" "validRemoteID (rm_ID fetched_message)"
  "rm_ID fetched_message = ''m''"
  by (simp_all add: validRemoteID_def fetched_message_def not_blank_visible visible_def rune_list_def maxRemoteIDRunes_def
      containsMetadataSpaceOrControl_def is_space_rune_def is_control_rune_def)

lemma sample_identifiers:
  "requireIdentifierValue ''name'' f = Inr ''name''" "requireIdentifierValue ''c'' f = Inr ''c''"
  "requireIdentifierValue ''s'' f = Inr ''s''"
  by (simp_all add: requireIdentifierValue_def requireNonEmpty_def trim_space_visible visible_def
      containsSpaceOrControl_def rune_list_def maxIdentifierRunes_def is_space_rune_def is_control_rune_def)

lemma run_sample:
  "time_now w = (Inr (w_clock w (w_tick w)), w\<lparr>w_tick := Suc (w_tick w)\<rparr>)"
  "foreign (accept x) w = (Inr x, w\<lparr>w_tick := Suc (w_tick w)\<rparr>)"
  by (simp_all add: time_now_def foreign_def accept_def)

lemma page_of_sample:
  assumes "w_client w = sample_client"
  shows "GetConversationBefore (sample_inbound answering_http) ''name'' ''c'' 50 [] w = (Inr fetched_page, w\<lparr>w_tick := Suc (w_tick w)\<rparr>)"
  using page_request [OF assms, of "\<lambda>_. Inr fetched_page" fetched_page]
  by (simp add: GetConversationBefore_def getConversationMessages_def sample_identifiers of_result_def optional_cursor_def
      andThen_def ret_def sample_inbound_def)

lemma sample_page_error: "history_error ''c'' (Some (hr_Conversation fetched_page, hr_Messages fetched_page)) = None"
  by (simp add: history_error_def fetched_page_def valid_samples)

lemma sample_scan:
  assumes "w_client w = sample_client"
  shows "history_loop (Suc n) (GetConversationBefore (sample_inbound answering_http) ''name'' ''c'' 50)
      (nextBeforeCursor (i_query_param (sample_inbound answering_http)))
      \<lparr>hg_listed = blank_conversation ''c'', hg_catchUp = True, hg_boundary = [], hg_boundaryAt = at\<rparr> [] {} [] None w =
    (Inr (fetched_conversation, ''m''), w\<lparr>w_tick := Suc (Suc (w_tick w))\<rparr>)"
proof -
  have head: "conversationPageHeadMessageID [fetched_message] v = (Inr ''m'', v\<lparr>w_tick := Suc (w_tick v)\<rparr>)" for v
    by (simp add: conversationPageHeadMessageID_def sortedMessages_def sortedMessagesWithReference_def newest_valid_def
        andThen_def run_sample ret_def valid_samples)
  have page: "conversationMessagesFromResponse fetched_page = [fetched_message]"
    by (simp add: conversationMessagesFromResponse_def fetched_page_def)
  have cursor: "nextBeforeCursor p (hr_Next fetched_page) = Inr []" for p
    by (simp add: nextBeforeCursor_def fetched_page_def)
  have merge: "(mergeConversationHistoryForSync (blank_conversation ''c'') fetched_page)\<lparr>cv_Messages := [fetched_message]\<rparr> =
      fetched_conversation"
    by (simp add: mergeConversationHistoryForSync_def fetched_page_def blank_conversation_def fetched_conversation_def)
  have agg: "aggregateConversationMessagePages [[fetched_message]] = [fetched_message]"
    by (simp add: aggregateConversationMessagePages_def)
  have none: "\<not> reaches_boundary \<lparr>hg_listed = l, hg_catchUp = b, hg_boundary = [], hg_boundaryAt = at\<rparr> ms" for l b ms
    by (simp add: reaches_boundary_def conversationPageContainsMessageID_def)
  have id: "cv_ID (blank_conversation ''c'') = ''c''" by (simp add: blank_conversation_def)
  show ?thesis
    using page_of_sample [OF assms] sample_page_error
    by (simp add: history_loop.simps attempt_apply id page head cursor merge agg none andThen_def ret_def trim_space_Nil Let_def)
qed

lemma inbound_ids [simp]: "e_bridge_id bridged_env = ''b''" "e_login_id bridged_env = ''u''"
  "e_bridge_id inbound_world_env = ''b''" "e_login_id inbound_world_env = ''u''" "e_pke bridged_env = empty_key"
  by (simp_all add: bridged_env_def inbound_world_env_def sample_env_def)

text \<open>\<open>returns P m Q\<close>: from a world with \<open>P\<close>, \<open>m\<close> succeeds with a result in \<open>Q\<close>, and \<open>P\<close> still holds.\<close>

definition returns :: "(world \<Rightarrow> bool) \<Rightarrow> 'a act \<Rightarrow> ('a \<Rightarrow> bool) \<Rightarrow> bool" where
  "returns P m Q \<longleftrightarrow> (\<forall>w. P w \<longrightarrow> (\<exists>x w'. m w = (Inr x, w') \<and> P w' \<and> Q x))"

named_theorems returns_intros \<open>runs that succeed\<close>

lemma returns_ret [returns_intros]: "Q x \<Longrightarrow> returns P (ret x) Q"
  by (simp add: returns_def ret_def)

lemma returns_andThen: "returns P m Q \<Longrightarrow> (\<And>x. Q x \<Longrightarrow> returns P (f x) S) \<Longrightarrow> returns P (andThen m f) S"
  unfolding returns_def by (metis andThen_Inr)

lemma returns_attempt: "returns P m Q \<Longrightarrow> (\<And>x. Q x \<Longrightarrow> returns P (f (Inr x)) S) \<Longrightarrow> returns P (attempt m f) S"
  unfolding returns_def by (metis attempt_apply)

lemma returns_wrapping: "returns P m Q \<Longrightarrow> returns P (wrapping msg m) Q"
  unfolding returns_def by (fastforce simp: wrapping_def)

text \<open>A world with an empty database whose statements do not fail, in which nothing was read yet.\<close>

definition idle :: "world \<Rightarrow> bool" where
  "idle w \<longleftrightarrow> tbl w = sample_tables [] [] \<and> faults w = [] \<and> w_client w = sample_client \<and>
     w_clock w = (\<lambda>n. 5000000000 + int n * second) \<and> w_context w = (\<lambda>_. None) \<and>
     ca_ReadBridged (w_caches w) = Map.empty"

lemma idle_sample: "idle (sample_world [] [])"
  by (simp add: idle_def sample_world_def sample_caches_def)

lemma idle_tick [simp]: "idle (w\<lparr>w_tick := n\<rparr>) = idle w"
  by (simp add: idle_def)

lemma idle_effects [simp]: "idle (w\<lparr>w_effects := es\<rparr>) = idle w"
  by (simp add: idle_def)

lemma idle_leaves:
  "returns idle time_now (\<lambda>t. 5000000000 \<le> t)" "returns idle ctx_err (\<lambda>e. e = None)"
  "returns idle (foreign (accept x)) (\<lambda>y. y = x)" "returns idle (emit e) (\<lambda>_. True)"
  "returns idle (lift_store (Jobs_Get b l c)) (\<lambda>j. j = None)"
  "returns idle (lift_store (ConversationSync_Get b l c)) (\<lambda>j. j = None)"
  by (auto simp: returns_def run_sample ctx_err_def emit_def lift_store_def Jobs_Get_def ConversationSync_Get_def query_def
      exec_def getConversationJob_def getConversationSync_def sample_tables_def idle_def)

lemma idle_guard: "returns idle ctx_guard (\<lambda>_. True)"
  unfolding ctx_guard_def by (rule returns_andThen [OF idle_leaves(2)]) (simp add: returns_ret)

lemma sample_fetch:
  "returns idle (fetchConversationForSync bridged_env (sample_inbound answering_http) ''name'' (blank_conversation ''c'') 50)
     (\<lambda>x. x = (fetched_conversation, ''m''))"
proof -
  have portal: "e_portal bridged_env k = accept (Some sample_portal)" for k
    by (simp add: bridged_env_def)
  have id: "cv_ID (blank_conversation ''c'') = ''c''" by (simp add: blank_conversation_def)
  have pages: "maxConversationMessagePages = Suc 999" by (simp add: maxConversationMessagePages_def)
  have scan: "returns idle (history_loop maxConversationMessagePages
      (GetConversationBefore (sample_inbound answering_http) ''name'' ''c'' 50)
      (nextBeforeCursor (i_query_param (sample_inbound answering_http)))
      \<lparr>hg_listed = blank_conversation ''c'', hg_catchUp = True, hg_boundary = [], hg_boundaryAt = zero_time\<rparr> [] {} [] None)
      (\<lambda>x. x = (fetched_conversation, ''m''))"
    unfolding returns_def
  proof (intro allI impI)
    fix w
    assume w: "idle w"
    then have "w_client w = sample_client" by (simp add: idle_def)
    from sample_scan [OF this, of 999, folded pages] w
    show "\<exists>x w'. history_loop maxConversationMessagePages
      (GetConversationBefore (sample_inbound answering_http) ''name'' ''c'' 50)
      (nextBeforeCursor (i_query_param (sample_inbound answering_http)))
      \<lparr>hg_listed = blank_conversation ''c'', hg_catchUp = True, hg_boundary = [], hg_boundaryAt = zero_time\<rparr> [] {} [] None w =
      (Inr x, w') \<and> idle w' \<and> x = (fetched_conversation, ''m'')" by simp
  qed
  have here: "(case Some sample_portal of Some p \<Rightarrow> pt_mxid p \<noteq> [] | None \<Rightarrow> False) = True"
    by (simp add: sample_portal_def)
  show ?thesis
    unfolding fetchConversationForSync_def id portal
    by (simp only: valid_samples not_True_eq_False if_False, rule returns_andThen [OF returns_wrapping [OF idle_leaves(3)]])
      (simp only: here Let_def if_True, rule returns_andThen [OF returns_wrapping [OF idle_leaves(6)]], simp add: scan)
qed

lemma sample_reconciled:
  "returns idle (reconcileOutboundConversation bridged_env fetched_conversation)
     (\<lambda>x. x = (\<lparr>rr_transactions = Map.empty, rr_heldMessageIDs = {}\<rparr>, fetched_conversation))"
proof -
  have lists: "lift_store (Outbound_ListUnbound p b ''u'') w = (Inr [], w)"
    "lift_store (Outbound_ListMatchable p b ''u'' ''c'') w = (Inr [], w)"
    "lift_store (Outbound_GetByRemoteID p b ''u'' ''c'' ''m'') w = (Inr None, w)" if "idle w" for p b w
    using that
    by (simp_all add: lift_store_def Outbound_ListUnbound_def Outbound_ListMatchable_def Outbound_GetByRemoteID_def
        query_def exec_def listUnboundOutboundSends_def listMatchableOutboundSends_def getOutboundSendByRemoteID_def
        scan_option_def idle_def sample_tables_def)
  have outbound_id: "validOutboundRemoteMessageID ''m''"
    using valid_samples by (simp add: validOutboundRemoteMessageID_def)
  show ?thesis
    by (simp add: returns_def reconcileOutboundConversation_def candidate_graph_def andThen_def lists ret_def fetched_conversation_def
        blank_conversation_def passed_messages_def held_messages_def valid_samples outbound_id open_messages_def eligible_sets_def)
qed

definition sample_delivery :: "gotime \<Rightarrow> conversation_delivery" where
  "sample_delivery at =
     \<lparr>cd_conversation = fetched_conversation, cd_portalKey = \<lparr>pk_id = ''c'', pk_receiver = ''u''\<rparr>,
      cd_messages = [fetched_message], cd_readReceipt = None, cd_fallbackTimestamp = at,
      cd_transactions = Map.empty, cd_heldMessageCount = 0, cd_fetchedHeadMessageID = ''m''\<rparr>"

lemma idle_seen: "returns idle (markConversationSeen cv) (\<lambda>_. True)"
proof -
  have see: "see_messages c ms k = (new, k') \<Longrightarrow> ca_ReadBridged k' = ca_ReadBridged k" for c ms k new k'
  proof (induction ms arbitrary: k new)
    case Nil
    then show ?case by simp
  next
    case (Cons m ms)
    then show ?case
      by (auto simp: Let_def storeSeenMessageLocked_def split: if_splits prod.splits)
  qed
  show ?thesis
    by (auto simp: returns_def markConversationSeen_def the_caches_def update_caches_def andThen_def ret_def sortedMessages_def
        time_now_def see_conversation_def idle_def split: prod.split dest!: see)
qed

lemma bridged_calls:
  "e_begin_owned bridged_env = accept True" "e_portal_lock bridged_env = accept ()"
  "e_portal bridged_env k = accept (Some sample_portal)" "e_db_portal_by_key bridged_env k = accept (Some sample_portal)"
  "e_portal_save bridged_env p = accept ()" "e_message_by_id bridged_env r i = accept None"
  "e_submission_lock bridged_env = accept ()"
  "e_portal_refresh bridged_env p q = accept ()" "e_client bridged_env = accept ()"
  "e_metadata bridged_env = accept \<lparr>lm_SelectedBlogUUID = ''s'', lm_SelectedBlogName = ''name''\<rparr>"
  by (simp_all add: bridged_env_def inbound_world_env_def sample_env_def)

lemma sample_calls:
  "i_user_portal (sample_inbound H) k = accept ()" "i_update_info (sample_inbound H) p ci = accept ()"
  "i_queue (sample_inbound H) ev = accept \<lparr>er_Success = True, er_Queued = False, er_Error = None\<rparr>"
  "i_logged_in (sample_inbound H) = accept True" "i_background (sample_inbound H) = False" "i_http (sample_inbound H) = H"
  by (simp_all add: sample_inbound_def)

lemma idle_portal: "returns idle (loadPortalWithPersistedParity bridged_env \<lparr>pk_id = ''c'', pk_receiver = ''u''\<rparr> (Some sample_portal))
    (\<lambda>p. p = Some sample_portal)"
proof -
  have key: "pt_key sample_portal = \<lparr>pk_id = ''c'', pk_receiver = ''u''\<rparr>" by (simp add: sample_portal_def)
  show ?thesis
    unfolding loadPortalWithPersistedParity_def bridged_calls
    by (rule returns_andThen [OF returns_wrapping [OF idle_leaves(3)]]) 
      (simp add: key bridged_calls refreshed_def returns_ret returns_andThen [OF idle_leaves(3)])
qed

lemma idle_room: "returns idle (ensureConversationPortalForSync bridged_env (sample_inbound answering_http)
    \<lparr>pk_id = ''c'', pk_receiver = ''u''\<rparr> fetched_conversation True) (\<lambda>_. True)"
proof -
  note leaf = idle_leaves(3) [THEN returns_wrapping]
  have key: "pt_key sample_portal = \<lparr>pk_id = ''c'', pk_receiver = ''u''\<rparr>" "pt_mxid sample_portal = ''!r''"
    by (simp_all add: sample_portal_def)
  have confirm: "returns idle (confirmTumblrPortalExists bridged_env \<lparr>pk_id = ''c'', pk_receiver = ''u''\<rparr>) (\<lambda>_. True)"
    unfolding confirmTumblrPortalExists_def bridged_calls
    by (rule returns_andThen [OF leaf], simp, rule returns_andThen [OF returns_wrapping [OF idle_portal]])
      (simp add: key returns_ret)
  have hash: "conversationParticipantHash bridged_env H fetched_conversation = []" for H
    by (simp add: conversationParticipantHash_def fetched_conversation_def blank_conversation_def)
  have info: "returns idle (chatInfoFromConversation bridged_env H t fetched_conversation) (\<lambda>_. True)" for H t
    by (simp add: chatInfoFromConversation_def conversationTitle_def chatMembersFromConversation_def fetched_conversation_def
        blank_conversation_def returns_def andThen_def ret_def)
  have room: "returns idle (sync_room bridged_env (sample_inbound answering_http) \<lparr>pk_id = ''c'', pk_receiver = ''u''\<rparr>
      fetched_conversation True sample_portal) (\<lambda>_. True)"
    unfolding sync_room_def saveConversationMetadataIfChangedLocked_def hash sample_calls bridged_calls
    by (rule returns_andThen [OF leaf], rule returns_andThen [where Q = "\<lambda>x. x = (sample_portal, False)"], simp add: returns_ret,
        simp add: key, rule returns_andThen [OF info], rule returns_attempt [OF idle_leaves(3)],
        rule returns_andThen [OF returns_wrapping [OF idle_guard]], rule returns_andThen [OF leaf], rule confirm)
  show ?thesis
    unfolding ensureConversationPortalForSync_def bridged_calls
    by (rule returns_andThen [OF idle_leaves(3)], rule returns_andThen [OF leaf], simp,
        rule returns_andThen [OF returns_wrapping [OF idle_portal]], simp,
        rule returns_andThen [where Q = "\<lambda>x. x = Some sample_portal"], simp add: returns_ret, simp add: key room)
qed

lemma sample_prepared:
  "returns idle (prepareConversationDelivery bridged_env (sample_inbound answering_http) fetched_conversation True ''m'')
     (\<lambda>d. \<exists>at. d = sample_delivery at \<and> 5000000000 \<le> at)"
proof -
  have id: "cv_ID fetched_conversation = ''c''" "portalKey bridged_env ''c'' = \<lparr>pk_id = ''c'', pk_receiver = ''u''\<rparr>"
    by (simp_all add: fetched_conversation_def blank_conversation_def portalKey_def MakePortalKey_def)
  have missing: "returns idle (missingConversationMessages bridged_env k fetched_conversation) (\<lambda>ms. ms = [fetched_message])" for k
    by (simp add: missingConversationMessages_def returns_def sortedMessages_def sortedMessagesWithReference_def andThen_def
        time_now_def ret_def fetched_conversation_def blank_conversation_def valid_samples bridged_calls run_sample wrapping_def)
  have receipt: "readReceiptEventFromConversation bridged_env fetched_conversation k at = ret None" for k at
    by (simp add: readReceiptEventFromConversation_def fetched_conversation_def blank_conversation_def)
  have bridged: "returns idle (readReceiptAlreadyBridged fetched_conversation) (\<lambda>_. True)"
    by (simp add: returns_def readReceiptAlreadyBridged_def the_caches_def andThen_def ret_def)
  show ?thesis
    unfolding prepareConversationDelivery_def id messagesForConversationSync_def
    by (simp only: valid_samples not_True_eq_False if_False simp_thms if_True,
        rule returns_andThen [OF returns_wrapping [OF sample_reconciled]], simp only: prod.case Let_def id,
        rule returns_andThen [OF idle_seen], simp only: case_prod_beta,
        rule returns_andThen [OF idle_leaves(1)], rule returns_andThen [OF missing], rule returns_andThen [OF bridged],
        rule returns_andThen [where Q = "\<lambda>x. x = None"], simp add: receipt returns_ret,
        rule returns_andThen [OF idle_room])
      (simp add: returns_ret sample_delivery_def)
qed

lemma sample_synced:
  "returns idle (syncConversationByIDWithSubmissionLock bridged_env (sample_inbound answering_http) None ''c'' 0)
     (\<lambda>d. \<exists>at. d = Some (sample_delivery at))"
proof -
  have superseded: "superseded_by 0 None = ret False" by (simp add: superseded_by_def)
  have batch: "ConversationSyncBatchLimit (sample_inbound H) = 50" for H
    by (simp add: ConversationSyncBatchLimit_def sample_inbound_def MaxRequestLimit_def)
  have listed: "\<lparr>cv_ID = ''c'', cv_Participants = [], cv_Messages = [], cv_LastReadTimestamp = 0,
      cv_LastModifiedTimestamp = 0\<rparr> = blank_conversation ''c''" by (simp add: blank_conversation_def)
  have fetch: "returns idle (fetch_history bridged_env (sample_inbound answering_http)
      \<lparr>lm_SelectedBlogUUID = ''s'', lm_SelectedBlogName = ''name''\<rparr> ''c'') (\<lambda>x. x = (fetched_conversation, ''m''))"
    unfolding fetch_history_def listed batch
    by (simp, rule returns_attempt [OF sample_fetch]) (simp add: returns_ret)
  have require: "returns idle (requireLoggedInForContext (sample_inbound H)) (\<lambda>_. True)" for H
    unfolding requireLoggedInForContext_def sample_calls
    by (rule returns_andThen [OF idle_leaves(3)]) (simp add: returns_ret)
  have synced: "returns idle (sync_fetched bridged_env (sample_inbound answering_http) None ''c'' 0 None
      (Inr (fetched_conversation, ''m''))) (\<lambda>d. \<exists>at. d = Some (sample_delivery at))"
    unfolding sync_fetched_def sum.case prod.case
    by (rule returns_andThen [OF sample_prepared]) (auto intro: returns_ret)
  show ?thesis
    unfolding syncConversationByIDWithSubmissionLock_def bridged_calls
    by (simp only: valid_samples not_True_eq_False if_False, rule returns_andThen [OF idle_guard],
        rule returns_andThen [OF returns_wrapping [OF idle_leaves(5)]], simp add: superseded,
        rule returns_andThen [where Q = "\<lambda>b. \<not> b"], simp add: returns_ret, simp,
        rule returns_andThen [OF require], rule returns_andThen [OF idle_leaves(3)], rule returns_andThen [OF idle_leaves(3)],
        simp, rule returns_attempt [OF fetch], simp add: synced)
qed

lemma sample_delivered:
  "returns idle (deliverConversation bridged_env (sample_inbound answering_http) (sample_delivery at)) (\<lambda>_. True)"
proof -
  have event: "returns idle (messageEventFromMessageWithTransaction bridged_env answering_http k fetched_message at x)
      (\<lambda>ev. ev \<noteq> None)" for k x
  proof -
    have "rm_Participant fetched_message = None" by (simp add: fetched_message_def)
    then show ?thesis
      by (auto simp: messageEventFromMessageWithTransaction_def messageTimestampWithFallback_def nonZeroFallbackTime_def
          senderFromMessage_def valid_samples returns_def andThen_def time_now_def ret_def)
  qed
  have queue: "returns idle (queueRemoteEvent bridged_env (sample_inbound answering_http) ev)
      (\<lambda>r. r = \<lparr>er_Success = True, er_Queued = False, er_Error = None\<rparr>)" for ev
    unfolding queueRemoteEvent_def bridged_calls sample_calls Let_def
    by (rule returns_attempt [OF idle_leaves(3)]) (simp, rule returns_andThen [OF idle_leaves(3)],
        simp add: accepted_def, rule returns_andThen [OF idle_leaves(4)], simp add: returns_ret)
  have messages: "returns idle (queue_messages bridged_env (sample_inbound answering_http) k at tx [fetched_message]) (\<lambda>_. True)" for k tx
    unfolding queue_messages.simps sample_calls
    by (rule returns_andThen [OF idle_guard], rule returns_andThen [OF event], clarsimp,
        rule returns_andThen [OF queue], rule returns_andThen [where Q = "\<lambda>_. True"])
      (simp_all add: remoteEventQueueError_def accepted_def returns_ret)
  show ?thesis
    unfolding deliverConversation_def queueConversationMessageChain_def
    by (simp only: sample_delivery_def conversation_delivery.select_convs option.case simp_thms if_False,
        rule returns_andThen [where Q = "\<lambda>_. True"], rule returns_andThen [OF messages], simp add: returns_ret,
        rule returns_andThen [where Q = "\<lambda>_. True"]) (simp_all add: returns_ret)
qed

text \<open>The whole run saves a boundary.\<close>

lemma sample_synchronised:
  assumes "idle w"
  shows "\<exists>w'. synchronise bridged_env (inbound_sync_ops bridged_env (sample_inbound answering_http) None 0) ''c'' w = (Inr None, w') \<and>
    (\<exists>s. conversation_syncs (tbl w') = [s] \<and> cs_completed_head_message_id s = ''m'')"
proof -
  obtain at w1 where 1: "syncConversationByIDWithSubmissionLock bridged_env (sample_inbound answering_http) None ''c'' 0 w =
      (Inr (Some (sample_delivery at)), w1)" "idle w1"
    using sample_synced assms unfolding returns_def by blast
  obtain u w2 where 2: "deliverConversation bridged_env (sample_inbound answering_http) (sample_delivery at) w1 = (Inr u, w2)" "idle w2"
    using sample_delivered 1(2) unfolding returns_def by blast
  define w3 where "w3 = w2\<lparr>w_tick := Suc (w_tick w2)\<rparr>"
  then have 3: "foreign (accept ()) w2 = (Inr (), w3)" "idle w3"
    using 2(2) by (simp_all add: run_sample)
  have "\<exists>w'. commitConversationDelivery bridged_env (sample_delivery at) w3 = (Inr (), w') \<and>
    (\<exists>s. conversation_syncs (tbl w') = [s] \<and> cs_completed_head_message_id s = ''m'')"
  proof -
    have job: "lift_store (Jobs_Get b l c) w3 = (Inr None, w3)" for b l c
      using 3(2) by (simp add: idle_def lift_store_def Jobs_Get_def query_def exec_def getConversationJob_def sample_tables_def)
    have reload: "wrapping msg (lift_store (Jobs_Get b l c)) w3 = (Inr None, w3)" for msg b l c
      by (simp add: wrapping_def job)
    have portal: "wrapping msg (foreign (accept x)) v = (Inr x, v\<lparr>w_tick := Suc (w_tick v)\<rparr>)" for msg x and v :: world
      by (simp add: wrapping_def run_sample)
    have "commitConversationDelivery bridged_env (sample_delivery at) w3 =
        wrapping ''failed to save Tumblr conversation sync boundary'' (lift_store
          (ConversationSync_SetCompletedHead ''b'' ''u'' ''c'' ''m'' (w_clock w3 (Suc (w_tick w3))))) (w3\<lparr>w_tick := Suc (Suc (w_tick w3))\<rparr>)"
      unfolding commitConversationDelivery_def bridged_calls inbound_ids
      by (simp add: andThen_def reload portal run_sample sample_delivery_def valid_samples fetched_conversation_def blank_conversation_def)
    moreover have "0 < unix_milli (w_clock w3 (Suc (w_tick w3)))"
      using 3(2) by (simp add: idle_def unix_milli_def)
    ultimately show ?thesis
      using 3(2)
      by (simp add: wrapping_def lift_store_def ConversationSync_SetCompletedHead_def exec_def setConversationSync_def idle_def
          sample_tables_def)
  qed
  then obtain w' s where 4: "commitConversationDelivery bridged_env (sample_delivery at) w3 = (Inr (), w')"
    "conversation_syncs (tbl w') = [s]" "cs_completed_head_message_id s = ''m''" by blast
  have "synchronise bridged_env (inbound_sync_ops bridged_env (sample_inbound answering_http) None 0) ''c'' w = (Inr None, w')"
    unfolding synchronise_def inbound_sync_ops_def conversation_sync_ops.select_convs bridged_calls
    by (simp add: attempt_def 1(1) 2(1) 3(1) 4(1) ret_def left_error_def)
  with 4 show ?thesis by blast
qed

section \<open>A conversation that is gone\<close>

definition deletion_job :: job_row where
  "deletion_job =
     \<lparr>jb_bridge_id = ''b'', jb_user_login_id = ''u'', jb_conversation_id = ''c'', jb_revision = 1,
      jb_attempt_count = 0, jb_next_attempt_ts = 0, jb_last_error_code = [], jb_delete_room_id = ''!r'',
      jb_created_ts = 0, jb_updated_ts = 0\<rparr>"

definition deletion_tables :: tables where
  "deletion_tables = (sample_tables [] [])\<lparr>jobs := [deletion_job]\<rparr>"

definition deletion_world :: world where
  "deletion_world = (sample_world [] [])\<lparr>tbl := deletion_tables\<rparr>"

text \<open>A world with that job in which the rooms \<open>rs\<close> were removed.\<close>

definition deleting :: "effect list \<Rightarrow> world \<Rightarrow> bool" where
  "deleting rs w \<longleftrightarrow> tbl w = deletion_tables \<and> faults w = [] \<and> w_client w = sample_client \<and>
     w_clock w = (\<lambda>n. 5000000000 + int n * second) \<and> w_context w = (\<lambda>_. None) \<and> removals w = rs"

lemma deleting_start: "deleting [] deletion_world"
  by (simp add: deleting_def deletion_world_def sample_world_def removals_def)

definition yields :: "(world \<Rightarrow> bool) \<Rightarrow> 'a act \<Rightarrow> (world \<Rightarrow> bool) \<Rightarrow> bool" where
  "yields P m S \<longleftrightarrow> (\<forall>w. P w \<longrightarrow> (\<exists>x w'. m w = (Inr x, w') \<and> S w'))"

lemma yields_andThen: "returns P m Q \<Longrightarrow> (\<And>x. Q x \<Longrightarrow> yields P (f x) S) \<Longrightarrow> yields P (andThen m f) S"
  unfolding returns_def yields_def by (metis andThen_Inr)

lemma yields_then: "yields P m T \<Longrightarrow> (\<And>x. yields T (f x) S) \<Longrightarrow> yields P (andThen m f) S"
  unfolding yields_def by (metis andThen_Inr)

lemma yields_returns: "returns P m Q \<Longrightarrow> yields P m P"
  unfolding returns_def yields_def by blast

lemma deleting_leaves:
  "returns (deleting rs) time_now (\<lambda>t. 5000000000 \<le> t)" "returns (deleting rs) ctx_err (\<lambda>e. e = None)"
  "returns (deleting rs) (foreign (accept x)) (\<lambda>y. y = x)" "returns (deleting rs) (emit OutboundWoken) (\<lambda>_. True)"
  "returns (deleting rs) (lift_store (Jobs_Get ''b'' ''u'' ''c'')) (\<lambda>j. j = Some (job_scan deletion_job))"
  "returns (deleting rs) (lift_store (Jobs_Ensure ''b'' ''u'' ''c'' now)) (\<lambda>_. True)"
  "returns (deleting rs) (lift_store (ConversationSync_Delete ''b'' ''u'' ''c'')) (\<lambda>_. True)"
  "returns (deleting rs) (clearDeletedConversationSeenState c) (\<lambda>_. True)"
  by (auto simp: returns_def run_sample ctx_err_def emit_def lift_store_def Jobs_Get_def Jobs_Ensure_def query_def removals_def
      exec_def getConversationJob_def sample_tables_def deleting_def deletion_tables_def deletion_job_def job_at_def
      ensureConversationJob_def upsert_job_def fresh_job_def update_where_def ConversationSync_Delete_def deleteConversationSync_def
      clearDeletedConversationSeenState_def update_caches_def Let_def)

lemma deleting_guard: "returns (deleting rs) ctx_guard (\<lambda>_. True)"
  unfolding ctx_guard_def by (rule returns_andThen [OF deleting_leaves(2)]) (simp add: returns_ret)

lemma deleting_terminalize: "returns (deleting rs) (Worker_terminalizeOutboundConversation inbound_world_env ''c'') (\<lambda>_. True)"
proof -
  have none: "returns (deleting rs) (lift_store (Outbound_TerminalizeConversation ''b'' ''u'' ''c'' t (t + millisecond))) (\<lambda>xs. xs = [])"
    if "5000000000 \<le> t" for t
    using that
    by (simp add: returns_def lift_store_def Outbound_TerminalizeConversation_def is_zero_def zero_time_def doTxn_def andThen_def exec_def
        terminalizeOutboundConversation_def update_outbound_def deleting_def deletion_tables_def sample_tables_def update_where_def
        outbound_constraints_def ret_def ensure_receipts.simps removals_def)
  show ?thesis
    unfolding Worker_terminalizeOutboundConversation_def inbound_ids
    by (rule returns_andThen [OF deleting_leaves(1)], rule returns_andThen [OF none], assumption,
        rule returns_andThen [where Q = "\<lambda>_. True"]) (simp_all add: returns_ret deleting_leaves)
qed

lemma gone_calls:
  "e_portal inbound_world_env k = accept None" "e_db_portal_by_key inbound_world_env k = accept None"
  "e_portal_lock inbound_world_env = accept ()" "e_client inbound_world_env = accept ()"
  "e_submission_lock inbound_world_env = accept ()"
  "e_metadata inbound_world_env = accept \<lparr>lm_SelectedBlogUUID = ''s'', lm_SelectedBlogName = ''name''\<rparr>"
  by (simp_all add: inbound_world_env_def sample_env_def)

lemma deleting_portal: "returns (deleting rs) (loadPortalWithPersistedParity inbound_world_env k None) (\<lambda>p. p = None)"
  unfolding loadPortalWithPersistedParity_def gone_calls
  by (rule returns_andThen [OF returns_wrapping [OF deleting_leaves(3)]]) (simp add: returns_ret)

lemma deleting_job_fields:
  "jRevision (job_scan deletion_job) = 1" "jDeleteRoomID (job_scan deletion_job) = ''!r''"
  "jConversationID (job_scan deletion_job) = ''c''" "jNextAttemptAt (job_scan deletion_job) \<le> 5000000000"
  by (simp_all add: job_scan_def deletion_job_def timeFromMillis_def zero_time_def)

lemma deleting_removes:
  "yields (deleting []) (remove_conversation inbound_world_env (sample_inbound H) ''c'' 1) (deleting [RoomRemoved ''!r''])"
proof -
  note load = returns_wrapping [OF deleting_leaves(3)]
  have room: "returns (deleting rs) (remove_portal inbound_world_env ''c'' 1) (\<lambda>room. room = ''!r'')" for rs
    unfolding remove_portal_def deletedConversationRoomID_def saved_delete_room_def gone_calls inbound_ids Let_def
    by (rule returns_andThen [OF deleting_leaves(3)], rule returns_andThen [OF load], simp,
        rule returns_andThen [OF returns_wrapping [OF deleting_portal]], simp,
        rule returns_andThen [where Q = "\<lambda>room. room = ''!r''"],
        rule returns_andThen [OF returns_wrapping [OF deleting_leaves(5)]])
      (simp_all add: deleting_job_fields returns_ret)
  have emitted: "yields (deleting []) (emit (RoomRemoved ''!r'')) (deleting [RoomRemoved ''!r''])"
    by (simp add: yields_def emit_def deleting_def removals_def)
  have finish: "yields (deleting []) (finishTumblrConversationDelete inbound_world_env (sample_inbound H) k ''!r'')
      (deleting [RoomRemoved ''!r''])" for k
    unfolding finishTumblrConversationDelete_def gone_calls
    by (rule yields_andThen [OF load], simp, rule yields_andThen [OF returns_wrapping [OF deleting_portal]],
        simp add: ensureTumblrMatrixRoomDeleted_def sample_inbound_def ensureTumblrFilteringSpaceChildRemoved_def,
        rule yields_then [where T = "deleting [RoomRemoved ''!r'']"], rule yields_andThen [OF deleting_leaves(3)], simp,
        rule yields_then [OF emitted], rule yields_returns [where Q = "\<lambda>_. True"], rule returns_andThen [OF deleting_leaves(3)])
      (simp_all add: returns_ret yields_returns [OF returns_ret [of "\<lambda>_. True"]])
  show ?thesis
    unfolding remove_conversation_def inbound_ids
    by (rule yields_andThen [OF returns_wrapping [OF deleting_terminalize]], rule yields_andThen [OF room], simp,
        rule yields_then [OF finish], rule yields_returns, rule returns_andThen [OF returns_wrapping [OF deleting_terminalize]],
        rule returns_andThen [OF returns_wrapping [OF deleting_leaves(7)]], rule deleting_leaves(8))
qed

lemma deletion_probe:
  assumes "deleting rs w"
  shows "\<exists>w'. GetConversationBefore (sample_inbound sample_http) ''name'' ''c'' 1 [] w = (Inl not_found, w') \<and> deleting rs w'"
  using missing_request [of w _ _ "\<lambda>_. Inr fetched_page"] assms
  by (simp add: GetConversationBefore_def getConversationMessages_def sample_identifiers of_result_def optional_cursor_def
      andThen_def ret_def sample_inbound_def deleting_def removals_def)

lemma sample_deletion:
  "yields (deleting []) (handleRemoteConversationDelete inbound_world_env (sample_inbound sample_http) None ''c'' 1)
     (deleting [RoomRemoved ''!r''])"
proof -
  have require: "returns (deleting rs) (requireLoggedInForContext (sample_inbound H)) (\<lambda>_. True)" for rs H
    unfolding requireLoggedInForContext_def sample_calls
    by (rule returns_andThen [OF deleting_leaves(3)]) (simp add: returns_ret)
  have missing: "yields (deleting []) (delete_missing inbound_world_env (sample_inbound sample_http) None ''c'' 1 ''s'')
      (deleting [RoomRemoved ''!r''])"
    unfolding delete_missing_def inbound_ids
    by (rule yields_andThen [OF deleting_leaves(1)], rule yields_andThen [OF returns_wrapping [OF deleting_leaves(6)]],
        rule yields_andThen [OF returns_wrapping [OF deleting_leaves(5)]], simp add: deleting_job_fields,
        rule yields_andThen [where Q = "\<lambda>go. go"])
      (simp_all add: removal_confirmed_def deleting_job_fields returns_ret deleting_removes)
  have probed: "yields (deleting []) (attempt (GetConversationBefore (sample_inbound sample_http) ''name'' ''c'' 1 []) f)
      (deleting [RoomRemoved ''!r''])"
    if "f (Inl not_found) = delete_missing inbound_world_env (sample_inbound sample_http) None ''c'' 1 ''s''" for f
    unfolding yields_def
  proof (intro allI impI)
    fix w
    assume "deleting [] w"
    then obtain w1 where "GetConversationBefore (sample_inbound sample_http) ''name'' ''c'' 1 [] w = (Inl not_found, w1)" "deleting [] w1"
      using deletion_probe by blast
    then show "\<exists>x w'. attempt (GetConversationBefore (sample_inbound sample_http) ''name'' ''c'' 1 []) f w = (Inr x, w') \<and>
        deleting [RoomRemoved ''!r''] w'"
      using missing by (simp add: attempt_def that yields_def)
  qed
  show ?thesis
    unfolding handleRemoteConversationDelete_def gone_calls
    by (simp only: valid_samples not_True_eq_False if_False, rule yields_andThen [OF require],
        rule yields_andThen [OF deleting_leaves(3)], simp, rule yields_andThen [OF deleting_leaves(3)], rule probed)
      (simp add: not_found_is)
qed

lemma sample_job_done:
  "yields (deleting []) (processSelectedConversationJobWithBlockCheck inbound_world_env (sample_inbound sample_http) None
     (job_scan deletion_job)) (\<lambda>w. jobs (tbl w) = [])"
proof -
  let ?gone = "deleting [RoomRemoved ''!r'']"
  have resume: "yields (deleting []) (resumeRemoteConversationDelete inbound_world_env (sample_inbound sample_http) None ''c'' 1) ?gone"
    unfolding resumeRemoteConversationDelete_def inbound_ids Let_def
    by (rule yields_andThen [OF deleting_guard], rule yields_andThen [OF returns_wrapping [OF deleting_leaves(5)]],
        simp add: deleting_job_fields, rule yields_andThen [OF deleting_leaves(1)])
      (use deleting_job_fields(4) in \<open>simp add: sample_deletion deleting_job_fields(1)\<close>)
  have run: "\<exists>w'. run_job inbound_world_env (sample_inbound sample_http) None (job_scan deletion_job) w = (Inr None, w') \<and> ?gone w'"
    if "deleting [] w" for w
    using resume that unfolding run_job_def yields_def deleting_job_fields
    by (auto simp: attempt_def ret_def left_error_def split: prod.splits dest!: spec [of _ w])
  have finish: "yields ?gone (finish_job inbound_world_env (job_scan deletion_job) None) (\<lambda>w. jobs (tbl w) = [])"
    unfolding finish_job_def deleting_job_fields
    by (simp add: yields_def andThen_def lift_store_def Jobs_Delete_def exec_def deleting_def deletion_tables_def
        deleteConversationJob_def delete_job_def deletion_job_def job_at_def ret_def rowWasChanged_def emit_def)
  have work: "yields (deleting []) (andThen (run_job inbound_world_env (sample_inbound sample_http) None (job_scan deletion_job))
      (finish_job inbound_world_env (job_scan deletion_job))) (\<lambda>w. jobs (tbl w) = [])"
    using run finish unfolding yields_def by (metis andThen_Inr)
  show ?thesis
    unfolding processSelectedConversationJobWithBlockCheck_def gone_calls inbound_ids deleting_job_fields
    by (rule yields_andThen [OF deleting_leaves(3)], rule yields_andThen [OF deleting_leaves(5)],
        simp add: deleting_job_fields, rule yields_andThen [OF deleting_leaves(1)])
      (use deleting_job_fields(4) work in simp)
qed

end
