(* ===== verification/SendingProperties.thy ===== *)
theory SendingProperties
  imports SendingInvariant InboundSamples
begin

text \<open>
  What the send path guarantees: over any life of the connector a Matrix event leads to at most
  one message the remote service may have accepted, and an error is reported only for a message
  that was not accepted (pkg/connector/client.go).
\<close>

section \<open>A life of the connector\<close>

text \<open>The operations of the connector, in any order and any number: messages and other actions of
  the Matrix user, the passes of the two durable workers, the scans that feed them, and what the
  framework calls back; between them other parts of the program and the framework write their own
  tables. \<open>send_env\<close> and \<open>inbound_env\<close> are what the call finds outside (the service, the framework).\<close>

datatype connector_call =
    HandleMessage send_env "string \<Rightarrow> string" matrix_message
  | RecoveryPass nat inbound_env
  | InboundPass nat inbound_env
  | HeadProbe inbound_env "string \<rightharpoonup> string"
  | HeadScan inbound_env
  | DeletionScan inbound_env
  | DeleteChat inbound_env "bool option" "portal_object option"
  | BlockUser inbound_env bool "portal_object option" bool
  | ReadReceipt inbound_env "portal_object option" gotime gotime
  | ViewingChat inbound_env "portal_object option"
  | EchoSeen string string message_row
  | Reconciled conversation
  | ConversationDeleted string
  | OutsideWrites "message_row list" "portal_row list" "(string \<times> string) list" "bool list"

fun run_call :: "env \<Rightarrow> connector_call \<Rightarrow> world \<Rightarrow> world" where
  "run_call E (HandleMessage N digest msg) w = snd (HandleMatrixMessage E N digest msg w)"
| "run_call E (RecoveryPass n I) w = snd (processDueOutboundSends n E (inbound_sync_ops E I None 0) w)"
| "run_call E (InboundPass n I) w = snd (processDueConversationJobs n E I w)"
| "run_call E (HeadProbe I observed) w = snd (probeChangedConversationHeads E I observed w)"
| "run_call E (HeadScan I) w = snd (reconcileConversationHead E I w)"
| "run_call E (DeletionScan I) w = snd (reconcileConversationDeletions E I w)"
| "run_call E (DeleteChat I content portal) w = snd (handleMatrixDeleteChat E I content portal w)"
| "run_call E (BlockUser I plain portal block) w = snd (HandleMatrixBlockUser E I plain portal block w)"
| "run_call E (ReadReceipt I portal upTo last_read) w = snd (HandleMatrixReadReceipt E I portal upTo last_read w)"
| "run_call E (ViewingChat I portal) w = snd (HandleMatrixViewingChat E I portal w)"
| "run_call E (EchoSeen x remote m) w = snd (outboundEchoHandler E x remote m w)"
| "run_call E (Reconciled c) w = snd (reconcileOutboundConversation E c w)"
| "run_call E (ConversationDeleted c) w = snd (Worker_terminalizeOutboundConversation E c w)"
| "run_call E (OutsideWrites ms ps ls fs) w =
     w\<lparr>tbl := (tbl w)\<lparr>messages := ms, portals := ps, logins := logins (tbl w) @ ls\<rparr>, faults := fs\<rparr>"

fun call_env :: "connector_call \<Rightarrow> inbound_env option" where
  "call_env (RecoveryPass n I) = Some I"
| "call_env (InboundPass n I) = Some I"
| "call_env (HeadProbe I observed) = Some I"
| "call_env (HeadScan I) = Some I"
| "call_env (DeletionScan I) = Some I"
| "call_env (DeleteChat I content portal) = Some I"
| "call_env (BlockUser I plain portal block) = Some I"
| "call_env (ReadReceipt I portal upTo last_read) = Some I"
| "call_env (ViewingChat I portal) = Some I"
| "call_env c = None"

text \<open>What the calls find outside leaves the store and the log of the connector alone.\<close>

definition benign :: "env \<Rightarrow> connector_call \<Rightarrow> bool" where
  "benign E c \<longleftrightarrow>
     (case c of HandleMessage N digest msg \<Rightarrow> foreign_send N | _ \<Rightarrow> True) \<and>
     (case call_env c of Some I \<Rightarrow> foreign_inbound E I | None \<Rightarrow> True)"

lemma inbound_call_accounted:
  assumes "foreign_env E" "accounted E w" "call_env c = Some I" "foreign_inbound E I"
  shows "accounted E (run_call E c w)"
proof -
  note inb = assms(4) [unfolded foreign_inbound_def]
  note calm = process_due_calm [OF assms(1) inbound_calm_sync [OF assms(1,4)]] process_jobs_calm [OF assms(1,4)]
    tamed_inbound.walks_mild [OF assms(1) inb] tamed_inbound.user_mild [OF assms(1) inb]
  show ?thesis
    using assms(3) by (cases c) (auto intro: calm_accounted [OF _ assms(2)] calm)
qed

lemma run_call_accounted:
  assumes "foreign_env E" "benign E c" "accounted E w"
  shows "accounted E (run_call E c w)"
proof (cases "call_env c")
  case (Some I)
  then show ?thesis using inbound_call_accounted assms by (simp add: benign_def)
next
  case None
  then show ?thesis
  proof (cases c)
    case (HandleMessage N digest msg)
    then show ?thesis using assms handler_accounted by (simp add: benign_def)
  next
    case (EchoSeen x remote m)
    then show ?thesis using calm_accounted [OF echo_calm [OF assms(1)] assms(3)] by simp
  next
    case (Reconciled cv)
    then show ?thesis using calm_accounted [OF reconcile_calm(1) [OF assms(1)] assms(3)] by simp
  next
    case (ConversationDeleted cv)
    then show ?thesis using calm_accounted [OF terminalize_calm [OF assms(1)] assms(3)] by simp
  next
    case (OutsideWrites ms ps ls fs)
    let ?w = "run_call E c w"
    have "outbound_step (e_pke E) (tbl w) None (tbl ?w)"
      using OutsideWrites by (intro outbound_step.environment) auto
    then have "(outbound_move (e_pke E))\<^sup>*\<^sup>* (tbl w) (tbl ?w)"
      by (intro r_into_rtranclp) (auto simp: outbound_move_def)
    moreover have "posts ?w = posts w" using OutsideWrites by (simp add: posts_def)
    ultimately show ?thesis using accounted_moves [OF assms(3)] by blast
  qed simp_all
qed

lemma run_calls_accounted:
  "foreign_env E \<Longrightarrow> list_all (benign E) cs \<Longrightarrow> accounted E w \<Longrightarrow> accounted E (fold (run_call E) cs w)"
  by (induction cs arbitrary: w) (simp_all add: run_call_accounted)

text \<open>C34: no Matrix event is sent twice. Whatever operations the connector runs, in whatever order
  (the same event handled any number of times, passes of the recovery worker and of the inbound
  worker, scans, echoes, deleted conversations, read receipts), and whatever the database, the
  framework and the remote service answer: at most one POST carrying an event may have been
  accepted, and at most two were made.\<close>

theorem event_posted_once:
  assumes "foreign_env E" and "list_all (benign E) calls" and "store_inv (e_pke E) (tbl w)" and "posts w = []"
  shows "length (filter live_post (event_posts ev (fold (run_call E) calls w))) \<le> 1 \<and>
    length (event_posts ev (fold (run_call E) calls w)) \<le> 2"
proof -
  have "accounted E w" using assms(3,4) by (simp add: accounted_def event_posts_def)
  from run_calls_accounted [OF assms(1,2) this] show ?thesis by (simp add: accounted_def)
qed

text \<open>A service that accepts everything, and a text message in a room of conversation \<open>c\<close>.\<close>

definition sample_conversation :: conversation where
  "sample_conversation = \<lparr>cv_ID = ''c'', cv_Participants = [], cv_Messages = [], cv_LastReadTimestamp = 0,
     cv_LastModifiedTimestamp = 0\<rparr>"

definition sending_env :: env where
  "sending_env = sample_env\<lparr>
     e_metadata := accept \<lparr>lm_SelectedBlogUUID = ''s'', lm_SelectedBlogName = ''name''\<rparr>,
     e_sha := (\<lambda>_. replicate 32 (CHR ''x''))\<rparr>"

definition sending_http :: http_env where
  "sending_http = sample_http\<lparr>
     h_exchange := (\<lambda>_. accept (sample_answer 200 ''ok'')),
     h_envelope := (\<lambda>_. (empty_envelope\<lparr>en_Response := ''x''\<rparr>, None)),
     h_send_response := (\<lambda>_. Inr \<lparr>sp_Conversation = Some sample_conversation\<rparr>)\<rparr>"

definition sample_sending :: send_env where
  "sample_sending =
     \<lparr>n_http = sending_http, n_logged_in = accept True,
      n_history = (\<lambda>_ _. accept (Some (Some sample_conversation, []))), n_bot = True,
      n_media = (\<lambda>_. accept []), n_reply_text = (\<lambda>s. s), n_path_unescape = Some, n_blog_info = (\<lambda>_. Inr None)\<rparr>"

definition text_message :: "string \<Rightarrow> matrix_message" where
  "text_message body =
     \<lparr>mm_Event = Some \<lparr>ev_ID = ''$e'', ev_RoomID = ''!r'', ev_Sender = ''@m''\<rparr>,
      mm_Content = Some \<lparr>ct_Kind = MsgText, ct_Body = body, ct_Replaces = False, ct_ReplyTo = [],
        ct_IsGIF = False, ct_MediaURL = [], ct_InfoSize = 0, ct_FileName = []\<rparr>,
      mm_Portal = Some \<lparr>pt_object = 0, pt_bridge_id = ''b'',
        pt_key = \<lparr>pk_id = ''c'', pk_receiver = ''u''\<rparr>, pt_mxid = ''!r'', pt_meta = None\<rparr>,
      mm_InputTransactionID = []\<rparr>"

lemma sending_foreign: "foreign_env sending_env" "foreign_send sample_sending" "e_pke sending_env = empty_key"
  by (simp_all add: outside_env_def foreign_send_def sending_env_def sample_env_def sample_sending_def
      sending_http_def sample_http_def)

lemma event_posted_once_witness:
  "length (filter live_post (event_posts ''$e'' (fold (run_call sending_env)
     [HandleMessage sample_sending (\<lambda>_. []) (text_message ''hello''),
      RecoveryPass 3 (sample_inbound sample_http), InboundPass 3 (sample_inbound sample_http),
      HandleMessage sample_sending (\<lambda>_. []) (text_message ''hello'')] (sample_world [] [])))) \<le> 1"
proof -
  have "store_inv (e_pke sending_env) (tbl (sample_world [] []))" and "posts (sample_world [] []) = []"
    using empty_inv sending_foreign(3) by (simp_all add: sample_world_def posts_def)
  moreover have "list_all (benign sending_env)
     [HandleMessage sample_sending (\<lambda>_. []) (text_message ''hello''),
      RecoveryPass 3 (sample_inbound sample_http), InboundPass 3 (sample_inbound sample_http),
      HandleMessage sample_sending (\<lambda>_. []) (text_message ''hello'')]"
    using sending_foreign(2) sample_outside_inbound(1) by (simp add: benign_def foreign_inbound_def)
  ultimately show ?thesis using event_posted_once [OF sending_foreign(1)] by blast
qed

section \<open>Errors\<close>

definition live_posts :: "world \<Rightarrow> effect list" where
  "live_posts w = filter live_post (posts w)"

text \<open>\<open>honest m\<close>: when \<open>m\<close> fails, it posted nothing the service may have accepted; \<open>never_fails m\<close>:
  it does not fail.\<close>

definition honest :: "'a act \<Rightarrow> bool" where
  "honest m \<longleftrightarrow> (\<forall>w e w'. m w = (Inl e, w') \<longrightarrow> live_posts w' = live_posts w)"

definition never_fails :: "'a act \<Rightarrow> bool" where
  "never_fails m \<longleftrightarrow> (\<forall>w. \<exists>x w'. m w = (Inr x, w'))"

named_theorems honest_intros \<open>operations whose errors mean that nothing was accepted\<close>

lemma never_fails_intros:
  "never_fails (ret x)" "never_fails time_now" "never_fails the_send" "never_fails (update_send u)"
  "never_fails (emit ev)" "never_fails the_pending" "never_fails (put_pending p)"
  by (simp_all add: never_fails_def ret_def time_now_def the_send_def update_send_def emit_def the_pending_def
      put_pending_def)

lemma never_fails_andThen: "never_fails m \<Longrightarrow> (\<And>x. never_fails (f x)) \<Longrightarrow> never_fails (andThen m f)"
  unfolding never_fails_def by (metis andThen_Inr)

lemma never_fails_attempt: "(\<And>r. never_fails (g r)) \<Longrightarrow> never_fails (attempt n g)"
  unfolding never_fails_def by (metis attempt_apply surj_pair)

lemma never_fails_branch:
  "never_fails p \<Longrightarrow> never_fails q \<Longrightarrow> never_fails (if b then p else q)"
  "never_fails p \<Longrightarrow> (\<And>y. never_fails (h y)) \<Longrightarrow> never_fails (case z of None \<Rightarrow> p | Some y \<Rightarrow> h y)"
  "(\<And>y. never_fails (k y)) \<Longrightarrow> (\<And>y. never_fails (h' y)) \<Longrightarrow> never_fails (case s of Inl y \<Rightarrow> k y | Inr y \<Rightarrow> h' y)"
  "never_fails p \<Longrightarrow> never_fails q \<Longrightarrow> never_fails (case c of True \<Rightarrow> p | False \<Rightarrow> q)"
  "never_fails (j v) \<Longrightarrow> never_fails (Let v j)"
  by (auto split: option.split sum.split bool.split)

lemmas total_intros = never_fails_intros never_fails_andThen never_fails_attempt never_fails_branch

lemma settled_never_fails:
  "never_fails (keepOutboundPendingAfterSubmit E m)"
  "never_fails (keepOutboundVisibleAfterRoomReplacement E)"
  "never_fails (mark_awaiting E resp c m)"
  "never_fails (after_acceptance E pending c resp m)"
  "never_fails (registerOutboundPending msg s)"
proof -
  show 1: "never_fails (keepOutboundPendingAfterSubmit E m)" for m
    unfolding keepOutboundPendingAfterSubmit_def by (intro total_intros)
  show 2: "never_fails (keepOutboundVisibleAfterRoomReplacement E)"
    unfolding keepOutboundVisibleAfterRoomReplacement_def dropOutboundPending_def by (intro total_intros)
  show 3: "never_fails (mark_awaiting E resp c m)" for c m
    unfolding mark_awaiting_def by (intro total_intros 1)
  show "never_fails (after_acceptance E pending c resp m)"
    unfolding after_acceptance_def by (intro total_intros 1 2 3)
  show "never_fails (registerOutboundPending msg s)"
    unfolding registerOutboundPending_def outboundDatabaseMessage_def by (intro total_intros)
qed

definition unposted :: "'a act \<Rightarrow> bool" where
  "unposted m \<longleftrightarrow> (\<forall>w. live_posts (snd (m w)) = live_posts w)"

lemma unpostedD: "unposted m \<Longrightarrow> m w = (r, w') \<Longrightarrow> live_posts w' = live_posts w"
  unfolding unposted_def by (metis snd_conv)

lemma calm_unposted: "calm E m \<Longrightarrow> unposted m"
  by (simp add: unposted_def live_posts_def calm_posts)

lemma unposted_submit:
  "unposted (lift_store (Outbound_MarkSubmitting b l x base st nx now))"
  unfolding unposted_def
proof
  fix w :: world
  obtain r w1 where m: "Outbound_MarkSubmitting b l x base st nx now w = (r, w1)" by fastforce
  then show "live_posts (snd (lift_store (Outbound_MarkSubmitting b l x base st nx now) w)) = live_posts w"
    using mark_submitting_effects(2) [OF m] by (simp add: lift_store_def live_posts_def split: sum.split)
qed

lemma honest_unposted: "unposted m \<Longrightarrow> honest m"
  by (auto simp: honest_def dest: unpostedD)

lemma honest_raise: "honest (raise e)" and honest_ret: "honest (ret x)"
  by (simp_all add: honest_def raise_def ret_def)

lemma honest_andThen:
  assumes "unposted m" and "\<And>x. honest (f x)"
  shows "honest (andThen m f)"
  unfolding honest_def
proof (intro allI impI)
  fix w e w'
  assume run: "andThen m f w = (Inl e, w')"
  obtain r w1 where m: "m w = (r, w1)" by fastforce
  note same = unpostedD [OF assms(1) m]
  show "live_posts w' = live_posts w"
  proof (cases r)
    case (Inl e')
    then show ?thesis using run m same by (simp add: andThen_Inl)
  next
    case (Inr x)
    then have "f x w1 = (Inl e, w')" using run m by (simp add: andThen_Inr)
    then show ?thesis using assms(2) [of x] same unfolding honest_def by metis
  qed
qed

lemma honest_attempt:
  assumes "unposted m" and "\<And>r. honest (f r)"
  shows "honest (attempt m f)"
  unfolding honest_def
proof (intro allI impI)
  fix w e w'
  assume run: "attempt m f w = (Inl e, w')"
  obtain r w1 where m: "m w = (r, w1)" by fastforce
  then have "f r w1 = (Inl e, w')" using run by (simp add: attempt_apply)
  then show "live_posts w' = live_posts w"
    using assms(2) [of r] unpostedD [OF assms(1) m] unfolding honest_def by metis
qed

lemma honest_branch:
  "honest p \<Longrightarrow> honest q \<Longrightarrow> honest (if b then p else q)"
  "honest p \<Longrightarrow> (\<And>y. honest (h y)) \<Longrightarrow> honest (case z of None \<Rightarrow> p | Some y \<Rightarrow> h y)"
  "(\<And>y. honest (k y)) \<Longrightarrow> (\<And>y. honest (h' y)) \<Longrightarrow> honest (case s of Inl y \<Rightarrow> k y | Inr y \<Rightarrow> h' y)"
  "honest p \<Longrightarrow> honest q \<Longrightarrow> honest (case b of True \<Rightarrow> p | False \<Rightarrow> q)"
  "(\<And>x y. honest (f x y)) \<Longrightarrow> honest (case pr of (x, y) \<Rightarrow> f x y)"
  "honest (g v) \<Longrightarrow> honest (Let v g)"
  by (auto split: option.split sum.split bool.split prod.split)

lemmas honest_rules = honest_raise honest_ret honest_andThen honest_attempt honest_branch

lemma honest_post:
  assumes "foreign_env E"
  shows "honest (post_submitted E N msg meta pending conv og)"
  unfolding honest_def
proof (intro allI impI)
  fix w e w'
  assume run: "post_submitted E N msg meta pending conv og w = (Inl e, w')"
  let ?reg = "registerOutboundPending
    (case mm_Portal msg of Some p \<Rightarrow> InRoom (pt_mxid p) | None \<Rightarrow> NoPortal) (w_send w)"
  let ?post = "post_outgoing (n_http N) meta conv (case pending of Some p \<Rightarrow> pm_PendingParticipantIDs p | None \<Rightarrow> []) og"
  have "never_fails ?reg" by (rule settled_never_fails)
  then obtain m w2 where reg: "?reg w = (Inr m, w2)" unfolding never_fails_def by blast
  have w2: "live_posts w2 = live_posts w"
    using unpostedD [OF calm_unposted [OF registered_calm] reg] .
  obtain r3 w3 where post: "?post w2 = (r3, w3)" by fastforce
  have run3: "(case r3 of
       Inl err \<Rightarrow>
         if IsMessageSendOutcomeUnknown err then keepOutboundPendingAfterSubmit E m
         else after_rejection E err
     | Inr resp \<Rightarrow> after_acceptance E pending conv resp m) w3 = (Inl e, w')"
    using run reg post by (simp add: post_submitted_def andThen_the_send andThen_Inr attempt_apply)
  have "never_fails (after_acceptance E pending conv resp m)" and "never_fails (keepOutboundPendingAfterSubmit E m)" for resp
    by (rule settled_never_fails)+
  then obtain err where err: "r3 = Inl err" "\<not> IsMessageSendOutcomeUnknown err" "after_rejection E err w3 = (Inl e, w')"
    using run3 unfolding never_fails_def
    by (cases r3) (auto split: if_splits, (metis Inl_Inr_False fst_conv)+)
  from outgoing_sender.failed_known [OF post [unfolded err(1)] err(2)]
  obtain ps where "posts w3 = posts w2 @ ps" "filter live_post ps = []" by blast
  then have "live_posts w3 = live_posts w2" by (simp add: live_posts_def)
  moreover have "unposted (after_rejection E err)" by (rule calm_unposted, rule after_calm [OF assms])
  from unpostedD [OF this err(3)] have "live_posts w' = live_posts w3" .
  ultimately show "live_posts w' = live_posts w" using w2 by simp
qed

lemma unposted_result: "unposted (of_result r)" "unposted (if b then of_result r else ret x)"
  by (simp_all add: unposted_def of_result_def ret_def raise_def split: sum.split)

lemma unposted_local:
  assumes "foreign_env E"
  shows "unposted time_now" "unposted the_send" "unposted (update_send f)" "unposted (emit OutboundWoken)"
    "unposted (foreign (e_begin_owned E))" "unposted (foreign (e_submission_lock E))"
    "unposted (foreign (e_client E))" "unposted (foreign (e_metadata E))"
    "unposted (completedOutboundMapping E x room)" "unposted (outboundDatabaseMessage o' m)"
    "unposted (dropOutboundPending x' b)"
    "unposted (lift_store (Outbound_LoadOrCreate (e_pke E) (e_bridge_id E) s' now))"
    "unposted (lift_store (Outbound_Get (e_pke E) (e_bridge_id E) l t))"
  by (rule calm_unposted [where E = E], intro moves_intros calm_intros store_calm assms)+

lemma unposted_baseline:
  assumes "foreign_env E" and "foreign_send N"
  shows "unposted (outboundBaseline (n_history N b c) conv)"
  unfolding outboundBaseline_def
  by (rule calm_unposted [where E = E], intro moves_intros calm_intros send_env_calm assms)

lemma honest_lost:
  assumes "foreign_env E"
  shows "honest (deletePreparedOutbound E err)" "honest (pendingAfterPreparedOwnershipLoss E s)"
  by (rule honest_unposted, rule calm_unposted [where E = E], rule before_calm [OF assms])+

text \<open>C35: an error means that nothing was accepted. When handling a Matrix message ends in an
  error, which is shown to the user, who may send the message again, no POST of this run may
  have been accepted by the remote service; whenever one may have been, the message is
  reported as pending.\<close>

theorem errors_mean_not_sent:
  assumes "foreign_env E" and "foreign_send N" and "HandleMatrixMessage E N digest msg w = (Inl e, w')"
  shows "live_posts w' = live_posts w"
proof -
  note env = assms(1,2)
  note calm = preparing_calm [OF env, THEN calm_unposted]
  note rules = honest_rules unposted_local [OF env(1)] unposted_result unposted_baseline [OF env] calm
    unposted_submit honest_lost [OF env(1)]
  have 1: "honest (submit_and_post E N msg meta pending conv og baseline)" for meta pending conv og baseline
    unfolding submit_and_post_def by (intro rules honest_post env)
  have 2: "honest (reload_and_submit E N msg meta pending conv og send l x)" for meta pending conv og send l x
    unfolding reload_and_submit_def by (intro rules 1)
  have 3: "honest (send_prepared E N msg meta pending conv og send)" for meta pending conv og send
    unfolding send_prepared_def by (intro rules 2)
  have 4: "honest (load_and_send E N msg ev meta pending conv og send)" for ev meta pending conv og send
    unfolding load_and_send_def by (intro rules 3 calm(3) [THEN honest_unposted])
  have 5: "honest (sendMatrixMessageToTumblr E N digest msg ev og)" for ev og
    unfolding sendMatrixMessageToTumblr_def
    by (cases "mm_Portal msg", simp_all only: option.case) (intro rules 4)+
  have 6: "honest (handleMatrixTextMessage E N digest msg ev ct)" for ev ct
    unfolding handleMatrixTextMessage_def by (intro rules 5)
  have 7: "honest (handleMatrixImageMessage E N digest msg ev ct)" for ev ct
    unfolding handleMatrixImageMessage_def by (intro rules 5)
  have "honest (handleMatrixMessage E N digest msg)"
    unfolding handleMatrixMessage_def
    by (intro rules; (split message_kind.split)?; (intro conjI impI rules 6 7)?)
  then show ?thesis
    using assms(3) unfolding honest_def HandleMatrixMessage_def
    by (auto split: prod.splits sum.splits)
qed

lemma errors_mean_not_sent_witness:
  "\<exists>e w'. HandleMatrixMessage sending_env sample_sending (\<lambda>_. []) (text_message []) (sample_world [] []) = (Inl e, w') \<and>
     live_posts w' = []"
proof -
  obtain r w' where run:
    "HandleMatrixMessage sending_env sample_sending (\<lambda>_. []) (text_message []) (sample_world [] []) = (r, w')"
    by fastforce
  have "blank []" and "\<not> blank ''$e''"
    by (simp_all add: not_blank_visible visible_def)
  then obtain e where e: "r = Inl e"
    using run
    by (auto simp: HandleMatrixMessage_def handleMatrixMessage_def attempt_def foreign_def sending_env_def
        sample_env_def accept_def text_message_def andThen_def completedOutboundReplay_def room_error_def
        completedOutboundMapping_def ret_def handleMatrixTextMessage_def raise_def Let_def)
  have "live_posts (sample_world [] []) = []" by (simp add: live_posts_def posts_def sample_world_def)
  with run e errors_mean_not_sent [OF sending_foreign(1,2) run [unfolded e]] show ?thesis by simp
qed

section \<open>Names of uploaded files\<close>

definition safe_byte :: "char \<Rightarrow> bool" where
  "safe_byte c \<longleftrightarrow> 32 \<le> (of_char c :: nat) \<and> (of_char c :: nat) \<noteq> 127 \<and> c \<noteq> CHR ''/'' \<and> c \<noteq> CHR 0x5C"

lemma runes_step:
  assumes "bs \<noteq> []" "\<forall>b \<in> set bs. b < 256"
  obtains x rest where "runes bs = x # runes rest" "x < 2097152" "length rest < length bs" "set rest \<subseteq> set bs"
proof (cases bs rule: runes.cases)
  case 1
  with assms(1) show ?thesis by simp
next
  case (2 b)
  then show ?thesis using that [of "if b < 128 then b else 65533" "[]"] by simp
next
  case (3 b c cs)
  note r = 3 runes.simps(3) [of b c cs]
  consider "b < 128" | "\<not> b < 128" "194 \<le> b \<and> b < 224 \<and> cont c"
    | "\<not> b < 128" "\<not> (194 \<le> b \<and> b < 224 \<and> cont c)" "cs = []"
    | d ds where "\<not> b < 128" "\<not> (194 \<le> b \<and> b < 224 \<and> cont c)" "cs = d # ds" by (cases cs) auto
  then show ?thesis
  proof cases
    case 1
    then show ?thesis using r by (intro that [of b "c # cs"]) auto
  next
    case 2
    then show ?thesis using r by (intro that [of "(b - 192) * 64 + (c - 128)" cs]) (auto simp: cont_def)
  next
    case 3
    then show ?thesis using r by (intro that [of 65533 "c # cs"]) auto
  next
    case 4
    consider "224 \<le> b \<and> b < 240 \<and> cont c \<and> cont d \<and> (b = 224 \<longrightarrow> 160 \<le> c) \<and> (b = 237 \<longrightarrow> c < 160)"
      | f fs where "ds = f # fs"
        "240 \<le> b \<and> b < 245 \<and> cont c \<and> cont d \<and> cont f \<and> (b = 240 \<longrightarrow> 144 \<le> c) \<and> (b = 244 \<longrightarrow> c < 144)"
      | "runes bs = 65533 # runes (c # cs)"
      using r 4 by (cases ds) (auto split: if_splits)
    then show ?thesis
    proof cases
      case 1
      then show ?thesis using r 4
        by (intro that [of "(b - 224) * 4096 + (c - 128) * 64 + (d - 128)" ds]) (auto simp: cont_def)
    next
      case 2
      then show ?thesis using r 4
        by (intro that [of "(b - 240) * 262144 + (c - 128) * 4096 + (d - 128) * 64 + (f - 128)" fs])
          (auto simp: cont_def)
    next
      case 3
      then show ?thesis using r by (intro that [of 65533 "c # cs"]) auto
    qed
  qed
qed

lemma runes_bound: "r \<in> set (runes bs) \<Longrightarrow> \<forall>b \<in> set bs. b < 256 \<Longrightarrow> r < 2097152"
proof (induction bs rule: length_induct)
  case (1 bs)
  show ?case
  proof (cases "bs = []")
    case True
    then show ?thesis using 1 by simp
  next
    case False
    from runes_step [OF this 1(3)] obtain x rest where
      x: "runes bs = x # runes rest" "x < 2097152" "length rest < length bs" "set rest \<subseteq> set bs" .
    then have "\<forall>b \<in> set rest. b < 256" using 1(3) by blast
    then show ?thesis using 1(1,2) x by auto
  qed
qed

lemma safe_code:
  fixes n :: nat
  assumes "32 \<le> n" "n < 256" "n \<noteq> 127" "n \<noteq> 47" "n \<noteq> 92"
  shows "safe_byte (char_of n)"
proof -
  have c: "of_char (char_of n :: char) = n" using assms(2) by simp
  have "char_of n \<noteq> CHR ''/''" "char_of n \<noteq> CHR 0x5C"
    using arg_cong [of "char_of n :: char" _ "of_char :: char \<Rightarrow> nat"] c assms(4,5) by fastforce+
  then show ?thesis using c assms by (simp add: safe_byte_def)
qed

lemma encode_safe:
  assumes "\<not> is_control_rune r" "r \<noteq> 47" "r \<noteq> 92" "r < 2097152" "b \<in> set (encode_rune r)"
  shows "32 \<le> b \<and> b < 256 \<and> b \<noteq> 127 \<and> b \<noteq> 47 \<and> b \<noteq> 92"
  using assms by (auto simp: encode_rune_def is_control_rune_def split: if_splits)

lemma strip_control_safe: "list_all safe_byte (strip_control s)"
proof -
  have "safe_byte (char_of b)" if r: "r \<in> set (rune_list s)" "\<not> is_control_rune r"
    and b: "b \<in> set (encode_rune (if r = 47 \<or> r = 92 then 95 else r))" for r b
  proof -
    have "\<forall>b \<in> set (map of_char s :: nat list). b < 256" by simp
    then have "r < 2097152" using r(1) runes_bound unfolding rune_list_def by blast
    with r b encode_safe [of "if r = 47 \<or> r = 92 then 95 else r" b] show ?thesis
      by (intro safe_code) (auto simp: is_control_rune_def split: if_splits)
  qed
  then show ?thesis by (auto simp: strip_control_def list_all_iff)
qed

text \<open>The name an image is uploaded under cannot leave its form field. Whatever the Matrix
  event calls the file, the name sent has no path separator and no control byte, is not empty
  and ends with the extension of the detected type.\<close>

theorem upload_name_safe:
  "list_all safe_byte (cleanUploadFileName fileName contentType) \<and> cleanUploadFileName fileName contentType \<noteq> [] \<and>
   has_suffix (CanonicalImageExtension contentType) (cleanUploadFileName fileName contentType)"
proof -
  let ?ext = "CanonicalImageExtension contentType"
  have ext: "list_all safe_byte ?ext"
    by (simp add: CanonicalImageExtension_def safe_byte_def)
  have base: "list_all safe_byte ''tumblr-image''" by (simp add: safe_byte_def)
  have "list_all safe_byte (trim_suffix x s)" if "list_all safe_byte s" for x s
    using that by (auto simp: trim_suffix_def list_all_iff dest: in_set_takeD)
  then have name: "list_all safe_byte (trim_suffix x (strip_control s))" for x s
    using strip_control_safe by blast
  have "has_prefix p (p @ q)" for p q by (induction p) simp_all
  then have sfx: "has_suffix e (b @ e)" for b e by (simp add: has_suffix_def)
  define nm where "nm = strip_control (after_slash (trim_space
      (map (\<lambda>c. if c = CHR 0x5C then CHR ''/'' else c) fileName)))"
  define bs where "bs = trim_suffix (path_ext nm) nm"
  have bs: "list_all safe_byte bs" unfolding bs_def nm_def by (rule name)
  have upload: "cleanUploadFileName fileName contentType =
      (if \<not> blank nm then (if blank bs then ''tumblr-image'' else bs) @ ?ext
       else if ?ext \<noteq> [] then ''tumblr-image'' @ ?ext else ''tumblr-image'')"
    by (simp only: cleanUploadFileName_def Let_def nm_def bs_def)
  have "blank []" by simp
  then consider b where "cleanUploadFileName fileName contentType = b @ ?ext" "list_all safe_byte b" "b \<noteq> []"
    | "cleanUploadFileName fileName contentType = ''tumblr-image''" "?ext = []"
    using bs base unfolding upload by (cases "blank nm"; cases "blank bs"; cases "?ext = []") fastforce+
  then show ?thesis
    by cases (use ext base sfx in \<open>auto simp: has_suffix_def\<close>)
qed

end
