(* ===== verification/InboundTrace.thy ===== *)
theory InboundTrace
  imports InboundMoves RecoveryProperties
begin

text \<open>
  What the runs of the inbound operations consist of: a conversation that was synchronised was
  fetched and reconciled first, a delivery that succeeds hands over every message, and only the
  commit of a delivery moves the completed boundary (pkg/connector/sync.go).
\<close>

section \<open>A synchronised conversation\<close>

lemma wrapping_InrD: "wrapping msg m w = (Inr x, w') \<Longrightarrow> m w = (Inr x, w')"
  by (auto simp: wrapping_def split: prod.splits sum.splits)

lemma handled_error: "handleRemoteError e w \<noteq> (Inr x, w')"
  by (auto simp: handleRemoteError_def raise_def dest!: andThen_InrD)

lemma synced_prepared:
  assumes "syncConversationByIDWithSubmissionLock E I check c rv w = (Inr (Some d), w')"
  shows "\<exists>meta w1 cv head w2. fetch_history E I meta c w1 = (Inr (cv, head), w2) \<and>
    prepareConversationDelivery E I cv True head w2 = (Inr d, w')"
proof -
  have fetched: "\<exists>cv head. f = Inr (cv, head) \<and> prepareConversationDelivery E I cv True head v = (Inr d, w')"
    if "sync_fetched E I check c rv job f v = (Inr (Some d), w')" for job f v
    using that unfolding sync_fetched_def
    by (auto simp: ret_def raise_def handled_error split: sum.splits if_splits dest!: andThen_InrD)
  from assms obtain job v meta where
    "attempt (fetch_history E I meta c) (\<lambda>f. sync_fetched E I check c rv job f) v = (Inr (Some d), w')"
    unfolding syncConversationByIDWithSubmissionLock_def
    by (auto simp: ret_def raise_def split: if_splits dest!: andThen_InrD)
  moreover obtain f u where f: "fetch_history E I meta c v = (f, u)" by fastforce
  ultimately have "sync_fetched E I check c rv job f u = (Inr (Some d), w')" by (simp add: attempt_apply)
  from fetched [OF this] f show ?thesis by blast
qed


lemma prepared_contents:
  assumes "prepareConversationDelivery E I cv True head w = (Inr d, w')"
  shows "\<exists>res cv' w1 w2 w3. reconcileOutboundConversation E cv w = (Inr (res, cv'), w1) \<and>
    missingConversationMessages E (portalKey E (cv_ID cv')) cv' w2 = (Inr (cd_messages d), w3) \<and>
    cd_conversation d = cv' \<and> cd_portalKey d = portalKey E (cv_ID cv') \<and>
    cd_heldMessageCount d = card (rr_heldMessageIDs res) \<and> cd_fetchedHeadMessageID d = head"
proof -
  let ?after = "\<lambda>(reconciliation, cv).
      andThen (markConversationSeen cv) (\<lambda>(firstSeen, newMessages).
      let key = portalKey E (cv_ID cv) in
      andThen time_now (\<lambda>fallbackTimestamp.
      andThen (messagesForConversationSync E key cv firstSeen True newMessages) (\<lambda>messages.
      andThen (readReceiptAlreadyBridged cv) (\<lambda>bridged.
      andThen (if bridged then ret None else readReceiptEventFromConversation E cv key fallbackTimestamp)
        (\<lambda>readReceipt.
      seq (ensureConversationPortalForSync E I key cv (True \<or> firstSeen))
      (ret \<lparr>cd_conversation = cv, cd_portalKey = key, cd_messages = messages, cd_readReceipt = readReceipt,
            cd_fallbackTimestamp = fallbackTimestamp, cd_transactions = rr_transactions reconciliation,
            cd_heldMessageCount = card (rr_heldMessageIDs reconciliation),
            cd_fetchedHeadMessageID = head\<rparr>))))))"
  have "andThen (wrapping ''failed to reconcile Tumblr outbound messages'' (reconcileOutboundConversation E cv)) ?after w =
      (Inr d, w')"
    using assms by (simp add: prepareConversationDelivery_def raise_def split: if_splits)
  from andThen_InrD [OF this] obtain p w1 where
    p: "wrapping ''failed to reconcile Tumblr outbound messages'' (reconcileOutboundConversation E cv) w = (Inr p, w1)"
    and r: "?after p w1 = (Inr d, w')" by blast
  obtain res cv' where q: "p = (res, cv')" by fastforce
  note 1 = wrapping_InrD [OF p [unfolded q]] and 2 = r [unfolded q]
  from 2 obtain w2 w3 messages where
    3: "missingConversationMessages E (portalKey E (cv_ID cv')) cv' w2 = (Inr messages, w3)"
    and 4: "cd_messages d = messages \<and> cd_conversation d = cv' \<and> cd_portalKey d = portalKey E (cv_ID cv') \<and>
      cd_heldMessageCount d = card (rr_heldMessageIDs res) \<and> cd_fetchedHeadMessageID d = head"
    unfolding Let_def messagesForConversationSync_def prod.case simp_thms if_True ret_def
    by (auto dest!: andThen_InrD)
  show ?thesis using 1 3 4 by blast
qed

lemma held_finite: "reconcileOutboundConversation E cv w = (Inr (res, cv'), w') \<Longrightarrow> finite (rr_heldMessageIDs res)"
  by (auto simp: reconcileOutboundConversation_def held_messages_def ret_def dest!: andThen_InrD)

section \<open>Delivering\<close>

definition handed :: "world \<Rightarrow> portal_key \<Rightarrow> remote_message \<Rightarrow> bool" where
  "handed w key m \<longleftrightarrow> (\<exists>sender isFromMe at x. Delivered (MessageEvent key m sender isFromMe at x) \<in> set (w_effects w))"

lemma handed_deeds: "handed w key m \<longleftrightarrow>
    (\<exists>sender isFromMe at x. Delivered (MessageEvent key m sender isFromMe at x) \<in> set (deeds w))"
  by (simp add: handed_def deeds_def)

lemma handed_mono: "set (deeds w) \<subseteq> set (deeds w') \<Longrightarrow> handed w key m \<Longrightarrow> handed w' key m"
  unfolding handed_deeds by blast

lemma handed_recedes: "receding pke w w' \<Longrightarrow> handed w key m \<Longrightarrow> handed w' key m"
  using handed_mono unfolding receding_def by blast

lemma queued_delivered:
  assumes "queueRemoteEvent E I ev w = (Inr r, w')" and "accepted r"
  shows "Delivered ev \<in> set (w_effects w')"
  using assms unfolding queueRemoteEvent_def
  by (auto simp: Let_def attempt_def ret_def accepted_def emit_def dest!: andThen_InrD split: if_splits prod.splits)

lemma queue_error_Inr: "remoteEventQueueError r s w = (Inr x, w') \<Longrightarrow> accepted r \<and> w' = w"
  by (auto simp: remoteEventQueueError_def ret_def raise_def split: if_splits option.splits)

lemma message_event:
  "messageEventFromMessageWithTransaction E H key m fb x w = (Inr (Some ev), w') \<Longrightarrow>
   \<exists>sender isFromMe at. ev = MessageEvent key m sender isFromMe at x"
  by (auto simp: messageEventFromMessageWithTransaction_def ret_def dest!: andThen_InrD split: if_splits)

lemma queued_handed:
  assumes "outside_env leaves_all E" "outside_inbound (e_pke E) leaves_all I"
    and "queue_messages E I key fb tx ms w = (Inr (), w')"
  shows "\<forall>m \<in> set ms. handed w' key m"
  using assms(3)
proof (induction ms arbitrary: w)
  case Nil
  then show ?case by simp
next
  case (Cons m ms)
  let ?event = "messageEventFromMessageWithTransaction E (i_http I) key m fb
        (case tx (rm_ID m) of Some x \<Rightarrow> x | None \<Rightarrow> [])"
  from Cons.prems obtain ev w1 w2 r w3 w4 where
    1: "?event w1 = (Inr (Some ev), w2)" and 2: "queueRemoteEvent E I ev w2 = (Inr r, w3)"
    and 3: "remoteEventQueueError r ''tumblr message'' w3 = (Inr (), w4)"
    and 4: "queue_messages E I key fb tx ms w4 = (Inr (), w')"
    by (auto simp: raise_def dest!: andThen_InrD split: option.splits)
  have ok: "accepted r" "w4 = w3" using queue_error_Inr [OF 3] by auto
  then have "handed w4 key m"
    using queued_delivered [OF 2] message_event [OF 1] by (auto simp: handed_def)
  moreover have "receding (e_pke E) w4 w'"
    using recedes [OF recession.queue_messages_mild [OF assms(1,2)] 4] .
  ultimately show ?case using handed_recedes Cons.IH [OF 4] by auto
qed

lemma delivered_handed:
  assumes "outside_env leaves_all E" "outside_inbound (e_pke E) leaves_all I"
    and "deliverConversation E I d w = (Inr (), w')"
  shows "(\<forall>m \<in> set (cd_messages d). handed w' (cd_portalKey d) m) \<and> cd_heldMessageCount d = 0"
proof -
  from assms(3) obtain w1 w2 where
    1: "queue_messages E I (cd_portalKey d) (cd_fallbackTimestamp d) (cd_transactions d) (cd_messages d) w = (Inr (), w1)"
    and 2: "(case cd_readReceipt d of
        None \<Rightarrow> ret ()
      | Some receipt \<Rightarrow> seq ctx_guard
          (andThen (queueRemoteEvent E I receipt) (\<lambda>r. remoteEventQueueError r ''tumblr read receipt''))) w1 = (Inr (), w2)"
    and 3: "seq (if cd_readReceipt d \<noteq> None then markReadReceiptBridged (cd_conversation d) else ret ())
      (if 0 < cd_heldMessageCount d then raise (Deferred (cd_heldMessageCount d)) else ret ()) w2 = (Inr (), w')"
    using andThen_InrD [OF assms(3) [unfolded deliverConversation_def queueConversationMessageChain_def]]
    by (elim exE conjE) (drule andThen_InrD, elim exE conjE, simp)
  have "moves (receding (e_pke E)) (case cd_readReceipt d of
        None \<Rightarrow> ret ()
      | Some receipt \<Rightarrow> seq ctx_guard
          (andThen (queueRemoteEvent E I receipt) (\<lambda>r. remoteEventQueueError r ''tumblr read receipt'')))"
    by (intro moves_intros recession.clocked_mild recession.queue_event_mild recession.queue_error_mild assms)
  from recedes [OF this 2] have 4: "receding (e_pke E) w1 w2" .
  have "moves (receding (e_pke E)) (if cd_readReceipt d \<noteq> None then markReadReceiptBridged (cd_conversation d) else ret ())"
    by (intro moves_intros recession.seen_mild)
  moreover from 3 have held: "cd_heldMessageCount d = 0"
    and "(if cd_readReceipt d \<noteq> None then markReadReceiptBridged (cd_conversation d) else ret ()) w2 = (Inr (), w')"
    by (auto simp: raise_def ret_def dest!: andThen_InrD split: if_splits)
  ultimately have "receding (e_pke E) w2 w'" using recedes by blast
  with 4 queued_handed [OF assms(1,2) 1] held handed_recedes show ?thesis by blast
qed

text \<open>What is missing is delivered; what is not, the framework has.\<close>

definition known_message :: "env \<Rightarrow> portal_key \<Rightarrow> remote_message \<Rightarrow> bool" where
  "known_message E key m \<longleftrightarrow>
     (\<exists>w row w'. foreign (e_message_by_id E (pk_receiver key) (rm_ID m)) w = (Inr (Some row), w'))"

lemma missing_complete:
  "missing_messages E key ms w = (Inr missing, w') \<Longrightarrow> m \<in> set ms \<Longrightarrow> validRemoteID (rm_ID m) \<Longrightarrow>
   m \<in> set missing \<or> known_message E key m"
proof (induction ms arbitrary: w w' missing)
  case Nil
  then show ?case by simp
next
  case (Cons a ms)
  show ?case
  proof (cases "validRemoteID (rm_ID a)")
    case False
    with Cons show ?thesis by auto
  next
    case True
    from Cons.prems(1) True obtain row w1 rest w2 where
      1: "foreign (e_message_by_id E (pk_receiver key) (rm_ID a)) w = (Inr row, w1)"
      and 2: "missing_messages E key ms w1 = (Inr rest, w2)"
      and 3: "missing = (if row = None then a # rest else rest)"
      by (auto simp: ret_def wrapping_def dest!: andThen_InrD split: prod.splits sum.splits)
    show ?thesis
    proof (cases "m = a")
      case True
      then show ?thesis using 1 3 by (cases row) (auto simp: known_message_def)
    next
      case False
      then show ?thesis using Cons.IH [OF 2] Cons.prems(2,3) 3 by auto
    qed
  qed
qed

lemma missing_conversation:
  assumes "missingConversationMessages E key cv w = (Inr missing, w')" "m \<in> set (cv_Messages cv)" "validRemoteID (rm_ID m)"
  shows "m \<in> set missing \<or> known_message E key m"
  using assms missing_complete [of E key _ _ missing w' m]
  by (fastforce simp: missingConversationMessages_def sortedMessages_def sortedMessagesWithReference_def ret_def
      dest!: andThen_InrD)

section \<open>Committing\<close>

definition completing :: "(conversation_sync_row \<Rightarrow> bool) \<Rightarrow> world \<Rightarrow> world \<Rightarrow> bool" where
  "completing P w w' \<longleftrightarrow>
     set (conversation_syncs (tbl w')) \<subseteq> set (conversation_syncs (tbl w)) \<union> Collect P \<and> set (deeds w) \<subseteq> set (deeds w')"

lemma completing_rtrancl: "(completing P)\<^sup>*\<^sup>* w w' \<Longrightarrow> completing P w w'"
proof (induction rule: rtranclp_induct)
  case base
  show ?case by (simp add: completing_def)
next
  case (step v u)
  then show ?case unfolding completing_def by blast
qed

lemma receding_completing: "moves (receding pke) m \<Longrightarrow> moves (completing P) m"
  unfolding moves_def
proof
  fix w
  assume "\<forall>w. (receding pke)\<^sup>*\<^sup>* w (snd (m w))"
  then have "receding pke w (snd (m w))" using receding_rtrancl by blast
  then have "completing P w (snd (m w))" by (auto simp: receding_def completing_def)
  then show "(completing P)\<^sup>*\<^sup>* w (snd (m w))" by blast
qed

lemma head_completing:
  "moves (completing (\<lambda>s. cs_bridge_id s = b \<and> cs_user_login_id s = l \<and> cs_conversation_id s = c \<and>
     cs_completed_head_message_id s = head)) (ConversationSync_SetCompletedHead b l c head at)"
  (is "moves (completing ?P) _")
  unfolding ConversationSync_SetCompletedHead_def moves_def
proof (intro allI r_into_rtranclp)
  fix w :: world
  have step: "set (conversation_syncs (snd (setConversationSync b l c head (unix_milli at) t)))
      \<subseteq> set (conversation_syncs t) \<union> Collect ?P" for t
    by (auto simp: setConversationSync_def update_where_def conversation_sync_at_def)
  from exec_tbl [of "setConversationSync b l c head (unix_milli at)" w]
  have "set (conversation_syncs (tbl (snd (exec (setConversationSync b l c head (unix_milli at)) w))))
      \<subseteq> set (conversation_syncs (tbl w)) \<union> Collect ?P"
    by (rule disjE) (simp_all only: step sup_ge1)
  moreover have "deeds (snd (exec (setConversationSync b l c head (unix_milli at)) w)) = deeds w"
    by (auto simp: exec_def deeds_def split: list.split bool.split prod.split)
  ultimately show "completing ?P w (snd (exec (setConversationSync b l c head (unix_milli at)) w))"
    by (simp add: completing_def)
qed

definition marks :: "env \<Rightarrow> conversation_delivery \<Rightarrow> conversation_sync_row \<Rightarrow> bool" where
  "marks E d s \<longleftrightarrow> cs_bridge_id s = e_bridge_id E \<and> cs_user_login_id s = e_login_id E \<and>
     cs_conversation_id s = cv_ID (cd_conversation d) \<and> cs_completed_head_message_id s = cd_fetchedHeadMessageID d"

lemma commit_completing:
  assumes "outside_env leaves_all E"
  shows "moves (completing (marks E d)) (commitConversationDelivery E d)"
proof -
  have "marks E d = (\<lambda>s. cs_bridge_id s = e_bridge_id E \<and> cs_user_login_id s = e_login_id E \<and>
     cs_conversation_id s = cv_ID (cd_conversation d) \<and> cs_completed_head_message_id s = cd_fetchedHeadMessageID d)"
    by (simp add: marks_def fun_eq_iff)
  note set = head_completing [of "e_bridge_id E" "e_login_id E" "cv_ID (cd_conversation d)" "cd_fetchedHeadMessageID d",
      folded this]
  show ?thesis
    unfolding commitConversationDelivery_def
    by (intro moves_intros set recession.read_store_mild [THEN receding_completing [where pke = "e_pke E"]]
      recession.local_moves [THEN receding_completing [where pke = "e_pke E"]]
      recession.env_moves [OF assms, THEN receding_completing])
qed

text \<open>A boundary that synchronising a conversation adds was committed by a delivery that succeeded.\<close>

lemma boundary_committed:
  assumes "outside_env leaves_all E" "outside_inbound (e_pke E) leaves_all I"
    and run: "synchronise E (inbound_sync_ops E I check rv) c w = (r, w')"
    and new: "s \<in> set (conversation_syncs (tbl w'))" "s \<notin> set (conversation_syncs (tbl w))"
  shows "\<exists>d w1 w2. syncConversationByIDWithSubmissionLock E I check c rv w = (Inr (Some d), w1) \<and>
    deliverConversation E I d w1 = (Inr (), w2) \<and> marks E d s \<and> set (deeds w2) \<subseteq> set (deeds w')"
proof -
  let ?lock = "foreign (e_submission_lock E)"
  obtain synced w1 where 1: "syncConversationByIDWithSubmissionLock E I check c rv w = (synced, w1)" by fastforce
  have r1: "receding (e_pke E) w w1" using recedes [OF recession.deletion_mild(3) [OF assms(1,2)] 1] .
  then have old: "s \<notin> set (conversation_syncs (tbl w1))" using new(2) by (auto simp: receding_def)
  have run': "(case synced of
       Inl e \<Rightarrow> ret (Some e)
     | Inr None \<Rightarrow> ret None
     | Inr (Some delivery) \<Rightarrow>
         attempt (deliverConversation E I delivery) (\<lambda>delivered.
         attempt ?lock (\<lambda>locked.
         case locked of
           Inl e \<Rightarrow> raise (joined_with (left_error delivered) e)
         | Inr _ \<Rightarrow>
             (case delivered of
                Inl e \<Rightarrow> ret (Some e)
              | Inr _ \<Rightarrow> attempt (commitConversationDelivery E delivery) (\<lambda>committed. ret (left_error committed)))))) w1 = (r, w')"
    using run unfolding synchronise_def inbound_sync_ops_def conversation_sync_ops.select_convs
    by (simp only: attempt_apply [where m = "syncConversationByIDWithSubmissionLock E I check c rv" and s = w, OF 1])
  obtain d where d: "synced = Inr (Some d)"
    using run' new(1) old by (cases synced) (auto simp: ret_def split: option.splits)
  obtain dr w2 where 2: "deliverConversation E I d w1 = (dr, w2)" by fastforce
  obtain lr w3 where 3: "?lock w2 = (lr, w3)" by fastforce
  have r2: "receding (e_pke E) w1 w2" using recedes [OF recession.deliver_mild [OF assms(1,2)] 2] .
  have r3: "receding (e_pke E) w2 w3" using recedes [OF recession.env_moves(15) [OF assms(1)] 3] .
  have old': "s \<notin> set (conversation_syncs (tbl w3))" using old r2 r3 by (auto simp: receding_def)
  have 4: "(case lr of Inl e \<Rightarrow> raise (joined_with (left_error dr) e)
      | Inr _ \<Rightarrow> (case dr of Inl e \<Rightarrow> ret (Some e)
          | Inr _ \<Rightarrow> attempt (commitConversationDelivery E d) (\<lambda>committed. ret (left_error committed)))) w3 = (r, w')"
    using run' d 2 3 by (simp add: attempt_apply)
  obtain x y where ok: "lr = Inr x" "dr = Inr y"
    using 4 new(1) old' by (cases lr; cases dr) (auto simp: ret_def raise_def)
  then obtain cr where 5: "commitConversationDelivery E d w3 = (cr, w')"
    using 4 by (auto simp: attempt_def ret_def split: prod.splits)
  have "completing (marks E d) w3 w'"
    using completing_rtrancl [OF movesD [OF commit_completing [OF assms(1), of d], of w3]] 5 by simp
  then have "marks E d s" and "set (deeds w3) \<subseteq> set (deeds w')" using new(1) old' by (auto simp: completing_def)
  moreover have "set (deeds w2) \<subseteq> set (deeds w3)" using r3 by (simp add: receding_def)
  ultimately show ?thesis using 1 2 d ok by auto
qed

end
