(* ===== verification/InboundProperties.thy ===== *)
theory InboundProperties
  imports InboundTrace InboundSamples
begin

text \<open>
  What the inbound synchronisation guarantees (pkg/connector/sync.go, inbound_sync.go,
  conversation_delete.go).
\<close>

section \<open>No message is skipped\<close>



section \<open>No room is removed without evidence\<close>

lemma room_deleted_removals:
  assumes "outside_inbound (e_pke E) leaves I" and "ensureTumblrMatrixRoomDeleted I room w = (r, w')"
  shows "removals w' = removals w \<or> removals w' = removals w @ [RoomRemoved room]"
proof (cases "room = []")
  case True
  then show ?thesis using assms(2) by (simp add: ensureTumblrMatrixRoomDeleted_def ret_def)
next
  case False
  let ?rest = "\<lambda>probe. andThen (foreign (i_delete_room I room)) (\<lambda>deleted.
           case deleted of
             MatrixFailed e \<Rightarrow>
               (let failed = Wrapped ''failed to retry deleted Tumblr Matrix room cleanup'' [e] in
                case probe of
                  MatrixFailed p \<Rightarrow> raise (join_errors
                    (Wrapped ''failed to confirm deleted Tumblr Matrix room'' [p]) failed)
                | _ \<Rightarrow> raise failed)
           | _ \<Rightarrow> ret ())"
  have rest: "removals u' = removals u" if "?rest probe u = (q, u')" for probe u q u'
  proof -
    have "moves (sparing (e_pke E)) (?rest probe)"
      by (intro moves_intros spared.inbound_env_moves [OF assms(1)])
    from spares [OF this that] show ?thesis .
  qed
  obtain p v where probe: "foreign (i_members I room) w = (p, v)" by fastforce
  have v: "removals v = removals w"
    using spares [OF spared.inbound_env_moves(10) [OF assms(1)] probe] .
  show ?thesis
  proof (cases p)
    case (Inl e)
    then show ?thesis using assms(2) probe v False by (simp add: ensureTumblrMatrixRoomDeleted_def andThen_Inl)
  next
    case (Inr a)
    show ?thesis
    proof (cases "a = MatrixNotFound")
      case True
      then show ?thesis using assms(2) probe v False Inr
        by (simp add: ensureTumblrMatrixRoomDeleted_def andThen_Inr ret_def)
    next
      case no: False
      then have "?rest a (v\<lparr>w_effects := w_effects v @ [RoomRemoved room]\<rparr>) = (r, w')"
        using assms(2) probe False Inr by (simp add: ensureTumblrMatrixRoomDeleted_def andThen_Inr emit_def)
      from rest [OF this] show ?thesis using v by (simp add: removals_def)
    qed
  qed
qed

text \<open>Where a removal comes from: past an operation that removes nothing.\<close>

lemma removal_later:
  assumes "moves (sparing pke) m" and "andThen m f w = (r, w')" and "removals w' \<noteq> removals w"
  shows "\<exists>x w1. m w = (Inr x, w1) \<and> f x w1 = (r, w') \<and> removals w1 = removals w \<and> removals w' \<noteq> removals w1"
proof -
  obtain q w1 where m: "m w = (q, w1)" by fastforce
  have same: "removals w1 = removals w" using spares [OF assms(1) m] .
  obtain x where "q = Inr x" using assms(2,3) m same by (cases q) (auto simp: andThen_Inl)
  then show ?thesis using m same assms(2,3) by (simp add: andThen_Inr)
qed

lemma removal_attempt:
  assumes "moves (sparing pke) m" and "attempt m f w = (r, w')" and "removals w' \<noteq> removals w"
  shows "\<exists>q w1. m w = (q, w1) \<and> f q w1 = (r, w') \<and> removals w1 = removals w \<and> removals w' \<noteq> removals w1"
proof -
  obtain q w1 where m: "m w = (q, w1)" by fastforce
  show ?thesis using m spares [OF assms(1) m] assms(2,3) by (simp add: attempt_apply [where m = m and s = w, OF m])
qed

lemma finish_removals:
  assumes "foreign_env E" "foreign_inbound E I" and "finishTumblrConversationDelete E I key room w = (r, w')"
  shows "removals w' = removals w \<or> removals w' = removals w @ [RoomRemoved room]"
proof (rule ccontr)
  note inb = assms(2) [unfolded foreign_inbound_def]
  assume no: "\<not> ?thesis"
  then have ne: "removals w' \<noteq> removals w" by simp
  have m: "moves (sparing (e_pke E)) (wrapping ''failed to load persisted deleted Tumblr portal''
      (foreign (e_db_portal_by_key E key)))"
    "moves (sparing (e_pke E)) (wrapping ''failed to verify deleted Tumblr portal cache''
      (loadPortalWithPersistedParity E key p))" for p
    by (intro moves_intros spared.env_moves spared.portal_mild assms(1))+
  from removal_later [OF m(1) assms(3) [unfolded finishTumblrConversationDelete_def] ne] obtain p w1 where
    1: "andThen (wrapping ''failed to verify deleted Tumblr portal cache'' (loadPortalWithPersistedParity E key p)) (\<lambda>portal.
     if portal \<noteq> None then fail ''deleted Tumblr portal still exists after cleanup''
     else if room = [] then ret ()
     else seq (ensureTumblrMatrixRoomDeleted I room) (ensureTumblrFilteringSpaceChildRemoved I room)) w1 = (r, w')"
    and s1: "removals w1 = removals w" "removals w' \<noteq> removals w1" by blast
  from removal_later [OF m(2) 1 s1(2)] obtain q :: "portal_object option" and w2 where
    2: "(if q \<noteq> None then fail ''deleted Tumblr portal still exists after cleanup''
     else if room = [] then ret ()
     else seq (ensureTumblrMatrixRoomDeleted I room) (ensureTumblrFilteringSpaceChildRemoved I room)) w2 = (r, w')"
    and s2: "removals w2 = removals w1" by blast
  note s2 = s2 [unfolded s1(1)]
  from 2 have 3: "seq (ensureTumblrMatrixRoomDeleted I room) (ensureTumblrFilteringSpaceChildRemoved I room) w2 = (r, w')"
    using ne s2 by (auto simp: raise_def ret_def split: if_splits)
  obtain er w3 where 4: "ensureTumblrMatrixRoomDeleted I room w2 = (er, w3)" by fastforce
  have s3: "removals w3 = removals w \<or> removals w3 = removals w @ [RoomRemoved room]"
    using room_deleted_removals [OF inb 4] s2 by simp
  have child: "moves (sparing (e_pke E)) (ensureTumblrFilteringSpaceChildRemoved I room)"
    unfolding ensureTumblrFilteringSpaceChildRemoved_def by (intro moves_intros spared.inbound_env_moves [OF inb])
  show False
  proof (cases er)
    case (Inl e)
    then show ?thesis using 3 4 s3 no by (simp add: andThen_Inl)
  next
    case (Inr x)
    then have "ensureTumblrFilteringSpaceChildRemoved I room w3 = (r, w')" using 3 4 by (simp add: andThen_Inr)
    then show ?thesis using spares [OF child] s3 no by metis
  qed
qed

lemma conversation_removals:
  assumes "foreign_env E" "foreign_inbound E I" and "remove_conversation E I c rv w = (r, w')"
    and "removals w' \<noteq> removals w"
  shows "\<exists>w1 w2 room. remove_portal E c rv w1 = (Inr room, w2) \<and> removals w' = removals w @ [RoomRemoved room]"
proof -
  note inb = assms(2) [unfolded foreign_inbound_def]
  let ?cancel = "\<lambda>msg. wrapping msg (Worker_terminalizeOutboundConversation E c)"
  let ?rest = "seq (?cancel ''failed to finish cancelling outbound sends for deleted Tumblr conversation'')
      (seq (wrapping ''failed to clear deleted Tumblr conversation sync state''
             (lift_store (ConversationSync_Delete (e_bridge_id E) (e_login_id E) c)))
      (clearDeletedConversationSeenState c))"
  have m: "moves (sparing (e_pke E)) (?cancel msg)" "moves (sparing (e_pke E)) (remove_portal E c rv)" "moves (sparing (e_pke E)) ?rest" for msg
    by (intro moves_intros spared.terminalize_mild spared.remove_portal_mild spared.jobs_mild spared.seen_mild assms(1))+
  from removal_later [OF m(1) assms(3) [unfolded remove_conversation_def] assms(4)] obtain w1 where
    1: "andThen (remove_portal E c rv) (\<lambda>room. seq (finishTumblrConversationDelete E I (portalKey E c) room) ?rest) w1 = (r, w')"
    and s1: "removals w1 = removals w" "removals w' \<noteq> removals w1" by blast
  from removal_later [OF m(2) 1 s1(2)] obtain room w2 where
    2: "remove_portal E c rv w1 = (Inr room, w2)"
    and 3: "seq (finishTumblrConversationDelete E I (portalKey E c) room) ?rest w2 = (r, w')"
    and s2: "removals w2 = removals w1" by blast
  note s2 = s2 [unfolded s1(1)]
  obtain fr w3 where 4: "finishTumblrConversationDelete E I (portalKey E c) room w2 = (fr, w3)" by fastforce
  have s3: "removals w3 = removals w \<or> removals w3 = removals w @ [RoomRemoved room]"
    using finish_removals [OF assms(1,2) 4] s2 by simp
  have "removals w' = removals w3"
  proof (cases fr)
    case (Inl e)
    then show ?thesis using 3 4 by (simp add: andThen_Inl)
  next
    case (Inr x)
    then have "?rest w3 = (r, w')" using 3 4 by (simp add: andThen_Inr)
    then show ?thesis using spares [OF m(3)] by blast
  qed
  with s3 assms(4) 2 show ?thesis by metis
qed

text \<open>What a removal that is confirmed rests on: a durable intent of the job, or a conversation that
  the list no longer has and whose other user is not blocked.\<close>

lemma confirmed_evidence:
  assumes "removal_confirmed E I check c j uuid w = (Inr True, w')"
  shows "jDeleteRoomID j \<noteq> [] \<or> (\<exists>portal w1 w2. conversationStillListed E I uuid j w = (Inr False, w1) \<and>
    foreign (e_portal E (portalKey E c)) w1 = (Inr portal, w2) \<and> block_allows E I check j portal w2 = (Inr True, w'))"
proof (cases "jDeleteRoomID j = []")
  case True
  with andThen_InrD [of _ _ w True w'] assms obtain listed w1 where
    1: "conversationStillListed E I uuid j w = (Inr listed, w1)"
    and 2: "(if listed then seq (keep_listed E I c) (ret False)
       else andThen (foreign (e_portal E (portalKey E c))) (\<lambda>portal. block_allows E I check j portal)) w1 = (Inr True, w')"
    unfolding removal_confirmed_def by (auto dest!: andThen_InrD wrapping_InrD)
  then show ?thesis by (cases listed) (auto simp: ret_def dest!: andThen_InrD)
qed simp

lemma missing_removals:
  assumes "foreign_env E" and "foreign_inbound E I"
    and "delete_missing E I check c rv uuid w = (r, w')" and "removals w' \<noteq> removals w"
  shows "\<exists>now w1 w2 j w3 w4 room. time_now w = (Inr now, w1) \<and>
    lift_store (Jobs_Ensure (e_bridge_id E) (e_login_id E) c now) w1 = (Inr (), w2) \<and>
    lift_store (Jobs_Get (e_bridge_id E) (e_login_id E) c) w2 = (Inr (Some j), w3) \<and> 0 < rv \<and> jRevision j = rv \<and>
    removal_confirmed E I check c j uuid w3 = (Inr True, w4) \<and> removals w' = removals w @ [RoomRemoved room]"
proof -
  note inb = assms(2) [unfolded foreign_inbound_def]
  let ?store = "\<lambda>now. wrapping ''failed to persist deleted Tumblr conversation cleanup''
              (lift_store (Jobs_Ensure (e_bridge_id E) (e_login_id E) c now))"
  let ?load = "wrapping ''failed to reload deleted Tumblr conversation cleanup''
              (lift_store (Jobs_Get (e_bridge_id E) (e_login_id E) c))"
  let ?remove = "\<lambda>j. andThen (removal_confirmed E I check c j uuid) (\<lambda>go.
      if go then remove_conversation E I c rv else ret ())"
  let ?reloaded = "\<lambda>job. case job of
      None \<Rightarrow> raise (Sentinel JobSuperseded)
    | Some j \<Rightarrow> if rv \<le> 0 \<or> jRevision j \<noteq> rv then raise (Sentinel JobSuperseded) else ?remove j"
  have q: "moves (sparing (e_pke E)) time_now" "moves (sparing (e_pke E)) (?store now)" "moves (sparing (e_pke E)) ?load"
    "moves (sparing (e_pke E)) (removal_confirmed E I check c j uuid)" for now j
    by (intro moves_intros spared.local_moves spared.jobs_mild spared.read_store_mild spared.confirmed_mild assms(1) inb)+
  from removal_later [OF q(1) assms(3) [unfolded delete_missing_def] assms(4)] obtain now w1 where
    1: "time_now w = (Inr now, w1)" "removals w1 = removals w" "removals w' \<noteq> removals w1"
    and run1: "seq (?store now) (andThen ?load ?reloaded) w1 = (r, w')" by auto
  from removal_later [OF q(2) run1 1(3)] obtain w2 where
    2: "?store now w1 = (Inr (), w2)" "removals w2 = removals w1" "removals w' \<noteq> removals w2"
    and run2: "andThen ?load ?reloaded w2 = (r, w')" by auto
  from removal_later [OF q(3) run2 2(3)] obtain job w3 where
    3: "?load w2 = (Inr job, w3)" "removals w3 = removals w2" "removals w' \<noteq> removals w3"
    and run3: "?reloaded job w3 = (r, w')" by auto
  from run3 3(3) obtain j where j: "job = Some j" "0 < rv" "jRevision j = rv" and run4: "?remove j w3 = (r, w')"
    by (cases job) (auto simp: raise_def split: if_splits)
  from removal_later [OF q(4) run4 3(3)] obtain go w4 where
    4: "removal_confirmed E I check c j uuid w3 = (Inr go, w4)" "removals w4 = removals w3" "removals w' \<noteq> removals w4"
    and run5: "(if go then remove_conversation E I c rv else ret ()) w4 = (r, w')" by auto
  from run5 4(3) have go: "go" "remove_conversation E I c rv w4 = (r, w')" by (auto simp: ret_def split: if_splits)
  from conversation_removals [OF assms(1,2) go(2) 4(3)] obtain room where
    room: "removals w' = removals w4 @ [RoomRemoved room]" by blast
  then have "removals w' = removals w @ [RoomRemoved room]" using 1 2 3 4 by simp
  with 1(1) wrapping_InrD [OF 2(1)] wrapping_InrD [OF 3(1) [unfolded j(1)]] j(2,3) 4(1) [unfolded eqTrueI [OF go(1)]]
  show ?thesis by blast
qed

text \<open>C38: a room is removed only on evidence, and only one. When the deletion of a conversation
  asks the Matrix server to remove a room, then in this run the user was logged in, the service was
  asked for the conversation itself and answered "not found", the durable job still had the expected
  revision, and the removal was confirmed: by a room saved in the job, or because the conversation
  list does not have the conversation and the block check allows the removal.\<close>

theorem room_removed_on_evidence:
  assumes "foreign_env E" and "foreign_inbound E I"
    and "handleRemoteConversationDelete E I check c rv w = (r, w')" and "removals w' \<noteq> removals w"
  shows "\<exists>w0 meta w1 w2 e w3 now w4 w5 j w6 w7 room.
    requireLoggedInForContext I w = (Inr (), w0) \<and> foreign (e_metadata E) w0 = (Inr meta, w1) \<and>
    foreign (e_client E) w1 = (Inr (), w2) \<and>
    GetConversationBefore I (lm_SelectedBlogName meta) c 1 [] w2 = (Inl e, w3) \<and> IsNotFound e \<and>
    time_now w3 = (Inr now, w4) \<and>
    lift_store (Jobs_Ensure (e_bridge_id E) (e_login_id E) c now) w4 = (Inr (), w5) \<and>
    lift_store (Jobs_Get (e_bridge_id E) (e_login_id E) c) w5 = (Inr (Some j), w6) \<and> 0 < rv \<and> jRevision j = rv \<and>
    removal_confirmed E I check c j (lm_SelectedBlogUUID meta) w6 = (Inr True, w7) \<and>
    (jDeleteRoomID j \<noteq> [] \<or> (\<exists>portal v1 v2.
       conversationStillListed E I (lm_SelectedBlogUUID meta) j w6 = (Inr False, v1) \<and>
       foreign (e_portal E (portalKey E c)) v1 = (Inr portal, v2) \<and>
       block_allows E I check j portal v2 = (Inr True, w7))) \<and>
    removals w' = removals w @ [RoomRemoved room]"
proof -
  note inb = assms(2) [unfolded foreign_inbound_def]
  let ?get = "\<lambda>meta. GetConversationBefore I (lm_SelectedBlogName meta) c 1 []"
  let ?answered = "\<lambda>meta probe. case probe of
      Inr resp \<Rightarrow> cancel_deletion E c resp
    | Inl e \<Rightarrow> if IsNotFound e then delete_missing E I check c rv (lm_SelectedBlogUUID meta)
        else if IsAuthError e then handleRemoteError e
        else raise (Wrapped ''failed to confirm deleted Tumblr conversation'' [e])"
  have q: "moves (sparing (e_pke E)) (requireLoggedInForContext I)" "moves (sparing (e_pke E)) (foreign (e_metadata E))"
    "moves (sparing (e_pke E)) (foreign (e_client E))" "moves (sparing (e_pke E)) (?get meta)"
    "moves (sparing (e_pke E)) (cancel_deletion E c resp)" "moves (sparing (e_pke E)) (handleRemoteError e :: unit act)"
    for meta resp e
    unfolding GetConversationBefore_def
    by (intro moves_intros spared.fetching_mild spared.env_moves spared.requests_mild spared.live_mild
        spared.handle_error_mild assms(1) inb spared.inbound_http [OF inb])+
  have "validRemoteID c"
    using assms(3,4) by (cases "validRemoteID c") (simp_all add: handleRemoteConversationDelete_def raise_def)
  then have run: "seq (requireLoggedInForContext I) (andThen (foreign (e_metadata E)) (\<lambda>meta.
      seq (foreign (e_client E)) (attempt (?get meta) (?answered meta)))) w = (r, w')"
    using assms(3) by (simp only: handleRemoteConversationDelete_def not_True_eq_False if_False)
  from removal_later [OF q(1) run assms(4)] obtain w0 where
    0: "requireLoggedInForContext I w = (Inr (), w0)" "removals w0 = removals w" "removals w' \<noteq> removals w0"
    and run0: "andThen (foreign (e_metadata E)) (\<lambda>meta. seq (foreign (e_client E)) (attempt (?get meta) (?answered meta))) w0 = (r, w')"
    by auto
  from removal_later [OF q(2) run0 0(3)] obtain meta w1 where
    1: "foreign (e_metadata E) w0 = (Inr meta, w1)" "removals w1 = removals w0" "removals w' \<noteq> removals w1"
    and run1: "seq (foreign (e_client E)) (attempt (?get meta) (?answered meta)) w1 = (r, w')" by auto
  from removal_later [OF q(3) run1 1(3)] obtain w2 where
    2: "foreign (e_client E) w1 = (Inr (), w2)" "removals w2 = removals w1" "removals w' \<noteq> removals w2"
    and run2: "attempt (?get meta) (?answered meta) w2 = (r, w')" by auto
  from removal_attempt [OF q(4) run2 2(3)] obtain probe w3 where
    3: "?get meta w2 = (probe, w3)" "removals w3 = removals w2" "removals w' \<noteq> removals w3"
    and run3: "?answered meta probe w3 = (r, w')" by auto
  obtain e where e: "probe = Inl e" "IsNotFound e"
  proof (cases probe)
    case (Inl e)
    moreover have "IsNotFound e"
      using run3 3(3) Inl spares [OF q(6)] by (auto simp: raise_def split: if_splits)
    ultimately show ?thesis using that by blast
  next
    case (Inr resp)
    then show ?thesis using run3 3(3) spares [OF q(5)] by simp
  qed
  with run3 have "delete_missing E I check c rv (lm_SelectedBlogUUID meta) w3 = (r, w')" by simp
  from missing_removals [OF assms(1,2) this 3(3)] obtain now w4 w5 j w6 w7 room where
    4: "time_now w3 = (Inr now, w4)" "lift_store (Jobs_Ensure (e_bridge_id E) (e_login_id E) c now) w4 = (Inr (), w5)"
      "lift_store (Jobs_Get (e_bridge_id E) (e_login_id E) c) w5 = (Inr (Some j), w6)" "0 < rv" "jRevision j = rv"
      "removal_confirmed E I check c j (lm_SelectedBlogUUID meta) w6 = (Inr True, w7)"
    and room: "removals w' = removals w3 @ [RoomRemoved room]" by blast
  have room': "removals w' = removals w @ [RoomRemoved room]" using room 0 1 2 3 by simp
  show ?thesis
    by (intro exI conjI) (rule 0(1) 1(1) 2(1) 3(1) [unfolded e(1)] e(2) 4 confirmed_evidence [OF 4(6)] room')+
qed

lemma room_removed_on_evidence_witness:
  "\<exists>room e w2 w3 w'. removals w' = [RoomRemoved room] \<and> IsNotFound e \<and>
     (\<exists>meta :: login_metadata. GetConversationBefore (sample_inbound sample_http) (lm_SelectedBlogName meta) ''c'' 1 [] w2 = (Inl e, w3))"
proof -
  from sample_deletion deleting_start obtain x w' where
    run: "handleRemoteConversationDelete inbound_world_env (sample_inbound sample_http) None ''c'' 1 deletion_world = (Inr x, w')"
    and gone: "removals w' = [RoomRemoved ''!r'']" unfolding yields_def deleting_def by blast
  have start: "removals deletion_world = []" using deleting_start by (simp add: deleting_def)
  have foreign: "foreign_env inbound_world_env" using sample_outside(4) .
  have quiet: "foreign_inbound inbound_world_env (sample_inbound sample_http)"
    using sample_outside_inbound(1) by (simp add: foreign_inbound_def)
  have "removals w' \<noteq> removals deletion_world" using gone start by simp
  from room_removed_on_evidence [OF foreign quiet run this] obtain e w2 w3 and meta :: login_metadata where
    "GetConversationBefore (sample_inbound sample_http) (lm_SelectedBlogName meta) ''c'' 1 [] w2 = (Inl e, w3)" "IsNotFound e"
    by blast
  with gone show ?thesis by blast
qed

section \<open>No work is lost\<close>

definition lasting :: "(portal_key \<Rightarrow> bool) \<Rightarrow> world \<Rightarrow> world \<Rightarrow> bool" where
  "lasting pke w w' \<longleftrightarrow> job_keys (tbl w) \<subseteq> job_keys (tbl w')"

interpretation kept: removing_relation lasting leaves_all
  by unfold_locales (auto simp: lasting_def leaves_all_def inbox_def job_keys_def inbound_step_def)

lemma lasting_rtrancl: "(lasting pke)\<^sup>*\<^sup>* w w' \<Longrightarrow> lasting pke w w'"
  by (induction rule: rtranclp_induct) (auto simp: lasting_def)

lemma lasts: "moves (lasting pke) m \<Longrightarrow> m w = (r, w') \<Longrightarrow> job_keys (tbl w) \<subseteq> job_keys (tbl w')"
  using lasting_rtrancl [OF movesD [of "lasting pke" m w]] by (simp add: lasting_def)

lemma commit_lasting:
  assumes "outside_env leaves_all E"
  shows "moves (lasting (e_pke E)) (commitConversationDelivery E d)"
proof -
  have "moves (lasting (e_pke E)) (ConversationSync_SetCompletedHead b l c head at)" for b l c head at
    unfolding ConversationSync_SetCompletedHead_def moves_def
  proof (intro allI r_into_rtranclp)
    fix w :: world
    have "job_keys (snd (setConversationSync b l c head (unix_milli at) t)) = job_keys t" for t
      by (simp add: setConversationSync_def job_keys_def)
    then show "lasting (e_pke E) w (snd (exec (setConversationSync b l c head (unix_milli at)) w))"
      using exec_tbl [of "setConversationSync b l c head (unix_milli at)" w] by (auto simp: lasting_def)
  qed
  then show ?thesis
    unfolding commitConversationDelivery_def
    by (intro moves_intros kept.local_moves kept.env_moves kept.read_store_mild assms)
qed

lemma run_job_lasting:
  assumes "outside_env leaves_all E" "outside_inbound (e_pke E) leaves_all I"
  shows "moves (lasting (e_pke E)) (run_job E I check job)"
  unfolding run_job_def synchronise_def inbound_sync_ops_def conversation_sync_ops.select_convs
  by (intro moves_intros kept.deletion_mild kept.deliver_mild kept.env_moves commit_lasting assms)

lemma deleted_keys:
  assumes "Jobs_Delete b l c rv w = (r, w')" and "k \<in> job_keys (tbl w)" and "k \<notin> job_keys (tbl w')"
  shows "k = (b, l, c) \<and> (\<forall>row \<in> set (jobs (tbl w)). job_key row = k \<longrightarrow> jb_revision row = rv)"
proof -
  let ?del = "deleteConversationJob b l c rv"
  have "tbl w' = snd (?del (tbl w))"
    using exec_tbl [of ?del w] assms unfolding Jobs_Delete_def andThen_def
    by (auto simp: ret_def split: prod.splits sum.splits)
  then have "k \<notin> job_key ` set (filter (\<lambda>r. \<not> (job_at b l c r \<and> jb_revision r = rv)) (jobs (tbl w)))"
    using assms(3) by (simp add: deleteConversationJob_def delete_job_def job_keys_def)
  then have all: "job_at b l c row \<and> jb_revision row = rv" if "row \<in> set (jobs (tbl w))" "job_key row = k" for row
    using that by auto
  moreover obtain row where "row \<in> set (jobs (tbl w))" "job_key row = k"
    using assms(2) by (auto simp: job_keys_def)
  ultimately show ?thesis by (auto simp: job_at_def job_key_def)
qed

lemma finished_keys:
  assumes "outside_env leaves_all E" and "finish_job E job outcome w = (r, w')"
    and "k \<in> job_keys (tbl w)" "k \<notin> job_keys (tbl w')"
  shows "outcome = None \<and> k = (e_bridge_id E, e_login_id E, jConversationID job) \<and>
    (\<forall>row \<in> set (jobs (tbl w)). job_key row = k \<longrightarrow> jb_revision row = jRevision job)"
proof (cases outcome)
  case (Some e)
  have "moves (lasting (e_pke E)) (finish_job E job (Some e))"
    unfolding finish_job_def option.case by (intro moves_intros kept.live_mild kept.effects_moves assms(1))
  from lasts [OF this] assms(2-4) Some show ?thesis by blast
next
  case None
  obtain q w1 where del: "Jobs_Delete (e_bridge_id E) (e_login_id E) (jConversationID job) (jRevision job) w = (q, w1)"
    by fastforce
  have "tbl w' = tbl w1"
    using assms(2) None del
    by (auto simp: finish_job_def lift_store_def andThen_def ret_def emit_def split: sum.splits if_splits)
  with deleted_keys [OF del assms(3)] assms(4) None show ?thesis by simp
qed

lemma got_job:
  "lift_store (Jobs_Get b l c) w = (Inr (Some j), w') \<Longrightarrow> jConversationID j = c"
  by (auto simp: Jobs_Get_def getConversationJob_def job_scan_def job_at_def find_Some_iff
      dest!: lift_store_InrD query_Inr)

lemma kept_later:
  assumes "moves (lasting pke) m" and "andThen m f w = (r, w')" and "k \<in> job_keys (tbl w)" and "k \<notin> job_keys (tbl w')"
  shows "\<exists>x w1. m w = (Inr x, w1) \<and> f x w1 = (r, w') \<and> k \<in> job_keys (tbl w1)"
proof -
  obtain q w1 where m: "m w = (q, w1)" by fastforce
  have k1: "k \<in> job_keys (tbl w1)" using lasts [OF assms(1) m] assms(3) by blast
  then obtain x where "q = Inr x" using assms(2,4) m by (cases q) (auto simp: andThen_Inl)
  then show ?thesis using m assms(2) k1 by (simp add: andThen_Inr)
qed



end
