(* ===== verification/HistoryScan.thy ===== *)
theory HistoryScan
  imports InboundTrace InboundSamples
begin

text \<open>
  What fetching the history of a conversation returns (pkg/connector/sync.go): the messages of a
  chain of pages, without gaps and without repetitions.
\<close>

section \<open>The whole history is fetched\<close>

text \<open>Where a scan may stop: the room is not caught up, the page reaches the last boundary, or there
  is no further page.\<close>

definition stops :: "(response_link option \<Rightarrow> go_error + string) \<Rightarrow> history_goal \<Rightarrow> history_response \<Rightarrow> bool" where
  "stops cursor g r \<longleftrightarrow> \<not> hg_catchUp g \<or> reaches_boundary g (conversationMessagesFromResponse r) \<or>
     (\<exists>c. cursor (hr_Next r) = Inr c \<and> trim_space c = [])"

text \<open>The pages from one cursor on: each was fetched, belongs to the conversation, and the next one
  is where its link points; the last one is the first where the scan may stop.\<close>

inductive walked ::
  "(string \<Rightarrow> history_response act) \<Rightarrow> (response_link option \<Rightarrow> go_error + string) \<Rightarrow> history_goal \<Rightarrow>
   string \<Rightarrow> history_response list \<Rightarrow> bool"
  for fetch cursor g where
  last_page: "fetch before w = (Inr r, w') \<Longrightarrow>
     history_error (cv_ID (hg_listed g)) (Some (hr_Conversation r, hr_Messages r)) = None \<Longrightarrow>
     stops cursor g r \<Longrightarrow> walked fetch cursor g before [r]"
| next_page: "fetch before w = (Inr r, w') \<Longrightarrow>
     history_error (cv_ID (hg_listed g)) (Some (hr_Conversation r, hr_Messages r)) = None \<Longrightarrow>
     \<not> stops cursor g r \<Longrightarrow> cursor (hr_Next r) = Inr c \<Longrightarrow> walked fetch cursor g (trim_space c) rs \<Longrightarrow>
     walked fetch cursor g before (r # rs)"

lemma history_loop_walks:
  "history_loop n fetch cursor g before seen pages start w = (Inr (cv, head), w') \<Longrightarrow>
   \<exists>rs. walked fetch cursor g before rs \<and> length rs \<le> n \<and>
     cv_Messages cv = aggregateConversationMessagePages (pages @ map conversationMessagesFromResponse rs) \<and>
     (case start of
        Some (_, h) \<Rightarrow> head = h
      | None \<Rightarrow> \<exists>u v. conversationPageHeadMessageID (conversationMessagesFromResponse (hd rs)) u = (Inr head, v))"
proof (induction n arbitrary: before seen pages start w)
  case 0
  then show ?case by (simp add: history_loop.simps raise_def)
next
  case (Suc n)
  obtain got w1 where f: "fetch before w = (got, w1)" by fastforce
  note run = Suc.prems [unfolded history_loop.simps attempt_apply [where m = "fetch before" and s = w, OF f]]
  obtain r where r: "got = Inr r" using run by (cases got) (auto simp: raise_def split: if_splits)
  let ?page = "conversationMessagesFromResponse r"
  have ok: "history_error (cv_ID (hg_listed g)) (Some (hr_Conversation r, hr_Messages r)) = None"
    using run r by (cases "history_error (cv_ID (hg_listed g)) (Some (hr_Conversation r, hr_Messages r))") (auto simp: raise_def)
  let ?opening = "case start of Some s \<Rightarrow> ret s
      | None \<Rightarrow> andThen (conversationPageHeadMessageID ?page) (\<lambda>head. ret (mergeConversationHistoryForSync (hg_listed g) r, head))"
  let ?go = "\<lambda>(conversation, head).
               let finished = ret (conversation\<lparr>cv_Messages := aggregateConversationMessagePages (pages @ [?page])\<rparr>, head) in
               if \<not> hg_catchUp g \<or> reaches_boundary g ?page then finished
               else case cursor (hr_Next r) of
                   Inl e \<Rightarrow> raise e
                 | Inr c \<Rightarrow>
                     let nextBefore = trim_space c in
                     if nextBefore = [] then finished
                     else if nextBefore \<in> seen then fail ''tumblr conversation history cursor repeated''
                     else history_loop n fetch cursor g nextBefore (insert nextBefore seen) (pages @ [?page])
                            (Some (conversation, head))"
  have "andThen ?opening ?go w1 = (Inr (cv, head), w')" using run r ok by (simp add: Let_def)
  from andThen_InrD [OF this] obtain c0 h0 w2 where
    b: "?opening w1 = (Inr (c0, h0), w2)" and go: "?go (c0, h0) w2 = (Inr (cv, head), w')" by auto
  have start: "case start of Some (_, h) \<Rightarrow> h0 = h
      | None \<Rightarrow> \<exists>u v. conversationPageHeadMessageID ?page u = (Inr h0, v)"
  proof (cases start)
    case None
    from b [unfolded None option.case] show ?thesis using None by (auto simp: ret_def dest!: andThen_InrD) blast
  next
    case (Some p)
    then show ?thesis using b by (auto simp: ret_def)
  qed
  show ?case
  proof (cases "stops cursor g r")
    case True
    then have "cv_Messages cv = aggregateConversationMessagePages (pages @ [?page]) \<and> head = h0"
      using go by (auto simp: stops_def Let_def ret_def split: if_splits sum.splits)
    with start last_page [of fetch before w r w1 g cursor, OF f [unfolded r] ok True]
    show ?thesis by (intro exI [of _ "[r]"]) (auto split: option.splits)
  next
    case False
    with go obtain c where c: "cursor (hr_Next r) = Inr c"
      and rest: "history_loop n fetch cursor g (trim_space c) (insert (trim_space c) seen) (pages @ [?page]) (Some (c0, h0)) w2 =
        (Inr (cv, head), w')"
      by (auto simp: stops_def Let_def raise_def split: if_splits sum.splits)
    from Suc.IH [OF rest] obtain rs where
      rs: "walked fetch cursor g (trim_space c) rs" "length rs \<le> n" "head = h0"
        "cv_Messages cv = aggregateConversationMessagePages ((pages @ [?page]) @ map conversationMessagesFromResponse rs)"
      by auto
    with start next_page [of fetch before w r w1 g cursor, OF f [unfolded r] ok False c rs(1)]
    show ?thesis by (intro exI [of _ "r # rs"]) (auto split: option.splits)
  qed
qed

definition valid_ids :: "remote_message list \<Rightarrow> string set" where
  "valid_ids ms = set (filter validRemoteID (map rm_ID ms))"

lemma valid_ids_simps [simp]:
  "valid_ids [] = {}"
  "valid_ids (m # ms) = (if validRemoteID (rm_ID m) then insert (rm_ID m) (valid_ids ms) else valid_ids ms)"
  "valid_ids (ms @ ns) = valid_ids ms \<union> valid_ids ns"
  by (auto simp: valid_ids_def)

lemma valid_ids_concat: "valid_ids (concat pages) = (\<Union>p \<in> set pages. valid_ids p)"
  by (induction pages) auto

lemma keep_new_ids:
  "valid_ids (keep_new seen ms) = valid_ids ms - seen \<and> distinct (filter validRemoteID (map rm_ID (keep_new seen ms)))"
proof (induction ms arbitrary: seen)
  case Nil
  show ?case by simp
next
  case (Cons m ms)
  then have "valid_ids (keep_new (insert (rm_ID m) seen) ms) = valid_ids ms - insert (rm_ID m) seen" by blast
  then have "rm_ID m \<notin> set (filter validRemoteID (map rm_ID (keep_new (insert (rm_ID m) seen) ms)))"
    by (simp only: valid_ids_def [symmetric]) blast
  with Cons show ?case by auto
qed

lemma aggregate_ids:
  "valid_ids (aggregateConversationMessagePages pages) = (\<Union>p \<in> set pages. valid_ids p)"
  "distinct (filter validRemoteID (map rm_ID (aggregateConversationMessagePages pages)))"
  using keep_new_ids [of "{}" "concat (rev pages)"]
  by (auto simp: aggregateConversationMessagePages_def valid_ids_concat)

lemma find_in: "find P xs = Some x \<Longrightarrow> x \<in> set xs \<and> P x"
  by (induction xs) (auto split: if_splits)

lemma page_head:
  assumes "conversationPageHeadMessageID ms w = (Inr head, w')"
  shows "head = [] \<or> head \<in> valid_ids ms"
  using assms
  by (auto simp: conversationPageHeadMessageID_def sortedMessages_def sortedMessagesWithReference_def newest_valid_def
      ret_def valid_ids_def dest!: andThen_InrD find_in split: option.splits)



end
