(* ===== verification/ImageFiles.thy ===== *)
theory ImageFiles
  imports Prelude "HOL-Library.Word" "HOL-Library.Monad_Syntax"
begin

text \<open>
  The image parsers of pkg/tumblr/media.go. They decide from the bytes of a file the user chose, or
  that the service sent, whether its pixels may be compared: an animation, a colour profile or a
  rotation in the metadata makes the decoded pixels unusable. A computation of type \<open>'a option\<close> is a Go function that may panic: \<open>None\<close> is the
  run-time panic of an index or a slice out of range. Go's \<open>int\<close> offsets are integers (every one of
  them is at most the length of the file plus \<open>2 ^ 32 + 12\<close>, so the 64-bit \<open>int\<close> of the code does
  not overflow); its \<open>uint64\<close>, \<open>uint32\<close> and \<open>uint16\<close> values are words, which wrap as the code's do.
\<close>

unbundle bit_operations_syntax

type_synonym bytes = "8 word list"

section \<open>Reading bytes\<close>

definition byte_at :: "bytes \<Rightarrow> int \<Rightarrow> 8 word option" where
  "byte_at data i = (if 0 \<le> i \<and> i < int (length data) then Some (data ! nat i) else None)"

text \<open>\<open>data[lo:hi]\<close>, for a slice whose capacity is its length.\<close>

definition byte_slice :: "bytes \<Rightarrow> int \<Rightarrow> int \<Rightarrow> bytes option" where
  "byte_slice data lo hi =
     (if 0 \<le> lo \<and> lo \<le> hi \<and> hi \<le> int (length data)
      then Some (take (nat (hi - lo)) (drop (nat lo) data)) else None)"

definition text_bytes :: "string \<Rightarrow> bytes" where
  "text_bytes s = map of_char s"

definition bytes_prefix :: "bytes \<Rightarrow> bytes \<Rightarrow> bool" where
  "bytes_prefix p data \<longleftrightarrow> take (length p) data = p"

definition join16 :: "8 word \<Rightarrow> 8 word \<Rightarrow> 16 word" where
  "join16 hi lo = ucast lo OR push_bit 8 (ucast hi)"

definition join32 :: "8 word \<Rightarrow> 8 word \<Rightarrow> 8 word \<Rightarrow> 8 word \<Rightarrow> 32 word" where
  "join32 a b c d =
     (ucast d :: 32 word) OR push_bit 8 (ucast c :: 32 word) OR push_bit 16 (ucast b :: 32 word) OR
     push_bit 24 (ucast a :: 32 word)"

text \<open>\<open>binary.ByteOrder\<close>: \<open>Uint16\<close> and \<open>Uint32\<close> panic on a slice that is too short.\<close>

datatype byte_order = BigEndian | LittleEndian

fun Uint16 :: "byte_order \<Rightarrow> bytes \<Rightarrow> 16 word option" where
  "Uint16 BigEndian (a # b # _) = Some (join16 a b)"
| "Uint16 LittleEndian (a # b # _) = Some (join16 b a)"
| "Uint16 _ _ = None"

fun Uint32 :: "byte_order \<Rightarrow> bytes \<Rightarrow> 32 word option" where
  "Uint32 BigEndian (a # b # c # d # _) = Some (join32 a b c d)"
| "Uint32 LittleEndian (a # b # c # d # _) = Some (join32 d c b a)"
| "Uint32 _ _ = None"

definition uint16_at :: "byte_order \<Rightarrow> bytes \<Rightarrow> int \<Rightarrow> int \<Rightarrow> 16 word option" where
  "uint16_at ord data lo hi = byte_slice data lo hi \<bind> Uint16 ord"

definition uint32_at :: "byte_order \<Rightarrow> bytes \<Rightarrow> int \<Rightarrow> int \<Rightarrow> 32 word option" where
  "uint32_at ord data lo hi = byte_slice data lo hi \<bind> Uint32 ord"

lemma bind_option_cong [fundef_cong]:
  "m = n \<Longrightarrow> (\<And>x. n = Some x \<Longrightarrow> f x = g x) \<Longrightarrow> Option.bind m f = Option.bind n g"
  by (cases n) auto

lemma next_uint:
  fixes i n :: "64 word"
  assumes "i < n"
  shows "uint (i + 1) = uint i + 1"
  using assms uint_bounded [of n] by (simp add: word_less_def uint_plus_if')

section \<open>EXIF\<close>

text \<open>The entries of the directory: the orientation, whether there is one, whether it is valid.\<close>

function exif_entries :: "byte_order \<Rightarrow> bytes \<Rightarrow> int \<Rightarrow> 64 word \<Rightarrow> 64 word \<Rightarrow> (16 word \<times> bool \<times> bool) option" where
  "exif_entries ord data entriesOffset entryCount index =
     (if \<not> index < entryCount then Some (0, False, True)
      else do {
        let entryOffset = entriesOffset + uint index * 12;
        entry \<leftarrow> byte_slice data entryOffset (entryOffset + 12);
        tag \<leftarrow> uint16_at ord entry 0 2;
        if tag \<noteq> 0x0112 then exif_entries ord data entriesOffset entryCount (index + 1)
        else do {
          kind \<leftarrow> uint16_at ord entry 2 4;
          count \<leftarrow> (if kind \<noteq> 3 then Some 0 else uint32_at ord entry 4 8);
          if kind \<noteq> 3 \<or> count \<noteq> 1 then Some (0, False, False)
          else do {
            orientation \<leftarrow> uint16_at ord entry 8 10;
            if orientation < 1 \<or> 8 < orientation then Some (0, False, False)
            else Some (orientation, True, True)
          }
        }
      })"
  by pat_completeness auto
termination
  by (relation "measure (\<lambda>(_, _, _, n, i). nat (uint n - uint i))")
    (simp_all add: next_uint, simp add: word_less_def)

declare exif_entries.simps [simp del]

definition byte_order_of :: "bytes \<Rightarrow> byte_order option" where
  "byte_order_of mark =
     (if mark = text_bytes ''II'' then Some LittleEndian
      else if mark = text_bytes ''MM'' then Some BigEndian else None)"

definition exif_prefix :: bytes where
  "exif_prefix = text_bytes ''Exif'' @ [0, 0]"

text \<open>The directory, once its offset is known, and the block from its magic number on.\<close>

definition exif_directory :: "byte_order \<Rightarrow> bytes \<Rightarrow> 64 word \<Rightarrow> (16 word \<times> bool \<times> bool) option" where
  "exif_directory ord data ifdOffset =
     (if ifdOffset < 8 \<or> word_of_int (int (length data) - 2) < ifdOffset then Some (0, False, False)
      else do {
        let entryCountOffset = uint ifdOffset;
        count \<leftarrow> uint16_at ord data entryCountOffset (entryCountOffset + 2);
        let entryCount = (ucast count :: 64 word);
        let entriesOffset = entryCountOffset + 2;
        if word_of_int (int (length data) - entriesOffset) div 12 < entryCount then Some (0, False, False)
        else exif_entries ord data entriesOffset entryCount 0
      })"

definition exif_block :: "byte_order \<Rightarrow> bytes \<Rightarrow> (16 word \<times> bool \<times> bool) option" where
  "exif_block ord data = do {
     magic \<leftarrow> uint16_at ord data 2 4;
     if magic \<noteq> 42 then Some (0, False, False)
     else do {
       ifd \<leftarrow> uint32_at ord data 4 8;
       exif_directory ord data (ucast ifd)
     }
   }"

definition readEXIFOrientation :: "bytes \<Rightarrow> (16 word \<times> bool \<times> bool) option" where
  "readEXIFOrientation data0 = do {
     data \<leftarrow> (if bytes_prefix exif_prefix data0 then byte_slice data0 6 (int (length data0)) else Some data0);
     if length data < 8 then Some (0, False, False)
     else do {
       mark \<leftarrow> byte_slice data 0 2;
       case byte_order_of mark of None \<Rightarrow> Some (0, False, False) | Some ord \<Rightarrow> exif_block ord data
     }
   }"

text \<open>Whether an EXIF block turns or mirrors the image, or cannot be read.\<close>

definition exif_unsupported :: "bytes \<Rightarrow> bool option" where
  "exif_unsupported payload = do {
     (orientation, present, valid) \<leftarrow> readEXIFOrientation payload;
     Some (\<not> valid \<or> present \<and> orientation \<noteq> 1)
   }"

section \<open>JPEG\<close>

text \<open>The fill bytes before a marker.\<close>

function skip_fill :: "bytes \<Rightarrow> int \<Rightarrow> int option" where
  "skip_fill data offset =
     (if \<not> offset < int (length data) then Some offset
      else do {
        b \<leftarrow> byte_at data offset;
        if b = 0xff then skip_fill data (offset + 1) else Some offset
      })"
  by pat_completeness auto
termination
  by (relation "measure (\<lambda>(data, offset). nat (int (length data) - offset))") auto

declare skip_fill.simps [simp del]

lemma skip_fill_on: "skip_fill data offset = Some k \<Longrightarrow> offset \<le> k"
proof (induction data offset rule: skip_fill.induct)
  case (1 data offset)
  note step = 1(2) [unfolded skip_fill.simps [of data offset]]
  show ?case
  proof (cases "offset < int (length data) \<and> byte_at data offset = Some 0xff")
    case True
    then have "offset + 1 \<le> k" using 1(1) step by simp
    then show ?thesis by simp
  next
    case False
    then show ?thesis using step by (auto split: if_splits Option.bind_splits)
  qed
qed

definition icc_prefix :: bytes where
  "icc_prefix = text_bytes ''ICC_PROFILE'' @ [0]"

text \<open>Whether the payload of a segment makes the file unusable.\<close>

definition jpeg_segment :: "8 word \<Rightarrow> bytes \<Rightarrow> bool option" where
  "jpeg_segment marker payload =
     (if marker = 0xe2 \<and> bytes_prefix icc_prefix payload then Some True
      else if marker = 0xe1 \<and> bytes_prefix exif_prefix payload then exif_unsupported payload
      else Some False)"

text \<open>The segment of a marker whose length is at the offset.\<close>

definition jpeg_payload :: "bytes \<Rightarrow> 8 word \<Rightarrow> int \<Rightarrow> (bool + int) option" where
  "jpeg_payload data marker offset = do {
     size16 \<leftarrow> uint16_at BigEndian data offset (offset + 2);
     let segmentLength = uint size16;
     if segmentLength < 2 \<or> int (length data) - offset < segmentLength then Some (Inl True)
     else do {
       payload \<leftarrow> byte_slice data (offset + 2) (offset + segmentLength);
       unsupported \<leftarrow> jpeg_segment marker payload;
       Some (if unsupported then Inl True else Inr (offset + segmentLength))
     }
   }"

text \<open>One round of the loop at an offset inside the file: the result (\<open>Inl\<close>), or the next offset.\<close>

definition jpeg_next :: "bytes \<Rightarrow> int \<Rightarrow> (bool + int) option" where
  "jpeg_next data start = do {
     b \<leftarrow> byte_at data start;
     if b \<noteq> 0xff then Some (Inl True)
     else do {
       at \<leftarrow> skip_fill data start;
       if int (length data) \<le> at then Some (Inl True)
       else do {
         marker \<leftarrow> byte_at data at;
         let offset = at + 1;
         if marker = 0xd9 \<or> marker = 0xda then Some (Inl False)
         else if marker = 0x01 \<or> marker = 0xd8 \<or> 0xd0 \<le> marker \<and> marker \<le> 0xd7 then Some (Inr offset)
         else if marker = 0x00 \<or> int (length data) < offset + 2 then Some (Inl True)
         else jpeg_payload data marker offset
       }
     }
   }"

lemma jpeg_next_on: "jpeg_next data start = Some (Inr k) \<Longrightarrow> start < k"
  by (auto simp: jpeg_next_def jpeg_payload_def Let_def split: if_splits Option.bind_splits dest!: skip_fill_on)

function jpeg_segments :: "bytes \<Rightarrow> int \<Rightarrow> bool option" where
  "jpeg_segments data offset =
     (if \<not> offset < int (length data) then Some True
      else do {
        r \<leftarrow> jpeg_next data offset;
        case r of Inl result \<Rightarrow> Some result | Inr k \<Rightarrow> jpeg_segments data k
      })"
  by pat_completeness auto
termination
  by (relation "measure (\<lambda>(data, offset). nat (int (length data) - offset))") (auto dest: jpeg_next_on)

declare jpeg_segments.simps [simp del]

definition hasUnsupportedJPEGVisualMetadata :: "bytes \<Rightarrow> bool option" where
  "hasUnsupportedJPEGVisualMetadata data =
     (if length data < 4 then Some True
      else do {
        a \<leftarrow> byte_at data 0;
        if a \<noteq> 0xff then Some True
        else do {
          b \<leftarrow> byte_at data 1;
          if b \<noteq> 0xd8 then Some True else jpeg_segments data 2
        }
      })"

section \<open>PNG\<close>

definition png_signature :: bytes where
  "png_signature = 0x89 # text_bytes ''PNG'' @ [13, 10, 0x1a, 10]"

text \<open>Whether a file starts with the signature; a shorter one is not asked for its first bytes.\<close>

definition is_png :: "bytes \<Rightarrow> bool option" where
  "is_png data =
     (if length data < 8 then Some False
      else do { head \<leftarrow> byte_slice data 0 8; Some (head = png_signature) })"

definition colour_chunks :: "bytes list" where
  "colour_chunks = map text_bytes [''iCCP'', ''cICP'', ''cHRM'', ''gAMA'', ''sRGB'', ''mDCv'', ''cLLi'']"

lemma uint_wider [simp]: "uint (ucast (w :: 32 word) :: 64 word) = uint w"
  using uint_bounded [of w] by (simp add: unsigned_ucast_eq take_bit_int_eq_self)

lemma uint_step [simp]: "0 < uint (w :: 32 word) + 12"
  using uint_nonnegative [of w] by linarith

definition png_chunk :: "bytes \<Rightarrow> bytes \<Rightarrow> int \<Rightarrow> int \<Rightarrow> bool option" where
  "png_chunk data chunkType payloadStart payloadEnd =
     (if chunkType \<in> set colour_chunks then Some True
      else if chunkType = text_bytes ''eXIf''
      then do { payload \<leftarrow> byte_slice data payloadStart payloadEnd; exif_unsupported payload }
      else Some False)"

definition png_next :: "bytes \<Rightarrow> int \<Rightarrow> (bool + int) option" where
  "png_next data offset = do {
     size32 \<leftarrow> uint32_at BigEndian data offset (offset + 4);
     let size = (ucast size32 :: 64 word);
     if word_of_int (int (length data) - offset - 12) < size then Some (Inl True)
     else do {
       chunkType \<leftarrow> byte_slice data (offset + 4) (offset + 8);
       unsupported \<leftarrow> png_chunk data chunkType (offset + 8) (offset + 8 + uint size);
       Some (if unsupported then Inl True
             else if chunkType = text_bytes ''IEND'' then Inl (size \<noteq> 0)
             else Inr (offset + uint size + 12))
     }
   }"

lemma png_next_on: "png_next data offset = Some (Inr k) \<Longrightarrow> offset < k"
  by (auto simp: png_next_def Let_def less_diff_eq split: if_splits Option.bind_splits)

function png_chunks :: "bytes \<Rightarrow> int \<Rightarrow> bool option" where
  "png_chunks data offset =
     (if int (length data) < offset + 12 then Some True
      else do {
        r \<leftarrow> png_next data offset;
        case r of Inl result \<Rightarrow> Some result | Inr k \<Rightarrow> png_chunks data k
      })"
  by pat_completeness auto
termination
  by (relation "measure (\<lambda>(data, offset). nat (int (length data) - offset))") (auto dest: png_next_on)

declare png_chunks.simps [simp del]

definition hasUnsupportedPNGVisualMetadata :: "bytes \<Rightarrow> bool option" where
  "hasUnsupportedPNGVisualMetadata data = do {
     png \<leftarrow> is_png data;
     if \<not> png then Some True else png_chunks data 8
   }"

definition animated_next :: "bytes \<Rightarrow> int \<Rightarrow> (bool + int) option" where
  "animated_next data offset = do {
     size32 \<leftarrow> uint32_at BigEndian data offset (offset + 4);
     let size = (ucast size32 :: 64 word);
     let remaining = (word_of_int (int (length data) - offset - 12) :: 64 word);
     if remaining < size then Some (Inl False)
     else do {
       chunkType \<leftarrow> byte_slice data (offset + 4) (offset + 8);
       Some (if chunkType = text_bytes ''acTL'' then Inl True
             else if chunkType = text_bytes ''IEND'' then Inl False
             else Inr (offset + uint size + 12))
     }
   }"

lemma animated_next_on: "animated_next data offset = Some (Inr k) \<Longrightarrow> offset < k"
  by (auto simp: animated_next_def Let_def less_diff_eq split: if_splits Option.bind_splits)

function animated_chunks :: "bytes \<Rightarrow> int \<Rightarrow> bool option" where
  "animated_chunks data offset =
     (if int (length data) < offset + 12 then Some False
      else do {
        r \<leftarrow> animated_next data offset;
        case r of Inl result \<Rightarrow> Some result | Inr k \<Rightarrow> animated_chunks data k
      })"
  by pat_completeness auto
termination
  by (relation "measure (\<lambda>(data, offset). nat (int (length data) - offset))") (auto dest: animated_next_on)

declare animated_chunks.simps [simp del]

definition isAnimatedPNG :: "bytes \<Rightarrow> bool option" where
  "isAnimatedPNG data = do {
     png \<leftarrow> is_png data;
     if \<not> png then Some False else animated_chunks data 8
   }"

section \<open>WebP\<close>

text \<open>Slices at \<open>uint64\<close> offsets.\<close>

definition word_slice :: "bytes \<Rightarrow> 64 word \<Rightarrow> 64 word \<Rightarrow> bytes option" where
  "word_slice data lo hi = byte_slice data (uint lo) (uint hi)"

definition is_webp :: "bytes \<Rightarrow> bool option" where
  "is_webp data =
     (if length data < 12 then Some False
      else do {
        riff \<leftarrow> byte_slice data 0 4;
        if riff \<noteq> text_bytes ''RIFF'' then Some False
        else do { webp \<leftarrow> byte_slice data 8 12; Some (webp = text_bytes ''WEBP'') }
      })"

text \<open>The payload of a chunk; the flags of \<open>VP8X\<close> announce a colour profile, metadata or an animation.\<close>

definition webp_chunk :: "bytes \<Rightarrow> bytes \<Rightarrow> bool option" where
  "webp_chunk chunkType payload =
     (if chunkType \<in> text_bytes ` {''ICCP'', ''ANIM'', ''ANMF''} then Some True
      else if chunkType = text_bytes ''VP8X''
      then (if length payload \<noteq> 10 then Some True
            else do {
              flags \<leftarrow> byte_at payload 0;
              Some (flags AND (push_bit 5 1 OR push_bit 3 1 OR push_bit 1 1) \<noteq> 0)
            })
      else if chunkType = text_bytes ''EXIF'' then exif_unsupported payload
      else Some False)"

lemma slice_bounds:
  "byte_slice data lo hi = Some s \<Longrightarrow> 0 \<le> lo \<and> lo \<le> hi \<and> hi \<le> int (length data)"
  by (auto simp: byte_slice_def split: if_splits)

text \<open>A chunk that was read lies before the declared end, so the next offset does not wrap.\<close>

lemma webp_step:
  fixes offset declaredEnd padded :: "64 word"
  assumes "uint offset \<le> uint (offset + 4)" "uint (offset + 4) \<le> uint (offset + 8)"
    and "offset + 8 \<le> declaredEnd" "\<not> declaredEnd - offset - 8 < padded"
  shows "uint (offset + (8 + padded)) = uint offset + 8 + uint padded" "uint offset + 8 + uint padded \<le> uint declaredEnd"
proof -
  note bounds = uint_bounded [of offset] uint_bounded [of declaredEnd] uint_nonnegative [of offset] uint_nonnegative [of padded]
  define x where "x = offset + 4"
  have 1: "uint x = uint offset + 4"
    using assms(1) bounds by (auto simp: x_def uint_plus_if' split: if_splits)
  have x: "offset + 8 = x + 4" by (simp add: x_def)
  have 8: "uint (offset + 8) = uint offset + 8"
    using assms(2) bounds 1 unfolding x x_def [symmetric] by (auto simp: uint_plus_if' split: if_splits)
  have "uint (declaredEnd - (offset + 8)) = uint declaredEnd - uint (offset + 8)"
    using assms(3) uint_sub_lem [of "offset + 8" declaredEnd] by (simp add: word_le_def)
  then have "uint (declaredEnd - offset - 8) = uint declaredEnd - (uint offset + 8)"
    unfolding diff_diff_eq 8 .
  then show le: "uint offset + 8 + uint padded \<le> uint declaredEnd"
    using assms(4) by (simp add: word_less_def)
  show "uint (offset + (8 + padded)) = uint offset + 8 + uint padded"
    unfolding add.assoc [symmetric] using le 8 bounds uint_plus_if' [of "offset + 8" padded] by simp
qed

lemma webp_progress:
  fixes offset declaredEnd padded :: "64 word"
  assumes "byte_slice data (uint offset) (uint (offset + 4)) = Some s"
    and "byte_slice data (uint (offset + 4)) (uint (offset + 8)) = Some s'"
    and "offset + 8 \<le> declaredEnd" "\<not> declaredEnd - offset - 8 < padded"
  shows "uint offset < uint declaredEnd" and "uint offset < uint (offset + (8 + padded))"
  using webp_step [of offset declaredEnd padded] slice_bounds [OF assms(1)] slice_bounds [OF assms(2)] assms(3,4)
    uint_nonnegative [of padded] by linarith+

definition webp_next :: "bytes \<Rightarrow> 64 word \<Rightarrow> 64 word \<Rightarrow> (bool + 64 word) option" where
  "webp_next data declaredEnd offset = do {
     chunkType \<leftarrow> word_slice data offset (offset + 4);
     size32 \<leftarrow> uint32_at LittleEndian data (uint (offset + 4)) (uint (offset + 8));
     let size = (ucast size32 :: 64 word);
     let paddedLength = size + size mod 2;
     if declaredEnd - offset - 8 < paddedLength then Some (Inl True)
     else do {
       payload \<leftarrow> word_slice data (offset + 8) (offset + 8 + size);
       unsupported \<leftarrow> webp_chunk chunkType payload;
       let k = offset + (8 + paddedLength);
       Some (if unsupported then Inl True else if k = declaredEnd then Inl False else Inr k)
     }
   }"

lemma webp_next_on:
  "webp_next data declaredEnd offset = Some (Inr k) \<Longrightarrow> offset + 8 \<le> declaredEnd \<Longrightarrow>
   uint offset < uint declaredEnd \<and> uint offset < uint k"
  by (auto simp: webp_next_def word_slice_def uint32_at_def Let_def webp_progress split: if_splits Option.bind_splits)

function webp_chunks :: "bytes \<Rightarrow> 64 word \<Rightarrow> 64 word \<Rightarrow> bool option" where
  "webp_chunks data declaredEnd offset =
     (if \<not> offset + 8 \<le> declaredEnd then Some True
      else do {
        r \<leftarrow> webp_next data declaredEnd offset;
        case r of Inl result \<Rightarrow> Some result | Inr k \<Rightarrow> webp_chunks data declaredEnd k
      })"
  by pat_completeness auto
termination
  by (relation "measure (\<lambda>(data, declaredEnd, offset). nat (uint declaredEnd - uint offset))")
    (auto dest: webp_next_on)

declare webp_chunks.simps [simp del]

definition declared_end :: "bytes \<Rightarrow> 64 word option" where
  "declared_end data = do {
     size32 \<leftarrow> uint32_at LittleEndian data 4 8;
     Some ((ucast size32 :: 64 word) + 8)
   }"

definition hasUnsupportedWebPVisualMetadata :: "bytes \<Rightarrow> bool option" where
  "hasUnsupportedWebPVisualMetadata data = do {
     webp \<leftarrow> is_webp data;
     if \<not> webp then Some True
     else do {
       declaredEnd \<leftarrow> declared_end data;
       if declaredEnd < 12 \<or> word_of_int (int (length data)) < declaredEnd then Some True
       else webp_chunks data declaredEnd 12
     }
   }"

definition animated_webp_next :: "bytes \<Rightarrow> 64 word \<Rightarrow> 64 word \<Rightarrow> (bool + 64 word) option" where
  "animated_webp_next data declaredEnd offset = do {
     chunkType \<leftarrow> word_slice data offset (offset + 4);
     size32 \<leftarrow> uint32_at LittleEndian data (uint (offset + 4)) (uint (offset + 8));
     let size = (ucast size32 :: 64 word);
     let paddedLength = size + size mod 2;
     Some (if chunkType \<in> text_bytes ` {''ANIM'', ''ANMF''} then Inl True
           else if declaredEnd - offset - 8 < paddedLength then Inl False
           else Inr (offset + (8 + paddedLength)))
   }"

lemma animated_webp_next_on:
  "animated_webp_next data declaredEnd offset = Some (Inr k) \<Longrightarrow> offset + 8 \<le> declaredEnd \<Longrightarrow>
   uint offset < uint declaredEnd \<and> uint offset < uint k"
  by (auto simp: animated_webp_next_def word_slice_def uint32_at_def Let_def webp_progress
      split: if_splits Option.bind_splits)

function animated_webp_chunks :: "bytes \<Rightarrow> 64 word \<Rightarrow> 64 word \<Rightarrow> bool option" where
  "animated_webp_chunks data declaredEnd offset =
     (if \<not> offset + 8 \<le> declaredEnd then Some False
      else do {
        r \<leftarrow> animated_webp_next data declaredEnd offset;
        case r of Inl result \<Rightarrow> Some result | Inr k \<Rightarrow> animated_webp_chunks data declaredEnd k
      })"
  by pat_completeness auto
termination
  by (relation "measure (\<lambda>(data, declaredEnd, offset). nat (uint declaredEnd - uint offset))")
    (auto dest: animated_webp_next_on)

declare animated_webp_chunks.simps [simp del]

definition isAnimatedWebP :: "bytes \<Rightarrow> bool option" where
  "isAnimatedWebP data = do {
     webp \<leftarrow> is_webp data;
     if \<not> webp then Some False
     else do {
       declaredEnd \<leftarrow> declared_end data;
       animated_webp_chunks data (if word_of_int (int (length data)) < declaredEnd
         then word_of_int (int (length data)) else declaredEnd) 12
     }
   }"

section \<open>Every format\<close>

definition hasUnsupportedStaticVisualMetadata :: "bytes \<Rightarrow> string \<Rightarrow> bool option" where
  "hasUnsupportedStaticVisualMetadata data mimeType =
     (if mimeType = ''image/jpeg'' then hasUnsupportedJPEGVisualMetadata data
      else if mimeType = ''image/png'' then hasUnsupportedPNGVisualMetadata data
      else if mimeType = ''image/webp'' then hasUnsupportedWebPVisualMetadata data
      else Some False)"

end
