(* ===== verification/ImageProperties.thy ===== *)
theory ImageProperties
  imports ImageFiles
begin

text \<open>
  What the image parsers guarantee (pkg/tumblr/media.go): they never read outside the file, whatever
  its bytes are. (That the PNG check is exact is shown in ImageGrammar.)
\<close>

section \<open>Reads inside the file\<close>

text \<open>\<open>gives m P\<close>: the computation returns, without a panic, a value with the property.\<close>

definition gives :: "'a option \<Rightarrow> ('a \<Rightarrow> bool) \<Rightarrow> bool" where
  "gives m P \<longleftrightarrow> (\<exists>x. m = Some x \<and> P x)"

named_theorems gives_intros \<open>computations that return\<close>

lemma gives_Some [gives_intros]: "P x \<Longrightarrow> gives (Some x) P"
  by (simp add: gives_def)

lemma gives_bind: "gives m P \<Longrightarrow> (\<And>x. P x \<Longrightarrow> gives (f x) Q) \<Longrightarrow> gives (Option.bind m f) Q"
  unfolding gives_def by fastforce

lemma gives_weaken: "gives m P \<Longrightarrow> (\<And>x. P x \<Longrightarrow> Q x) \<Longrightarrow> gives m Q"
  unfolding gives_def by blast

lemma gives_defined: "gives m P \<Longrightarrow> m \<noteq> None"
  by (auto simp: gives_def)

lemma gives_slice:
  "0 \<le> lo \<Longrightarrow> lo \<le> hi \<Longrightarrow> hi \<le> int (length data) \<Longrightarrow> gives (byte_slice data lo hi) (\<lambda>s. int (length s) = hi - lo)"
  by (simp add: gives_def byte_slice_def)

lemma gives_byte: "0 \<le> i \<Longrightarrow> i < int (length data) \<Longrightarrow> gives (byte_at data i) (\<lambda>b. b = data ! nat i)"
  by (simp add: gives_def byte_at_def)

lemma gives_Uint16: "2 \<le> length s \<Longrightarrow> gives (Uint16 ord s) (\<lambda>_. True)"
  by (cases "(ord, s)" rule: Uint16.cases) (auto simp: gives_def numeral_2_eq_2)

lemma gives_Uint32: "4 \<le> length s \<Longrightarrow> gives (Uint32 ord s) (\<lambda>_. True)"
  by (cases "(ord, s)" rule: Uint32.cases) (auto simp: gives_def eval_nat_numeral)

lemma gives_uint16:
  "0 \<le> lo \<Longrightarrow> hi = lo + 2 \<Longrightarrow> hi \<le> int (length data) \<Longrightarrow> gives (uint16_at ord data lo hi) (\<lambda>_. True)"
  unfolding uint16_at_def by (rule gives_bind [OF gives_slice]) (simp_all add: gives_Uint16)

lemma gives_uint32:
  "0 \<le> lo \<Longrightarrow> hi = lo + 4 \<Longrightarrow> hi \<le> int (length data) \<Longrightarrow> gives (uint32_at ord data lo hi) (\<lambda>_. True)"
  unfolding uint32_at_def by (rule gives_bind [OF gives_slice]) (simp_all add: gives_Uint32)

lemma uint_of_length:
  assumes "0 \<le> k" "k < 2 ^ 63"
  shows "uint (word_of_int k :: 64 word) = k"
  using assms by (simp add: uint_word_of_int)

text \<open>A slice a Go program can hold.\<close>

definition go_slice :: "bytes \<Rightarrow> bool" where
  "go_slice data \<longleftrightarrow> int (length data) < 2 ^ 63"

lemma go_slice_sub: "go_slice data \<Longrightarrow> byte_slice data lo hi = Some s \<Longrightarrow> go_slice s"
  by (auto simp: go_slice_def byte_slice_def split: if_splits)

subsection \<open>EXIF\<close>

lemma exif_entries_return:
  assumes "0 \<le> entriesOffset" and "entriesOffset + uint entryCount * 12 \<le> int (length data)"
  shows "gives (exif_entries ord data entriesOffset entryCount index) (\<lambda>_. True)"
  using assms
proof (induction ord data entriesOffset entryCount index rule: exif_entries.induct)
  case (1 ord data entriesOffset entryCount index)
  let ?at = "entriesOffset + uint index * 12"
  show ?case
  proof (cases "index < entryCount")
    case False
    then show ?thesis by (subst exif_entries.simps) (simp add: gives_Some)
  next
    case True
    then have "uint index + 1 \<le> uint entryCount" by (simp add: word_less_def)
    then have "uint index * 12 + 12 \<le> uint entryCount * 12" by linarith
    then have inside: "0 \<le> ?at" "?at \<le> ?at + 12" "?at + 12 \<le> int (length data)"
      using 1(2,3) uint_nonnegative [of index] by linarith+
    obtain entry where entry: "byte_slice data ?at (?at + 12) = Some entry" "int (length entry) = 12"
      using gives_slice [OF inside] by (auto simp: gives_def)
    have reads: "gives (uint16_at ord entry 0 2) (\<lambda>_. True)" "gives (uint16_at ord entry 2 4) (\<lambda>_. True)"
      "gives (uint32_at ord entry 4 8) (\<lambda>_. True)" "gives (uint16_at ord entry 8 10) (\<lambda>_. True)"
      using entry(2) by (simp_all add: gives_uint16 gives_uint32)
    obtain tag where tag: "uint16_at ord entry 0 2 = Some tag" using reads(1) by (auto simp: gives_def)
    show ?thesis
    proof (cases "tag = 0x0112")
      case False
      have "gives (exif_entries ord data entriesOffset entryCount (index + 1)) (\<lambda>_. True)"
        using 1(1) [OF _ refl entry(1) tag] True False 1(2,3) by simp
      then show ?thesis using True entry(1) tag False by (subst exif_entries.simps) (simp add: Let_def)
    next
      case here: True
      from reads(2-4) show ?thesis
        using True entry(1) tag here by (subst exif_entries.simps) (auto simp: Let_def gives_def)
    qed
  qed
qed

lemma exif_prefix_length: "length exif_prefix = 6"
  by (simp add: exif_prefix_def text_bytes_def)

lemma bytes_prefix_length: "bytes_prefix p data \<Longrightarrow> length p \<le> length data"
  unfolding bytes_prefix_def by (metis length_take min.cobounded1)

lemma exif_directory_returns:
  assumes "go_slice data" "8 \<le> length data"
  shows "gives (exif_directory ord data ifd) (\<lambda>_. True)"
proof (cases "ifd < 8 \<or> word_of_int (int (length data) - 2) < ifd")
  case True
  then show ?thesis by (simp add: exif_directory_def gives_Some)
next
  case False
  have "uint (word_of_int (int (length data) - 2) :: 64 word) = int (length data) - 2"
    using assms by (intro uint_of_length) (simp_all add: go_slice_def)
  then have at: "uint ifd + 2 \<le> int (length data)" using False by (simp only: word_less_def) linarith
  from gives_uint16 [OF _ refl this] obtain count where
    count: "uint16_at ord data (uint ifd) (uint ifd + 2) = Some count" by (auto simp: gives_def)
  let ?left = "int (length data) - (uint ifd + 2)" and ?count = "ucast count :: 64 word"
  show ?thesis
  proof (cases "word_of_int ?left div 12 < ?count")
    case True
    then show ?thesis using False count by (simp add: exif_directory_def Let_def gives_Some)
  next
    case fits: False
    have "?left < 2 ^ 63" using assms(1) uint_nonnegative [of ifd] unfolding go_slice_def by linarith
    then have "uint (word_of_int ?left :: 64 word) = ?left" using at by (intro uint_of_length) simp_all
    then have "uint ?count \<le> ?left div 12" using fits by (simp only: word_less_def uint_div) simp
    then have "uint ifd + 2 + uint ?count * 12 \<le> int (length data)" by linarith
    then have "gives (exif_entries ord data (uint ifd + 2) ?count 0) (\<lambda>_. True)"
      by (intro exif_entries_return) simp_all
    then show ?thesis using False fits count by (simp add: exif_directory_def Let_def)
  qed
qed

lemma exif_block_returns:
  assumes "go_slice data" "8 \<le> length data"
  shows "gives (exif_block ord data) (\<lambda>_. True)"
  unfolding exif_block_def
  using assms by (auto intro!: gives_bind [OF gives_uint16] gives_bind [OF gives_uint32] gives_Some exif_directory_returns)

lemma read_exif_returns:
  assumes "go_slice data"
  shows "gives (readEXIFOrientation data) (\<lambda>_. True)"
proof -
  have "gives (if bytes_prefix exif_prefix data then byte_slice data 6 (int (length data)) else Some data) go_slice"
    using assms bytes_prefix_length [of exif_prefix data] go_slice_sub [OF assms, of 6 "int (length data)"]
    by (auto simp: exif_prefix_length gives_def byte_slice_def)
  then show ?thesis
    unfolding readEXIFOrientation_def
  proof (rule gives_bind)
    fix body
    assume "go_slice body"
    then show "gives (if length body < 8 then Some (0, False, False)
        else byte_slice body 0 2 \<bind> (\<lambda>mark. case byte_order_of mark of
          None \<Rightarrow> Some (0, False, False) | Some ord \<Rightarrow> exif_block ord body)) (\<lambda>_. True)"
      by (auto intro!: gives_Some gives_bind [OF gives_slice] exif_block_returns split: option.split)
  qed
qed

lemma exif_unsupported_returns: "go_slice data \<Longrightarrow> gives (exif_unsupported data) (\<lambda>_. True)"
  unfolding exif_unsupported_def by (auto intro: gives_bind [OF read_exif_returns] gives_Some)

subsection \<open>JPEG\<close>

lemma skip_fill_returns:
  "0 \<le> offset \<Longrightarrow> gives (skip_fill data offset) (\<lambda>k. offset \<le> k)"
proof (induction data offset rule: skip_fill.induct)
  case (1 data offset)
  show ?case
  proof (cases "offset < int (length data)")
    case True
    with 1(2) gives_byte obtain b where b: "byte_at data offset = Some b" by (fastforce simp: gives_def)
    show ?thesis
    proof (cases "b = 0xff")
      case fill: True
      have "gives (skip_fill data (offset + 1)) (\<lambda>k. offset + 1 \<le> k)" using 1 True b fill by simp
      then show ?thesis using True b fill by (subst skip_fill.simps) (auto elim: gives_weaken)
    qed (use True b in \<open>subst skip_fill.simps, simp add: gives_Some\<close>)
  qed (subst skip_fill.simps, simp add: gives_Some)
qed

lemma jpeg_segment_returns: "go_slice payload \<Longrightarrow> gives (jpeg_segment marker payload) (\<lambda>_. True)"
  by (auto simp: jpeg_segment_def intro: gives_Some exif_unsupported_returns)

lemma jpeg_payload_returns:
  assumes "go_slice data" "0 \<le> offset" "offset + 2 \<le> int (length data)"
  shows "gives (jpeg_payload data marker offset) (\<lambda>_. True)"
proof -
  from gives_uint16 [OF assms(2) refl assms(3)] obtain size16 where
    size16: "uint16_at BigEndian data offset (offset + 2) = Some size16" by (auto simp: gives_def)
  show ?thesis
  proof (cases "uint size16 < 2 \<or> int (length data) - offset < uint size16")
    case False
    then have "0 \<le> offset + 2" "offset + 2 \<le> offset + uint size16" "offset + uint size16 \<le> int (length data)"
      using assms(2) by simp_all
    then obtain payload where payload: "byte_slice data (offset + 2) (offset + uint size16) = Some payload"
      using gives_slice by (fastforce simp: gives_def)
    with jpeg_segment_returns [OF go_slice_sub [OF assms(1) payload], of marker] size16 False show ?thesis
      by (auto simp: jpeg_payload_def gives_def)
  qed (simp add: jpeg_payload_def size16 gives_Some)
qed

lemma jpeg_next_returns:
  assumes "go_slice data" "0 \<le> start" "start < int (length data)"
  shows "gives (jpeg_next data start) (\<lambda>r. \<forall>k. r = Inr k \<longrightarrow> start < k)"
proof -
  have "gives (jpeg_next data start) (\<lambda>_. True)"
    unfolding jpeg_next_def
    using assms
    by (auto simp: Let_def intro!: gives_bind [OF gives_byte] gives_bind [OF skip_fill_returns]
        gives_Some jpeg_payload_returns)
  then show ?thesis using jpeg_next_on by (auto simp: gives_def)
qed

lemma jpeg_segments_return:
  "go_slice data \<Longrightarrow> 0 \<le> offset \<Longrightarrow> gives (jpeg_segments data offset) (\<lambda>_. True)"
proof (induction data offset rule: jpeg_segments.induct)
  case (1 data offset)
  show ?case
  proof (cases "offset < int (length data)")
    case True
    with 1(2,3) jpeg_next_returns obtain r where r: "jpeg_next data offset = Some r" "\<forall>k. r = Inr k \<longrightarrow> offset < k"
      by (fastforce simp: gives_def)
    then show ?thesis
      using 1 True by (subst jpeg_segments.simps) (cases r; fastforce simp: gives_def)
  qed (subst jpeg_segments.simps, simp add: gives_Some)
qed

lemma jpeg_returns: "go_slice data \<Longrightarrow> gives (hasUnsupportedJPEGVisualMetadata data) (\<lambda>_. True)"
  unfolding hasUnsupportedJPEGVisualMetadata_def
  by (auto intro!: gives_bind [OF gives_byte] gives_Some jpeg_segments_return)

subsection \<open>PNG\<close>

text \<open>A size that passed the test of the code fits into the file.\<close>

lemma size_fits:
  assumes "go_slice data" "0 \<le> offset" "offset + 12 \<le> int (length data)"
    and "\<not> word_of_int (int (length data) - offset - 12) < (n :: 64 word)"
  shows "offset + 12 + uint n \<le> int (length data)"
proof -
  have "uint (word_of_int (int (length data) - offset - 12) :: 64 word) = int (length data) - offset - 12"
    using assms(1-3) by (intro uint_of_length) (simp_all add: go_slice_def)
  then show ?thesis using assms(4) by (simp only: word_less_def)
qed

lemma png_chunk_returns:
  "go_slice data \<Longrightarrow> 0 \<le> lo \<Longrightarrow> lo \<le> hi \<Longrightarrow> hi \<le> int (length data) \<Longrightarrow> gives (png_chunk data chunkType lo hi) (\<lambda>_. True)"
  using gives_slice [of lo hi data] exif_unsupported_returns [OF go_slice_sub [of data lo hi]]
  by (fastforce simp: png_chunk_def gives_def)

lemma png_next_returns:
  assumes "go_slice data" "0 \<le> offset" "offset + 12 \<le> int (length data)"
  shows "gives (png_next data offset) (\<lambda>r. \<forall>k. r = Inr k \<longrightarrow> offset < k)"
    and "gives (animated_next data offset) (\<lambda>r. \<forall>k. r = Inr k \<longrightarrow> offset < k)"
proof -
  from gives_uint32 [of offset "offset + 4" data] assms(2,3) obtain size32 where
    size32: "uint32_at BigEndian data offset (offset + 4) = Some size32" by (fastforce simp: gives_def)
  from gives_slice [of "offset + 4" "offset + 8" data] assms(2,3) obtain chunkType where
    type: "byte_slice data (offset + 4) (offset + 8) = Some chunkType" by (fastforce simp: gives_def)
  have fits: "offset + 12 + uint size32 \<le> int (length data)"
    if "\<not> word_of_int (int (length data) - offset - 12) < (ucast size32 :: 64 word)"
    using size_fits [OF assms that] by simp
  have chunk: "gives (png_chunk data chunkType (offset + 8) (offset + 8 + uint size32)) (\<lambda>_. True)"
    if "\<not> word_of_int (int (length data) - offset - 12) < (ucast size32 :: 64 word)"
    using fits [OF that] assms(2) uint_nonnegative [of size32] by (intro png_chunk_returns [OF assms(1)]) simp_all
  have "gives (png_next data offset) (\<lambda>_. True)" and "gives (animated_next data offset) (\<lambda>_. True)"
    using chunk unfolding png_next_def animated_next_def Let_def size32 type
    by (auto simp: gives_def simp del: of_int_diff)
  then show "gives (png_next data offset) (\<lambda>r. \<forall>k. r = Inr k \<longrightarrow> offset < k)"
    and "gives (animated_next data offset) (\<lambda>r. \<forall>k. r = Inr k \<longrightarrow> offset < k)"
    using png_next_on animated_next_on by (auto simp: gives_def)
qed

lemma png_chunks_return:
  "go_slice data \<Longrightarrow> 0 \<le> offset \<Longrightarrow> gives (png_chunks data offset) (\<lambda>_. True)"
proof (induction data offset rule: png_chunks.induct)
  case (1 data offset)
  show ?case
  proof (cases "offset + 12 \<le> int (length data)")
    case True
    with 1(2,3) png_next_returns(1) obtain r where r: "png_next data offset = Some r" "\<forall>k. r = Inr k \<longrightarrow> offset < k"
      by (fastforce simp: gives_def)
    then show ?thesis
      using 1 True by (subst png_chunks.simps) (cases r; fastforce simp: gives_def)
  qed (subst png_chunks.simps, simp add: gives_Some)
qed

lemma animated_chunks_return:
  "go_slice data \<Longrightarrow> 0 \<le> offset \<Longrightarrow> gives (animated_chunks data offset) (\<lambda>_. True)"
proof (induction data offset rule: animated_chunks.induct)
  case (1 data offset)
  show ?case
  proof (cases "offset + 12 \<le> int (length data)")
    case True
    with 1(2,3) png_next_returns(2) obtain r where r: "animated_next data offset = Some r" "\<forall>k. r = Inr k \<longrightarrow> offset < k"
      by (fastforce simp: gives_def)
    then show ?thesis
      using 1 True by (subst animated_chunks.simps) (cases r; fastforce simp: gives_def)
  qed (subst animated_chunks.simps, simp add: gives_Some)
qed

lemma is_png_returns: "gives (is_png data) (\<lambda>_. True)"
  by (auto simp: is_png_def intro!: gives_Some gives_bind [OF gives_slice])

lemma png_returns:
  "go_slice data \<Longrightarrow> gives (hasUnsupportedPNGVisualMetadata data) (\<lambda>_. True)"
  "go_slice data \<Longrightarrow> gives (isAnimatedPNG data) (\<lambda>_. True)"
  unfolding hasUnsupportedPNGVisualMetadata_def isAnimatedPNG_def
  by (auto intro!: gives_bind [OF is_png_returns] gives_Some png_chunks_return animated_chunks_return)

subsection \<open>WebP\<close>

lemma no_wrap:
  fixes x :: "64 word"
  assumes "uint x + uint y < 2 ^ 64"
  shows "uint (x + y) = uint x + uint y"
  using assms by (simp add: uint_plus_if')

lemma padded_size:
  fixes size32 :: "32 word"
  defines "n \<equiv> (ucast size32 :: 64 word)"
  shows "uint (n + n mod 2) = uint size32 + uint size32 mod 2"
  using uint_bounded [of size32] pos_mod_bound [of 2 "uint size32"]
  by (simp add: n_def no_wrap uint_mod)

text \<open>The offsets of a chunk whose header lies before the declared end.\<close>

lemma webp_offsets:
  fixes offset declaredEnd :: "64 word"
  assumes "uint declaredEnd < 2 ^ 63" "uint offset \<le> uint declaredEnd" "offset + 8 \<le> declaredEnd"
  shows "uint (offset + 4) = uint offset + 4" "uint (offset + 8) = uint offset + 8" "uint offset + 8 \<le> uint declaredEnd"
proof -
  show "uint (offset + 4) = uint offset + 4" and 8: "uint (offset + 8) = uint offset + 8"
    using assms(1,2) by (simp_all add: no_wrap)
  show "uint offset + 8 \<le> uint declaredEnd" using assms(3) 8 by (simp add: word_le_def)
qed

lemma webp_payload:
  fixes offset declaredEnd :: "64 word" and size32 :: "32 word"
  defines "n \<equiv> (ucast size32 :: 64 word)"
  assumes "uint declaredEnd < 2 ^ 63" "uint offset \<le> uint declaredEnd" "offset + 8 \<le> declaredEnd"
    and "\<not> declaredEnd - offset - 8 < n + n mod 2"
  shows "uint (offset + 8 + n) = uint offset + 8 + uint size32" "uint offset + 8 + uint size32 \<le> uint declaredEnd"
    and "uint (offset + (8 + (n + n mod 2))) \<le> uint declaredEnd"
proof -
  note off = webp_offsets [OF assms(2-4)]
  from webp_step [of offset declaredEnd "n + n mod 2"] off assms(4,5)
  have padded: "uint (offset + (8 + (n + n mod 2))) = uint offset + 8 + (uint size32 + uint size32 mod 2)"
      "uint offset + 8 + (uint size32 + uint size32 mod 2) \<le> uint declaredEnd"
    using padded_size [of size32] by (simp_all add: n_def)
  then show "uint (offset + (8 + (n + n mod 2))) \<le> uint declaredEnd" by simp
  show le: "uint offset + 8 + uint size32 \<le> uint declaredEnd"
    using padded(2) pos_mod_sign [of 2 "uint size32"] by linarith
  have "uint (offset + 8) + uint n = uint offset + 8 + uint size32" using off(2) by (simp add: n_def)
  then show "uint (offset + 8 + n) = uint offset + 8 + uint size32"
    using no_wrap [of "offset + 8" n] le assms(2) by simp
qed

lemma webp_chunk_returns: "go_slice payload \<Longrightarrow> gives (webp_chunk chunkType payload) (\<lambda>_. True)"
  by (auto simp: webp_chunk_def intro!: gives_Some gives_bind [OF gives_byte] exif_unsupported_returns)

lemma webp_next_returns:
  assumes "go_slice data" "uint declaredEnd \<le> int (length data)" "uint offset \<le> uint declaredEnd" "offset + 8 \<le> declaredEnd"
  shows "gives (webp_next data declaredEnd offset) (\<lambda>r. \<forall>k. r = Inr k \<longrightarrow> uint k \<le> uint declaredEnd)"
    and "gives (animated_webp_next data declaredEnd offset) (\<lambda>r. \<forall>k. r = Inr k \<longrightarrow> uint k \<le> uint declaredEnd)"
proof -
  have small: "uint declaredEnd < 2 ^ 63" using assms(1,2) by (simp add: go_slice_def)
  note off = webp_offsets [OF small assms(3,4)]
  from gives_slice [of "uint offset" "uint (offset + 4)" data] off assms(2) obtain chunkType where
    type: "word_slice data offset (offset + 4) = Some chunkType" by (fastforce simp: gives_def word_slice_def)
  from gives_uint32 [of "uint (offset + 4)" "uint (offset + 8)" data] off assms(2) obtain size32 where
    size32: "uint32_at LittleEndian data (uint (offset + 4)) (uint (offset + 8)) = Some size32" by (fastforce simp: gives_def)
  let ?n = "ucast size32 :: 64 word"
  show "gives (animated_webp_next data declaredEnd offset) (\<lambda>r. \<forall>k. r = Inr k \<longrightarrow> uint k \<le> uint declaredEnd)"
    using type size32 webp_payload(3) [OF small assms(3,4), of size32] by (simp add: animated_webp_next_def Let_def gives_def)
  show "gives (webp_next data declaredEnd offset) (\<lambda>r. \<forall>k. r = Inr k \<longrightarrow> uint k \<le> uint declaredEnd)"
  proof (cases "declaredEnd - offset - 8 < ?n + ?n mod 2")
    case True
    then show ?thesis using type size32 by (simp add: webp_next_def Let_def gives_Some)
  next
    case False
    note pay = webp_payload [OF small assms(3,4) False]
    have "0 \<le> uint (offset + 8)" "uint (offset + 8) \<le> uint (offset + 8 + ?n)" "uint (offset + 8 + ?n) \<le> int (length data)"
      using pay off assms(2) uint_nonnegative [of size32] uint_nonnegative [of offset] by linarith+
    then obtain payload where payload: "word_slice data (offset + 8) (offset + 8 + ?n) = Some payload"
      using gives_slice by (fastforce simp: gives_def word_slice_def)
    then have "gives (webp_chunk chunkType payload) (\<lambda>_. True)"
      unfolding word_slice_def by (intro webp_chunk_returns go_slice_sub [OF assms(1)])
    then show ?thesis using type size32 payload False pay(3) by (auto simp: webp_next_def Let_def gives_def)
  qed
qed

lemma webp_chunks_return:
  "go_slice data \<Longrightarrow> uint declaredEnd \<le> int (length data) \<Longrightarrow> uint offset \<le> uint declaredEnd \<Longrightarrow>
   gives (webp_chunks data declaredEnd offset) (\<lambda>_. True)"
proof (induction data declaredEnd offset rule: webp_chunks.induct)
  case (1 data declaredEnd offset)
  show ?case
  proof (cases "offset + 8 \<le> declaredEnd")
    case True
    with 1(2-4) webp_next_returns(1) obtain r where
      r: "webp_next data declaredEnd offset = Some r" "\<forall>k. r = Inr k \<longrightarrow> uint k \<le> uint declaredEnd"
      by (fastforce simp: gives_def)
    then show ?thesis
      using 1 True by (subst webp_chunks.simps) (cases r; fastforce simp: gives_def)
  qed (subst webp_chunks.simps, simp add: gives_Some)
qed

lemma animated_webp_chunks_return:
  "go_slice data \<Longrightarrow> uint declaredEnd \<le> int (length data) \<Longrightarrow> uint offset \<le> uint declaredEnd \<Longrightarrow>
   gives (animated_webp_chunks data declaredEnd offset) (\<lambda>_. True)"
proof (induction data declaredEnd offset rule: animated_webp_chunks.induct)
  case (1 data declaredEnd offset)
  show ?case
  proof (cases "offset + 8 \<le> declaredEnd")
    case True
    with 1(2-4) webp_next_returns(2) obtain r where
      r: "animated_webp_next data declaredEnd offset = Some r" "\<forall>k. r = Inr k \<longrightarrow> uint k \<le> uint declaredEnd"
      by (fastforce simp: gives_def)
    then show ?thesis
      using 1 True by (subst animated_webp_chunks.simps) (cases r; fastforce simp: gives_def)
  qed (subst animated_webp_chunks.simps, simp add: gives_Some)
qed

lemma is_webp_returns: "gives (is_webp data) (\<lambda>webp. webp \<longrightarrow> 12 \<le> length data)"
proof (cases "length data < 12")
  case False
  then obtain a b where "byte_slice data 0 4 = Some a" "byte_slice data 8 12 = Some b"
    using gives_slice [of 0 4 data] gives_slice [of 8 12 data] by (fastforce simp: gives_def)
  then show ?thesis using False by (cases "a = text_bytes ''RIFF''") (auto simp: is_webp_def intro: gives_Some)
qed (simp add: is_webp_def gives_Some)

lemma declared_end_returns: "12 \<le> length data \<Longrightarrow> gives (declared_end data) (\<lambda>_. True)"
  unfolding declared_end_def by (auto intro!: gives_bind [OF gives_uint32] gives_Some)

lemma webp_returns:
  assumes "go_slice data"
  shows "gives (hasUnsupportedWebPVisualMetadata data) (\<lambda>_. True)" and "gives (isAnimatedWebP data) (\<lambda>_. True)"
proof -
  have whole: "uint (word_of_int (int (length data)) :: 64 word) = int (length data)"
    using assms by (intro uint_of_length) (simp_all add: go_slice_def)
  have "gives (if n < 12 \<or> word_of_int (int (length data)) < n then Some True else webp_chunks data n 12) (\<lambda>_. True)"
    for n :: "64 word"
  proof (cases "n < 12 \<or> word_of_int (int (length data)) < n")
    case False
    then have "uint n \<le> int (length data)" "uint (12 :: 64 word) \<le> uint n"
      using whole by (simp_all only: word_less_def) simp_all
    then show ?thesis using False webp_chunks_return [OF assms] by simp
  qed (simp add: gives_Some)
  then show "gives (hasUnsupportedWebPVisualMetadata data) (\<lambda>_. True)"
    unfolding hasUnsupportedWebPVisualMetadata_def
    by (auto intro!: gives_bind [OF is_webp_returns] gives_bind [OF declared_end_returns] gives_Some)
  have "gives (animated_webp_chunks data n 12) (\<lambda>_. True)" if "uint n \<le> int (length data)" for n :: "64 word"
  proof (cases "12 + 8 \<le> n")
    case True
    then have "uint (12 :: 64 word) \<le> uint n" by (simp add: word_le_def)
    then show ?thesis using animated_webp_chunks_return [OF assms that] by simp
  qed (subst animated_webp_chunks.simps, simp add: gives_Some)
  then show "gives (isAnimatedWebP data) (\<lambda>_. True)"
    unfolding isAnimatedWebP_def
    using whole by (auto simp: word_less_def intro!: gives_bind [OF is_webp_returns] gives_bind [OF declared_end_returns] gives_Some)
qed

text \<open>C33: no image can crash the bridge. Whatever bytes a file consists of, the parsers that look for
  animations and for metadata end, and never read an index or a slice out of range; the \<open>uint64\<close>
  arithmetic on the sizes and offsets the file declares does not get past its end.\<close>

theorem image_parsers_never_panic:
  assumes "int (length data) < 2 ^ 63"
  shows "hasUnsupportedStaticVisualMetadata data mimeType \<noteq> None \<and> isAnimatedPNG data \<noteq> None \<and>
    isAnimatedWebP data \<noteq> None \<and> readEXIFOrientation data \<noteq> None"
proof -
  have g: "go_slice data" using assms by (simp add: go_slice_def)
  from jpeg_returns [OF g] png_returns [OF g] webp_returns [OF g] read_exif_returns [OF g] show ?thesis
    by (auto simp: hasUnsupportedStaticVisualMetadata_def gives_def)
qed

lemma image_parsers_never_panic_witness:
  "hasUnsupportedStaticVisualMetadata [0xff, 0xd8, 0xff, 0xe1, 0xff, 0xff] ''image/jpeg'' \<noteq> None"
  using image_parsers_never_panic [of "[0xff, 0xd8, 0xff, 0xe1, 0xff, 0xff]"] by simp

end
