(* ===== verification/ImageGrammar.thy ===== *)
theory ImageGrammar
  imports ImageProperties
begin

text \<open>
  The image files whose pixels may be compared, as grammars of the formats: the parsers of
  pkg/tumblr/media.go accept exactly their words.
\<close>

section \<open>Slices and concatenation\<close>

lemma slice_here:
  assumes "lo = int (length before)" "hi = lo + int (length s)"
  shows "byte_slice (before @ s @ rest) lo hi = Some s"
  using assms by (simp add: byte_slice_def)

lemma slice_at_end:
  assumes "lo = int (length before)" "hi = lo + int (length s)"
  shows "byte_slice (before @ s) lo hi = Some s"
  using slice_here [OF assms, of "[]"] by simp

lemma slice_splits:
  assumes "byte_slice data lo hi = Some s"
  shows "drop (nat lo) data = s @ drop (nat hi) data" and "int (length s) = hi - lo"
proof -
  from assms have b: "0 \<le> lo" "lo \<le> hi" "hi \<le> int (length data)" and s: "s = take (nat (hi - lo)) (drop (nat lo) data)"
    by (auto simp: byte_slice_def split: if_splits)
  have "nat hi = nat lo + nat (hi - lo)" using b by simp
  then show "drop (nat lo) data = s @ drop (nat hi) data"
    unfolding s by (metis add.commute append_take_drop_id drop_drop)
  show "int (length s) = hi - lo" using b unfolding s by simp
qed

lemma uint32_splits:
  assumes "uint32_at ord data lo (lo + 4) = Some n"
  obtains s where "drop (nat lo) data = s @ drop (nat (lo + 4)) data" "length s = 4" "Uint32 ord s = Some n" "0 \<le> lo"
    "lo + 4 \<le> int (length data)"
proof -
  from assms obtain s where s: "byte_slice data lo (lo + 4) = Some s" "Uint32 ord s = Some n"
    by (auto simp: uint32_at_def split: Option.bind_splits)
  with slice_splits [OF s(1)] slice_bounds [OF s(1)] that show ?thesis by force
qed

section \<open>PNG\<close>

text \<open>After the signature: chunks (size, type, payload, checksum) up to an empty \<open>IEND\<close>; none gives a
  colour space, and an EXIF block says that the image is upright. What follows \<open>IEND\<close> is not read.\<close>

inductive png_plain :: "bytes \<Rightarrow> bool" where
  png_end: "length n = 4 \<Longrightarrow> Uint32 BigEndian n = Some 0 \<Longrightarrow> length crc = 4 \<Longrightarrow>
    png_plain (n @ text_bytes ''IEND'' @ crc @ rest)"
| png_more: "length n = 4 \<Longrightarrow> Uint32 BigEndian n = Some size32 \<Longrightarrow> length ty = 4 \<Longrightarrow>
    int (length payload) = uint size32 \<Longrightarrow> length crc = 4 \<Longrightarrow> ty \<notin> set colour_chunks \<Longrightarrow> ty \<noteq> text_bytes ''IEND'' \<Longrightarrow>
    (ty = text_bytes ''eXIf'' \<Longrightarrow> exif_unsupported payload = Some False) \<Longrightarrow> png_plain rest \<Longrightarrow>
    png_plain (n @ ty @ payload @ crc @ rest)"

lemma end_chunk:
  "text_bytes ''IEND'' \<notin> set colour_chunks" "text_bytes ''IEND'' \<noteq> text_bytes ''eXIf''" "length (text_bytes t) = length t"
  by (simp_all add: colour_chunks_def text_bytes_def)

text \<open>What one round reads, when the file continues with a whole chunk.\<close>

definition png_verdict :: "bytes \<Rightarrow> bytes \<Rightarrow> bool option" where
  "png_verdict ty payload =
     (if ty \<in> set colour_chunks then Some True
      else if ty = text_bytes ''eXIf'' then exif_unsupported payload else Some False)"

lemma png_next_reads:
  assumes data: "data = before @ n @ ty @ payload @ crc @ rest" and "go_slice data" and offset: "offset = int (length before)"
    and "length n = 4" "Uint32 BigEndian n = Some size32" "length ty = 4" "int (length payload) = uint size32" "length crc = 4"
  shows "offset + 12 \<le> int (length data)"
    and "png_next data offset = map_option (\<lambda>u. if u then Inl True
      else if ty = text_bytes ''IEND'' then Inl (size32 \<noteq> 0) else Inr (offset + uint size32 + 12)) (png_verdict ty payload)"
proof -
  have len: "int (length data) = offset + 12 + uint size32 + int (length rest)"
    using assms(4,6-8) unfolding data offset by simp
  then show inside: "offset + 12 \<le> int (length data)" using uint_nonnegative [of size32] by linarith
  have "uint (word_of_int (int (length data) - offset - 12) :: 64 word) = int (length data) - offset - 12"
    using assms(2) inside offset by (intro uint_of_length) (simp_all add: go_slice_def)
  then have fits: "\<not> word_of_int (int (length data) - offset - 12) < (ucast size32 :: 64 word)"
    using len by (simp only: word_less_def uint_wider)
  have reads: "byte_slice data offset (offset + 4) = Some n"
    unfolding data offset using assms(4) by (intro slice_here) simp_all
  have "byte_slice ((before @ n) @ ty @ payload @ crc @ rest) (offset + 4) (offset + 8) = Some ty"
    unfolding offset using assms(4,6) by (intro slice_here) simp_all
  then have type: "byte_slice data (offset + 4) (offset + 8) = Some ty" by (simp add: data)
  have "byte_slice ((before @ n @ ty) @ payload @ crc @ rest) (offset + 8) (offset + 8 + uint size32) = Some payload"
    unfolding offset using assms(4,6,7) by (intro slice_here) simp_all
  then have payload: "byte_slice data (offset + 8) (offset + 8 + uint size32) = Some payload" by (simp add: data)
  then have chunk: "png_chunk data ty (offset + 8) (offset + 8 + uint size32) = png_verdict ty payload"
    by (simp add: png_chunk_def png_verdict_def)
  have "(ucast size32 :: 64 word) \<noteq> 0 \<longleftrightarrow> size32 \<noteq> 0"
    by (metis uint_wider uint_0_iff)
  then show "png_next data offset = map_option (\<lambda>u. if u then Inl True
      else if ty = text_bytes ''IEND'' then Inl (size32 \<noteq> 0) else Inr (offset + uint size32 + 12)) (png_verdict ty payload)"
    using fits unfolding png_next_def uint32_at_def reads type Let_def uint_wider
    by (cases "png_verdict ty payload") (simp_all add: assms(5) chunk del: of_int_diff)
qed

lemma png_accepted:
  "png_plain bs \<Longrightarrow> go_slice (before @ bs) \<Longrightarrow> png_chunks (before @ bs) (int (length before)) = Some False"
proof (induction bs arbitrary: before rule: png_plain.induct)
  case (png_end n crc rest)
  from png_next_reads [of _ before n "text_bytes ''IEND''" "[]" crc rest _ 0] png_end show ?case
    by (subst png_chunks.simps) (simp add: end_chunk png_verdict_def)
next
  case (png_more n size32 ty payload crc rest)
  let ?data = "before @ n @ ty @ payload @ crc @ rest"
  have verdict: "png_verdict ty payload = Some False"
    using png_more.hyps by (simp add: png_verdict_def)
  have "go_slice ((before @ n @ ty @ payload @ crc) @ rest)" using png_more.prems by simp
  from png_more.IH [OF this] have rest: "png_chunks ?data (int (length before) + uint size32 + 12) = Some False"
    using png_more.hyps by (simp add: algebra_simps)
  from png_next_reads [OF refl png_more.prems refl png_more.hyps(1-5)] verdict png_more.hyps(7) rest show ?case
    by (subst png_chunks.simps) simp
qed

text \<open>Conversely, a file the loop accepts can be cut into chunks.\<close>

lemma png_next_splits:
  assumes "go_slice data" "0 \<le> offset" "offset + 12 \<le> int (length data)"
    and result: "png_next data offset = Some r" "r \<noteq> Inl True"
  obtains n size32 ty payload crc rest where
    "drop (nat offset) data = n @ ty @ payload @ crc @ rest" "length n = 4" "Uint32 BigEndian n = Some size32"
    "length ty = 4" "int (length payload) = uint size32" "length crc = 4"
    "drop (nat (offset + uint size32 + 12)) data = rest"
proof -
  let ?left = "int (length data) - offset - 12"
  have fits: "uint (word_of_int ?left :: 64 word) = ?left"
    using assms(1-3) by (intro uint_of_length) (simp_all add: go_slice_def)
  from result obtain size32 ty where size32: "uint32_at BigEndian data offset (offset + 4) = Some size32"
    and room: "\<not> (word_of_int ?left :: 64 word) < ucast size32"
    and ty: "byte_slice data (offset + 4) (offset + 8) = Some ty"
    by (auto simp: png_next_def Let_def split: if_splits Option.bind_splits)
  from room have room: "uint size32 \<le> ?left" by (simp only: word_less_def uint_wider fits not_less)
  from uint32_splits [OF size32] obtain n where n: "drop (nat offset) data = n @ drop (nat (offset + 4)) data"
    "length n = 4" "Uint32 BigEndian n = Some size32" by metis
  have "0 \<le> uint size32" by simp
  then have "0 \<le> offset + 8" "offset + 8 \<le> offset + 8 + uint size32" "offset + 8 + uint size32 \<le> int (length data)"
    "0 \<le> offset + 8 + uint size32" "offset + 8 + uint size32 \<le> offset + 8 + uint size32 + 4"
    "offset + 8 + uint size32 + 4 \<le> int (length data)"
    using assms(2,3) room by linarith+
  with gives_slice obtain payload crc where
    payload: "byte_slice data (offset + 8) (offset + 8 + uint size32) = Some payload" and
    crc: "byte_slice data (offset + 8 + uint size32) (offset + 8 + uint size32 + 4) = Some crc"
    unfolding gives_def by metis
  have cut: "drop (nat offset) data = n @ ty @ payload @ crc @ drop (nat (offset + 8 + uint size32 + 4)) data"
    using n(1) slice_splits(1) [OF ty] slice_splits(1) [OF payload] slice_splits(1) [OF crc] by simp
  show ?thesis
  proof (rule that [OF cut n(2,3)])
    show "length ty = 4" "int (length payload) = uint size32" "length crc = 4"
      using slice_splits(2) [OF ty] slice_splits(2) [OF payload] slice_splits(2) [OF crc] by simp_all
    show "drop (nat (offset + uint size32 + 12)) data = drop (nat (offset + 8 + uint size32 + 4)) data"
      by (simp add: algebra_simps)
  qed
qed

lemma png_accepts_only:
  "png_chunks data offset = Some False \<Longrightarrow> go_slice data \<Longrightarrow> 0 \<le> offset \<Longrightarrow> png_plain (drop (nat offset) data)"
proof (induction data offset rule: png_chunks.induct)
  case (1 data offset)
  note run = 1(2) [unfolded png_chunks.simps [of data offset]]
  then have inside: "offset + 12 \<le> int (length data)" by (auto split: if_splits)
  with run obtain r where r: "png_next data offset = Some r"
    and cont: "(case r of Inl result \<Rightarrow> Some result | Inr k \<Rightarrow> png_chunks data k) = Some False"
    by (auto split: Option.bind_splits)
  then have "r \<noteq> Inl True" by auto
  from png_next_splits [OF 1(3,4) inside r this] obtain n size32 ty payload crc rest where
    cut: "drop (nat offset) data = n @ ty @ payload @ crc @ rest" and
    lens: "length n = 4" "Uint32 BigEndian n = Some size32" "length ty = 4" "int (length payload) = uint size32" "length crc = 4"
    and rest: "drop (nat (offset + uint size32 + 12)) data = rest" by metis
  have whole: "data = take (nat offset) data @ n @ ty @ payload @ crc @ rest"
    using cut append_take_drop_id [of "nat offset" data] by simp
  have "offset = int (length (take (nat offset) data))" using 1(4) inside by simp
  note reads = png_next_reads(2) [OF whole 1(3) this lens]
  with r cont \<open>r \<noteq> Inl True\<close> have plain: "png_verdict ty payload = Some False"
    by (cases "png_verdict ty payload") (auto split: if_splits)
  then have free: "ty \<notin> set colour_chunks" "ty = text_bytes ''eXIf'' \<Longrightarrow> exif_unsupported payload = Some False"
    by (auto simp: png_verdict_def split: if_splits)
  show ?case
  proof (cases "ty = text_bytes ''IEND''")
    case True
    then have "size32 = 0" using reads r cont plain by auto
    with lens have "payload = []" by simp
    with True lens \<open>size32 = 0\<close> show ?thesis by (simp add: cut png_end)
  next
    case False
    then have k: "r = Inr (offset + uint size32 + 12)" using reads r plain by simp
    have "0 \<le> uint size32" by simp
    then have "0 \<le> offset + uint size32 + 12" using 1(4) by linarith
    with 1(1) [OF _ r k _ 1(3)] inside cont k have "png_plain rest" by (simp add: rest)
    with free False lens show ?thesis by (simp add: cut png_more)
  qed
qed

section \<open>The property\<close>

text \<open>C32: the PNG check is exact. For every file a Go program can hold, the loop of
  \<open>hasUnsupportedPNGVisualMetadata\<close>, which advances an offset through the bytes, returns
  \<open>false\<close> exactly when the file is a signature followed by whole chunks up to an empty \<open>IEND\<close>,
  none of which gives a colour space or, by EXIF, an orientation other than upright.\<close>

theorem png_check_is_exact:
  assumes "go_slice data"
  shows "hasUnsupportedPNGVisualMetadata data = Some False \<longleftrightarrow> (\<exists>rest. data = png_signature @ rest \<and> png_plain rest)"
proof
  assume accepted: "hasUnsupportedPNGVisualMetadata data = Some False"
  then have head: "byte_slice data 0 8 = Some png_signature" and "png_chunks data 8 = Some False"
    by (auto simp: hasUnsupportedPNGVisualMetadata_def is_png_def split: if_splits Option.bind_splits)
  from png_accepts_only [OF this(2) assms] have "png_plain (drop 8 data)" by simp
  moreover from slice_splits(1) [OF head] have "data = png_signature @ drop 8 data" by simp
  ultimately show "\<exists>rest. data = png_signature @ rest \<and> png_plain rest" by blast
next
  assume "\<exists>rest. data = png_signature @ rest \<and> png_plain rest"
  then obtain rest where "data = png_signature @ rest" "png_plain rest" by blast
  moreover have "length png_signature = 8" by (simp add: png_signature_def text_bytes_def)
  ultimately show "hasUnsupportedPNGVisualMetadata data = Some False"
    using png_accepted [of rest png_signature] assms slice_here [of 0 "[]" 8 png_signature rest]
    by (simp add: hasUnsupportedPNGVisualMetadata_def is_png_def)
qed

lemma png_check_is_exact_witness:
  "hasUnsupportedPNGVisualMetadata (png_signature @ [0, 0, 0, 0] @ text_bytes ''IEND'' @ [1, 2, 3, 4]) = Some False"
proof -
  let ?rest = "[0, 0, 0, 0] @ text_bytes ''IEND'' @ [1, 2, 3, 4]"
  have "go_slice (png_signature @ ?rest)" by (simp add: go_slice_def png_signature_def text_bytes_def)
  moreover have "Uint32 BigEndian [0, 0, 0, 0] = Some 0" by (simp add: join32_def)
  then have "png_plain ([0, 0, 0, 0] @ text_bytes ''IEND'' @ [1, 2, 3, 4] @ [])" by (intro png_end) simp_all
  then have "png_plain ?rest" by simp
  ultimately show ?thesis using png_check_is_exact by blast
qed

end
