(* ===== verification/SessionCookies.thy ===== *)
theory SessionCookies
  imports TumblrClient
begin

text \<open>
  Session cookies (pkg/tumblr/session.go, and the reading of pasted header lines in
  pkg/tumblr/client.go): which cookies of a login are kept, how they are written into one
  \<open>Cookie\<close> header, and how they are read back from what a user pastes: a header, a whole
  request, or a \<open>curl\<close> command.

  A map of cookies is a partial function. \<open>lower\<close> stands for \<open>strings.ToLower\<close>, which
  folds all of Unicode and may change the length of a string; a computation that indexes the
  original text with a position found in the folded one is of type \<open>option\<close>, with \<open>None\<close>
  for the run-time panic.
\<close>

section \<open>Header lines in a text\<close>

text \<open>\<open>strings.Cut\<close> at a character.\<close>

fun cut_at :: "char \<Rightarrow> string \<Rightarrow> (string \<times> string) option" where
  "cut_at c [] = None"
| "cut_at c (x # xs) =
     (if x = c then Some ([], xs) else map_option (\<lambda>(a, b). (x # a, b)) (cut_at c xs))"

text \<open>\<open>strings.Trim\<close> with a set of ASCII characters.\<close>

definition trim_chars :: "string \<Rightarrow> string \<Rightarrow> string" where
  "trim_chars cs s = rev (dropWhile (\<lambda>c. c \<in> set cs) (rev (dropWhile (\<lambda>c. c \<in> set cs) s)))"

definition backslash :: string where "backslash = [CHR 0x5C]"

definition header_flag :: "string \<Rightarrow> string \<Rightarrow> string" where
  "header_flag flag line = trim_space (trim_prefix flag line)"

definition normalizeHeaderLine :: "string \<Rightarrow> string" where
  "normalizeHeaderLine line0 =
     (let line = trim_space (trim_suffix backslash (trim_space line0));
          line' = (if has_prefix ''-H '' line then header_flag ''-H'' line
                   else if has_prefix ''--header '' line then header_flag ''--header'' line
                   else line)
      in trim_chars [CHR 0x22, CHR 0x27] (trim_space (trim_prefix ''$'' line')))"

definition headerValue :: "string \<Rightarrow> string \<Rightarrow> string option" where
  "headerValue line headerName =
     (case cut_at (CHR '':'') line of
        None \<Rightarrow> None
      | Some (name, v) \<Rightarrow>
          if \<not> equal_fold (trim_space name) headerName then None
          else let v' = trim_space (trim_suffix backslash v) in if v' = [] then None else Some v')"

text \<open>\<open>strings.Index\<close>.\<close>

fun index_of :: "string \<Rightarrow> string \<Rightarrow> nat option" where
  "index_of needle [] = (if needle = [] then Some 0 else None)"
| "index_of needle (c # cs) =
     (if has_prefix needle (c # cs) then Some 0 else map_option Suc (index_of needle cs))"

lemma has_prefix_length: "has_prefix p s \<Longrightarrow> length p \<le> length s"
  by (induction p s rule: has_prefix.induct) auto

lemma index_of_bound: "index_of needle s = Some i \<Longrightarrow> i + length needle \<le> length s"
  by (induction needle s arbitrary: i rule: index_of.induct) (auto split: if_splits dest: has_prefix_length)

definition isInlineHeaderBoundary :: "char \<Rightarrow> bool" where
  "isInlineHeaderBoundary c \<longleftrightarrow> c \<in> {CHR '' '', CHR 0x09, CHR 0x0D, CHR 0x0A, CHR 0x27, CHR 0x22}"

text \<open>The loop of \<open>inlineHeaderValue\<close>: positions are found in the folded text and used in the original.\<close>

definition value_from :: "string \<Rightarrow> nat \<Rightarrow> string" where
  "value_from inp i =
     trim_space (trim_suffix backslash
       (takeWhile (\<lambda>c. c \<notin> {CHR 0x27, CHR 0x22, CHR 0x0D, CHR 0x0A}) (drop i inp)))"

function inline_loop :: "string \<Rightarrow> string \<Rightarrow> string \<Rightarrow> nat \<Rightarrow> string option" where
  "inline_loop inp lowerInput needle searchStart =
     (case index_of needle (drop searchStart lowerInput) of
        None \<Rightarrow> Some []
      | Some i \<Rightarrow>
          let idx = i + searchStart in
          if idx \<noteq> 0 \<and> length inp \<le> idx - 1 then None
          else if idx = 0 \<or> isInlineHeaderBoundary (inp ! (idx - 1))
          then (if length inp < idx + length needle then None else Some (value_from inp (idx + length needle)))
          else if needle = [] then None
          else inline_loop inp lowerInput needle (idx + length needle))"
  by pat_completeness auto
termination
proof (relation "measure (\<lambda>(inp, low, needle, start). length low - start)", simp, clarsimp)
  fix low needle :: string and start i :: nat
  assume "index_of needle (drop start low) = Some i" and ne: "needle \<noteq> []"
  then have "i + length needle \<le> length low - start" using index_of_bound by fastforce
  moreover have "0 < length needle" using ne by simp
  ultimately show "length low - (i + start + length needle) < length low - start" by linarith
qed

declare inline_loop.simps [simp del]

definition inlineHeaderValue :: "(string \<Rightarrow> string) \<Rightarrow> string \<Rightarrow> string \<Rightarrow> string option" where
  "inlineHeaderValue lower inp headerName = inline_loop inp (lower inp) (lower headerName @ '':'') 0"

fun first_header :: "string list \<Rightarrow> string \<Rightarrow> string option" where
  "first_header [] headerName = None"
| "first_header (line # lines) headerName =
     (case headerValue (normalizeHeaderLine line) headerName of
        Some v \<Rightarrow> Some v
      | None \<Rightarrow> first_header lines headerName)"

definition HeaderValueFromText :: "(string \<Rightarrow> string) \<Rightarrow> string \<Rightarrow> string \<Rightarrow> string option" where
  "HeaderValueFromText lower input0 headerName0 =
     (let inp = trim_space input0; headerName = trim_space headerName0 in
      if inp = [] \<or> headerName = [] then Some []
      else case first_header (split_at (CHR 0x0A) inp) headerName of
        Some v \<Rightarrow> Some v
      | None \<Rightarrow>
          (case headerValue inp headerName of
             Some v \<Rightarrow> Some v
           | None \<Rightarrow> inlineHeaderValue lower inp headerName))"

definition normalizeCookieHeader :: "(string \<Rightarrow> string) \<Rightarrow> string \<Rightarrow> string option" where
  "normalizeCookieHeader lower input0 =
     (let inp = trim_space input0 in
      if inp = [] then Some []
      else case HeaderValueFromText lower inp ''cookie'' of
        None \<Rightarrow> None
      | Some v \<Rightarrow>
          if v \<noteq> [] then Some (if containsHTTPHeaderControl v then [] else v)
          else Some (if containsHTTPHeaderControl inp then [] else inp))"

section \<open>Cookies\<close>

type_synonym cookie_map = "string \<rightharpoonup> string"

definition sessionCookieNames :: "string list" where
  "sessionCookieNames = [''logged_in'', ''pfu'', ''sid'', ''tmgioct'']"

text \<open>\<open>cookies[name]\<close>: the empty string when the map has no entry.\<close>

definition entry :: "cookie_map \<Rightarrow> string \<Rightarrow> string" where
  "entry cookies name = (case cookies name of None \<Rightarrow> [] | Some v \<Rightarrow> v)"

definition validCookieMapPair :: "string \<Rightarrow> string \<Rightarrow> bool" where
  "validCookieMapPair key0 value0 =
     (let key = trim_space key0; v = trim_space value0 in
      if key = [] \<or> v = [] then False
      else if contains_char ''=;'' key \<or> containsSpaceOrControl key then False
      else \<not> contains_char '';'' v \<and> \<not> containsHTTPHeaderControl v)"

text \<open>The valid values of a map under the known names, added to others: the loop of
  \<open>NormalizeSessionCookies\<close> and of \<open>SessionCookiesFromMap\<close>.\<close>

fun add_named :: "string list \<Rightarrow> cookie_map \<Rightarrow> cookie_map \<Rightarrow> cookie_map" where
  "add_named [] input cookies = cookies"
| "add_named (name # names) input cookies =
     (let v = trim_space (entry input name) in
      add_named names input (if validCookieMapPair name v then cookies(name \<mapsto> v) else cookies))"

definition NormalizeSessionCookies :: "cookie_map \<Rightarrow> cookie_map" where
  "NormalizeSessionCookies cookies = add_named sessionCookieNames cookies Map.empty"

definition HasSessionCookies :: "cookie_map \<Rightarrow> bool" where
  "HasSessionCookies cookies \<longleftrightarrow> list_ex (\<lambda>n. NormalizeSessionCookies cookies n \<noteq> None) sessionCookieNames"

fun add_pairs :: "string list \<Rightarrow> cookie_map \<Rightarrow> cookie_map" where
  "add_pairs [] cookies = cookies"
| "add_pairs (part # parts) cookies =
     (case cut_at (CHR ''='') (trim_space part) of
        None \<Rightarrow> add_pairs parts cookies
      | Some (name0, value0) \<Rightarrow>
          let name = trim_space name0; v = trim_space value0 in
          add_pairs parts
            (if name \<in> set sessionCookieNames \<and> validCookieMapPair name v then cookies(name \<mapsto> v) else cookies))"

definition SessionCookiesFromHeader :: "(string \<Rightarrow> string) \<Rightarrow> string \<Rightarrow> cookie_map option" where
  "SessionCookiesFromHeader lower inp =
     map_option (\<lambda>header. add_pairs (split_at (CHR '';'') header) Map.empty) (normalizeCookieHeader lower inp)"

definition SessionCookiesFromMap :: "(string \<Rightarrow> string) \<Rightarrow> cookie_map \<Rightarrow> cookie_map option" where
  "SessionCookiesFromMap lower inp =
     map_option (add_named sessionCookieNames inp) (SessionCookiesFromHeader lower (entry inp ''cookie_header''))"

text \<open>The names sort as they are listed.\<close>

definition SessionCookieHeader :: "cookie_map \<Rightarrow> string" where
  "SessionCookieHeader cookies0 =
     (let cookies = NormalizeSessionCookies cookies0 in
      join_with ''; '' (map (\<lambda>name. name @ ''='' @ entry cookies name)
        (filter (\<lambda>name. cookies name \<noteq> None) sessionCookieNames)))"

definition CookieHeaderFromMap :: "(string \<Rightarrow> string) \<Rightarrow> cookie_map \<Rightarrow> string option" where
  "CookieHeaderFromMap lower cookies = map_option SessionCookieHeader (SessionCookiesFromMap lower cookies)"

definition CookieHeaderHasPair :: "(string \<Rightarrow> string) \<Rightarrow> string \<Rightarrow> bool option" where
  "CookieHeaderHasPair lower header = map_option HasSessionCookies (SessionCookiesFromHeader lower header)"

end
