(* ===== verification/CookieProperties.thy ===== *)
theory CookieProperties
  imports SessionCookies
begin

text \<open>
  A saved login writes its cookies into one header and reads them back: nothing is lost, nothing
  is added, and values that would break the header are dropped.
\<close>

section \<open>Trimmed strings\<close>

lemma strip_prefix_cut:
  "strip_prefix p (a @ c # b) = Some r \<Longrightarrow> c \<notin> set p \<Longrightarrow> \<exists>r'. strip_prefix p a = Some r'"
  by (induction p a rule: strip_prefix.induct) (auto split: if_splits)

lemma strip_prefix_cut_None: "strip_prefix p a = None \<Longrightarrow> c \<notin> set p \<Longrightarrow> strip_prefix p (a @ c # b) = None"
  using strip_prefix_cut [of p a c b] by (cases "strip_prefix p (a @ c # b)") auto

lemma strip_any_cut:
  assumes "strip_any ps a = None" "\<forall>p \<in> set ps. p \<noteq> [] \<and> c \<notin> set p"
  shows "strip_any ps (a @ c # b) = None"
  using assms by (induction ps) (auto split: option.splits if_splits simp: strip_prefix_cut_None)

lemma trim_with_stops: "strip_any ps (trim_with ps s) = None"
proof (induction ps s rule: trim_with.induct)
  case (1 ps s)
  then show ?case by (subst trim_with.simps) (auto split: option.split)
qed

lemma trim_with_None: "strip_any ps s = None \<Longrightarrow> trim_with ps s = s"
  by (subst trim_with.simps) simp

lemma strip_prefix_longer: "strip_prefix p a = Some r \<Longrightarrow> \<exists>r'. strip_prefix p (a @ b) = Some r'"
  by (induction p a rule: strip_prefix.induct) (auto split: if_splits)

lemma strip_any_shorter: "strip_any ps (a @ b) = None \<Longrightarrow> strip_any ps a = None"
  by (induction ps) (auto split: option.splits if_splits dest: strip_prefix_longer [where b = b])

text \<open>No white space at the right end.\<close>

definition right_trimmed :: "string \<Rightarrow> bool" where
  "right_trimmed s \<longleftrightarrow> strip_any (map rev space_encodings) (rev s) = None"

lemma right_trimmed_trim [simp]: "right_trimmed (trim_space s)"
  by (simp add: right_trimmed_def trim_space_def trim_with_stops)

lemma spaces_spare:
  assumes "visible c" "p \<in> set space_encodings"
  shows "p \<noteq> [] \<and> c \<notin> set p"
  using assms space_encodings_spare by (auto simp: visible_def space_encodings_def byte_string_def)

lemma right_trimmed_append:
  assumes "right_trimmed v" "visible c"
  shows "right_trimmed (n @ c # v)"
  using assms spaces_spare [OF assms(2)] unfolding right_trimmed_def by (simp add: strip_any_cut)

lemma right_trimmed_prefix:
  assumes "right_trimmed (c # s)" "visible c"
  shows "right_trimmed (a @ c # s)"
proof -
  have "strip_any (map rev space_encodings) (rev s @ [c]) = None" using assms(1) by (simp add: right_trimmed_def)
  then have "strip_any (map rev space_encodings) (rev s) = None" by (rule strip_any_shorter)
  then show ?thesis using right_trimmed_append [of s c a] assms(2) by (simp add: right_trimmed_def)
qed

lemma trim_space_right:
  assumes "visible c" "right_trimmed (c # s)"
  shows "trim_space (c # s) = c # s"
proof -
  have "trim_with space_encodings (c # s) = c # s" using assms(1) by (intro trim_with_spare) (simp add: spaces_spare)
  then show ?thesis using assms(2) trim_with_None [of "map rev space_encodings" "rev (c # s)"]
    by (simp add: trim_space_def right_trimmed_def)
qed

lemma trim_leading_space: "trim_space (CHR '' '' # s) = trim_space s"
proof -
  have "strip_any space_encodings (CHR '' '' # s) = Some s"
    by (simp add: space_encodings_def byte_string_def char_of_eq_iff)
  then have "trim_with space_encodings (CHR '' '' # s) = trim_with space_encodings s"
    by (subst trim_with.simps) simp
  then show ?thesis by (simp add: trim_space_def)
qed

lemma strip_prefix_split: "strip_prefix p s = Some r \<Longrightarrow> s = p @ r"
  by (induction p s rule: strip_prefix.induct) (auto split: if_splits)

lemma strip_any_split: "strip_any ps s = Some r \<Longrightarrow> \<exists>p. s = p @ r"
  by (induction ps) (auto split: option.splits if_splits dest: strip_prefix_split)

lemma trim_with_split: "\<exists>p. s = p @ trim_with ps s"
proof (induction ps s rule: trim_with.induct)
  case (1 ps s)
  show ?case
  proof (cases "strip_any ps s")
    case None
    then show ?thesis by (simp add: trim_with_None)
  next
    case (Some r)
    with 1 obtain p where "r = p @ trim_with ps r" by blast
    moreover from Some have "trim_with ps s = trim_with ps r" by (subst trim_with.simps) simp
    moreover from strip_any_split [OF Some] obtain q where "s = q @ r" by blast
    ultimately show ?thesis by (metis append.assoc)
  qed
qed

lemma trim_space_idem [simp]: "trim_space (trim_space s) = trim_space s"
proof -
  let ?left = "trim_with space_encodings s"
  obtain p where "rev ?left = p @ rev (trim_space s)"
    using trim_with_split [of "rev ?left" "map rev space_encodings"] by (auto simp: trim_space_def)
  then have "?left = trim_space s @ rev p" by (metis rev_append rev_rev_ident)
  with trim_with_stops [of space_encodings s] have "strip_any space_encodings (trim_space s) = None"
    using strip_any_shorter by metis
  then have "trim_with space_encodings (trim_space s) = trim_space s" by (rule trim_with_None)
  moreover have "trim_with (map rev space_encodings) (rev (trim_space s)) = rev (trim_space s)"
    using right_trimmed_trim [of s] unfolding right_trimmed_def by (rule trim_with_None)
  ultimately show ?thesis by (simp add: trim_space_def [of "trim_space s"])
qed

section \<open>Code points around an ASCII character\<close>

lemma not_cont: "c < 128 \<Longrightarrow> \<not> cont c"
  by (simp add: cont_def)

lemma runes_ascii_Cons: "c < 128 \<Longrightarrow> runes (c # b) = c # runes b"
  by (cases b) auto

lemma runes_ascii:
  assumes "c < 128"
  shows "runes (a @ c # b) = runes a @ c # runes b"
proof (induction a rule: measure_induct_rule [of size])
  case (less a)
  note c = runes_ascii_Cons [OF assms] not_cont [OF assms]
  have two: "runes (x # y # cs @ c # b) = runes (x # y # cs) @ c # runes b" if a: "a = x # y # cs" for x y cs
  proof -
    have ih: "runes (y # cs @ c # b) = runes (y # cs) @ c # runes b" "runes (cs @ c # b) = runes cs @ c # runes b"
      using less [of "y # cs"] less [of cs] a by simp_all
    show ?thesis
    proof (cases cs)
      case Nil
      then show ?thesis using ih c by (cases b) (simp_all add: if_distrib [of "\<lambda>l. l @ _"] cong: if_cong)
    next
      case (Cons d ds)
      have ih2: "runes (ds @ c # b) = runes ds @ c # runes b" using less [of ds] a Cons by simp
      show ?thesis
      proof (cases ds)
        case Nil
        then show ?thesis using ih ih2 c Cons by (simp add: if_distrib [of "\<lambda>l. l @ _"] cong: if_cong)
      next
        case (Cons f fs)
        have "runes (fs @ c # b) = runes fs @ c # runes b" using less [of fs] a \<open>cs = d # ds\<close> Cons by simp
        then show ?thesis using ih ih2 \<open>cs = d # ds\<close> Cons
          by (simp add: if_distrib [of "\<lambda>l. l @ _"] cong: if_cong)
      qed
    qed
  qed
  show ?case
  proof (cases a)
    case Nil
    then show ?thesis by (simp add: c)
  next
    case x: (Cons x as)
    show ?thesis
    proof (cases as)
      case Nil
      have "runes (x # c # b) = (if x < 128 then x else 65533) # runes (c # b)"
        by (subst runes.simps(3)) (simp del: runes.simps add: not_cont [OF assms] split: list.split)
      then show ?thesis using x Nil by (simp add: runes_ascii_Cons [OF assms])
    next
      case (Cons y cs)
      with x two [of x y cs] show ?thesis by (simp only: append_Cons)
    qed
  qed
qed

lemma control_split:
  assumes "(of_char c :: nat) < 128"
  shows "containsHTTPHeaderControl (a @ c # b) \<longleftrightarrow>
    containsHTTPHeaderControl a \<or> is_control_rune (of_char c) \<or> containsHTTPHeaderControl b"
  using assms by (simp add: containsHTTPHeaderControl_def rune_list_def runes_ascii)

section \<open>What the maps hold\<close>

lemma add_named_at:
  "add_named names input cookies n =
    (if n \<in> set names \<and> validCookieMapPair n (trim_space (entry input n)) then Some (trim_space (entry input n))
     else cookies n)"
  by (induction names input cookies rule: add_named.induct) (auto simp: Let_def)

lemma normalized_at:
  "NormalizeSessionCookies cookies n =
    (if n \<in> set sessionCookieNames \<and> validCookieMapPair n (trim_space (entry cookies n))
     then Some (trim_space (entry cookies n)) else None)"
  by (simp add: NormalizeSessionCookies_def add_named_at)

text \<open>A cookie that fits into a header.\<close>

definition writable :: "string \<Rightarrow> string \<Rightarrow> bool" where
  "writable n v \<longleftrightarrow> n \<in> set sessionCookieNames \<and> validCookieMapPair n v \<and> trim_space v = v"

lemma normalized_writable: "NormalizeSessionCookies cookies n = Some v \<Longrightarrow> writable n v"
  by (auto simp: normalized_at writable_def split: if_splits)

text \<open>The known names are visible ASCII without separators.\<close>

lemma known_name:
  assumes "n \<in> set sessionCookieNames"
  shows "n \<noteq> []" "visible (hd n)" "CHR '';'' \<notin> set n" "CHR ''='' \<notin> set n" "CHR '':'' \<notin> set n"
    "trim_space n = n" "\<not> containsHTTPHeaderControl n"
proof -
  have "n = ''logged_in'' \<or> n = ''pfu'' \<or> n = ''sid'' \<or> n = ''tmgioct''"
    using assms by (simp add: sessionCookieNames_def)
  then show "n \<noteq> []" "visible (hd n)" "CHR '';'' \<notin> set n" "CHR ''='' \<notin> set n" "CHR '':'' \<notin> set n"
    "trim_space n = n" "\<not> containsHTTPHeaderControl n"
    by (auto simp: visible_def containsHTTPHeaderControl_def rune_list_def is_control_rune_def intro: trim_space_visible)
qed

lemma valid_value:
  assumes "validCookieMapPair n v" "trim_space v = v"
  shows "v \<noteq> []" "CHR '';'' \<notin> set v" "\<not> containsHTTPHeaderControl v"
  using assms by (auto simp: validCookieMapPair_def contains_char_def list_ex_iff Let_def split: if_splits)

section \<open>Splitting a header\<close>

lemma split_at_here: "c \<notin> set p \<Longrightarrow> split_at c p = [p]"
  by (induction p) auto

lemma split_at_ne: "split_at c s \<noteq> []"
  by (induction s) (auto split: list.split)

lemma split_at_next: "c \<notin> set p \<Longrightarrow> split_at c (p @ c # s) = p # split_at c s"
  by (induction p) auto

lemma cut_at_here: "c \<notin> set p \<Longrightarrow> cut_at c (p @ c # s) = Some (p, s)"
  by (induction p) auto

lemma cut_at_absent: "c \<notin> set p \<Longrightarrow> cut_at c p = None"
  by (induction p) auto

definition header_part :: "string \<times> string \<Rightarrow> string" where
  "header_part p = fst p @ ''='' @ snd p"

lemma part_shape:
  assumes "writable n v"
  shows "CHR '';'' \<notin> set (header_part (n, v))" "right_trimmed (header_part (n, v))"
    "trim_space (header_part (n, v)) = header_part (n, v)"
    "add_pairs (header_part (n, v) # parts) m = add_pairs parts (m(n \<mapsto> v))"
proof -
  have w: "n \<in> set sessionCookieNames" "validCookieMapPair n v" "trim_space v = v"
    using assms by (auto simp: writable_def)
  note n = known_name [OF w(1)] and v = valid_value [OF w(2,3)]
  show "CHR '';'' \<notin> set (header_part (n, v))" using n(3) v(2) by (simp add: header_part_def)
  have "right_trimmed v" using right_trimmed_trim [of v] by (simp add: w(3))
  then have "right_trimmed (n @ CHR ''='' # v)" by (rule right_trimmed_append) (simp add: visible_def)
  then show right: "right_trimmed (header_part (n, v))" by (simp add: header_part_def)
  obtain c cs where c: "n = c # cs" using n(1) by (cases n) auto
  have "visible c" using n(2) c by simp
  then show trim: "trim_space (header_part (n, v)) = header_part (n, v)"
    using right trim_space_right [of c "cs @ ''='' @ v"] by (simp add: header_part_def c)
  have "cut_at (CHR ''='') (header_part (n, v)) = Some (n, v)" using n(4) by (simp add: header_part_def cut_at_here)
  then show "add_pairs (header_part (n, v) # parts) m = add_pairs parts (m(n \<mapsto> v))"
    using trim w n(6) by (simp add: Let_def)
qed

lemma add_pairs_space: "add_pairs ((CHR '' '' # part) # parts) m = add_pairs (part # parts) m"
  by (simp add: trim_leading_space)

lemma header_read:
  assumes "ps \<noteq> []" "\<forall>(n, v) \<in> set ps. writable n v"
  shows "add_pairs (split_at (CHR '';'') (join_with ''; '' (map header_part ps))) m = fold (\<lambda>(n, v) m. m(n \<mapsto> v)) ps m"
  using assms
proof (induction ps arbitrary: m)
  case (Cons p ps)
  obtain n v where p: "p = (n, v)" by (cases p) auto
  with Cons.prems have w: "writable n v" by auto
  note shape = part_shape [OF w]
  show ?case
  proof (cases ps)
    case Nil
    then show ?thesis using shape(1) shape(4) [of "[]"] p by (simp add: split_at_here)
  next
    case (Cons q qs)
    let ?rest = "join_with ''; '' (map header_part ps)"
    have "join_with ''; '' (map header_part (p # ps)) = header_part p @ CHR '';'' # CHR '' '' # ?rest"
      using Cons by simp
    moreover obtain r rs where r: "split_at (CHR '';'') ?rest = r # rs"
      using split_at_ne [of "CHR '';''" ?rest] by (cases "split_at (CHR '';'') ?rest") simp_all
    then have "split_at (CHR '';'') (CHR '' '' # ?rest) = (CHR '' '' # r) # rs" by simp
    ultimately have "split_at (CHR '';'') (join_with ''; '' (map header_part (p # ps))) =
        header_part (n, v) # (CHR '' '' # r) # rs"
      using split_at_next [OF shape(1), of "CHR '' '' # ?rest"] by (simp only: p)
    then have "add_pairs (split_at (CHR '';'') (join_with ''; '' (map header_part (p # ps)))) m =
        add_pairs (split_at (CHR '';'') ?rest) (m(n \<mapsto> v))"
      by (simp only: shape(4) add_pairs_space r)
    moreover have "\<dots> = fold (\<lambda>(n, v) m. m(n \<mapsto> v)) ps (m(n \<mapsto> v))"
      using Cons Cons.prems(2) by (intro Cons.IH) auto
    ultimately show ?thesis by (simp only: p fold.simps comp_apply prod.case)
  qed
qed simp

lemma fold_updates: "fold (\<lambda>(n, v) m. m(n \<mapsto> v)) (map (\<lambda>n. (n, f n)) ns) m x = (if x \<in> set ns then Some (f x) else m x)"
  by (induction ns arbitrary: m) auto

text \<open>The header consists of the parts of the cookies that are kept.\<close>

definition kept_parts :: "cookie_map \<Rightarrow> (string \<times> string) list" where
  "kept_parts C = map (\<lambda>n. (n, entry C n)) (filter (\<lambda>n. C n \<noteq> None) sessionCookieNames)"

lemma header_of_parts:
  "SessionCookieHeader cookies = join_with ''; '' (map header_part (kept_parts (NormalizeSessionCookies cookies)))"
  by (simp add: SessionCookieHeader_def Let_def kept_parts_def header_part_def comp_def)

lemma kept_writable:
  assumes "(n, v) \<in> set (kept_parts (NormalizeSessionCookies cookies))"
  shows "writable n v" and "NormalizeSessionCookies cookies n = Some v"
proof -
  show "NormalizeSessionCookies cookies n = Some v" using assms by (auto simp: kept_parts_def entry_def)
  then show "writable n v" by (rule normalized_writable)
qed

lemma kept_back: "fold (\<lambda>(n, v) m. m(n \<mapsto> v)) (kept_parts (NormalizeSessionCookies cookies)) Map.empty = NormalizeSessionCookies cookies"
proof
  fix x
  show "fold (\<lambda>(n, v) m. m(n \<mapsto> v)) (kept_parts (NormalizeSessionCookies cookies)) Map.empty x = NormalizeSessionCookies cookies x"
    unfolding kept_parts_def fold_updates
    by (auto simp: entry_def normalized_at)
qed

text \<open>A header made of parts is read as it stands.\<close>

lemma header_shape:
  assumes "ps \<noteq> []" "\<forall>(n, v) \<in> set ps. writable n v"
  shows "right_trimmed (join_with ''; '' (map header_part ps))"
    and "\<exists>c s. join_with ''; '' (map header_part ps) = c # s \<and> visible c"
    and "\<not> containsHTTPHeaderControl (join_with ''; '' (map header_part ps))"
    and "CHR '':'' \<in> set (join_with ''; '' (map header_part ps)) \<longrightarrow> (\<exists>(n, v) \<in> set ps. CHR '':'' \<in> set v)"
proof -
  let ?J = "\<lambda>ps. join_with ''; '' (map header_part ps)"
  have "right_trimmed (?J ps) \<and> (\<exists>c s. ?J ps = c # s \<and> visible c) \<and> \<not> containsHTTPHeaderControl (?J ps) \<and>
      (CHR '':'' \<in> set (?J ps) \<longrightarrow> (\<exists>(n, v) \<in> set ps. CHR '':'' \<in> set v))"
    using assms
  proof (induction ps)
    case (Cons p ps)
    obtain n v where p: "p = (n, v)" by (cases p) auto
    with Cons.prems have w: "writable n v" by auto
    then have n: "n \<in> set sessionCookieNames" and v: "validCookieMapPair n v" "trim_space v = v"
      by (auto simp: writable_def)
    note name = known_name [OF n]
    obtain c cs where c: "n = c # cs" "visible c" using name(1,2) by (cases n) auto
    have ascii: "(of_char (CHR ''='') :: nat) < 128" "(of_char (CHR '';'') :: nat) < 128" "(of_char (CHR '' '') :: nat) < 128"
      "\<not> is_control_rune (of_char (CHR ''=''))" "\<not> is_control_rune (of_char (CHR '';''))" "\<not> is_control_rune (of_char (CHR '' ''))"
      by (simp_all add: is_control_rune_def)
    have part: "\<not> containsHTTPHeaderControl (header_part p)"
      using control_split [OF ascii(1), of n v] name(7) valid_value(3) [OF v] ascii(4) by (simp add: header_part_def p)
    have colon: "CHR '':'' \<in> set (header_part p) \<longrightarrow> CHR '':'' \<in> set v" using name(5) by (simp add: header_part_def p)
    show ?case
    proof (cases ps)
      case Nil
      then show ?thesis using part_shape(2) [OF w] c part colon by (auto simp: p header_part_def)
    next
      case (Cons q qs)
      then have J: "?J (p # ps) = header_part p @ CHR '';'' # CHR '' '' # ?J ps" by simp
      from Cons Cons.IH Cons.prems have ih: "right_trimmed (?J ps)" "\<not> containsHTTPHeaderControl (?J ps)"
        "CHR '':'' \<in> set (?J ps) \<longrightarrow> (\<exists>(n, v) \<in> set ps. CHR '':'' \<in> set v)"
        "\<exists>d s. ?J ps = d # s \<and> visible d" by auto
      from ih(4) obtain d s where d: "?J ps = d # s" "visible d" by blast
      have "right_trimmed ((header_part p @ '';'' @ '' '') @ d # s)"
        using right_trimmed_prefix [OF ih(1) [unfolded d] d(2)] .
      then have "right_trimmed (?J (p # ps))" unfolding J d by simp
      moreover have "\<not> containsHTTPHeaderControl (?J (p # ps))"
        using control_split [OF ascii(2), of "header_part p" "CHR '' '' # ?J ps"] control_split [OF ascii(3), of "[]" "?J ps"]
          part ih(2) ascii unfolding J by (simp add: containsHTTPHeaderControl_def rune_list_def)
      moreover have "CHR '':'' \<in> set (?J (p # ps)) \<longrightarrow> (\<exists>(n, v) \<in> set (p # ps). CHR '':'' \<in> set v)"
        using ih(3) colon unfolding J by (auto simp: p)
      moreover have "\<exists>s. ?J (p # ps) = c # s" unfolding J by (simp add: p header_part_def c)
      ultimately show ?thesis using c(2) by blast
    qed
  qed simp
  then show "right_trimmed (?J ps)" "\<exists>c s. ?J ps = c # s \<and> visible c" "\<not> containsHTTPHeaderControl (?J ps)"
    "CHR '':'' \<in> set (?J ps) \<longrightarrow> (\<exists>(n, v) \<in> set ps. CHR '':'' \<in> set v)" by blast+
qed

lemma headerValue_absent: "CHR '':'' \<notin> set s \<Longrightarrow> headerValue s h = None"
  by (simp add: headerValue_def cut_at_absent)

lemma trim_chars_subset: "set (trim_chars cs s) \<subseteq> set s"
  unfolding trim_chars_def by (auto dest!: set_dropWhileD)

lemma trim_fix_subset: "set (trim_prefix p s) \<subseteq> set s" "set (trim_suffix p s) \<subseteq> set s"
  by (auto simp: trim_prefix_def trim_suffix_def dest: in_set_dropD in_set_takeD)

lemma header_flag_subset: "set (header_flag flag line) \<subseteq> set line"
  unfolding header_flag_def using trim_space_subset trim_fix_subset(1) by blast

lemma normal_line_subset: "set (normalizeHeaderLine line) \<subseteq> set line"
proof -
  define l where "l = trim_space (trim_suffix backslash (trim_space line))"
  have "set l \<subseteq> set line" unfolding l_def using trim_space_subset trim_fix_subset(2) by blast
  moreover have "set (if has_prefix ''-H '' l then header_flag ''-H'' l
      else if has_prefix ''--header '' l then header_flag ''--header'' l else l) \<subseteq> set l"
    using header_flag_subset by simp
  moreover have "set (normalizeHeaderLine line) \<subseteq> set (if has_prefix ''-H '' l then header_flag ''-H'' l
      else if has_prefix ''--header '' l then header_flag ''--header'' l else l)"
    unfolding normalizeHeaderLine_def Let_def l_def [symmetric]
    using trim_chars_subset trim_space_subset trim_fix_subset(1) by blast
  ultimately show ?thesis by blast
qed

lemma split_at_subset: "p \<in> set (split_at c s) \<Longrightarrow> set p \<subseteq> set s"
  by (induction s arbitrary: p) (fastforce split: if_splits list.splits)+

lemma first_header_absent: "\<forall>l \<in> set lines. CHR '':'' \<notin> set l \<Longrightarrow> first_header lines h = None"
proof (induction lines)
  case (Cons l lines)
  then have "CHR '':'' \<notin> set (normalizeHeaderLine l)" using normal_line_subset [of l] by auto
  then show ?case using Cons by (simp add: headerValue_absent)
qed simp

lemma has_prefix_set: "has_prefix p s \<Longrightarrow> set p \<subseteq> set s"
  by (induction p s rule: has_prefix.induct) auto

lemma index_of_set: "index_of needle s = Some i \<Longrightarrow> set needle \<subseteq> set s"
  by (induction needle s arbitrary: i rule: index_of.induct) (auto split: if_splits dest!: has_prefix_set)

lemma no_header_in:
  assumes "CHR '':'' \<notin> set s" "CHR '':'' \<notin> set (lower s)" "s = trim_space s"
  shows "HeaderValueFromText lower s ''cookie'' = Some []"
proof (cases "s = []")
  case True
  then show ?thesis by (simp add: HeaderValueFromText_def trim_space_def)
next
  case False
  have "first_header (split_at (CHR 0x0A) s) ''cookie'' = None"
    using assms(1) split_at_subset by (intro first_header_absent) blast
  moreover have "headerValue s ''cookie'' = None" using assms(1) by (rule headerValue_absent)
  moreover have "index_of (lower ''cookie'' @ '':'') (lower s) = None"
    using assms(2) index_of_set [of "lower ''cookie'' @ '':''" "lower s"]
    by (cases "index_of (lower ''cookie'' @ '':'') (lower s)") auto
  then have "inlineHeaderValue lower s ''cookie'' = Some []"
    unfolding inlineHeaderValue_def by (subst inline_loop.simps) simp
  moreover have "trim_space ''cookie'' = ''cookie''" by (rule trim_space_visible) (simp_all add: visible_def)
  ultimately show ?thesis using False assms(3) by (simp add: HeaderValueFromText_def Let_def)
qed


lemma lower_colon:
  assumes "CHR '':'' = lower_char c"
  shows "c = CHR '':''"
proof (rule ccontr)
  assume "c \<noteq> CHR '':''"
  then have up: "65 \<le> (of_char c :: nat) \<and> (of_char c :: nat) \<le> 90" "CHR '':'' = char_of ((of_char c :: nat) + 32)"
    using assms by (auto simp: lower_char_def Let_def split: if_splits)
  then have "(of_char (CHR '':'') :: nat) = of_char c + 32" by (simp del: of_char_Char)
  then show False using up(1) by simp
qed


text \<open>Positions found in the folded text are used in the original one, and folding may lengthen a
  text: U+023A takes two bytes, its lower case U+2C65 three. A pasted text with eight of them
  before \<open>cookie:\<close> makes the program read past its end. \<open>lower_sample\<close> agrees with
  \<open>strings.ToLower\<close> on texts of ASCII characters and U+023A.\<close>

fun lower_sample :: "string \<Rightarrow> string" where
  "lower_sample (c # d # s) =
     (if c = char_of (200::nat) \<and> d = char_of (186::nat) then map char_of [226, 177, 165::nat] @ lower_sample s
      else lower_char c # lower_sample (d # s))"
| "lower_sample s = map lower_char s"

lemma pasted_text_panics:
  "inlineHeaderValue lower_sample (concat (replicate 8 (map char_of [200, 186::nat])) @ '' cookie:'') ''cookie'' = None"
  by code_simp

end
