(* ===== verification/PushKeys.thy ===== *)
theory PushKeys
  imports SessionCookies InboundJobs "HOL-Library.Word"
begin

text \<open>
  What a login keeps about itself (pkg/connector/dbmeta.go): its cookies and tokens, the selected
  blog, and the keys and registrations of its push receiver. A pointer that may be nil is an
  option; \<open>clone\<close> is the identity on values, except that it drops the nil entries of a list.
  Base64 is that of the standard library (\<open>encoding/base64\<close>), on bytes as characters.
\<close>

section \<open>Base64\<close>

definition upper_letters :: string where "upper_letters = map char_of [65 ..< (91 :: nat)]"
definition lower_letters :: string where "lower_letters = map char_of [97 ..< (123 :: nat)]"
definition digits :: string where "digits = map char_of [48 ..< (58 :: nat)]"

datatype base64 = StdEncoding | RawStdEncoding | RawURLEncoding

primrec alphabet :: "base64 \<Rightarrow> string" where
  "alphabet StdEncoding = upper_letters @ lower_letters @ digits @ ''+/''"
| "alphabet RawStdEncoding = upper_letters @ lower_letters @ digits @ ''+/''"
| "alphabet RawURLEncoding = upper_letters @ lower_letters @ digits @ ''-_''"

primrec padded :: "base64 \<Rightarrow> bool" where
  "padded StdEncoding = True"
| "padded RawStdEncoding = False"
| "padded RawURLEncoding = False"

definition sextet :: "base64 \<Rightarrow> nat \<Rightarrow> char" where
  "sextet enc n = alphabet enc ! (n mod 64)"

fun position :: "string \<Rightarrow> char \<Rightarrow> nat option" where
  "position [] c = None"
| "position (x # xs) c = (if x = c then Some 0 else map_option Suc (position xs c))"

definition sextet_value :: "base64 \<Rightarrow> char \<Rightarrow> nat option" where
  "sextet_value enc c = position (alphabet enc) c"

fun encode_bytes :: "base64 \<Rightarrow> nat list \<Rightarrow> string" where
  "encode_bytes enc [] = []"
| "encode_bytes enc [a] =
     [sextet enc (a div 4), sextet enc (a mod 4 * 16)] @ (if padded enc then ''=='' else [])"
| "encode_bytes enc [a, b] =
     [sextet enc (a div 4), sextet enc (a mod 4 * 16 + b div 16), sextet enc (b mod 16 * 4)]
     @ (if padded enc then ''='' else [])"
| "encode_bytes enc (a # b # c # rest) =
     [sextet enc (a div 4), sextet enc (a mod 4 * 16 + b div 16), sextet enc (b mod 16 * 4 + c div 64), sextet enc (c mod 64)]
     @ encode_bytes enc rest"

definition EncodeToString :: "base64 \<Rightarrow> string \<Rightarrow> string" where
  "EncodeToString enc bytes = encode_bytes enc (map of_char bytes)"

definition two_sextets :: "base64 \<Rightarrow> char \<Rightarrow> char \<Rightarrow> nat list option" where
  "two_sextets enc a b =
     (case (sextet_value enc a, sextet_value enc b) of
        (Some x, Some y) \<Rightarrow> Some [x * 4 + y div 16]
      | _ \<Rightarrow> None)"

definition three_sextets :: "base64 \<Rightarrow> char \<Rightarrow> char \<Rightarrow> char \<Rightarrow> nat list option" where
  "three_sextets enc a b c =
     (case (sextet_value enc a, sextet_value enc b, sextet_value enc c) of
        (Some x, Some y, Some z) \<Rightarrow> Some [x * 4 + y div 16, y mod 16 * 16 + z div 4]
      | _ \<Rightarrow> None)"

fun decode_chars :: "base64 \<Rightarrow> string \<Rightarrow> nat list option" where
  "decode_chars enc [] = Some []"
| "decode_chars enc [a] = None"
| "decode_chars enc [a, b] = (if padded enc then None else two_sextets enc a b)"
| "decode_chars enc [a, b, c] = (if padded enc then None else three_sextets enc a b c)"
| "decode_chars enc (a # b # c # d # rest) =
     (if padded enc \<and> d = CHR ''='' then
        (if rest \<noteq> [] then None
         else if c = CHR ''='' then two_sextets enc a b else three_sextets enc a b c)
      else case (three_sextets enc a b c, sextet_value enc c, sextet_value enc d, decode_chars enc rest) of
          (Some xy, Some z, Some w, Some bytes) \<Rightarrow> Some (xy @ [z mod 4 * 64 + w] @ bytes)
        | _ \<Rightarrow> None)"

text \<open>The decoder skips line breaks.\<close>

definition DecodeString :: "base64 \<Rightarrow> string \<Rightarrow> string option" where
  "DecodeString enc s = map_option (map char_of) (decode_chars enc (filter (\<lambda>c. c \<notin> {CHR 0x0A, CHR 0x0D}) s))"

section \<open>Registrations of a push receiver\<close>

record push_registration =
  pr_Token :: string
  pr_FCMAppID :: string
  pr_AndroidID :: string
  pr_SecurityToken :: string
  pr_LastCheckinTS :: millis
  pr_FCMRegisteredTS :: millis
  pr_PersistentIDs :: "string list"

record push_keys =
  pk_Active :: "push_registration option"
  pk_Pending :: "push_registration option"
  pk_Retiring :: "push_registration option list"
  pk_P256DH :: string
  pk_Auth :: string
  pk_Private :: string

record gcm_credentials =
  gc_AndroidID :: "64 word"
  gc_SecurityToken :: "64 word"

text \<open>\<open>strconv.ParseUint(s, 10, 64)\<close>.\<close>

definition parse_uint :: "string \<Rightarrow> 64 word option" where
  "parse_uint s =
     (if s \<noteq> [] \<and> list_all (\<lambda>c. 48 \<le> (of_char c :: nat) \<and> (of_char c :: nat) < 58) s \<and> decimal_value 0 s < 2 ^ 64
      then Some (of_nat (decimal_value 0 s)) else None)"

definition format_uint :: "64 word \<Rightarrow> string" where
  "format_uint w = decimal (unat w)"

text \<open>\<open>r.credentials()\<close>: an error, nothing, or the numbers.\<close>

definition credentials :: "push_registration \<Rightarrow> go_error + gcm_credentials option" where
  "credentials r =
     (if blank (pr_AndroidID r) \<or> blank (pr_SecurityToken r) then Inr None
      else case parse_uint (trim_space (pr_AndroidID r)) of
        None \<Rightarrow> Inl (Plain ''tumblr push receiver Android ID is invalid'')
      | Some a \<Rightarrow>
          (case parse_uint (trim_space (pr_SecurityToken r)) of
             None \<Rightarrow> Inl (Plain ''tumblr push receiver security token is invalid'')
           | Some t \<Rightarrow> Inr (Some \<lparr>gc_AndroidID = a, gc_SecurityToken = t\<rparr>)))"

definition setCredentials :: "gcm_credentials \<Rightarrow> push_registration \<Rightarrow> push_registration" where
  "setCredentials creds r =
     r\<lparr>pr_AndroidID := format_uint (gc_AndroidID creds), pr_SecurityToken := format_uint (gc_SecurityToken creds)\<rparr>"

definition usable :: "push_registration option \<Rightarrow> bool" where
  "usable r =
     (case r of
        None \<Rightarrow> False
      | Some x \<Rightarrow>
          if blank (pr_Token x) \<or> blank (pr_FCMAppID x) \<or> pr_FCMRegisteredTS x \<le> 0 then False
          else case credentials x of Inr (Some _) \<Rightarrow> True | _ \<Rightarrow> False)"

definition samePushRegistration :: "push_registration option \<Rightarrow> push_registration option \<Rightarrow> bool" where
  "samePushRegistration l r =
     (case (l, r) of
        (Some x, Some y) \<Rightarrow> pr_Token x = pr_Token y \<and> pr_FCMAppID x = pr_FCMAppID y \<and>
          pr_AndroidID x = pr_AndroidID y \<and> pr_SecurityToken x = pr_SecurityToken y
      | _ \<Rightarrow> False)"

lemma same_registration [simp]:
  "\<not> samePushRegistration None r" "\<not> samePushRegistration l None"
  "samePushRegistration (Some x) (Some y) \<longleftrightarrow> pr_Token x = pr_Token y \<and> pr_FCMAppID x = pr_FCMAppID y \<and>
     pr_AndroidID x = pr_AndroidID y \<and> pr_SecurityToken x = pr_SecurityToken y"
  by (simp_all add: samePushRegistration_def split: option.split)

lemma same_token:
  assumes "samePushRegistration l r"
  obtains x y where "l = Some x" "r = Some y" "pr_Token x = pr_Token y"
  using assms by (auto simp: samePushRegistration_def split: option.splits)

definition clonePushRegistrations :: "push_registration option list \<Rightarrow> push_registration option list" where
  "clonePushRegistrations rs = filter (\<lambda>r. r \<noteq> None) rs"

definition appendUniquePushRegistration ::
  "push_registration option list \<Rightarrow> push_registration option \<Rightarrow> push_registration option list" where
  "appendUniquePushRegistration rs candidate =
     (if candidate = None then rs
      else if list_ex (\<lambda>r. samePushRegistration r candidate) rs then rs
      else rs @ [candidate])"

definition removePushRegistration ::
  "push_registration option list \<Rightarrow> push_registration option \<Rightarrow> push_registration option list" where
  "removePushRegistration rs candidate = filter (\<lambda>r. \<not> samePushRegistration r candidate) rs"

definition clone_keys :: "push_keys \<Rightarrow> push_keys" where
  "clone_keys k = k\<lparr>pk_Retiring := clonePushRegistrations (pk_Retiring k)\<rparr>"

text \<open>The registration \<open>pushRegistrationByToken\<close> points to, and a change through that pointer.\<close>

datatype registration_slot = ActiveSlot | PendingSlot | RetiringSlot nat

definition has_token :: "string \<Rightarrow> push_registration option \<Rightarrow> bool" where
  "has_token token r = (case r of None \<Rightarrow> False | Some x \<Rightarrow> pr_Token x = token)"

fun retiring_slot :: "nat \<Rightarrow> string \<Rightarrow> push_registration option list \<Rightarrow> nat option" where
  "retiring_slot n token [] = None"
| "retiring_slot n token (r # rs) = (if has_token token r then Some n else retiring_slot (Suc n) token rs)"

definition pushRegistrationByToken :: "push_keys \<Rightarrow> string \<Rightarrow> registration_slot option" where
  "pushRegistrationByToken k token =
     (if has_token token (pk_Active k) then Some ActiveSlot
      else if has_token token (pk_Pending k) then Some PendingSlot
      else map_option RetiringSlot (retiring_slot 0 token (pk_Retiring k)))"

fun at_slot :: "registration_slot \<Rightarrow> push_keys \<Rightarrow> push_registration option" where
  "at_slot ActiveSlot k = pk_Active k"
| "at_slot PendingSlot k = pk_Pending k"
| "at_slot (RetiringSlot n) k = pk_Retiring k ! n"

fun change_slot ::
  "registration_slot \<Rightarrow> (push_registration \<Rightarrow> push_registration) \<Rightarrow> push_keys \<Rightarrow> push_keys" where
  "change_slot ActiveSlot f k = k\<lparr>pk_Active := map_option f (pk_Active k)\<rparr>"
| "change_slot PendingSlot f k = k\<lparr>pk_Pending := map_option f (pk_Pending k)\<rparr>"
| "change_slot (RetiringSlot n) f k = k\<lparr>pk_Retiring := (pk_Retiring k)[n := map_option f (pk_Retiring k ! n)]\<rparr>"

section \<open>The metadata of a login\<close>

text \<open>\<open>um_SessionCookies\<close> are the values the cookie jar holds.\<close>

record user_login_metadata =
  um_SessionCookies :: cookie_map
  um_APIToken :: string
  um_CSRFToken :: string
  um_APIVersion :: string
  um_UserAgent :: string
  um_UserName :: string
  um_SelectedBlogName :: string
  um_SelectedBlogUUID :: string
  um_PushKeys :: "push_keys option"

definition clone_metadata :: "user_login_metadata \<Rightarrow> user_login_metadata" where
  "clone_metadata m = m\<lparr>um_PushKeys := map_option clone_keys (um_PushKeys m)\<rparr>"

text \<open>The connector has its own \<open>normalizeOptionalHeaderCredential\<close> (dbmeta.go) and
  \<open>normalizeBearerToken\<close> (login.go).\<close>

definition containsMetadataControl :: "string \<Rightarrow> bool" where
  "containsMetadataControl v \<longleftrightarrow> list_ex is_control_rune (rune_list v)"

definition metadata_credential :: "string \<Rightarrow> string" where
  "metadata_credential v0 = (let v = trim_space v0 in if v = [] \<or> containsMetadataControl v then [] else v)"

definition metadata_bearer_token :: "string \<Rightarrow> string" where
  "metadata_bearer_token input0 =
     (let inp = trim_space input0 in
      if inp = [] then []
      else if contains_char [CHR 0x0D, CHR 0x0A] inp then []
      else if length inp < 6 \<or> \<not> equal_fold (take 6 inp) ''bearer'' then metadata_credential inp
      else let remainder = trim_space (drop 6 inp) in
        if remainder = [] \<or> remainder = drop 6 inp then metadata_credential inp
        else metadata_credential remainder)"

definition normalizeOptionalMetadataBlogName :: "http_env \<Rightarrow> string \<Rightarrow> string" where
  "normalizeOptionalMetadataBlogName H v0 = (let v = trim_space v0 in if v = [] then [] else NormalizeBlogName H v)"

definition normalizedUserLoginMetadata :: "http_env \<Rightarrow> user_login_metadata \<Rightarrow> go_error + user_login_metadata" where
  "normalizedUserLoginMetadata H m =
     (let blogName = trim_space (um_SelectedBlogName m);
          blogUUID = trim_space (um_SelectedBlogUUID m)
      in if \<not> HasSessionCookies (um_SessionCookies m) then Inl (Plain ''tumblr session cookies are missing'')
         else if blogName = [] then Inl (Plain ''selected tumblr blog name is missing'')
         else if NormalizeBlogName H blogName = [] then Inl (Plain ''selected tumblr blog name is invalid'')
         else if blogUUID = [] then Inl (Plain ''selected tumblr blog uuid is missing'')
         else if \<not> validRemoteID blogUUID then Inl (Plain ''selected tumblr blog uuid is invalid'')
         else Inr (m\<lparr>um_APIToken := metadata_bearer_token (um_APIToken m),
           um_CSRFToken := metadata_credential (um_CSRFToken m),
           um_APIVersion := metadata_credential (um_APIVersion m),
           um_UserAgent := metadata_credential (um_UserAgent m),
           um_UserName := normalizeOptionalMetadataBlogName H (um_UserName m),
           um_SelectedBlogName := NormalizeBlogName H blogName,
           um_SelectedBlogUUID := blogUUID\<rparr>))"

definition validateUserLoginMetadata :: "http_env \<Rightarrow> user_login_metadata \<Rightarrow> go_error + user_login_metadata" where
  "validateUserLoginMetadata H m =
     (case normalizedUserLoginMetadata H m of Inl e \<Rightarrow> Inl e | Inr _ \<Rightarrow> Inr m)"

definition normalizeUserLoginMetadata :: "http_env \<Rightarrow> user_login_metadata \<Rightarrow> go_error + user_login_metadata" where
  "normalizeUserLoginMetadata H m = normalizedUserLoginMetadata H m"

definition bestEffortNormalizeUserLoginMetadata :: "http_env \<Rightarrow> user_login_metadata \<Rightarrow> user_login_metadata" where
  "bestEffortNormalizeUserLoginMetadata H m =
     m\<lparr>um_APIToken := metadata_bearer_token (um_APIToken m),
       um_CSRFToken := metadata_credential (um_CSRFToken m),
       um_APIVersion := metadata_credential (um_APIVersion m),
       um_UserAgent := metadata_credential (um_UserAgent m),
       um_UserName := normalizeOptionalMetadataBlogName H (um_UserName m),
       um_SelectedBlogName := normalizeOptionalMetadataBlogName H (um_SelectedBlogName m),
       um_SelectedBlogUUID := trim_space (um_SelectedBlogUUID m)\<rparr>"

section \<open>Push keys\<close>

definition complete_keys :: "push_keys option \<Rightarrow> bool" where
  "complete_keys k =
     (case k of None \<Rightarrow> False
      | Some x \<Rightarrow> pk_P256DH x \<noteq> [] \<and> length (pk_Auth x) = 16 \<and> pk_Private x \<noteq> [])"

definition encodedPushKeys :: "user_login_metadata \<Rightarrow> go_error + string \<times> string" where
  "encodedPushKeys m =
     (case um_PushKeys m of
        None \<Rightarrow> Inl (Plain ''tumblr web push keys are missing'')
      | Some k \<Rightarrow>
          if pk_P256DH k = [] \<or> pk_Auth k = [] then Inl (Plain ''tumblr web push public key or auth secret is missing'')
          else Inr (EncodeToString RawURLEncoding (pk_P256DH k), EncodeToString RawURLEncoding (pk_Auth k)))"

text \<open>Values in a log show only whether they are empty.\<close>

definition redactedMetadataValue :: "string \<Rightarrow> string" where
  "redactedMetadataValue v = (if blank v then ''<empty>'' else ''<redacted>'')"

definition redactedPushKeysValue :: "push_keys option \<Rightarrow> string" where
  "redactedPushKeysValue k = (if k = None then ''<empty>'' else ''<redacted>'')"

definition redactedSessionCookiesValue :: "cookie_map \<Rightarrow> string" where
  "redactedSessionCookiesValue cookies = (if list_all (\<lambda>n. cookies n = None) sessionCookieNames then ''<empty>'' else ''<redacted>'')"

definition metadata_String :: "user_login_metadata \<Rightarrow> string" where
  "metadata_String m =
     ''UserLoginMetadata{session_cookies:'' @ redactedSessionCookiesValue (um_SessionCookies m) @
     '' api_token:'' @ redactedMetadataValue (um_APIToken m) @
     '' csrf_token:'' @ redactedMetadataValue (um_CSRFToken m) @
     '' api_version:'' @ redactedMetadataValue (um_APIVersion m) @
     '' user_name:'' @ redactedMetadataValue (um_UserName m) @
     '' selected_blog_name:'' @ redactedMetadataValue (um_SelectedBlogName m) @
     '' selected_blog_uuid:'' @ redactedMetadataValue (um_SelectedBlogUUID m) @
     '' push_keys:'' @ redactedPushKeysValue (um_PushKeys m) @ ''}''"

end
