(* ===== verification/PushRegistrations.thy ===== *)
theory PushRegistrations
  imports PushKeys
begin

text \<open>
  The registrations of a login's push receiver (pkg/connector/push.go, pkg/tumblr/push.go,
  saving in pkg/connector/client.go). A receiver is obtained from Google (FCM), written into the
  metadata of the login as pending, registered with the remote service, connected, and promoted
  to active; what it replaces is retired, and forgotten once the service has unregistered it.

  The state is the connector's world together with the metadata of the login in memory and its
  copy in the framework's database, and a trace of what was saved, issued, registered and
  unregistered. Google's check-in and registration are parameters.
  Locks only serialise. An operation cut short by a crash has saved what the run saved in which
  every later call fails; \<open>Restart\<close> loads the saved metadata.
\<close>

section \<open>State and environment\<close>

record fcm_credentials =
  fc_Token :: string
  fc_AppID :: string
  fc_GCM :: gcm_credentials

text \<open>The state shown to the user: connected, or the code of a temporary failure.\<close>

datatype bridge_state = Connected | Transient string | BadCredentials go_error

datatype push_event =
    LoginSaved user_login_metadata
  | EndpointIssued string
  | EndpointRegistered string bool
  | EndpointUnregistered string bool
  | MessageCompleted string bool
  | StateSent bridge_state
  | InboundStarted
  | CleanupStarted
  | Waited duration

text \<open>\<open>pw_forbidden\<close>, \<open>pw_unavailable\<close> and \<open>pw_push_down\<close> are what keeps the connection from being
  reported as up.\<close>

record push_world =
  pw_world :: world
  pw_meta :: user_login_metadata
  pw_saved :: user_login_metadata
  pw_forbidden :: bool
  pw_unavailable :: bool
  pw_push_down :: "bridge_state option"
  pw_trace :: "push_event list"

type_synonym 'a push = "(go_error, push_world, 'a) oper"

record push_env =
  p_env :: env
  p_inbound :: inbound_env
  p_http :: http_env
  p_checkin :: "gcm_credentials option \<Rightarrow> gcm_credentials foreign"
  p_register :: "gcm_credentials \<Rightarrow> string \<Rightarrow> fcm_credentials option foreign"
  p_new_pair :: "(string \<times> string) foreign"
  p_new_auth :: "string foreign"
  p_update_login :: "user_login_metadata \<Rightarrow> unit foreign"
  p_unauthorized :: "go_error \<Rightarrow> bool"
  p_clock :: "nat \<Rightarrow> gotime"
  p_current :: "bool foreign"
  p_logged_flag :: "bool foreign"

abbreviation pseq :: "unit push \<Rightarrow> 'a push \<Rightarrow> 'a push" where
  "pseq m n \<equiv> andThen m (\<lambda>_. n)"

abbreviation pfail :: "string \<Rightarrow> 'a push" where
  "pfail msg \<equiv> raise (Plain msg)"

text \<open>An operation of the connector's world.\<close>

definition connector_op :: "'a act \<Rightarrow> 'a push" where
  "connector_op m p = (case m (pw_world p) of (r, w) \<Rightarrow> (r, p\<lparr>pw_world := w\<rparr>))"

text \<open>\<open>time.Now()\<close>, which like every call from outside is read at the current tick.\<close>

definition push_now :: "push_env \<Rightarrow> gotime push" where
  "push_now P p =
     (Inr (p_clock P (w_tick (pw_world p))), p\<lparr>pw_world := (pw_world p)\<lparr>w_tick := Suc (w_tick (pw_world p))\<rparr>\<rparr>)"

definition of_value :: "go_error + 'a \<Rightarrow> 'a push" where
  "of_value r = (case r of Inl e \<Rightarrow> raise e | Inr x \<Rightarrow> ret x)"

definition push_wrapping :: "string \<Rightarrow> 'a push \<Rightarrow> 'a push" where
  "push_wrapping msg m p = (case m p of (Inl e, p') \<Rightarrow> (Inl (Wrapped msg [e]), p') | (Inr x, p') \<Rightarrow> (Inr x, p'))"

definition traced :: "push_event \<Rightarrow> unit push" where
  "traced e p = (Inr (), p\<lparr>pw_trace := pw_trace p @ [e]\<rparr>)"

definition the_keys :: "push_keys option push" where
  "the_keys p = (Inr (um_PushKeys (pw_meta p)), p)"

definition put_keys :: "push_keys option \<Rightarrow> unit push" where
  "put_keys k p = (Inr (), p\<lparr>pw_meta := (pw_meta p)\<lparr>um_PushKeys := k\<rparr>\<rparr>)"

text \<open>\<open>validatedLoginMetadata\<close> returns a clone, \<open>validatedLoginMetadataLocked\<close> only checks.\<close>

definition validatedLoginMetadata :: "push_env \<Rightarrow> user_login_metadata push" where
  "validatedLoginMetadata P p =
     (case validateUserLoginMetadata (p_http P) (pw_meta p) of
        Inl e \<Rightarrow> (Inl e, p)
      | Inr m \<Rightarrow> (Inr (clone_metadata m), p))"

definition validated_locked :: "push_env \<Rightarrow> unit push" where
  "validated_locked P p =
     (case validateUserLoginMetadata (p_http P) (pw_meta p) of Inl e \<Rightarrow> (Inl e, p) | Inr _ \<Rightarrow> (Inr (), p))"

section \<open>Saving the login\<close>

text \<open>A save takes its turn behind the earlier ones, gives up when its context ends, and writes what
  the metadata is at its turn. An update that fails has written nothing.\<close>

definition write_login :: "push_env \<Rightarrow> unit push" where
  "write_login P p =
     (let snapshot = clone_metadata (pw_meta p) in
      case connector_op (foreign (p_update_login P snapshot)) p of
        (Inl e, p') \<Rightarrow> (Inl e, p')
      | (Inr _, p') \<Rightarrow> (Inr (), p'\<lparr>pw_saved := snapshot, pw_trace := pw_trace p' @ [LoginSaved snapshot]\<rparr>))"

definition saveOwnedUserLogin :: "push_env \<Rightarrow> unit push" where
  "saveOwnedUserLogin P = pseq (connector_op pause) (pseq (connector_op pause) (write_login P))"

definition saveUserLogin :: "push_env \<Rightarrow> unit push" where
  "saveUserLogin P =
     andThen (connector_op (foreign (e_begin_owned (p_env P)))) (\<lambda>owned.
     if \<not> owned then raise (Sentinel ClientRetired) else saveOwnedUserLogin P)"

text \<open>A change of the keys that is undone when it cannot be saved: \<open>undo\<close> sees the keys after the
  failed save.\<close>

definition saved_or_undone ::
  "push_env \<Rightarrow> (push_keys option \<Rightarrow> push_keys option) \<Rightarrow> unit push" where
  "saved_or_undone P undo =
     attempt (saveUserLogin P) (\<lambda>r.
     case r of
       Inr _ \<Rightarrow> ret ()
     | Inl e \<Rightarrow> andThen the_keys (\<lambda>k. pseq (put_keys (undo k)) (raise e)))"

section \<open>Keys\<close>

definition ensurePushKeys :: "push_env \<Rightarrow> bool push" where
  "ensurePushKeys P =
     andThen the_keys (\<lambda>k.
     if complete_keys k then ret False
     else andThen (push_wrapping ''failed to generate web push key'' (connector_op (foreign (p_new_pair P)))) (\<lambda>(public, private).
       andThen (push_wrapping ''failed to generate web push auth secret'' (connector_op (foreign (p_new_auth P)))) (\<lambda>auth.
       pseq (put_keys (Some \<lparr>pk_Active = None, pk_Pending = None, pk_Retiring = [],
               pk_P256DH = public, pk_Auth = auth, pk_Private = private\<rparr>))
       (ret True))))"

definition ensurePushKeyMaterial :: "push_env \<Rightarrow> unit push" where
  "ensurePushKeyMaterial P =
     pseq (validated_locked P)
     (andThen the_keys (\<lambda>previous.
      andThen (ensurePushKeys P) (\<lambda>changed.
      if \<not> changed then ret ()
      else push_wrapping ''failed to save Tumblr web push keys''
             (saved_or_undone P (\<lambda>_. map_option clone_keys previous)))))"

section \<open>The service\<close>

definition webPushUUID :: "string \<Rightarrow> string" where
  "webPushUUID endpoint = (if length endpoint \<le> 256 then endpoint else drop (length endpoint - 256) endpoint)"

text \<open>The JSON object of a registration, by its fields; \<open>web_expiration_time\<close> is null.\<close>

definition NewWebPushDeviceRegistration :: "string \<Rightarrow> string \<times> string \<Rightarrow> (string \<times> string) list" where
  "NewWebPushDeviceRegistration endpoint ks =
     [(''web_endpoint'', endpoint), (''web_keys.p256dh'', fst ks), (''web_keys.auth'', snd ks),
      (''uuid'', webPushUUID endpoint), (''service_type'', ''web''), (''app_id'', ''1'')]"

definition RegisterWebPushDevice :: "http_env \<Rightarrow> (string \<times> string) list \<Rightarrow> unit act" where
  "RegisterWebPushDevice H registration =
     do_request H ''POST'' ''/v2/device/register'' [] (FieldsBody registration) (Discard ())"

definition UnregisterWebPushDevice :: "http_env \<Rightarrow> (string \<times> string) list \<Rightarrow> unit act" where
  "UnregisterWebPushDevice H registration =
     do_request H ''POST'' ''/v2/device/unregister'' [] (FieldsBody registration) (Discard ())"

text \<open>A request with its outcome in the trace.\<close>

definition noted :: "(bool \<Rightarrow> push_event) \<Rightarrow> unit act \<Rightarrow> unit push" where
  "noted ev m =
     attempt (connector_op m) (\<lambda>r. pseq (traced (ev (\<not> isl r))) (of_value r))"

datatype push_type = WebPush | OtherPush string

definition registerTumblrPushEndpoint :: "push_env \<Rightarrow> push_type \<Rightarrow> string \<Rightarrow> unit push" where
  "registerTumblrPushEndpoint P pushType token0 =
     (case pushType of
        OtherPush t \<Rightarrow> pfail (''unsupported push type: '' @ t)
      | WebPush \<Rightarrow>
          let token = trim_space token0 in
          if token = [] then pfail ''tumblr web push endpoint is empty''
          else pseq (connector_op (inbound_logged_in (p_inbound P)))
            (pseq (connector_op (foreign (e_client (p_env P))))
            (pseq (ensurePushKeyMaterial P)
            (andThen (validatedLoginMetadata P) (\<lambda>meta.
             andThen (of_value (encodedPushKeys meta)) (\<lambda>ks.
             push_wrapping ''failed to register Tumblr web push device''
               (noted (EndpointRegistered token) (RegisterWebPushDevice (p_http P) (NewWebPushDeviceRegistration token ks)))))))))"

definition RegisterPushNotifications :: "push_env \<Rightarrow> push_type \<Rightarrow> string \<Rightarrow> unit push" where
  "RegisterPushNotifications P pushType token =
     andThen (connector_op (foreign (e_begin_owned (p_env P)))) (\<lambda>owned.
     if \<not> owned then raise (Sentinel NotLoggedIn) else registerTumblrPushEndpoint P pushType token)"

definition unregisterTumblrPushEndpoint :: "push_env \<Rightarrow> string \<Rightarrow> unit push" where
  "unregisterTumblrPushEndpoint P token0 =
     (let token = trim_space token0 in
      if token = [] then ret ()
      else andThen (validatedLoginMetadata P) (\<lambda>meta.
        pseq (connector_op (foreign (e_client (p_env P))))
        (andThen (of_value (encodedPushKeys meta)) (\<lambda>ks.
         noted (EndpointUnregistered token) (UnregisterWebPushDevice (p_http P) (NewWebPushDeviceRegistration token ks))))))"

section \<open>Staging a registration\<close>

definition tumblrPushSubscriptionTTL :: duration where "tumblrPushSubscriptionTTL = 7 * 24 * hour"
definition tumblrPushCheckinInterval :: duration where "tumblrPushCheckinInterval = 24 * hour"
definition tumblrPushRegistrationAttempts :: nat where "tumblrPushRegistrationAttempts = 5"
definition maxStoredTumblrPushPersistentIDs :: nat where "maxStoredTumblrPushPersistentIDs = 32"

definition keys_missing :: go_error where
  "keys_missing = Plain ''tumblr web push keys are missing''"

text \<open>The keys with a candidate pending: what was pending and registered is retired.\<close>

definition stage_keys :: "push_registration \<Rightarrow> push_keys \<Rightarrow> push_keys" where
  "stage_keys candidate k =
     k\<lparr>pk_Retiring :=
         (case pk_Pending k of
            Some previous \<Rightarrow>
              if 0 < pr_FCMRegisteredTS previous \<and> \<not> samePushRegistration (Some previous) (Some candidate)
              then appendUniquePushRegistration (pk_Retiring k) (Some previous) else pk_Retiring k
          | None \<Rightarrow> pk_Retiring k),
       pk_Pending := Some candidate\<rparr>"

definition unstage_keys :: "push_registration \<Rightarrow> push_keys \<Rightarrow> push_keys option \<Rightarrow> push_keys option" where
  "unstage_keys candidate before k =
     map_option (\<lambda>x. if samePushRegistration (pk_Pending x) (Some candidate)
       then x\<lparr>pk_Pending := pk_Pending before, pk_Retiring := clonePushRegistrations (pk_Retiring before)\<rparr> else x) k"

definition persistPendingPushRegistration :: "push_env \<Rightarrow> push_registration \<Rightarrow> unit push" where
  "persistPendingPushRegistration P candidate =
     pseq (validated_locked P)
     (andThen the_keys (\<lambda>k.
      case k of
        None \<Rightarrow> raise keys_missing
      | Some before \<Rightarrow>
          pseq (put_keys (Some (stage_keys candidate before)))
          (push_wrapping ''failed to stage Tumblr push receiver metadata''
             (saved_or_undone P (unstage_keys candidate before)))))"

definition mark_pending :: "push_registration \<Rightarrow> millis \<Rightarrow> push_keys option \<Rightarrow> push_keys option" where
  "mark_pending pending ts k =
     map_option (\<lambda>x. if samePushRegistration (pk_Pending x) (Some pending)
       then x\<lparr>pk_Pending := map_option (\<lambda>r. r\<lparr>pr_FCMRegisteredTS := ts\<rparr>) (pk_Pending x)\<rparr> else x) k"

text \<open>The caller's registration comes back with the time it was registered.\<close>

definition finishPendingPushRegistration :: "push_env \<Rightarrow> push_registration \<Rightarrow> push_registration push" where
  "finishPendingPushRegistration P pending =
     (if blank (pr_Token pending) then pfail ''pending Tumblr push receiver registration is incomplete''
      else if 0 < pr_FCMRegisteredTS pending then ret pending
      else attempt (registerTumblrPushEndpoint P WebPush (pr_Token pending)) (\<lambda>r.
        case r of
          Inl e \<Rightarrow> connector_op (handleRemoteError e)
        | Inr _ \<Rightarrow>
            andThen (push_now P) (\<lambda>now.
            pseq (validated_locked P)
            (andThen the_keys (\<lambda>k.
             if \<not> samePushRegistration (Option.bind k pk_Pending) (Some pending)
             then pfail ''pending Tumblr push receiver changed while it was registering''
             else pseq (put_keys (mark_pending pending (unix_milli now) k))
               (pseq (push_wrapping ''failed to save registered Tumblr push receiver metadata''
                  (saved_or_undone P (mark_pending pending 0)))
               (ret (pending\<lparr>pr_FCMRegisteredTS := unix_milli now\<rparr>))))))))"

definition incomplete_fcm :: "fcm_credentials option \<Rightarrow> bool" where
  "incomplete_fcm f = (case f of None \<Rightarrow> True | Some x \<Rightarrow> blank (fc_Token x) \<or> blank (fc_AppID x))"

text \<open>Up to \<open>n\<close> registrations with FCM, until one is complete.\<close>

fun fcm_attempts :: "nat \<Rightarrow> push_env \<Rightarrow> gcm_credentials \<Rightarrow> string \<Rightarrow> fcm_credentials push" where
  "fcm_attempts 0 P creds appID = pfail ''FCM returned an incomplete Tumblr push receiver registration''"
| "fcm_attempts (Suc n) P creds appID =
     andThen (push_wrapping ''failed to register Beeper's Tumblr push receiver with FCM''
       (connector_op (foreign (p_register P creds appID)))) (\<lambda>f.
     if \<not> incomplete_fcm f then ret (the f)
     else pseq (if 0 < n then connector_op pause else ret ()) (fcm_attempts n P creds appID))"

definition fcm_endpoint :: "string \<Rightarrow> string" where
  "fcm_endpoint token = ''https://fcm.googleapis.com/fcm/send/'' @ token"

text \<open>The credentials to register with, and whether they are new.\<close>

definition checked_in :: "push_env \<Rightarrow> push_registration option \<Rightarrow> bool \<Rightarrow> (gcm_credentials \<times> bool) push" where
  "checked_in P active forceNew =
     andThen (case active of
         Some a \<Rightarrow> if forceNew then ret None else of_value (credentials a)
       | None \<Rightarrow> ret None) (\<lambda>creds.
     push_wrapping ''failed to create Beeper push receiver credentials''
       (attempt (connector_op (foreign (p_checkin P creds))) (\<lambda>r.
        case r of
          Inr c \<Rightarrow> ret (c, forceNew)
        | Inl e \<Rightarrow>
            if creds \<noteq> None \<and> p_unauthorized P e
            then andThen (connector_op (foreign (p_checkin P None))) (\<lambda>c. ret (c, True))
            else raise e)))"

definition stagePushRegistration :: "push_env \<Rightarrow> push_registration option \<Rightarrow> bool \<Rightarrow> push_registration push" where
  "stagePushRegistration P active forceNew0 =
     andThen (checked_in P active forceNew0) (\<lambda>(creds, forceNew).
     andThen (fcm_attempts tumblrPushRegistrationAttempts P creds
       (case active of Some a \<Rightarrow> if forceNew then [] else pr_FCMAppID a | None \<Rightarrow> [])) (\<lambda>fcm.
     andThen (push_now P) (\<lambda>now.
     let candidate = setCredentials (fc_GCM fcm)
           \<lparr>pr_Token = fcm_endpoint (fc_Token fcm), pr_FCMAppID = fc_AppID fcm, pr_AndroidID = [], pr_SecurityToken = [],
            pr_LastCheckinTS = unix_milli now, pr_FCMRegisteredTS = 0, pr_PersistentIDs = []\<rparr>
     in pseq (traced (EndpointIssued (pr_Token candidate)))
        (pseq (persistPendingPushRegistration P candidate)
        (finishPendingPushRegistration P candidate)))))"

section \<open>Checking in\<close>

text \<open>The caller's registration is updated together with the stored one; it comes back with the error,
  if any.\<close>

definition checked_keys :: "bool \<Rightarrow> gcm_credentials \<Rightarrow> millis \<Rightarrow> push_keys option \<Rightarrow> push_keys option" where
  "checked_keys pending creds ts k =
     map_option (\<lambda>x.
       let f = \<lambda>r. (setCredentials creds r)\<lparr>pr_LastCheckinTS := ts\<rparr> in
       if pending then x\<lparr>pk_Pending := map_option f (pk_Pending x)\<rparr>
       else x\<lparr>pk_Active := map_option f (pk_Active x)\<rparr>) k"

definition checkin_due :: "push_env \<Rightarrow> push_registration \<Rightarrow> bool \<Rightarrow> bool push" where
  "checkin_due P registration force =
     (if force then ret True
      else if pr_LastCheckinTS registration \<le> 0 then ret False
      else andThen (push_now P) (\<lambda>now.
        ret (tumblrPushCheckinInterval < now - pr_LastCheckinTS registration * millisecond)))"

definition check_target :: "bool \<Rightarrow> push_keys \<Rightarrow> push_registration option" where
  "check_target pending k = (if pending then pk_Pending k else pk_Active k)"

definition store_checkin ::
  "push_env \<Rightarrow> push_registration \<Rightarrow> bool \<Rightarrow> gcm_credentials \<Rightarrow> (push_registration \<times> go_error option) push" where
  "store_checkin P registration pending updated =
     attempt (validated_locked P) (\<lambda>v.
     case v of
       Inl e \<Rightarrow> ret (registration, Some e)
     | Inr _ \<Rightarrow>
         andThen the_keys (\<lambda>k.
         case k of
           None \<Rightarrow> ret (registration, Some keys_missing)
         | Some x \<Rightarrow>
             (case check_target pending x of
                None \<Rightarrow> ret (registration, None)
              | Some target \<Rightarrow>
                  if \<not> samePushRegistration (Some target) (Some registration) \<or>
                     pr_LastCheckinTS registration < pr_LastCheckinTS target
                  then ret (registration, None)
                  else andThen (push_now P) (\<lambda>now.
                    pseq (put_keys (checked_keys pending updated (unix_milli now) k))
                    (attempt (saveUserLogin P) (\<lambda>r.
                     ret ((setCredentials updated registration)\<lparr>pr_LastCheckinTS := unix_milli now\<rparr>,
                       case r of Inl e \<Rightarrow> Some e | Inr _ \<Rightarrow> None)))))))"

definition refreshPushRegistrationCheckin ::
  "push_env \<Rightarrow> push_registration \<Rightarrow> bool \<Rightarrow> bool \<Rightarrow> (push_registration \<times> go_error option) push" where
  "refreshPushRegistrationCheckin P registration pending force =
     andThen (checkin_due P registration force) (\<lambda>due.
     if \<not> due then ret (registration, None)
     else case credentials registration of
         Inl e \<Rightarrow> ret (registration, Some e)
       | Inr None \<Rightarrow> ret (registration, None)
       | Inr (Some creds) \<Rightarrow>
           attempt (connector_op (foreign (p_checkin P (Some creds)))) (\<lambda>r.
           case r of
             Inl e \<Rightarrow> ret (registration, Some e)
           | Inr updated \<Rightarrow> store_checkin P registration pending updated))"

section \<open>The registration to connect with\<close>

record prepared_registration =
  pp_registration :: push_registration
  pp_pending :: bool

text \<open>What \<open>preparePushRegistration\<close> returns: a registration, an error, or both.\<close>

type_synonym prepared = "prepared_registration option \<times> go_error option"

definition registration_due :: "push_registration \<Rightarrow> gotime \<Rightarrow> bool" where
  "registration_due r now \<longleftrightarrow>
     pr_FCMRegisteredTS r \<le> 0 \<or> pr_FCMRegisteredTS r * millisecond + tumblrPushSubscriptionTTL div 2 \<le> now"

definition tumblrPushReceiverRegistrationDue :: "push_env \<Rightarrow> push_registration \<Rightarrow> bool push" where
  "tumblrPushReceiverRegistrationDue P r =
     (if pr_FCMRegisteredTS r \<le> 0 then ret True
      else andThen (push_now P) (\<lambda>now. ret (registration_due r now)))"

definition staged :: "push_env \<Rightarrow> push_registration option \<Rightarrow> bool \<Rightarrow> prepared \<Rightarrow> prepared push" where
  "staged P active forceNew otherwise =
     attempt (stagePushRegistration P active forceNew) (\<lambda>r.
     case r of
       Inr candidate \<Rightarrow> ret (Some \<lparr>pp_registration = candidate, pp_pending = True\<rparr>, None)
     | Inl e \<Rightarrow> ret (fst otherwise, Some e))"

text \<open>A registration whose credentials were refused is replaced by a new one.\<close>

definition checked_or_staged ::
  "push_env \<Rightarrow> push_registration option \<Rightarrow> push_registration \<Rightarrow> bool \<Rightarrow> prepared push" where
  "checked_or_staged P active registration pending =
     andThen (refreshPushRegistrationCheckin P registration pending True) (\<lambda>(registration', e).
     if (case e of None \<Rightarrow> False | Some err \<Rightarrow> p_unauthorized P err)
     then staged P active True (None, None)
     else ret (Some \<lparr>pp_registration = registration', pp_pending = pending\<rparr>, e))"

definition usable_active :: "push_registration option \<Rightarrow> prepared_registration option" where
  "usable_active active =
     (if usable active then Some \<lparr>pp_registration = the active, pp_pending = False\<rparr> else None)"

definition prepare_pending ::
  "push_env \<Rightarrow> push_registration option \<Rightarrow> push_registration \<Rightarrow> bool \<Rightarrow> prepared push" where
  "prepare_pending P active pending validateExisting =
     attempt (finishPendingPushRegistration P pending) (\<lambda>r.
     case r of
       Inl e \<Rightarrow> ret (usable_active active, Some e)
     | Inr finished \<Rightarrow>
         if validateExisting then checked_or_staged P active finished True
         else ret (Some \<lparr>pp_registration = finished, pp_pending = True\<rparr>, None))"

definition prepare_active ::
  "push_env \<Rightarrow> push_registration option \<Rightarrow> bool \<Rightarrow> bool \<Rightarrow> prepared push" where
  "prepare_active P active forceNew validateExisting =
     andThen (if \<not> forceNew \<and> usable active
         then andThen (tumblrPushReceiverRegistrationDue P (the active)) (\<lambda>due. ret (\<not> due)) else ret False) (\<lambda>current.
     if current then
       (if validateExisting then checked_or_staged P active (the active) False
        else ret (usable_active active, None))
     else staged P active forceNew (if forceNew then None else usable_active active, None))"

definition prepare_body :: "push_env \<Rightarrow> bool \<Rightarrow> bool \<Rightarrow> prepared push" where
  "prepare_body P forceNew validateExisting =
     pseq (connector_op (inbound_logged_in (p_inbound P)))
     (pseq (ensurePushKeyMaterial P)
     (andThen (validatedLoginMetadata P) (\<lambda>meta.
      case um_PushKeys meta of
        None \<Rightarrow> raise keys_missing
      | Some k \<Rightarrow>
          if \<not> forceNew \<and> pk_Pending k \<noteq> None
          then prepare_pending P (pk_Active k) (the (pk_Pending k)) validateExisting
          else prepare_active P (pk_Active k) forceNew validateExisting)))"

definition preparePushRegistration :: "push_env \<Rightarrow> bool \<Rightarrow> bool \<Rightarrow> prepared push" where
  "preparePushRegistration P forceNew validateExisting =
     attempt (prepare_body P forceNew validateExisting) (\<lambda>r.
     case r of Inl e \<Rightarrow> ret (None, Some e) | Inr x \<Rightarrow> ret x)"

section \<open>Promotion and retirement\<close>

definition promote_keys :: "push_registration \<Rightarrow> push_keys \<Rightarrow> push_keys" where
  "promote_keys registration k =
     k\<lparr>pk_Retiring :=
         (if pk_Active k \<noteq> None \<and> \<not> samePushRegistration (pk_Active k) (Some registration)
          then appendUniquePushRegistration (pk_Retiring k) (pk_Active k) else pk_Retiring k),
       pk_Active := pk_Pending k, pk_Pending := None\<rparr>"

definition demote_keys :: "push_registration \<Rightarrow> push_keys \<Rightarrow> push_keys option \<Rightarrow> push_keys option" where
  "demote_keys registration before k =
     map_option (\<lambda>x. if samePushRegistration (pk_Active x) (Some registration) \<and> pk_Pending x = None
       then x\<lparr>pk_Active := pk_Active before, pk_Pending := Some registration,
         pk_Retiring := clonePushRegistrations (pk_Retiring before)\<rparr> else x) k"

definition promotePendingPushRegistration :: "push_env \<Rightarrow> push_registration \<Rightarrow> unit push" where
  "promotePendingPushRegistration P registration =
     pseq (validated_locked P)
     (andThen the_keys (\<lambda>k.
      if \<not> samePushRegistration (Option.bind k pk_Pending) (Some registration)
      then pfail ''connected Tumblr push receiver no longer matches the pending registration''
      else pseq (put_keys (map_option (promote_keys registration) k))
        (push_wrapping ''failed to promote Tumblr push receiver metadata''
          (saved_or_undone P (demote_keys registration (the k))))))"

definition forget_retiring :: "push_registration option \<Rightarrow> push_keys option \<Rightarrow> push_keys option" where
  "forget_retiring r k = map_option (\<lambda>x. x\<lparr>pk_Retiring := removePushRegistration (pk_Retiring x) r\<rparr>) k"

text \<open>One registration after the other, until one cannot be unregistered or saved.\<close>

fun retire_all ::
  "push_env \<Rightarrow> push_registration option \<Rightarrow> push_registration option list \<Rightarrow> unit push" where
  "retire_all P active [] = ret ()"
| "retire_all P active (r # rs) =
     (if r = None \<or> samePushRegistration r active then retire_all P active rs
      else pseq (unregisterTumblrPushEndpoint P (pr_Token (the r)))
        (pseq (validated_locked P)
        (andThen the_keys (\<lambda>k.
         pseq (put_keys (forget_retiring r k))
         (pseq (saveUserLogin P) (retire_all P active rs))))))"

definition cleanupRetiringPushRegistrations :: "push_env \<Rightarrow> unit push" where
  "cleanupRetiringPushRegistrations P =
     andThen (validatedLoginMetadata P) (\<lambda>meta.
     case um_PushKeys meta of
       None \<Rightarrow> ret ()
     | Some k \<Rightarrow> retire_all P (pk_Active k) (pk_Retiring k))"

text \<open>At logout everything that may be registered is unregistered.\<close>

definition registered_somewhere :: "push_keys \<Rightarrow> push_registration option list" where
  "registered_somewhere k =
     fold (\<lambda>r rs. appendUniquePushRegistration rs r)
       ([pk_Active k] @ (case pk_Pending k of
           Some p \<Rightarrow> if 0 < pr_FCMRegisteredTS p then [Some p] else []
         | None \<Rightarrow> []) @ pk_Retiring k) []"

definition forget_registration :: "push_registration option \<Rightarrow> push_keys option \<Rightarrow> push_keys option" where
  "forget_registration r k =
     map_option (\<lambda>x. x\<lparr>pk_Active := (if samePushRegistration (pk_Active x) r then None else pk_Active x),
       pk_Pending := (if samePushRegistration (pk_Pending x) r then None else pk_Pending x),
       pk_Retiring := removePushRegistration (pk_Retiring x) r\<rparr>) k"

fun unregister_all :: "push_env \<Rightarrow> push_registration option list \<Rightarrow> unit push" where
  "unregister_all P [] = ret ()"
| "unregister_all P (r # rs) =
     attempt (unregisterTumblrPushEndpoint P (pr_Token (the r))) (\<lambda>u.
     if isl u then unregister_all P rs
     else attempt (validated_locked P) (\<lambda>v.
       if isl v then ret ()
       else andThen the_keys (\<lambda>k.
         pseq (put_keys (forget_registration r k))
         (attempt (saveUserLogin P) (\<lambda>_. unregister_all P rs)))))"

definition unregisterTumblrWebPush :: "push_env \<Rightarrow> unit push" where
  "unregisterTumblrWebPush P =
     attempt (validatedLoginMetadata P) (\<lambda>m.
     case m of
       Inl _ \<Rightarrow> ret ()
     | Inr meta \<Rightarrow>
         (case um_PushKeys meta of
            None \<Rightarrow> ret ()
          | Some k \<Rightarrow> unregister_all P (registered_somewhere k)))"

section \<open>Messages the receiver has seen\<close>

definition last_ids :: "string list \<Rightarrow> string list" where
  "last_ids ids = drop (length ids - maxStoredTumblrPushPersistentIDs) ids"

definition set_ids :: "string \<Rightarrow> (string list \<Rightarrow> string list) \<Rightarrow> push_keys \<Rightarrow> push_keys" where
  "set_ids token f k =
     (case pushRegistrationByToken k token of
        None \<Rightarrow> k
      | Some s \<Rightarrow> change_slot s (\<lambda>r. r\<lparr>pr_PersistentIDs := f (pr_PersistentIDs r)\<rparr>) k)"

definition stored_ids :: "push_keys \<Rightarrow> string \<Rightarrow> string list option" where
  "stored_ids k token =
     (case pushRegistrationByToken k token of
        None \<Rightarrow> None
      | Some s \<Rightarrow> map_option pr_PersistentIDs (at_slot s k))"

definition savePushPersistentID :: "push_env \<Rightarrow> string \<Rightarrow> string \<Rightarrow> unit push" where
  "savePushPersistentID P token id0 =
     (let persistentID = trim_space id0 in
      if persistentID = [] then ret ()
      else pseq (validated_locked P)
        (andThen the_keys (\<lambda>k.
         case Option.bind k (\<lambda>x. stored_ids x token) of
           None \<Rightarrow> ret ()
         | Some previous \<Rightarrow>
             if persistentID \<in> set previous then ret ()
             else pseq (put_keys (map_option (set_ids token (\<lambda>ids. last_ids (ids @ [persistentID]))) k))
               (saved_or_undone P (map_option (set_ids token (\<lambda>_. previous)))))))"

definition clearPushPersistentIDs :: "push_env \<Rightarrow> string \<Rightarrow> unit push" where
  "clearPushPersistentIDs P token =
     pseq (validated_locked P)
     (andThen the_keys (\<lambda>k.
      case Option.bind k (\<lambda>x. stored_ids x token) of
        None \<Rightarrow> ret ()
      | Some previous \<Rightarrow>
          if previous = [] then ret ()
          else pseq (put_keys (map_option (set_ids token (\<lambda>_. [])) k))
            (saved_or_undone P (map_option (set_ids token (\<lambda>ids. if ids = [] then previous else ids))))))"

end
