(* ===== verification/PushReceiver.thy ===== *)
theory PushReceiver
  imports PushRegistrations
begin

text \<open>
  What arrives through the push receiver (pkg/connector/push.go): the payload of a message and the
  conversation it names, the receiver's loop over the events of its connection, the supervisor that
  prepares registrations for it, and the entry points of the framework.

  The events come from the receiver of internal/pushreceiver; the codecs (JSON, RFC 8291) are
  parameters. A decoded JSON object is the list of its entries in the order in which Go happens to
  iterate over the map, with distinct names.
\<close>

section \<open>Payloads\<close>

datatype json =
    JString string
  | JNumber string
  | JObject "(string \<times> json) list"
  | JArray "json list"
  | JOther

record push_envelope =
  pe_RegID :: string
  pe_Data :: string
  pe_CryptoKey :: string
  pe_Encryption :: string
  pe_ContentEncoding :: string

record push_codec =
  c_envelope :: "string \<Rightarrow> push_envelope option"
  c_marshal :: "push_envelope \<Rightarrow> string"
  c_json_string :: "string \<Rightarrow> go_error + string"
  c_json :: "string \<Rightarrow> go_error + json"
  c_private_key :: "string \<Rightarrow> go_error option"
  c_decrypt :: "string \<Rightarrow> string \<Rightarrow> string \<Rightarrow> string \<Rightarrow> string \<Rightarrow> string \<Rightarrow> go_error + string"

record conversation_push =
  cv_ConversationID :: string
  cv_FromBlogName :: string
  cv_ToBlogName :: string

definition empty_push :: conversation_push where
  "empty_push = \<lparr>cv_ConversationID = [], cv_FromBlogName = [], cv_ToBlogName = []\<rparr>"

text \<open>The errors \<open>errUndecryptablePush\<close> and \<open>errPushWithoutConversation\<close>, and all others.\<close>

datatype push_failure = Undecryptable go_error | WithoutConversation | OtherFailure go_error

definition padding :: "char \<Rightarrow> bool" where
  "padding c \<longleftrightarrow> (of_char c :: nat) \<le> 2"

lemma trim_with_le: "length (trim_with ps s) \<le> length s"
proof (induction ps s rule: trim_with.induct)
  case (1 ps s)
  then show ?case
    by (subst trim_with.simps) (fastforce split: option.split dest: strip_any_length)
qed

lemma trim_space_le: "length (trim_space s) \<le> length s"
  unfolding trim_space_def using trim_with_le le_trans by (metis length_rev)

function strip_padding :: "string \<Rightarrow> string" where
  "strip_padding data =
     (if data \<noteq> [] \<and> padding (last data) then strip_padding (trim_space (butlast data)) else data)"
  by pat_completeness auto
termination
proof (relation "measure length", simp, clarsimp)
  fix data :: string
  assume "data \<noteq> []"
  then have "length (butlast data) < length data" by simp
  then show "length (trim_space (butlast data)) < length data" using trim_space_le [of "butlast data"] by linarith
qed

declare strip_padding.simps [simp del]

definition normalizePushJSON :: "string \<Rightarrow> string" where
  "normalizePushJSON data = strip_padding (trim_space data)"

definition webPushDataBytes :: "push_codec \<Rightarrow> string \<Rightarrow> go_error + string" where
  "webPushDataBytes C data0 =
     (let data = trim_space data0 in
      if data = [] \<or> data = ''null'' then Inl (Plain ''tumblr web push data is empty'')
      else if hd data = CHR 0x22 then
        (case c_json_string C data of
           Inl e \<Rightarrow> Inl (Wrapped ''failed to parse Tumblr web push data string'' [e])
         | Inr encoded \<Rightarrow>
             (case DecodeString StdEncoding encoded of Some bytes \<Rightarrow> Inr bytes
              | None \<Rightarrow> (case DecodeString RawStdEncoding encoded of Some bytes \<Rightarrow> Inr bytes
              | None \<Rightarrow> (case DecodeString RawURLEncoding encoded of Some bytes \<Rightarrow> Inr bytes
              | None \<Rightarrow> Inr encoded))))
      else Inr data)"

text \<open>The key material a payload is decrypted with.\<close>

definition pushPrivateKey :: "push_codec \<Rightarrow> user_login_metadata \<Rightarrow> go_error + string" where
  "pushPrivateKey C m =
     (case um_PushKeys m of
        None \<Rightarrow> Inl (Plain ''tumblr web push private key is missing'')
      | Some k \<Rightarrow>
          if pk_Private k = [] then Inl (Plain ''tumblr web push private key is missing'')
          else case c_private_key C (pk_Private k) of
              Some e \<Rightarrow> Inl (Wrapped ''tumblr web push private key is invalid'' [e])
            | None \<Rightarrow> Inr (pk_Private k))"

definition decrypt_envelope :: "push_codec \<Rightarrow> push_envelope \<Rightarrow> string \<Rightarrow> user_login_metadata \<Rightarrow> push_failure + string" where
  "decrypt_envelope C envelope payload m =
     (case pushPrivateKey C m of
        Inl e \<Rightarrow> Inl (OtherFailure e)
      | Inr private \<Rightarrow>
          if (case um_PushKeys m of None \<Rightarrow> True | Some k \<Rightarrow> length (pk_Auth k) \<noteq> 16)
          then Inl (OtherFailure (Plain ''tumblr web push auth secret is missing or invalid''))
          else let encoding0 = trim_space (pe_ContentEncoding envelope);
                   encoding = (if encoding0 = [] then ''aes128gcm'' else encoding0)
            in case c_decrypt C payload encoding (pe_Encryption envelope) (pe_CryptoKey envelope)
                 (pk_Auth (the (um_PushKeys m))) private of
                Inl e \<Rightarrow> Inl (Undecryptable e)
              | Inr plain \<Rightarrow> Inr (normalizePushJSON plain))"

definition decodeWebPushEnvelope ::
  "push_env \<Rightarrow> push_codec \<Rightarrow> user_login_metadata \<Rightarrow> push_envelope \<Rightarrow> push_failure + string" where
  "decodeWebPushEnvelope P C live envelope =
     (case webPushDataBytes C (pe_Data envelope) of
        Inl e \<Rightarrow> Inl (OtherFailure e)
      | Inr payload \<Rightarrow>
          if blank (pe_ContentEncoding envelope) \<and> blank (pe_Encryption envelope) \<and> blank (pe_CryptoKey envelope)
          then Inr (normalizePushJSON payload)
          else case validateUserLoginMetadata (p_http P) live of
              Inl e \<Rightarrow> Inl (OtherFailure e)
            | Inr m \<Rightarrow> decrypt_envelope C envelope payload m)"

definition decodePushPayload ::
  "push_env \<Rightarrow> push_codec \<Rightarrow> user_login_metadata \<Rightarrow> string \<Rightarrow> push_failure + string" where
  "decodePushPayload P C live data0 =
     (let data = normalizePushJSON data0 in
      if data = [] then Inl (OtherFailure (Plain ''tumblr push payload is empty''))
      else case c_envelope C data of
          None \<Rightarrow> Inr data
        | Some envelope \<Rightarrow> if pe_Data envelope = [] then Inr data else decodeWebPushEnvelope P C live envelope)"

section \<open>The conversation a payload names\<close>

definition stringifyConversationID :: "json \<Rightarrow> string" where
  "stringifyConversationID v = (case v of JString s \<Rightarrow> trim_space s | JNumber n \<Rightarrow> trim_space n | _ \<Rightarrow> [])"

text \<open>\<open>typed[name]\<close>: a missing entry is the nil value.\<close>

definition field_of :: "(string \<times> json) list \<Rightarrow> string \<Rightarrow> json" where
  "field_of entries name = (case map_of entries name of None \<Rightarrow> JOther | Some v \<Rightarrow> v)"

definition normalizePushBlogName :: "http_env \<Rightarrow> json \<Rightarrow> string" where
  "normalizePushBlogName H v = NormalizeBlogName H (case v of JString s \<Rightarrow> s | _ \<Rightarrow> [])"

definition view_action :: "http_env \<Rightarrow> (string \<times> json) list \<Rightarrow> conversation_push option" where
  "view_action H entries =
     (case field_of entries ''type'' of
        JString actionType \<Rightarrow>
          if \<not> equal_fold (trim_space actionType) ''VIEW_CONVERSATION'' then None
          else (case field_of entries ''params'' of
              JObject params \<Rightarrow>
                let conversationID = stringifyConversationID (field_of params ''conversation_id'') in
                if conversationID = [] then None
                else Some \<lparr>cv_ConversationID = conversationID,
                  cv_FromBlogName = normalizePushBlogName H (field_of params ''from_tumblelog_name''),
                  cv_ToBlogName = normalizePushBlogName H (field_of params ''to_tumblelog_name'')\<rparr>
            | _ \<Rightarrow> None)
      | _ \<Rightarrow> None)"

fun findViewConversationPush :: "http_env \<Rightarrow> json \<Rightarrow> conversation_push option"
  and find_view_entries :: "http_env \<Rightarrow> (string \<times> json) list \<Rightarrow> conversation_push option"
  and find_view_items :: "http_env \<Rightarrow> json list \<Rightarrow> conversation_push option" where
  "findViewConversationPush H (JObject entries) =
     (case view_action H entries of Some c \<Rightarrow> Some c | None \<Rightarrow> find_view_entries H entries)"
| "findViewConversationPush H (JArray items) = find_view_items H items"
| "findViewConversationPush H _ = None"
| "find_view_entries H [] = None"
| "find_view_entries H ((name, v) # entries) =
     (case findViewConversationPush H v of Some c \<Rightarrow> Some c | None \<Rightarrow> find_view_entries H entries)"
| "find_view_items H [] = None"
| "find_view_items H (v # items) =
     (case findViewConversationPush H v of Some c \<Rightarrow> Some c | None \<Rightarrow> find_view_items H items)"

definition isConversationIDKey :: "string \<Rightarrow> bool" where
  "isConversationIDKey key \<longleftrightarrow>
     to_lower (trim_space key) \<in> {''conversation_id'', ''conversationid'', ''conversation''}"

fun own_conversation_id :: "(string \<times> json) list \<Rightarrow> string" where
  "own_conversation_id [] = []"
| "own_conversation_id ((name, v) # entries) =
     (if isConversationIDKey name \<and> stringifyConversationID v \<noteq> [] then stringifyConversationID v
      else own_conversation_id entries)"

fun findConversationID :: "json \<Rightarrow> string"
  and find_id_entries :: "(string \<times> json) list \<Rightarrow> string"
  and find_id_items :: "json list \<Rightarrow> string" where
  "findConversationID (JObject entries) =
     (if own_conversation_id entries \<noteq> [] then own_conversation_id entries else find_id_entries entries)"
| "findConversationID (JArray items) = find_id_items items"
| "findConversationID _ = []"
| "find_id_entries [] = []"
| "find_id_entries ((name, v) # entries) =
     (if findConversationID v \<noteq> [] then findConversationID v else find_id_entries entries)"
| "find_id_items [] = []"
| "find_id_items (v # items) =
     (if findConversationID v \<noteq> [] then findConversationID v else find_id_items items)"

definition decodePushJSON :: "push_codec \<Rightarrow> string \<Rightarrow> go_error + json" where
  "decodePushJSON C data =
     (case c_json C (normalizePushJSON data) of
        Inl e \<Rightarrow> Inl (Wrapped ''failed to parse Tumblr push JSON'' [e])
      | Inr v \<Rightarrow> Inr v)"

definition named_conversation :: "http_env \<Rightarrow> json \<Rightarrow> conversation_push" where
  "named_conversation H v =
     (case findViewConversationPush H v of
        Some c \<Rightarrow> c
      | None \<Rightarrow> empty_push\<lparr>cv_ConversationID := findConversationID v\<rparr>)"

definition conversationFromPushPayload ::
  "push_env \<Rightarrow> push_codec \<Rightarrow> user_login_metadata \<Rightarrow> string \<Rightarrow> push_failure + conversation_push" where
  "conversationFromPushPayload P C live data =
     (case decodePushPayload P C live data of
        Inl e \<Rightarrow> Inl e
      | Inr payload \<Rightarrow>
          (case decodePushJSON C payload of
             Inl e \<Rightarrow> Inl (OtherFailure e)
           | Inr v \<Rightarrow>
               let c = named_conversation (p_http P) v in
               if validRemoteID (cv_ConversationID c) then Inr c else Inl WithoutConversation))"

text \<open>Whether a push is routed to the selected blog; without blog names it is.\<close>

definition routed_here :: "push_env \<Rightarrow> conversation_push \<Rightarrow> bool push" where
  "routed_here P c =
     (if cv_FromBlogName c = [] \<and> cv_ToBlogName c = [] then ret True
      else andThen (validatedLoginMetadata P) (\<lambda>meta.
        let selected = NormalizeBlogName (p_http P) (um_SelectedBlogName meta) in
        ret (selected = cv_FromBlogName c \<or> selected = cv_ToBlogName c)))"

definition the_metadata :: "user_login_metadata push" where
  "the_metadata p = (Inr (pw_meta p), p)"

definition handleWebPushPayload :: "push_env \<Rightarrow> push_codec \<Rightarrow> string \<Rightarrow> unit push" where
  "handleWebPushPayload P C data =
     andThen the_metadata (\<lambda>live.
     case conversationFromPushPayload P C live data of
       Inl WithoutConversation \<Rightarrow> ret ()
     | Inl (Undecryptable _) \<Rightarrow> ret ()
     | Inl (OtherFailure e) \<Rightarrow> raise e
     | Inr c \<Rightarrow>
         andThen (routed_here P c) (\<lambda>here.
         if \<not> here then ret ()
         else connector_op (enqueueConversationSync (p_env P) (cv_ConversationID c))))"

section \<open>Messages of the receiver\<close>

record push_message =
  ms_PersistentID :: string
  ms_AppID :: string
  ms_RawData :: string
  ms_AppData :: "(string \<times> string) list"

fun app_data_value :: "(string \<times> string) list \<Rightarrow> string \<Rightarrow> string" where
  "app_data_value [] key = []"
| "app_data_value ((k, v) # items) key =
     (if equal_fold (trim_space k) key then v else app_data_value items key)"

definition pushAppDataValue :: "push_message \<Rightarrow> string \<Rightarrow> string" where
  "pushAppDataValue m key = app_data_value (ms_AppData m) key"

text \<open>\<open>json.Marshal\<close> of a base64 text, which needs no escapes.\<close>

definition quoted :: "string \<Rightarrow> string" where
  "quoted s = [CHR 0x22] @ s @ [CHR 0x22]"

definition message_envelope :: "push_message \<Rightarrow> push_envelope" where
  "message_envelope m =
     \<lparr>pe_RegID = ms_AppID m, pe_Data = quoted (EncodeToString StdEncoding (ms_RawData m)),
      pe_CryptoKey = pushAppDataValue m ''crypto-key'', pe_Encryption = pushAppDataValue m ''encryption'',
      pe_ContentEncoding = pushAppDataValue m ''content-encoding''\<rparr>"

definition handlePushReceiverMessage :: "push_env \<Rightarrow> push_codec \<Rightarrow> push_message \<Rightarrow> unit push" where
  "handlePushReceiverMessage P C m =
     (if blank (ms_AppID m) \<or> ms_RawData m = [] then ret ()
      else handleWebPushPayload P C (c_marshal C (message_envelope m)))"

text \<open>What the loop does with a message before it completes it.\<close>

definition accept_message :: "push_env \<Rightarrow> push_codec \<Rightarrow> string \<Rightarrow> push_message \<Rightarrow> unit push" where
  "accept_message P C token m =
     pseq (handlePushReceiverMessage P C m) (savePushPersistentID P token (ms_PersistentID m))"

definition ConnectBackground :: "push_env \<Rightarrow> push_codec \<Rightarrow> nat \<Rightarrow> string option \<Rightarrow> unit push" where
  "ConnectBackground P C n rawData =
     andThen (connector_op (foreign (e_begin_owned (p_env P)))) (\<lambda>owned.
     if \<not> owned then raise (Sentinel NotLoggedIn)
     else case rawData of
         None \<Rightarrow> pfail ''tumblr push payload is empty''
       | Some data \<Rightarrow>
           if data = [] then pfail ''tumblr push payload is empty''
           else pseq (handleWebPushPayload P C data)
             (connector_op (processDueConversationJobs n (p_env P) ((p_inbound P)\<lparr>i_background := True\<rparr>))))"

section \<open>The connection state\<close>

definition sendBridgeState :: "push_env \<Rightarrow> bridge_state \<Rightarrow> unit push" where
  "sendBridgeState P state =
     andThen (connector_op (foreign (e_begin_owned (p_env P)))) (\<lambda>owned.
     if owned then traced (StateSent state) else ret ())"

definition sendGenerationState :: "push_env \<Rightarrow> bridge_state \<Rightarrow> unit push" where
  "sendGenerationState P state =
     andThen (connector_op (foreign (p_current P))) (\<lambda>current.
     if current then sendBridgeState P state else ret ())"

definition live_state :: "push_world \<Rightarrow> bridge_state" where
  "live_state p =
     (if pw_forbidden p then Transient ''tumblr-requests-forbidden''
      else if pw_unavailable p then Transient ''tumblr-sync-failed''
      else case pw_push_down p of Some st \<Rightarrow> st | None \<Rightarrow> Connected)"

definition sendLiveConnectionState :: "push_env \<Rightarrow> unit push" where
  "sendLiveConnectionState P p = sendGenerationState P (live_state p) p"

text \<open>Nothing is reported for a client that was replaced or signed out.\<close>

definition reporting :: "push_env \<Rightarrow> unit push \<Rightarrow> unit push" where
  "reporting P m =
     andThen (connector_op (foreign (p_current P))) (\<lambda>current.
     if \<not> current then ret ()
     else andThen (connector_op (foreign (p_logged_flag P))) (\<lambda>yes. if yes then m else ret ()))"

definition set_forbidden :: "bool \<Rightarrow> unit push" where
  "set_forbidden b p = (Inr (), p\<lparr>pw_forbidden := b\<rparr>)"

definition set_unavailable :: "bool \<Rightarrow> unit push" where
  "set_unavailable b p = (Inr (), p\<lparr>pw_unavailable := b\<rparr>)"

definition set_push_down :: "bridge_state option \<Rightarrow> unit push" where
  "set_push_down st p = (Inr (), p\<lparr>pw_push_down := st\<rparr>)"

definition the_world :: "push_world push" where
  "the_world p = (Inr p, p)"

definition setRemoteForbidden :: "push_env \<Rightarrow> bool \<Rightarrow> unit push" where
  "setRemoteForbidden P forbidden =
     reporting P (andThen the_world (\<lambda>p.
       if pw_forbidden p = forbidden then ret ()
       else pseq (set_forbidden forbidden) (sendLiveConnectionState P)))"

definition setRemoteUnavailable :: "push_env \<Rightarrow> bool \<Rightarrow> unit push" where
  "setRemoteUnavailable P unavailable =
     reporting P (andThen the_world (\<lambda>p.
       if pw_unavailable p = unavailable then ret ()
       else pseq (set_unavailable unavailable) (sendLiveConnectionState P)))"

definition markPushConnected :: "push_env \<Rightarrow> unit push" where
  "markPushConnected P =
     reporting P (pseq (set_push_down None) (pseq (sendLiveConnectionState P) (traced InboundStarted)))"

definition markPushTransient :: "push_env \<Rightarrow> string \<Rightarrow> unit push" where
  "markPushTransient P code =
     reporting P (andThen the_world (\<lambda>p.
       if pw_push_down p \<noteq> None then ret ()
       else pseq (set_push_down (Some (Transient code))) (sendLiveConnectionState P)))"

definition startRetiringRegistrationCleanup :: "push_env \<Rightarrow> unit push" where
  "startRetiringRegistrationCleanup P =
     andThen (connector_op (foreign (p_current P))) (\<lambda>current.
     if current then traced CleanupStarted else ret ())"

section \<open>The receiver\<close>

text \<open>What the loop selects on: the end of its generation, the maintenance timer, and the events of the
  connection.\<close>

datatype receiver_event =
    GenerationEnded
  | MaintenanceTick
  | EventsClosed
  | ReceiverConnected
  | ReceiverDisconnected
  | StreamAcknowledged
  | MessageReceived push_message
  | ReceiverUnauthorized
  | HeartbeatFailed
  | HeartbeatSeen
  | ReceiverRetry duration

datatype receiver_outcome = ReceiverStopped | RetryReceiver duration | RotateReceiver

text \<open>Either the loop has returned, or it goes on with its registration, pending or not.\<close>

type_synonym receiver = "receiver_outcome + push_registration \<times> bool"

definition ignoring :: "unit push \<Rightarrow> unit push" where
  "ignoring m = attempt m (\<lambda>_. ret ())"

definition on_connected :: "push_env \<Rightarrow> push_registration \<Rightarrow> bool \<Rightarrow> receiver push" where
  "on_connected P registration pending =
     attempt (if pending then promotePendingPushRegistration P registration else ret ()) (\<lambda>r.
     case r of
       Inl e \<Rightarrow> pseq (markPushTransient P ''tumblr-push-promotion-failed'') (ret (Inl (RetryReceiver 0)))
     | Inr _ \<Rightarrow>
         pseq (markPushConnected P)
         (pseq (ignoring (clearPushPersistentIDs P (pr_Token registration)))
         (pseq (startRetiringRegistrationCleanup P) (ret (Inr (registration, False))))))"

definition on_maintenance :: "push_env \<Rightarrow> push_registration \<Rightarrow> bool \<Rightarrow> receiver push" where
  "on_maintenance P registration pending =
     andThen (tumblrPushReceiverRegistrationDue P registration) (\<lambda>due.
     if due then pseq (markPushTransient P ''tumblr-push-registration-renewing'') (ret (Inl RotateReceiver))
     else andThen (refreshPushRegistrationCheckin P registration pending False) (\<lambda>(registration', e).
       if (case e of None \<Rightarrow> False | Some err \<Rightarrow> p_unauthorized P err)
       then pseq (markPushTransient P ''tumblr-push-receiver-unauthorized'') (ret (Inl RotateReceiver))
       else ret (Inr (registration', pending))))"

definition on_message :: "push_env \<Rightarrow> push_codec \<Rightarrow> push_registration \<Rightarrow> bool \<Rightarrow> push_message \<Rightarrow> receiver push" where
  "on_message P C registration pending m =
     attempt (accept_message P C (pr_Token registration) m) (\<lambda>r.
     pseq (traced (MessageCompleted (ms_PersistentID m) (\<not> isl r))) (ret (Inr (registration, pending))))"

definition receive :: "push_env \<Rightarrow> push_codec \<Rightarrow> receiver_event \<Rightarrow> push_registration \<Rightarrow> bool \<Rightarrow> receiver push" where
  "receive P C ev registration pending =
     (let going = ret (Inr (registration, pending)) in
      case ev of
        GenerationEnded \<Rightarrow> ret (Inl ReceiverStopped)
      | MaintenanceTick \<Rightarrow> on_maintenance P registration pending
      | EventsClosed \<Rightarrow>
          andThen (connector_op ctx_err) (\<lambda>e.
          if e \<noteq> None then ret (Inl ReceiverStopped)
          else pseq (markPushTransient P ''tumblr-push-receiver-disconnected'') (ret (Inl (RetryReceiver 0))))
      | ReceiverConnected \<Rightarrow> on_connected P registration pending
      | ReceiverDisconnected \<Rightarrow> pseq (markPushTransient P ''tumblr-push-receiver-disconnected'') going
      | StreamAcknowledged \<Rightarrow> pseq (ignoring (clearPushPersistentIDs P (pr_Token registration))) going
      | MessageReceived m \<Rightarrow> on_message P C registration pending m
      | ReceiverUnauthorized \<Rightarrow>
          pseq (markPushTransient P ''tumblr-push-receiver-unauthorized'') (ret (Inl RotateReceiver))
      | HeartbeatFailed \<Rightarrow> pseq (markPushTransient P ''tumblr-push-receiver-heartbeat'') going
      | HeartbeatSeen \<Rightarrow> going
      | ReceiverRetry d \<Rightarrow>
          pseq (markPushTransient P ''tumblr-push-receiver-retry'') (ret (Inl (RetryReceiver d))))"

fun receive_all :: "push_env \<Rightarrow> push_codec \<Rightarrow> receiver_event list \<Rightarrow> push_registration \<Rightarrow> bool \<Rightarrow> receiver push" where
  "receive_all P C [] registration pending = ret (Inr (registration, pending))"
| "receive_all P C (ev # evs) registration pending =
     andThen (receive P C ev registration pending) (\<lambda>st.
     case st of Inl out \<Rightarrow> ret (Inl out) | Inr (registration', pending') \<Rightarrow> receive_all P C evs registration' pending')"

definition runPushReceiver :: "push_env \<Rightarrow> push_codec \<Rightarrow> receiver_event list \<Rightarrow> prepared_registration \<Rightarrow> receiver push" where
  "runPushReceiver P C evs prepared =
     (case credentials (pp_registration prepared) of
        Inr (Some _) \<Rightarrow> receive_all P C evs (pp_registration prepared) (pp_pending prepared)
      | _ \<Rightarrow> pseq (markPushTransient P ''tumblr-push-receiver-invalid'') (ret (Inl RotateReceiver)))"

section \<open>The supervisor\<close>

record supervisor =
  sv_forceNew :: bool
  sv_validateExisting :: bool
  sv_retryDelay :: duration

definition initial_supervisor :: supervisor where
  "initial_supervisor = \<lparr>sv_forceNew = False, sv_validateExisting = True, sv_retryDelay = 2 * second\<rparr>"

text \<open>The state of the loop: over, in its next round, or in a round whose receiver still listens.\<close>

datatype supervision = SupervisorDone | NextRound supervisor | Listening supervisor push_registration bool

definition waitForPushRetry :: "duration \<Rightarrow> bool push" where
  "waitForPushRetry d =
     pseq (traced (Waited (if d \<le> 0 then second else d)))
     (attempt (connector_op pause) (\<lambda>r. ret (\<not> isl r)))"

definition wait_and_retry :: "supervisor \<Rightarrow> supervision push" where
  "wait_and_retry sv =
     andThen (waitForPushRetry (sv_retryDelay sv)) (\<lambda>on.
     ret (if on then NextRound (sv\<lparr>sv_retryDelay := min (sv_retryDelay sv * 2) minute\<rparr>) else SupervisorDone))"

definition after_receiver :: "supervisor \<Rightarrow> receiver \<Rightarrow> supervision push" where
  "after_receiver sv st =
     (case st of
        Inr (registration, pending) \<Rightarrow> ret (Listening sv registration pending)
      | Inl ReceiverStopped \<Rightarrow> ret SupervisorDone
      | Inl RotateReceiver \<Rightarrow>
          ret (NextRound (sv\<lparr>sv_forceNew := True, sv_validateExisting := False, sv_retryDelay := 2 * second\<rparr>))
      | Inl (RetryReceiver d) \<Rightarrow>
          wait_and_retry (sv\<lparr>sv_retryDelay := (if sv_retryDelay sv < d then d else sv_retryDelay sv)\<rparr>))"

definition failGeneration :: "push_env \<Rightarrow> go_error \<Rightarrow> unit push" where
  "failGeneration P e =
     andThen (connector_op (foreign (p_current P))) (\<lambda>current.
     if current then pseq (connector_op (emit (ConnectFailed e))) (sendBridgeState P (BadCredentials e)) else ret ())"

definition supervise_prepared ::
  "push_env \<Rightarrow> push_codec \<Rightarrow> receiver_event list \<Rightarrow> supervisor \<Rightarrow> prepared \<Rightarrow> supervision push" where
  "supervise_prepared P C evs sv0 result =
     (let sv = (if fst result \<noteq> None then sv0\<lparr>sv_forceNew := False, sv_validateExisting := False\<rparr> else sv0) in
      if (case snd result of None \<Rightarrow> False | Some e \<Rightarrow> IsAuthError e)
      then pseq (failGeneration P (the (snd result))) (ret SupervisorDone)
      else case fst result of
          None \<Rightarrow> pseq (markPushTransient P ''tumblr-push-setup-failed'') (wait_and_retry sv)
        | Some prepared \<Rightarrow> andThen (runPushReceiver P C evs prepared) (after_receiver sv))"

text \<open>One round of the loop; \<open>evs\<close> is what its receiver meets.\<close>

definition pushSupervisor_round ::
  "push_env \<Rightarrow> push_codec \<Rightarrow> receiver_event list \<Rightarrow> supervisor \<Rightarrow> supervision push" where
  "pushSupervisor_round P C evs sv =
     andThen (connector_op ctx_err) (\<lambda>e.
     if e \<noteq> None then ret SupervisorDone
     else andThen (connector_op (foreign (p_current P))) (\<lambda>current.
       if \<not> current then ret SupervisorDone
       else andThen (preparePushRegistration P (sv_forceNew sv) (sv_validateExisting sv)) (supervise_prepared P C evs sv)))"

text \<open>The loop, for as many rounds as there are lists of events.\<close>

fun pushSupervisor :: "push_env \<Rightarrow> push_codec \<Rightarrow> receiver_event list list \<Rightarrow> supervisor \<Rightarrow> supervision push" where
  "pushSupervisor P C [] sv = ret (NextRound sv)"
| "pushSupervisor P C (evs # rounds) sv =
     andThen (pushSupervisor_round P C evs sv) (\<lambda>st.
     case st of NextRound sv' \<Rightarrow> pushSupervisor P C rounds sv' | _ \<Rightarrow> ret st)"

definition LogoutRemote :: "push_env \<Rightarrow> unit push" where
  "LogoutRemote P =
     andThen (connector_op (foreign (e_begin_owned (p_env P)))) (\<lambda>owned.
     if \<not> owned then ret () else unregisterTumblrWebPush P)"

end
