(* ===== verification/PushMoves.thy ===== *)
theory PushMoves
  imports PushReceiver
begin

text \<open>
  What the operations on push registrations keep, whatever fails: an endpoint that is on record
  stays there, in memory and in the database, until it is unregistered.
\<close>

section \<open>Keeping a property of the state\<close>

definition keeping :: "(push_world \<Rightarrow> bool) \<Rightarrow> push_world \<Rightarrow> push_world \<Rightarrow> bool" where
  "keeping I p q \<longleftrightarrow> (I p \<longrightarrow> I q)"

lemma keeping_star: "(keeping I)\<^sup>*\<^sup>* p q \<Longrightarrow> I p \<Longrightarrow> I q"
  by (induction rule: rtranclp_induct) (auto simp: keeping_def)

lemma moves_keeping: "(\<And>p. I p \<Longrightarrow> I (snd (m p))) \<Longrightarrow> moves (keeping I) m"
  unfolding moves_def by (auto simp: keeping_def intro: r_into_rtranclp)

lemma keepingD: "moves (keeping I) m \<Longrightarrow> I p \<Longrightarrow> m p = (r, q) \<Longrightarrow> I q"
  using keeping_star [of I p q] unfolding moves_def by (metis snd_conv)

text \<open>Properties that look only at the metadata and the trace.\<close>

definition worldless :: "(push_world \<Rightarrow> bool) \<Rightarrow> bool" where
  "worldless I \<longleftrightarrow> (\<forall>p w b d. I (p\<lparr>pw_world := w\<rparr>) = I p \<and> I (p\<lparr>pw_forbidden := b\<rparr>) = I p \<and>
     I (p\<lparr>pw_unavailable := b\<rparr>) = I p \<and> I (p\<lparr>pw_push_down := d\<rparr>) = I p)"

lemma connector_respects [moves_intros]: "worldless I \<Longrightarrow> moves (keeping I) (connector_op m)"
  by (rule moves_keeping) (simp add: connector_op_def worldless_def split: prod.split)

lemma now_respects [moves_intros]: "worldless I \<Longrightarrow> moves (keeping I) (push_now P)"
  by (rule moves_keeping) (simp add: push_now_def worldless_def)

lemma flags_respect [moves_intros]:
  assumes "worldless I"
  shows "moves (keeping I) (set_forbidden b)" "moves (keeping I) (set_unavailable b)" "moves (keeping I) (set_push_down d)"
  using assms by (auto intro!: moves_keeping simp: set_forbidden_def set_unavailable_def set_push_down_def worldless_def)

lemma reads_respect [moves_intros]:
  "moves R (of_value v)" "moves R the_keys" "moves R the_metadata" "moves R the_world" "moves R (validatedLoginMetadata P)"
  "moves R (validated_locked P)"
proof -
  show "moves R (of_value v)" by (simp add: of_value_def moves_intros)
  show "moves R the_keys" "moves R the_metadata" "moves R the_world" "moves R (validatedLoginMetadata P)" "moves R (validated_locked P)"
    by (simp_all add: moves_def the_keys_def the_metadata_def the_world_def validatedLoginMetadata_def validated_locked_def
        split: sum.split)
qed

lemma push_wrapping_moves [moves_intros]: "moves R m \<Longrightarrow> moves R (push_wrapping msg m)"
  unfolding moves_def push_wrapping_def
proof
  fix p
  assume "\<forall>s. R\<^sup>*\<^sup>* s (snd (m s))"
  then have "R\<^sup>*\<^sup>* p (snd (m p))" by blast
  then show "R\<^sup>*\<^sup>* p (snd (case m p of (Inl e, p') \<Rightarrow> (Inl (Wrapped msg [e]), p') | (Inr x, p') \<Rightarrow> (Inr x, p')))"
    by (cases "m p"; cases "fst (m p)") auto
qed

lemma moves_case_push_type [moves_intros]:
  "moves R a \<Longrightarrow> (\<And>t. moves R (b t)) \<Longrightarrow> moves R (case x of WebPush \<Rightarrow> a | OtherPush t \<Rightarrow> b t)"
  by (cases x) auto

lemma moves_case_failure [moves_intros]:
  "(\<And>e. moves R (a e)) \<Longrightarrow> moves R b \<Longrightarrow> (\<And>e. moves R (c e)) \<Longrightarrow>
   moves R (case x of Undecryptable e \<Rightarrow> a e | WithoutConversation \<Rightarrow> b | OtherFailure e \<Rightarrow> c e)"
  by (cases x) auto

lemma moves_case_event [moves_intros]:
  "moves R a1 \<Longrightarrow> moves R a2 \<Longrightarrow> moves R a3 \<Longrightarrow> moves R a4 \<Longrightarrow> moves R a5 \<Longrightarrow> moves R a6 \<Longrightarrow> (\<And>m. moves R (a7 m)) \<Longrightarrow>
   moves R a8 \<Longrightarrow> moves R a9 \<Longrightarrow> moves R a10 \<Longrightarrow> (\<And>d. moves R (a11 d)) \<Longrightarrow>
   moves R (case ev of GenerationEnded \<Rightarrow> a1 | MaintenanceTick \<Rightarrow> a2 | EventsClosed \<Rightarrow> a3 | ReceiverConnected \<Rightarrow> a4
     | ReceiverDisconnected \<Rightarrow> a5 | StreamAcknowledged \<Rightarrow> a6 | MessageReceived m \<Rightarrow> a7 m | ReceiverUnauthorized \<Rightarrow> a8
     | HeartbeatFailed \<Rightarrow> a9 | HeartbeatSeen \<Rightarrow> a10 | ReceiverRetry d \<Rightarrow> a11 d)"
  by (cases ev) auto

lemma moves_case_outcome [moves_intros]:
  "moves R a \<Longrightarrow> (\<And>d. moves R (b d)) \<Longrightarrow> moves R c \<Longrightarrow>
   moves R (case x of ReceiverStopped \<Rightarrow> a | RetryReceiver d \<Rightarrow> b d | RotateReceiver \<Rightarrow> c)"
  by (cases x) auto

lemma moves_case_supervision [moves_intros]:
  "moves R a \<Longrightarrow> (\<And>sv. moves R (b sv)) \<Longrightarrow> (\<And>sv r x. moves R (c sv r x)) \<Longrightarrow>
   moves R (case st of SupervisorDone \<Rightarrow> a | NextRound sv \<Rightarrow> b sv | Listening sv r x \<Rightarrow> c sv r x)"
  by (cases st) auto

section \<open>Endpoints on record\<close>

text \<open>The endpoints recorded as registered: the active one, the pending one once it is registered, and
  those that wait for being unregistered.\<close>

definition recorded :: "push_keys option \<Rightarrow> string set" where
  "recorded k =
     (case k of
        None \<Rightarrow> {}
      | Some x \<Rightarrow> {pr_Token r | r. pk_Active x = Some r \<or> pk_Pending x = Some r \<and> 0 < pr_FCMRegisteredTS r \<or>
          Some r \<in> set (pk_Retiring x)})"

definition holds_endpoint :: "string \<Rightarrow> push_keys option \<Rightarrow> bool" where
  "holds_endpoint t k \<longleftrightarrow> complete_keys k \<and> t \<in> recorded k"

text \<open>What ends the obligation: the service confirmed that the endpoint is unregistered, or FCM issued
  the same endpoint again.\<close>

definition excused :: "string \<Rightarrow> push_event list \<Rightarrow> bool" where
  "excused t tr \<longleftrightarrow> EndpointUnregistered (trim_space t) True \<in> set tr \<or> EndpointIssued t \<in> set tr"

definition on_record :: "string \<Rightarrow> push_world \<Rightarrow> bool" where
  "on_record t p \<longleftrightarrow>
     holds_endpoint t (um_PushKeys (pw_meta p)) \<and> holds_endpoint t (um_PushKeys (pw_saved p)) \<or> excused t (pw_trace p)"

lemma on_record_worldless [moves_intros]: "worldless (on_record t)"
  by (simp add: worldless_def on_record_def)

lemma traced_on_record [moves_intros]: "moves (keeping (on_record t)) (traced e)"
  by (rule moves_keeping) (auto simp: traced_def on_record_def excused_def)

lemma set_append_unique: "set (appendUniquePushRegistration rs r) \<subseteq> set rs \<union> {r}" "set rs \<subseteq> set (appendUniquePushRegistration rs r)"
  by (auto simp: appendUniquePushRegistration_def)

text \<open>A registration that is not appended is one that is there already under the same token.\<close>

lemma append_unique_token:
  "\<exists>x. Some x \<in> set (appendUniquePushRegistration rs (Some r)) \<and> pr_Token x = pr_Token r"
proof (cases "list_ex (\<lambda>x. samePushRegistration x (Some r)) rs")
  case True
  then obtain x where "x \<in> set rs" "samePushRegistration x (Some r)" by (auto simp: list_ex_iff)
  then obtain y where "x = Some y" "pr_Token y = pr_Token r" by (auto elim: same_token)
  with \<open>x \<in> set rs\<close> have "Some y \<in> set rs \<and> pr_Token y = pr_Token r" by simp
  then show ?thesis using set_append_unique(2) by blast
next
  case False
  then show ?thesis by (auto simp: appendUniquePushRegistration_def)
qed

lemma recorded_cases:
  "t \<in> recorded (Some x) \<longleftrightarrow>
     (\<exists>r. pr_Token r = t \<and> (pk_Active x = Some r \<or> pk_Pending x = Some r \<and> 0 < pr_FCMRegisteredTS r \<or> Some r \<in> set (pk_Retiring x)))"
  by (auto simp: recorded_def)

lemma complete_same:
  "pk_P256DH x = pk_P256DH y \<Longrightarrow> pk_Auth x = pk_Auth y \<Longrightarrow> pk_Private x = pk_Private y \<Longrightarrow>
   complete_keys (Some x) = complete_keys (Some y)"
  by (simp add: complete_keys_def)

lemma kept_clone [simp]: "holds_endpoint t (map_option clone_keys k) = holds_endpoint t k"
  by (cases k) (auto simp: holds_endpoint_def clone_keys_def recorded_def complete_keys_def clonePushRegistrations_def)

lemma kept_stage:
  assumes "holds_endpoint t (Some k)" "t \<noteq> pr_Token candidate"
  shows "holds_endpoint t (Some (stage_keys candidate k))"
proof -
  from assms(1) obtain r where r: "pr_Token r = t"
    "pk_Active k = Some r \<or> pk_Pending k = Some r \<and> 0 < pr_FCMRegisteredTS r \<or> Some r \<in> set (pk_Retiring k)"
    by (auto simp: holds_endpoint_def recorded_cases)
  have "t \<in> recorded (Some (stage_keys candidate k))"
  proof (cases "pk_Pending k = Some r \<and> 0 < pr_FCMRegisteredTS r")
    case True
    then have "\<not> samePushRegistration (Some r) (Some candidate)" using r(1) assms(2) by (simp add: samePushRegistration_def)
    then show ?thesis using True append_unique_token [of "pk_Retiring k" r] r(1)
      by (auto simp: recorded_cases stage_keys_def)
  next
    case False
    then have "pk_Active k = Some r \<or> Some r \<in> set (pk_Retiring k)" using r(2) by blast
    then have "pk_Active (stage_keys candidate k) = Some r \<or> Some r \<in> set (pk_Retiring (stage_keys candidate k))"
      using set_append_unique(2) by (auto simp: stage_keys_def split: option.split)
    then show ?thesis using r(1) unfolding recorded_cases by blast
  qed
  then show ?thesis using assms(1) by (simp add: holds_endpoint_def stage_keys_def complete_keys_def)
qed

lemma kept_unstage:
  assumes "holds_endpoint t (Some before)"
  shows "holds_endpoint t (unstage_keys candidate before (Some (stage_keys candidate before)))"
  using assms by (auto simp: holds_endpoint_def recorded_cases unstage_keys_def stage_keys_def complete_keys_def
      samePushRegistration_def clonePushRegistrations_def)

lemma kept_promote:
  assumes "holds_endpoint t (Some k)" "samePushRegistration (pk_Pending k) (Some registration)"
  shows "holds_endpoint t (Some (promote_keys registration k))"
proof -
  from assms(1) obtain r where r: "pr_Token r = t"
    "pk_Active k = Some r \<or> pk_Pending k = Some r \<and> 0 < pr_FCMRegisteredTS r \<or> Some r \<in> set (pk_Retiring k)"
    by (auto simp: holds_endpoint_def recorded_cases)
  from assms(2) obtain pending where pending: "pk_Pending k = Some pending" "pr_Token pending = pr_Token registration"
    by (auto simp: samePushRegistration_def split: option.splits)
  have "t \<in> recorded (Some (promote_keys registration k))"
  proof (cases "pk_Active k = Some r")
    case True
    show ?thesis
    proof (cases "samePushRegistration (Some r) (Some registration)")
      case same: True
      then show ?thesis using r(1) pending by (auto simp: recorded_cases promote_keys_def samePushRegistration_def)
    next
      case False
      then show ?thesis using True append_unique_token [of "pk_Retiring k" r] r(1)
        by (auto simp: recorded_cases promote_keys_def)
    qed
  next
    case False
    then have "pk_Pending k = Some r \<or> Some r \<in> set (pk_Retiring k)" using r(2) by blast
    then have "pk_Active (promote_keys registration k) = Some r \<or> Some r \<in> set (pk_Retiring (promote_keys registration k))"
      using set_append_unique(2) by (auto simp: promote_keys_def)
    then show ?thesis using r(1) unfolding recorded_cases by blast
  qed
  then show ?thesis using assms(1) by (simp add: holds_endpoint_def promote_keys_def complete_keys_def)
qed

lemma kept_demote:
  assumes "holds_endpoint t (Some k)" "samePushRegistration (pk_Pending k) (Some registration)" "0 < pr_FCMRegisteredTS registration"
  shows "holds_endpoint t (demote_keys registration k (Some (promote_keys registration k)))"
  using assms by (auto simp: holds_endpoint_def recorded_cases demote_keys_def promote_keys_def complete_keys_def
      samePushRegistration_def clonePushRegistrations_def split: option.splits)

lemma kept_mark:
  assumes "0 < ts" "holds_endpoint t k"
  shows "holds_endpoint t (mark_pending pending ts k)"
proof (cases k)
  case None
  then show ?thesis using assms(2) by (simp add: holds_endpoint_def recorded_def)
next
  case (Some x)
  with assms obtain r where r: "pr_Token r = t"
    "pk_Active x = Some r \<or> pk_Pending x = Some r \<and> 0 < pr_FCMRegisteredTS r \<or> Some r \<in> set (pk_Retiring x)"
    by (auto simp: holds_endpoint_def recorded_cases)
  define x' where "x' = x\<lparr>pk_Pending := map_option (\<lambda>r. r\<lparr>pr_FCMRegisteredTS := ts\<rparr>) (pk_Pending x)\<rparr>"
  have "t \<in> recorded (Some x')"
    unfolding recorded_cases
  proof (cases "pk_Pending x = Some r")
    case True
    then show "\<exists>r. pr_Token r = t \<and> (pk_Active x' = Some r \<or> pk_Pending x' = Some r \<and> 0 < pr_FCMRegisteredTS r \<or> Some r \<in> set (pk_Retiring x'))"
      using r(1) assms(1) by (intro exI [of _ "r\<lparr>pr_FCMRegisteredTS := ts\<rparr>"]) (simp add: x'_def)
  next
    case False
    then show "\<exists>r. pr_Token r = t \<and> (pk_Active x' = Some r \<or> pk_Pending x' = Some r \<and> 0 < pr_FCMRegisteredTS r \<or> Some r \<in> set (pk_Retiring x'))"
      using r by (intro exI [of _ r]) (auto simp: x'_def)
  qed
  then have "holds_endpoint t (Some x')" using assms(2) Some by (simp add: holds_endpoint_def complete_keys_def x'_def)
  then show ?thesis using assms(2) Some by (simp add: mark_pending_def x'_def)
qed

text \<open>Changes that leave tokens and registration times alone.\<close>

definition plain_change :: "(push_registration \<Rightarrow> push_registration) \<Rightarrow> bool" where
  "plain_change f \<longleftrightarrow> (\<forall>r. pr_Token (f r) = pr_Token r \<and> pr_FCMRegisteredTS (f r) = pr_FCMRegisteredTS r)"

lemma kept_change:
  assumes f: "plain_change f" and k: "holds_endpoint t (Some k)"
  shows "holds_endpoint t (Some (change_slot s f k))"
proof -
  from k obtain r where r: "pr_Token r = t"
    "pk_Active k = Some r \<or> pk_Pending k = Some r \<and> 0 < pr_FCMRegisteredTS r \<or> Some r \<in> set (pk_Retiring k)"
    by (auto simp: holds_endpoint_def recorded_cases)
  have fr: "pr_Token (f r) = t" "pr_FCMRegisteredTS (f r) = pr_FCMRegisteredTS r"
    using f r(1) by (auto simp: plain_change_def)
  have "t \<in> recorded (Some (change_slot s f k))"
  proof (cases s)
    case ActiveSlot
    then show ?thesis unfolding recorded_cases using r fr by (cases "pk_Active k = Some r") force+
  next
    case PendingSlot
    then show ?thesis unfolding recorded_cases using r fr by (cases "pk_Pending k = Some r") force+
  next
    case (RetiringSlot n)
    show ?thesis
    proof (cases "Some r \<in> set (pk_Retiring k)")
      case True
      then obtain m where m: "m < length (pk_Retiring k)" "pk_Retiring k ! m = Some r" by (auto simp: in_set_conv_nth)
      let ?rs = "(pk_Retiring k)[n := map_option f (pk_Retiring k ! n)]"
      have "?rs ! m \<in> set ?rs" using m(1) by (intro nth_mem) simp
      moreover have "?rs ! m = Some r \<or> ?rs ! m = Some (f r)" using m by (cases "m = n") simp_all
      ultimately have "Some r \<in> set ?rs \<or> Some (f r) \<in> set ?rs" by auto
      then show ?thesis unfolding recorded_cases using r(1) fr(1) RetiringSlot by auto
    next
      case False
      then show ?thesis unfolding recorded_cases using r RetiringSlot by auto
    qed
  qed
  moreover have "complete_keys (Some (change_slot s f k))"
    using k by (cases s) (simp_all add: holds_endpoint_def complete_keys_def)
  ultimately show ?thesis by (simp add: holds_endpoint_def)
qed

lemma kept_set_ids:
  assumes "holds_endpoint t k"
  shows "holds_endpoint t (map_option (set_ids token g) k)"
proof (cases k)
  case (Some x)
  have "plain_change (\<lambda>r. r\<lparr>pr_PersistentIDs := g (pr_PersistentIDs r)\<rparr>)" by (simp add: plain_change_def)
  then show ?thesis using assms Some by (auto simp: set_ids_def kept_change split: option.split)
qed (use assms in simp)

lemma kept_checked:
  assumes "holds_endpoint t k"
  shows "holds_endpoint t (checked_keys pending creds ts k)"
proof (cases k)
  case (Some x)
  let ?f = "\<lambda>r. (setCredentials creds r)\<lparr>pr_LastCheckinTS := ts\<rparr>"
  have "plain_change ?f" by (simp add: plain_change_def setCredentials_def)
  with kept_change [OF this, of t x ActiveSlot] kept_change [OF this, of t x PendingSlot] show ?thesis
    using assms Some by (simp add: checked_keys_def Let_def)
qed (use assms in \<open>simp add: checked_keys_def\<close>)

lemma kept_forget:
  assumes "holds_endpoint t k" "t \<noteq> pr_Token r"
  shows "holds_endpoint t (forget_retiring (Some r) k)" "holds_endpoint t (forget_registration (Some r) k)"
proof -
  have other: "\<not> samePushRegistration (Some x) (Some r)" if "pr_Token x = t" for x
    using that assms(2) by (simp add: samePushRegistration_def)
  show "holds_endpoint t (forget_retiring (Some r) k)" "holds_endpoint t (forget_registration (Some r) k)"
    using assms(1) other by (cases k; fastforce simp: holds_endpoint_def recorded_cases forget_retiring_def forget_registration_def
        removePushRegistration_def complete_keys_def)+
qed

section \<open>Saving\<close>

lemma save_keeps_meta: "pw_meta (snd (saveUserLogin P p)) = pw_meta p"
  by (auto simp: saveUserLogin_def saveOwnedUserLogin_def write_login_def andThen_def connector_op_def raise_def Let_def
      split: prod.splits sum.splits)

lemma save_on_record [moves_intros]: "moves (keeping (on_record t)) (saveUserLogin P)"
proof -
  have "moves (keeping (on_record t)) (write_login P)"
    by (rule moves_keeping)
      (auto simp: write_login_def Let_def connector_op_def on_record_def clone_metadata_def excused_def split: prod.splits sum.splits)
  then show ?thesis
    unfolding saveUserLogin_def saveOwnedUserLogin_def by (intro moves_intros)
qed

lemma put_keys_apply: "put_keys k p = (Inr (), p\<lparr>pw_meta := (pw_meta p)\<lparr>um_PushKeys := k\<rparr>\<rparr>)"
  by (simp add: put_keys_def)

text \<open>The keys are changed, saved, and changed back when they cannot be saved. The endpoint must be on
  record in either case, unless it is excused by then.\<close>

lemma on_record_put:
  assumes "on_record t p" "excused t (pw_trace p) \<or> holds_endpoint t k"
  shows "on_record t (p\<lparr>pw_meta := (pw_meta p)\<lparr>um_PushKeys := k\<rparr>\<rparr>)"
  using assms by (auto simp: on_record_def)

lemma excused_save: "excused t (pw_trace p) \<Longrightarrow> excused t (pw_trace (snd (saveUserLogin P p)))"
  by (auto simp: saveUserLogin_def saveOwnedUserLogin_def write_login_def andThen_def connector_op_def raise_def Let_def
      excused_def split: prod.splits sum.splits)

lemma put_saved_on_record:
  assumes p: "on_record t p" and now: "excused t (pw_trace p) \<or> holds_endpoint t k"
    and undo: "excused t (pw_trace p) \<or> holds_endpoint t (undo k)"
  shows "on_record t (snd (pseq (put_keys k) (push_wrapping msg (saved_or_undone P undo)) p))"
proof -
  let ?p = "p\<lparr>pw_meta := (pw_meta p)\<lparr>um_PushKeys := k\<rparr>\<rparr>"
  obtain r q where q: "saveUserLogin P ?p = (r, q)" by fastforce
  have "on_record t q" using on_record_put [OF p now] keepingD [OF save_on_record _ q] by blast
  moreover have keys: "um_PushKeys (pw_meta q) = k" using save_keeps_meta [of P ?p] q by simp
  moreover have "excused t (pw_trace q) \<or> holds_endpoint t (undo k)" using undo excused_save [of t ?p P] q by auto
  ultimately have "on_record t (q\<lparr>pw_meta := (pw_meta q)\<lparr>um_PushKeys := undo k\<rparr>\<rparr>)" by (intro on_record_put)
  then show ?thesis using \<open>on_record t q\<close>
    by (simp add: put_keys_apply andThen_def push_wrapping_def saved_or_undone_def attempt_def q the_keys_def keys
        ret_def raise_def split: sum.split)
qed

lemma push_wrapping_snd [simp]: "snd (push_wrapping msg m p) = snd (m p)"
  by (simp add: push_wrapping_def split: prod.split sum.split)

lemma put_saved_on_record':
  assumes "on_record t p" and "excused t (pw_trace p) \<or> holds_endpoint t k" and "excused t (pw_trace p) \<or> holds_endpoint t (undo k)"
  shows "on_record t (snd (pseq (put_keys k) (saved_or_undone P undo) p))"
  using put_saved_on_record [where undo = undo and P = P, OF assms] by (simp add: put_keys_apply andThen_def)

lemma on_record_live: "on_record t p \<Longrightarrow> excused t (pw_trace p) \<or> holds_endpoint t (um_PushKeys (pw_meta p))"
  by (auto simp: on_record_def)

section \<open>The operations\<close>

text \<open>An operation that checks the metadata and then looks at the keys.\<close>

lemma checked_keys_moves:
  assumes "\<And>p. on_record t p \<Longrightarrow> on_record t (snd (f (um_PushKeys (pw_meta p)) p))"
  shows "moves (keeping (on_record t)) (pseq (validated_locked P) (andThen the_keys f))"
  by (rule moves_keeping) (auto simp: andThen_def validated_locked_def the_keys_def assms split: sum.split prod.split)

lemma ensure_on_record [moves_intros]: "moves (keeping (on_record t)) (ensurePushKeyMaterial P)"
  unfolding ensurePushKeyMaterial_def
proof (rule checked_keys_moves)
  fix p
  assume p: "on_record t p"
  let ?k = "um_PushKeys (pw_meta p)"
  show "on_record t (snd (andThen (ensurePushKeys P) (\<lambda>changed. if \<not> changed then ret ()
      else push_wrapping ''failed to save Tumblr web push keys'' (saved_or_undone P (\<lambda>_. map_option clone_keys ?k))) p))"
  proof (cases "complete_keys ?k")
    case True
    then show ?thesis using p by (simp add: ensurePushKeys_def andThen_def the_keys_def ret_def)
  next
    case False
    then have e: "excused t (pw_trace p)" using p by (auto simp: on_record_def holds_endpoint_def)
    have grow: "moves (keeping (\<lambda>q. excused t (pw_trace q))) m \<Longrightarrow> excused t (pw_trace (snd (m p)))" for m :: "unit push"
      using keepingD [of "\<lambda>q. excused t (pw_trace q)" m p] e by (metis prod.collapse)
    have w: "worldless (\<lambda>q. excused t (pw_trace q))" by (simp add: worldless_def)
    have put: "moves (keeping (\<lambda>q. excused t (pw_trace q))) (put_keys k)" for k
      by (rule moves_keeping) (simp add: put_keys_def)
    have save: "moves (keeping (\<lambda>q. excused t (pw_trace q))) (saveUserLogin P)"
      by (rule moves_keeping) (rule excused_save)
    have "moves (keeping (\<lambda>q. excused t (pw_trace q))) (andThen (ensurePushKeys P) (\<lambda>changed. if \<not> changed then ret ()
      else push_wrapping ''failed to save Tumblr web push keys'' (saved_or_undone P (\<lambda>_. map_option clone_keys ?k))))"
      unfolding ensurePushKeys_def saved_or_undone_def by (intro moves_intros w put save)
    from grow [OF this] show ?thesis by (simp add: on_record_def)
  qed
qed

lemma requests_on_record [moves_intros]:
  "moves (keeping (on_record t)) (noted ev m)"
  "moves (keeping (on_record t)) (registerTumblrPushEndpoint P ty token)"
  "moves (keeping (on_record t)) (unregisterTumblrPushEndpoint P token)"
proof -
  show 1: "moves (keeping (on_record t)) (noted ev m)" for ev m
    unfolding noted_def by (intro moves_intros)
  show "moves (keeping (on_record t)) (registerTumblrPushEndpoint P ty token)"
    unfolding registerTumblrPushEndpoint_def Let_def by (intro moves_intros 1)
  show "moves (keeping (on_record t)) (unregisterTumblrPushEndpoint P token)"
    unfolding unregisterTumblrPushEndpoint_def Let_def by (intro moves_intros 1)
qed

lemma persist_on_record:
  assumes p: "on_record t p" and issued: "EndpointIssued (pr_Token candidate) \<in> set (pw_trace p)"
  shows "on_record t (snd (persistPendingPushRegistration P candidate p))"
proof (cases "um_PushKeys (pw_meta p)")
  case None
  then show ?thesis using p
    by (simp add: persistPendingPushRegistration_def andThen_def validated_locked_def the_keys_def raise_def split: sum.split)
next
  case (Some before)
  have "excused t (pw_trace p) \<or> holds_endpoint t (Some (stage_keys candidate before))"
    using on_record_live [OF p] issued kept_stage [of t before candidate] Some by (auto simp: excused_def)
  moreover have "excused t (pw_trace p) \<or> holds_endpoint t (unstage_keys candidate before (Some (stage_keys candidate before)))"
    using on_record_live [OF p] kept_unstage Some by auto
  ultimately have "on_record t (snd (pseq (put_keys (Some (stage_keys candidate before)))
      (push_wrapping ''failed to stage Tumblr push receiver metadata'' (saved_or_undone P (unstage_keys candidate before))) p))"
    by (intro put_saved_on_record p)
  then show ?thesis using p Some
    by (simp add: persistPendingPushRegistration_def andThen_def [of "validated_locked P"] andThen_def [of the_keys]
        validated_locked_def the_keys_def split: sum.split)
qed

text \<open>The trace only grows.\<close>

definition trace_grows :: "push_world \<Rightarrow> push_world \<Rightarrow> bool" where
  "trace_grows p q \<longleftrightarrow> set (pw_trace p) \<subseteq> set (pw_trace q)"

lemma trace_grows_star: "trace_grows\<^sup>*\<^sup>* p q \<Longrightarrow> trace_grows p q"
  by (induction rule: rtranclp_induct) (auto simp: trace_grows_def)

lemma excused_grows: "trace_grows p q \<Longrightarrow> excused t (pw_trace p) \<Longrightarrow> excused t (pw_trace q)"
  by (auto simp: trace_grows_def excused_def)

lemma moves_grows: "(\<And>p. set (pw_trace p) \<subseteq> set (pw_trace (snd (m p)))) \<Longrightarrow> moves trace_grows m"
  unfolding moves_def by (auto intro!: r_into_rtranclp simp: trace_grows_def)

lemma basic_grows [moves_intros]:
  "moves trace_grows (connector_op m)" "moves trace_grows (traced e)" "moves trace_grows (put_keys k)"
  "moves trace_grows (push_now P)" "moves trace_grows (write_login P)" "moves trace_grows (set_forbidden b)"
  "moves trace_grows (set_unavailable b)" "moves trace_grows (set_push_down d)"
  by (rule moves_grows; auto simp: connector_op_def traced_def put_keys_def push_now_def write_login_def Let_def
      set_forbidden_def set_unavailable_def set_push_down_def split: prod.split sum.split)+

lemma save_grows [moves_intros]: "moves trace_grows (saveUserLogin P)"
  unfolding saveUserLogin_def saveOwnedUserLogin_def by (intro moves_intros)

lemma ensure_grows [moves_intros]: "moves trace_grows (ensurePushKeyMaterial P)"
  unfolding ensurePushKeyMaterial_def ensurePushKeys_def saved_or_undone_def by (intro moves_intros)

lemma register_grows [moves_intros]: "moves trace_grows (registerTumblrPushEndpoint P ty token)"
  unfolding registerTumblrPushEndpoint_def noted_def Let_def by (intro moves_intros)

lemma push_now_apply:
  "push_now P p = (Inr (p_clock P (w_tick (pw_world p))), p\<lparr>pw_world := (pw_world p)\<lparr>w_tick := Suc (w_tick (pw_world p))\<rparr>\<rparr>)"
  by (simp add: push_now_def)

definition after_epoch :: "push_env \<Rightarrow> bool" where
  "after_epoch P \<longleftrightarrow> (\<forall>n. 0 < unix_milli (p_clock P n))"

text \<open>Marking the pending registration registered or not: what was recorded as registered before the
  operation is the registration itself only when it needs no marking.\<close>

lemma kept_unmark:
  assumes "holds_endpoint t k" "samePushRegistration (Option.bind k pk_Pending) (Some pending)"
    and "\<And>r. Option.bind k pk_Pending = Some r \<Longrightarrow> 0 < pr_FCMRegisteredTS r \<Longrightarrow> t \<noteq> pr_Token r"
  shows "holds_endpoint t (mark_pending pending 0 (mark_pending pending ts k))"
  using assms by (cases k; cases "pk_Pending (the k)") (auto simp: holds_endpoint_def recorded_cases mark_pending_def complete_keys_def)

text \<open>What is pending stays what it is, or is dropped with incomplete keys.\<close>

definition pending_of :: "push_world \<Rightarrow> push_registration option" where
  "pending_of p = Option.bind (um_PushKeys (pw_meta p)) pk_Pending"

definition pending_stays :: "push_world \<Rightarrow> push_world \<Rightarrow> bool" where
  "pending_stays p q \<longleftrightarrow> pending_of q = None \<or> pending_of q = pending_of p"

lemma pending_stays_star: "pending_stays\<^sup>*\<^sup>* p q \<Longrightarrow> pending_stays p q"
  by (induction rule: rtranclp_induct) (auto simp: pending_stays_def)

lemma same_meta_stays: "(\<And>p. pw_meta (snd (m p)) = pw_meta p) \<Longrightarrow> moves pending_stays m"
  unfolding moves_def by (auto intro!: r_into_rtranclp simp: pending_stays_def pending_of_def)

lemma connector_stays [moves_intros]: "moves pending_stays (connector_op m)" "moves pending_stays (traced e)"
  "moves pending_stays (saveUserLogin P)" "moves pending_stays (push_now P)"
  by (rule same_meta_stays; simp add: connector_op_def traced_def save_keeps_meta push_now_def split: prod.split)+

lemma ensure_stays [moves_intros]: "moves pending_stays (ensurePushKeyMaterial P)"
  unfolding moves_def
proof (intro allI r_into_rtranclp)
  fix p :: push_world
  let ?k = "um_PushKeys (pw_meta p)" and ?undo = "\<lambda>_ :: push_keys option. map_option clone_keys (um_PushKeys (pw_meta p))"
  have save: "pending_of (snd (saved_or_undone P ?undo q)) \<in> {pending_of q, pending_of p}" for q
    using save_keeps_meta [of P q]
    by (cases "saveUserLogin P q"; cases ?k)
      (auto simp: saved_or_undone_def attempt_def ret_def raise_def andThen_def the_keys_def put_keys_def pending_of_def
        clone_keys_def split: sum.split)
  obtain r q where q: "ensurePushKeys P p = (r, q)" by fastforce
  have kinds: "pending_of q \<in> {None, pending_of p}" "r = Inr False \<Longrightarrow> q = p"
    using q by (auto simp: ensurePushKeys_def andThen_def the_keys_def put_keys_def pending_of_def ret_def connector_op_def
        push_wrapping_def split: prod.splits sum.splits if_splits)
  have "ensurePushKeyMaterial P p = (case validated_locked P p of (Inl e, _) \<Rightarrow> (Inl e, p) | (Inr _, _) \<Rightarrow>
      (case r of Inl e \<Rightarrow> (Inl e, q) | Inr changed \<Rightarrow> if \<not> changed then (Inr (), q)
        else push_wrapping ''failed to save Tumblr web push keys'' (saved_or_undone P ?undo) q))"
    by (simp add: ensurePushKeyMaterial_def andThen_def validated_locked_def the_keys_def q ret_def split: sum.split)
  then have "snd (ensurePushKeyMaterial P p) \<in> {p, q, snd (saved_or_undone P ?undo q)}"
    by (simp split: prod.split sum.split)
  then show "pending_stays p (snd (ensurePushKeyMaterial P p))"
    using save [of q] kinds(1) by (auto simp: pending_stays_def)
qed

lemma register_stays [moves_intros]: "moves pending_stays (registerTumblrPushEndpoint P ty token)"
  unfolding registerTumblrPushEndpoint_def noted_def Let_def by (intro moves_intros)

lemma finish_on_record:
  assumes "after_epoch P" and p: "on_record t p"
    and fresh: "excused t (pw_trace p) \<or> (\<forall>r. pending_of p = Some r \<longrightarrow> samePushRegistration (Some r) (Some pending) \<longrightarrow>
      0 < pr_FCMRegisteredTS r \<longrightarrow> pr_Token r \<noteq> t)"
  shows "on_record t (snd (finishPendingPushRegistration P pending p))"
proof (cases "blank (pr_Token pending) \<or> 0 < pr_FCMRegisteredTS pending")
  case True
  then show ?thesis using p by (auto simp: finishPendingPushRegistration_def raise_def ret_def)
next
  case todo: False
  obtain r q where q: "registerTumblrPushEndpoint P WebPush (pr_Token pending) p = (r, q)" by fastforce
  have q_record: "on_record t q" using keepingD [OF requests_on_record(2) p q] .
  have stays: "pending_stays p q" using register_stays pending_stays_star q unfolding moves_def by (metis snd_conv)
  show ?thesis
  proof (cases r)
    case (Inl e)
    have "on_record t (snd (connector_op (handleRemoteError e) q))" for e
      using keepingD [OF connector_respects [OF on_record_worldless] q_record] by (metis prod.collapse)
    then show ?thesis using todo q Inl by (simp add: finishPendingPushRegistration_def attempt_def)
  next
    case (Inr u)
    let ?now = "unix_milli (p_clock P (w_tick (pw_world q)))"
    let ?q = "snd (push_now P q)" and ?k = "um_PushKeys (pw_meta q)"
    have now: "0 < ?now" using assms(1) by (simp add: after_epoch_def)
    have q': "on_record t ?q" "um_PushKeys (pw_meta ?q) = ?k" "pw_trace ?q = pw_trace q"
      using q_record by (auto simp: push_now_def on_record_def)
    have "on_record t (snd (pseq (put_keys (mark_pending pending ?now ?k))
        (push_wrapping ''failed to save registered Tumblr push receiver metadata''
          (saved_or_undone P (mark_pending pending 0))) ?q))"
      if same: "samePushRegistration (Option.bind ?k pk_Pending) (Some pending)"
    proof (rule put_saved_on_record [OF q'(1)])
      show "excused t (pw_trace ?q) \<or> holds_endpoint t (mark_pending pending ?now ?k)"
        using on_record_live [OF q_record] kept_mark [OF now] q'(3) by auto
      have "trace_grows p q" using register_grows trace_grows_star q unfolding moves_def by (metis snd_conv)
      then have "excused t (pw_trace p) \<Longrightarrow> excused t (pw_trace q)" by (rule excused_grows)
      moreover have "pending_of q = pending_of p" using stays same by (auto simp: pending_stays_def pending_of_def)
      ultimately have "excused t (pw_trace q) \<or> (\<forall>r. Option.bind ?k pk_Pending = Some r \<longrightarrow> 0 < pr_FCMRegisteredTS r \<longrightarrow> t \<noteq> pr_Token r)"
        using fresh same by (auto simp: pending_of_def)
      then show "excused t (pw_trace ?q) \<or> holds_endpoint t (mark_pending pending 0 (mark_pending pending ?now ?k))"
        using on_record_live [OF q_record] kept_unmark [OF _ same] q'(3) by auto
    qed
    then show ?thesis using todo q Inr q'
      by (auto simp: finishPendingPushRegistration_def attempt_def andThen_def push_now_apply validated_locked_def the_keys_def
          raise_def ret_def split: sum.splits prod.splits)
  qed
qed

end
