(* ===== verification/PushEndpoints.thy ===== *)
theory PushEndpoints
  imports PushMoves
begin

text \<open>
  Endpoints on record through the whole push component: staging, checking in, promotion,
  retirement, the receiver's loop and its supervisor.
\<close>

section \<open>Staging and checking in\<close>

lemma pending_after_persist:
  assumes "persistPendingPushRegistration P candidate p = (Inr u, q)"
  shows "um_PushKeys (pw_meta q) = map_option (stage_keys candidate) (um_PushKeys (pw_meta p))" "pending_of q = Some candidate"
proof -
  from assms obtain before where k: "um_PushKeys (pw_meta p) = Some before"
    by (cases "um_PushKeys (pw_meta p)") (auto simp: persistPendingPushRegistration_def andThen_def validated_locked_def
        the_keys_def raise_def split: sum.splits)
  let ?p = "p\<lparr>pw_meta := (pw_meta p)\<lparr>um_PushKeys := Some (stage_keys candidate before)\<rparr>\<rparr>"
  have "saveUserLogin P ?p = (Inr u, q)"
    using assms k by (cases "saveUserLogin P ?p")
      (auto simp: persistPendingPushRegistration_def andThen_def validated_locked_def the_keys_def put_keys_def
        push_wrapping_def saved_or_undone_def attempt_def ret_def raise_def split: sum.splits prod.splits)
  then have "pw_meta q = pw_meta ?p" using save_keeps_meta [of P ?p] by simp
  then show "um_PushKeys (pw_meta q) = map_option (stage_keys candidate) (um_PushKeys (pw_meta p))" "pending_of q = Some candidate"
    by (simp_all add: k pending_of_def stage_keys_def)
qed

lemma staging_on_record:
  assumes "after_epoch P" "pr_FCMRegisteredTS candidate = 0"
  shows "moves (keeping (on_record t)) (pseq (traced (EndpointIssued (pr_Token candidate)))
      (pseq (persistPendingPushRegistration P candidate) (finishPendingPushRegistration P candidate)))"
proof (rule moves_keeping)
  fix p
  assume p: "on_record t p"
  let ?p = "p\<lparr>pw_trace := pw_trace p @ [EndpointIssued (pr_Token candidate)]\<rparr>"
  obtain r q where q: "persistPendingPushRegistration P candidate ?p = (r, q)" by fastforce
  have "on_record t ?p" using p by (auto simp: on_record_def excused_def)
  then have "on_record t q" using persist_on_record [of t ?p candidate P] q by simp
  moreover have "on_record t (snd (finishPendingPushRegistration P candidate q))" if "r = Inr ()"
  proof (rule finish_on_record [OF assms(1) \<open>on_record t q\<close>])
    have "pending_of q = Some candidate" using pending_after_persist(2) q that by blast
    then show "excused t (pw_trace q) \<or> (\<forall>r. pending_of q = Some r \<longrightarrow> samePushRegistration (Some r) (Some candidate) \<longrightarrow>
        0 < pr_FCMRegisteredTS r \<longrightarrow> pr_Token r \<noteq> t)"
      using assms(2) by simp
  qed
  ultimately show "on_record t (snd (pseq (traced (EndpointIssued (pr_Token candidate)))
      (pseq (persistPendingPushRegistration P candidate) (finishPendingPushRegistration P candidate)) p))"
    by (simp add: andThen_def traced_def q split: sum.split)
qed

lemma fcm_moves [moves_intros]:
  "worldless I \<Longrightarrow> moves (keeping I) (fcm_attempts n P creds a)"
proof (induction n)
  case (Suc n)
  then show ?case unfolding fcm_attempts.simps by (intro moves_intros) simp_all
qed (simp add: moves_raise)

lemma stage_on_record [moves_intros]:
  assumes "after_epoch P"
  shows "moves (keeping (on_record t)) (stagePushRegistration P active forceNew)"
  unfolding stagePushRegistration_def checked_in_def Let_def
  by (intro moves_intros staging_on_record assms) (simp add: setCredentials_def)

lemma store_on_record [moves_intros]: "moves (keeping (on_record t)) (store_checkin P registration pending creds)"
proof -
  have put: "moves (keeping (on_record t)) (andThen the_keys (\<lambda>k. case k of
      None \<Rightarrow> ret (registration, Some keys_missing)
    | Some x \<Rightarrow>
        (case check_target pending x of
           None \<Rightarrow> ret (registration, None)
         | Some target \<Rightarrow>
             if \<not> samePushRegistration (Some target) (Some registration) \<or>
                pr_LastCheckinTS registration < pr_LastCheckinTS target
             then ret (registration, None)
             else andThen (push_now P) (\<lambda>now.
               pseq (put_keys (checked_keys pending creds (unix_milli now) k))
               (attempt (saveUserLogin P) (\<lambda>r.
                ret ((setCredentials creds registration)\<lparr>pr_LastCheckinTS := unix_milli now\<rparr>,
                  case r of Inl e \<Rightarrow> Some e | Inr _ \<Rightarrow> None)))))))"
  proof (rule moves_keeping)
    fix p
    assume p: "on_record t p"
    let ?k = "um_PushKeys (pw_meta p)" and ?now = "unix_milli (p_clock P (w_tick (pw_world p)))"
    let ?q = "(snd (push_now P p))\<lparr>pw_meta := (pw_meta p)\<lparr>um_PushKeys := checked_keys pending creds ?now ?k\<rparr>\<rparr>"
    have "on_record t (snd (push_now P p))" using p by (simp add: push_now_def on_record_def)
    then have "on_record t ((snd (push_now P p))\<lparr>pw_meta := (pw_meta (snd (push_now P p)))\<lparr>um_PushKeys := checked_keys pending creds ?now ?k\<rparr>\<rparr>)"
      using on_record_live [OF p] kept_checked by (intro on_record_put) (auto simp: push_now_def)
    then have "on_record t ?q" by (simp add: push_now_def)
    then have "on_record t (snd (saveUserLogin P ?q))" using keepingD [OF save_on_record] by (metis prod.collapse)
    then show "on_record t (snd (andThen the_keys (\<lambda>k. case k of
      None \<Rightarrow> ret (registration, Some keys_missing)
    | Some x \<Rightarrow>
        (case check_target pending x of
           None \<Rightarrow> ret (registration, None)
         | Some target \<Rightarrow>
             if \<not> samePushRegistration (Some target) (Some registration) \<or>
                pr_LastCheckinTS registration < pr_LastCheckinTS target
             then ret (registration, None)
             else andThen (push_now P) (\<lambda>now.
               pseq (put_keys (checked_keys pending creds (unix_milli now) k))
               (attempt (saveUserLogin P) (\<lambda>r.
                ret ((setCredentials creds registration)\<lparr>pr_LastCheckinTS := unix_milli now\<rparr>,
                  case r of Inl e \<Rightarrow> Some e | Inr _ \<Rightarrow> None)))))) p))"
      using p by (auto simp: andThen_def the_keys_def ret_def push_now_def put_keys_def attempt_def
          split: option.split prod.split)
  qed
  show ?thesis unfolding store_checkin_def by (intro moves_intros put)
qed

lemma refresh_on_record [moves_intros]:
  "moves (keeping (on_record t)) (refreshPushRegistrationCheckin P registration pending force)"
  unfolding refreshPushRegistrationCheckin_def checkin_due_def by (intro moves_intros)

section \<open>Preparing\<close>

lemma prepare_on_record [moves_intros]:
  assumes P: "after_epoch P"
  shows "moves (keeping (on_record t)) (preparePushRegistration P forceNew validateExisting)"
proof -
  have check: "moves (keeping (on_record t)) (checked_or_staged P active r pending)" for active r pending
    unfolding checked_or_staged_def staged_def by (intro moves_intros P)
  have active: "moves (keeping (on_record t)) (prepare_active P active forceNew validateExisting)" for active
    unfolding prepare_active_def staged_def tumblrPushReceiverRegistrationDue_def by (intro moves_intros check P)
  have after: "moves (keeping (on_record t)) (andThen (validatedLoginMetadata P) (\<lambda>meta.
      case um_PushKeys meta of
        None \<Rightarrow> raise keys_missing
      | Some k \<Rightarrow>
          if \<not> forceNew \<and> pk_Pending k \<noteq> None
          then prepare_pending P (pk_Active k) (the (pk_Pending k)) validateExisting
          else prepare_active P (pk_Active k) forceNew validateExisting))" (is "moves _ ?m")
  proof (rule moves_keeping)
    fix p
    assume p: "on_record t p"
    show "on_record t (snd (?m p))"
    proof (cases "validateUserLoginMetadata (p_http P) (pw_meta p)")
      case (Inl e)
      then show ?thesis using p by (simp add: andThen_def validatedLoginMetadata_def)
    next
      case (Inr m)
      then have m: "m = pw_meta p" by (auto simp: validateUserLoginMetadata_def split: sum.splits)
      show ?thesis
      proof (cases "um_PushKeys (pw_meta p)")
        case None
        then show ?thesis using p Inr m by (simp add: andThen_def validatedLoginMetadata_def clone_metadata_def raise_def)
      next
        case (Some k)
        have run: "?m p = (if \<not> forceNew \<and> pk_Pending k \<noteq> None
            then prepare_pending P (pk_Active k) (the (pk_Pending k)) validateExisting p
            else prepare_active P (pk_Active k) forceNew validateExisting p)"
          using Inr m Some by (simp add: andThen_def validatedLoginMetadata_def clone_metadata_def clone_keys_def)
        have "on_record t (snd (prepare_pending P a pending v p))" if pending: "pk_Pending k = Some pending" for a v pending
        proof -
          obtain r q where q: "finishPendingPushRegistration P pending p = (r, q)" by fastforce
          have "on_record t q"
          proof (cases "0 < pr_FCMRegisteredTS pending")
            case True
            then show ?thesis using q p by (auto simp: finishPendingPushRegistration_def raise_def ret_def split: if_splits)
          next
            case False
            then have "on_record t (snd (finishPendingPushRegistration P pending p))"
              using pending Some by (intro finish_on_record P p) (simp add: pending_of_def)
            then show ?thesis by (simp add: q)
          qed
          then show ?thesis
            using keepingD [OF check \<open>on_record t q\<close>]
            by (auto simp: prepare_pending_def attempt_def q ret_def split: sum.split) (metis prod.collapse)
        qed
        moreover have "on_record t (snd (prepare_active P (pk_Active k) forceNew validateExisting p))"
          using keepingD [OF active p] by (metis prod.collapse)
        ultimately show ?thesis unfolding run by auto
      qed
    qed
  qed
  show ?thesis
    unfolding preparePushRegistration_def prepare_body_def by (intro moves_intros after)
qed

section \<open>A pending registration that is used is registered\<close>

text \<open>\<open>returning m Q\<close>: a value that \<open>m\<close> returns satisfies \<open>Q\<close>.\<close>

definition returning :: "'a push \<Rightarrow> ('a \<Rightarrow> bool) \<Rightarrow> bool" where
  "returning m Q \<longleftrightarrow> (\<forall>p x q. m p = (Inr x, q) \<longrightarrow> Q x)"

named_theorems returning_intros \<open>what operations return\<close>

lemma returning_basic [returning_intros]: "Q x \<Longrightarrow> returning (ret x) Q" "returning (raise e) Q"
  by (simp_all add: returning_def ret_def raise_def)

lemma returning_andThen: "returning m M \<Longrightarrow> (\<And>x. M x \<Longrightarrow> returning (f x) Q) \<Longrightarrow> returning (andThen m f) Q"
  unfolding returning_def by (metis andThen_InrD)

lemma returning_any: "returning m (\<lambda>_. True)"
  by (simp add: returning_def)

lemma returning_then [returning_intros]: "(\<And>x. returning (f x) Q) \<Longrightarrow> returning (andThen m f) Q"
  by (rule returning_andThen [OF returning_any])

lemma returning_attempt:
  "returning m M \<Longrightarrow> (\<And>e. returning (f (Inl e)) Q) \<Longrightarrow> (\<And>x. M x \<Longrightarrow> returning (f (Inr x)) Q) \<Longrightarrow> returning (attempt m f) Q"
  unfolding returning_def attempt_def by (auto split: prod.splits) (metis obj_sumE)

lemma returning_if [returning_intros]:
  "(c \<Longrightarrow> returning m Q) \<Longrightarrow> (\<not> c \<Longrightarrow> returning n Q) \<Longrightarrow> returning (if c then m else n) Q"
  by simp

lemma returning_case_sum [returning_intros]:
  "(\<And>y. x = Inl y \<Longrightarrow> returning (g y) Q) \<Longrightarrow> (\<And>y. x = Inr y \<Longrightarrow> returning (f y) Q) \<Longrightarrow>
   returning (case x of Inl y \<Rightarrow> g y | Inr y \<Rightarrow> f y) Q"
  by (cases x) auto

lemma returning_case_option [returning_intros]:
  "(x = None \<Longrightarrow> returning m Q) \<Longrightarrow> (\<And>y. x = Some y \<Longrightarrow> returning (f y) Q) \<Longrightarrow>
   returning (case x of None \<Rightarrow> m | Some y \<Rightarrow> f y) Q"
  by (cases x) auto

lemma returning_case_prod [returning_intros]: "(\<And>a b. x = (a, b) \<Longrightarrow> returning (f a b) Q) \<Longrightarrow> returning (case x of (a, b) \<Rightarrow> f a b) Q"
  by (cases x) auto

definition is_registered :: "push_registration \<Rightarrow> bool" where
  "is_registered r \<longleftrightarrow> 0 < pr_FCMRegisteredTS r"

lemma handle_error_returning [returning_intros]: "returning (connector_op (handleRemoteError e)) Q"
  by (auto simp: returning_def connector_op_def handleRemoteError_def andThen_def raise_def split: prod.splits sum.splits)

lemma now_returning: "after_epoch P \<Longrightarrow> returning (push_now P) (\<lambda>now. 0 < unix_milli now)"
  by (simp add: returning_def push_now_def after_epoch_def)

lemma finish_returning:
  assumes "after_epoch P"
  shows "returning (finishPendingPushRegistration P pending) is_registered"
proof -
  have "returning (andThen (push_now P) (\<lambda>now.
            pseq (validated_locked P)
            (andThen the_keys (\<lambda>k.
             if \<not> samePushRegistration (Option.bind k pk_Pending) (Some pending)
             then pfail ''pending Tumblr push receiver changed while it was registering''
             else pseq (put_keys (mark_pending pending (unix_milli now) k))
               (pseq (push_wrapping ''failed to save registered Tumblr push receiver metadata''
                  (saved_or_undone P (mark_pending pending 0)))
               (ret (pending\<lparr>pr_FCMRegisteredTS := unix_milli now\<rparr>))))))) is_registered"
    by (rule returning_andThen [OF now_returning [OF assms]]) (intro returning_intros, simp add: is_registered_def)
  then show ?thesis
    unfolding finishPendingPushRegistration_def
    by (intro returning_if returning_basic returning_attempt [OF returning_any]) (simp_all add: is_registered_def handle_error_returning)
qed

lemma stage_returning:
  assumes "after_epoch P"
  shows "returning (stagePushRegistration P active forceNew) is_registered"
  unfolding stagePushRegistration_def Let_def by (intro returning_intros finish_returning assms)

definition same_endpoint :: "push_registration \<Rightarrow> push_registration \<times> go_error option \<Rightarrow> bool" where
  "same_endpoint r x \<longleftrightarrow> pr_FCMRegisteredTS (fst x) = pr_FCMRegisteredTS r \<and> pr_Token (fst x) = pr_Token r"

lemma refresh_returning: "returning (refreshPushRegistrationCheckin P registration pending force) (same_endpoint registration)"
proof -
  have "returning (store_checkin P registration pending creds) (same_endpoint registration)" for creds
    unfolding store_checkin_def
    by (intro returning_intros returning_attempt [OF returning_any]; simp add: same_endpoint_def setCredentials_def)
  then show ?thesis
    unfolding refreshPushRegistrationCheckin_def
    by (intro returning_intros returning_attempt [OF returning_any]) (auto intro: returning_basic simp: same_endpoint_def)
qed

end
