(* ===== verification/PushSystem.thy ===== *)
theory PushSystem
  imports PushEndpoints
begin

text \<open>
  The push component as a whole: what a listening receiver and its supervisor keep, the calls that
  reach the component in any order, crashes included, and the endpoints on record through all of it.
\<close>

section \<open>What is prepared is registered\<close>

definition prepared_ok :: "prepared \<Rightarrow> bool" where
  "prepared_ok x \<longleftrightarrow> (case fst x of None \<Rightarrow> True | Some pr \<Rightarrow> pp_pending pr \<longrightarrow> is_registered (pp_registration pr))"

lemma prepared_basic [simp]:
  "prepared_ok (None, e)" "prepared_ok (usable_active active, e)"
  "prepared_ok (Some \<lparr>pp_registration = r, pp_pending = b\<rparr>, e) = (b \<longrightarrow> is_registered r)"
  by (simp_all add: prepared_ok_def usable_active_def)

lemma staged_returning:
  assumes "after_epoch P" "prepared_ok (fst other, None)"
  shows "returning (staged P active forceNew other) prepared_ok"
  unfolding staged_def
  by (rule returning_attempt [OF stage_returning [OF assms(1)]]) (use assms(2) in \<open>auto intro!: returning_basic simp: prepared_ok_def\<close>)

lemma checked_or_staged_returning:
  assumes "after_epoch P" "pending \<longrightarrow> is_registered r"
  shows "returning (checked_or_staged P active r pending) prepared_ok"
  unfolding checked_or_staged_def
  by (rule returning_andThen [OF refresh_returning])
    (use assms in \<open>auto intro!: returning_basic staged_returning simp: same_endpoint_def is_registered_def split: prod.split\<close>)

lemma prepare_returning:
  assumes "after_epoch P"
  shows "returning (preparePushRegistration P forceNew validateExisting) prepared_ok"
proof -
  have pending: "returning (prepare_pending P active pending v) prepared_ok" for active pending v
    unfolding prepare_pending_def
    by (rule returning_attempt [OF finish_returning [OF assms]])
      (auto intro!: returning_basic checked_or_staged_returning assms)
  have active: "returning (prepare_active P active f v) prepared_ok" for active f v
    unfolding prepare_active_def
    by (rule returning_then) (auto intro!: returning_basic checked_or_staged_returning staged_returning assms)
  have "returning (prepare_body P forceNew validateExisting) prepared_ok"
    unfolding prepare_body_def by (intro returning_intros pending active)
  then show ?thesis
    unfolding preparePushRegistration_def by (rule returning_attempt) (auto intro!: returning_basic)
qed

section \<open>Promotion and retirement\<close>

lemma promote_on_record [moves_intros]:
  assumes "is_registered registration"
  shows "moves (keeping (on_record t)) (promotePendingPushRegistration P registration)"
  unfolding promotePendingPushRegistration_def
proof (rule checked_keys_moves)
  fix p
  assume p: "on_record t p"
  let ?k = "um_PushKeys (pw_meta p)"
  show "on_record t (snd ((if \<not> samePushRegistration (Option.bind ?k pk_Pending) (Some registration)
      then pfail ''connected Tumblr push receiver no longer matches the pending registration''
      else pseq (put_keys (map_option (promote_keys registration) ?k))
        (push_wrapping ''failed to promote Tumblr push receiver metadata''
          (saved_or_undone P (demote_keys registration (the ?k))))) p))"
  proof (cases ?k)
    case (Some k)
    then show ?thesis
      using p on_record_live [OF p] kept_promote [of t k registration] kept_demote [of t k registration] assms
      by (auto simp: raise_def is_registered_def intro!: put_saved_on_record)
  qed (use p in \<open>simp add: raise_def\<close>)
qed

text \<open>An endpoint that the service has unregistered may be forgotten.\<close>

lemma noted_traced: "noted ev m p = (Inr u, q) \<Longrightarrow> ev True \<in> set (pw_trace q)"
  by (cases "connector_op m p"; cases "fst (connector_op m p)")
    (auto simp: noted_def attempt_def andThen_def traced_def of_value_def raise_def ret_def)

lemma unregistered_traced:
  assumes "unregisterTumblrPushEndpoint P token p = (Inr u, q)" "\<not> blank token"
  shows "EndpointUnregistered (trim_space token) True \<in> set (pw_trace q)"
  using assms unfolding unregisterTumblrPushEndpoint_def Let_def
  by (auto simp: blank_def dest!: andThen_InrD dest: noted_traced split: if_splits)

lemma forgetting_on_record:
  assumes p: "on_record t p" and u: "unregisterTumblrPushEndpoint P (pr_Token r) p = (Inr x, q)" and "\<not> blank t"
    and f: "f = forget_retiring (Some r) \<or> f = forget_registration (Some r)"
  shows "on_record t (q\<lparr>pw_meta := (pw_meta q)\<lparr>um_PushKeys := f (um_PushKeys (pw_meta q))\<rparr>\<rparr>)"
proof -
  have q: "on_record t q" using keepingD [OF requests_on_record(3) p u] .
  have "excused t (pw_trace q) \<or> holds_endpoint t (f (um_PushKeys (pw_meta q)))"
  proof (cases "t = pr_Token r")
    case True
    then show ?thesis using unregistered_traced [OF u] assms(3) by (simp add: excused_def)
  next
    case False
    then show ?thesis using on_record_live [OF q] kept_forget [OF _ False] f by auto
  qed
  then show ?thesis by (rule on_record_put [OF q])
qed

lemma save_keeps_record: "on_record t p \<Longrightarrow> on_record t (snd (saveUserLogin P p))"
  using keepingD [OF save_on_record, of t p P] by (metis prod.collapse)

lemma retire_on_record:
  assumes "\<not> blank t"
  shows "moves (keeping (on_record t)) (retire_all P active rs)"
proof (induction rs)
  case (Cons r rs)
  show ?case
  proof (cases "r = None \<or> samePushRegistration r active")
    case False
    then obtain x where x: "r = Some x" by (cases r) auto
    show ?thesis
    proof (rule moves_keeping)
      fix p
      assume p: "on_record t p"
      obtain v q where q: "unregisterTumblrPushEndpoint P (pr_Token x) p = (v, q)" by fastforce
      have kept: "on_record t q" using keepingD [OF requests_on_record(3) p q] .
      show "on_record t (snd (retire_all P active (r # rs) p))"
      proof (cases v)
        case (Inl e)
        then show ?thesis using False x q kept by (simp add: andThen_def)
      next
        case (Inr u)
        let ?q = "q\<lparr>pw_meta := (pw_meta q)\<lparr>um_PushKeys := forget_retiring r (um_PushKeys (pw_meta q))\<rparr>\<rparr>"
        have "on_record t ?q" using forgetting_on_record [OF p] q Inr assms x by blast
        then have saved: "on_record t (snd (saveUserLogin P ?q))" by (rule save_keeps_record)
        obtain s q' where q': "saveUserLogin P ?q = (s, q')" by fastforce
        from saved have "on_record t (snd (retire_all P active rs (snd (saveUserLogin P ?q))))"
          using keepingD [OF Cons.IH] by (metis prod.collapse)
        then show ?thesis using False x q Inr kept saved q'
          by (simp add: andThen_def validated_locked_def the_keys_def put_keys_def split: sum.split prod.split)
      qed
    qed
  qed (simp add: Cons.IH)
qed (simp add: moves_ret)

lemma unregister_on_record:
  assumes "\<not> blank t"
  shows "list_all (\<lambda>r. r \<noteq> None) rs \<Longrightarrow> moves (keeping (on_record t)) (unregister_all P rs)"
proof (induction rs)
  case (Cons r rs)
  then obtain x where x: "r = Some x" by auto
  have IH: "on_record t p \<Longrightarrow> on_record t (snd (unregister_all P rs p))" for p
    using keepingD [OF Cons.IH] Cons.prems by (metis list.pred_inject(2) prod.collapse)
  show ?case
  proof (rule moves_keeping)
    fix p
    assume p: "on_record t p"
    obtain v q where q: "unregisterTumblrPushEndpoint P (pr_Token x) p = (v, q)" by fastforce
    have kept: "on_record t q" using keepingD [OF requests_on_record(3) p q] .
    show "on_record t (snd (unregister_all P (r # rs) p))"
    proof (cases v)
      case (Inl e)
      then show ?thesis using x q IH [OF kept] by (simp add: attempt_def)
    next
      case (Inr u)
      let ?q = "q\<lparr>pw_meta := (pw_meta q)\<lparr>um_PushKeys := forget_registration r (um_PushKeys (pw_meta q))\<rparr>\<rparr>"
      have "on_record t ?q" using forgetting_on_record [OF p] q Inr assms x by blast
      then have saved: "on_record t (snd (saveUserLogin P ?q))" by (rule save_keeps_record)
      obtain s q' where q': "saveUserLogin P ?q = (s, q')" by fastforce
      then show ?thesis using x q Inr kept IH [OF saved]
        by (simp add: attempt_def andThen_def validated_locked_def the_keys_def put_keys_def ret_def split: sum.split prod.split)
    qed
  qed
qed (simp add: moves_ret)

lemma registered_some: "list_all (\<lambda>r. r \<noteq> None) (registered_somewhere k)"
proof -
  have step: "list_all (\<lambda>r. r \<noteq> None) (fold (\<lambda>r rs. appendUniquePushRegistration rs r) xs rs)"
    if "list_all (\<lambda>r. r \<noteq> None) rs" for xs and rs :: "push_registration option list"
    using that by (induction xs arbitrary: rs) (simp_all add: appendUniquePushRegistration_def)
  show ?thesis unfolding registered_somewhere_def by (rule step) simp
qed

lemma cleanup_on_record [moves_intros]:
  assumes "\<not> blank t"
  shows "moves (keeping (on_record t)) (cleanupRetiringPushRegistrations P)"
    and "moves (keeping (on_record t)) (unregisterTumblrWebPush P)"
  unfolding cleanupRetiringPushRegistrations_def unregisterTumblrWebPush_def
  by (intro moves_intros retire_on_record unregister_on_record registered_some assms)+

section \<open>The receiver and its supervisor\<close>

lemma ids_on_record [moves_intros]:
  "moves (keeping (on_record t)) (savePushPersistentID P token i)"
  "moves (keeping (on_record t)) (clearPushPersistentIDs P token)"
proof -
  have put: "on_record t p \<Longrightarrow> on_record t (snd (pseq (put_keys (map_option (set_ids token f) (um_PushKeys (pw_meta p))))
      (saved_or_undone P (map_option (set_ids token g))) p))" for p f g
    using on_record_live [of t p] by (intro put_saved_on_record') (blast intro: kept_set_ids)+
  show "moves (keeping (on_record t)) (savePushPersistentID P token i)"
    unfolding savePushPersistentID_def Let_def
    by (intro moves_if moves_ret checked_keys_moves) (simp add: put ret_def split: option.split)
  show "moves (keeping (on_record t)) (clearPushPersistentIDs P token)"
    unfolding clearPushPersistentIDs_def
    by (intro checked_keys_moves) (simp add: put ret_def split: option.split)
qed

lemma payload_respects [moves_intros]: "worldless I \<Longrightarrow> moves (keeping I) (handleWebPushPayload P C data)"
  unfolding handleWebPushPayload_def routed_here_def Let_def by (intro moves_intros)

lemma state_on_record [moves_intros]:
  "moves (keeping (on_record t)) (sendBridgeState P st)" "moves (keeping (on_record t)) (sendLiveConnectionState P)"
proof -
  show 1: "moves (keeping (on_record t)) (sendBridgeState P st)" for st
    unfolding sendBridgeState_def by (intro moves_intros)
  have "moves (keeping (on_record t)) (sendGenerationState P st)" for st
    unfolding sendGenerationState_def by (intro moves_intros 1)
  then show "moves (keeping (on_record t)) (sendLiveConnectionState P)"
    unfolding moves_def sendLiveConnectionState_def by blast
qed

lemma reporting_on_record [moves_intros]:
  "moves (keeping (on_record t)) m \<Longrightarrow> moves (keeping (on_record t)) (reporting P m)"
  unfolding reporting_def by (intro moves_intros)

lemma marks_on_record [moves_intros]:
  "moves (keeping (on_record t)) (markPushConnected P)" "moves (keeping (on_record t)) (markPushTransient P code)"
  "moves (keeping (on_record t)) (startRetiringRegistrationCleanup P)"
  unfolding markPushConnected_def markPushTransient_def startRetiringRegistrationCleanup_def by (intro moves_intros)+

lemma moves_ignoring [moves_intros]: "moves R m \<Longrightarrow> moves R (ignoring m)"
  unfolding ignoring_def by (intro moves_intros)

lemma receive_on_record [moves_intros]:
  assumes "pending \<longrightarrow> is_registered registration"
  shows "moves (keeping (on_record t)) (receive P C ev registration pending)"
proof -
  have "moves (keeping (on_record t)) (on_connected P registration pending)"
    using assms unfolding on_connected_def by (cases pending) (auto intro!: moves_intros)
  moreover have "moves (keeping (on_record t)) (on_maintenance P registration pending)"
    unfolding on_maintenance_def tumblrPushReceiverRegistrationDue_def by (intro moves_intros)
  moreover have "moves (keeping (on_record t)) (on_message P C registration pending m)" for m
    unfolding on_message_def accept_message_def handlePushReceiverMessage_def by (intro moves_intros)
  ultimately show ?thesis
    unfolding receive_def Let_def by (intro moves_intros)
qed

text \<open>A loop that goes on has a registration that is registered, if it is pending.\<close>

definition receiver_ok :: "receiver \<Rightarrow> bool" where
  "receiver_ok st \<longleftrightarrow> (case st of Inl _ \<Rightarrow> True | Inr (registration, pending) \<Rightarrow> pending \<longrightarrow> is_registered registration)"

lemma receiver_ok_simps [simp]: "receiver_ok (Inl x)" "receiver_ok (Inr (r, b)) \<longleftrightarrow> (b \<longrightarrow> is_registered r)"
  by (simp_all add: receiver_ok_def)

lemma receive_returning:
  assumes "pending \<longrightarrow> is_registered registration"
  shows "returning (receive P C ev registration pending) receiver_ok"
proof -
  have "returning (on_connected P registration pending) receiver_ok"
    unfolding on_connected_def by (rule returning_attempt [OF returning_any]) (auto intro!: returning_intros)
  moreover have "returning (on_message P C registration pending m) receiver_ok" for m
    unfolding on_message_def using assms by (intro returning_attempt [OF returning_any]) (auto intro!: returning_intros)
  moreover have "returning (on_maintenance P registration pending) receiver_ok"
    unfolding on_maintenance_def
    by (rule returning_then, rule returning_if, intro returning_intros, simp, rule returning_andThen [OF refresh_returning])
      (use assms in \<open>auto intro!: returning_intros simp: same_endpoint_def is_registered_def\<close>)
  ultimately show ?thesis
    unfolding receive_def Let_def using assms by (cases ev) (auto intro!: returning_intros)
qed

lemma receive_all_on_record [moves_intros]:
  "pending \<longrightarrow> is_registered registration \<Longrightarrow> moves (keeping (on_record t)) (receive_all P C evs registration pending)"
proof (induction evs arbitrary: registration pending)
  case (Cons ev evs)
  show ?case
  proof (rule moves_keeping)
    fix p
    assume p: "on_record t p"
    obtain st q where q: "receive P C ev registration pending p = (st, q)" by fastforce
    have kept: "on_record t q" using keepingD [OF receive_on_record [OF Cons.prems] p q] .
    show "on_record t (snd (receive_all P C (ev # evs) registration pending p))"
    proof (cases st)
      case (Inl e)
      then show ?thesis using q kept by (simp add: andThen_def)
    next
      case (Inr x)
      have "receiver_ok x" using receive_returning [OF Cons.prems] q Inr unfolding returning_def by blast
      then have "on_record t (snd (receive_all P C evs (fst y) (snd y) q))" if "x = Inr y" for y
        using keepingD [OF Cons.IH kept] that by (cases y) (metis fst_conv prod.collapse receiver_ok_simps(2) snd_conv)
      then show ?thesis using q Inr kept by (auto simp: andThen_def ret_def split: sum.split)
    qed
  qed
qed (simp add: moves_ret)

lemma receive_all_returning:
  "pending \<longrightarrow> is_registered registration \<Longrightarrow> returning (receive_all P C evs registration pending) receiver_ok"
proof (induction evs arbitrary: registration pending)
  case (Cons ev evs)
  show ?case unfolding receive_all.simps
    by (rule returning_andThen [OF receive_returning [OF Cons.prems]])
      (auto intro!: returning_intros Cons.IH split: sum.split)
qed (auto intro: returning_basic)

definition supervision_ok :: "supervision \<Rightarrow> bool" where
  "supervision_ok st \<longleftrightarrow> (case st of Listening sv r pending \<Rightarrow> pending \<longrightarrow> is_registered r | _ \<Rightarrow> True)"

lemma supervision_ok_simps [simp]:
  "supervision_ok SupervisorDone" "supervision_ok (NextRound sv)" "supervision_ok (Listening sv r b) \<longleftrightarrow> (b \<longrightarrow> is_registered r)"
  by (simp_all add: supervision_ok_def)

lemma after_returning: "receiver_ok st \<Longrightarrow> returning (after_receiver sv st) supervision_ok"
  unfolding after_receiver_def wait_and_retry_def
  by (cases st) (auto intro!: returning_intros split: receiver_outcome.split)

lemma after_on_record [moves_intros]: "moves (keeping (on_record t)) (after_receiver sv st)"
  unfolding after_receiver_def wait_and_retry_def waitForPushRetry_def by (intro moves_intros)

lemma run_on_record [moves_intros]:
  assumes "pp_pending prepared \<longrightarrow> is_registered (pp_registration prepared)"
  shows "moves (keeping (on_record t)) (runPushReceiver P C evs prepared)"
  unfolding runPushReceiver_def by (intro moves_intros assms)

lemma run_returning:
  assumes "pp_pending prepared \<longrightarrow> is_registered (pp_registration prepared)"
  shows "returning (runPushReceiver P C evs prepared) receiver_ok"
  unfolding runPushReceiver_def by (intro returning_intros receive_all_returning assms) simp_all

lemma supervise_prepared_ok:
  assumes "prepared_ok x"
  shows "moves (keeping (on_record t)) (supervise_prepared P C evs sv x)"
    and "returning (supervise_prepared P C evs sv x) supervision_ok"
proof -
  have 1: "pp_pending y \<longrightarrow> is_registered (pp_registration y)" if "fst x = Some y" for y
    using assms that by (simp add: prepared_ok_def)
  have 2: "moves (keeping (on_record t)) (wait_and_retry sv)" "moves (keeping (on_record t)) (failGeneration P e)" for sv e
    unfolding wait_and_retry_def waitForPushRetry_def failGeneration_def by (intro moves_intros)+
  have 3: "returning (wait_and_retry sv) supervision_ok" for sv
    unfolding wait_and_retry_def by (auto intro!: returning_intros)
  show "moves (keeping (on_record t)) (supervise_prepared P C evs sv x)"
    unfolding supervise_prepared_def Let_def by (intro moves_intros 2) (simp add: 1)
  show "returning (supervise_prepared P C evs sv x) supervision_ok"
  proof (cases "fst x")
    case (Some y)
    have "returning (andThen (runPushReceiver P C evs y) (after_receiver sv)) supervision_ok" for sv
      by (rule returning_andThen [OF run_returning [OF 1 [OF Some]] after_returning])
    then show ?thesis unfolding supervise_prepared_def Let_def Some by (auto intro!: returning_intros)
  qed (auto simp: supervise_prepared_def Let_def intro!: returning_intros 3)
qed

lemma round_on_record:
  assumes "after_epoch P"
  shows "moves (keeping (on_record t)) (pushSupervisor_round P C evs sv)"
    and "returning (pushSupervisor_round P C evs sv) supervision_ok"
proof -
  have "moves (keeping (on_record t)) (andThen (preparePushRegistration P f v) (supervise_prepared P C evs sv))" for f v
  proof (rule moves_keeping)
    fix p
    assume p: "on_record t p"
    obtain r q where q: "preparePushRegistration P f v p = (r, q)" by fastforce
    have kept: "on_record t q" using keepingD [OF prepare_on_record [OF assms] p q] .
    show "on_record t (snd (andThen (preparePushRegistration P f v) (supervise_prepared P C evs sv) p))"
    proof (cases r)
      case (Inr x)
      then have "prepared_ok x" using prepare_returning [OF assms] q unfolding returning_def by blast
      then have "on_record t (snd (supervise_prepared P C evs sv x q))"
        using keepingD [OF supervise_prepared_ok(1) kept] by (metis prod.collapse)
      then show ?thesis using q Inr by (simp add: andThen_def)
    qed (use q kept in \<open>simp add: andThen_def\<close>)
  qed
  then show "moves (keeping (on_record t)) (pushSupervisor_round P C evs sv)"
    unfolding pushSupervisor_round_def
    by (auto intro!: moves_andThen [OF connector_respects [OF on_record_worldless]] simp: moves_ret)
  have "returning (andThen (preparePushRegistration P f v) (supervise_prepared P C evs sv)) supervision_ok" for f v
    by (rule returning_andThen [OF prepare_returning [OF assms] supervise_prepared_ok(2)])
  then show "returning (pushSupervisor_round P C evs sv) supervision_ok"
    unfolding pushSupervisor_round_def
    by (auto intro!: returning_then [where m = "connector_op m" for m] returning_basic)
qed

section \<open>Calls in any order\<close>

text \<open>What can happen to the component: a round of the supervisor, an event at the receiver that
  listens, the background cleanup, the framework's own registration, a push it delivers in the background, a change
  of other metadata, the logout (which stops the supervisor), a new connection (which clears what was reported), and a crash, after which the saved metadata is loaded.\<close>

datatype push_call =
    Round "receiver_event list"
  | Meet receiver_event
  | Cleanup
  | RegisterCall push_type string
  | Background nat "string option"
  | EditLogin "user_login_metadata \<Rightarrow> user_login_metadata"
  | Logout
  | Reconnect
  | Crash

definition supervised :: "(go_error + supervision) \<times> push_world \<Rightarrow> push_world \<times> supervision" where
  "supervised x = (snd x, case fst x of Inl _ \<Rightarrow> SupervisorDone | Inr st \<Rightarrow> st)"

definition reloaded :: "push_world \<Rightarrow> push_world" where
  "reloaded p = p\<lparr>pw_meta := pw_saved p, pw_forbidden := False, pw_unavailable := False, pw_push_down := None\<rparr>"

fun serve :: "push_env \<Rightarrow> push_codec \<Rightarrow> push_call \<Rightarrow> push_world \<times> supervision \<Rightarrow> push_world \<times> supervision" where
  "serve P C (Round evs) (p, st) =
     (case st of NextRound sv \<Rightarrow> supervised (pushSupervisor_round P C evs sv p) | _ \<Rightarrow> (p, st))"
| "serve P C (Meet ev) (p, st) =
     (case st of
        Listening sv r pending \<Rightarrow> supervised (andThen (receive P C ev r pending) (after_receiver sv) p)
      | _ \<Rightarrow> (p, st))"
| "serve P C Cleanup (p, st) = (snd (cleanupRetiringPushRegistrations P p), st)"
| "serve P C (RegisterCall ty token) (p, st) = (snd (RegisterPushNotifications P ty token p), st)"
| "serve P C (Background n data) (p, st) = (snd (ConnectBackground P C n data p), st)"
| "serve P C (EditLogin f) (p, st) =
     (p\<lparr>pw_meta := (f (pw_meta p))\<lparr>um_PushKeys := um_PushKeys (pw_meta p)\<rparr>\<rparr>, st)"
| "serve P C Logout (p, st) =
     (snd (LogoutRemote P p), if fst (connector_op (foreign (e_begin_owned (p_env P))) p) = Inr True then SupervisorDone else st)"
| "serve P C Reconnect (p, st) =
     (p\<lparr>pw_forbidden := False, pw_unavailable := False, pw_push_down := None\<rparr>, NextRound initial_supervisor)"
| "serve P C Crash (p, st) = (reloaded p, NextRound initial_supervisor)"

definition serve_all ::
  "push_env \<Rightarrow> push_codec \<Rightarrow> push_call list \<Rightarrow> push_world \<times> supervision \<Rightarrow> push_world \<times> supervision" where
  "serve_all P C calls s = fold (serve P C) calls s"

lemma meet_ok:
  assumes "pending \<longrightarrow> is_registered r"
  shows "moves (keeping (on_record t)) (andThen (receive P C ev r pending) (after_receiver sv))"
    and "returning (andThen (receive P C ev r pending) (after_receiver sv)) supervision_ok"
  by (intro moves_intros assms) (rule returning_andThen [OF receive_returning [OF assms] after_returning])

lemma supervised_ok:
  assumes "returning m supervision_ok" "moves (keeping (on_record t)) m" "on_record t p"
  shows "on_record t (fst (supervised (m p))) \<and> supervision_ok (snd (supervised (m p)))"
  using assms(1) keepingD [OF assms(2,3)] unfolding returning_def supervised_def
  by (cases "m p"; cases "fst (m p)") auto

lemma serve_on_record:
  assumes "after_epoch P" "\<not> blank t" and p: "on_record t p" and st: "supervision_ok st"
  shows "on_record t (fst (serve P C c (p, st))) \<and> supervision_ok (snd (serve P C c (p, st)))"
proof -
  have plain: "moves (keeping (on_record t)) m \<Longrightarrow> on_record t (snd (m p))" for m :: "unit push"
    using keepingD [of "on_record t" m p] p by (metis prod.collapse)
  have logout: "moves (keeping (on_record t)) (LogoutRemote P)"
    and register: "moves (keeping (on_record t)) (RegisterPushNotifications P ty token)"
    and background: "moves (keeping (on_record t)) (ConnectBackground P C n data)" for ty token n data
    unfolding LogoutRemote_def RegisterPushNotifications_def ConnectBackground_def by (intro moves_intros assms)+
  have round: "on_record t (fst (supervised (pushSupervisor_round P C evs sv p))) \<and>
      supervision_ok (snd (supervised (pushSupervisor_round P C evs sv p)))" for evs sv
    by (rule supervised_ok [OF round_on_record(2,1) [OF assms(1)] p])
  have meet: "on_record t (fst (supervised (andThen (receive P C ev r pending) (after_receiver sv) p))) \<and>
      supervision_ok (snd (supervised (andThen (receive P C ev r pending) (after_receiver sv) p)))"
    if "pending \<longrightarrow> is_registered r" for ev r pending sv
    by (rule supervised_ok [OF meet_ok(2,1) [OF that] p])
  show ?thesis
  proof (cases c)
    case (Round evs)
    then show ?thesis using p st round by (cases st) simp_all
  next
    case (Meet ev)
    then show ?thesis using p st meet by (cases st) simp_all
  qed (use p st plain [OF logout] plain [OF register] plain [OF background] plain [OF cleanup_on_record(1) [OF assms(2)]] in
      \<open>auto simp: on_record_def reloaded_def\<close>)
qed

lemma serve_all_on_record:
  assumes "after_epoch P" "\<not> blank t" "on_record t p" "supervision_ok st"
  shows "on_record t (fst (serve_all P C calls (p, st)))"
  using assms(3,4)
proof (induction calls arbitrary: p st)
  case (Cons c calls)
  have step: "on_record t (fst (serve P C c (p, st))) \<and> supervision_ok (snd (serve P C c (p, st)))"
    by (rule serve_on_record [OF assms(1,2) Cons.prems])
  obtain q st' where q: "serve P C c (p, st) = (q, st')" by fastforce
  then show ?case using Cons.IH [of q st'] step by (simp add: serve_all_def)
qed (simp add: serve_all_def)

end
