(* ===== verification/PushLiveness.thy ===== *)
theory PushLiveness
  imports PushSystem
begin

text \<open>
  When Google, the remote service and the database answer, one round of the supervisor ends with a
  connected receiver: whatever registration the login had, or none, it ends with a usable active one
  that is saved.
\<close>

section \<open>Operations that succeed\<close>

definition reaches :: "'a push \<Rightarrow> push_world \<Rightarrow> ('a \<Rightarrow> push_world \<Rightarrow> bool) \<Rightarrow> bool" where
  "reaches m p Q \<longleftrightarrow> (\<exists>x q. m p = (Inr x, q) \<and> Q x q)"

lemma reaches_ret [simp]: "reaches (ret x) p Q = Q x p"
  by (simp add: reaches_def ret_def)

lemma reaches_andThen: "reaches m p (\<lambda>x q. reaches (f x) q Q) \<Longrightarrow> reaches (andThen m f) p Q"
  by (auto simp: reaches_def andThen_def)

lemma reaches_attempt: "reaches m p (\<lambda>x q. reaches (f (Inr x)) q Q) \<Longrightarrow> reaches (attempt m f) p Q"
  by (auto simp: reaches_def attempt_def)

lemma reaches_wrapping: "reaches m p Q \<Longrightarrow> reaches (push_wrapping msg m) p Q"
  by (auto simp: reaches_def push_wrapping_def)

lemma reaches_weaken: "reaches m p Q \<Longrightarrow> (\<And>x q. Q x q \<Longrightarrow> Q' x q) \<Longrightarrow> reaches m p Q'"
  by (auto simp: reaches_def)

lemma reaches_then: "reaches m p R \<Longrightarrow> (\<And>x q. R x q \<Longrightarrow> reaches (f x) q Q) \<Longrightarrow> reaches (andThen m f) p Q"
  by (rule reaches_andThen) (rule reaches_weaken)

lemma reaches_trying:
  "reaches m p R \<Longrightarrow> (\<And>x q. R x q \<Longrightarrow> reaches (f (Inr x)) q Q) \<Longrightarrow> reaches (attempt m f) p Q"
  by (rule reaches_attempt) (rule reaches_weaken)

text \<open>An operation of the world that answers, as long as the world is live.\<close>

definition replies :: "(world \<Rightarrow> bool) \<Rightarrow> 'a act \<Rightarrow> ('a \<Rightarrow> bool) \<Rightarrow> bool" where
  "replies L m V \<longleftrightarrow> (\<forall>w. L w \<longrightarrow> (\<exists>x w'. m w = (Inr x, w') \<and> V x \<and> L w'))"

text \<open>The services answer: the context does not end, the client is logged in and current, Google
  checks in and registers completely, the remote service registers the endpoint, and the database
  saves.\<close>

definition services_answer :: "(world \<Rightarrow> bool) \<Rightarrow> push_env \<Rightarrow> bool" where
  "services_answer L P \<longleftrightarrow>
     replies L ctx_err (\<lambda>e. e = None) \<and>
     replies L (foreign (e_begin_owned (p_env P))) (\<lambda>owned. owned) \<and>
     replies L (foreign (e_client (p_env P))) (\<lambda>_. True) \<and>
     replies L (inbound_logged_in (p_inbound P)) (\<lambda>_. True) \<and>
     replies L (foreign (p_current P)) (\<lambda>yes. yes) \<and>
     replies L (foreign (p_logged_flag P)) (\<lambda>yes. yes) \<and>
     replies L (foreign (p_new_pair P)) (\<lambda>(public, private). public \<noteq> [] \<and> private \<noteq> []) \<and>
     replies L (foreign (p_new_auth P)) (\<lambda>auth. length auth = 16) \<and>
     (\<forall>c. replies L (foreign (p_checkin P c)) (\<lambda>_. True)) \<and>
     (\<forall>c a. replies L (foreign (p_register P c a)) (\<lambda>f. \<not> incomplete_fcm f)) \<and>
     (\<forall>m. replies L (foreign (p_update_login P m)) (\<lambda>_. True)) \<and>
     (\<forall>r. replies L (RegisterWebPushDevice (p_http P) r) (\<lambda>_. True)) \<and>
     (\<forall>w n. L w \<longrightarrow> L (w\<lparr>w_tick := n\<rparr>)) \<and>
     after_epoch P"

lemma service_answers:
  assumes "services_answer L P"
  shows "replies L ctx_err (\<lambda>e. e = None)"
    and "replies L (foreign (e_begin_owned (p_env P))) (\<lambda>owned. owned)"
    and "replies L (foreign (e_client (p_env P))) (\<lambda>_. True)"
    and "replies L (inbound_logged_in (p_inbound P)) (\<lambda>_. True)"
    and "replies L (foreign (p_current P)) (\<lambda>yes. yes)"
    and "replies L (foreign (p_logged_flag P)) (\<lambda>yes. yes)"
    and "replies L (foreign (p_new_pair P)) (\<lambda>(x, y). x \<noteq> [] \<and> y \<noteq> [])"
    and "replies L (foreign (p_new_auth P)) (\<lambda>auth. length auth = 16)"
    and "replies L (foreign (p_checkin P c)) (\<lambda>_. True)"
    and "replies L (foreign (p_register P c' a)) (\<lambda>f. \<not> incomplete_fcm f)"
    and "replies L (foreign (p_update_login P m)) (\<lambda>_. True)"
    and "replies L (RegisterWebPushDevice (p_http P) r) (\<lambda>_. True)"
    and "L w \<Longrightarrow> L (w\<lparr>w_tick := n\<rparr>)"
    and "after_epoch P"
  using assms unfolding services_answer_def by blast+

definition valid_login :: "push_env \<Rightarrow> user_login_metadata \<Rightarrow> bool" where
  "valid_login P m \<longleftrightarrow> \<not> isl (validateUserLoginMetadata (p_http P) m)"

lemma valid_login_keys [simp]: "valid_login P (m\<lparr>um_PushKeys := k\<rparr>) = valid_login P m"
  by (simp add: valid_login_def validateUserLoginMetadata_def normalizedUserLoginMetadata_def Let_def split: sum.split)

text \<open>The login is valid, nothing else keeps the connection down, and the keys are \<open>k\<close>; with
  \<open>settled_at\<close> the login is saved as it is in memory.\<close>

definition live_at :: "(world \<Rightarrow> bool) \<Rightarrow> push_env \<Rightarrow> push_keys option \<Rightarrow> push_world \<Rightarrow> bool" where
  "live_at L P k p \<longleftrightarrow>
     L (pw_world p) \<and> valid_login P (pw_meta p) \<and> um_PushKeys (pw_meta p) = k \<and> \<not> pw_forbidden p \<and> \<not> pw_unavailable p"

definition settled_at :: "(world \<Rightarrow> bool) \<Rightarrow> push_env \<Rightarrow> push_keys option \<Rightarrow> push_world \<Rightarrow> bool" where
  "settled_at L P k p \<longleftrightarrow> live_at L P k p \<and> pw_saved p = clone_metadata (pw_meta p)"

lemma connector_reaches:
  "replies L a V \<Longrightarrow> settled_at L P k p \<Longrightarrow> reaches (connector_op a) p (\<lambda>x q. V x \<and> settled_at L P k q)"
  unfolding replies_def reaches_def settled_at_def live_at_def connector_op_def by (auto split: prod.split) force

lemma connector_live:
  "replies L a V \<Longrightarrow> live_at L P k p \<Longrightarrow> reaches (connector_op a) p (\<lambda>x q. V x \<and> live_at L P k q)"
  unfolding replies_def reaches_def live_at_def connector_op_def by (auto split: prod.split) force

lemma now_reaches:
  assumes "services_answer L P" "settled_at L P k p"
  shows "reaches (push_now P) p (\<lambda>now q. 0 < unix_milli now \<and> settled_at L P k q)"
  using service_answers(13,14) [OF assms(1)] assms(2)
  by (simp add: reaches_def settled_at_def live_at_def push_now_def after_epoch_def)

lemma reads_reach:
  assumes "settled_at L P k p"
  shows "reaches the_keys p (\<lambda>x q. x = k \<and> settled_at L P k q)"
    and "reaches (validated_locked P) p (\<lambda>_ q. settled_at L P k q)"
    and "reaches (validatedLoginMetadata P) p (\<lambda>m q. um_PushKeys m = map_option clone_keys k \<and> settled_at L P k q)"
    and "reaches (traced e) p (\<lambda>_ q. settled_at L P k q)"
    and "reaches (put_keys k') p (\<lambda>_ q. live_at L P k' q)"
proof -
  obtain m where m: "validateUserLoginMetadata (p_http P) (pw_meta p) = Inr m"
    using assms by (cases "validateUserLoginMetadata (p_http P) (pw_meta p)") (auto simp: settled_at_def live_at_def valid_login_def)
  then have "m = pw_meta p" by (auto simp: validateUserLoginMetadata_def split: sum.splits)
  then show "reaches the_keys p (\<lambda>x q. x = k \<and> settled_at L P k q)"
    "reaches (validated_locked P) p (\<lambda>_ q. settled_at L P k q)"
    "reaches (validatedLoginMetadata P) p (\<lambda>m q. um_PushKeys m = map_option clone_keys k \<and> settled_at L P k q)"
    "reaches (traced e) p (\<lambda>_ q. settled_at L P k q)"
    "reaches (put_keys k') p (\<lambda>_ q. live_at L P k' q)"
    using assms m by (simp_all add: reaches_def the_keys_def validated_locked_def validatedLoginMetadata_def clone_metadata_def
        traced_def put_keys_def settled_at_def live_at_def)
qed

lemma pause_answers:
  assumes "services_answer L P"
  shows "replies L pause (\<lambda>_. True)"
  unfolding replies_def
proof (intro allI impI)
  fix w
  assume "L w"
  then obtain w' where "ctx_err w = (Inr None, w')" "L w'"
    using service_answers(1) [OF assms] unfolding replies_def by blast
  then show "\<exists>x w'. pause w = (Inr x, w') \<and> True \<and> L w'"
    by (simp add: pause_def andThen_def ret_def)
qed

lemma save_reaches:
  assumes "services_answer L P" "live_at L P k p"
  shows "reaches (saveUserLogin P) p (\<lambda>_ q. settled_at L P k q)"
proof -
  note s = service_answers [OF assms(1)]
  have wr: "reaches (write_login P) q (\<lambda>_ q. settled_at L P k q)" if live: "live_at L P k q" for q
  proof -
    obtain x w where "foreign (p_update_login P (clone_metadata (pw_meta q))) (pw_world q) = (Inr x, w)" "L w"
      using service_answers(11) [OF assms(1), where m = "clone_metadata (pw_meta q)"] live
      unfolding replies_def live_at_def by blast
    then show ?thesis using live
      by (simp add: reaches_def write_login_def Let_def connector_op_def settled_at_def live_at_def)
  qed
  have paused: "reaches (connector_op pause) q (\<lambda>_ q. live_at L P k q)" if "live_at L P k q" for q
    by (rule reaches_weaken [OF connector_live [OF pause_answers [OF assms(1)] that]]) simp
  show ?thesis
    unfolding saveUserLogin_def saveOwnedUserLogin_def
    by (rule reaches_then [OF connector_live [OF s(2) assms(2)]]) (auto intro!: reaches_then [OF paused] wr)
qed

lemma saving_reaches:
  assumes "services_answer L P" "live_at L P k p"
  shows "reaches (saved_or_undone P undo) p (\<lambda>_ q. settled_at L P k q)"
  unfolding saved_or_undone_def by (rule reaches_trying [OF save_reaches [OF assms]]) simp

lemma put_saved_reaches:
  assumes "services_answer L P" "settled_at L P k p"
  shows "reaches (pseq (put_keys k') (saved_or_undone P undo)) p (\<lambda>_ q. settled_at L P k' q)"
    and "reaches (pseq (put_keys k') (push_wrapping msg (saved_or_undone P undo))) p (\<lambda>_ q. settled_at L P k' q)"
  by (rule reaches_then [OF reads_reach(5) [OF assms(2)]], rule saving_reaches [OF assms(1)], assumption)
    (rule reaches_then [OF reads_reach(5) [OF assms(2)]], rule reaches_wrapping [OF saving_reaches [OF assms(1)]], assumption)

section \<open>Registering\<close>

definition fresh_or_same :: "push_keys option \<Rightarrow> push_keys \<Rightarrow> bool" where
  "fresh_or_same k k' \<longleftrightarrow> (if complete_keys k then k = Some k' else pk_Active k' = None \<and> pk_Pending k' = None)"

lemma ensure_reaches:
  assumes s: "services_answer L P" and p: "settled_at L P k p"
  shows "reaches (ensurePushKeyMaterial P) p
    (\<lambda>_ q. \<exists>k'. settled_at L P (Some k') q \<and> complete_keys (Some k') \<and> fresh_or_same k k')"
proof -
  note s' = service_answers [OF s]
  let ?undo = "\<lambda>_ :: push_keys option. map_option clone_keys k"
  let ?Q = "\<lambda>(_ :: unit) q. \<exists>k'. settled_at L P (Some k') q \<and> complete_keys (Some k') \<and> fresh_or_same k k'"
  have "reaches (andThen (ensurePushKeys P) (\<lambda>changed. if \<not> changed then ret ()
      else push_wrapping ''failed to save Tumblr web push keys'' (saved_or_undone P ?undo))) q ?Q"
    if q: "settled_at L P k q" for q
  proof (cases "complete_keys k")
    case True
    then obtain x where "k = Some x" by (cases k) (auto simp: complete_keys_def)
    then show ?thesis using True q
      by (auto simp: reaches_def ensurePushKeys_def andThen_def the_keys_def ret_def settled_at_def live_at_def fresh_or_same_def)
  next
    case False
    let ?R = "\<lambda>changed q'. changed \<and> (\<exists>k'. live_at L P (Some k') q' \<and> complete_keys (Some k') \<and> fresh_or_same k k')"
    have put: "reaches (pseq (put_keys (Some \<lparr>pk_Active = None, pk_Pending = None, pk_Retiring = [],
               pk_P256DH = a, pk_Auth = auth, pk_Private = b\<rparr>)) (ret True)) q' ?R"
      if "a \<noteq> []" "b \<noteq> []" "length auth = 16" "settled_at L P k q'" for a b auth q'
      using that(1-3) False
      by (intro reaches_then [OF reads_reach(5) [OF that(4)]]) (auto simp: complete_keys_def fresh_or_same_def)
    have made: "reaches (ensurePushKeys P) q ?R"
      unfolding ensurePushKeys_def
      apply (rule reaches_then [OF reads_reach(1) [OF q]])
      apply (simp add: False del: not_None_eq)
      apply (rule reaches_then [OF reaches_wrapping [OF connector_reaches [OF s'(7)]]], simp)
      apply clarsimp
      apply (rule reaches_then [OF reaches_wrapping [OF connector_reaches [OF s'(8)]]], assumption)
      apply (blast intro: put)
      done
    show ?thesis
      by (rule reaches_then [OF made]) (auto intro!: reaches_wrapping reaches_trying [OF save_reaches [OF s]] simp: saved_or_undone_def)
  qed
  then show ?thesis
    unfolding ensurePushKeyMaterial_def
    by (intro reaches_then [OF reads_reach(2) [OF p]] reaches_then [OF reads_reach(1)]) auto
qed

lemma register_reaches:
  assumes s: "services_answer L P" and p: "settled_at L P (Some k) p" and k: "complete_keys (Some k)" and t: "\<not> blank token"
  shows "reaches (registerTumblrPushEndpoint P WebPush token) p (\<lambda>_ q. settled_at L P (Some k) q)"
proof -
  note s' = service_answers [OF s]
  have request: "reaches (noted ev (RegisterWebPushDevice (p_http P) r)) q (\<lambda>_ q. settled_at L P (Some k) q)"
    if "settled_at L P (Some k) q" for q ev r
    unfolding noted_def
    by (rule reaches_trying [OF connector_reaches [OF s'(12) that]])
      (auto intro!: reaches_then [OF reads_reach(4)] simp: of_value_def)
  have material: "reaches (ensurePushKeyMaterial P) q (\<lambda>_ q. settled_at L P (Some k) q)" if "settled_at L P (Some k) q" for q
    by (rule reaches_weaken [OF ensure_reaches [OF s that]]) (auto simp: fresh_or_same_def k)
  have ks: "\<exists>x. encodedPushKeys m = Inr x" if "um_PushKeys m = Some (clone_keys k)" for m :: user_login_metadata
    using that k by (auto simp: encodedPushKeys_def clone_keys_def complete_keys_def)
  have rest: "reaches (andThen (validatedLoginMetadata P) (\<lambda>meta.
             andThen (of_value (encodedPushKeys meta)) (\<lambda>ks.
             push_wrapping msg (noted ev (RegisterWebPushDevice (p_http P) (NewWebPushDeviceRegistration tok ks)))))) q
      (\<lambda>_ q. settled_at L P (Some k) q)" if "settled_at L P (Some k) q" for q msg ev tok
  proof (rule reaches_then [OF reads_reach(3) [OF that]], elim conjE)
    fix m :: user_login_metadata and q'
    assume "um_PushKeys m = map_option clone_keys (Some k)" and q': "settled_at L P (Some k) q'"
    then obtain x where "encodedPushKeys m = Inr x" using ks [of m] by auto
    then show "reaches (andThen (of_value (encodedPushKeys m)) (\<lambda>ks.
             push_wrapping msg (noted ev (RegisterWebPushDevice (p_http P) (NewWebPushDeviceRegistration tok ks))))) q'
      (\<lambda>_ q. settled_at L P (Some k) q)"
      by (simp add: of_value_def) (rule reaches_andThen, simp, rule reaches_wrapping, rule request [OF q'])
  qed
  show ?thesis
    unfolding registerTumblrPushEndpoint_def Let_def using t
    by (simp add: blank_def)
      (rule reaches_then [OF connector_reaches [OF s'(4) p]], elim conjE,
        rule reaches_then [OF connector_reaches [OF s'(3)]], assumption, elim conjE,
        rule reaches_then [OF material], assumption, rule rest)
qed

lemma finish_reaches:
  assumes s: "services_answer L P" and p: "settled_at L P (Some k) p" and k: "complete_keys (Some k)"
    and c: "pk_Pending k = Some c" "\<not> blank (pr_Token c)"
  shows "reaches (finishPendingPushRegistration P c) p
    (\<lambda>r q. \<exists>ts. 0 < ts \<and> r = c\<lparr>pr_FCMRegisteredTS := ts\<rparr> \<and> settled_at L P (Some (k\<lparr>pk_Pending := Some r\<rparr>)) q)"
proof (cases "0 < pr_FCMRegisteredTS c")
  case True
  have "settled_at L P (Some (k\<lparr>pk_Pending := Some c\<rparr>)) p" using p c(1) by (cases k) simp
  then show ?thesis using c True by (auto simp: finishPendingPushRegistration_def intro!: exI [of _ "pr_FCMRegisteredTS c"])
next
  case False
  have mark: "mark_pending c ts (Some k) = Some (k\<lparr>pk_Pending := Some (c\<lparr>pr_FCMRegisteredTS := ts\<rparr>)\<rparr>)" for ts
    by (simp add: mark_pending_def c)
  have rest: "reaches (andThen the_keys (\<lambda>k.
             if \<not> samePushRegistration (Option.bind k pk_Pending) (Some c)
             then pfail msg
             else pseq (put_keys (mark_pending c now k))
               (pseq (push_wrapping msg' (saved_or_undone P (mark_pending c 0)))
               (ret (c\<lparr>pr_FCMRegisteredTS := now\<rparr>))))) q
    (\<lambda>r q. \<exists>ts. 0 < ts \<and> r = c\<lparr>pr_FCMRegisteredTS := ts\<rparr> \<and> settled_at L P (Some (k\<lparr>pk_Pending := Some r\<rparr>)) q)"
    if "0 < now" "settled_at L P (Some k) q" for msg msg' now q
  proof (rule reaches_then [OF reads_reach(1) [OF that(2)]], elim conjE, hypsubst)
    fix q'
    assume q': "settled_at L P (Some k) q'"
    show "reaches (if \<not> samePushRegistration (Option.bind (Some k) pk_Pending) (Some c)
             then pfail msg
             else pseq (put_keys (mark_pending c now (Some k)))
               (pseq (push_wrapping msg' (saved_or_undone P (mark_pending c 0)))
               (ret (c\<lparr>pr_FCMRegisteredTS := now\<rparr>)))) q'
    (\<lambda>r q. \<exists>ts. 0 < ts \<and> r = c\<lparr>pr_FCMRegisteredTS := ts\<rparr> \<and> settled_at L P (Some (k\<lparr>pk_Pending := Some r\<rparr>)) q)"
      using that(1)
      by (simp add: c mark)
        (rule reaches_then [OF reads_reach(5) [OF q']], rule reaches_then [OF reaches_wrapping [OF saving_reaches [OF s]]],
          assumption, auto)
  qed
  show ?thesis
    using False c(2) unfolding finishPendingPushRegistration_def
    by simp (rule reaches_trying [OF register_reaches [OF s p k c(2)]], simp, rule reaches_then [OF now_reaches [OF s]],
      assumption, elim conjE, rule reaches_then [OF reads_reach(2)], assumption, rule rest)
qed

lemma decimal_not_Nil: "decimal n \<noteq> []"
  by (subst decimal.simps) simp

lemma parse_format [simp]: "parse_uint (format_uint w) = Some w"
proof -
  have "unat w < 18446744073709551616" using unsigned_less [of w] by simp
  then show ?thesis
    using decimal_digits [of _ "unat w"]
    by (auto simp: parse_uint_def format_uint_def decimal_value_decimal list_all_iff decimal_not_Nil)
qed

lemma usable_iff:
  "usable (Some r) \<longleftrightarrow> \<not> blank (pr_Token r) \<and> \<not> blank (pr_FCMAppID r) \<and> 0 < pr_FCMRegisteredTS r \<and>
     (\<exists>x. credentials r = Inr (Some x))"
  by (auto simp: usable_def split: sum.splits option.splits)

lemma decimal_not_blank [simp]: "\<not> blank (decimal n)"
proof -
  obtain c where "c \<in> set (decimal n)" using decimal_not_Nil [of n] by (cases "decimal n") auto
  then show ?thesis using decimal_digits [of c n] by (intro not_blank_visible) auto
qed

lemma trim_decimal: "trim_space (decimal n) = decimal n"
proof (rule trim_space_visible)
  have "visible c" if "c \<in> set (decimal n)" for c using decimal_digits [OF that] by (simp add: visible_def)
  then show "visible (hd (decimal n))" "visible (last (decimal n))" by (simp_all add: decimal_not_Nil)
qed (rule decimal_not_Nil)

lemma credentials_times [simp]:
  "credentials (r\<lparr>pr_FCMRegisteredTS := ts\<rparr>) = credentials r" "credentials (r\<lparr>pr_LastCheckinTS := ts\<rparr>) = credentials r"
  "credentials (r\<lparr>pr_PersistentIDs := ids\<rparr>) = credentials r"
  by (simp_all add: credentials_def cong: option.case_cong)

lemma set_credentials [simp]: "credentials (setCredentials creds r) = Inr (Some creds)"
proof -
  have "trim_space (format_uint w) = format_uint w" "\<not> blank (format_uint w)" for w
    by (simp_all add: format_uint_def trim_decimal)
  then show ?thesis by (simp add: credentials_def setCredentials_def)
qed

lemma setCredentials_simps [simp]:
  "pr_Token (setCredentials c r) = pr_Token r" "pr_FCMAppID (setCredentials c r) = pr_FCMAppID r"
  "pr_FCMRegisteredTS (setCredentials c r) = pr_FCMRegisteredTS r" "pr_LastCheckinTS (setCredentials c r) = pr_LastCheckinTS r"
  by (simp_all add: setCredentials_def)

text \<open>The registrations the login may start with: whatever was stored by the code itself.\<close>

definition sound_registrations :: "push_keys \<Rightarrow> bool" where
  "sound_registrations k \<longleftrightarrow>
     (case pk_Active k of None \<Rightarrow> True | Some a \<Rightarrow> \<not> isl (credentials a)) \<and>
     (case pk_Pending k of None \<Rightarrow> True | Some c \<Rightarrow> usable (Some (c\<lparr>pr_FCMRegisteredTS := 1\<rparr>)))"

lemma fcm_reaches:
  assumes s: "services_answer L P" and p: "settled_at L P k p" and "0 < n"
  shows "reaches (fcm_attempts n P creds a) p (\<lambda>f q. \<not> incomplete_fcm (Some f) \<and> settled_at L P k q)"
proof -
  obtain m where n: "n = Suc m" using assms(3) by (cases n) auto
  have the: "\<not> incomplete_fcm (Some (the f))" if "\<not> incomplete_fcm f" for f
    using that by (cases f) (simp_all add: incomplete_fcm_def)
  show ?thesis
    unfolding n fcm_attempts.simps
    by (rule reaches_then [OF reaches_wrapping [OF connector_reaches [OF service_answers(10) [OF s] p]]]) (simp add: the)
qed

lemma checked_in_reaches:
  assumes s: "services_answer L P" and p: "settled_at L P k p"
    and a: "\<And>x. active = Some x \<Longrightarrow> \<not> forceNew \<Longrightarrow> \<not> isl (credentials x)"
  shows "reaches (checked_in P active forceNew) p (\<lambda>_ q. settled_at L P k q)"
proof -
  have checkin: "reaches (push_wrapping msg (attempt (connector_op (foreign (p_checkin P c))) (\<lambda>r.
        case r of
          Inr c \<Rightarrow> ret (c, forceNew)
        | Inl e \<Rightarrow> f e))) q (\<lambda>_ q. settled_at L P k q)" if "settled_at L P k q" for q c f msg
    by (rule reaches_wrapping, rule reaches_trying [OF connector_reaches [OF service_answers(9) [OF s] that]]) simp
  have known: "reaches (case active of
         Some a \<Rightarrow> if forceNew then ret None else of_value (credentials a)
       | None \<Rightarrow> ret None) p (\<lambda>_ q. settled_at L P k q)"
    using p a by (auto simp: of_value_def isl_def split: option.split sum.split)
  show ?thesis
    unfolding checked_in_def by (rule reaches_then [OF known]) (rule checkin)
qed

lemma persist_reaches:
  assumes s: "services_answer L P" and p: "settled_at L P (Some k) p"
  shows "reaches (persistPendingPushRegistration P c) p (\<lambda>_ q. settled_at L P (Some (stage_keys c k)) q)"
  unfolding persistPendingPushRegistration_def
  by (rule reaches_then [OF reads_reach(2) [OF p]], rule reaches_then [OF reads_reach(1)], assumption)
    (auto intro: put_saved_reaches(2) [OF s])

lemma stage_reaches:
  assumes s: "services_answer L P" and p: "settled_at L P (Some k) p" and k: "complete_keys (Some k)"
    and a: "\<And>x. active = Some x \<Longrightarrow> \<not> forceNew \<Longrightarrow> \<not> isl (credentials x)"
  shows "reaches (stagePushRegistration P active forceNew) p
    (\<lambda>r q. \<exists>k'. settled_at L P (Some k') q \<and> complete_keys (Some k') \<and> pk_Pending k' = Some r \<and> usable (Some r))"
    (is "reaches _ p ?Q")
proof -
  have finished: "reaches (finishPendingPushRegistration P c) q ?Q"
    if "settled_at L P (Some (stage_keys c k)) q" "usable (Some (c\<lparr>pr_FCMRegisteredTS := 1\<rparr>))" for q c
  proof (rule reaches_weaken [OF finish_reaches [OF s that(1)]])
    show "complete_keys (Some (stage_keys c k))" "pk_Pending (stage_keys c k) = Some c"
      using k by (simp_all add: stage_keys_def complete_keys_def)
    show "\<not> blank (pr_Token c)" using that(2) by (simp add: usable_iff)
    fix r q'
    assume "\<exists>ts. 0 < ts \<and> r = c\<lparr>pr_FCMRegisteredTS := ts\<rparr> \<and> settled_at L P (Some (stage_keys c k\<lparr>pk_Pending := Some r\<rparr>)) q'"
    then show "?Q r q'"
      using k that(2) by (intro exI [of _ "stage_keys c k\<lparr>pk_Pending := Some r\<rparr>"])
        (auto simp: stage_keys_def complete_keys_def usable_iff)
  qed
  have endpoint: "\<not> blank (fcm_endpoint t)" for t
    by (rule not_blank_visible [of "CHR ''h''"]) (simp_all add: fcm_endpoint_def)
  show ?thesis
    unfolding stagePushRegistration_def Let_def
    apply (rule reaches_then [OF checked_in_reaches [OF s p a]], assumption, assumption)
    apply clarsimp
    apply (rule reaches_then [OF fcm_reaches [OF s]], assumption, simp add: tumblrPushRegistrationAttempts_def)
    apply (elim conjE)
    apply (rule reaches_then [OF now_reaches [OF s]], assumption, elim conjE)
    apply (rule reaches_then [OF reads_reach(4)], assumption)
    apply (rule reaches_then [OF persist_reaches [OF s]], assumption)
    apply (rule finished, assumption)
    apply (simp add: usable_iff endpoint incomplete_fcm_def setCredentials_def [symmetric] setCredentials_simps)
    done
qed

section \<open>Preparing and connecting\<close>

text \<open>The keys hold the registration \<open>r\<close> to connect with, pending or active.\<close>

definition offered :: "bool \<Rightarrow> push_registration \<Rightarrow> push_keys \<Rightarrow> bool" where
  "offered pending r k \<longleftrightarrow>
     complete_keys (Some k) \<and> check_target pending k = Some r \<and> usable (Some r) \<and> (\<not> pending \<longrightarrow> pk_Pending k = None)"

lemma refresh_reaches:
  assumes s: "services_answer L P" and p: "settled_at L P (Some k) p" and k: "offered pending r k"
  shows "reaches (refreshPushRegistrationCheckin P r pending True) p
    (\<lambda>x q. snd x = None \<and> (\<exists>k'. settled_at L P (Some k') q \<and> offered pending (fst x) k'))" (is "reaches _ p ?Q")
proof -
  obtain creds where creds: "credentials r = Inr (Some creds)" using k by (auto simp: offered_def usable_iff)
  have keys: "\<exists>k'. checked_keys pending c ts (Some k) = Some k' \<and> offered pending ((setCredentials c r)\<lparr>pr_LastCheckinTS := ts\<rparr>) k'" for c ts
    using k by (auto simp: checked_keys_def offered_def check_target_def complete_keys_def usable_iff Let_def split: if_splits)
  have store: "reaches (store_checkin P r pending c) q ?Q" if q: "settled_at L P (Some k) q" for c q
    unfolding store_checkin_def
  proof (rule reaches_trying [OF reads_reach(2) [OF q]], simp, rule reaches_then [OF reads_reach(1)], assumption, elim conjE, hypsubst)
    fix q'
    assume q': "settled_at L P (Some k) q'"
    have "reaches (andThen (push_now P) (\<lambda>now.
        pseq (put_keys (checked_keys pending c (unix_milli now) (Some k)))
        (attempt (saveUserLogin P) (\<lambda>x.
         ret ((setCredentials c r)\<lparr>pr_LastCheckinTS := unix_milli now\<rparr>, case x of Inl e \<Rightarrow> Some e | Inr _ \<Rightarrow> None))))) q' ?Q"
    proof (rule reaches_then [OF now_reaches [OF s q']], elim conjE)
      fix now q2
      assume q2: "settled_at L P (Some k) q2"
      obtain k' where k': "checked_keys pending c (unix_milli now) (Some k) = Some k'"
        "offered pending ((setCredentials c r)\<lparr>pr_LastCheckinTS := unix_milli now\<rparr>) k'" using keys by blast
      show "reaches (pseq (put_keys (checked_keys pending c (unix_milli now) (Some k)))
        (attempt (saveUserLogin P) (\<lambda>x.
         ret ((setCredentials c r)\<lparr>pr_LastCheckinTS := unix_milli now\<rparr>, case x of Inl e \<Rightarrow> Some e | Inr _ \<Rightarrow> None)))) q2 ?Q"
        unfolding k'(1)
        by (rule reaches_then [OF reads_reach(5) [OF q2]], rule reaches_trying [OF save_reaches [OF s]], assumption)
          (use k'(2) in auto)
    qed
    then show "reaches (case Some k of None \<Rightarrow> ret (r, Some keys_missing)
         | Some x \<Rightarrow>
             (case check_target pending x of
                None \<Rightarrow> ret (r, None)
              | Some target \<Rightarrow>
                  if \<not> samePushRegistration (Some target) (Some r) \<or> pr_LastCheckinTS r < pr_LastCheckinTS target
                  then ret (r, None)
                  else andThen (push_now P) (\<lambda>now.
                    pseq (put_keys (checked_keys pending c (unix_milli now) (Some k)))
                    (attempt (saveUserLogin P) (\<lambda>ra.
                     ret ((setCredentials c r)\<lparr>pr_LastCheckinTS := unix_milli now\<rparr>,
                       case ra of Inl e \<Rightarrow> Some e | Inr _ \<Rightarrow> None)))))) q' ?Q"
      using k by (simp add: offered_def)
  qed
  show ?thesis
    unfolding refreshPushRegistrationCheckin_def
    by (rule reaches_andThen)
      (simp add: checkin_due_def creds, rule reaches_trying [OF connector_reaches [OF service_answers(9) [OF s] p]], simp add: store)
qed

definition prepared_with :: "(world \<Rightarrow> bool) \<Rightarrow> push_env \<Rightarrow> prepared \<Rightarrow> push_world \<Rightarrow> bool" where
  "prepared_with L P x q \<longleftrightarrow> snd x = None \<and>
     (\<exists>pr k. fst x = Some pr \<and> settled_at L P (Some k) q \<and> offered (pp_pending pr) (pp_registration pr) k)"

lemma staged_reaches:
  assumes "services_answer L P" "settled_at L P (Some k) p" "complete_keys (Some k)"
    and "\<And>x. active = Some x \<Longrightarrow> \<not> forceNew \<Longrightarrow> \<not> isl (credentials x)"
  shows "reaches (staged P active forceNew other) p (prepared_with L P)"
  unfolding staged_def
  by (rule reaches_trying [OF stage_reaches [OF assms]]) (auto simp: prepared_with_def offered_def check_target_def)

lemma checked_reaches:
  assumes "services_answer L P" "settled_at L P (Some k) p" "offered pending r k"
  shows "reaches (checked_or_staged P active r pending) p (prepared_with L P)"
  unfolding checked_or_staged_def
  by (rule reaches_then [OF refresh_reaches [OF assms]]) (auto simp: prepared_with_def split: prod.split)

lemma prepare_pending_reaches:
  assumes s: "services_answer L P" and p: "settled_at L P (Some k) p" and k: "complete_keys (Some k)" "sound_registrations k"
    and c: "pk_Pending k = Some c"
  shows "reaches (prepare_pending P active c v) p (prepared_with L P)"
proof -
  have u: "usable (Some (c\<lparr>pr_FCMRegisteredTS := 1\<rparr>))" using k(2) c by (simp add: sound_registrations_def)
  then have b: "\<not> blank (pr_Token c)" by (simp add: usable_iff)
  show ?thesis
    unfolding prepare_pending_def
  proof (rule reaches_trying [OF finish_reaches [OF s p k(1) c b]], elim exE conjE)
    fix r q ts
    assume r: "0 < ts" "r = c\<lparr>pr_FCMRegisteredTS := ts\<rparr>" and q: "settled_at L P (Some (k\<lparr>pk_Pending := Some r\<rparr>)) q"
    have o: "offered True r (k\<lparr>pk_Pending := Some r\<rparr>)"
      using k(1) u r by (simp add: offered_def check_target_def complete_keys_def usable_iff)
    show "reaches (case Inr r of
         Inl e \<Rightarrow> ret (usable_active active, Some e)
       | Inr finished \<Rightarrow>
           if v then checked_or_staged P active finished True
           else ret (Some \<lparr>pp_registration = finished, pp_pending = True\<rparr>, None)) q (prepared_with L P)"
      using checked_reaches [OF s q o] q o by (auto simp: prepared_with_def)
  qed
qed

lemma prepare_active_reaches:
  assumes s: "services_answer L P" and p: "settled_at L P (Some k) p" and k: "complete_keys (Some k)" "sound_registrations k"
    and c: "forceNew \<or> pk_Pending k = None"
  shows "reaches (prepare_active P (pk_Active k) forceNew v) p (prepared_with L P)"
proof -
  let ?R = "\<lambda>current q. settled_at L P (Some k) q \<and> (current \<longrightarrow> \<not> forceNew \<and> usable (pk_Active k))"
  have due: "reaches (if \<not> forceNew \<and> usable (pk_Active k)
         then andThen (tumblrPushReceiverRegistrationDue P (the (pk_Active k))) (\<lambda>due. ret (\<not> due)) else ret False) p ?R"
    using p by (auto simp: tumblrPushReceiverRegistrationDue_def
        intro!: reaches_then [where R = "\<lambda>_ q. settled_at L P (Some k) q"] reaches_then [OF now_reaches [OF s]])
  have credentialed: "\<not> isl (credentials x)" if "pk_Active k = Some x" for x
    using k(2) that by (simp add: sound_registrations_def)
  show ?thesis
    unfolding prepare_active_def
  proof (rule reaches_then [OF due])
    fix current q
    assume q: "?R current q"
    have o: "offered False (the (pk_Active k)) k" if current
      using q that c k(1) by (cases "pk_Active k") (auto simp: offered_def check_target_def usable_def)
    show "reaches (if current then
       (if v then checked_or_staged P (pk_Active k) (the (pk_Active k)) False
        else ret (usable_active (pk_Active k), None))
     else staged P (pk_Active k) forceNew (if forceNew then None else usable_active (pk_Active k), None)) q (prepared_with L P)"
      using checked_reaches [OF s _ o, of q] staged_reaches [OF s _ k(1) credentialed, of q] q o
      by (auto simp: prepared_with_def usable_active_def)
  qed
qed

lemma sound_fresh: "pk_Active k' = None \<Longrightarrow> pk_Pending k' = None \<Longrightarrow> sound_registrations k'"
  by (simp add: sound_registrations_def)

definition sound_login :: "push_keys option \<Rightarrow> bool" where
  "sound_login k \<longleftrightarrow> (case k of Some x \<Rightarrow> complete_keys k \<longrightarrow> sound_registrations x | None \<Rightarrow> True)"

lemma prepare_reaches:
  assumes s: "services_answer L P" and p: "settled_at L P k p" and k: "sound_login k"
  shows "reaches (preparePushRegistration P forceNew v) p (prepared_with L P)"
proof -
  have body: "reaches (prepare_body P forceNew v) p (prepared_with L P)"
    unfolding prepare_body_def
  proof (rule reaches_then [OF connector_reaches [OF service_answers(4) [OF s] p]], elim conjE,
      rule reaches_then [OF ensure_reaches [OF s]], assumption, elim exE conjE)
    fix q k'
    assume q: "settled_at L P (Some k') q" and k': "complete_keys (Some k')" "fresh_or_same k k'"
    have sound: "sound_registrations k'"
      using k' k by (auto simp: fresh_or_same_def sound_login_def sound_fresh split: if_splits)
    show "reaches (andThen (validatedLoginMetadata P) (\<lambda>meta.
      case um_PushKeys meta of
        None \<Rightarrow> raise keys_missing
      | Some k \<Rightarrow>
          if \<not> forceNew \<and> pk_Pending k \<noteq> None
          then prepare_pending P (pk_Active k) (the (pk_Pending k)) v
          else prepare_active P (pk_Active k) forceNew v)) q (prepared_with L P)"
    proof (rule reaches_then [OF reads_reach(3) [OF q]], elim conjE)
      fix m :: user_login_metadata and q'
      assume m: "um_PushKeys m = map_option clone_keys (Some k')" and q': "settled_at L P (Some k') q'"
      show "reaches (case um_PushKeys m of
        None \<Rightarrow> raise keys_missing
      | Some k \<Rightarrow>
          if \<not> forceNew \<and> pk_Pending k \<noteq> None
          then prepare_pending P (pk_Active k) (the (pk_Pending k)) v
          else prepare_active P (pk_Active k) forceNew v) q' (prepared_with L P)"
        using prepare_pending_reaches [OF s q' k'(1) sound] prepare_active_reaches [OF s q' k'(1) sound] m
        by (auto simp: clone_keys_def)
    qed
  qed
  show ?thesis
    unfolding preparePushRegistration_def by (rule reaches_trying [OF body]) simp
qed

text \<open>The connection comes up: what is pending is promoted, and the user sees that the bridge is
  connected.\<close>

definition connected_with :: "(world \<Rightarrow> bool) \<Rightarrow> push_env \<Rightarrow> push_registration \<Rightarrow> push_world \<Rightarrow> bool" where
  "connected_with L P r q \<longleftrightarrow>
     (\<exists>k a. settled_at L P (Some k) q \<and> complete_keys (Some k) \<and> pk_Active k = Some a \<and> pk_Pending k = None \<and>
       usable (Some a) \<and> samePushRegistration (Some a) (Some r))"

lemma live_state_connected: "settled_at L P k p \<Longrightarrow> pw_push_down p = None \<Longrightarrow> live_state p = Connected"
  by (simp add: live_state_def settled_at_def live_at_def)

text \<open>The user has been told that the bridge is connected.\<close>

definition told :: "push_world \<Rightarrow> bool" where
  "told q \<longleftrightarrow> StateSent Connected \<in> set (pw_trace q)"

lemma told_grows: "trace_grows\<^sup>*\<^sup>* p q \<Longrightarrow> told p \<Longrightarrow> told q"
  using trace_grows_star unfolding trace_grows_def told_def by blast

lemma reaches_told:
  assumes "reaches m p Q" "moves trace_grows m" "told p"
  shows "reaches m p (\<lambda>x q. Q x q \<and> told q)"
  using assms told_grows unfolding reaches_def moves_def by (metis snd_conv)

lemma gate_reaches:
  assumes a: "replies L a (\<lambda>yes. yes)" and p: "settled_at L P k p" and m: "\<And>q. settled_at L P k q \<Longrightarrow> reaches m q Q"
  shows "reaches (andThen (connector_op a) (\<lambda>yes. if yes then m else n)) p Q"
    and "reaches (andThen (connector_op a) (\<lambda>yes. if \<not> yes then n else m)) p Q"
  by (rule reaches_then [OF connector_reaches [OF a p]]; simp add: m)+

lemma mark_reaches:
  assumes s: "services_answer L P" and p: "settled_at L P k p"
  shows "reaches (markPushConnected P) p (\<lambda>_ q. settled_at L P k q \<and> told q)"
proof -
  note s' = service_answers [OF s]
  have sent: "reaches (sendLiveConnectionState P) q (\<lambda>_ q. settled_at L P k q \<and> told q)"
    if q: "settled_at L P k q" "pw_push_down q = None" for q
  proof -
    have "reaches (sendGenerationState P Connected) q (\<lambda>_ q. settled_at L P k q \<and> told q)"
      unfolding sendGenerationState_def sendBridgeState_def
      by (rule gate_reaches(1) [OF s'(5) q(1)], rule gate_reaches(1) [OF s'(2)])
        (simp_all add: reaches_def traced_def told_def settled_at_def live_at_def)
    then show ?thesis by (simp add: reaches_def sendLiveConnectionState_def live_state_connected [OF q])
  qed
  have down: "reaches (set_push_down None) q (\<lambda>_ q. settled_at L P k q \<and> pw_push_down q = None)" if "settled_at L P k q" for q
    using that by (simp add: reaches_def set_push_down_def settled_at_def live_at_def)
  have noted: "reaches (traced InboundStarted) q (\<lambda>_ q. settled_at L P k q \<and> told q)" if "settled_at L P k q" "told q" for q
    using that by (simp add: reaches_def traced_def told_def settled_at_def live_at_def)
  show ?thesis
    unfolding markPushConnected_def reporting_def
    by (rule gate_reaches(2) [OF s'(5) p], rule gate_reaches(1) [OF s'(6)], assumption, rule reaches_then [OF down], assumption,
        elim conjE, rule reaches_then [OF sent], assumption, assumption, elim conjE, rule noted)
qed

lemma promote_reaches:
  assumes s: "services_answer L P" and p: "settled_at L P (Some k) p" and k: "offered True r k"
  shows "reaches (promotePendingPushRegistration P r) p (\<lambda>_ q. connected_with L P r q)"
proof -
  have keys: "map_option (promote_keys r) (Some k) = Some (promote_keys r k)" by simp
  have pending: "pk_Pending k = Some r" using k by (simp add: offered_def check_target_def)
  have run: "reaches (pseq (put_keys (Some (promote_keys r k))) (push_wrapping msg (saved_or_undone P undo))) q
      (\<lambda>_ q. connected_with L P r q)" if "settled_at L P (Some k) q" for q msg undo
    by (rule reaches_weaken [OF put_saved_reaches(2) [OF s that]])
      (use k pending in \<open>auto simp: connected_with_def promote_keys_def offered_def complete_keys_def intro!: exI [of _ "promote_keys r k"]\<close>)
  show ?thesis
    unfolding promotePendingPushRegistration_def
    by (rule reaches_then [OF reads_reach(2) [OF p]], rule reaches_then [OF reads_reach(1)], assumption, elim conjE)
      (simp add: pending run)
qed

lemma clear_reaches:
  assumes s: "services_answer L P" and p: "connected_with L P r p"
  shows "reaches (clearPushPersistentIDs P (pr_Token r)) p (\<lambda>_ q. connected_with L P r q)"
proof -
  obtain k a where k: "settled_at L P (Some k) p" "complete_keys (Some k)" "pk_Active k = Some a" "pk_Pending k = None"
    "usable (Some a)" "samePushRegistration (Some a) (Some r)"
    using p by (auto simp: connected_with_def)
  have slot: "pushRegistrationByToken k (pr_Token r) = Some ActiveSlot"
    using k(3,6) by (simp add: pushRegistrationByToken_def has_token_def)
  have ids: "stored_ids k (pr_Token r) = Some (pr_PersistentIDs a)" by (simp add: stored_ids_def slot k(3))
  have again: "connected_with L P r q" if "settled_at L P (Some (set_ids (pr_Token r) f k)) q" for q f
    using that k(2-6) unfolding connected_with_def
    by (intro exI [of _ "set_ids (pr_Token r) f k"] exI [of _ "a\<lparr>pr_PersistentIDs := f (pr_PersistentIDs a)\<rparr>"])
      (simp add: set_ids_def slot complete_keys_def usable_iff)
  have keep: "connected_with L P r q" if "settled_at L P (Some k) q" for q
    using that k(2-6) unfolding connected_with_def by blast
  have run: "reaches (pseq (put_keys (Some (set_ids (pr_Token r) f k))) (saved_or_undone P undo)) q
      (\<lambda>_ q. connected_with L P r q)" if "settled_at L P (Some k) q" for q f undo
    by (rule reaches_weaken [OF put_saved_reaches(1) [OF s that] again])
  show ?thesis
    unfolding clearPushPersistentIDs_def
    by (rule reaches_then [OF reads_reach(2) [OF k(1)]], rule reaches_then [OF reads_reach(1)], assumption, elim conjE)
      (simp add: ids run keep)
qed

lemma clear_grows: "moves trace_grows (clearPushPersistentIDs P token)"
  unfolding clearPushPersistentIDs_def saved_or_undone_def by (intro moves_intros)

lemma connected_reaches:
  assumes s: "services_answer L P" and p: "settled_at L P (Some k) p" and k: "offered pending r k"
  shows "reaches (on_connected P r pending) p (\<lambda>st q. st = Inr (r, False) \<and> connected_with L P r q \<and> told q)"
proof -
  have active: "connected_with L P r p" if "\<not> pending"
    using that p k unfolding connected_with_def offered_def check_target_def by auto
  have promoted: "reaches (if pending then promotePendingPushRegistration P r else ret ()) p (\<lambda>_ q. connected_with L P r q)"
    using promote_reaches [OF s p] k active by (cases pending) auto
  have marked: "reaches (markPushConnected P) q (\<lambda>_ q. connected_with L P r q \<and> told q)" if q: "connected_with L P r q" for q
  proof -
    obtain k a where k: "settled_at L P (Some k) q" "complete_keys (Some k)" "pk_Active k = Some a" "pk_Pending k = None"
      "usable (Some a)" "samePushRegistration (Some a) (Some r)"
      using q by (auto simp: connected_with_def)
    show ?thesis
      by (rule reaches_weaken [OF mark_reaches [OF s k(1)]]) (use k(2-6) in \<open>auto simp: connected_with_def\<close>)
  qed
  have cleared: "reaches (ignoring (clearPushPersistentIDs P (pr_Token r))) q (\<lambda>_ q. connected_with L P r q \<and> told q)"
    if "connected_with L P r q" "told q" for q
    unfolding ignoring_def
    by (rule reaches_trying [OF reaches_told [OF clear_reaches [OF s that(1)] clear_grows that(2)]]) simp
  have started: "reaches (startRetiringRegistrationCleanup P) q (\<lambda>_ q. connected_with L P r q \<and> told q)"
    if q: "connected_with L P r q" "told q" for q
  proof -
    obtain k a where k: "settled_at L P (Some k) q" "complete_keys (Some k)" "pk_Active k = Some a" "pk_Pending k = None"
      "usable (Some a)" "samePushRegistration (Some a) (Some r)"
      using q by (auto simp: connected_with_def)
    have current: "reaches (connector_op (foreign (p_current P))) q (\<lambda>x q. (x \<and> settled_at L P (Some k) q) \<and> told q)"
      by (rule reaches_told [OF connector_reaches [OF service_answers(5) [OF s] k(1)] basic_grows(1) q(2)])
    show ?thesis
      unfolding startRetiringRegistrationCleanup_def
      by (rule reaches_then [OF current])
        (use k(2-6) in \<open>auto simp: reaches_def traced_def connected_with_def told_def settled_at_def live_at_def\<close>)
  qed
  show ?thesis
    unfolding on_connected_def
    by (rule reaches_trying [OF promoted], simp, rule reaches_then [OF marked], assumption, elim conjE,
        rule reaches_then [OF cleared], assumption, assumption, elim conjE, rule reaches_then [OF started], assumption, assumption, simp)
qed

section \<open>A round\<close>

lemma round_reaches:
  assumes s: "services_answer L P" and p: "settled_at L P k p" and k: "sound_login k"
  shows "reaches (pushSupervisor_round P C [ReceiverConnected] sv) p
    (\<lambda>st q. \<exists>sv' r. st = Listening sv' r False \<and> connected_with L P r q \<and> told q)" (is "reaches _ p ?Q")
proof -
  have receiving: "reaches (andThen (runPushReceiver P C [ReceiverConnected] pr) (after_receiver sv')) q ?Q"
    if q: "settled_at L P (Some k') q" and o: "offered (pp_pending pr) (pp_registration pr) k'" for q k' pr sv'
  proof -
    obtain creds where creds: "credentials (pp_registration pr) = Inr (Some creds)" using o by (auto simp: offered_def usable_iff)
    have run: "reaches (runPushReceiver P C [ReceiverConnected] pr) q
        (\<lambda>st q. st = Inr (pp_registration pr, False) \<and> connected_with L P (pp_registration pr) q \<and> told q)"
      unfolding runPushReceiver_def creds
      by (simp add: receive_def) (rule reaches_then [OF connected_reaches [OF s q o]], simp)
    show ?thesis
      by (rule reaches_then [OF run]) (simp add: after_receiver_def)
  qed
  have prepared: "reaches (andThen (preparePushRegistration P f v) (supervise_prepared P C [ReceiverConnected] sv)) q ?Q"
    if q: "settled_at L P k q" for f v q
    by (rule reaches_then [OF prepare_reaches [OF s q k]])
      (auto simp: prepared_with_def supervise_prepared_def Let_def receiving)
  show ?thesis
    unfolding pushSupervisor_round_def
    by (rule reaches_then [OF connector_reaches [OF service_answers(1) [OF s] p]], simp,
        rule reaches_then [OF connector_reaches [OF service_answers(5) [OF s]]], simp, simp add: prepared)
qed

end
