(* ===== verification/PushProperties.thy ===== *)
theory PushProperties
  imports PushLiveness InboundSamples CookieProperties
begin

text \<open>
  Properties of the push component, and a login and services on which they are instantiated.
\<close>

section \<open>A login and services\<close>

definition sample_login :: user_login_metadata where
  "sample_login =
     \<lparr>um_SessionCookies = [''sid'' \<mapsto> ''x''], um_APIToken = [], um_CSRFToken = [], um_APIVersion = [], um_UserAgent = [],
      um_UserName = [], um_SelectedBlogName = ''name'', um_SelectedBlogUUID = ''s'', um_PushKeys = None\<rparr>"

definition sample_registration :: push_registration where
  "sample_registration =
     \<lparr>pr_Token = ''endpoint'', pr_FCMAppID = ''app'', pr_AndroidID = ''1'', pr_SecurityToken = ''2'', pr_LastCheckinTS = 1,
      pr_FCMRegisteredTS = 1, pr_PersistentIDs = []\<rparr>"

definition sample_keys :: push_keys where
  "sample_keys =
     \<lparr>pk_Active = Some sample_registration, pk_Pending = None, pk_Retiring = [], pk_P256DH = ''public'',
      pk_Auth = replicate 16 (CHR ''a''), pk_Private = ''private''\<rparr>"

definition sample_push :: push_env where
  "sample_push =
     \<lparr>p_env = inbound_world_env, p_inbound = sample_inbound answering_http, p_http = answering_http,
      p_checkin = (\<lambda>_. accept \<lparr>gc_AndroidID = 1, gc_SecurityToken = 2\<rparr>),
      p_register = (\<lambda>_ _. accept (Some \<lparr>fc_Token = ''token'', fc_AppID = ''app'', fc_GCM = \<lparr>gc_AndroidID = 1, gc_SecurityToken = 2\<rparr>\<rparr>)),
      p_new_pair = accept (''public'', ''private''), p_new_auth = accept (replicate 16 (CHR ''a'')),
      p_update_login = (\<lambda>_. accept ()), p_unauthorized = (\<lambda>_. False), p_clock = (\<lambda>n. 5000000000 + int n * second),
      p_current = accept True, p_logged_flag = accept True\<rparr>"

definition sample_codec :: push_codec where
  "sample_codec =
     \<lparr>c_envelope = (\<lambda>_. None), c_marshal = pe_Data, c_json_string = (\<lambda>s. Inr s), c_json = (\<lambda>s. Inr (JString s)),
      c_private_key = (\<lambda>_. None), c_decrypt = (\<lambda>_ _ _ _ _ s. Inr s)\<rparr>"

definition sample_push_world :: "push_keys option \<Rightarrow> push_world" where
  "sample_push_world k =
     \<lparr>pw_world = sample_world [] [], pw_meta = sample_login\<lparr>um_PushKeys := k\<rparr>, pw_saved = sample_login\<lparr>um_PushKeys := k\<rparr>,
      pw_forbidden = False, pw_unavailable = False, pw_push_down = None, pw_trace = []\<rparr>"

lemma sample_after_epoch: "after_epoch sample_push"
  by (simp add: after_epoch_def sample_push_def unix_milli_def)

lemma trimmed_samples:
  "trim_space ''name'' = ''name''" "trim_space ''s'' = ''s''" "trim_space ''x'' = ''x''" "trim_space ''api'' = ''api''"
  "trim_space ''sid'' = ''sid''" "trim_space ''1'' = ''1''" "trim_space ''2'' = ''2''"
  by (rule trim_space_visible; simp add: visible_def)+

lemma trimmed_Nil: "trim_space [] = []"
  by (simp add: trim_space_def)

lemma sample_blog: "NormalizeBlogName answering_http ''name'' = ''api''"
proof -
  have url: "parseBlogURL answering_http ''name'' = Some sample_url"
    by (simp add: parseBlogURL_def answering_http_def sample_http_def sample_url_def)
  have host: "trim_prefix ''www.'' (to_lower (u_Hostname sample_url)) = ''tumblr.com''" by code_simp
  have path: "\<not> hasEscapedPathSeparator sample_url" "blogNameFromTumblrPath (u_Path sample_url) = ''api''" by code_simp+
  have "trim_suffix ''.tumblr.com'' (trim_prefix ''www.'' (to_lower ''api'')) = ''api''" by code_simp
  then have "cleanBlogName ''api'' = ''api''"
    by (simp add: cleanBlogName_def trimmed_samples contains_char_def containsSpaceOrControl_def rune_list_def
        is_space_rune_def is_control_rune_def)
  moreover have "trim_prefix ''@'' ''name'' = ''name''" by code_simp
  ultimately show ?thesis
    by (simp only: NormalizeBlogName_def Let_def trimmed_samples url host path option.case if_True if_False) (simp add: sample_url_def)
qed

lemma sample_cookies: "HasSessionCookies [''sid'' \<mapsto> ''x'']"
proof -
  have "validCookieMapPair ''sid'' ''x''"
    by (simp add: validCookieMapPair_def trimmed_samples contains_char_def containsSpaceOrControl_def
        containsHTTPHeaderControl_def rune_list_def is_space_rune_def is_control_rune_def)
  moreover have "\<not> validCookieMapPair n []" for n by (simp add: validCookieMapPair_def trimmed_Nil Let_def)
  ultimately show ?thesis
    by (simp add: HasSessionCookies_def NormalizeSessionCookies_def sessionCookieNames_def entry_def trimmed_samples trimmed_Nil)
qed

lemma sample_remote_id: "validRemoteID ''s''"
  by (simp add: validRemoteID_def blank_def trimmed_samples rune_list_def containsMetadataSpaceOrControl_def maxRemoteIDRunes_def
      is_space_rune_def is_control_rune_def)

lemma sample_credentials: "credentials sample_registration = Inr (Some \<lparr>gc_AndroidID = 1, gc_SecurityToken = 2\<rparr>)"
  by (simp add: credentials_def sample_registration_def blank_def trimmed_samples parse_uint_def)
lemma sample_valid: "\<not> isl (validateUserLoginMetadata answering_http (sample_login\<lparr>um_PushKeys := k\<rparr>))"
  by (simp add: validateUserLoginMetadata_def normalizedUserLoginMetadata_def Let_def sample_login_def trimmed_samples trimmed_Nil
      sample_blog sample_cookies sample_remote_id)

definition sample_live :: "world \<Rightarrow> bool" where
  "sample_live w \<longleftrightarrow> w_context w = (\<lambda>_. None) \<and> w_client w = sample_client"

lemma posted_once:
  assumes "w_client w = sample_client"
  shows "do_request answering_http ''POST'' path q body (Discard ()) w = (Inr (), w\<lparr>w_tick := Suc (w_tick w)\<rparr>)"
proof -
  have client: "andThen the_client f v = f (w_client v) v" for f :: "http_client \<Rightarrow> 'x act" and v
    by (simp add: andThen_def the_client_def)
  have "read_answer answering_http (Discard ()) (sample_answer 200 ''ok'') = Inr ()"
    by (simp add: read_answer_def sample_answer_def limited_body_def answering_http_def successful_def decode_response_def
        empty_envelope_def maxAPIResponseBytes_def)
  moreover have "doOnce answering_http ''POST'' path q body (Discard ()) w =
      (read_answer answering_http (Discard ()) (sample_answer 200 ''ok''), w\<lparr>w_tick := Suc (w_tick w)\<rparr>)"
    by (rule answered_once [where u = sample_url]) (simp_all add: answering_http_def sample_http_def sample_answer_def)
  ultimately have once: "doOnce answering_http ''POST'' path q body (Discard ()) w = (Inr (), w\<lparr>w_tick := Suc (w_tick w)\<rparr>)" by simp
  have "do_loop answering_http ''POST'' path q body (Discard ()) False ds w = (Inr (), w\<lparr>w_tick := Suc (w_tick w)\<rparr>)" for ds
    by (subst do_loop.simps) (simp add: client attempt_apply once ret_def)
  then show ?thesis
    by (simp add: do_request_def client needsBootstrap_def assms sample_client_def seq_ret)
qed

lemma accept_answers: "V x \<Longrightarrow> replies sample_live (foreign (accept x)) V"
  by (simp add: replies_def foreign_def accept_def sample_live_def)

lemma sample_services: "services_answer sample_live sample_push"
  unfolding services_answer_def
proof (intro conjI allI impI)
  show "replies sample_live ctx_err (\<lambda>e. e = None)"
    by (simp add: replies_def ctx_err_def sample_live_def)
  show "replies sample_live (RegisterWebPushDevice (p_http sample_push) r) (\<lambda>_. True)" for r
    by (simp add: replies_def RegisterWebPushDevice_def sample_push_def posted_once sample_live_def)
  show "replies sample_live (inbound_logged_in (p_inbound sample_push)) (\<lambda>_. True)"
    by (simp add: replies_def inbound_logged_in_def andThen_def foreign_def accept_def sample_push_def sample_inbound_def
        ret_def sample_live_def)
  show "after_epoch sample_push" by (rule sample_after_epoch)
qed (auto simp: sample_push_def inbound_world_env_def sample_env_def incomplete_fcm_def sample_live_def intro!: accept_answers)

lemma sample_sound: "complete_keys (Some sample_keys)" "sound_login (Some sample_keys)"
  by (simp_all add: complete_keys_def sample_keys_def sound_login_def sound_registrations_def sample_credentials)

section \<open>Endpoints\<close>




text \<open>The other side: a pending endpoint whose registration with the service could not be saved carries
  no registration time, so the next forced rotation drops it without unregistering it, although the
  service has accepted it.\<close>

lemma unacknowledged_endpoint_dropped:
  assumes "pk_Pending k = Some r" "pr_FCMRegisteredTS r = 0" "pr_Token c \<noteq> pr_Token r" "pr_Token r \<notin> recorded (Some k)"
  shows "mark_pending r 0 (mark_pending r ts (Some k)) = Some k"
    and "pk_Active (stage_keys c k) \<noteq> Some x \<or> pr_Token x \<noteq> pr_Token r"
    and "pk_Pending (stage_keys c k) \<noteq> Some x \<or> pr_Token x \<noteq> pr_Token r"
    and "Some x \<notin> set (pk_Retiring (stage_keys c k)) \<or> pr_Token x \<noteq> pr_Token r"
  using assms by (auto simp: mark_pending_def stage_keys_def recorded_cases)

text \<open>C8: the receiver comes up. Let the login be valid and saved, with no push keys, with keys and
  no registration, or with any registration the code has stored, pending or active, due or not. When
  Google, the remote service and the database answer, one round of the supervisor ends with a
  listening receiver: its registration is the active one, usable, saved, with nothing left pending, and the
  user has been told that the bridge is connected.\<close>

theorem receiver_comes_up:
  assumes "services_answer L P" "L (pw_world p)" "\<not> isl (validateUserLoginMetadata (p_http P) (pw_meta p))"
    and "pw_saved p = clone_metadata (pw_meta p)" "\<not> pw_forbidden p" "\<not> pw_unavailable p"
    and "sound_login (um_PushKeys (pw_meta p))"
  shows "\<exists>sv' r a k q. pushSupervisor_round P C [ReceiverConnected] sv p = (Inr (Listening sv' r False), q) \<and>
    um_PushKeys (pw_meta q) = Some k \<and> pk_Active k = Some a \<and> pk_Pending k = None \<and>
    samePushRegistration (Some a) (Some r) \<and> usable (Some a) \<and>
    pw_saved q = clone_metadata (pw_meta q) \<and> StateSent Connected \<in> set (pw_trace q)"
proof -
  have "settled_at L P (um_PushKeys (pw_meta p)) p"
    using assms(2-6) by (simp add: settled_at_def live_at_def valid_login_def)
  from round_reaches [OF assms(1) this assms(7), of C sv] show ?thesis
    unfolding reaches_def connected_with_def told_def settled_at_def live_at_def by blast
qed

theorem receiver_comes_up_witness:
  "\<exists>sv' r a k q. pushSupervisor_round sample_push sample_codec [ReceiverConnected] initial_supervisor (sample_push_world None) =
      (Inr (Listening sv' r False), q) \<and>
    um_PushKeys (pw_meta q) = Some k \<and> pk_Active k = Some a \<and> pk_Pending k = None \<and>
    samePushRegistration (Some a) (Some r) \<and> usable (Some a) \<and>
    pw_saved q = clone_metadata (pw_meta q) \<and> StateSent Connected \<in> set (pw_trace q)"
proof (rule receiver_comes_up [OF sample_services])
  show "\<not> isl (validateUserLoginMetadata (p_http sample_push) (pw_meta (sample_push_world None)))"
    using sample_valid by (simp add: sample_push_def sample_push_world_def)
qed (simp_all add: sample_push_world_def sample_live_def sample_world_def clone_metadata_def sound_login_def sample_login_def)

end
