(* ===== verification/Spec2Isabelle.thy ===== *)
theory Spec2Isabelle
  imports OutboundProperties JobProperties MatchingProperties TumblrErrors RecoveryProperties ReconcileProperties
    SendingProperties InboundProperties HistoryScan ImageGrammar CookieProperties PushProperties
begin

text \<open>
  Verification of tumblr-dms, a bridge between Tumblr direct messages and Matrix rooms.

  The program. A Matrix message enters through pkg/connector/client.go, becomes a durable row
  of the table \<open>tumblr_outbound_send\<close> (pkg/connector/tumblrdb/outbound.go, schema.sql), is
  posted to the remote service once (pkg/tumblr/client.go), and is later recognised among the
  messages of the fetched conversation (pkg/connector/outbound.go). The remote service has no
  idempotency key, so a crash or a lost answer leaves a send whose outcome is unknown; the
  recovery worker then waits for its echo, and in the end reports the message as unconfirmed.
  Inbound work is a second durable queue (tumblrdb/job.go) with a scan watermark
  (tumblrdb/syncstate.go) and the completed heads of conversations
  (tumblrdb/conversation_sync.go); its worker (connector/inbound_sync.go) fetches a conversation,
  hands its messages to the framework and moves the head (connector/sync.go). Push messages
  (connector/push.go) only put conversations into that queue; the push component itself keeps an
  endpoint registered with the remote service, replaces it and retires what it replaced.

  The theories, in the order they build on one another.

  \<^item> Prelude: Go times and byte strings, the operation type \<open>oper\<close> of code that may fail after
    changing the state, its bind and \<open>andThen\<close>, preservation (\<open>moves\<close>), labelled runs, and
    the interface \<open>once_guard\<close> of resources that are used up once. Runes: UTF-8 decoding as Go's
    range loop does it, and the identifiers of the remote service.
  \<^item> OutboundSend, Database: the Go struct and its row, Scan and sqlVariables, the state machine
    of a send, the tables and the constraints of schema.sql, statements and their failures.
  \<^item> OutboundTables, OutboundStore: one definition per query constant of outbound.go and one per
    method of \<open>OutboundSendQuery\<close>.
  \<^item> OutboundSteps, OutboundInvariant, OutboundRefinement, OutboundLifecycle, OutboundCalls: the
    step relation of the store (one rule per write statement or terminal transaction, one for
    the rest of the program), its invariant, the refinement of the steps by the methods, the
    life of one row, and arbitrary sequences of method calls with a log.
  \<^item> OutboundSamples, OutboundProperties, OutboundContracts, OutboundDelivery: concrete
    databases and the properties of the store (C1 to C7, C9 to C15).
  \<^item> JobStore, JobProperties: the job queue, the watermark and the conversation heads, with the
    interface \<open>revisioned_cell\<close> (C16, C18).
  \<^item> Matching, MatchingProperties: the maximum matching of sends and messages, and the edges
    every maximum matching contains (C19, C20).
  \<^item> TumblrErrors: errors as trees, errors.As and errors.Is, every classification of
    pkg/tumblr/errors.go and pkg/connector/errors.go (C21, C22).
  \<^item> Remote, Connector: the data of the remote service and the vocabulary of HTTP; the world of
    the connector's code (database, registrations of pending messages, the send at hand, the
    HTTP client's credentials, caches, effects in order) and the environment of foreign operations.
  \<^item> OutboundWorker, OutboundBinding, OutboundRecovery, OutboundRecoveryMoves, QuietMoves, Backoff,
    RecoveryProperties: status delivery, binding of a send to its conversation, the recovery
    worker, its delays and its guarantees, with the interface \<open>quiet_relation\<close> of properties kept
    by operations that do not write a table (C23 to C26).
  \<^item> OutboundReconcile, ReconcileProperties: the candidate graph of pending sends and fetched
    messages, its blocked components, forced claims, and the messages passed on (C27, C28).
  \<^item> TumblrClient, TumblrRequests, SendTrace, ClientProperties: the HTTP client: loading
    credentials from pages, requests with their retries and refreshes, the eight ways of
    sending a message, identifiers and file names; the trace of POSTs, with the interface
    \<open>message_sender\<close> (C29 to C31), and signing in (pkg/tumblr/login.go).
  \<^item> ImageFiles, ImageProperties, ImageGrammar: the parsers that look for metadata in JPEG, PNG,
    WebP and EXIF data before two images are compared (pkg/tumblr/media.go), with every index
    and slice that could panic, and a grammar of PNG files (C32, C33).
  \<^item> OutboundSending, SendingMoves, SendingInvariant, SendingProperties: from a Matrix message to
    the POST and its durable outcome (connector/client.go, portal.go, media.go), crashes
    included (C34, C35).
  \<^item> Conversations, InboundSync, ConversationDelete, InboundJobs: titles, members and pages of a
    conversation; its synchronisation; the deletion of rooms; the inbound worker.
    InboundMoves, InboundTrace, InboundSamples, InboundProperties, HistoryScan: what they keep
    (interfaces \<open>inbound_relation\<close>, \<open>removing_relation\<close>), concrete services, and the guarantees for
    messages, rooms, jobs and scans (C37 to C40).
  \<^item> SessionCookies, CookieProperties: which cookies a login keeps, how they are written into a
    header and read from what a user pastes (pkg/tumblr/session.go, client.go) (C36).
  \<^item> PushKeys, PushRegistrations, PushReceiver: the metadata of a login, base64 and push keys
    (connector/dbmeta.go); saving it (client.go); staging, registering, checking in, promoting and
    retiring push endpoints; payloads, the receiver's event loop, the supervisor
    (connector/push.go, tumblr/push.go) and the state reported to the user.
    PushMoves, PushEndpoints, PushSystem: what each operation keeps of the endpoints on record, and
    calls in any order, crashes included; PushLiveness: operations that succeed when the services
    answer; PushProperties: a login and services, and the two properties (C17, C8).

  What the groups of lemmas show. The table \<open>tumblr_outbound_send\<close> changes only by the steps of
  \<open>outbound_step\<close>, whatever the framework, other workers and failing statements do; every method
  and every operation of the recovery worker and of sending is shown to refine them. Submissions
  and notifications of a Matrix event therefore happen at most once. The contracts say what each
  method does on each branch, with atomicity of the terminal transactions. Matching is proved
  against the definition of a maximum matching, reconciliation against reachability in the
  candidate graph, the PNG check against a grammar, the scan of a history against the list of all
  its pages. Preservation lemmas (\<open>moves\<close>, \<open>calm\<close>, \<open>keeping\<close>) are composed by the collections
  \<open>moves_intros\<close> and \<open>calm_intros\<close>, one rule per construct of the code. Interfaces are locales
  (\<open>once_guard\<close>, \<open>revisioned_cell\<close>, \<open>capped_doubling\<close>, \<open>quiet_relation\<close>, \<open>inbound_relation\<close>,
  \<open>removing_relation\<close>, \<open>message_sender\<close>), each interpreted on the definitions of the code.

  Bounds. The mutual recursion of \<open>deferOutboundRecovery\<close> and \<open>finishOutboundUnconfirmed\<close> is
  defined with fuel 2, and C26 shows that more fuel changes nothing. One pass of the worker
  handles at most 100 sends, a search of a conversation reads at most 5 pages, a walk over
  conversations or messages at most 1000, an insertion retries once, FCM is asked five times:
  these bounds are those of the code. Loops without a bound in the code end because a round that
  goes on adds a send, consumes a delay or shortens what is left to parse. The supervisor of the
  push receiver and its event loop run for as long as events are given to them. Times are
  nanoseconds as integers, stored as milliseconds; offsets and credentials that may wrap are
  words; identifiers, bodies and digests are byte strings.

  Parameters. The Matrix framework (bridgev2, mautrix), the transport of HTTP, the URL, JSON,
  image and cryptography libraries, SHA-256, the visual hash of an image, FCM's check-in and
  registration, full Unicode case folding and the clock are arguments of the definitions.
  Theorems that rely on documented behaviour of one of them say so in a hypothesis: the framework
  writes its own tables only (\<open>foreign_env\<close>, \<open>foreign_send\<close>, \<open>foreign_inbound\<close>), SHA-256 does not
  collide on the values compared (C24), the clock is after 1970 (C17), the services answer (C8).

  Not modelled. Goroutines, timers and locks: an operation runs alone, and interleavings are
  those of the step relations and of the sequences of calls. The ownership of a client and its
  connection (connector/lifecycle.go), whose answers (owned, current, logged in) come from
  outside; the dialogue of signing in (connector/login.go); JSON encodings (pkg/tumblr/models.go);
  the transfer and comparison of pixels (connector/media.go, the rest of pkg/tumblr/media.go);
  message formatting (msgconv) and backfill on request of the framework (backfill.go); the
  configuration, capabilities, logging and start-up code; the file lock of portal moves
  (tumblrdb/portal_reid_lock.go) and the protocol of the push connection (internal/pushreceiver).
\<close>

end
